(* ===== verification/Prelude.thy ===== *)
theory Prelude
  imports Main "HOL-Library.Word"
begin

text \<open>
  Shared vocabulary of the development: Go values that every component uses (byte strings and
  the parts of the \<^verbatim>\<open>strings\<close> and \<^verbatim>\<open>strconv\<close> packages the sources call, 64-bit durations, the
  \<^verbatim>\<open>error\<close> interface as a sum), the result of a reconcile call, the development's fact
  collections and the generic lemmas the component theories share.
\<close>

named_theorems go_simps \<open>defining equations of the Go standard-library functions\<close>
named_theorems mig_defs \<open>definitions of the migration controller's helpers\<close>
named_theorems frame_simps \<open>which parts of the state an operation leaves alone\<close>

section \<open>Byte strings\<close>

text \<open>
  A Go string is a byte sequence, a HOL \<open>string\<close> a list of 8-bit characters.
  \<open>unicode_space\<close> lists the UTF-8 encodings of the runes \<^verbatim>\<open>unicode.IsSpace\<close> accepts; no
  encoding is a prefix or a suffix of another, so trimming runes is trimming these byte sequences.
\<close>

definition unicode_space :: "string list" where
  "unicode_space =
     map (\<lambda>b. [char_of b]) [0x09, 0x0A, 0x0B, 0x0C, 0x0D, 0x20 :: nat] @
     map (map char_of)
       ([[0xC2, 0x85], [0xC2, 0xA0], [0xE1, 0x9A, 0x80], [0xE2, 0x80, 0xA8], [0xE2, 0x80, 0xA9],
         [0xE2, 0x80, 0xAF], [0xE2, 0x81, 0x9F], [0xE3, 0x80, 0x80]] @
        map (\<lambda>b. [0xE2, 0x80, b]) [0x80, 0x81, 0x82, 0x83, 0x84, 0x85, 0x86, 0x87, 0x88, 0x89, 0x8A :: nat])"

definition starts_with :: "string \<Rightarrow> string \<Rightarrow> bool" where
  "starts_with p s \<longleftrightarrow> take (length p) s = p"

fun strip_left :: "string list \<Rightarrow> nat \<Rightarrow> string \<Rightarrow> string" where
  "strip_left ps 0 s = s"
| "strip_left ps (Suc n) s =
     (case find (\<lambda>p. p \<noteq> [] \<and> starts_with p s) ps of
        None \<Rightarrow> s
      | Some p \<Rightarrow> strip_left ps n (drop (length p) s))"

definition trim_left_space :: "string \<Rightarrow> string" where
  "trim_left_space s = strip_left unicode_space (length s) s"

definition trim_right_space :: "string \<Rightarrow> string" where
  "trim_right_space s = rev (strip_left (map rev unicode_space) (length s) (rev s))"

text \<open>\<^verbatim>\<open>strings.TrimSpace\<close>.\<close>

definition trim_space :: "string \<Rightarrow> string" where
  "trim_space s = trim_right_space (trim_left_space s)"

text \<open>The encodings written out, for evaluation.\<close>

lemma unicode_space_code [code]:
  "unicode_space =
     [[CHR 0x09], [CHR 0x0A], [CHR 0x0B], [CHR 0x0C], [CHR 0x0D], [CHR 0x20], [CHR 0xC2, CHR 0x85], [CHR 0xC2, CHR 0xA0],
      [CHR 0xE1, CHR 0x9A, CHR 0x80], [CHR 0xE2, CHR 0x80, CHR 0xA8], [CHR 0xE2, CHR 0x80, CHR 0xA9],
      [CHR 0xE2, CHR 0x80, CHR 0xAF], [CHR 0xE2, CHR 0x81, CHR 0x9F], [CHR 0xE3, CHR 0x80, CHR 0x80],
      [CHR 0xE2, CHR 0x80, CHR 0x80], [CHR 0xE2, CHR 0x80, CHR 0x81], [CHR 0xE2, CHR 0x80, CHR 0x82],
      [CHR 0xE2, CHR 0x80, CHR 0x83], [CHR 0xE2, CHR 0x80, CHR 0x84], [CHR 0xE2, CHR 0x80, CHR 0x85],
      [CHR 0xE2, CHR 0x80, CHR 0x86], [CHR 0xE2, CHR 0x80, CHR 0x87], [CHR 0xE2, CHR 0x80, CHR 0x88],
      [CHR 0xE2, CHR 0x80, CHR 0x89], [CHR 0xE2, CHR 0x80, CHR 0x8A]]"
  by (simp add: unicode_space_def char_of_def bit_0)

text \<open>\<^verbatim>\<open>strings.Trim(s, cutset)\<close> for an ASCII cutset.\<close>

definition trim_set :: "string \<Rightarrow> string \<Rightarrow> string" where
  "trim_set cs s = rev (dropWhile (\<lambda>c. c \<in> set cs) (rev (dropWhile (\<lambda>c. c \<in> set cs) s)))"

text \<open>\<^verbatim>\<open>strings.TrimPrefix\<close>, \<^verbatim>\<open>strings.Contains\<close>, \<^verbatim>\<open>strings.Split\<close> on one byte.\<close>

definition trim_prefix :: "string \<Rightarrow> string \<Rightarrow> string" where
  "trim_prefix p s = (if starts_with p s then drop (length p) s else s)"

fun contains_sub :: "string \<Rightarrow> string \<Rightarrow> bool" where
  "contains_sub p [] = (p = [])"
| "contains_sub p (c # s) = (starts_with p (c # s) \<or> contains_sub p s)"

fun split_on :: "char \<Rightarrow> string \<Rightarrow> string list" where
  "split_on d [] = [[]]"
| "split_on d (c # s) =
     (if c = d then [] # split_on d s
      else case split_on d s of [] \<Rightarrow> [[c]] | w # ws \<Rightarrow> (c # w) # ws)"

fun join_with :: "char \<Rightarrow> string list \<Rightarrow> string" where
  "join_with d [] = []"
| "join_with d [w] = w"
| "join_with d (w # ws) = w @ d # join_with d ws"

text \<open>\<^verbatim>\<open>strings.SplitN(s, sep, 2)\<close> for a one-byte separator: \<open>None\<close> when it yields one part.\<close>

definition split2 :: "char \<Rightarrow> string \<Rightarrow> (string \<times> string) option" where
  "split2 d s =
     (if d \<in> set s then Some (takeWhile (\<lambda>c. c \<noteq> d) s, tl (dropWhile (\<lambda>c. c \<noteq> d) s)) else None)"

text \<open>Decimal printing: \<^verbatim>\<open>%d\<close> and \<^verbatim>\<open>strconv.FormatInt(n, 10)\<close>.\<close>

fun show_nat :: "nat \<Rightarrow> string" where
  "show_nat n = (if n < 10 then [''0123456789'' ! n] else show_nat (n div 10) @ [''0123456789'' ! (n mod 10)])"

declare show_nat.simps [simp del]

definition show_int :: "int \<Rightarrow> string" where
  "show_int i = (if i < 0 then CHR ''-'' # show_nat (nat (- i)) else show_nat (nat i))"

section \<open>64-bit integers and durations\<close>

text \<open>
  \<^verbatim>\<open>time.Duration\<close> and \<^verbatim>\<open>int64\<close> are two's-complement 64-bit values, written as \<open>int\<close> with the
  wrap-around explicit. Times are nanoseconds.
\<close>

definition wrap64 :: "int \<Rightarrow> int" where
  "wrap64 x = (x + 2 ^ 63) mod 2 ^ 64 - 2 ^ 63"

definition wrap32 :: "int \<Rightarrow> int" where
  "wrap32 x = (x + 2 ^ 31) mod 2 ^ 32 - 2 ^ 31"

definition max_int64 :: int where "max_int64 = 2 ^ 63 - 1"
definition min_int64 :: int where "min_int64 = - (2 ^ 63)"

text \<open>\<^verbatim>\<open>time.Time.Sub\<close> saturates at the ends of the duration range.\<close>

definition time_sub :: "int \<Rightarrow> int \<Rightarrow> int" where
  "time_sub a b = max min_int64 (min max_int64 (a - b))"

abbreviation millisecond :: int where "millisecond \<equiv> 1000000"
abbreviation second :: int where "second \<equiv> 1000000000"
abbreviation minute :: int where "minute \<equiv> 60000000000"
abbreviation hour :: int where "hour \<equiv> 3600000000000"

lemma wrap64_range: "min_int64 \<le> wrap64 x" "wrap64 x \<le> max_int64"
  by (simp_all add: wrap64_def min_int64_def max_int64_def)

lemma wrap64_id: "min_int64 \<le> x \<Longrightarrow> x \<le> max_int64 \<Longrightarrow> wrap64 x = x"
  by (simp add: wrap64_def min_int64_def max_int64_def)

section \<open>Reconcile results\<close>

text \<open>\<^verbatim>\<open>ctrl.Result\<close> and the error of a reconcile call; \<open>'e\<close> is the error type.\<close>

record 'e outcome =
  requeue :: bool
  requeue_after :: int
  ret_err :: "'e option"

definition done_result :: "'e outcome" where
  "done_result = \<lparr>requeue = False, requeue_after = 0, ret_err = None\<rparr>"

definition requeue_now :: "'e outcome" where
  "requeue_now = \<lparr>requeue = True, requeue_after = 0, ret_err = None\<rparr>"

definition requeue_in :: "int \<Rightarrow> 'e outcome" where
  "requeue_in d = \<lparr>requeue = False, requeue_after = d, ret_err = None\<rparr>"

definition fail_with :: "'e \<Rightarrow> 'e outcome" where
  "fail_with e = \<lparr>requeue = False, requeue_after = 0, ret_err = Some e\<rparr>"

section \<open>Generic lemmas\<close>

lemma starts_with_append [simp]: "starts_with p (p @ s)"
  by (simp add: starts_with_def)

lemma starts_with_iff: "starts_with p s \<longleftrightarrow> (\<exists>t. s = p @ t)"
  unfolding starts_with_def by (metis append_eq_conv_conj append_take_drop_id)

lemma trim_prefix_append [simp]: "trim_prefix p (p @ s) = s"
  by (simp add: trim_prefix_def)

text \<open>Trimming leaves a string alone that starts and ends with a printable ASCII character.\<close>

definition graphic :: "char \<Rightarrow> bool" where
  "graphic c \<longleftrightarrow> (0x20 :: nat) < of_char c \<and> of_char c < (0x7f :: nat)"

lemma unicode_space_not_graphic:
  "\<forall>p \<in> set unicode_space. p \<noteq> [] \<and> \<not> graphic (hd p) \<and> \<not> graphic (last p)"
  by (simp add: unicode_space_def graphic_def)

lemma strip_left_id:
  assumes "\<forall>p \<in> set ps. p \<noteq> [] \<longrightarrow> \<not> graphic (hd p)" "s = [] \<or> graphic (hd s)"
  shows "strip_left ps n s = s"
proof (cases n)
  case (Suc m)
  have "\<not> starts_with p s" if "p \<in> set ps" "p \<noteq> []" for p
    using assms that by (auto simp: starts_with_iff neq_Nil_conv)
  then have "find (\<lambda>p. p \<noteq> [] \<and> starts_with p s) ps = None" by (auto simp: find_None_iff)
  with Suc show ?thesis by simp
qed simp

lemma trim_space_graphic:
  assumes "s = [] \<or> graphic (hd s) \<and> graphic (last s)"
  shows "trim_space s = s"
proof -
  have "trim_left_space s = s"
    unfolding trim_left_space_def
    by (rule strip_left_id) (use unicode_space_not_graphic assms in auto)
  moreover have "strip_left (map rev unicode_space) (length s) (rev s) = rev s"
    by (rule strip_left_id) (use unicode_space_not_graphic assms in \<open>auto simp: hd_rev\<close>)
  ultimately show ?thesis by (simp add: trim_space_def trim_right_space_def)
qed

lemma split_on_not_Nil [simp]: "split_on d s \<noteq> []"
  by (induction s) (auto split: list.splits)

lemma join_split_on: "join_with d (split_on d s) = s"
proof (induction s)
  case Nil
  then show ?case by simp
next
  case (Cons c s)
  obtain w ws where w: "split_on d s = w # ws"
    by (cases "split_on d s") auto
  with Cons show ?case by (cases ws) auto
qed

lemma split_on_no_sep: "w \<in> set (split_on d s) \<Longrightarrow> d \<notin> set w"
proof (induction s arbitrary: w)
  case Nil
  then show ?case by simp
next
  case (Cons c s)
  then show ?case by (auto split: if_splits list.splits)
qed

lemma set_split_on: "w \<in> set (split_on d s) \<Longrightarrow> set w \<subseteq> set s"
proof (induction s arbitrary: w)
  case Nil
  then show ?case by simp
next
  case (Cons c s)
  then show ?case by (fastforce split: if_splits list.splits)
qed

lemma split2_first: "d \<notin> set a \<Longrightarrow> split2 d (a @ d # b) = Some (a, b)"
  by (induction a) (auto simp: split2_def)

lemma split2_SomeD: "split2 d s = Some (a, b) \<Longrightarrow> s = a @ d # b \<and> d \<notin> set a"
proof (induction s arbitrary: a)
  case Nil
  then show ?case by (simp add: split2_def)
next
  case (Cons c s)
  show ?case
  proof (cases "c = d")
    case True
    with Cons.prems show ?thesis by (auto simp: split2_def)
  next
    case False
    with Cons.prems obtain a' where "a = c # a'" "split2 d s = Some (a', b)"
      by (auto simp: split2_def split: if_splits)
    with Cons.IH [of a'] False show ?thesis by simp
  qed
qed

lemma append_sep_inj:
  "(d :: char) \<notin> set a \<Longrightarrow> d \<notin> set a' \<Longrightarrow> a @ d # b = a' @ d # b' \<longleftrightarrow> a = a' \<and> b = b'"
  by (metis split2_first option.inject prod.inject)

lemma contains_sub_iff: "contains_sub p s \<longleftrightarrow> (\<exists>a b. s = a @ p @ b)"
proof (induction s)
  case Nil
  then show ?case by auto
next
  case (Cons c s)
  have "(\<exists>a b. c # s = a @ p @ b) \<longleftrightarrow> starts_with p (c # s) \<or> (\<exists>a b. s = a @ p @ b)"
  proof
    assume "\<exists>a b. c # s = a @ p @ b"
    then obtain a b where ab: "c # s = a @ p @ b" by blast
    then show "starts_with p (c # s) \<or> (\<exists>a b. s = a @ p @ b)"
      by (cases a) auto
  next
    assume "starts_with p (c # s) \<or> (\<exists>a b. s = a @ p @ b)"
    then show "\<exists>a b. c # s = a @ p @ b"
    proof
      assume "starts_with p (c # s)"
      then obtain t where "c # s = [] @ p @ t" by (auto simp: starts_with_iff)
      then show ?thesis by blast
    next
      assume "\<exists>a b. s = a @ p @ b"
      then obtain a b where "c # s = (c # a) @ p @ b" by auto
      then show ?thesis by blast
    qed
  qed
  with Cons show ?case by simp
qed

section \<open>Walking through a definition\<close>

text \<open>
  \<open>outcome_sat x Q\<close> is \<open>Q x\<close> with the program \<open>x\<close> in front, so that the rules below split it one branch at
  a time and leave one goal per return of the code, with the path to it as hypotheses.
\<close>

definition outcome_sat :: "'a \<Rightarrow> ('a \<Rightarrow> bool) \<Rightarrow> bool" where
  "outcome_sat x Q \<longleftrightarrow> Q x"

lemma outcome_satD: "outcome_sat x Q \<Longrightarrow> x = y \<Longrightarrow> Q y"
  by (simp add: outcome_sat_def)

lemma sat_if: "(b \<Longrightarrow> outcome_sat x Q) \<Longrightarrow> (\<not> b \<Longrightarrow> outcome_sat y Q) \<Longrightarrow> outcome_sat (if b then x else y) Q"
  by simp

lemma sat_sum:
  "(\<And>a. x = Inl a \<Longrightarrow> outcome_sat (f a) Q) \<Longrightarrow> (\<And>b. x = Inr b \<Longrightarrow> outcome_sat (g b) Q) \<Longrightarrow>
   outcome_sat (case x of Inl a \<Rightarrow> f a | Inr b \<Rightarrow> g b) Q"
  by (cases x) auto

lemma sat_option:
  "(x = None \<Longrightarrow> outcome_sat f Q) \<Longrightarrow> (\<And>a. x = Some a \<Longrightarrow> outcome_sat (g a) Q) \<Longrightarrow>
   outcome_sat (case x of None \<Rightarrow> f | Some a \<Rightarrow> g a) Q"
  by (cases x) auto

lemma sat_prod: "(\<And>a b. x = (a, b) \<Longrightarrow> outcome_sat (f a b) Q) \<Longrightarrow> outcome_sat (case x of (a, b) \<Rightarrow> f a b) Q"
  by (cases x) auto

lemma sat_bool:
  "(b \<Longrightarrow> outcome_sat x Q) \<Longrightarrow> (\<not> b \<Longrightarrow> outcome_sat y Q) \<Longrightarrow> outcome_sat (case b of True \<Rightarrow> x | False \<Rightarrow> y) Q"
  by (cases b) auto

lemma sat_list:
  "(x = [] \<Longrightarrow> outcome_sat f Q) \<Longrightarrow> (\<And>a as. x = a # as \<Longrightarrow> outcome_sat (g a as) Q) \<Longrightarrow>
   outcome_sat (case x of [] \<Rightarrow> f | a # as \<Rightarrow> g a as) Q"
  by (cases x) auto

lemma sat_let: "outcome_sat (f x) Q \<Longrightarrow> outcome_sat (let y = x in f y) Q"
  by simp

lemmas sat_intros = sat_if sat_sum sat_option sat_prod sat_bool sat_list sat_let

end
