(* ===== verification/ProviderErrors.thy ===== *)
theory ProviderErrors
  imports Prelude
begin

text \<open>
  The categorised provider errors of \<^verbatim>\<open>internal/providers/contracts/errors.go\<close>. Go's \<^verbatim>\<open>error\<close>
  interface is the sum \<open>go_error\<close> of the dynamic types the controllers meet: a
  \<^verbatim>\<open>*ProviderError\<close>, an API-machinery status error (only its reason and text are used), a gRPC
  status error (its code and description), a \<^verbatim>\<open>*storage.StorageError\<close>, a \<^verbatim>\<open>fmt.Errorf\<close> value that wraps another error with \<^verbatim>\<open>%w\<close>, and an opaque error with a text.
\<close>

datatype error_type =
    ErrorTypeNotFound | ErrorTypeInvalidSpec | ErrorTypeRetryable | ErrorTypeUnauthorized
  | ErrorTypeNotSupported | ErrorTypeRateLimit | ErrorTypeUnavailable | ErrorTypeTimeout
  | ErrorTypeQuotaExceeded | ErrorTypeConflict

fun error_type_string :: "error_type \<Rightarrow> string" where
  "error_type_string ErrorTypeNotFound = ''NotFound''"
| "error_type_string ErrorTypeInvalidSpec = ''InvalidSpec''"
| "error_type_string ErrorTypeRetryable = ''Retryable''"
| "error_type_string ErrorTypeUnauthorized = ''Unauthorized''"
| "error_type_string ErrorTypeNotSupported = ''NotSupported''"
| "error_type_string ErrorTypeRateLimit = ''RateLimit''"
| "error_type_string ErrorTypeUnavailable = ''Unavailable''"
| "error_type_string ErrorTypeTimeout = ''Timeout''"
| "error_type_string ErrorTypeQuotaExceeded = ''QuotaExceeded''"
| "error_type_string ErrorTypeConflict = ''Conflict''"

datatype status_reason = ReasonNotFound | ReasonConflict | ReasonAlreadyExists | ReasonOther

text \<open>gRPC status codes.\<close>

datatype grpc_code =
    CodeOK | CodeCanceled | CodeUnknown | CodeInvalidArgument | CodeDeadlineExceeded | CodeNotFound
  | CodeAlreadyExists | CodePermissionDenied | CodeResourceExhausted | CodeFailedPrecondition
  | CodeAborted | CodeOutOfRange | CodeUnimplemented | CodeInternal | CodeUnavailable
  | CodeDataLoss | CodeUnauthenticated

primrec grpc_code_string :: "grpc_code \<Rightarrow> string" where
  "grpc_code_string CodeOK = ''OK''"
| "grpc_code_string CodeCanceled = ''Canceled''"
| "grpc_code_string CodeUnknown = ''Unknown''"
| "grpc_code_string CodeInvalidArgument = ''InvalidArgument''"
| "grpc_code_string CodeDeadlineExceeded = ''DeadlineExceeded''"
| "grpc_code_string CodeNotFound = ''NotFound''"
| "grpc_code_string CodeAlreadyExists = ''AlreadyExists''"
| "grpc_code_string CodePermissionDenied = ''PermissionDenied''"
| "grpc_code_string CodeResourceExhausted = ''ResourceExhausted''"
| "grpc_code_string CodeFailedPrecondition = ''FailedPrecondition''"
| "grpc_code_string CodeAborted = ''Aborted''"
| "grpc_code_string CodeOutOfRange = ''OutOfRange''"
| "grpc_code_string CodeUnimplemented = ''Unimplemented''"
| "grpc_code_string CodeInternal = ''Internal''"
| "grpc_code_string CodeUnavailable = ''Unavailable''"
| "grpc_code_string CodeDataLoss = ''DataLoss''"
| "grpc_code_string CodeUnauthenticated = ''Unauthenticated''"

text \<open>The error categories of \<^verbatim>\<open>internal/storage/storage.go\<close>.\<close>

datatype storage_error_type =
    StorageNotFound | StoragePermissionDenied | StorageNetworkError | StorageChecksumMismatch
  | StorageInvalidConfig | StorageOperationFailed

datatype go_error =
    ProviderError (pe_type: error_type) (pe_message: string) (pe_cause: "go_error option") (pe_retryable: bool)
  | StatusError status_reason string
  | GrpcError grpc_code string
  | StorageError storage_error_type string "go_error option"
  | WrapError string go_error
  | PlainError string

type_synonym 'a result = "go_error + 'a"

section \<open>Text and classification\<close>

text \<open>
  \<^verbatim>\<open>Error()\<close>; a gRPC status error is shown with its code and description. \<open>WrapError p e\<close> is \<^verbatim>\<open>fmt.Errorf("<p>%w", e)\<close>.
\<close>

primrec error_string :: "go_error \<Rightarrow> string" where
  "error_string (ProviderError t msg c r) =
     (case map_option error_string c of
        Some ct \<Rightarrow> error_type_string t @ '': '' @ msg @ '' (caused by: '' @ ct @ '')''
      | None \<Rightarrow> error_type_string t @ '': '' @ msg)"
| "error_string (StatusError r msg) = msg"
| "error_string (GrpcError c msg) = ''rpc error: code = '' @ grpc_code_string c @ '' desc = '' @ msg"
| "error_string (StorageError t msg c) =
     (case map_option error_string c of Some ct \<Rightarrow> msg @ '': '' @ ct | None \<Rightarrow> msg)"
| "error_string (WrapError p e) = p @ error_string e"
| "error_string (PlainError msg) = msg"

fun unwrap_error :: "go_error \<Rightarrow> go_error option" where
  "unwrap_error (ProviderError t msg c r) = c"
| "unwrap_error (StorageError t msg c) = c"
| "unwrap_error (WrapError p e) = Some e"
| "unwrap_error _ = None"

text \<open>\<^verbatim>\<open>(*ProviderError).IsRetryable\<close>, on the two fields it reads.\<close>

definition provider_is_retryable :: "error_type \<Rightarrow> bool \<Rightarrow> bool" where
  "provider_is_retryable t r \<longleftrightarrow>
     r \<or> t = ErrorTypeRetryable \<or> t = ErrorTypeUnavailable \<or> t = ErrorTypeTimeout \<or> t = ErrorTypeRateLimit"

text \<open>\<^verbatim>\<open>errors.As\<close> for \<^verbatim>\<open>*ProviderError\<close>: the first one on the unwrap chain.\<close>

fun as_provider_error :: "go_error \<Rightarrow> go_error option" where
  "as_provider_error (ProviderError t msg c r) = Some (ProviderError t msg c r)"
| "as_provider_error (WrapError p e) = as_provider_error e"
| "as_provider_error (StorageError t msg (Some c)) = as_provider_error c"
| "as_provider_error _ = None"

definition is_not_found_provider :: "go_error option \<Rightarrow> bool" where
  "is_not_found_provider err \<longleftrightarrow>
     (case err of
        None \<Rightarrow> False
      | Some e \<Rightarrow> (case as_provider_error e of None \<Rightarrow> False | Some pe \<Rightarrow> pe_type pe = ErrorTypeNotFound))"

text \<open>The reason of an API error, also looked up through wrapping.\<close>

fun reason_for_error :: "go_error \<Rightarrow> status_reason option" where
  "reason_for_error (StatusError r msg) = Some r"
| "reason_for_error (WrapError p e) = reason_for_error e"
| "reason_for_error (ProviderError t msg None r) = None"
| "reason_for_error (ProviderError t msg (Some c) r) = reason_for_error c"
| "reason_for_error (GrpcError c msg) = None"
| "reason_for_error (StorageError t msg None) = None"
| "reason_for_error (StorageError t msg (Some c)) = reason_for_error c"
| "reason_for_error (PlainError msg) = None"

definition api_is_not_found :: "go_error \<Rightarrow> bool" where
  "api_is_not_found e \<longleftrightarrow> reason_for_error e = Some ReasonNotFound"

definition api_is_conflict :: "go_error \<Rightarrow> bool" where
  "api_is_conflict e \<longleftrightarrow> reason_for_error e = Some ReasonConflict"

definition api_is_already_exists :: "go_error \<Rightarrow> bool" where
  "api_is_already_exists e \<longleftrightarrow> reason_for_error e = Some ReasonAlreadyExists"

text \<open>\<^verbatim>\<open>client.IgnoreNotFound\<close>.\<close>

definition ignore_not_found :: "go_error \<Rightarrow> go_error option" where
  "ignore_not_found e = (if api_is_not_found e then None else Some e)"

section \<open>Constructors\<close>

definition new_not_found_error :: "string \<Rightarrow> go_error option \<Rightarrow> go_error" where
  "new_not_found_error msg c = ProviderError ErrorTypeNotFound msg c False"
definition new_invalid_spec_error :: "string \<Rightarrow> go_error option \<Rightarrow> go_error" where
  "new_invalid_spec_error msg c = ProviderError ErrorTypeInvalidSpec msg c False"
definition new_retryable_error :: "string \<Rightarrow> go_error option \<Rightarrow> go_error" where
  "new_retryable_error msg c = ProviderError ErrorTypeRetryable msg c True"
definition new_unauthorized_error :: "string \<Rightarrow> go_error option \<Rightarrow> go_error" where
  "new_unauthorized_error msg c = ProviderError ErrorTypeUnauthorized msg c False"
definition new_not_supported_error :: "string \<Rightarrow> go_error" where
  "new_not_supported_error msg = ProviderError ErrorTypeNotSupported msg None False"
definition new_rate_limit_error :: "string \<Rightarrow> go_error option \<Rightarrow> go_error" where
  "new_rate_limit_error msg c = ProviderError ErrorTypeRateLimit msg c True"
definition new_unavailable_error :: "string \<Rightarrow> go_error option \<Rightarrow> go_error" where
  "new_unavailable_error msg c = ProviderError ErrorTypeUnavailable msg c True"
definition new_timeout_error :: "string \<Rightarrow> go_error option \<Rightarrow> go_error" where
  "new_timeout_error msg c = ProviderError ErrorTypeTimeout msg c True"
definition new_quota_exceeded_error :: "string \<Rightarrow> go_error option \<Rightarrow> go_error" where
  "new_quota_exceeded_error msg c = ProviderError ErrorTypeQuotaExceeded msg c False"
definition new_conflict_error :: "string \<Rightarrow> go_error option \<Rightarrow> go_error" where
  "new_conflict_error msg c = ProviderError ErrorTypeConflict msg c False"

lemmas error_constructors =
  new_not_found_error_def new_invalid_spec_error_def new_retryable_error_def
  new_unauthorized_error_def new_not_supported_error_def new_rate_limit_error_def
  new_unavailable_error_def new_timeout_error_def new_quota_exceeded_error_def new_conflict_error_def

lemma as_provider_error_is_pe:
  "as_provider_error e = Some pe \<Longrightarrow> \<exists>t msg c r. pe = ProviderError t msg c r"
  by (induction e rule: as_provider_error.induct) auto

lemma is_not_found_wrap [simp]:
  "is_not_found_provider (Some (WrapError p e)) = is_not_found_provider (Some e)"
  by (simp add: is_not_found_provider_def)

lemma is_not_found_None [simp]: "\<not> is_not_found_provider None"
  by (simp add: is_not_found_provider_def)

lemma api_reason_wrap [simp]:
  "api_is_not_found (WrapError p e) = api_is_not_found e"
  "api_is_conflict (WrapError p e) = api_is_conflict e"
  "api_is_already_exists (WrapError p e) = api_is_already_exists e"
  by (simp_all add: api_is_not_found_def api_is_conflict_def api_is_already_exists_def)

lemma api_reason_status [simp]:
  "api_is_not_found (StatusError r msg) = (r = ReasonNotFound)"
  "api_is_conflict (StatusError r msg) = (r = ReasonConflict)"
  "api_is_already_exists (StatusError r msg) = (r = ReasonAlreadyExists)"
  by (simp_all add: api_is_not_found_def api_is_conflict_def api_is_already_exists_def)

end
