(* ===== verification/CircuitBreaker.thy ===== *)
theory CircuitBreaker
  imports ProviderErrors "HOL-Library.AList"
begin

text \<open>
  The circuit breaker and its registry (\<^verbatim>\<open>internal/resilience/circuitbreaker.go\<close>). Every method runs
  under the breaker's mutex, so a concurrent execution is a sequence of \<open>allowCall\<close> and
  \<open>recordResult\<close> steps in some order; \<open>cb_step\<close> is one such step. \<^verbatim>\<open>time.Now()\<close> is an argument.
  The Prometheus gauge and counter are not modelled.
\<close>

datatype cb_state = StateClosed | StateHalfOpen | StateOpen

fun cb_state_string :: "cb_state \<Rightarrow> string" where
  "cb_state_string StateClosed = ''closed''"
| "cb_state_string StateHalfOpen = ''half-open''"
| "cb_state_string StateOpen = ''open''"

record cb_config =
  FailureThreshold :: int
  ResetTimeout :: int
  HalfOpenMaxCalls :: int

definition DefaultConfig :: cb_config where
  "DefaultConfig = \<lparr>FailureThreshold = 10, ResetTimeout = 60 * second, HalfOpenMaxCalls = 3\<rparr>"

record circuit_breaker =
  cb_config :: cb_config
  cb_st :: cb_state
  failures :: int
  lastFailureTime :: int
  halfOpenCalls :: int
  cb_name :: string

text \<open>\<open>lastFailureTime\<close> starts as Go's zero time; its value is only read in the open state.\<close>

definition NewCircuitBreaker :: "string \<Rightarrow> cb_config option \<Rightarrow> circuit_breaker" where
  "NewCircuitBreaker name config =
     \<lparr>cb_config = (case config of None \<Rightarrow> DefaultConfig | Some c \<Rightarrow> c), cb_st = StateClosed,
      failures = 0, lastFailureTime = 0, halfOpenCalls = 0, cb_name = name\<rparr>"

definition transitionToClosed :: "circuit_breaker \<Rightarrow> circuit_breaker" where
  "transitionToClosed cb = cb\<lparr>cb_st := StateClosed, failures := 0, halfOpenCalls := 0\<rparr>"

definition transitionToOpen :: "circuit_breaker \<Rightarrow> circuit_breaker" where
  "transitionToOpen cb = cb\<lparr>cb_st := StateOpen, halfOpenCalls := 0\<rparr>"

definition transitionToHalfOpen :: "circuit_breaker \<Rightarrow> circuit_breaker" where
  "transitionToHalfOpen cb = cb\<lparr>cb_st := StateHalfOpen, halfOpenCalls := 0\<rparr>"

definition allow_half_open :: "circuit_breaker \<Rightarrow> circuit_breaker \<times> bool" where
  "allow_half_open cb =
     (if halfOpenCalls cb < HalfOpenMaxCalls (cb_config cb)
      then (cb\<lparr>halfOpenCalls := halfOpenCalls cb + 1\<rparr>, True) else (cb, False))"

definition allowCall :: "int \<Rightarrow> circuit_breaker \<Rightarrow> circuit_breaker \<times> bool" where
  "allowCall now cb =
     (case cb_st cb of
        StateClosed \<Rightarrow> (cb, True)
      | StateOpen \<Rightarrow>
          if time_sub now (lastFailureTime cb) \<le> ResetTimeout (cb_config cb) then (cb, False)
          else allow_half_open (transitionToHalfOpen cb)
      | StateHalfOpen \<Rightarrow> allow_half_open cb)"

definition recordFailure :: "int \<Rightarrow> circuit_breaker \<Rightarrow> circuit_breaker" where
  "recordFailure now cb =
     (let cb' = cb\<lparr>failures := failures cb + 1, lastFailureTime := now\<rparr> in
      case cb_st cb' of
        StateClosed \<Rightarrow> if FailureThreshold (cb_config cb') \<le> failures cb' then transitionToOpen cb' else cb'
      | StateHalfOpen \<Rightarrow> transitionToOpen cb'
      | StateOpen \<Rightarrow> cb')"

definition recordSuccess :: "circuit_breaker \<Rightarrow> circuit_breaker" where
  "recordSuccess cb =
     (case cb_st cb of
        StateHalfOpen \<Rightarrow>
          if HalfOpenMaxCalls (cb_config cb) \<le> halfOpenCalls cb then transitionToClosed cb else cb
      | StateClosed \<Rightarrow> cb\<lparr>failures := 0\<rparr>
      | StateOpen \<Rightarrow> cb)"

definition recordResult :: "int \<Rightarrow> go_error option \<Rightarrow> circuit_breaker \<Rightarrow> circuit_breaker" where
  "recordResult now err cb = (case err of Some _ \<Rightarrow> recordFailure now cb | None \<Rightarrow> recordSuccess cb)"

definition open_error :: "circuit_breaker \<Rightarrow> go_error" where
  "open_error cb = new_unavailable_error (''circuit breaker '' @ cb_name cb @ '' is open'') None"

text \<open>
  A call that no other call overlaps. \<open>fn\<close> acts on a state \<open>'s\<close> of its own; \<open>t0\<close> and \<open>t1\<close> are the
  clock readings of the admission and of the result.
\<close>

definition Call ::
  "int \<Rightarrow> int \<Rightarrow> ('s \<Rightarrow> 's \<times> go_error option) \<Rightarrow> circuit_breaker \<times> 's
     \<Rightarrow> (circuit_breaker \<times> 's) \<times> go_error option" where
  "Call t0 t1 fn = (\<lambda>(cb, s).
     (let (cb', ok) = allowCall t0 cb in
      if \<not> ok then ((cb', s), Some (open_error cb'))
      else let (s', err) = fn s in ((recordResult t1 err cb', s'), err)))"

definition Reset :: "circuit_breaker \<Rightarrow> circuit_breaker" where
  "Reset cb = transitionToClosed cb"

section \<open>Registry\<close>

text \<open>
  The registry maps keys to breaker pointers: an association list of keys and addresses, and the
  heap of breakers, so that a breaker a client still holds after \<open>Remove\<close> stays the same object.
\<close>

record registry =
  breakers :: "(string \<times> nat) list"
  cb_heap :: "circuit_breaker list"
  reg_config :: cb_config

definition NewRegistry :: "cb_config option \<Rightarrow> registry" where
  "NewRegistry config = \<lparr>breakers = [], cb_heap = [],
     reg_config = (case config of None \<Rightarrow> DefaultConfig | Some c \<Rightarrow> c)\<rparr>"

definition registry_key :: "string \<Rightarrow> string \<Rightarrow> string \<Rightarrow> string" where
  "registry_key name ptype prov = ptype @ '':'' @ prov @ '':'' @ name"

definition GetOrCreate :: "string \<Rightarrow> string \<Rightarrow> string \<Rightarrow> registry \<Rightarrow> registry \<times> nat" where
  "GetOrCreate name ptype prov r =
     (let key = registry_key name ptype prov in
      case map_of (breakers r) key of
        Some a \<Rightarrow> (r, a)
      | None \<Rightarrow>
          (let a = length (cb_heap r) in
           (r\<lparr>breakers := AList.update key a (breakers r),
              cb_heap := cb_heap r @ [NewCircuitBreaker name (Some (reg_config r))]\<rparr>, a)))"

definition reg_Get :: "string \<Rightarrow> string \<Rightarrow> string \<Rightarrow> registry \<Rightarrow> nat option" where
  "reg_Get name ptype prov r = map_of (breakers r) (registry_key name ptype prov)"

definition reg_Remove :: "string \<Rightarrow> string \<Rightarrow> string \<Rightarrow> registry \<Rightarrow> registry" where
  "reg_Remove name ptype prov r = r\<lparr>breakers := AList.delete (registry_key name ptype prov) (breakers r)\<rparr>"

definition reg_List :: "registry \<Rightarrow> (string \<times> nat) list" where
  "reg_List r = breakers r"

fun reset_all :: "nat list \<Rightarrow> circuit_breaker list \<Rightarrow> circuit_breaker list" where
  "reset_all [] h = h"
| "reset_all (a # as) h = reset_all as (h[a := Reset (h ! a)])"

definition reg_Reset :: "registry \<Rightarrow> registry" where
  "reg_Reset r = r\<lparr>cb_heap := reset_all (map snd (breakers r)) (cb_heap r)\<rparr>"

section \<open>Interleaved executions\<close>

datatype cb_event = EvAllow int | EvResult int "go_error option" | EvReset

fun cb_apply :: "cb_event \<Rightarrow> circuit_breaker \<Rightarrow> circuit_breaker" where
  "cb_apply (EvAllow t) cb = fst (allowCall t cb)"
| "cb_apply (EvResult t err) cb = recordResult t err cb"
| "cb_apply EvReset cb = Reset cb"

definition cb_run :: "cb_event list \<Rightarrow> circuit_breaker \<Rightarrow> circuit_breaker" where
  "cb_run evs cb = fold cb_apply evs cb"

text \<open>The number of calls a sequence of admission requests at the given times lets through.\<close>

fun admitted :: "int list \<Rightarrow> circuit_breaker \<Rightarrow> nat" where
  "admitted [] cb = 0"
| "admitted (t # ts) cb = (if snd (allowCall t cb) then 1 else 0) + admitted ts (fst (allowCall t cb))"

definition cb_inv :: "circuit_breaker \<Rightarrow> bool" where
  "cb_inv cb \<longleftrightarrow> 0 \<le> failures cb \<and> 0 \<le> halfOpenCalls cb \<and>
     (case cb_st cb of
        StateClosed \<Rightarrow> halfOpenCalls cb = 0 \<and> (failures cb = 0 \<or> failures cb < FailureThreshold (cb_config cb))
      | StateHalfOpen \<Rightarrow> halfOpenCalls cb \<le> max 0 (HalfOpenMaxCalls (cb_config cb))
      | StateOpen \<Rightarrow> halfOpenCalls cb = 0 \<and> 0 < failures cb)"

lemmas cb_transitions = transitionToClosed_def transitionToOpen_def transitionToHalfOpen_def Reset_def
lemmas cb_ops = allowCall_def allow_half_open_def recordResult_def recordFailure_def recordSuccess_def
  cb_transitions

lemma cb_inv_new: "cb_inv (NewCircuitBreaker n c)"
  by (simp add: cb_inv_def NewCircuitBreaker_def)

lemma cb_inv_apply: "cb_inv cb \<Longrightarrow> cb_inv (cb_apply ev cb)"
  by (cases ev) (auto simp: cb_inv_def cb_ops Let_def split: cb_state.splits option.splits)

lemma cb_inv_run: "cb_inv cb \<Longrightarrow> cb_inv (cb_run evs cb)"
  by (induction evs arbitrary: cb) (simp_all add: cb_run_def cb_inv_apply)

lemma cb_config_apply [simp]: "cb_config (cb_apply ev cb) = cb_config cb"
  by (cases ev) (auto simp: cb_ops Let_def split: cb_state.splits option.splits)

lemma cb_config_run [simp]: "cb_config (cb_run evs cb) = cb_config cb"
  by (induction evs arbitrary: cb) (simp_all add: cb_run_def)

lemma admitted_half_open:
  "cb_st cb = StateHalfOpen \<Longrightarrow>
   int (admitted ts cb) \<le> max 0 (HalfOpenMaxCalls (cb_config cb) - halfOpenCalls cb)"
proof (induction ts arbitrary: cb)
  case Nil
  then show ?case by simp
next
  case (Cons t ts)
  show ?case
  proof (cases "halfOpenCalls cb < HalfOpenMaxCalls (cb_config cb)")
    case True
    with Cons.IH [of "cb\<lparr>halfOpenCalls := halfOpenCalls cb + 1\<rparr>"] Cons.prems show ?thesis
      by (simp add: allowCall_def allow_half_open_def)
  next
    case False
    with Cons.IH [of cb] Cons.prems show ?thesis
      by (simp add: allowCall_def allow_half_open_def)
  qed
qed

lemma admitted_open:
  assumes "cb_st cb = StateOpen"
  shows "int (admitted ts cb) \<le> max 0 (HalfOpenMaxCalls (cb_config cb))"
  using assms
proof (induction ts)
  case Nil
  then show ?case by simp
next
  case (Cons t ts)
  show ?case
  proof (cases "time_sub t (lastFailureTime cb) \<le> ResetTimeout (cb_config cb)")
    case True
    with Cons show ?thesis by (simp add: allowCall_def)
  next
    case False
    let ?h = "transitionToHalfOpen cb"
    have eq: "admitted (t # ts) cb = admitted (t # ts) ?h"
      using False Cons.prems by (simp add: allowCall_def transitionToHalfOpen_def)
    have "int (admitted (t # ts) ?h) \<le> max 0 (HalfOpenMaxCalls (cb_config ?h) - halfOpenCalls ?h)"
      by (rule admitted_half_open) (simp add: transitionToHalfOpen_def)
    then show ?thesis unfolding eq by (simp add: transitionToHalfOpen_def)
  qed
qed

lemma admitted_open_early:
  assumes "cb_st cb = StateOpen"
    and "\<forall>t \<in> set ts. time_sub t (lastFailureTime cb) \<le> ResetTimeout (cb_config cb)"
  shows "admitted ts cb = 0 \<and> cb_run (map EvAllow ts) cb = cb"
  using assms by (induction ts) (simp_all add: allowCall_def cb_run_def)

section \<open>Opening on consecutive failures\<close>

definition record_all :: "(int \<times> go_error option) list \<Rightarrow> circuit_breaker \<Rightarrow> circuit_breaker" where
  "record_all rs cb = fold (\<lambda>(t, e). recordResult t e) rs cb"

fun fail_run :: "nat \<Rightarrow> nat \<Rightarrow> bool list \<Rightarrow> bool" where
  "fail_run n k [] = False"
| "fail_run n k (True # bs) = (n \<le> Suc k \<or> fail_run n (Suc k) bs)"
| "fail_run n k (False # bs) = fail_run n 0 bs"

lemma map_eq_replicate_True: "map f b = replicate n True \<longleftrightarrow> length b = n \<and> (\<forall>x \<in> set b. f x)"
  by (induction b arbitrary: n) (case_tac n, auto)+

lemma map_factor:
  "(\<exists>a c. map f rs = a @ X @ c) \<longleftrightarrow> (\<exists>a b d. rs = a @ b @ d \<and> map f b = X)"
proof
  assume "\<exists>a c. map f rs = a @ X @ c"
  then obtain a c where eq: "map f rs = a @ X @ c" by (elim exE)
  let ?v = "drop (length a) rs"
  have "rs = take (length a) rs @ take (length X) ?v @ drop (length X) ?v" by (simp only: append_take_drop_id)
  moreover have "map f (take (length X) ?v) = X" by (simp add: eq flip: take_map drop_map)
  ultimately show "\<exists>a b d. rs = a @ b @ d \<and> map f b = X" by (intro exI conjI)
next
  assume "\<exists>a b d. rs = a @ b @ d \<and> map f b = X"
  then obtain a b d where "rs = a @ b @ d" "map f b = X" by blast
  then have "map f rs = map f a @ X @ map f d" by simp
  then show "\<exists>a c. map f rs = a @ X @ c" by (intro exI)
qed

lemma replicate_block_after_False:
  assumes eq: "replicate k True @ False # bs = a @ replicate n True @ c" and "k < n"
  shows "\<exists>a'. bs = a' @ replicate n True @ c"
proof -
  have "k < length a"
  proof (rule ccontr)
    assume "\<not> k < length a"
    then have "k - length a < n" "\<not> k < length a" using \<open>k < n\<close> by auto
    then have "(a @ replicate n True @ c) ! k" by (simp add: nth_append)
    moreover have "\<not> (replicate k True @ False # bs) ! k" by (simp add: nth_append)
    ultimately show False using eq by simp
  qed
  then have "drop (Suc k) (a @ replicate n True @ c) = drop (Suc k) a @ replicate n True @ c" by simp
  moreover have "drop (Suc k) (replicate k True @ False # bs) = bs" by simp
  ultimately show ?thesis using eq by metis
qed

lemma fail_run_iff:
  "k < n \<Longrightarrow> fail_run n k bs \<longleftrightarrow> (\<exists>a c. replicate k True @ bs = a @ replicate n True @ c)"
proof (induction n k bs rule: fail_run.induct)
  case (1 n k)
  have "\<not> (\<exists>a c. replicate k True = a @ replicate n True @ c)"
    using 1 by (auto dest: arg_cong [where f = length])
  then show ?case by simp
next
  case (2 n k bs)
  have shift: "replicate k True @ True # bs = replicate (Suc k) True @ bs"
    by (simp add: replicate_app_Cons_same)
  show ?case
  proof (cases "n \<le> Suc k")
    case True
    with 2 have "Suc k = n" by simp
    then show ?thesis unfolding shift by (metis append_Nil fail_run.simps(2) le_refl)
  next
    case False
    with 2 show ?thesis unfolding shift by simp
  qed
next
  case (3 n k bs)
  have "(\<exists>a c. replicate k True @ False # bs = a @ replicate n True @ c)
          \<longleftrightarrow> (\<exists>a c. bs = a @ replicate n True @ c)"
    using replicate_block_after_False [OF _ 3(2)]
    by (metis append.assoc append_Cons)
  with 3 show ?case by simp
qed

lemma record_all_open: "cb_st cb = StateOpen \<Longrightarrow> cb_st (record_all rs cb) = StateOpen"
  by (induction rs arbitrary: cb)
     (auto simp: record_all_def recordResult_def recordFailure_def recordSuccess_def Let_def
       split: option.splits)

lemma record_all_fail_run:
  assumes "cb_st cb = StateClosed" "0 \<le> failures cb" "FailureThreshold (cb_config cb) = int n"
  shows "cb_st (record_all rs cb) =
    (if fail_run n (nat (failures cb)) (map (\<lambda>(t, e). e \<noteq> None) rs) then StateOpen else StateClosed)"
  using assms
proof (induction rs arbitrary: cb)
  case Nil
  then show ?case by (simp add: record_all_def)
next
  case (Cons r rs)
  obtain t e where r: "r = (t, e)" by force
  let ?cb = "recordResult t e cb"
  have step: "record_all ((t, e) # rs) cb = record_all rs (recordResult t e cb)" for e
    by (simp add: record_all_def)
  show ?case
  proof (cases e)
    case None
    with Cons.IH [of ?cb] Cons.prems show ?thesis
      by (simp add: step r recordResult_def recordSuccess_def)
  next
    case (Some err)
    show ?thesis
    proof (cases "int n \<le> failures cb + 1")
      case True
      with Some Cons.prems have "cb_st ?cb = StateOpen"
        by (simp add: recordResult_def recordFailure_def transitionToOpen_def)
      moreover have "n \<le> Suc (nat (failures cb))" using True Cons.prems by simp
      ultimately show ?thesis using Some by (simp add: step r record_all_open)
    next
      case False
      moreover have "nat (failures cb + 1) = Suc (nat (failures cb))" "\<not> n \<le> Suc (nat (failures cb))"
        using Cons.prems False by (simp_all add: nat_add_distrib)
      ultimately show ?thesis using Cons.IH [of ?cb] Cons.prems Some
        by (simp add: step r recordResult_def recordFailure_def)
    qed
  qed
qed

lemma record_all_opens_iff:
  assumes "0 < n" and "FailureThreshold c = int n"
  shows "cb_st (record_all rs (NewCircuitBreaker name (Some c))) = StateOpen
    \<longleftrightarrow> (\<exists>a b d. rs = a @ b @ d \<and> length b = n \<and> (\<forall>(t, e) \<in> set b. e \<noteq> None))"
proof -
  let ?f = "\<lambda>(t::int, e::go_error option). e \<noteq> None"
  have "cb_st (record_all rs (NewCircuitBreaker name (Some c))) = StateOpen \<longleftrightarrow> fail_run n 0 (map ?f rs)"
    using record_all_fail_run [of "NewCircuitBreaker name (Some c)" n rs] assms
    by (simp add: NewCircuitBreaker_def)
  also have "\<dots> \<longleftrightarrow> (\<exists>a c. map ?f rs = a @ replicate n True @ c)"
    using fail_run_iff [of 0 n] assms(1) by simp
  also have "\<dots> \<longleftrightarrow> (\<exists>a b d. rs = a @ b @ d \<and> map ?f b = replicate n True)"
    by (rule map_factor)
  also have "\<dots> \<longleftrightarrow> (\<exists>a b d. rs = a @ b @ d \<and> length b = n \<and> (\<forall>(t, e) \<in> set b. e \<noteq> None))"
    by (simp add: map_eq_replicate_True split_beta)
  finally show ?thesis .
qed

text \<open>
  C7. A fresh breaker with a positive threshold \<open>n\<close>, fed any sequence of call results, is open
  afterwards exactly when the sequence contains \<open>n\<close> consecutive failures: successes in between
  reset the count, and scattered failures never open it.
\<close>

theorem opens_iff_consecutive_failures:
  assumes "0 < n" and "FailureThreshold c = int n"
  shows "cb_st (record_all rs (NewCircuitBreaker name (Some c))) = StateOpen
    \<longleftrightarrow> (\<exists>a b d. rs = a @ b @ d \<and> length b = n \<and> (\<forall>(t, e) \<in> set b. e \<noteq> None))"
  using assms by (rule record_all_opens_iff)

theorem opens_iff_consecutive_failures_witness:
  "cb_st (record_all [(1, Some (PlainError ''x'')), (2, Some (PlainError ''y''))]
     (NewCircuitBreaker ''b'' (Some \<lparr>FailureThreshold = 2, ResetTimeout = 5, HalfOpenMaxCalls = 1\<rparr>))) = StateOpen"
  using opens_iff_consecutive_failures [of 2 "\<lparr>FailureThreshold = 2, ResetTimeout = 5, HalfOpenMaxCalls = 1\<rparr>"
      "[(1, Some (PlainError ''x'')), (2, Some (PlainError ''y''))]" "''b''"]
  by (simp add: cb_ops record_all_def NewCircuitBreaker_def)

text \<open>
  An open breaker fails fast: whatever the order of admission requests, none is let through
  while no more than \<open>ResetTimeout\<close> has passed since the last failure, a rejected \<open>Call\<close> returns the
  retryable Unavailable error without running the wrapped function, and once the timeout has
  passed at most \<open>HalfOpenMaxCalls\<close> requests get through before any result is recorded.
\<close>

lemma open_breaker_admissions:
  assumes "cb_st cb = StateOpen"
  shows "int (admitted ts cb) \<le> max 0 (HalfOpenMaxCalls (cb_config cb)) \<and>
    ((\<forall>t \<in> set ts. time_sub t (lastFailureTime cb) \<le> ResetTimeout (cb_config cb)) \<longrightarrow> admitted ts cb = 0) \<and>
    (time_sub t0 (lastFailureTime cb) \<le> ResetTimeout (cb_config cb) \<longrightarrow>
      Call t0 t1 fn (cb, s) = ((cb, s), Some (open_error cb)))"
  using assms admitted_open [OF assms] admitted_open_early [OF assms]
  by (simp add: Call_def allowCall_def)

section \<open>Recovery\<close>

text \<open>Sequential calls, each admitted and answered at the paired clock readings.\<close>

fun call_seq ::
  "(int \<times> int) list \<Rightarrow> ('s \<Rightarrow> 's \<times> go_error option) \<Rightarrow> circuit_breaker \<times> 's \<Rightarrow> circuit_breaker \<times> 's" where
  "call_seq [] fn st = st"
| "call_seq ((t0, t1) # ts) fn st = call_seq ts fn (fst (Call t0 t1 fn st))"

lemma half_open_success:
  assumes "cb_st cb = StateHalfOpen" "halfOpenCalls cb < HalfOpenMaxCalls (cb_config cb)"
    and "fn s = (s', None)"
  shows "fst (Call t0 t1 fn (cb, s)) =
    ((if HalfOpenMaxCalls (cb_config cb) = halfOpenCalls cb + 1 then transitionToClosed cb
      else cb\<lparr>halfOpenCalls := halfOpenCalls cb + 1\<rparr>), s')"
proof -
  have allow: "allowCall t0 cb = (cb\<lparr>halfOpenCalls := halfOpenCalls cb + 1\<rparr>, True)"
    using assms by (simp add: allowCall_def allow_half_open_def)
  have full: "HalfOpenMaxCalls (cb_config cb) \<le> halfOpenCalls cb + 1
      \<longleftrightarrow> HalfOpenMaxCalls (cb_config cb) = halfOpenCalls cb + 1"
    using assms(2) by linarith
  have "recordResult t1 None (cb\<lparr>halfOpenCalls := halfOpenCalls cb + 1\<rparr>) =
     (if HalfOpenMaxCalls (cb_config cb) = halfOpenCalls cb + 1 then transitionToClosed cb
      else cb\<lparr>halfOpenCalls := halfOpenCalls cb + 1\<rparr>)"
    using assms(1) by (simp only: recordResult_def recordSuccess_def full [symmetric]) (simp add: transitionToClosed_def)
  with allow assms(3) show ?thesis by (simp add: Call_def)
qed

lemma half_open_recovers:
  assumes "\<And>s. snd (fn s) = None"
  shows "cb_st cb = StateHalfOpen \<Longrightarrow> ts \<noteq> [] \<Longrightarrow>
    int (length ts) = HalfOpenMaxCalls (cb_config cb) - halfOpenCalls cb \<Longrightarrow>
    cb_st (fst (call_seq ts fn (cb, s))) = StateClosed \<and> failures (fst (call_seq ts fn (cb, s))) = 0"
proof (induction ts arbitrary: cb s)
  case Nil
  then show ?case by simp
next
  case (Cons t ts)
  obtain t0 t1 where t: "t = (t0, t1)" by force
  obtain s' where s': "fn s = (s', None)" using assms [of s] by (cases "fn s") auto
  have call: "fst (Call t0 t1 fn (cb, s)) = ((if HalfOpenMaxCalls (cb_config cb) = halfOpenCalls cb + 1
      then transitionToClosed cb else cb\<lparr>halfOpenCalls := halfOpenCalls cb + 1\<rparr>), s')"
  proof (rule half_open_success [where fn = fn, OF Cons.prems(1) _ s'])
    show "halfOpenCalls cb < HalfOpenMaxCalls (cb_config cb)" using Cons.prems(3) by simp
  qed
  show ?case
  proof (cases "ts = []")
    case True
    with call Cons.prems(3) show ?thesis by (simp add: t transitionToClosed_def)
  next
    case False
    let ?cb = "cb\<lparr>halfOpenCalls := halfOpenCalls cb + 1\<rparr>"
    have "fst (Call t0 t1 fn (cb, s)) = (?cb, s')"
      using call False Cons.prems(3) by (cases ts) auto
    then have "call_seq (t # ts) fn (cb, s) = call_seq ts fn (?cb, s')" by (simp add: t)
    with Cons.IH [of ?cb s'] False Cons.prems show ?thesis by simp
  qed
qed

lemma call_open_expired:
  assumes "cb_st cb = StateOpen" "ResetTimeout (cb_config cb) < time_sub t0 (lastFailureTime cb)"
  shows "Call t0 t1 fn (cb, s) = Call t0 t1 fn (transitionToHalfOpen cb, s)"
  using assms by (simp add: Call_def allowCall_def transitionToHalfOpen_def)

text \<open>
  C30. Recovery: once the reset timeout has passed, \<open>HalfOpenMaxCalls\<close> successful calls in a row
  take an open breaker back to closed with a failure count of zero.
\<close>

theorem open_breaker_recovers:
  assumes "cb_st cb = StateOpen"
    and "ResetTimeout (cb_config cb) < time_sub t0 (lastFailureTime cb)"
    and "int (length ((t0, t1) # ts)) = HalfOpenMaxCalls (cb_config cb)"
    and "\<And>s. snd (fn s) = None"
  shows "cb_st (fst (call_seq ((t0, t1) # ts) fn (cb, s))) = StateClosed \<and>
         failures (fst (call_seq ((t0, t1) # ts) fn (cb, s))) = 0"
proof -
  have "call_seq ((t0, t1) # ts) fn (cb, s) = call_seq ((t0, t1) # ts) fn (transitionToHalfOpen cb, s)"
    using assms by (simp add: call_open_expired)
  then show ?thesis
    using half_open_recovers [of fn "transitionToHalfOpen cb" "(t0, t1) # ts" s] assms
    by (simp add: transitionToHalfOpen_def)
qed

theorem open_breaker_recovers_witness:
  "cb_st (fst (call_seq [(61 * second, 62 * second), (63 * second, 63 * second), (64 * second, 64 * second)]
     (\<lambda>s::nat. (s, None)) (transitionToOpen (NewCircuitBreaker ''b'' None), 0))) = StateClosed"
  using open_breaker_recovers [of "transitionToOpen (NewCircuitBreaker ''b'' None)" "61 * second" "62 * second"
      "[(63 * second, 63 * second), (64 * second, 64 * second)]" "\<lambda>s::nat. (s, None)" 0]
  by (simp add: transitionToOpen_def NewCircuitBreaker_def DefaultConfig_def time_sub_def
      max_int64_def min_int64_def del: call_seq.simps)

text \<open>
  With overlapping calls the half-open breaker closes on the first recorded success after all
  slots are taken, while the other trial calls are still outstanding; a trial call that fails
  afterwards no longer re-opens it.
\<close>

lemma half_open_closes_on_first_success:
  assumes "cb_st cb = StateHalfOpen" "halfOpenCalls cb = HalfOpenMaxCalls (cb_config cb)"
    and "1 < FailureThreshold (cb_config cb)"
  shows "cb_st (cb_run [EvResult t1 None, EvResult t2 (Some e)] cb) = StateClosed"
  using assms by (simp add: cb_run_def cb_ops)

section \<open>Registry interface\<close>

text \<open>
  What a client of a pool of shared objects relies on: creating returns the object already there,
  and operations on one key leave the others alone. \<open>valid\<close> are the keys the pool tells apart,
  \<open>inv\<close> its representation invariant.
\<close>

locale keyed_pool =
  fixes inv :: "'r \<Rightarrow> bool"
    and valid :: "'k \<Rightarrow> bool"
    and get :: "'k \<Rightarrow> 'r \<Rightarrow> 'a option"
    and mk :: "'k \<Rightarrow> 'r \<Rightarrow> 'r \<times> 'a"
    and del :: "'k \<Rightarrow> 'r \<Rightarrow> 'r"
  assumes get_mk: "get k (fst (mk k r)) = Some (snd (mk k r))"
    and mk_hit: "get k r = Some a \<Longrightarrow> mk k r = (r, a)"
    and get_mk_other: "valid k \<Longrightarrow> valid k' \<Longrightarrow> k \<noteq> k' \<Longrightarrow> get k' (fst (mk k r)) = get k' r"
    and get_del: "inv r \<Longrightarrow> get k (del k r) = None"
    and get_del_other: "valid k \<Longrightarrow> valid k' \<Longrightarrow> k \<noteq> k' \<Longrightarrow> get k' (del k r) = get k' r"
    and inv_mk: "inv r \<Longrightarrow> inv (fst (mk k r))"
    and inv_del: "inv r \<Longrightarrow> inv (del k r)"
    and get_inj: "inv r \<Longrightarrow> valid k \<Longrightarrow> valid k' \<Longrightarrow> k \<noteq> k' \<Longrightarrow> get k r = Some a \<Longrightarrow> get k' r \<noteq> Some a"
begin

lemma mk_mk: "mk k (fst (mk k r)) = (fst (mk k r), snd (mk k r))"
  using get_mk mk_hit by blast

lemma mk_mk_other:
  assumes "inv r" "valid k" "valid k'" "k \<noteq> k'"
  shows "snd (mk k (fst (mk k' (fst (mk k r))))) = snd (mk k r) \<and>
    snd (mk k' (fst (mk k r))) \<noteq> snd (mk k r)"
proof -
  let ?r = "fst (mk k r)" and ?r' = "fst (mk k' (fst (mk k r)))"
  have here: "get k ?r' = Some (snd (mk k r))"
    using get_mk_other [of k' k ?r] get_mk [of k r] assms by simp
  then have "mk k ?r' = (?r', snd (mk k r))" by (rule mk_hit)
  moreover have "get k' ?r' \<noteq> Some (snd (mk k r))"
    using get_inj [of ?r' k k'] here assms by (simp add: inv_mk)
  ultimately show ?thesis using get_mk [of k' ?r] by auto
qed

end

definition reg_inv :: "registry \<Rightarrow> bool" where
  "reg_inv r \<longleftrightarrow> distinct (map fst (breakers r)) \<and> distinct (map snd (breakers r)) \<and>
     (\<forall>a \<in> set (map snd (breakers r)). a < length (cb_heap r))"

definition colon_free :: "string \<times> string \<times> string \<Rightarrow> bool" where
  "colon_free = (\<lambda>(name, ptype, prov). CHR '':'' \<notin> set ptype \<and> CHR '':'' \<notin> set prov)"

lemma registry_key_inj:
  assumes "colon_free (n, t, p)" "colon_free (n', t', p')"
  shows "registry_key n t p = registry_key n' t' p' \<longleftrightarrow> (n, t, p) = (n', t', p')"
  using assms by (auto simp: registry_key_def colon_free_def append_sep_inj)

lemma distinct_map_snd_eq:
  "distinct (map snd xs) \<Longrightarrow> (k, a) \<in> set xs \<Longrightarrow> (k', a) \<in> set xs \<Longrightarrow> k = k'"
  by (induction xs) force+

lemma map_of_inj_snd:
  "distinct (map snd xs) \<Longrightarrow> map_of xs k = Some a \<Longrightarrow> map_of xs k' = Some a \<Longrightarrow> k = k'"
  by (meson distinct_map_snd_eq map_of_SomeD)

lemma update_fresh: "map_of xs k = None \<Longrightarrow> AList.update k v xs = xs @ [(k, v)]"
  by (induction xs) (auto split: if_splits)

lemma reg_inv_GetOrCreate: "reg_inv r \<Longrightarrow> reg_inv (fst (GetOrCreate n t p r))"
proof (cases "map_of (breakers r) (registry_key n t p)")
  case None
  assume inv: "reg_inv r"
  have "fst (GetOrCreate n t p r) =
    r\<lparr>breakers := breakers r @ [(registry_key n t p, length (cb_heap r))],
      cb_heap := cb_heap r @ [NewCircuitBreaker n (Some (reg_config r))]\<rparr>"
    using None by (simp add: GetOrCreate_def Let_def update_fresh)
  with inv None show ?thesis
    by (auto simp: reg_inv_def map_of_eq_None_iff less_Suc_eq)
next
  case (Some a)
  assume "reg_inv r"
  with Some show ?thesis by (simp add: GetOrCreate_def Let_def)
qed

lemma reg_inv_Remove: "reg_inv r \<Longrightarrow> reg_inv (reg_Remove n t p r)"
  unfolding reg_inv_def reg_Remove_def AList.delete_eq
  by (auto simp: distinct_map inj_on_def)

lemma reg_Get_inj:
  assumes "reg_inv r" "colon_free (n, t, p)" "colon_free (n', t', p')"
    and "reg_Get n t p r = Some a" "reg_Get n' t' p' r = Some a"
  shows "(n, t, p) = (n', t', p')"
proof -
  have "registry_key n t p = registry_key n' t' p'"
    using assms(1,4,5) map_of_inj_snd unfolding reg_inv_def reg_Get_def by metis
  then show ?thesis using assms(2,3) registry_key_inj by blast
qed

interpretation reg: keyed_pool reg_inv colon_free
  "\<lambda>(n, t, p). reg_Get n t p" "\<lambda>(n, t, p). GetOrCreate n t p" "\<lambda>(n, t, p). reg_Remove n t p"
proof (unfold_locales, goal_cases)
  case (1 k r)
  then show ?case by (cases k) (auto simp: reg_Get_def GetOrCreate_def Let_def update_conv' split: option.splits)
next
  case (2 k r a)
  then show ?case by (cases k) (auto simp: reg_Get_def GetOrCreate_def Let_def)
next
  case (3 k k' r)
  then show ?case
    by (cases k; cases k')
       (auto simp: reg_Get_def GetOrCreate_def Let_def update_conv' registry_key_inj split: option.splits)
next
  case (4 r k)
  then show ?case by (cases k) (simp add: reg_Get_def reg_Remove_def delete_conv')
next
  case (5 k k' r)
  then show ?case by (cases k; cases k') (auto simp: reg_Get_def reg_Remove_def delete_conv' registry_key_inj)
next
  case (6 r k)
  then show ?case by (cases k) (simp add: reg_inv_GetOrCreate)
next
  case (7 r k)
  then show ?case by (cases k) (simp add: reg_inv_Remove)
next
  case (8 r k k' a)
  obtain n t p where k: "k = (n, t, p)" by (cases k)
  obtain n' t' p' where k': "k' = (n', t', p')" by (cases k')
  from 8 show ?case using reg_Get_inj [of r n t p n' t' p' a] unfolding k k' by force
qed

text \<open>
  Breakers are per provider: from a registry in which they are, two distinct colon-free
  (name, type, provider) triples get two distinct breakers, and asking again for the first one
  returns the same object.
\<close>

lemma registry_isolates_providers:
  assumes "reg_inv r" "colon_free k" "colon_free k'" "k \<noteq> k'"
    and "k = (n, t, p)" "k' = (n', t', p')"
  shows "let (r1, a) = GetOrCreate n t p r; (r2, b) = GetOrCreate n' t' p' r1
         in snd (GetOrCreate n t p r2) = a \<and> b \<noteq> a"
  using reg.mk_mk_other [of r k k'] assms by (simp add: split_beta)

end
