(* ===== verification/RetryPolicy.thy ===== *)
theory RetryPolicy
  imports Complex_Main CircuitBreaker
begin

text \<open>
  Retrying calls (\<^verbatim>\<open>internal/resilience/retry.go\<close>). The retried function acts on a state \<open>'s\<close>. What
  the \<^verbatim>\<open>select\<close> between the context and the timer picks after attempt \<open>i\<close> is the argument \<open>wait i\<close>:
  \<open>None\<close> when the delay ran out, \<open>Some e\<close> when the context ended with error \<open>e\<close>. The length of the
  delay (float arithmetic and jitter) only influences that choice and is not modelled.
\<close>

record retry_config =
  MaxAttempts :: int
  BaseDelay :: int
  MaxDelay :: int
  Multiplier :: rat
  Jitter :: bool

definition DefaultRetryConfig :: retry_config where
  "DefaultRetryConfig = \<lparr>MaxAttempts = 5, BaseDelay = 500 * millisecond, MaxDelay = 30 * second,
     Multiplier = 2, Jitter = True\<rparr>"

definition AggressiveRetryConfig :: retry_config where
  "AggressiveRetryConfig = \<lparr>MaxAttempts = 10, BaseDelay = 100 * millisecond, MaxDelay = 10 * second,
     Multiplier = 3 / 2, Jitter = True\<rparr>"

definition ConservativeRetryConfig :: retry_config where
  "ConservativeRetryConfig = \<lparr>MaxAttempts = 3, BaseDelay = 1 * second, MaxDelay = 60 * second,
     Multiplier = 3, Jitter = True\<rparr>"

definition NoRetryConfig :: retry_config where
  "NoRetryConfig = \<lparr>MaxAttempts = 1, BaseDelay = 0, MaxDelay = 0, Multiplier = 1, Jitter = False\<rparr>"

text \<open>\<^verbatim>\<open>IsRetryable\<close> asserts the dynamic type of the error itself, it does not look through wrapping.\<close>

fun IsRetryable :: "go_error option \<Rightarrow> bool" where
  "IsRetryable None = False"
| "IsRetryable (Some (ProviderError t msg c r)) = provider_is_retryable t r"
| "IsRetryable (Some _) = False"

type_synonym 's retry_fn = "int \<Rightarrow> 's \<Rightarrow> 's \<times> go_error option"

function retry_loop ::
  "int \<Rightarrow> (int \<Rightarrow> go_error option) \<Rightarrow> 's retry_fn \<Rightarrow> int \<Rightarrow> go_error option \<Rightarrow> 's \<Rightarrow> 's \<times> go_error option"
where
  "retry_loop n wait fn i lastErr s =
     (if i < n then
        (case fn i s of
           (s', None) \<Rightarrow> (s', None)
         | (s', Some e) \<Rightarrow>
             if \<not> IsRetryable (Some e) then (s', Some e)
             else if i = n - 1 then (s', Some e)
             else case wait i of
                    Some ctxErr \<Rightarrow> (s', Some ctxErr)
                  | None \<Rightarrow> retry_loop n wait fn (i + 1) (Some e) s')
      else (s, lastErr))"
  by auto
termination by (relation "measure (\<lambda>(n, wait, fn, i, e, s). nat (n - i))") auto

declare retry_loop.simps [simp del]

definition Retry ::
  "retry_config option \<Rightarrow> (int \<Rightarrow> go_error option) \<Rightarrow> 's retry_fn \<Rightarrow> 's \<Rightarrow> 's \<times> go_error option" where
  "Retry config wait fn s =
     retry_loop (MaxAttempts (case config of None \<Rightarrow> DefaultRetryConfig | Some c \<Rightarrow> c)) wait fn 0 None s"

record retryable_call =
  rc_config :: retry_config
  rc_name :: string

definition NewRetryableCall :: "string \<Rightarrow> retry_config option \<Rightarrow> retryable_call" where
  "NewRetryableCall name config =
     \<lparr>rc_config = (case config of None \<Rightarrow> DefaultRetryConfig | Some c \<Rightarrow> c), rc_name = name\<rparr>"

definition rc_Execute ::
  "retryable_call \<Rightarrow> (int \<Rightarrow> go_error option) \<Rightarrow> 's retry_fn \<Rightarrow> 's \<Rightarrow> 's \<times> go_error option" where
  "rc_Execute rc wait fn s = Retry (Some (rc_config rc)) wait fn s"

text \<open>\<open>clk i\<close> are the clock readings of attempt \<open>i\<close>'s admission and result.\<close>

definition ExecuteWithCircuitBreaker ::
  "retryable_call \<Rightarrow> (int \<Rightarrow> go_error option) \<Rightarrow> (int \<Rightarrow> int \<times> int) \<Rightarrow> ('s \<Rightarrow> 's \<times> go_error option)
     \<Rightarrow> circuit_breaker \<times> 's \<Rightarrow> (circuit_breaker \<times> 's) \<times> go_error option" where
  "ExecuteWithCircuitBreaker rc wait clk fn st =
     rc_Execute rc wait (\<lambda>i. Call (fst (clk i)) (snd (clk i)) fn) st"

record policy =
  pol_retryConfig :: retry_config
  pol_circuitBreaker :: "circuit_breaker option"
  pol_name :: string

definition NewPolicy :: "string \<Rightarrow> retry_config option \<Rightarrow> circuit_breaker option \<Rightarrow> policy" where
  "NewPolicy name config cb =
     \<lparr>pol_retryConfig = (case config of None \<Rightarrow> DefaultRetryConfig | Some c \<Rightarrow> c),
      pol_circuitBreaker = cb, pol_name = name\<rparr>"

text \<open>The policy holds a pointer to its breaker; the updated breaker is returned with the policy.\<close>

definition pol_Execute ::
  "policy \<Rightarrow> (int \<Rightarrow> go_error option) \<Rightarrow> (int \<Rightarrow> int \<times> int) \<Rightarrow> ('s \<Rightarrow> 's \<times> go_error option)
     \<Rightarrow> 's \<Rightarrow> policy \<times> 's \<times> go_error option" where
  "pol_Execute p wait clk fn s =
     (let rc = NewRetryableCall (pol_name p) (Some (pol_retryConfig p)) in
      case pol_circuitBreaker p of
        Some cb \<Rightarrow>
          (let ((cb', s'), err) = ExecuteWithCircuitBreaker rc wait clk fn (cb, s) in
           (p\<lparr>pol_circuitBreaker := Some cb'\<rparr>, s', err))
      | None \<Rightarrow> (let (s', err) = rc_Execute rc wait (\<lambda>i. fn) s in (p, s', err)))"

record policy_builder =
  pb_name :: string
  pb_retryConfig :: "retry_config option"
  pb_circuitBreaker :: "circuit_breaker option"

definition NewPolicyBuilder :: "string \<Rightarrow> policy_builder" where
  "NewPolicyBuilder name = \<lparr>pb_name = name, pb_retryConfig = None, pb_circuitBreaker = None\<rparr>"

definition WithRetry :: "retry_config option \<Rightarrow> policy_builder \<Rightarrow> policy_builder" where
  "WithRetry config pb = pb\<lparr>pb_retryConfig := config\<rparr>"

definition WithCircuitBreaker :: "circuit_breaker option \<Rightarrow> policy_builder \<Rightarrow> policy_builder" where
  "WithCircuitBreaker cb pb = pb\<lparr>pb_circuitBreaker := cb\<rparr>"

definition pb_Build :: "policy_builder \<Rightarrow> policy" where
  "pb_Build pb = NewPolicy (pb_name pb) (pb_retryConfig pb) (pb_circuitBreaker pb)"

text \<open>
  \<open>counted f\<close> runs \<open>f\<close> and counts its own executions.
\<close>

definition counted :: "('s \<Rightarrow> 's \<times> go_error option) \<Rightarrow> nat \<times> 's \<Rightarrow> (nat \<times> 's) \<times> go_error option" where
  "counted f = (\<lambda>(k, s). (let (s', e) = f s in ((Suc k, s'), e)))"

section \<open>Attempts\<close>

text \<open>Attempt \<open>i\<close> ends the loop of \<open>n\<close> attempts with the result \<open>final_result n wait out i\<close>.\<close>

definition stops :: "int \<Rightarrow> (int \<Rightarrow> go_error option) \<Rightarrow> (int \<Rightarrow> go_error option) \<Rightarrow> int \<Rightarrow> bool" where
  "stops n wait out i \<longleftrightarrow> \<not> IsRetryable (out i) \<or> i = n - 1 \<or> wait i \<noteq> None"

definition final_result ::
  "int \<Rightarrow> (int \<Rightarrow> go_error option) \<Rightarrow> (int \<Rightarrow> go_error option) \<Rightarrow> int \<Rightarrow> go_error option" where
  "final_result n wait out i = (if IsRetryable (out i) \<and> i \<noteq> n - 1 then wait i else out i)"

lemma retry_loop_spec:
  assumes "i \<le> k" "k < n" "stops n wait out k" "\<forall>j. i \<le> j \<and> j < k \<longrightarrow> \<not> stops n wait out j"
  shows "retry_loop n wait (\<lambda>i s. (s @ [i], out i)) i e s = (s @ [i..k], final_result n wait out k)"
  using assms
proof (induction "nat (k - i)" arbitrary: i e s)
  case 0
  then have "i = k" by simp
  with 0 show ?case
    by (simp add: retry_loop.simps [of n wait _ k] stops_def final_result_def split: option.splits) auto
next
  case (Suc m)
  then have ik: "i < k" and go: "\<not> stops n wait out i" by auto
  then obtain err where err: "out i = Some err" "IsRetryable (Some err)" "i \<noteq> n - 1" "wait i = None"
    by (cases "out i") (auto simp: stops_def)
  have "retry_loop n wait (\<lambda>i s. (s @ [i], out i)) i e s
      = retry_loop n wait (\<lambda>i s. (s @ [i], out i)) (i + 1) (Some err) (s @ [i])"
    using err ik Suc.prems by (subst retry_loop.simps) simp
  also have "\<dots> = ((s @ [i]) @ [i + 1..k], final_result n wait out k)"
    by (rule Suc.hyps(1)) (use Suc.prems Suc.hyps(2) ik in auto)
  finally show ?case using ik by (simp add: upto_rec1)
qed

lemma first_stop:
  assumes "0 < n"
  obtains k where "0 \<le> k" "k < n" "stops n wait out k" "\<forall>j. 0 \<le> j \<and> j < k \<longrightarrow> \<not> stops n wait out j"
proof -
  let ?P = "\<lambda>m::nat. stops n wait out (int m)"
  have ex: "?P (nat (n - 1))" using assms by (simp add: stops_def)
  define k where "k = (LEAST m. ?P m)"
  have "?P k" unfolding k_def using ex by (rule LeastI)
  moreover have "k \<le> nat (n - 1)" unfolding k_def using ex by (rule Least_le)
  moreover have "\<not> stops n wait out j" if "0 \<le> j" "j < int k" for j
  proof -
    have "\<not> ?P (nat j)" using that unfolding k_def by (intro not_less_Least) linarith
    with that show ?thesis by simp
  qed
  ultimately show ?thesis using that [of "int k"] assms by auto
qed

text \<open>
  C31. \<open>Retry\<close> with at least one attempt, over a function whose attempt \<open>i\<close> yields \<open>out i\<close>, runs
  the attempts \<open>0, 1, \<dots>, k\<close> in order and once each, for some \<open>k < MaxAttempts\<close>. All attempts
  before \<open>k\<close> failed with a retryable provider error; the result is that of attempt \<open>k\<close>, unless it
  was retryable with attempts left, and then the context's error.
\<close>

theorem Retry_attempts:
  assumes "0 < MaxAttempts c"
  shows "\<exists>k. 0 \<le> k \<and> k < MaxAttempts c \<and>
    Retry (Some c) wait (\<lambda>i s. (s @ [i], out i)) [] = ([0..k], final_result (MaxAttempts c) wait out k) \<and>
    stops (MaxAttempts c) wait out k \<and> (\<forall>j. 0 \<le> j \<and> j < k \<longrightarrow> IsRetryable (out j) \<and> wait j = None)"
proof -
  obtain k where k: "0 \<le> k" "k < MaxAttempts c" "stops (MaxAttempts c) wait out k"
      "\<forall>j. 0 \<le> j \<and> j < k \<longrightarrow> \<not> stops (MaxAttempts c) wait out j"
    using first_stop [OF assms] by metis
  then show ?thesis using retry_loop_spec [OF k] by (auto simp: Retry_def stops_def)
qed

theorem Retry_attempts_witness:
  "Retry (Some DefaultRetryConfig) (\<lambda>_. None)
     (\<lambda>i s. (s @ [i], if i < 2 then Some (new_timeout_error ''slow'' None) else None)) [] = ([0, 1, 2], None)"
proof -
  let ?out = "\<lambda>i::int. if i < 2 then Some (new_timeout_error ''slow'' None) else None"
  obtain k where k: "0 \<le> k" "stops 5 (\<lambda>_. None) ?out k"
      "Retry (Some DefaultRetryConfig) (\<lambda>_. None) (\<lambda>i s. (s @ [i], ?out i)) [] =
         ([0..k], final_result 5 (\<lambda>_. None) ?out k)"
      "\<forall>j. 0 \<le> j \<and> j < k \<longrightarrow> IsRetryable (?out j)"
    using Retry_attempts [of DefaultRetryConfig "\<lambda>_. None" ?out] by (auto simp: DefaultRetryConfig_def)
  have "\<not> k < 2" using k(2) by (auto simp: stops_def error_constructors provider_is_retryable_def split: if_splits)
  moreover have "\<not> 2 < k" using spec [OF k(4), of 2] by auto
  ultimately have "k = 2" by simp
  with k(3) show ?thesis by (simp add: final_result_def upto_rec1)
qed

text \<open>
  With \<open>MaxAttempts\<close> zero or negative the loop body never runs: \<open>Retry\<close> reports success without
  having called the function once.
\<close>

lemma Retry_no_attempts:
  assumes "MaxAttempts c \<le> 0"
  shows "Retry (Some c) wait fn s = (s, None)"
  using assms by (simp add: Retry_def retry_loop.simps)

section \<open>Retrying through a breaker\<close>

lemma Call_counted:
  "fst (snd (fst (Call t0 t1 (counted f) (cb, k, s)))) \<le> Suc k"
  by (auto simp: Call_def counted_def split: prod.splits)

lemma retry_loop_count:
  "(\<And>i s. cnt (fst (fn i s)) \<le> Suc (cnt s)) \<Longrightarrow>
   cnt (fst (retry_loop n wait fn i e s)) \<le> cnt s + nat (n - i)"
proof (induction n wait fn i e s rule: retry_loop.induct)
  case (1 n wait fn i lastErr s)
  obtain s' r where fn: "fn i s = (s', r)" by force
  have le: "cnt s' \<le> Suc (cnt s)" using "1.prems" [of i s] by (simp add: fn)
  show ?case
  proof (cases "\<exists>e. r = Some e \<and> i < n \<and> IsRetryable (Some e) \<and> i \<noteq> n - 1 \<and> wait i = None")
    case True
    then obtain e where e: "r = Some e" "i < n" "IsRetryable (Some e)" "i \<noteq> n - 1" "wait i = None" by blast
    have "cnt (fst (retry_loop n wait fn (i + 1) (Some e) s')) \<le> cnt s' + nat (n - (i + 1))"
      using "1.IH" [OF e(2) fn [symmetric] e(1)] e "1.prems" by simp
    with e le fn show ?thesis by (subst retry_loop.simps) auto
  next
    case False
    with le fn show ?thesis by (subst retry_loop.simps) (auto split: option.splits)
  qed
qed

lemma ExecuteWithCircuitBreaker_count:
  "fst (snd (fst (ExecuteWithCircuitBreaker rc wait clk (counted f) (cb, 0, s))))
     \<le> nat (MaxAttempts (rc_config rc))"
proof -
  let ?fn = "\<lambda>i. Call (fst (clk i)) (snd (clk i)) (counted f)"
  have "fst (snd (fst (?fn i st))) \<le> Suc (fst (snd st))" for i st
    using Call_counted by (cases st) auto
  from retry_loop_count [of "\<lambda>st. fst (snd st)" ?fn, OF this]
  have "fst (snd (fst (retry_loop (MaxAttempts (rc_config rc)) wait ?fn 0 None (cb, 0, s))))
      \<le> fst (snd (cb, 0, s)) + nat (MaxAttempts (rc_config rc) - 0)" .
  then show ?thesis by (simp add: ExecuteWithCircuitBreaker_def rc_Execute_def Retry_def)
qed

end
