(* ===== verification/Conditions.thy ===== *)
theory Conditions
  imports Prelude
begin

text \<open>
  Status conditions and finalizers: the two implementations of \<^verbatim>\<open>SetCondition\<close> and
  \<^verbatim>\<open>GetCondition\<close> (\<^verbatim>\<open>internal/k8s/conditions.go\<close> and \<^verbatim>\<open>internal/util/k8s/conditions.go\<close>) and
  \<^verbatim>\<open>internal/k8s/finalizers.go\<close>. The contract the controllers rely on is the locale
  \<open>condition_api\<close>, which both implementations are shown to meet. \<^verbatim>\<open>metav1.Now()\<close> is an argument.
\<close>

datatype cond_status = ConditionTrue | ConditionFalse | ConditionUnknown

record condition =
  c_type :: string
  c_status :: cond_status
  c_reason :: string
  c_message :: string
  c_lastTransition :: int
  c_observedGeneration :: int

definition ConditionReady :: string where "ConditionReady = ''Ready''"
definition ConditionProvisioning :: string where "ConditionProvisioning = ''Provisioning''"
definition ConditionReconfiguring :: string where "ConditionReconfiguring = ''Reconfiguring''"
definition ConditionError :: string where "ConditionError = ''Error''"
definition ConditionHealthy :: string where "ConditionHealthy = ''Healthy''"

definition ReasonReconcileSuccess :: string where "ReasonReconcileSuccess = ''ReconcileSuccess''"
definition ReasonReconcileError :: string where "ReasonReconcileError = ''ReconcileError''"
definition ReasonProviderError :: string where "ReasonProviderError = ''ProviderError''"
definition ReasonValidationError :: string where "ReasonValidationError = ''ValidationError''"
definition ReasonCreating :: string where "ReasonCreating = ''Creating''"
definition ReasonDeleting :: string where "ReasonDeleting = ''Deleting''"
definition ReasonUpdating :: string where "ReasonUpdating = ''Updating''"
definition ReasonWaitingForDependencies :: string where "ReasonWaitingForDependencies = ''WaitingForDependencies''"
definition ReasonTaskInProgress :: string where "ReasonTaskInProgress = ''TaskInProgress''"

section \<open>internal/k8s\<close>

fun replace_condition :: "condition \<Rightarrow> condition list \<Rightarrow> condition list option" where
  "replace_condition new [] = None"
| "replace_condition new (e # cs) =
     (if c_type e = c_type new then
        Some ((if c_status e \<noteq> c_status new \<or> c_reason e \<noteq> c_reason new then new
               else new\<lparr>c_lastTransition := c_lastTransition e\<rparr>) # cs)
      else map_option (Cons e) (replace_condition new cs))"

definition SetCondition ::
  "int \<Rightarrow> string \<Rightarrow> cond_status \<Rightarrow> string \<Rightarrow> string \<Rightarrow> condition list \<Rightarrow> condition list" where
  "SetCondition now ctype status reason message cs =
     (let new = \<lparr>c_type = ctype, c_status = status, c_reason = reason, c_message = message,
                 c_lastTransition = now, c_observedGeneration = 0\<rparr> in
      case replace_condition new cs of Some cs' \<Rightarrow> cs' | None \<Rightarrow> cs @ [new])"

definition GetCondition :: "condition list \<Rightarrow> string \<Rightarrow> condition option" where
  "GetCondition cs ctype = find (\<lambda>c. c_type c = ctype) cs"

definition IsConditionTrue :: "condition list \<Rightarrow> string \<Rightarrow> bool" where
  "IsConditionTrue cs ctype \<longleftrightarrow>
     (case GetCondition cs ctype of None \<Rightarrow> False | Some c \<Rightarrow> c_status c = ConditionTrue)"

definition IsConditionFalse :: "condition list \<Rightarrow> string \<Rightarrow> bool" where
  "IsConditionFalse cs ctype \<longleftrightarrow>
     (case GetCondition cs ctype of None \<Rightarrow> False | Some c \<Rightarrow> c_status c = ConditionFalse)"

definition IsConditionUnknown :: "condition list \<Rightarrow> string \<Rightarrow> bool" where
  "IsConditionUnknown cs ctype \<longleftrightarrow>
     (case GetCondition cs ctype of None \<Rightarrow> False | Some c \<Rightarrow> c_status c = ConditionUnknown)"

definition SetReadyCondition where
  "SetReadyCondition now = SetCondition now ConditionReady"
definition SetProvisioningCondition where
  "SetProvisioningCondition now = SetCondition now ConditionProvisioning"
definition SetReconfiguringCondition where
  "SetReconfiguringCondition now = SetCondition now ConditionReconfiguring"
definition SetErrorCondition where
  "SetErrorCondition now = SetCondition now ConditionError"
definition SetHealthyCondition where
  "SetHealthyCondition now = SetCondition now ConditionHealthy"

section \<open>internal/util/k8s\<close>

text \<open>The argument is the pointer \<^verbatim>\<open>conditions\<close>: assigning through a nil pointer panics (\<open>None\<close>).\<close>

fun update_condition ::
  "int \<Rightarrow> string \<Rightarrow> cond_status \<Rightarrow> string \<Rightarrow> string \<Rightarrow> condition list \<Rightarrow> condition list option" where
  "update_condition now ctype status reason message [] = None"
| "update_condition now ctype status reason message (c # cs) =
     (if c_type c = ctype then
        Some ((if c_status c \<noteq> status \<or> c_reason c \<noteq> reason \<or> c_message c \<noteq> message
               then c\<lparr>c_status := status, c_reason := reason, c_message := message, c_lastTransition := now,
                     c_observedGeneration := wrap64 (c_observedGeneration c + 1)\<rparr>
               else c) # cs)
      else map_option (Cons c) (update_condition now ctype status reason message cs))"

definition util_SetCondition ::
  "int \<Rightarrow> string \<Rightarrow> cond_status \<Rightarrow> string \<Rightarrow> string \<Rightarrow> condition list option \<Rightarrow> condition list option" where
  "util_SetCondition now ctype status reason message ptr =
     (case ptr of
        None \<Rightarrow> None
      | Some cs \<Rightarrow>
          Some (case update_condition now ctype status reason message cs of
                  Some cs' \<Rightarrow> cs'
                | None \<Rightarrow> cs @ [\<lparr>c_type = ctype, c_status = status, c_reason = reason, c_message = message,
                                c_lastTransition = now, c_observedGeneration = 1\<rparr>]))"

definition util_GetCondition :: "condition list \<Rightarrow> string \<Rightarrow> condition option" where
  "util_GetCondition cs ctype = find (\<lambda>c. c_type c = ctype) cs"

definition util_IsConditionTrue :: "condition list \<Rightarrow> string \<Rightarrow> bool" where
  "util_IsConditionTrue cs ctype \<longleftrightarrow>
     (case util_GetCondition cs ctype of None \<Rightarrow> False | Some c \<Rightarrow> c_status c = ConditionTrue)"

definition util_IsConditionFalse :: "condition list \<Rightarrow> string \<Rightarrow> bool" where
  "util_IsConditionFalse cs ctype \<longleftrightarrow>
     (case util_GetCondition cs ctype of None \<Rightarrow> False | Some c \<Rightarrow> c_status c = ConditionFalse)"

fun remove_first :: "string \<Rightarrow> condition list \<Rightarrow> condition list" where
  "remove_first ctype [] = []"
| "remove_first ctype (c # cs) = (if c_type c = ctype then cs else c # remove_first ctype cs)"

definition RemoveCondition :: "string \<Rightarrow> condition list option \<Rightarrow> condition list option" where
  "RemoveCondition ctype ptr = map_option (remove_first ctype) ptr"

section \<open>The contract\<close>

text \<open>
  A list of conditions holds at most one condition per type, setting a type is read back and
  leaves the other types alone.
\<close>

definition conds_wf :: "condition list \<Rightarrow> bool" where
  "conds_wf cs \<longleftrightarrow> distinct (map c_type cs)"

locale condition_api =
  fixes set_cond :: "int \<Rightarrow> string \<Rightarrow> cond_status \<Rightarrow> string \<Rightarrow> string \<Rightarrow> condition list \<Rightarrow> condition list"
    and get_cond :: "condition list \<Rightarrow> string \<Rightarrow> condition option"
  assumes get_set: "\<exists>c. get_cond (set_cond now ty st rs msg cs) ty = Some c \<and>
      c_status c = st \<and> c_reason c = rs \<and> c_message c = msg"
    and get_set_other: "ty' \<noteq> ty \<Longrightarrow> get_cond (set_cond now ty st rs msg cs) ty' = get_cond cs ty'"
    and set_wf: "conds_wf cs \<Longrightarrow> conds_wf (set_cond now ty st rs msg cs)"
begin

definition status_of :: "condition list \<Rightarrow> string \<Rightarrow> cond_status option" where
  "status_of cs ty = map_option c_status (get_cond cs ty)"

lemma status_of_set: "status_of (set_cond now ty st rs msg cs) ty' = (if ty' = ty then Some st else status_of cs ty')"
  using get_set [of now ty st rs msg cs] get_set_other [of ty' ty] by (auto simp: status_of_def)

lemma status_of_set_twice:
  "status_of (set_cond n2 ty st2 r2 m2 (set_cond n1 ty st1 r1 m1 cs)) = status_of (set_cond n2 ty st2 r2 m2 cs)"
  by (rule ext) (simp add: status_of_set)

end

lemma find_append: "find P (xs @ ys) = (case find P xs of None \<Rightarrow> find P ys | Some x \<Rightarrow> Some x)"
  by (induction xs) auto

lemma find_None_iff_type: "find (\<lambda>c. c_type c = ty) cs = None \<longleftrightarrow> ty \<notin> c_type ` set cs"
  by (induction cs) auto

lemma replace_condition_None: "replace_condition new cs = None \<longleftrightarrow> c_type new \<notin> c_type ` set cs"
  by (induction cs) auto

lemma replace_condition_types: "replace_condition new cs = Some cs' \<Longrightarrow> map c_type cs' = map c_type cs"
  by (induction cs arbitrary: cs') (auto split: if_splits)

lemma replace_condition_find:
  "replace_condition new cs = Some cs' \<Longrightarrow>
   \<exists>t. find (\<lambda>c. c_type c = c_type new) cs' = Some (new\<lparr>c_lastTransition := t\<rparr>)"
proof (induction cs arbitrary: cs')
  case Nil
  then show ?case by simp
next
  case (Cons e cs)
  then show ?case
    by (auto split: if_splits intro: exI [of _ "c_lastTransition new"])
qed

lemma replace_condition_find_other:
  "replace_condition new cs = Some cs' \<Longrightarrow> ty \<noteq> c_type new \<Longrightarrow>
   find (\<lambda>c. c_type c = ty) cs' = find (\<lambda>c. c_type c = ty) cs"
  by (induction cs arbitrary: cs') (auto split: if_splits)

lemma update_condition_None: "update_condition now ty st rs msg cs = None \<longleftrightarrow> ty \<notin> c_type ` set cs"
  by (induction cs) auto

lemma update_condition_types:
  "update_condition now ty st rs msg cs = Some cs' \<Longrightarrow> map c_type cs' = map c_type cs"
  by (induction cs arbitrary: cs') (auto split: if_splits)

lemma update_condition_find:
  "update_condition now ty st rs msg cs = Some cs' \<Longrightarrow>
   \<exists>c. find (\<lambda>c. c_type c = ty) cs' = Some c \<and> c_status c = st \<and> c_reason c = rs \<and> c_message c = msg"
  by (induction cs arbitrary: cs') (auto split: if_splits)

lemma update_condition_find_other:
  "update_condition now ty st rs msg cs = Some cs' \<Longrightarrow> ty' \<noteq> ty \<Longrightarrow>
   find (\<lambda>c. c_type c = ty') cs' = find (\<lambda>c. c_type c = ty') cs"
  by (induction cs arbitrary: cs') (auto split: if_splits)

text \<open>The second implementation on a non-nil pointer.\<close>

definition util_set :: "int \<Rightarrow> string \<Rightarrow> cond_status \<Rightarrow> string \<Rightarrow> string \<Rightarrow> condition list \<Rightarrow> condition list" where
  "util_set now ty st rs msg cs = the (util_SetCondition now ty st rs msg (Some cs))"

interpretation k8s_conds: condition_api SetCondition GetCondition
proof (unfold_locales, goal_cases)
  case (1 now ty st rs msg cs)
  show ?case
  proof (cases "replace_condition \<lparr>c_type = ty, c_status = st, c_reason = rs, c_message = msg,
      c_lastTransition = now, c_observedGeneration = 0\<rparr> cs")
    case None
    then have "find (\<lambda>c. c_type c = ty) cs = None" by (simp add: replace_condition_None find_None_iff_type)
    with None show ?thesis by (simp add: SetCondition_def GetCondition_def find_append)
  next
    case (Some cs')
    then show ?thesis
      using replace_condition_find [OF Some] by (auto simp: SetCondition_def GetCondition_def)
  qed
next
  case (2 ty' ty now st rs msg cs)
  then show ?case
    by (auto simp: SetCondition_def GetCondition_def Let_def find_append replace_condition_find_other
        split: option.splits)
next
  case (3 cs now ty st rs msg)
  then show ?case
    by (auto simp: SetCondition_def conds_wf_def Let_def replace_condition_types replace_condition_None
        split: option.splits)
qed

interpretation util_conds: condition_api util_set util_GetCondition
proof (unfold_locales, goal_cases)
  case (1 now ty st rs msg cs)
  show ?case
  proof (cases "update_condition now ty st rs msg cs")
    case None
    then have "find (\<lambda>c. c_type c = ty) cs = None" by (simp add: update_condition_None find_None_iff_type)
    with None show ?thesis by (simp add: util_set_def util_SetCondition_def util_GetCondition_def find_append)
  next
    case (Some cs')
    then show ?thesis
      using update_condition_find [OF Some] by (auto simp: util_set_def util_SetCondition_def util_GetCondition_def)
  qed
next
  case (2 ty' ty now st rs msg cs)
  then show ?case
    by (auto simp: util_set_def util_SetCondition_def util_GetCondition_def find_append update_condition_find_other
        split: option.splits)
next
  case (3 cs now ty st rs msg)
  then show ?case
    by (auto simp: util_set_def util_SetCondition_def conds_wf_def update_condition_types update_condition_None
        split: option.splits)
qed

lemma IsConditionTrue_SetCondition [simp]:
  "IsConditionTrue (SetCondition now ty st rs msg cs) ty' \<longleftrightarrow>
   (if ty' = ty then st = ConditionTrue else IsConditionTrue cs ty')"
proof -
  have "IsConditionTrue cs ty \<longleftrightarrow> k8s_conds.status_of cs ty = Some ConditionTrue" for cs ty
    by (auto simp: IsConditionTrue_def k8s_conds.status_of_def split: option.splits)
  then show ?thesis by (simp add: k8s_conds.status_of_set)
qed

end
