(* ===== verification/KubeObjects.thy ===== *)
theory KubeObjects
  imports ProviderErrors Conditions
begin

text \<open>
  The API objects and provider-contract messages the controllers exchange (\<^verbatim>\<open>api/infra.virtrigaud.io\<close>,
  \<^verbatim>\<open>internal/providers/contracts\<close>, and what is read of the core types), and finalizer handling
  (\<^verbatim>\<open>internal/k8s/finalizers.go\<close>). A provider process is the record \<open>provider_instance\<close> of the
  functions its RPCs compute; the controllers are verified for every such record. String maps are HOL
  maps; a nil map and an empty map read the same.
\<close>

section \<open>Metadata\<close>

type_synonym nn = "string \<times> string"

record object_ref =
  or_name :: string
  or_namespace :: string

record object_meta =
  md_name :: string
  md_namespace :: string
  md_uid :: string
  md_generation :: int
  md_deleting :: bool
  md_finalizers :: "string list"
  md_labels :: "string \<rightharpoonup> string"
  md_annotations :: "string \<rightharpoonup> string"
  md_creation :: int

definition new_meta :: "string \<Rightarrow> string \<Rightarrow> object_meta" where
  "new_meta ns name = \<lparr>md_name = name, md_namespace = ns, md_uid = '''', md_generation = 0, md_deleting = False,
     md_finalizers = [], md_labels = Map.empty, md_annotations = Map.empty, md_creation = 0\<rparr>"

definition HasFinalizer :: "object_meta \<Rightarrow> string \<Rightarrow> bool" where
  "HasFinalizer m f \<longleftrightarrow> f \<in> set (md_finalizers m)"

definition IsBeingDeleted :: "object_meta \<Rightarrow> bool" where
  "IsBeingDeleted m \<longleftrightarrow> md_deleting m"

text \<open>\<^verbatim>\<open>controllerutil.AddFinalizer\<close> and \<^verbatim>\<open>RemoveFinalizer\<close> on the object in memory.\<close>

definition add_finalizer :: "string \<Rightarrow> object_meta \<Rightarrow> object_meta" where
  "add_finalizer f m = (if HasFinalizer m f then m else m\<lparr>md_finalizers := md_finalizers m @ [f]\<rparr>)"

definition remove_finalizer :: "string \<Rightarrow> object_meta \<Rightarrow> object_meta" where
  "remove_finalizer f m = m\<lparr>md_finalizers := filter (\<lambda>g. g \<noteq> f) (md_finalizers m)\<rparr>"

text \<open>
  \<^verbatim>\<open>AddFinalizer\<close> and \<^verbatim>\<open>RemoveFinalizer\<close>: the object to write back, \<open>None\<close> when nothing is written.
\<close>

definition AddFinalizer :: "object_meta \<Rightarrow> string \<Rightarrow> object_meta option" where
  "AddFinalizer m f = (if HasFinalizer m f then None else Some (add_finalizer f m))"

definition RemoveFinalizer :: "object_meta \<Rightarrow> string \<Rightarrow> object_meta option" where
  "RemoveFinalizer m f = (if \<not> HasFinalizer m f then None else Some (remove_finalizer f m))"

lemma HasFinalizer_add [simp]: "HasFinalizer (add_finalizer f m) f"
  by (simp add: add_finalizer_def HasFinalizer_def)

lemma HasFinalizer_remove [simp]: "\<not> HasFinalizer (remove_finalizer f m) f"
  by (simp add: remove_finalizer_def HasFinalizer_def)

lemma HasFinalizer_remove_other: "g \<noteq> f \<Longrightarrow> HasFinalizer (remove_finalizer f m) g = HasFinalizer m g"
  by (simp add: remove_finalizer_def HasFinalizer_def)

section \<open>Virtual machines\<close>

record imported_disk =
  id_DiskID :: string
  id_Path :: string
  id_Format :: string
  id_Source :: string
  id_MigrationRef :: "string option"
  id_SizeGiB :: int

record vm_network_ref =
  nr_Name :: string
  nr_NetworkRef :: "object_ref option"
  nr_IPAddress :: string
  nr_Prefix :: int
  nr_Gateway :: string
  nr_DNS :: string
  nr_MACAddress :: string

record vm_resources =
  rs_CPU :: "int option"
  rs_MemoryMiB :: "int option"

record vm_disk =
  dk_Name :: string
  dk_SizeGiB :: int
  dk_Type :: string

text \<open>\<^verbatim>\<open>CloudInit\<close> and \<^verbatim>\<open>CloudInitMetaData\<close>; the secret is in the namespace of the machine.\<close>

record cloud_init =
  ci_Inline :: string
  ci_SecretRef :: "string option"

text \<open>\<^verbatim>\<open>UserData\<close> and \<^verbatim>\<open>MetaData\<close> are their cloud-init parts; no controller reads the Ignition part.\<close>

record user_data =
  ud_CloudInit :: "cloud_init option"

record vm_placement =
  pl_Cluster :: string
  pl_Host :: string
  pl_Datastore :: string
  pl_StoragePod :: string
  pl_Folder :: string
  pl_ResourcePool :: string

record vm_spec =
  vs_ProviderRef :: object_ref
  vs_ClassRef :: object_ref
  vs_ImageRef :: "object_ref option"
  vs_ImportedDisk :: "imported_disk option"
  vs_Networks :: "vm_network_ref list"
  vs_Disks :: "vm_disk list"
  vs_UserData :: "user_data option"
  vs_MetaData :: "user_data option"
  vs_Placement :: "vm_placement option"
  vs_PowerState :: string
  vs_Tags :: "string list"
  vs_Resources :: "vm_resources option"
  vs_PlacementRef :: "string option"

record vm_status =
  vt_ID :: string
  vt_PowerState :: string
  vt_IPs :: "string list"
  vt_ConsoleURL :: string
  vt_Conditions :: "condition list"
  vt_ObservedGeneration :: int
  vt_LastTaskRef :: string
  vt_Provider :: "string \<rightharpoonup> string"
  vt_ReconfigureTaskRef :: string
  vt_LastReconfigureTime :: "int option"
  vt_CurrentResources :: "vm_resources option"
  vt_Phase :: string
  vt_Message :: string

record virtual_machine =
  vm_meta :: object_meta
  vm_spec :: vm_spec
  vm_status :: vm_status

definition no_ref :: object_ref where
  "no_ref = \<lparr>or_name = '''', or_namespace = ''''\<rparr>"

definition empty_vm_spec :: vm_spec where
  "empty_vm_spec = \<lparr>vs_ProviderRef = no_ref, vs_ClassRef = no_ref, vs_ImageRef = None, vs_ImportedDisk = None,
     vs_Networks = [], vs_Disks = [], vs_UserData = None, vs_MetaData = None, vs_Placement = None,
     vs_PowerState = '''', vs_Tags = [], vs_Resources = None, vs_PlacementRef = None\<rparr>"

definition empty_vm_status :: vm_status where
  "empty_vm_status = \<lparr>vt_ID = '''', vt_PowerState = '''', vt_IPs = [], vt_ConsoleURL = '''',
     vt_Conditions = [], vt_ObservedGeneration = 0, vt_LastTaskRef = '''', vt_Provider = Map.empty,
     vt_ReconfigureTaskRef = '''', vt_LastReconfigureTime = None, vt_CurrentResources = None, vt_Phase = '''', vt_Message = ''''\<rparr>"

definition PowerStateOn :: string where "PowerStateOn = ''On''"
definition PowerStateOff :: string where "PowerStateOff = ''Off''"
definition PowerStateOffGraceful :: string where "PowerStateOffGraceful = ''OffGraceful''"

section \<open>Providers\<close>

definition ProviderTypeVSphere :: string where "ProviderTypeVSphere = ''vsphere''"

record reported_capabilities =
  rp_SupportsReconfigureOnline :: bool
  rp_SupportsDiskExpansionOnline :: bool
  rp_SupportsSnapshots :: bool
  rp_SupportsMemorySnapshots :: bool
  rp_SupportsLinkedClones :: bool
  rp_SupportsImageImport :: bool
  rp_SupportedDiskTypes :: "string list"
  rp_SupportedNetworkTypes :: "string list"
  rp_SupportsDiskExport :: bool
  rp_SupportsDiskImport :: bool
  rp_SupportedExportFormats :: "string list"
  rp_SupportedImportFormats :: "string list"
  rp_SupportsExportCompression :: bool
  rp_SupportedExportBackends :: "string list"
  rp_SupportedImportBackends :: "string list"
  rp_SupportedTransferModes :: "string list"

record provider =
  pv_meta :: object_meta
  pv_Type :: string
  pv_Conditions :: "condition list"
  pv_ReportedCapabilities :: "reported_capabilities option"

section \<open>Core objects\<close>

record pvc =
  pc_meta :: object_meta
  pc_StorageClassName :: string
  pc_AccessMode :: string
  pc_Size :: string
  pc_Owner :: "string option"

text \<open>A volume is the claim name it binds, if it binds one.\<close>

type_synonym volume = "string option"

record deployment =
  dp_Volumes :: "volume list"
  dp_Replicas :: "int option"
  dp_UpdatedReplicas :: int
  dp_ReadyReplicas :: int

record pod =
  pd_deleting :: bool
  pd_Volumes :: "volume list"
  pd_Phase :: string
  pd_Conditions :: "(string \<times> bool) list"

section \<open>Provider contract\<close>

text \<open>The parts of a create request.\<close>

record disk_defaults =
  dd_Type :: string
  dd_SizeGiB :: int

record performance_profile =
  pp_LatencySensitivity :: string
  pp_CPUHotAddEnabled :: bool
  pp_MemoryHotAddEnabled :: bool
  pp_VirtualizationBasedSecurity :: bool
  pp_NestedVirtualization :: bool
  pp_HyperThreadingPolicy :: string

record security_profile =
  sx_SecureBoot :: bool
  sx_TPMEnabled :: bool
  sx_TPMVersion :: string
  sx_VTDEnabled :: bool
  sx_EncryptionEnabled :: bool
  sx_KeyProvider :: string
  sx_RequireEncryption :: bool

record resource_limits =
  rl_CPULimit :: "int option"
  rl_CPUReservation :: "int option"
  rl_MemoryLimitMiB :: "int option"
  rl_MemoryReservationMiB :: "int option"
  rl_CPUShares :: "int option"

record contract_class =
  kc_CPU :: int
  kc_MemoryMiB :: int
  kc_Firmware :: string
  kc_DiskDefaults :: "disk_defaults option"
  kc_GuestToolsPolicy :: string
  kc_ExtraConfig :: "string \<rightharpoonup> string"
  kc_PerformanceProfile :: "performance_profile option"
  kc_SecurityProfile :: "security_profile option"
  kc_ResourceLimits :: "resource_limits option"

record contract_image =
  ki_TemplateName :: string
  ki_Path :: string
  ki_URL :: string
  ki_Format :: string
  ki_Checksum :: string
  ki_ChecksumType :: string

record network_attachment =
  na_Name :: string
  na_Portgroup :: string
  na_NetworkName :: string
  na_Bridge :: string
  na_VLAN :: int
  na_Model :: string
  na_MacAddress :: string
  na_IPPolicy :: string
  na_StaticIP :: string
  na_Prefix :: int
  na_Gateway :: string
  na_DNS :: string
  na_PCISlotNumber :: "int option"

record contract_user_data =
  ku_CloudInitData :: string
  ku_Type :: string

record contract_placement =
  kp_Datastore :: string
  kp_StoragePod :: string
  kp_Cluster :: string
  kp_Folder :: string
  kp_Host :: string

text \<open>\<^verbatim>\<open>contracts.MetaData\<close> is its YAML text.\<close>

record create_request =
  rq_Name :: string
  rq_Class :: contract_class
  rq_Image :: contract_image
  rq_Networks :: "network_attachment list"
  rq_Disks :: "vm_disk list"
  rq_UserData :: "contract_user_data option"
  rq_MetaData :: "string option"
  rq_Placement :: "contract_placement option"
  rq_Tags :: "string list"

record create_response =
  cr_ID :: string
  cr_TaskRef :: string

record image_prepare_request =
  iq_ImageJSON :: string
  iq_TargetName :: string
  iq_StorageHint :: string

record image_prepare_response =
  ix_TaskRef :: string
  ix_PreparedImageID :: string
  ix_PreparedImagePath :: string

record vm_info_disk =
  vd_ID :: string
  vd_Path :: string
  vd_SizeGiB :: int
  vd_Format :: string

record vm_info_network =
  vn_Name :: string
  vn_MAC :: string
  vn_IPAddress :: string

record vm_info =
  vi_ID :: string
  vi_Name :: string
  vi_PowerState :: string
  vi_IPs :: "string list"
  vi_CPU :: int
  vi_MemoryMiB :: int
  vi_Disks :: "vm_info_disk list"
  vi_Networks :: "vm_info_network list"
  vi_ProviderRaw :: "string \<rightharpoonup> string"

datatype power_op = PowerOpOn | PowerOpOff | PowerOpReboot | PowerOpShutdownGraceful

record describe_response =
  ds_Exists :: bool
  ds_PowerState :: string
  ds_IPs :: "string list"
  ds_ConsoleURL :: string
  ds_ProviderRaw :: "string \<rightharpoonup> string"

record task_status =
  ts_IsCompleted :: bool
  ts_Error :: string
  ts_Message :: string

record snapshot_create_request =
  sq_VmId :: string
  sq_NameHint :: string
  sq_Description :: string
  sq_IncludeMemory :: bool
  sq_Quiesce :: bool

record snapshot_create_response =
  sr_SnapshotId :: string
  sr_Task :: "string option"

record export_disk_request =
  er_VmId :: string
  er_DiskId :: string
  er_SnapshotId :: string
  er_DestinationURL :: string
  er_Format :: string
  er_Compress :: bool
  er_Credentials :: "string \<rightharpoonup> string"
  er_BackendType :: string
  er_TransferMode :: string
  er_StorageOptionsJSON :: string

record export_disk_response =
  ep_ExportId :: string
  ep_TaskRef :: string
  ep_EstimatedSizeBytes :: int
  ep_Checksum :: string

record import_disk_request =
  ir_SourceURL :: string
  ir_StorageHint :: string
  ir_Format :: string
  ir_TargetName :: string
  ir_VerifyChecksum :: bool
  ir_ExpectedChecksum :: string
  ir_Credentials :: "string \<rightharpoonup> string"
  ir_BackendType :: string
  ir_TransferMode :: string
  ir_StorageOptionsJSON :: string

record import_disk_response =
  ip_DiskId :: string
  ip_Path :: string
  ip_TaskRef :: string
  ip_ActualSizeBytes :: int
  ip_Checksum :: string

record clone_request =
  cq_SourceVmID :: string
  cq_TargetName :: string
  cq_Linked :: bool
  cq_ClassJSON :: string
  cq_PlacementJSON :: string
  cq_CustomizeJSON :: string

record clone_response =
  cl_TargetVmID :: string
  cl_TaskRef :: string

record capabilities =
  cap_SupportsReconfigureOnline :: bool
  cap_SupportsDiskExpansionOnline :: bool
  cap_SupportsSnapshots :: bool
  cap_SupportsMemorySnapshots :: bool
  cap_SupportsLinkedClones :: bool
  cap_SupportsImageImport :: bool
  cap_SupportedDiskTypes :: "string list"
  cap_SupportedNetworkTypes :: "string list"
  cap_SupportsDiskExport :: bool
  cap_SupportsDiskImport :: bool
  cap_SupportedExportFormats :: "string list"
  cap_SupportedImportFormats :: "string list"
  cap_SupportsExportCompression :: bool
  cap_SupportedExportBackends :: "string list"
  cap_SupportedImportBackends :: "string list"
  cap_SupportedTransferModes :: "string list"

text \<open>
  The RPCs of a provider that the modelled controllers call. \<open>pi_GetCapabilities\<close> is \<open>None\<close> when the
  instance does not implement \<^verbatim>\<open>CapabilityReporter\<close>, \<open>pi_Clone\<close> when it is no \<^verbatim>\<open>Cloner\<close>, \<open>pi_PrepareImage\<close>
  when it is no \<^verbatim>\<open>ImagePreparer\<close>. The n-th poll of a task may answer differently from the first, so \<open>pi_IsTaskComplete\<close> takes the poll's number.
\<close>

record provider_instance =
  pi_Create :: "create_request \<Rightarrow> create_response result"
  pi_Reconfigure :: "string \<Rightarrow> create_request \<Rightarrow> string result"
  pi_Describe :: "string \<Rightarrow> describe_response result"
  pi_Power :: "string \<Rightarrow> power_op \<Rightarrow> string result"
  pi_Delete :: "string \<Rightarrow> string result"
  pi_IsTaskComplete :: "string \<Rightarrow> nat \<Rightarrow> bool result"
  pi_TaskStatus :: "string \<Rightarrow> task_status result"
  pi_SnapshotCreate :: "snapshot_create_request \<Rightarrow> snapshot_create_response result"
  pi_SnapshotDelete :: "string \<Rightarrow> string \<Rightarrow> string result"
  pi_ExportDisk :: "export_disk_request \<Rightarrow> export_disk_response result"
  pi_ImportDisk :: "import_disk_request \<Rightarrow> import_disk_response result"
  pi_GetCapabilities :: "capabilities result option"
  pi_Clone :: "(clone_request \<Rightarrow> clone_response result) option"
  pi_PrepareImage :: "(image_prepare_request \<Rightarrow> image_prepare_response result) option"
  pi_ListVMs :: "vm_info list result"

end
