(* ===== verification/AddrPolicy.thy ===== *)
theory AddrPolicy
  imports ProviderErrors
begin

unbundle bit_operations_syntax

text \<open>
  The address policy for migration storage hosts (\<^verbatim>\<open>internal/storage/migration/addrpolicy.go\<close>), which
  keeps a tenant-controlled S3 endpoint or NFS server from steering the provider towards internal
  addresses. A \<^verbatim>\<open>net.IP\<close> is a list of 4 or 16 bytes. Textual parsing of addresses, prefixes and URLs
  and the DNS lookup are the parameters collected in \<open>net_env\<close>; the address classification, the prefix
  containment and the host/port split are written out.
\<close>

type_synonym ip = "8 word list"

record ipnet =
  net_ip :: ip
  net_mask :: ip

record net_env =
  parse_ip :: "string \<Rightarrow> ip option"
  parse_cidr :: "string \<Rightarrow> ipnet option"
  url_host :: "string \<Rightarrow> string option"
  lookup_ip :: "string \<Rightarrow> ip list result"
  ip_text :: "ip \<Rightarrow> string"

section \<open>net.IP\<close>

definition to4 :: "ip \<Rightarrow> ip option" where
  "to4 x = (if length x = 4 then Some x
            else if length x = 16 \<and> take 10 x = replicate 10 0 \<and> x ! 10 = 0xff \<and> x ! 11 = 0xff
                 then Some (drop 12 x) else None)"

definition is_loopback :: "ip \<Rightarrow> bool" where
  "is_loopback x = (case to4 x of Some v \<Rightarrow> v ! 0 = 127 | None \<Rightarrow> x = replicate 15 0 @ [1])"

definition is_unspecified :: "ip \<Rightarrow> bool" where
  "is_unspecified x = (to4 x = Some [0, 0, 0, 0] \<or> x = replicate 16 0)"

definition is_link_local_unicast :: "ip \<Rightarrow> bool" where
  "is_link_local_unicast x =
     (case to4 x of
        Some v \<Rightarrow> v ! 0 = 169 \<and> v ! 1 = 254
      | None \<Rightarrow> length x = 16 \<and> x ! 0 = 0xfe \<and> x ! 1 AND 0xc0 = 0x80)"

definition is_link_local_multicast :: "ip \<Rightarrow> bool" where
  "is_link_local_multicast x =
     (case to4 x of
        Some v \<Rightarrow> v ! 0 = 224 \<and> v ! 1 = 0 \<and> v ! 2 = 0
      | None \<Rightarrow> length x = 16 \<and> x ! 0 = 0xff \<and> x ! 1 AND 0x0f = 0x02)"

definition is_interface_local_multicast :: "ip \<Rightarrow> bool" where
  "is_interface_local_multicast x = (length x = 16 \<and> x ! 0 = 0xff \<and> x ! 1 AND 0x0f = 0x01)"

definition is_multicast :: "ip \<Rightarrow> bool" where
  "is_multicast x =
     (case to4 x of Some v \<Rightarrow> v ! 0 AND 0xf0 = 0xe0 | None \<Rightarrow> length x = 16 \<and> x ! 0 = 0xff)"

text \<open>\<^verbatim>\<open>net.CIDRMask(ones, bits)\<close> for \<open>ones = bits\<close>, and \<^verbatim>\<open>(*IPNet).Contains\<close>.\<close>

definition full_mask :: "nat \<Rightarrow> ip" where
  "full_mask bits = replicate (bits div 8) 0xff"

definition net_number_and_mask :: "ipnet \<Rightarrow> (ip \<times> ip) option" where
  "net_number_and_mask n =
     (case to4 (net_ip n) of
        Some v \<Rightarrow>
          if length (net_mask n) = 4 then Some (v, net_mask n)
          else if length (net_mask n) = 16 then Some (v, drop 12 (net_mask n)) else None
      | None \<Rightarrow>
          if length (net_ip n) = 16 \<and> length (net_mask n) = 16 then Some (net_ip n, net_mask n) else None)"

definition net_contains :: "ipnet \<Rightarrow> ip \<Rightarrow> bool" where
  "net_contains n x =
     (case net_number_and_mask n of
        None \<Rightarrow> False
      | Some (nn, m) \<Rightarrow>
          (let y = (case to4 x of Some v \<Rightarrow> v | None \<Rightarrow> x) in
           length y = length nn \<and> (\<forall>i < length y. nn ! i AND m ! i = y ! i AND m ! i)))"

text \<open>
  \<^verbatim>\<open>net.SplitHostPort\<close>: \<open>Some host\<close> when it succeeds. The last colon separates the port; a host in
  brackets ends at the first closing bracket, which the last colon must follow directly; otherwise the
  host holds no colon; no further bracket is allowed.
\<close>

definition last_colon :: "string \<Rightarrow> nat option" where
  "last_colon s = (if CHR '':'' \<in> set s
     then Some (length s - 1 - length (takeWhile (\<lambda>c. c \<noteq> CHR '':'') (rev s))) else None)"

definition split_host_port :: "string \<Rightarrow> string option" where
  "split_host_port s =
     (case last_colon s of
        None \<Rightarrow> None
      | Some i \<Rightarrow>
          if starts_with ''['' s then
            (let e = length (takeWhile (\<lambda>c. c \<noteq> CHR '']'') s) in
             if e = length s \<or> e + 1 \<noteq> i then None
             else let host = take (e - 1) (drop 1 s) in
               if CHR ''['' \<in> set (drop 1 s) \<or> CHR '']'' \<in> set (drop (e + 1) s) then None else Some host)
          else let host = take i s in
            if CHR '':'' \<in> set host \<or> CHR ''['' \<in> set s \<or> CHR '']'' \<in> set s then None else Some host)"

section \<open>The policy\<close>

record host_policy =
  hp_allow :: "ipnet list"
  hp_allowConfigured :: bool

definition singleHostNet :: "ip \<Rightarrow> ipnet" where
  "singleHostNet x = (let bits = (if to4 x = None then 128 else 32) in \<lparr>net_ip = x, net_mask = full_mask bits\<rparr>)"

fun host_policy_loop :: "net_env \<Rightarrow> string list \<Rightarrow> host_policy \<Rightarrow> host_policy result" where
  "host_policy_loop ne [] p = Inr p"
| "host_policy_loop ne (raw # rest) p =
     (let entry = trim_space raw in
      if entry = '''' then host_policy_loop ne rest p
      else let p1 = p\<lparr>hp_allowConfigured := True\<rparr> in
        case parse_cidr ne entry of
          Some n \<Rightarrow> host_policy_loop ne rest (p1\<lparr>hp_allow := hp_allow p1 @ [n]\<rparr>)
        | None \<Rightarrow>
            (case parse_ip ne entry of
               Some x \<Rightarrow> host_policy_loop ne rest (p1\<lparr>hp_allow := hp_allow p1 @ [singleHostNet x]\<rparr>)
             | None \<Rightarrow> Inl (PlainError (''invalid storage-host allowlist entry '' @ [CHR 0x22] @ entry
                 @ [CHR 0x22] @ '' (want an IP or CIDR)''))))"

definition NewHostPolicy :: "net_env \<Rightarrow> string list \<Rightarrow> host_policy result" where
  "NewHostPolicy ne allow = host_policy_loop ne allow \<lparr>hp_allow = [], hp_allowConfigured = False\<rparr>"

definition inAllowlist :: "host_policy \<Rightarrow> ip \<Rightarrow> bool" where
  "inAllowlist p x = list_ex (\<lambda>n. net_contains n x) (hp_allow p)"

definition isAlwaysDenied :: "ip \<Rightarrow> bool" where
  "isAlwaysDenied x \<longleftrightarrow> is_loopback x \<or> is_unspecified x \<or> is_link_local_unicast x \<or>
     is_link_local_multicast x \<or> is_interface_local_multicast x \<or> is_multicast x"

definition resolveHost :: "net_env \<Rightarrow> string \<Rightarrow> ip list result" where
  "resolveHost ne host = (case parse_ip ne host of Some x \<Rightarrow> Inr [x] | None \<Rightarrow> lookup_ip ne host)"

fun check_addresses :: "net_env \<Rightarrow> host_policy \<Rightarrow> string \<Rightarrow> ip list \<Rightarrow> go_error option" where
  "check_addresses ne p h [] = None"
| "check_addresses ne p h (x # xs) =
     (if isAlwaysDenied x then
        Some (PlainError (''storage host '' @ [CHR 0x22] @ h @ [CHR 0x22] @ '' resolves to forbidden address '' @ ip_text ne x
          @ '' (loopback/link-local/metadata/multicast are blocked)''))
      else if hp_allowConfigured p \<and> \<not> inAllowlist p x then
        Some (PlainError (''storage host '' @ [CHR 0x22] @ h @ [CHR 0x22] @ '' ('' @ ip_text ne x
          @ '') is not in the configured storage-host allowlist''))
      else check_addresses ne p h xs)"

text \<open>The name that is resolved, after the port and brackets are stripped.\<close>

definition host_name_of :: "string \<Rightarrow> string" where
  "host_name_of host =
     (let h = trim_space host in
      trim_set ''[]'' (case split_host_port h of Some h' \<Rightarrow> h' | None \<Rightarrow> h))"

definition ValidateHost :: "net_env \<Rightarrow> host_policy \<Rightarrow> string \<Rightarrow> go_error option" where
  "ValidateHost ne p host =
     (if trim_space host = '''' then Some (PlainError ''storage host is empty'')
      else let h = host_name_of host in
        case resolveHost ne h of
          Inl e \<Rightarrow> Some (WrapError (''cannot resolve storage host '' @ [CHR 0x22] @ h @ [CHR 0x22] @ '': '') e)
        | Inr ips \<Rightarrow>
            if ips = [] then
              Some (PlainError (''storage host '' @ [CHR 0x22] @ h @ [CHR 0x22] @ '' resolved to no addresses''))
            else check_addresses ne p h ips)"

definition hostFromS3Endpoint :: "net_env \<Rightarrow> string \<Rightarrow> string" where
  "hostFromS3Endpoint ne endpoint =
     (let e = trim_space endpoint in
      if e = '''' then ''''
      else if contains_sub ''://'' e then
        (case url_host ne e of Some h \<Rightarrow> if h \<noteq> '''' then h else e | None \<Rightarrow> e)
      else e)"

definition ValidateS3Endpoint :: "net_env \<Rightarrow> host_policy \<Rightarrow> string \<Rightarrow> go_error option" where
  "ValidateS3Endpoint ne p endpoint =
     (let host = hostFromS3Endpoint ne endpoint in
      ValidateHost ne p (if host = '''' then ''s3.amazonaws.com'' else host))"

lemmas ip_class = isAlwaysDenied_def is_loopback_def is_unspecified_def is_link_local_unicast_def
  is_link_local_multicast_def is_interface_local_multicast_def is_multicast_def

section \<open>Properties\<close>

lemma to4_mapped [simp]: "to4 (replicate 10 0 @ [0xff, 0xff, a, b, c, d]) = Some [a, b, c, d]"
  by (simp add: to4_def nth_append)

lemma to4_v4 [simp]: "to4 [a, b, c, d] = Some [a, b, c, d]"
  by (simp add: to4_def)

lemma check_addresses_None:
  "check_addresses ne p h xs = None \<longleftrightarrow>
   (\<forall>x \<in> set xs. \<not> isAlwaysDenied x \<and> (hp_allowConfigured p \<longrightarrow> inAllowlist p x))"
  by (induction xs) auto

text \<open>The networks the allowlist entries denote.\<close>

definition entry_net :: "net_env \<Rightarrow> string \<Rightarrow> ipnet option" where
  "entry_net ne entry =
     (case parse_cidr ne entry of Some n \<Rightarrow> Some n | None \<Rightarrow> map_option singleHostNet (parse_ip ne entry))"

definition allow_entries :: "string list \<Rightarrow> string list" where
  "allow_entries allow = filter (\<lambda>e. e \<noteq> '''') (map trim_space allow)"

lemma host_policy_loop_spec:
  "host_policy_loop ne allow p = Inr p' \<Longrightarrow>
   hp_allow p' = hp_allow p @ map (\<lambda>e. the (entry_net ne e)) (allow_entries allow) \<and>
   (\<forall>e \<in> set (allow_entries allow). entry_net ne e \<noteq> None) \<and>
   (hp_allowConfigured p' \<longleftrightarrow> hp_allowConfigured p \<or> allow_entries allow \<noteq> [])"
proof (induction allow arbitrary: p)
  case Nil
  then show ?case by (simp add: allow_entries_def)
next
  case (Cons raw rest)
  show ?case
  proof (cases "trim_space raw = ''''")
    case True
    with Cons show ?thesis by (simp add: allow_entries_def)
  next
    case False
    with Cons.prems obtain n where n: "entry_net ne (trim_space raw) = Some n"
        "host_policy_loop ne rest (p\<lparr>hp_allowConfigured := True, hp_allow := hp_allow p @ [n]\<rparr>) = Inr p'"
      by (auto simp: entry_net_def Let_def split: option.splits)
    from Cons.IH [OF n(2)] n(1) False show ?thesis by (auto simp: allow_entries_def)
  qed
qed

text \<open>
  The storage-host gate: when the operator's allowlist parses to a policy and that policy accepts
  a host, the host's name resolves to at least one address and every resolved address is neither
  loopback, unspecified, link-local nor multicast and, if the allowlist has a non-blank entry, lies in
  the network of one of its entries.
\<close>

lemma ValidateHost_sound:
  assumes "NewHostPolicy ne allow = Inr p" and "ValidateHost ne p host = None"
  shows "\<exists>ips. resolveHost ne (host_name_of host) = Inr ips \<and> ips \<noteq> [] \<and>
    (\<forall>x \<in> set ips. \<not> isAlwaysDenied x \<and>
      (allow_entries allow \<noteq> [] \<longrightarrow>
        (\<exists>e n. e \<in> set (allow_entries allow) \<and> entry_net ne e = Some n \<and> net_contains n x)))"
proof -
  have spec: "hp_allow p = map (\<lambda>e. the (entry_net ne e)) (allow_entries allow)"
      "\<forall>e \<in> set (allow_entries allow). entry_net ne e \<noteq> None"
      "hp_allowConfigured p \<longleftrightarrow> allow_entries allow \<noteq> []"
    using host_policy_loop_spec [OF assms(1) [unfolded NewHostPolicy_def]] by simp_all
  obtain ips where ips: "resolveHost ne (host_name_of host) = Inr ips" "ips \<noteq> []"
      "check_addresses ne p (host_name_of host) ips = None"
    using assms(2) by (auto simp: ValidateHost_def Let_def split: if_splits sum.splits)
  have "\<exists>e n. e \<in> set (allow_entries allow) \<and> entry_net ne e = Some n \<and> net_contains n x"
    if "x \<in> set ips" "allow_entries allow \<noteq> []" for x
  proof -
    have "inAllowlist p x" using that ips(3) spec(3) by (simp add: check_addresses_None)
    then obtain e where "e \<in> set (allow_entries allow)" "net_contains (the (entry_net ne e)) x"
      by (auto simp: inAllowlist_def list_ex_iff spec(1))
    with spec(2) show ?thesis by (intro exI [of _ e]) auto
  qed
  with ips show ?thesis by (auto simp: check_addresses_None)
qed

text \<open>A network environment for examples: two literals, no DNS.\<close>

definition sample_net :: net_env where
  "sample_net = \<lparr>
     parse_ip = (\<lambda>s. if s = ''10.0.0.9'' then Some (replicate 10 0 @ [0xff, 0xff, 10, 0, 0, 9])
                     else if s = ''169.254.169.254'' then Some (replicate 10 0 @ [0xff, 0xff, 169, 254, 169, 254])
                     else None),
     parse_cidr = (\<lambda>s. if s = ''10.0.0.0/8'' then Some \<lparr>net_ip = [10, 0, 0, 0], net_mask = [255, 0, 0, 0]\<rparr> else None),
     url_host = (\<lambda>s. None),
     lookup_ip = (\<lambda>s. Inl (PlainError ''no such host'')),
     ip_text = (\<lambda>x. '''')\<rparr>"

text \<open>
  The cloud-metadata range is out of reach whatever the configuration: a host one of whose
  addresses is \<open>169.254.x.y\<close>, written as IPv4 or as an IPv4-mapped IPv6 address, is rejected by every
  policy.
\<close>

lemma ValidateHost_blocks_metadata:
  assumes "resolveHost ne (host_name_of host) = Inr ips" "x \<in> set ips"
    and "x = [169, 254, a, b] \<or> x = replicate 10 0 @ [0xff, 0xff, 169, 254, a, b]"
  shows "ValidateHost ne p host \<noteq> None"
proof -
  have "to4 x = Some [169, 254, a, b]" using assms(3) by auto
  then have "isAlwaysDenied x" by (simp add: isAlwaysDenied_def is_link_local_unicast_def)
  then have "check_addresses ne p (host_name_of host) ips \<noteq> None"
    using assms(2) by (auto simp: check_addresses_None)
  with assms show ?thesis by (auto simp: ValidateHost_def Let_def)
qed

end
