(* ===== verification/Paths.thy ===== *)
theory Paths
  imports Prelude
begin

text \<open>
  Go's lexical path processing (\<^verbatim>\<open>path.Clean\<close>, \<^verbatim>\<open>filepath.Clean\<close> and \<^verbatim>\<open>filepath.Join\<close> on Unix), which the
  storage code uses to confine object names to an export or a mount.
\<close>

fun clean_segs :: "bool \<Rightarrow> string list \<Rightarrow> string list \<Rightarrow> string list" where
  "clean_segs rooted out [] = rev out"
| "clean_segs rooted out (w # ws) =
     (if w = [] \<or> w = ''.'' then clean_segs rooted out ws
      else if w = ''..'' then
        (case out of
           [] \<Rightarrow> if rooted then clean_segs rooted [] ws else clean_segs rooted [''..''] ws
         | o1 # os \<Rightarrow> if o1 = ''..'' then clean_segs rooted (''..'' # out) ws else clean_segs rooted os ws)
      else clean_segs rooted (w # out) ws)"

definition path_clean :: "string \<Rightarrow> string" where
  "path_clean p =
     (if p = [] then ''.''
      else let rooted = starts_with ''/'' p;
               segs = clean_segs rooted [] (split_on CHR ''/'' p)
           in if rooted then CHR ''/'' # join_with CHR ''/'' segs
              else if segs = [] then ''.'' else join_with CHR ''/'' segs)"

definition filepath_join :: "string \<Rightarrow> string \<Rightarrow> string" where
  "filepath_join a b =
     (if a = [] \<and> b = [] then []
      else if a = [] then path_clean b
      else path_clean (a @ CHR ''/'' # b))"

text \<open>The proper segments of a path.\<close>

definition segs_of :: "string \<Rightarrow> string list" where
  "segs_of p = filter (\<lambda>w. w \<noteq> [] \<and> w \<noteq> ''.'') (split_on CHR ''/'' p)"

lemma split_on_sep: "split_on d (a @ d # b) = split_on d a @ split_on d b"
  by (induction a) (auto split: list.splits)

lemma split_on_word: "d \<notin> set w \<Longrightarrow> split_on d w = [w]"
  by (induction w) auto

lemma split_on_Cons_sep: "split_on d (d # b) = [] # split_on d b"
  by simp

lemma segs_of_slash [simp]: "segs_of (a @ CHR ''/'' # b) = segs_of a @ segs_of b"
  by (simp add: segs_of_def split_on_sep)

lemma segs_of_Cons_slash [simp]: "segs_of (CHR ''/'' # b) = segs_of b"
  by (simp add: segs_of_def)

lemma segs_of_Nil [simp]: "segs_of [] = []"
  by (simp add: segs_of_def)

lemma segs_of_dropWhile: "segs_of (dropWhile (\<lambda>c. c = CHR ''/'') p) = segs_of p"
  by (induction p) auto

lemma segs_of_snoc_slash: "segs_of (p @ [CHR ''/'']) = segs_of p"
  using segs_of_slash [of p "[]"] by simp

lemma segs_of_strip_right: "segs_of (rev (dropWhile (\<lambda>c. c = CHR ''/'') (rev p))) = segs_of p"
  by (induction p rule: rev_induct) (auto simp: segs_of_snoc_slash)

lemma segs_of_trim [simp]: "segs_of (trim_set ''/'' p) = segs_of p"
  by (simp add: trim_set_def segs_of_strip_right segs_of_dropWhile)

lemma clean_segs_plain:
  "''..'' \<notin> set ws \<Longrightarrow> clean_segs r out ws = rev out @ filter (\<lambda>w. w \<noteq> [] \<and> w \<noteq> ''.'') ws"
  by (induction ws arbitrary: out) auto

lemma no_dotdot_iff: "''..'' \<in> set (segs_of p) \<longleftrightarrow> ''..'' \<in> set (split_on CHR ''/'' p)"
  by (auto simp: segs_of_def)

lemma path_clean_rooted:
  assumes "''..'' \<notin> set (segs_of p)"
  shows "path_clean (CHR ''/'' # p) = CHR ''/'' # join_with CHR ''/'' (segs_of p)"
  using assms
  by (simp add: path_clean_def starts_with_def clean_segs_plain no_dotdot_iff segs_of_def Let_def)

lemma good_segs:
  "w \<in> set (segs_of p) \<Longrightarrow> w \<noteq> [] \<and> w \<noteq> ''.'' \<and> CHR ''/'' \<notin> set w"
  using split_on_no_sep by (fastforce simp: segs_of_def)

lemma segs_of_word: "w \<noteq> [] \<Longrightarrow> w \<noteq> ''.'' \<Longrightarrow> CHR ''/'' \<notin> set w \<Longrightarrow> segs_of w = [w]"
  by (simp add: segs_of_def split_on_word)

lemma segs_of_join:
  "(\<And>w. w \<in> set ws \<Longrightarrow> w \<noteq> [] \<and> w \<noteq> ''.'' \<and> CHR ''/'' \<notin> set w) \<Longrightarrow> segs_of (join_with CHR ''/'' ws) = ws"
  by (induction ws rule: induct_list012) (simp_all add: segs_of_word)

lemma contains_sub_segment:
  assumes "w \<in> set (split_on d s)"
  shows "contains_sub w s"
  using assms
proof (induction s arbitrary: w)
  case Nil
  then show ?case by simp
next
  case (Cons c s)
  obtain v vs where v: "split_on d s = v # vs" by (cases "split_on d s") auto
  have pre: "\<exists>b. s = v @ b" using join_split_on [of d s] v by (cases vs) auto
  from Cons.prems v consider "w = []" | "c \<noteq> d" "w = c # v" | "w \<in> set (split_on d s)"
    by (auto split: if_splits)
  then show ?case
  proof cases
    case 1
    then show ?thesis by (auto simp: contains_sub_iff)
  next
    case 2
    with pre show ?thesis by (auto simp: starts_with_iff)
  next
    case 3
    with Cons.IH show ?thesis by simp
  qed
qed

end
