(* ===== verification/StorageBackends.thy ===== *)
theory StorageBackends
  imports ProviderErrors Paths
begin

text \<open>
  The staging-backend surface of disk migration (\<^verbatim>\<open>internal/storage/migration\<close>: \<^verbatim>\<open>backend.go\<close>,
  \<^verbatim>\<open>options.go\<close>, \<^verbatim>\<open>storageconfig.go\<close>, \<^verbatim>\<open>nfs.go\<close>): the backend and mode names, the sets providers
  advertise, the guards they run, and the construction of the NFS URL. JSON encoding of the options
  is a parameter (\<open>enc\<close>, \<open>dec\<close>).
\<close>

section \<open>Backends and modes\<close>

definition BackendPVC :: string where "BackendPVC = ''pvc''"
definition BackendNFS :: string where "BackendNFS = ''nfs''"
definition BackendS3 :: string where "BackendS3 = ''s3''"
definition TransferModeAuto :: string where "TransferModeAuto = ''auto''"
definition TransferModeRelay :: string where "TransferModeRelay = ''relay''"
definition TransferModeDirect :: string where "TransferModeDirect = ''direct''"

lemmas backend_names = BackendPVC_def BackendNFS_def BackendS3_def
  TransferModeAuto_def TransferModeRelay_def TransferModeDirect_def

definition PVCOnlyExportBackends :: "string list" where "PVCOnlyExportBackends = [BackendPVC]"
definition PVCOnlyImportBackends :: "string list" where "PVCOnlyImportBackends = [BackendPVC]"
definition PVCAndS3ExportBackends :: "string list" where "PVCAndS3ExportBackends = [BackendPVC, BackendS3]"
definition PVCAndS3ImportBackends :: "string list" where "PVCAndS3ImportBackends = [BackendPVC, BackendS3]"
definition PVCS3AndNFSExportBackends :: "string list" where
  "PVCS3AndNFSExportBackends = [BackendPVC, BackendS3, BackendNFS]"
definition PVCS3AndNFSImportBackends :: "string list" where
  "PVCS3AndNFSImportBackends = [BackendPVC, BackendS3, BackendNFS]"
definition S3AndNFSExportBackends :: "string list" where "S3AndNFSExportBackends = [BackendS3, BackendNFS]"
definition S3AndNFSImportBackends :: "string list" where "S3AndNFSImportBackends = [BackendS3, BackendNFS]"
definition S3OnlyExportBackends :: "string list" where "S3OnlyExportBackends = [BackendS3]"
definition S3OnlyImportBackends :: "string list" where "S3OnlyImportBackends = [BackendS3]"
definition RelayOnlyTransferModes :: "string list" where "RelayOnlyTransferModes = [TransferModeRelay]"

text \<open>\<^verbatim>\<open>%q\<close> on the names the controller uses, which need no escaping.\<close>

definition quoted :: "string \<Rightarrow> string" where
  "quoted s = CHR 0x22 # s @ [CHR 0x22]"

definition EnsureRelayMode :: "string \<Rightarrow> go_error option" where
  "EnsureRelayMode mode =
     (if mode = '''' \<or> mode = TransferModeAuto \<or> mode = TransferModeRelay then None
      else Some (GrpcError CodeInvalidArgument
        (''transfer mode '' @ quoted mode @ '' not supported; only '' @ quoted TransferModeRelay
         @ '' is implemented (ADR-0006 Slice 1)'')))"

definition backend_unimplemented :: "string \<Rightarrow> go_error" where
  "backend_unimplemented b = GrpcError CodeUnimplemented
     (''backend '' @ quoted b @ '' not yet supported on this provider/direction (ADR-0006)'')"

definition EnsurePVCBackend :: "string \<Rightarrow> go_error option" where
  "EnsurePVCBackend b = (if b = '''' \<or> b = BackendPVC then None else Some (backend_unimplemented b))"

definition EnsurePVCOrS3Backend :: "string \<Rightarrow> go_error option" where
  "EnsurePVCOrS3Backend b =
     (if b = '''' \<or> b = BackendPVC \<or> b = BackendS3 then None else Some (backend_unimplemented b))"

definition EnsurePVCS3OrNFSBackend :: "string \<Rightarrow> go_error option" where
  "EnsurePVCS3OrNFSBackend b =
     (if b = '''' \<or> b = BackendPVC \<or> b = BackendS3 \<or> b = BackendNFS then None
      else Some (backend_unimplemented b))"

definition EnsureS3OrNFSBackend :: "string \<Rightarrow> go_error option" where
  "EnsureS3OrNFSBackend b =
     (if b = BackendS3 \<or> b = BackendNFS then None
      else Some (GrpcError CodeUnimplemented
        (''backend '' @ quoted b @ '' not supported on this provider; only s3 and nfs are implemented (ADR-0006)'')))"

text \<open>
  What the controller's storage gate relies on when it compares the resolved backend with what a
  provider advertises: a guard and an advertised set agree, the empty name standing for pvc.
\<close>

locale honest_backends =
  fixes advertised :: "string list"
    and ensure :: "string \<Rightarrow> go_error option"
  assumes ensure_ok: "ensure b = None \<longleftrightarrow> (if b = '''' then BackendPVC else b) \<in> set advertised"
begin

lemma advertised_accepted: "b \<in> set advertised \<Longrightarrow> b \<noteq> '''' \<Longrightarrow> ensure b = None"
  by (simp add: ensure_ok)

lemma not_advertised_rejected: "b \<notin> set advertised \<Longrightarrow> b \<noteq> '''' \<Longrightarrow> ensure b \<noteq> None"
  by (simp add: ensure_ok)

end

lemmas honest_defs = backend_names PVCOnlyExportBackends_def PVCOnlyImportBackends_def
  PVCAndS3ExportBackends_def PVCAndS3ImportBackends_def PVCS3AndNFSExportBackends_def
  PVCS3AndNFSImportBackends_def S3AndNFSExportBackends_def S3AndNFSImportBackends_def
  EnsurePVCBackend_def EnsurePVCOrS3Backend_def EnsurePVCS3OrNFSBackend_def EnsureS3OrNFSBackend_def

interpretation pvc_only: honest_backends PVCOnlyExportBackends EnsurePVCBackend
  by unfold_locales (auto simp: honest_defs)

interpretation pvc_s3: honest_backends PVCAndS3ExportBackends EnsurePVCOrS3Backend
  by unfold_locales (auto simp: honest_defs)

interpretation pvc_s3_nfs_export: honest_backends PVCS3AndNFSExportBackends EnsurePVCS3OrNFSBackend
  by unfold_locales (auto simp: honest_defs)

interpretation pvc_s3_nfs_import: honest_backends PVCS3AndNFSImportBackends EnsurePVCS3OrNFSBackend
  by unfold_locales (auto simp: honest_defs)

interpretation s3_nfs_export: honest_backends S3AndNFSExportBackends EnsureS3OrNFSBackend
  by unfold_locales (auto simp: honest_defs)

interpretation s3_nfs_import: honest_backends S3AndNFSImportBackends EnsureS3OrNFSBackend
  by unfold_locales (auto simp: honest_defs)

section \<open>Storage options\<close>

definition CredKeyAccessKeyID :: string where "CredKeyAccessKeyID = ''accessKeyID''"
definition CredKeySecretAccessKey :: string where "CredKeySecretAccessKey = ''secretAccessKey''"
definition CredKeySessionToken :: string where "CredKeySessionToken = ''sessionToken''"

record storage_options =
  so_Backend :: string
  so_Bucket :: string
  so_Endpoint :: string
  so_Region :: string
  so_Prefix :: string
  so_UsePathStyle :: bool
  so_Server :: string
  so_Export :: string
  so_Path :: string
  so_UID :: "int option"
  so_GID :: "int option"

definition zero_options :: storage_options where
  "zero_options = \<lparr>so_Backend = '''', so_Bucket = '''', so_Endpoint = '''', so_Region = '''', so_Prefix = '''',
     so_UsePathStyle = False, so_Server = '''', so_Export = '''', so_Path = '''', so_UID = None, so_GID = None\<rparr>"

definition MarshalStorageOptions :: "(storage_options \<Rightarrow> string result) \<Rightarrow> storage_options \<Rightarrow> string result" where
  "MarshalStorageOptions enc opts =
     (case enc opts of Inl e \<Rightarrow> Inl (WrapError ''marshal storage options: '' e) | Inr b \<Rightarrow> Inr b)"

definition ParseStorageOptions :: "(string \<Rightarrow> storage_options result) \<Rightarrow> string \<Rightarrow> storage_options result" where
  "ParseStorageOptions dec raw =
     (if raw = '''' then Inr zero_options
      else case dec raw of Inl e \<Rightarrow> Inl (WrapError ''parse storage options json: '' e) | Inr o1 \<Rightarrow> Inr o1)"

record s3_config =
  s3_Endpoint :: string
  s3_Region :: string
  s3_Bucket :: string
  s3_UsePathStyle :: bool
  s3_AccessKeyID :: string
  s3_SecretAccessKey :: string
  s3_SessionToken :: string

record storage_config =
  sc_Type :: string
  sc_PVCName :: string
  sc_PVCNamespace :: string
  sc_MountPath :: string
  sc_S3 :: "s3_config option"

text \<open>A Go map read of an absent key yields the empty string.\<close>

definition map_get :: "(string \<rightharpoonup> string) \<Rightarrow> string \<Rightarrow> string" where
  "map_get m k = (case m k of None \<Rightarrow> '''' | Some v \<Rightarrow> v)"

definition S3StorageConfigFromRequest ::
  "(string \<Rightarrow> storage_options result) \<Rightarrow> string \<Rightarrow> (string \<rightharpoonup> string) \<Rightarrow> storage_config result" where
  "S3StorageConfigFromRequest dec js creds =
     (case ParseStorageOptions dec js of
        Inl e \<Rightarrow> Inl e
      | Inr opts \<Rightarrow>
          if so_Bucket opts = '''' then Inl (PlainError ''s3 storage options missing bucket'')
          else let accessKey = map_get creds CredKeyAccessKeyID;
                   secretKey = map_get creds CredKeySecretAccessKey
               in if accessKey = '''' \<or> secretKey = '''' then
                    Inl (PlainError (''s3 credentials missing keys '' @ quoted CredKeyAccessKeyID @ ''/''
                           @ quoted CredKeySecretAccessKey))
                  else Inr \<lparr>sc_Type = BackendS3, sc_PVCName = '''', sc_PVCNamespace = '''', sc_MountPath = '''',
                      sc_S3 = Some \<lparr>s3_Endpoint = so_Endpoint opts, s3_Region = so_Region opts,
                        s3_Bucket = so_Bucket opts, s3_UsePathStyle = so_UsePathStyle opts,
                        s3_AccessKeyID = accessKey, s3_SecretAccessKey = secretKey,
                        s3_SessionToken = map_get creds CredKeySessionToken\<rparr>\<rparr>)"

section \<open>NFS URL\<close>

definition nfsUIDGIDMax :: int where "nfsUIDGIDMax = 4294967295"

text \<open>
  The scan over the runes of \<open>v\<close>: all bytes of a multi-byte rune are above 0x7f and match no case, so
  the scan over the bytes takes the same branch.
\<close>

fun reject_runes :: "string \<Rightarrow> bool \<Rightarrow> string \<Rightarrow> go_error option" where
  "reject_runes name isPath [] = None"
| "reject_runes name isPath (r # v) =
     (if of_char r < (0x20 :: nat) \<or> of_char r = (0x7f :: nat) then
        Some (PlainError (name @ '' contains a control character''))
      else if r = CHR '' '' \<or> r = CHR 0x09 then Some (PlainError (name @ '' contains whitespace''))
      else if r = CHR ''?'' \<or> r = CHR ''#'' \<or> r = CHR ''&'' then
        Some (PlainError (name @ '' contains a URL delimiter '' @ [CHR 0x27, r, CHR 0x27]))
      else if \<not> isPath \<and> r = CHR ''/'' then
        Some (PlainError (name @ '' must not contain '' @ [CHR 0x27, CHR ''/'', CHR 0x27]))
      else reject_runes name isPath v)"

definition rejectURLUnsafe :: "string \<Rightarrow> string \<Rightarrow> bool \<Rightarrow> go_error option" where
  "rejectURLUnsafe name v isPath =
     (if v = '''' then None
      else case reject_runes name isPath v of
        Some e \<Rightarrow> Some e
      | None \<Rightarrow>
          if isPath \<and> ''..'' \<in> set (split_on CHR ''/'' v) then
            Some (PlainError (name @ '' contains a '' @ [CHR 0x27] @ ''..'' @ [CHR 0x27] @ '' path segment''))
          else None)"

fun first_unsafe :: "(string \<times> string) list \<Rightarrow> go_error option" where
  "first_unsafe [] = None"
| "first_unsafe ((name, v) # segs) =
     (case rejectURLUnsafe name v True of Some e \<Rightarrow> Some e | None \<Rightarrow> first_unsafe segs)"

definition nfs_id_out_of_range :: "string \<Rightarrow> int \<Rightarrow> go_error" where
  "nfs_id_out_of_range what i =
     PlainError (''nfs '' @ what @ '' '' @ show_int i @ '' out of range [0,'' @ show_int nfsUIDGIDMax @ '']'')"

text \<open>\<^verbatim>\<open>url.Values.Encode\<close> emits the keys in sorted order: gid before uid.\<close>

definition nfs_query :: "int option \<Rightarrow> int option \<Rightarrow> string" where
  "nfs_query uid gid =
     (case (uid, gid) of
        (None, None) \<Rightarrow> ''''
      | (Some u, None) \<Rightarrow> ''?uid='' @ show_int u
      | (None, Some g) \<Rightarrow> ''?gid='' @ show_int g
      | (Some u, Some g) \<Rightarrow> ''?gid='' @ show_int g @ ''&uid='' @ show_int u)"

definition id_ok :: "int option \<Rightarrow> bool" where
  "id_ok i \<longleftrightarrow> (case i of None \<Rightarrow> True | Some n \<Rightarrow> \<not> (n < 0 \<or> n > nfsUIDGIDMax))"

definition NFSURL :: "storage_options \<Rightarrow> string \<Rightarrow> string result" where
  "NFSURL opts key =
     (let server = trim_space (so_Server opts) in
      if server = '''' then Inl (PlainError ''nfs server is empty'')
      else case rejectURLUnsafe ''nfs server'' server False of
        Some e \<Rightarrow> Inl e
      | None \<Rightarrow>
        (let export = trim_space (so_Export opts) in
         if export = '''' \<or> \<not> starts_with ''/'' export then
           Inl (PlainError (''nfs export must be an absolute path, got '' @ quoted export))
         else case first_unsafe [(''nfs export'', export), (''nfs path'', so_Path opts), (''nfs key'', key)] of
           Some e \<Rightarrow> Inl e
         | None \<Rightarrow>
           (let full = path_clean (''/'' @ trim_set ''/'' export @ ''/'' @ trim_set ''/'' (so_Path opts)
                         @ ''/'' @ trim_set ''/'' key);
                u = ''nfs://'' @ server @ full
            in if \<not> id_ok (so_UID opts) then Inl (nfs_id_out_of_range ''uid'' (the (so_UID opts)))
               else if \<not> id_ok (so_GID opts) then Inl (nfs_id_out_of_range ''gid'' (the (so_GID opts)))
               else Inr (u @ nfs_query (so_UID opts) (so_GID opts)))))"

definition url_unsafe :: "char \<Rightarrow> bool" where
  "url_unsafe c \<longleftrightarrow> of_char c < (0x20 :: nat) \<or> of_char c = (0x7f :: nat) \<or> c \<in> set '' ?#&'' \<or> c = CHR 0x09"

lemma reject_runes_None:
  "reject_runes name isPath v = None \<longleftrightarrow> (\<forall>c \<in> set v. \<not> url_unsafe c \<and> (isPath \<or> c \<noteq> CHR ''/''))"
  by (induction v) (auto simp: url_unsafe_def)

lemma rejectURLUnsafe_None:
  "rejectURLUnsafe name v isPath = None \<longleftrightarrow>
   (\<forall>c \<in> set v. \<not> url_unsafe c \<and> (isPath \<or> c \<noteq> CHR ''/'')) \<and> (isPath \<longrightarrow> ''..'' \<notin> set (segs_of v))"
proof (cases "reject_runes name isPath v")
  case None
  then show ?thesis
    using reject_runes_None [of name isPath v] by (auto simp: rejectURLUnsafe_def no_dotdot_iff)
next
  case (Some e)
  then have "\<not> (\<forall>c \<in> set v. \<not> url_unsafe c \<and> (isPath \<or> c \<noteq> CHR ''/''))"
    using reject_runes_None [of name isPath v] by simp
  then show ?thesis using Some by (auto simp: rejectURLUnsafe_def)
qed

lemma set_join_with: "set (join_with d ws) \<subseteq> insert d (\<Union> (set ` set ws))"
  by (induction ws rule: induct_list012) auto

lemma set_segs_of: "w \<in> set (segs_of p) \<Longrightarrow> set w \<subseteq> set p"
  using set_split_on [of w "CHR ''/''" p] by (auto simp: segs_of_def)

text \<open>
  Confinement of the NFS URL: whenever \<open>NFSURL\<close> succeeds, the URL is the scheme, the trimmed
  server, an absolute path and a query made only of the numeric uid and gid. The path consists of the
  segments of the export, then those of the sub-path, then those of the key, none of them \<open>..\<close>, so it
  lies under the export; neither the server nor the path holds a control character, a blank or one of
  the delimiters \<open>?\<close>, \<open>#\<close>, \<open>&\<close>; and the server holds no \<open>/\<close>.
\<close>

lemma NFSURL_confined:
  assumes "NFSURL opts key = Inr u"
  shows "\<exists>server segs.
    u = ''nfs://'' @ server @ ''/'' @ join_with CHR ''/'' segs @ nfs_query (so_UID opts) (so_GID opts) \<and>
    server = trim_space (so_Server opts) \<and> server \<noteq> '''' \<and>
    segs = segs_of (trim_space (so_Export opts)) @ segs_of (so_Path opts) @ segs_of key \<and>
    ''..'' \<notin> set segs \<and>
    (\<forall>c \<in> set server. \<not> url_unsafe c \<and> c \<noteq> CHR ''/'') \<and>
    (\<forall>c \<in> set (join_with CHR ''/'' segs). \<not> url_unsafe c) \<and>
    (\<forall>i. so_UID opts = Some i \<or> so_GID opts = Some i \<longrightarrow> 0 \<le> i \<and> i < 2 ^ 32)"
proof -
  let ?server = "trim_space (so_Server opts)" and ?export = "trim_space (so_Export opts)"
  let ?segs = "segs_of ?export @ segs_of (so_Path opts) @ segs_of key"
  let ?full = "''/'' @ trim_set ''/'' ?export @ ''/'' @ trim_set ''/'' (so_Path opts) @ ''/'' @ trim_set ''/'' key"
  have ok: "?server \<noteq> ''''" "rejectURLUnsafe ''nfs server'' ?server False = None"
      "rejectURLUnsafe ''nfs export'' ?export True = None"
      "rejectURLUnsafe ''nfs path'' (so_Path opts) True = None" "rejectURLUnsafe ''nfs key'' key True = None"
      "id_ok (so_UID opts)" "id_ok (so_GID opts)"
    and u: "u = ''nfs://'' @ ?server @ path_clean ?full @ nfs_query (so_UID opts) (so_GID opts)"
    using assms by (simp_all add: NFSURL_def Let_def split: if_splits option.splits)
  have dd: "''..'' \<notin> set ?segs" using ok by (simp add: rejectURLUnsafe_None)
  have full: "path_clean ?full = ''/'' @ join_with CHR ''/'' ?segs"
    using path_clean_rooted [of "trim_set ''/'' ?export @ ''/'' @ trim_set ''/'' (so_Path opts) @ ''/''
      @ trim_set ''/'' key"] dd by simp
  have "\<not> url_unsafe c" if "c \<in> set w" "w \<in> set ?segs" for c w
    using ok(3-5) that set_segs_of by (fastforce simp: rejectURLUnsafe_None)
  then have "\<forall>c \<in> set (join_with CHR ''/'' ?segs). \<not> url_unsafe c"
    using set_join_with [of "CHR ''/''" ?segs] by (fastforce simp: url_unsafe_def [of "CHR ''/''"])
  moreover have "0 \<le> i \<and> i < 2 ^ 32" if "so_UID opts = Some i \<or> so_GID opts = Some i" for i
    using that ok(6,7) by (auto simp: id_ok_def nfsUIDGIDMax_def)
  moreover have "\<forall>c \<in> set ?server. \<not> url_unsafe c \<and> c \<noteq> CHR ''/''"
    using ok(2) by (simp add: rejectURLUnsafe_None)
  ultimately show ?thesis
    using u full dd ok(1) by (intro exI [of _ ?server] exI [of _ ?segs]) simp
qed

end
