(* ===== verification/PvcStorage.thy ===== *)
theory PvcStorage
  imports StorageBackends
begin

text \<open>
  The PVC staging store (\<^verbatim>\<open>internal/storage/pvc.go\<close> and the dispatch of \<^verbatim>\<open>storage.go\<close>). The file
  system is a map from paths to contents; which operating-system calls fail is an \<open>os_env\<close>. A reader
  is the list of its \<open>Read\<close> results, a list that ends standing for end of file. SHA-256 is the
  parameter \<open>sha\<close> (the hex digest of the bytes hashed). Logging, progress callbacks and durations are
  left out.
\<close>

type_synonym bytes = "8 word list"
type_synonym files = "string \<rightharpoonup> bytes"

datatype os_error = ENOENT string | OsErr string

fun os_go_error :: "os_error \<Rightarrow> go_error" where
  "os_go_error (ENOENT t) = PlainError t"
| "os_go_error (OsErr t) = PlainError t"

fun os_is_not_exist :: "os_error \<Rightarrow> bool" where
  "os_is_not_exist (ENOENT t) = True"
| "os_is_not_exist (OsErr t) = False"

datatype read_end = EOF | ReadErr go_error

type_synonym reader = "(bytes \<times> read_end option) list"

record os_env =
  os_is_dir :: "string \<Rightarrow> bool"
  os_stat_err :: "string \<Rightarrow> os_error option"
  os_mkdir_err :: "string \<Rightarrow> os_error option"
  os_open_err :: "string \<Rightarrow> os_error option"
  os_fstat_err :: "string \<Rightarrow> os_error option"
  os_create_err :: "string \<Rightarrow> os_error option"
  os_sync_err :: "string \<Rightarrow> os_error option"
  os_remove_err :: "string \<Rightarrow> os_error option"
  os_write :: "nat \<Rightarrow> bytes \<Rightarrow> int \<times> go_error option"
  os_reads :: "string \<Rightarrow> bytes \<Rightarrow> reader"
  os_mtime :: "string \<Rightarrow> string"

text \<open>\<^verbatim>\<open>filepath.Dir\<close>: everything up to the last slash, cleaned.\<close>

definition filepath_dir :: "string \<Rightarrow> string" where
  "filepath_dir p = path_clean (rev (dropWhile (\<lambda>c. c \<noteq> CHR ''/'') (rev p)))"

record pvc_storage =
  ps_config :: storage_config
  ps_mountPath :: string
  ps_verified :: bool

section \<open>Construction\<close>

definition stat_path :: "os_env \<Rightarrow> files \<Rightarrow> string \<Rightarrow> os_error option" where
  "stat_path ev fs p =
     (case os_stat_err ev p of
        Some e \<Rightarrow> Some e
      | None \<Rightarrow> if os_is_dir ev p \<or> fs p \<noteq> None then None else Some (ENOENT (''stat '' @ p @ '': no such file or directory'')))"

definition verifyMount :: "os_env \<Rightarrow> files \<Rightarrow> pvc_storage \<Rightarrow> pvc_storage result" where
  "verifyMount ev fs p =
     (case stat_path ev fs (ps_mountPath p) of
        Some e \<Rightarrow>
          if os_is_not_exist e then
            Inl (StorageError StorageNotFound (''PVC mount path does not exist: '' @ ps_mountPath p
              @ '' (PVC may not be mounted to pod)'') (Some (os_go_error e)))
          else Inl (StorageError StorageOperationFailed (''failed to stat PVC mount path: '' @ ps_mountPath p)
              (Some (os_go_error e)))
      | None \<Rightarrow>
          if \<not> os_is_dir ev (ps_mountPath p) then
            Inl (StorageError StorageInvalidConfig (''PVC mount path is not a directory: '' @ ps_mountPath p) None)
          else Inr (p\<lparr>ps_verified := True\<rparr>))"

definition NewPVCStorage :: "os_env \<Rightarrow> files \<Rightarrow> storage_config \<Rightarrow> pvc_storage result" where
  "NewPVCStorage ev fs config =
     (let mountPath = (if sc_MountPath config = '''' then ''/mnt/migration-storage'' else sc_MountPath config) in
      verifyMount ev fs \<lparr>ps_config = config, ps_mountPath = path_clean mountPath, ps_verified = False\<rparr>)"

text \<open>\<^verbatim>\<open>NewStorage\<close>; the S3 constructor is the parameter \<open>new_s3\<close>.\<close>

definition NewStorage ::
  "os_env \<Rightarrow> files \<Rightarrow> (storage_config \<Rightarrow> 's3 result) \<Rightarrow> storage_config \<Rightarrow> (pvc_storage + 's3) result" where
  "NewStorage ev fs new_s3 config =
     (if sc_Type config = ''pvc'' \<or> sc_Type config = '''' then
        (case NewPVCStorage ev fs config of Inl e \<Rightarrow> Inl e | Inr p \<Rightarrow> Inr (Inl p))
      else if sc_Type config = ''s3'' then
        (case new_s3 config of Inl e \<Rightarrow> Inl e | Inr s \<Rightarrow> Inr (Inr s))
      else Inl (StorageError StorageInvalidConfig
        (''unsupported storage type (supported: '' @ [CHR 0x27] @ ''pvc'' @ [CHR 0x27] @ '', '' @ [CHR 0x27] @ ''s3''
          @ [CHR 0x27] @ ''): '' @ sc_Type config) None))"

section \<open>Paths\<close>

definition parsePath :: "pvc_storage \<Rightarrow> string \<Rightarrow> string result" where
  "parsePath p url =
     (let u = trim_prefix ''pvc://'' (trim_space url) in
      if contains_sub ''..'' u then
        Inl (StorageError StorageInvalidConfig (''invalid path: contains '' @ [CHR 0x27] @ ''..'' @ [CHR 0x27]) None)
      else case split2 CHR ''/'' u of
        None \<Rightarrow> Inl (StorageError StorageInvalidConfig
                 ''invalid PVC URL format: expected pvc://<pvc-name>/<file-path>'' None)
      | Some (pvcName, filePath) \<Rightarrow> Inr (filepath_join (ps_mountPath p) filePath))"

definition ValidateURL :: "pvc_storage \<Rightarrow> string \<Rightarrow> go_error option" where
  "ValidateURL p url = (case parsePath p url of Inl e \<Rightarrow> Some e | Inr _ \<Rightarrow> None)"

section \<open>Transfer\<close>

record upload_request =
  ur_SourcePath :: string
  ur_DestinationURL :: string
  ur_Reader :: "reader option"
  ur_ContentLength :: int
  ur_Checksum :: string

record upload_response =
  up_URL :: string
  up_Checksum :: string
  up_BytesTransferred :: int

record download_request =
  dr_SourceURL :: string
  dr_DestinationPath :: string
  dr_Writer :: bool
  dr_VerifyChecksum :: bool
  dr_ExpectedChecksum :: string

record download_response =
  dn_BytesTransferred :: int
  dn_Checksum :: string
  dn_ContentLength :: int

text \<open>
  One write of a chunk through \<^verbatim>\<open>io.MultiWriter(dest, hasher)\<close>: the result, the bytes that reached the
  destination and the bytes that reached the hasher. Without a hasher the destination is written alone.
\<close>

definition multi_write :: "(nat \<Rightarrow> bytes \<Rightarrow> int \<times> go_error option) \<Rightarrow> bool \<Rightarrow> nat \<Rightarrow> bytes
    \<Rightarrow> (int \<times> go_error option) \<times> bytes \<times> bytes" where
  "multi_write w hashing i chunk =
     (let (n, err) = w i chunk in
      let out = take (nat n) chunk in
      if \<not> hashing then ((n, err), out, [])
      else case err of
        Some e \<Rightarrow> ((n, Some e), out, [])
      | None \<Rightarrow> if n \<noteq> int (length chunk) then ((n, Some (PlainError ''short write'')), out, [])
                else ((int (length chunk), None), out, chunk))"

record copy_state =
  cp_out :: bytes
  cp_hashed :: bytes
  cp_count :: int

text \<open>
  The copy loop shared by \<^verbatim>\<open>Upload\<close> and \<^verbatim>\<open>Download\<close>: read a chunk, write it, account for it, stop at
  the first error or at end of file.
\<close>

fun copy_loop :: "(nat \<Rightarrow> bytes \<Rightarrow> int \<times> go_error option) \<Rightarrow> bool \<Rightarrow> nat \<Rightarrow> reader \<Rightarrow> copy_state
    \<Rightarrow> copy_state \<times> go_error option" where
  "copy_loop w hashing i [] st = (st, None)"
| "copy_loop w hashing i ((chunk, er) # rest) st =
     (let (st', werr) =
        (if chunk = [] then (st, None)
         else let nr = int (length chunk);
                  ((nw, ew), out, hashed) = multi_write w hashing i chunk;
                  (nw', ew') = (if nw < 0 \<or> nr < nw
                                then (0, case ew of None \<Rightarrow> Some (PlainError ''invalid write result'') | Some e \<Rightarrow> Some e)
                                else (nw, ew));
                  st1 = st\<lparr>cp_out := cp_out st @ out, cp_hashed := cp_hashed st @ hashed, cp_count := cp_count st + nw'\<rparr>
              in (st1, (case ew' of
                          Some e \<Rightarrow> Some (StorageError StorageOperationFailed ''failed to write to destination'' (Some e))
                        | None \<Rightarrow> if nr \<noteq> nw' then Some (StorageError StorageOperationFailed ''short write'' None)
                                  else None)))
      in case werr of
           Some e \<Rightarrow> (st', Some e)
         | None \<Rightarrow>
             (case er of
                Some EOF \<Rightarrow> (st', None)
              | Some (ReadErr e) \<Rightarrow> (st', Some (StorageError StorageOperationFailed ''failed to read source'' (Some e)))
              | None \<Rightarrow> copy_loop w hashing (Suc i) rest st'))"

definition copy_init :: copy_state where
  "copy_init = \<lparr>cp_out = [], cp_hashed = [], cp_count = 0\<rparr>"

text \<open>Opening a file for reading yields its contents, delivered in the chunks \<open>os_reads\<close> says.\<close>

definition open_file :: "os_env \<Rightarrow> files \<Rightarrow> string \<Rightarrow> os_error + bytes" where
  "open_file ev fs p =
     (case os_open_err ev p of
        Some e \<Rightarrow> Inl e
      | None \<Rightarrow> (case fs p of None \<Rightarrow> Inl (ENOENT (''open '' @ p @ '': no such file or directory'')) | Some b \<Rightarrow> Inr b))"

definition upload_source :: "os_env \<Rightarrow> files \<Rightarrow> upload_request \<Rightarrow> reader result" where
  "upload_source ev fs req =
     (if ur_SourcePath req \<noteq> '''' then
        (case open_file ev fs (ur_SourcePath req) of
           Inl e \<Rightarrow> Inl (StorageError StorageNotFound (''failed to open source file: '' @ ur_SourcePath req)
                    (Some (os_go_error e)))
         | Inr b \<Rightarrow>
             (case os_fstat_err ev (ur_SourcePath req) of
                Some e \<Rightarrow> Inl (StorageError StorageOperationFailed ''failed to stat source file'' (Some (os_go_error e)))
              | None \<Rightarrow> Inr (os_reads ev (ur_SourcePath req) b)))
      else case ur_Reader req of
        Some rd \<Rightarrow> Inr rd
      | None \<Rightarrow> Inl (StorageError StorageInvalidConfig ''either SourcePath or Reader must be provided'' None))"

definition checksum_mismatch :: "string \<Rightarrow> string \<Rightarrow> go_error" where
  "checksum_mismatch expected actual =
     StorageError StorageChecksumMismatch (''checksum mismatch: expected='' @ expected @ '' actual='' @ actual) None"

definition Upload ::
  "(bytes \<Rightarrow> string) \<Rightarrow> os_env \<Rightarrow> pvc_storage \<Rightarrow> upload_request \<Rightarrow> files \<Rightarrow> files \<times> upload_response result" where
  "Upload sha ev p req fs =
     (case parsePath p (ur_DestinationURL req) of
        Inl e \<Rightarrow> (fs, Inl e)
      | Inr destPath \<Rightarrow>
        (case os_mkdir_err ev (filepath_dir destPath) of
           Some e \<Rightarrow> (fs, Inl (StorageError StorageOperationFailed
                       (''failed to create destination directory: '' @ filepath_dir destPath) (Some (os_go_error e))))
         | None \<Rightarrow>
           (case upload_source ev fs req of
              Inl e \<Rightarrow> (fs, Inl e)
            | Inr rd \<Rightarrow>
              (case os_create_err ev destPath of
                 Some e \<Rightarrow> (fs, Inl (StorageError StorageOperationFailed
                             (''failed to create destination file: '' @ destPath) (Some (os_go_error e))))
               | None \<Rightarrow>
                 (let (st, err) = copy_loop (os_write ev) True 0 rd copy_init;
                      fs' = fs(destPath \<mapsto> cp_out st)
                  in case err of
                       Some e \<Rightarrow> (fs', Inl e)
                     | None \<Rightarrow>
                       (case os_sync_err ev destPath of
                          Some e \<Rightarrow> (fs', Inl (StorageError StorageOperationFailed ''failed to sync file to disk''
                                      (Some (os_go_error e))))
                        | None \<Rightarrow>
                          (let checksum = sha (cp_hashed st) in
                           if ur_Checksum req \<noteq> '''' \<and> ur_Checksum req \<noteq> checksum then
                             ((if os_remove_err ev destPath = None then fs'(destPath := None) else fs'),
                              Inl (checksum_mismatch (ur_Checksum req) checksum))
                           else (fs', Inr \<lparr>up_URL = ur_DestinationURL req, up_Checksum = checksum,
                                     up_BytesTransferred = cp_count st\<rparr>))))))))"

text \<open>The result of a download with what reached the writer; a destination file is part of the new files.\<close>

definition Download ::
  "(bytes \<Rightarrow> string) \<Rightarrow> os_env \<Rightarrow> pvc_storage \<Rightarrow> download_request \<Rightarrow> files \<Rightarrow> files \<times> bytes \<times> download_response result" where
  "Download sha ev p req fs =
     (case parsePath p (dr_SourceURL req) of
        Inl e \<Rightarrow> (fs, [], Inl e)
      | Inr srcPath \<Rightarrow>
        (case open_file ev fs srcPath of
           Inl e \<Rightarrow>
             (fs, [], Inl (if os_is_not_exist e
                then StorageError StorageNotFound (''source file not found: '' @ srcPath) (Some (os_go_error e))
                else StorageError StorageOperationFailed (''failed to open source file: '' @ srcPath) (Some (os_go_error e))))
         | Inr content \<Rightarrow>
           (case os_fstat_err ev srcPath of
              Some e \<Rightarrow> (fs, [], Inl (StorageError StorageOperationFailed ''failed to stat source file'' (Some (os_go_error e))))
            | None \<Rightarrow>
              (let to_file = dr_DestinationPath req \<noteq> '''';
                   dest_err =
                     (if to_file then
                        (case os_mkdir_err ev (filepath_dir (dr_DestinationPath req)) of
                           Some e \<Rightarrow> Some (StorageError StorageOperationFailed
                             (''failed to create destination directory: '' @ filepath_dir (dr_DestinationPath req))
                             (Some (os_go_error e)))
                         | None \<Rightarrow>
                           (case os_create_err ev (dr_DestinationPath req) of
                              Some e \<Rightarrow> Some (StorageError StorageOperationFailed
                                (''failed to create destination file: '' @ dr_DestinationPath req) (Some (os_go_error e)))
                            | None \<Rightarrow> None))
                      else if dr_Writer req then None
                      else Some (StorageError StorageInvalidConfig ''either DestinationPath or Writer must be provided'' None))
               in case dest_err of
                    Some e \<Rightarrow> (fs, [], Inl e)
                  | None \<Rightarrow>
                    (let (st, err) = copy_loop (os_write ev) (dr_VerifyChecksum req) 0 (os_reads ev srcPath content) copy_init;
                         fs' = (if to_file then fs(dr_DestinationPath req \<mapsto> cp_out st) else fs);
                         out = (if to_file then [] else cp_out st);
                         checksum = (if dr_VerifyChecksum req then sha (cp_hashed st) else '''')
                     in case err of
                          Some e \<Rightarrow> (fs', out, Inl e)
                        | None \<Rightarrow>
                          if dr_VerifyChecksum req \<and> dr_ExpectedChecksum req \<noteq> '''' \<and> dr_ExpectedChecksum req \<noteq> checksum
                          then (fs', out, Inl (checksum_mismatch (dr_ExpectedChecksum req) checksum))
                          else (fs', out, Inr \<lparr>dn_BytesTransferred = cp_count st, dn_Checksum = checksum,
                                  dn_ContentLength = int (length content)\<rparr>))))))"

definition UploadStream ::
  "(bytes \<Rightarrow> string) \<Rightarrow> os_env \<Rightarrow> pvc_storage \<Rightarrow> string \<Rightarrow> reader option \<Rightarrow> int \<Rightarrow> files \<Rightarrow> files \<times> upload_response result" where
  "UploadStream sha ev p url rd len fs =
     Upload sha ev p \<lparr>ur_SourcePath = '''', ur_DestinationURL = url, ur_Reader = rd, ur_ContentLength = len,
       ur_Checksum = ''''\<rparr> fs"

definition DownloadStream ::
  "(bytes \<Rightarrow> string) \<Rightarrow> os_env \<Rightarrow> pvc_storage \<Rightarrow> string \<Rightarrow> bool \<Rightarrow> string \<Rightarrow> files \<Rightarrow> files \<times> bytes \<times> download_response result" where
  "DownloadStream sha ev p url writer expected fs =
     Download sha ev p \<lparr>dr_SourceURL = url, dr_DestinationPath = '''', dr_Writer = writer,
       dr_VerifyChecksum = (expected \<noteq> ''''), dr_ExpectedChecksum = expected\<rparr> fs"

definition pvc_Delete :: "os_env \<Rightarrow> pvc_storage \<Rightarrow> string \<Rightarrow> files \<Rightarrow> files \<times> go_error option" where
  "pvc_Delete ev p url fs =
     (case parsePath p url of
        Inl e \<Rightarrow> (fs, Some e)
      | Inr filePath \<Rightarrow>
        (if (case stat_path ev fs filePath of Some e \<Rightarrow> os_is_not_exist e | None \<Rightarrow> False) then (fs, None)
         else case os_remove_err ev filePath of
           Some e \<Rightarrow> (fs, Some (StorageError StorageOperationFailed (''failed to delete file: '' @ filePath)
                       (Some (os_go_error e))))
         | None \<Rightarrow> (fs(filePath := None), None)))"

record file_metadata =
  fm_URL :: string
  fm_Size :: int
  fm_Checksum :: string
  fm_LastModified :: string

definition GetMetadata :: "(bytes \<Rightarrow> string) \<Rightarrow> os_env \<Rightarrow> pvc_storage \<Rightarrow> string \<Rightarrow> files \<Rightarrow> file_metadata result" where
  "GetMetadata sha ev p url fs =
     (case parsePath p url of
        Inl e \<Rightarrow> Inl e
      | Inr filePath \<Rightarrow>
        (case stat_path ev fs filePath of
           Some e \<Rightarrow>
             Inl (if os_is_not_exist e
                  then StorageError StorageNotFound (''file not found: '' @ filePath) (Some (os_go_error e))
                  else StorageError StorageOperationFailed (''failed to stat file: '' @ filePath) (Some (os_go_error e)))
         | None \<Rightarrow>
           (case open_file ev fs filePath of
              Inl e \<Rightarrow> Inl (StorageError StorageOperationFailed ''failed to open file for checksum'' (Some (os_go_error e)))
            | Inr b \<Rightarrow>
              (case find (\<lambda>(c, er). case er of Some (ReadErr e) \<Rightarrow> True | _ \<Rightarrow> False) (os_reads ev filePath b) of
                 Some (c, Some (ReadErr e)) \<Rightarrow>
                   Inl (StorageError StorageOperationFailed ''failed to calculate checksum'' (Some e))
               | _ \<Rightarrow> Inr \<lparr>fm_URL = url, fm_Size = int (length b), fm_Checksum = sha b,
                         fm_LastModified = os_mtime ev filePath\<rparr>))))"

section \<open>Confinement to the mount\<close>

lemma clean_segs_rooted:
  "''..'' \<notin> set out \<Longrightarrow> ''..'' \<notin> set (clean_segs True out ws)"
  by (induction True out ws rule: clean_segs.induct) (auto split: list.splits)

lemma clean_segs_good:
  "\<forall>w \<in> set out. w \<noteq> [] \<and> w \<noteq> ''.'' \<Longrightarrow> w \<in> set (clean_segs r out ws) \<Longrightarrow> w \<noteq> [] \<and> w \<noteq> ''.''"
  by (induction r out ws rule: clean_segs.induct) (auto split: list.splits if_splits)

lemma clean_segs_subset: "set (clean_segs r out ws) \<subseteq> set out \<union> set ws"
  by (induction r out ws rule: clean_segs.induct) (auto split: list.splits if_splits)

lemma path_clean_rooted_segs:
  obtains ms where "path_clean (CHR ''/'' # p) = CHR ''/'' # join_with CHR ''/'' ms"
    "''..'' \<notin> set ms" "\<And>w. w \<in> set ms \<Longrightarrow> w \<noteq> [] \<and> w \<noteq> ''.'' \<and> CHR ''/'' \<notin> set w"
proof -
  let ?ms = "clean_segs True [] (split_on CHR ''/'' (CHR ''/'' # p))"
  have "w \<noteq> [] \<and> w \<noteq> ''.'' \<and> CHR ''/'' \<notin> set w" if "w \<in> set ?ms" for w
    using that clean_segs_good [of "[]" w] clean_segs_subset [of True "[]"] split_on_no_sep by fastforce
  then show ?thesis
    using that [of ?ms] clean_segs_rooted [of "[]"] by (simp add: path_clean_def starts_with_def Let_def)
qed

lemma verifyMount_mount: "verifyMount ev fs p = Inr p' \<Longrightarrow> ps_mountPath p' = ps_mountPath p"
  by (auto simp: verifyMount_def split: option.splits if_splits)

lemma NewPVCStorage_mount:
  assumes "NewPVCStorage ev fs config = Inr p" "starts_with ''/'' (sc_MountPath config)"
  obtains ms where "ps_mountPath p = CHR ''/'' # join_with CHR ''/'' ms" "''..'' \<notin> set ms"
    "\<And>w. w \<in> set ms \<Longrightarrow> w \<noteq> [] \<and> w \<noteq> ''.'' \<and> CHR ''/'' \<notin> set w"
proof -
  obtain q where q: "sc_MountPath config = CHR ''/'' # q"
    using assms(2) by (cases "sc_MountPath config") (auto simp: starts_with_def)
  obtain ms where ms: "path_clean (CHR ''/'' # q) = CHR ''/'' # join_with CHR ''/'' ms" "''..'' \<notin> set ms"
      "\<And>w. w \<in> set ms \<Longrightarrow> w \<noteq> [] \<and> w \<noteq> ''.'' \<and> CHR ''/'' \<notin> set w"
    using path_clean_rooted_segs by metis
  have "ps_mountPath p = CHR ''/'' # join_with CHR ''/'' ms"
    using verifyMount_mount assms(1) ms(1) by (fastforce simp: NewPVCStorage_def q Let_def)
  with ms show ?thesis using that by blast
qed

text \<open>
  A store opened on an absolute mount path never touches a file outside it: every path
  \<open>parsePath\<close> accepts is the mount's segments followed by proper segments of the URL, none of which is
  \<open>..\<close>.
\<close>

lemma parsePath_confined:
  assumes "NewPVCStorage ev fs config = Inr p" "starts_with ''/'' (sc_MountPath config)"
    and "parsePath p url = Inr path"
  shows "\<exists>ms ws. ps_mountPath p = CHR ''/'' # join_with CHR ''/'' ms \<and>
    path = CHR ''/'' # join_with CHR ''/'' (ms @ ws) \<and>
    (\<forall>w \<in> set (ms @ ws). w \<noteq> '''' \<and> w \<noteq> ''.'' \<and> w \<noteq> ''..'' \<and> CHR ''/'' \<notin> set w)"
proof -
  obtain ms where mount: "ps_mountPath p = CHR ''/'' # join_with CHR ''/'' ms" and ms: "''..'' \<notin> set ms"
      "\<And>w. w \<in> set ms \<Longrightarrow> w \<noteq> [] \<and> w \<noteq> ''.'' \<and> CHR ''/'' \<notin> set w"
    using NewPVCStorage_mount [OF assms(1,2)] by metis
  let ?u = "trim_prefix ''pvc://'' (trim_space url)"
  obtain pn f where f: "split2 CHR ''/'' ?u = Some (pn, f)" "\<not> contains_sub ''..'' ?u"
      "path = filepath_join (ps_mountPath p) f"
    using assms(3) by (auto simp: parsePath_def Let_def split: if_splits option.splits)
  have "?u = pn @ CHR ''/'' # f"
    using split2_SomeD [OF f(1)] by simp
  then have "''..'' \<notin> set (split_on CHR ''/'' f)"
    using f(2) contains_sub_segment [of "''..''" "CHR ''/''" ?u] by (auto simp: split_on_sep)
  then have nodd: "''..'' \<notin> set (ms @ segs_of f)" using ms(1) by (simp add: no_dotdot_iff)
  have "path = path_clean (CHR ''/'' # (join_with CHR ''/'' ms @ CHR ''/'' # f))"
    using f(3) mount by (simp add: filepath_join_def)
  also have "\<dots> = CHR ''/'' # join_with CHR ''/'' (ms @ segs_of f)"
    using path_clean_rooted [of "join_with CHR ''/'' ms @ CHR ''/'' # f"] nodd ms(2)
    by (simp add: segs_of_join)
  finally show ?thesis using mount nodd ms(2) good_segs by (intro exI [of _ ms] exI [of _ "segs_of f"]) auto
qed

text \<open>An operating system on which nothing fails and the two directories exist.\<close>

definition good_os :: os_env where
  "good_os = \<lparr>os_is_dir = (\<lambda>p. p = ''/mnt'' \<or> p = ''/mnt/a''), os_stat_err = (\<lambda>_. None),
     os_mkdir_err = (\<lambda>_. None), os_open_err = (\<lambda>_. None), os_fstat_err = (\<lambda>_. None),
     os_create_err = (\<lambda>_. None), os_sync_err = (\<lambda>_. None), os_remove_err = (\<lambda>_. None),
     os_write = (\<lambda>i c. (int (length c), None)), os_reads = (\<lambda>p b. [(b, Some EOF)]), os_mtime = (\<lambda>_. '''')\<rparr>"

definition sample_config :: storage_config where
  "sample_config = \<lparr>sc_Type = ''pvc'', sc_PVCName = ''a'', sc_PVCNamespace = ''d'', sc_MountPath = ''/mnt/a'', sc_S3 = None\<rparr>"

definition sample_pvc :: pvc_storage where
  "sample_pvc = \<lparr>ps_config = sample_config, ps_mountPath = ''/mnt/a'', ps_verified = True\<rparr>"

lemma sample_pvc_new: "NewPVCStorage good_os fs sample_config = Inr sample_pvc"
  by (simp add: NewPVCStorage_def verifyMount_def stat_path_def good_os_def sample_config_def sample_pvc_def
      path_clean_def starts_with_def Let_def)

lemma sample_parse: "parsePath sample_pvc ''pvc://a/x/./y'' = Inr ''/mnt/a/x/y''"
  by (simp add: parsePath_def sample_pvc_def trim_space_graphic graphic_def trim_prefix_def starts_with_def
      split2_def filepath_join_def path_clean_def)

section \<open>Transferred bytes\<close>

text \<open>What a reader delivers before it ends.\<close>

fun read_all :: "reader \<Rightarrow> bytes" where
  "read_all [] = []"
| "read_all ((chunk, None) # rest) = chunk @ read_all rest"
| "read_all ((chunk, Some e) # rest) = chunk"

lemma multi_write_ok:
  assumes "multi_write w hashing i chunk = ((n, None), out, hashed)" "0 \<le> n" "n = int (length chunk)"
  shows "out = chunk \<and> (hashing \<longrightarrow> hashed = chunk)"
  using assms by (auto simp: multi_write_def Let_def split: prod.splits if_splits option.splits)

lemma copy_loop_ok:
  "copy_loop w hashing i rd st = (st', None) \<Longrightarrow>
   cp_out st' = cp_out st @ read_all rd \<and> cp_count st' = cp_count st + int (length (read_all rd)) \<and>
   (hashing \<longrightarrow> cp_hashed st' = cp_hashed st @ read_all rd)"
proof (induction w hashing i rd st rule: copy_loop.induct)
  case (1 w hashing i st)
  then show ?case by simp
next
  case (2 w hashing i chunk er rest st)
  show ?case
  proof (cases "chunk = []")
    case True
    with 2 show ?thesis by (auto split: option.splits read_end.splits)
  next
    case False
    obtain n ew out hashed where mw: "multi_write w hashing i chunk = ((n, ew), out, hashed)"
      by (metis surj_pair)
    let ?st = "st\<lparr>cp_out := cp_out st @ out, cp_hashed := cp_hashed st @ hashed, cp_count := cp_count st + n\<rparr>"
    have n: "n = int (length chunk)" "ew = None"
      using "2.prems" False mw by (auto simp: Let_def split: if_splits option.splits)
    then have bytes: "out = chunk" "hashing \<longrightarrow> hashed = chunk"
      using multi_write_ok [OF mw [unfolded n(2)]] by simp_all
    have rest: "copy_loop w hashing (Suc i) rest ?st = (st', None)" if "er = None"
      using "2.prems" False mw n that by (simp add: Let_def)
    show ?thesis
    proof (cases er)
      case None
      from "2.IH" [OF refl, of ?st None] rest [OF None] False mw n None bytes show ?thesis
        by (auto simp: Let_def)
    next
      case (Some e)
      with "2.prems" False mw n bytes show ?thesis by (cases e) (auto simp: Let_def)
    qed
  qed
qed

lemma copy_loop_good:
  assumes "\<And>i c. w i c = (int (length c), None)" "\<forall>(c, er) \<in> set rd. \<nexists>e. er = Some (ReadErr e)"
  shows "snd (copy_loop w hashing i rd st) = None"
  using assms(2)
proof (induction rd arbitrary: i st)
  case Nil
  then show ?case by simp
next
  case (Cons r rd)
  then show ?case
    by (cases r) (auto simp: assms(1) multi_write_def Let_def split: option.splits read_end.splits)
qed

lemma Upload_content:
  assumes "Upload sha ev p req fs = (fs', Inr r)"
  obtains dest rd where "parsePath p (ur_DestinationURL req) = Inr dest" "upload_source ev fs req = Inr rd"
    "fs' = fs(dest \<mapsto> read_all rd)" "up_Checksum r = sha (read_all rd)"
    "up_BytesTransferred r = int (length (read_all rd))"
    "ur_Checksum req = '''' \<or> ur_Checksum req = sha (read_all rd)"
proof -
  obtain dest rd st where u: "parsePath p (ur_DestinationURL req) = Inr dest" "upload_source ev fs req = Inr rd"
      "copy_loop (os_write ev) True 0 rd copy_init = (st, None)" "fs' = fs(dest \<mapsto> cp_out st)"
      "r = \<lparr>up_URL = ur_DestinationURL req, up_Checksum = sha (cp_hashed st), up_BytesTransferred = cp_count st\<rparr>"
      "\<not> (ur_Checksum req \<noteq> '''' \<and> ur_Checksum req \<noteq> sha (cp_hashed st))"
    using assms
    by (auto simp: Upload_def Let_def split: sum.splits option.splits prod.splits if_splits)
  from copy_loop_ok [OF u(3)] u show ?thesis by (intro that [of dest rd]) (auto simp: copy_init_def)
qed

text \<open>
  C11. Staging round trip: after a successful upload, a verified download of the same URL against the
  checksum the upload reported, on a system that opens, reads and writes without error, succeeds and
  delivers exactly the bytes the uploaded source held, with the same digest and length.
\<close>

theorem upload_download_roundtrip:
  assumes "Upload sha ev p req fs = (fs1, Inr r)"
    and "os_open_err ev2 = (\<lambda>_. None)" "os_fstat_err ev2 = (\<lambda>_. None)"
    and "\<And>i c. os_write ev2 i c = (int (length c), None)"
    and "\<And>path b. read_all (os_reads ev2 path b) = b"
    and "\<And>path b. \<forall>(c, er) \<in> set (os_reads ev2 path b). \<nexists>e. er = Some (ReadErr e)"
  shows "\<exists>rd. upload_source ev fs req = Inr rd \<and>
    Download sha ev2 p \<lparr>dr_SourceURL = ur_DestinationURL req, dr_DestinationPath = '''', dr_Writer = True,
        dr_VerifyChecksum = True, dr_ExpectedChecksum = up_Checksum r\<rparr> fs1 =
      (fs1, read_all rd, Inr \<lparr>dn_BytesTransferred = up_BytesTransferred r, dn_Checksum = sha (read_all rd),
        dn_ContentLength = up_BytesTransferred r\<rparr>)"
proof -
  obtain dest rd where u: "parsePath p (ur_DestinationURL req) = Inr dest" "upload_source ev fs req = Inr rd"
      "fs1 = fs(dest \<mapsto> read_all rd)" "up_Checksum r = sha (read_all rd)"
      "up_BytesTransferred r = int (length (read_all rd))"
    using Upload_content [OF assms(1)] by metis
  let ?b = "read_all rd"
  obtain st where st: "copy_loop (os_write ev2) True 0 (os_reads ev2 dest ?b) copy_init = (st, None)"
    using copy_loop_good [where w = "os_write ev2" and rd = "os_reads ev2 dest ?b", OF assms(4) assms(6)]
    by (metis prod.collapse)
  have "cp_out st = ?b" "cp_hashed st = ?b" "cp_count st = int (length ?b)"
    using copy_loop_ok [OF st] by (simp_all add: assms(5) copy_init_def)
  moreover have "open_file ev2 fs1 dest = Inr ?b" using u(3) assms(2) by (simp add: open_file_def)
  ultimately have "Download sha ev2 p \<lparr>dr_SourceURL = ur_DestinationURL req, dr_DestinationPath = '''',
        dr_Writer = True, dr_VerifyChecksum = True, dr_ExpectedChecksum = up_Checksum r\<rparr> fs1 =
      (fs1, ?b, Inr \<lparr>dn_BytesTransferred = up_BytesTransferred r, dn_Checksum = sha ?b,
        dn_ContentLength = up_BytesTransferred r\<rparr>)"
    using u assms(3) st by (simp add: Download_def Let_def)
  with u(2) show ?thesis by blast
qed

theorem upload_download_roundtrip_witness:
  "Download (\<lambda>b. show_nat (length b)) good_os sample_pvc \<lparr>dr_SourceURL = ''pvc://a/x/./y'', dr_DestinationPath = '''',
      dr_Writer = True, dr_VerifyChecksum = True, dr_ExpectedChecksum = ''2''\<rparr>
      (Map.empty(''/mnt/a/x/y'' \<mapsto> [7, 9])) =
   (Map.empty(''/mnt/a/x/y'' \<mapsto> [7, 9]), [7, 9],
    Inr \<lparr>dn_BytesTransferred = 2, dn_Checksum = ''2'', dn_ContentLength = 2\<rparr>)"
proof -
  let ?sha = "\<lambda>b :: bytes. show_nat (length b)"
  let ?req = "\<lparr>ur_SourcePath = '''', ur_DestinationURL = ''pvc://a/x/./y'', ur_Reader = Some [([7], None), ([9], Some EOF)],
      ur_ContentLength = 2, ur_Checksum = ''''\<rparr>"
  have up: "Upload ?sha good_os sample_pvc ?req Map.empty =
      (Map.empty(''/mnt/a/x/y'' \<mapsto> [7, 9]),
       Inr \<lparr>up_URL = ''pvc://a/x/./y'', up_Checksum = ''2'', up_BytesTransferred = 2\<rparr>)"
    by (simp add: Upload_def sample_parse upload_source_def good_os_def copy_init_def multi_write_def show_nat.simps
        Let_def)
  have env: "os_open_err good_os = (\<lambda>_. None)" "os_fstat_err good_os = (\<lambda>_. None)"
      "\<And>i c. os_write good_os i c = (int (length c), None)"
      "\<And>path b. read_all (os_reads good_os path b) = b"
      "\<And>path b. \<forall>(c, er) \<in> set (os_reads good_os path b). \<nexists>e. er = Some (ReadErr e)"
    by (simp_all add: good_os_def)
  from upload_download_roundtrip [OF up env]
  show ?thesis by (auto simp: upload_source_def show_nat.simps)
qed

end
