(* ===== verification/MigrationModel.thy ===== *)
theory MigrationModel
  imports KubeObjects AddrPolicy PvcStorage
begin

text \<open>
  The VMMigration reconciler (\<^verbatim>\<open>internal/controller/vmmigration_controller.go\<close>). A reconcile call is a
  function of the environment \<open>mig_env\<close> (what every read, write and RPC answers during the call), the
  object it works on and the reconciler's state \<open>mig_state\<close>: the in-memory guard of long operations, the
  manager's file system and the log of every effect, that is of each API write and each
  state-changing provider RPC with its outcome. Reads of the same key answer alike within one call;
  successive status writes may answer differently. Logging, metrics, events and sleeping are left out.
\<close>

section \<open>The VMMigration object\<close>

datatype migration_phase =
    PhaseNone | PhasePending | PhaseValidating | PhaseSnapshotting | PhaseExporting | PhaseTransferring
  | PhaseConverting | PhaseImporting | PhaseCreating | PhaseValidatingTarget | PhaseReady | PhaseFailed
  | PhaseOther string

record mig_source =
  src_VMRef :: string
  src_ProviderRef :: "object_ref option"
  src_SnapshotRef :: "string option"
  src_CreateSnapshot :: bool
  src_PowerOffBeforeMigration :: bool
  src_DeleteAfterMigration :: bool

record mig_target =
  tg_Name :: string
  tg_Namespace :: string
  tg_ProviderRef :: object_ref
  tg_ClassRef :: "string option"
  tg_Networks :: "vm_network_ref list"
  tg_PlacementRef :: "string option"
  tg_Labels :: "string \<rightharpoonup> string"
  tg_Annotations :: "string \<rightharpoonup> string"

record mig_retry_policy =
  ry_MaxRetries :: "int option"
  ry_RetryDelay :: "int option"
  ry_BackoffMultiplier :: "int option"

record mig_options =
  mo_DiskFormat :: string
  mo_Compress :: bool
  mo_VerifyChecksums :: bool
  mo_RetryPolicy :: "mig_retry_policy option"
  mo_CleanupPolicy :: string

record s3_storage =
  sg_Bucket :: string
  sg_Endpoint :: string
  sg_Region :: string
  sg_Prefix :: string
  sg_CredentialsSecretRef :: object_ref
  sg_UsePathStyle :: bool

record nfs_storage =
  ng_Server :: string
  ng_Export :: string
  ng_Path :: string
  ng_UID :: "int option"
  ng_GID :: "int option"

record pvc_config =
  pg_Name :: string
  pg_StorageClassName :: string
  pg_Size :: string
  pg_AccessMode :: string
  pg_MountPath :: string

record mig_storage =
  st_Type :: string
  st_TransferMode :: string
  st_PVC :: "pvc_config option"
  st_NFS :: "nfs_storage option"
  st_S3 :: "s3_storage option"

record mig_spec =
  sp_Source :: mig_source
  sp_Target :: mig_target
  sp_Options :: "mig_options option"
  sp_Storage :: "mig_storage option"

record disk_info =
  di_SourceDiskID :: string
  di_SourceFormat :: string
  di_TargetDiskID :: string
  di_TargetFormat :: string
  di_TargetPath :: string
  di_SourceChecksum :: string
  di_TargetChecksum :: string

definition empty_disk_info :: disk_info where
  "empty_disk_info = \<lparr>di_SourceDiskID = '''', di_SourceFormat = '''', di_TargetDiskID = '''', di_TargetFormat = '''',
     di_TargetPath = '''', di_SourceChecksum = '''', di_TargetChecksum = ''''\<rparr>"

text \<open>\<open>mt_CleanedUp\<close> is \<^verbatim>\<open>StorageInfo.CleanedUp\<close>; an absent \<^verbatim>\<open>StorageInfo\<close> is \<open>None\<close>.\<close>

record mig_status =
  mt_Phase :: migration_phase
  mt_Message :: string
  mt_SnapshotID :: string
  mt_ExportID :: string
  mt_ImportID :: string
  mt_TaskRef :: string
  mt_TargetVMID :: string
  mt_StartTime :: "int option"
  mt_CompletionTime :: "int option"
  mt_DiskInfo :: "disk_info option"
  mt_CleanedUp :: "bool option"
  mt_StoragePVCName :: string
  mt_Conditions :: "condition list"
  mt_RetryCount :: int
  mt_LastRetryTime :: "int option"

record migration =
  mg_meta :: object_meta
  mg_spec :: mig_spec
  mg_status :: mig_status

definition CondReady :: string where "CondReady = ''Ready''"
definition CondValidating :: string where "CondValidating = ''Validating''"
definition CondSnapshotting :: string where "CondSnapshotting = ''Snapshotting''"
definition CondExporting :: string where "CondExporting = ''Exporting''"
definition CondTransferring :: string where "CondTransferring = ''Transferring''"
definition CondImporting :: string where "CondImporting = ''Importing''"
definition CondFailed :: string where "CondFailed = ''Failed''"

lemmas cond_names = CondReady_def CondValidating_def CondSnapshotting_def CondExporting_def
  CondTransferring_def CondImporting_def CondFailed_def

definition CleanupPolicyNever :: string where "CleanupPolicyNever = ''Never''"

section \<open>Environment, state, effects\<close>

datatype mig_write =
    UpdateMigration migration | PatchVM virtual_machine | CreateVM virtual_machine
  | UpdateVM virtual_machine | DeleteVM virtual_machine | CreatePVC pvc | DeletePVC pvc
  | UpdateProvider provider

datatype mig_event =
    EvStatus migration bool
  | EvWrite mig_write bool
  | EvPower string power_op bool
  | EvSnapshotCreate snapshot_create_request bool
  | EvSnapshotDelete string string bool
  | EvExportDisk export_disk_request bool
  | EvImportDisk import_disk_request bool

record mig_env =
  ev_now :: int
  ev_get_migration :: "migration result"
  ev_fresh :: "nat \<Rightarrow> migration result"
  ev_status_err :: "nat \<Rightarrow> go_error option"
  ev_get_vm :: "nn \<Rightarrow> virtual_machine result"
  ev_get_provider :: "nn \<Rightarrow> provider result"
  ev_get_pvc :: "nn \<Rightarrow> pvc result"
  ev_get_secret :: "nn \<Rightarrow> (string \<rightharpoonup> string) result"
  ev_get_deployment :: "nn \<Rightarrow> deployment result"
  ev_list_pods :: "nn \<Rightarrow> pod list result"
  ev_write_err :: "mig_write \<Rightarrow> go_error option"
  ev_resolve :: "provider \<Rightarrow> provider_instance result"
  ev_parse_quantity :: "string \<Rightarrow> go_error option"
  ev_owner_err :: "go_error option"
  ev_enc :: "storage_options \<Rightarrow> string result"
  ev_rfc3339 :: "int \<Rightarrow> string"
  ev_net :: net_env
  ev_os :: os_env
  ev_polls :: nat
  ev_poll_timeout :: go_error

record mig_reconciler =
  EnforceCapabilities :: bool
  StorageHostPolicy :: "host_policy option"
  providerInstanceFn :: "(provider \<Rightarrow> provider_instance result) option"

record mig_state =
  longOpInFlight :: "string list"
  mgr_files :: files
  status_writes :: nat
  log :: "mig_event list"

definition emit :: "mig_event \<Rightarrow> mig_state \<Rightarrow> mig_state" where
  "emit e s = s\<lparr>log := log s @ [e]\<rparr>"

definition do_write :: "mig_env \<Rightarrow> mig_write \<Rightarrow> mig_state \<Rightarrow> mig_state \<times> go_error option" where
  "do_write env w s = (emit (EvWrite w (ev_write_err env w = None)) s, ev_write_err env w)"

text \<open>\<open>set_st f m\<close> changes the status, \<open>set_cond\<close> sets one condition now.\<close>

definition set_st :: "(mig_status \<Rightarrow> mig_status) \<Rightarrow> migration \<Rightarrow> migration" where
  "set_st f m = m\<lparr>mg_status := f (mg_status m)\<rparr>"

definition set_cond :: "mig_env \<Rightarrow> string \<Rightarrow> cond_status \<Rightarrow> string \<Rightarrow> string \<Rightarrow> migration \<Rightarrow> migration" where
  "set_cond env ty st reason msg m =
     set_st (\<lambda>t. t\<lparr>mt_Conditions := SetCondition (ev_now env) ty st reason msg (mt_Conditions t)\<rparr>) m"

abbreviation mg_name :: "migration \<Rightarrow> string" where "mg_name m \<equiv> md_name (mg_meta m)"
abbreviation mg_ns :: "migration \<Rightarrow> string" where "mg_ns m \<equiv> md_namespace (mg_meta m)"
abbreviation mg_source :: "migration \<Rightarrow> mig_source" where "mg_source m \<equiv> sp_Source (mg_spec m)"
abbreviation mg_target :: "migration \<Rightarrow> mig_target" where "mg_target m \<equiv> sp_Target (mg_spec m)"
abbreviation mg_options :: "migration \<Rightarrow> mig_options option" where "mg_options m \<equiv> sp_Options (mg_spec m)"
abbreviation mg_storage :: "migration \<Rightarrow> mig_storage option" where "mg_storage m \<equiv> sp_Storage (mg_spec m)"
abbreviation mg_phase :: "migration \<Rightarrow> migration_phase" where "mg_phase m \<equiv> mt_Phase (mg_status m)"

section \<open>The guard of long operations\<close>

datatype mig_long_op = LongOpExport | LongOpImport

fun long_op_name :: "mig_long_op \<Rightarrow> string" where
  "long_op_name LongOpExport = ''export''"
| "long_op_name LongOpImport = ''import''"

definition longOpKey :: "migration \<Rightarrow> mig_long_op \<Rightarrow> string" where
  "longOpKey m op = md_uid (mg_meta m) @ ''/'' @ show_int (md_generation (mg_meta m)) @ ''/'' @ long_op_name op"

definition markLongOpStarted :: "migration \<Rightarrow> mig_long_op \<Rightarrow> mig_state \<Rightarrow> mig_state \<times> bool" where
  "markLongOpStarted m op s =
     (if longOpKey m op \<in> set (longOpInFlight s) then (s, False)
      else (s\<lparr>longOpInFlight := longOpKey m op # longOpInFlight s\<rparr>, True))"

definition longOpAlreadyStarted :: "migration \<Rightarrow> mig_long_op \<Rightarrow> mig_state \<Rightarrow> bool" where
  "longOpAlreadyStarted m op s \<longleftrightarrow> longOpKey m op \<in> set (longOpInFlight s)"

definition releaseLongOp :: "migration \<Rightarrow> mig_long_op \<Rightarrow> mig_state \<Rightarrow> mig_state" where
  "releaseLongOp m op s = s\<lparr>longOpInFlight := filter (\<lambda>k. k \<noteq> longOpKey m op) (longOpInFlight s)\<rparr>"

section \<open>Status writes\<close>

text \<open>
  Up to three attempts; on a conflict the object is read again and given the status in hand. The
  object in hand after the call is returned with the error.
\<close>

fun update_status_loop :: "nat \<Rightarrow> mig_env \<Rightarrow> migration \<Rightarrow> mig_state \<Rightarrow> mig_state \<times> migration \<times> go_error option" where
  "update_status_loop 0 env m s =
     (s, m, Some (PlainError (''failed to update status after 3 attempts'')))"
| "update_status_loop (Suc left) env m s =
     (let err = ev_status_err env (status_writes s);
          fresh = ev_fresh env (status_writes s);
          s' = (emit (EvStatus m (err = None)) s)\<lparr>status_writes := Suc (status_writes s)\<rparr>
      in case err of
           None \<Rightarrow> (s', m, None)
         | Some e \<Rightarrow>
             if api_is_conflict e \<and> 0 < left then
               (case fresh of
                  Inl e' \<Rightarrow> (s', m, Some e')
                | Inr f \<Rightarrow> update_status_loop left env (f\<lparr>mg_status := mg_status m\<rparr>) s')
             else (s', m, Some e))"

definition updateStatus :: "mig_env \<Rightarrow> migration \<Rightarrow> mig_state \<Rightarrow> mig_state \<times> migration \<times> go_error option" where
  "updateStatus env m s = update_status_loop 3 env m s"

text \<open>The ubiquitous ending: write the status, return its error or the given result.\<close>

definition finish :: "mig_env \<Rightarrow> migration \<Rightarrow> go_error outcome \<Rightarrow> mig_state \<Rightarrow> mig_state \<times> go_error outcome" where
  "finish env m res s =
     (case updateStatus env m s of (s', m', Some e) \<Rightarrow> (s', fail_with e) | (s', m', None) \<Rightarrow> (s', res))"

definition transitionToFailed :: "mig_env \<Rightarrow> migration \<Rightarrow> string \<Rightarrow> mig_state \<Rightarrow> mig_state \<times> go_error outcome" where
  "transitionToFailed env m message s =
     finish env
       (set_cond env CondReady ConditionFalse ''MigrationFailed'' message
         (set_cond env CondFailed ConditionTrue ''MigrationFailed'' message
           (set_st (\<lambda>t. t\<lparr>mt_Phase := PhaseFailed, mt_Message := message, mt_CompletionTime := Some (ev_now env)\<rparr>) m)))
       requeue_now s"

end
