(* ===== verification/MigrationStorage.thy ===== *)
theory MigrationStorage
  imports MigrationModel
begin

text \<open>
  The helper functions of the VMMigration reconciler: object lookups, provider resolution and
  capability gates, storage validation, the migration PVC and its mounts, storage URLs and options,
  and the cleanup operations.
\<close>

section \<open>Lookups\<close>

definition getSourceVM :: "mig_env \<Rightarrow> migration \<Rightarrow> virtual_machine result" where
  "getSourceVM env m = ev_get_vm env (mg_ns m, src_VMRef (mg_source m))"

definition getProvider :: "mig_env \<Rightarrow> object_ref \<Rightarrow> string \<Rightarrow> provider result" where
  "getProvider env ref defaultNamespace =
     ev_get_provider env ((if or_namespace ref = '''' then defaultNamespace else or_namespace ref), or_name ref)"

text \<open>The source provider reference once the source VM is at hand.\<close>

definition sourceProviderRef :: "migration \<Rightarrow> virtual_machine \<Rightarrow> object_ref" where
  "sourceProviderRef m vm =
     (case src_ProviderRef (mg_source m) of Some ref \<Rightarrow> ref | None \<Rightarrow> vs_ProviderRef (vm_spec vm))"

definition getSourceProvider :: "mig_env \<Rightarrow> migration \<Rightarrow> provider result" where
  "getSourceProvider env m =
     (case src_ProviderRef (mg_source m) of
        Some ref \<Rightarrow> getProvider env ref (mg_ns m)
      | None \<Rightarrow>
          (case getSourceVM env m of
             Inl e \<Rightarrow> Inl (WrapError ''failed to get source VM: '' e)
           | Inr vm \<Rightarrow> getProvider env (vs_ProviderRef (vm_spec vm)) (mg_ns m)))"

definition getTargetProvider :: "mig_env \<Rightarrow> migration \<Rightarrow> provider result" where
  "getTargetProvider env m = getProvider env (tg_ProviderRef (mg_target m)) (mg_ns m)"

definition isProviderReady :: "provider \<Rightarrow> bool" where
  "isProviderReady p = list_ex (\<lambda>c. c_type c = ''ProviderAvailable'' \<and> c_status c = ConditionTrue) (pv_Conditions p)"

definition getProviderInstance :: "mig_env \<Rightarrow> mig_reconciler \<Rightarrow> provider \<Rightarrow> provider_instance result" where
  "getProviderInstance env r p =
     (case providerInstanceFn r of
        Some f \<Rightarrow> f p
      | None \<Rightarrow> (case ev_resolve env p of Inl e \<Rightarrow> Inl (WrapError ''failed to resolve provider: '' e) | Inr i \<Rightarrow> Inr i))"

definition targetVMName :: "migration \<Rightarrow> string" where
  "targetVMName m = (if tg_Name (mg_target m) = '''' then src_VMRef (mg_source m) @ ''-migrated'' else tg_Name (mg_target m))"

definition targetNamespace :: "migration \<Rightarrow> string" where
  "targetNamespace m = (if tg_Namespace (mg_target m) = '''' then mg_ns m else tg_Namespace (mg_target m))"

section \<open>Backend and transfer mode\<close>

definition migrationBackendType :: "migration \<Rightarrow> string" where
  "migrationBackendType m =
     (case mg_storage m of None \<Rightarrow> BackendPVC | Some st \<Rightarrow> if st_Type st = '''' then BackendPVC else st_Type st)"

definition migrationTransferMode :: "migration \<Rightarrow> string" where
  "migrationTransferMode m =
     (case mg_storage m of
        None \<Rightarrow> TransferModeAuto
      | Some st \<Rightarrow> if st_TransferMode st = '''' then TransferModeAuto else st_TransferMode st)"

definition resolveTransferMode :: "migration \<Rightarrow> string" where
  "resolveTransferMode m =
     (let mode = migrationTransferMode m in if mode = TransferModeAuto then TransferModeRelay else mode)"

definition reportedExportBackends :: "provider \<Rightarrow> string list" where
  "reportedExportBackends p =
     (case pv_ReportedCapabilities p of
        None \<Rightarrow> PVCOnlyExportBackends
      | Some c \<Rightarrow> if rp_SupportedExportBackends c = [] then PVCOnlyExportBackends else rp_SupportedExportBackends c)"

definition reportedImportBackends :: "provider \<Rightarrow> string list" where
  "reportedImportBackends p =
     (case pv_ReportedCapabilities p of
        None \<Rightarrow> PVCOnlyImportBackends
      | Some c \<Rightarrow> if rp_SupportedImportBackends c = [] then PVCOnlyImportBackends else rp_SupportedImportBackends c)"

definition reportedTransferModes :: "provider \<Rightarrow> string list" where
  "reportedTransferModes p =
     (case pv_ReportedCapabilities p of
        None \<Rightarrow> RelayOnlyTransferModes
      | Some c \<Rightarrow> if rp_SupportedTransferModes c = [] then RelayOnlyTransferModes else rp_SupportedTransferModes c)"

definition containsString :: "string list \<Rightarrow> string \<Rightarrow> bool" where
  "containsString xs want = list_ex (\<lambda>s. s = want) xs"

definition nativeDiskFormat :: "provider option \<Rightarrow> string" where
  "nativeDiskFormat p =
     (case p of Some q \<Rightarrow> if pv_Type q = ProviderTypeVSphere then ''vmdk'' else ''qcow2'' | None \<Rightarrow> ''qcow2'')"

definition stagedImportFormat :: "provider \<Rightarrow> string" where
  "stagedImportFormat p = nativeDiskFormat (Some p)"

definition landedTargetFormat :: "provider \<Rightarrow> string" where
  "landedTargetFormat p = nativeDiskFormat (Some p)"

text \<open>\<^verbatim>\<open>%v\<close> on a string slice.\<close>

definition show_strings :: "string list \<Rightarrow> string" where
  "show_strings xs = ''['' @ join_with CHR '' '' xs @ '']''"

text \<open>\<open>None\<close> is the empty message: the migration may proceed.\<close>

definition gateMigrationStorageBackend :: "migration \<Rightarrow> provider \<Rightarrow> provider \<Rightarrow> string option" where
  "gateMigrationStorageBackend m src tgt =
     (let backend = migrationBackendType m; mode = migrationTransferMode m in
      if backend \<noteq> BackendPVC \<and> backend \<noteq> BackendS3 \<and> backend \<noteq> BackendNFS then
        Some (''storage backend '' @ quoted backend @ '' is not yet implemented; supported today: '' @ quoted BackendPVC
          @ '', '' @ quoted BackendS3 @ '', '' @ quoted BackendNFS @ '' (ADR-0006)'')
      else if backend \<noteq> BackendNFS \<and> mode = TransferModeDirect then
        Some (''transfer mode '' @ quoted TransferModeDirect @ '' is not yet implemented; only '' @ quoted TransferModeRelay
          @ '' (and '' @ quoted TransferModeAuto @ '') are supported today (ADR-0006 Slice 1)'')
      else if \<not> containsString (reportedExportBackends src) backend then
        Some (''storage backend '' @ quoted backend @ '' not supported by source provider '' @ quoted (md_name (pv_meta src))
          @ '' (supported: '' @ show_strings (reportedExportBackends src) @ ''); see ADR-0006'')
      else if \<not> containsString (reportedImportBackends tgt) backend then
        Some (''storage backend '' @ quoted backend @ '' not supported by target provider '' @ quoted (md_name (pv_meta tgt))
          @ '' (supported: '' @ show_strings (reportedImportBackends tgt) @ ''); see ADR-0006'')
      else if backend \<noteq> BackendNFS \<and> mode \<noteq> TransferModeAuto then
        (if \<not> containsString (reportedTransferModes src) mode then
           Some (''transfer mode '' @ quoted mode @ '' not supported by source provider '' @ quoted (md_name (pv_meta src))
             @ '' (supported: '' @ show_strings (reportedTransferModes src) @ ''); see ADR-0006'')
         else if \<not> containsString (reportedTransferModes tgt) mode then
           Some (''transfer mode '' @ quoted mode @ '' not supported by target provider '' @ quoted (md_name (pv_meta tgt))
             @ '' (supported: '' @ show_strings (reportedTransferModes tgt) @ ''); see ADR-0006'')
         else None)
      else None)"

text \<open>\<open>Some\<close> result when the step is blocked; the error of the failed transition is dropped there.\<close>

definition gateProviderCapability ::
  "mig_env \<Rightarrow> mig_reconciler \<Rightarrow> migration \<Rightarrow> provider_instance \<Rightarrow> (capabilities \<Rightarrow> bool) \<Rightarrow> string \<Rightarrow> mig_state
     \<Rightarrow> mig_state \<times> go_error outcome option" where
  "gateProviderCapability env r m inst supported failureMessage s =
     (if \<not> EnforceCapabilities r then (s, None)
      else case pi_GetCapabilities inst of
        None \<Rightarrow> (s, None)
      | Some (Inl e) \<Rightarrow> (s, None)
      | Some (Inr caps) \<Rightarrow>
          if supported caps then (s, None)
          else let (s', res) = transitionToFailed env m failureMessage s in (s', Some (res\<lparr>ret_err := None\<rparr>)))"

section \<open>Storage validation\<close>

definition defaultStorageHostPolicy :: host_policy where
  "defaultStorageHostPolicy = \<lparr>hp_allow = [], hp_allowConfigured = False\<rparr>"

definition storageHostPolicy :: "mig_reconciler \<Rightarrow> host_policy" where
  "storageHostPolicy r = (case StorageHostPolicy r of Some p \<Rightarrow> p | None \<Rightarrow> defaultStorageHostPolicy)"

definition validate_pvc_config :: "pvc_config option \<Rightarrow> go_error option" where
  "validate_pvc_config cfg =
     (case cfg of
        None \<Rightarrow> Some (PlainError ''pvc configuration is required when using pvc storage type'')
      | Some p \<Rightarrow>
          if pg_Name p \<noteq> '''' then None
          else if pg_StorageClassName p = '''' then
            Some (PlainError ''storageClassName is required when PVC name is not specified (auto-create mode)'')
          else if pg_Size p = '''' then
            Some (PlainError ''size is required when PVC name is not specified (auto-create mode)'')
          else if pg_AccessMode p \<noteq> '''' \<and> pg_AccessMode p \<notin> {''ReadWriteOnce'', ''ReadWriteMany'', ''ReadOnlyMany''} then
            Some (PlainError (''invalid access mode: '' @ pg_AccessMode p))
          else None)"

definition validateStorageConfig :: "mig_env \<Rightarrow> mig_reconciler \<Rightarrow> mig_storage option \<Rightarrow> go_error option" where
  "validateStorageConfig env r cfg =
     (case cfg of
        None \<Rightarrow> Some (PlainError ''storage configuration is required'')
      | Some st \<Rightarrow>
          if st_Type st = ''pvc'' \<or> st_Type st = '''' then validate_pvc_config (st_PVC st)
          else if st_Type st = BackendS3 then
            (case st_S3 st of
               None \<Rightarrow> Some (PlainError ''s3 configuration is required when using s3 storage type'')
             | Some s3 \<Rightarrow>
                 if sg_Bucket s3 = '''' then Some (PlainError ''s3.bucket is required for s3 storage type'')
                 else if or_name (sg_CredentialsSecretRef s3) = '''' then
                   Some (PlainError ''s3.credentialsSecretRef is required for s3 storage type'')
                 else case ValidateS3Endpoint (ev_net env) (storageHostPolicy r) (sg_Endpoint s3) of
                   Some e \<Rightarrow> Some (WrapError ''s3 endpoint not permitted: '' e)
                 | None \<Rightarrow> None)
          else if st_Type st = BackendNFS then
            (case st_NFS st of
               None \<Rightarrow> Some (PlainError ''nfs configuration is required when using nfs storage type'')
             | Some nfs \<Rightarrow>
                 if ng_Server nfs = '''' \<or> ng_Export nfs = '''' then
                   Some (PlainError ''nfs.server and nfs.export are required for nfs storage type'')
                 else case ValidateHost (ev_net env) (storageHostPolicy r) (ng_Server nfs) of
                   Some e \<Rightarrow> Some (WrapError ''nfs server not permitted: '' e)
                 | None \<Rightarrow> None)
          else Some (PlainError (''unsupported storage type: '' @ st_Type st @ '' (supported: '' @ [CHR 0x27] @ ''pvc''
                 @ [CHR 0x27] @ '', '' @ [CHR 0x27] @ ''s3'' @ [CHR 0x27] @ '', '' @ [CHR 0x27] @ ''nfs'' @ [CHR 0x27] @ '')'')))"

definition storageOptionsJSON :: "mig_env \<Rightarrow> migration \<Rightarrow> string result" where
  "storageOptionsJSON env m =
     (if migrationBackendType m = BackendS3 then
        (case st_S3 (the (mg_storage m)) of
           None \<Rightarrow> Inl (PlainError ''s3 storage configuration is required for s3 backend'')
         | Some s3 \<Rightarrow>
             MarshalStorageOptions (ev_enc env)
               (zero_options\<lparr>so_Backend := BackendS3, so_Bucket := sg_Bucket s3, so_Endpoint := sg_Endpoint s3,
                  so_Region := sg_Region s3, so_Prefix := sg_Prefix s3, so_UsePathStyle := sg_UsePathStyle s3\<rparr>))
      else if migrationBackendType m = BackendNFS then
        (case st_NFS (the (mg_storage m)) of
           None \<Rightarrow> Inl (PlainError ''nfs storage configuration (server, export) is required for nfs backend'')
         | Some nfs \<Rightarrow>
             if ng_Server nfs = '''' \<or> ng_Export nfs = '''' then
               Inl (PlainError ''nfs storage configuration (server, export) is required for nfs backend'')
             else MarshalStorageOptions (ev_enc env)
               (zero_options\<lparr>so_Backend := BackendNFS, so_Server := ng_Server nfs, so_Export := ng_Export nfs,
                  so_Path := ng_Path nfs, so_UID := ng_UID nfs, so_GID := ng_GID nfs\<rparr>))
      else Inr '''')"

definition loadS3Credentials :: "mig_env \<Rightarrow> migration \<Rightarrow> (string \<rightharpoonup> string) result" where
  "loadS3Credentials env m =
     (if migrationBackendType m \<noteq> BackendS3 then Inr Map.empty
      else case st_S3 (the (mg_storage m)) of
        None \<Rightarrow> Inl (PlainError ''s3 backend requires storage.s3.credentialsSecretRef'')
      | Some s3 \<Rightarrow>
          if or_name (sg_CredentialsSecretRef s3) = '''' then
            Inl (PlainError ''s3 backend requires storage.s3.credentialsSecretRef'')
          else let name = or_name (sg_CredentialsSecretRef s3) in
            case ev_get_secret env (mg_ns m, name) of
              Inl e \<Rightarrow> Inl (WrapError (''get s3 credentials secret '' @ mg_ns m @ ''/'' @ name @ '': '') e)
            | Inr data \<Rightarrow>
                let accessKey = map_get data CredKeyAccessKeyID; secretKey = map_get data CredKeySecretAccessKey in
                if accessKey = '''' \<or> secretKey = '''' then
                  Inl (PlainError (''s3 credentials secret '' @ mg_ns m @ ''/'' @ name @ '' must contain keys ''
                    @ quoted CredKeyAccessKeyID @ '' and '' @ quoted CredKeySecretAccessKey))
                else let creds = [CredKeyAccessKeyID \<mapsto> accessKey, CredKeySecretAccessKey \<mapsto> secretKey];
                         token = map_get data CredKeySessionToken
                     in Inr (if token \<noteq> '''' then creds(CredKeySessionToken \<mapsto> token) else creds))"

definition generateStorageURL :: "migration \<Rightarrow> string \<Rightarrow> string result" where
  "generateStorageURL m stage =
     (case mg_storage m of
        None \<Rightarrow> Inl (PlainError ''storage configuration is required for migration'')
      | Some st \<Rightarrow>
          if st_Type st = ''pvc'' \<or> st_Type st = '''' then
            (let migrationPath = ''vmmigrations/'' @ mg_ns m @ ''/'' @ mg_name m @ ''/'' @ stage @ ''.qcow2'';
                 pvcName = mt_StoragePVCName (mg_status m)
             in if pvcName = '''' then Inl (PlainError ''storage PVC name not set in migration status'')
                else Inr (''pvc://'' @ pvcName @ ''/'' @ migrationPath))
          else if st_Type st = BackendS3 then
            (case st_S3 st of
               None \<Rightarrow> Inl (PlainError ''s3 storage configuration (bucket) is required'')
             | Some s3 \<Rightarrow>
                 if sg_Bucket s3 = '''' then Inl (PlainError ''s3 storage configuration (bucket) is required'')
                 else let key = ''vmmigrations/'' @ mg_ns m @ ''/'' @ mg_name m @ ''/'' @ stage @ ''.vmdk'';
                          prefix = trim_set ''/'' (sg_Prefix s3)
                      in Inr (''s3://'' @ sg_Bucket s3 @ ''/'' @ (if prefix \<noteq> '''' then prefix @ ''/'' @ key else key)))
          else if st_Type st = BackendNFS then
            (case st_NFS st of
               None \<Rightarrow> Inl (PlainError ''nfs storage configuration (server, export) is required'')
             | Some nfs \<Rightarrow>
                 if ng_Server nfs = '''' \<or> ng_Export nfs = '''' then
                   Inl (PlainError ''nfs storage configuration (server, export) is required'')
                 else NFSURL (zero_options\<lparr>so_Server := ng_Server nfs, so_Export := ng_Export nfs,
                        so_Path := ng_Path nfs, so_UID := ng_UID nfs, so_GID := ng_GID nfs\<rparr>)
                      (''vmmigrations-'' @ mg_ns m @ ''-'' @ mg_name m @ ''-'' @ stage @ ''.qcow2''))
          else Inl (PlainError (''unsupported storage type: '' @ st_Type st)))"

section \<open>The migration PVC\<close>

definition triggerProviderReconciliation :: "mig_env \<Rightarrow> migration \<Rightarrow> mig_state \<Rightarrow> mig_state \<times> go_error option" where
  "triggerProviderReconciliation env m s =
     (let timestamp = show_int (ev_now env div second);
          annotate = (\<lambda>p. p\<lparr>pv_meta := (pv_meta p)\<lparr>md_annotations := (md_annotations (pv_meta p))
             (''virtrigaud.io/reconcile-trigger'' \<mapsto> timestamp,
              ''virtrigaud.io/migration-pvc'' \<mapsto> mt_StoragePVCName (mg_status m))\<rparr>\<rparr>)
      in case getSourceProvider env m of
           Inl e \<Rightarrow> (s, Some (WrapError ''failed to get source provider: '' e))
         | Inr src \<Rightarrow>
             (case do_write env (UpdateProvider (annotate src)) s of
                (s1, Some e) \<Rightarrow> (s1, Some (WrapError ''failed to annotate source provider: '' e))
              | (s1, None) \<Rightarrow>
                  (case getTargetProvider env m of
                     Inl e \<Rightarrow> (s1, Some (WrapError ''failed to get target provider: '' e))
                   | Inr tgt \<Rightarrow>
                       (case do_write env (UpdateProvider (annotate tgt)) s1 of
                          (s2, Some e) \<Rightarrow> (s2, Some (WrapError ''failed to annotate target provider: '' e))
                        | (s2, None) \<Rightarrow> (s2, None)))))"

definition new_migration_pvc :: "migration \<Rightarrow> pvc_config \<Rightarrow> pvc" where
  "new_migration_pvc m cfg =
     \<lparr>pc_meta = (new_meta (mg_ns m) (mg_name m @ ''-storage''))
        \<lparr>md_labels := [''app.kubernetes.io/managed-by'' \<mapsto> ''virtrigaud'', ''virtrigaud.io/migration'' \<mapsto> mg_name m,
                      ''virtrigaud.io/component'' \<mapsto> ''migration-storage''],
         md_annotations := [''virtrigaud.io/created-by'' \<mapsto> ''vmmigration-controller'']\<rparr>,
      pc_StorageClassName = pg_StorageClassName cfg,
      pc_AccessMode = (if pg_AccessMode cfg \<noteq> '''' then pg_AccessMode cfg else ''ReadWriteMany''),
      pc_Size = pg_Size cfg,
      pc_Owner = Some (md_uid (mg_meta m))\<rparr>"

definition ensureMigrationPVC :: "mig_env \<Rightarrow> migration \<Rightarrow> mig_state \<Rightarrow> mig_state \<times> string result" where
  "ensureMigrationPVC env m s =
     (case (case mg_storage m of None \<Rightarrow> None | Some st \<Rightarrow> st_PVC st) of
        None \<Rightarrow> (s, Inl (PlainError ''storage PVC configuration is missing''))
      | Some cfg \<Rightarrow>
          if pg_Name cfg \<noteq> '''' then
            (case ev_get_pvc env (mg_ns m, pg_Name cfg) of
               Inl e \<Rightarrow>
                 (s, Inl (if api_is_not_found e
                    then PlainError (''specified PVC '' @ pg_Name cfg @ '' not found in namespace '' @ mg_ns m)
                    else WrapError (''failed to get PVC '' @ pg_Name cfg @ '': '') e))
             | Inr _ \<Rightarrow> (s, Inr (pg_Name cfg)))
          else let pvcName = mg_name m @ ''-storage'' in
            (case ev_get_pvc env (mg_ns m, pvcName) of
               Inr _ \<Rightarrow> (s, Inr pvcName)
             | Inl e \<Rightarrow>
                 if \<not> api_is_not_found e then (s, Inl (WrapError ''failed to check for existing PVC: '' e))
                 else case ev_parse_quantity env (pg_Size cfg) of
                   Some qe \<Rightarrow> (s, Inl (WrapError (''invalid PVC size '' @ pg_Size cfg @ '': '') qe))
                 | None \<Rightarrow>
                     (case ev_owner_err env of
                        Some oe \<Rightarrow> (s, Inl (WrapError ''failed to set owner reference on PVC: '' oe))
                      | None \<Rightarrow>
                          (case do_write env (CreatePVC (new_migration_pvc m cfg)) s of
                             (s1, Some ce) \<Rightarrow> (s1, Inl (WrapError ''failed to create PVC: '' ce))
                           | (s1, None) \<Rightarrow> (fst (triggerProviderReconciliation env m s1), Inr pvcName)))))"

definition migrationMountTimeout :: int where "migrationMountTimeout = 5 * minute"
definition migrationPowerOffPollInterval :: int where "migrationPowerOffPollInterval = 5 * second"
definition migrationImportSettleInterval :: int where "migrationImportSettleInterval = 5 * second"
definition migrationMountPollInterval :: int where "migrationMountPollInterval = 5 * second"

definition volumesContainPVC :: "volume list \<Rightarrow> string \<Rightarrow> bool" where
  "volumesContainPVC vols pvcName = list_ex (\<lambda>v. v = Some pvcName) vols"

definition podConditionTrue :: "pod \<Rightarrow> string \<Rightarrow> bool" where
  "podConditionTrue p ctype = (case find (\<lambda>c. fst c = ctype) (pd_Conditions p) of Some c \<Rightarrow> snd c | None \<Rightarrow> False)"

text \<open>\<open>Inr None\<close>: mounted and ready; \<open>Inr (Some reason)\<close>: not yet.\<close>

definition providerMountReady :: "mig_env \<Rightarrow> provider \<Rightarrow> string \<Rightarrow> string option result" where
  "providerMountReady env p pvcName =
     (let ns = md_namespace (pv_meta p); name = md_name (pv_meta p);
          deploymentName = ''virtrigaud-provider-'' @ ns @ ''-'' @ name
      in case ev_get_deployment env (ns, deploymentName) of
           Inl e \<Rightarrow>
             if api_is_not_found e then Inr (Some (''provider deployment '' @ deploymentName @ '' not found yet''))
             else Inl (WrapError (''get provider deployment '' @ deploymentName @ '': '') e)
         | Inr d \<Rightarrow>
             if \<not> volumesContainPVC (dp_Volumes d) pvcName then
               Inr (Some ''deployment not yet updated with the migration PVC volume'')
             else let replicas = (case dp_Replicas d of None \<Rightarrow> 1 | Some n \<Rightarrow> n) in
               if dp_UpdatedReplicas d < replicas \<or> dp_ReadyReplicas d < replicas then
                 Inr (Some (''provider rollout in progress (updated '' @ show_int (dp_UpdatedReplicas d) @ ''/'' @ show_int replicas
                   @ '', ready '' @ show_int (dp_ReadyReplicas d) @ ''/'' @ show_int replicas @ '')''))
               else case ev_list_pods env (ns, name) of
                 Inl e \<Rightarrow> Inl (WrapError (''list provider '' @ name @ '' pods: '') e)
               | Inr pods \<Rightarrow>
                   if list_ex (\<lambda>q. \<not> pd_deleting q \<and> volumesContainPVC (pd_Volumes q) pvcName \<and>
                        pd_Phase q = ''Running'' \<and> podConditionTrue q ''Ready'') pods
                   then Inr None else Inr (Some ''no Ready pod with the migration PVC mounted yet''))"

definition migrationProvidersMounted :: "mig_env \<Rightarrow> provider \<Rightarrow> provider \<Rightarrow> string \<Rightarrow> string option result" where
  "migrationProvidersMounted env src tgt pvcName =
     (case providerMountReady env src pvcName of
        Inl e \<Rightarrow> Inl (WrapError (''source provider '' @ md_name (pv_meta src) @ '': '') e)
      | Inr (Some reason) \<Rightarrow> Inr (Some (''source: '' @ reason))
      | Inr None \<Rightarrow>
          (case providerMountReady env tgt pvcName of
             Inl e \<Rightarrow> Inl (WrapError (''target provider '' @ md_name (pv_meta tgt) @ '': '') e)
           | Inr (Some reason) \<Rightarrow> Inr (Some (''target: '' @ reason))
           | Inr None \<Rightarrow> Inr None))"

definition migrationMountDeadlineExceeded :: "mig_env \<Rightarrow> migration \<Rightarrow> string \<Rightarrow> bool result" where
  "migrationMountDeadlineExceeded env m pvcName =
     (case ev_get_pvc env (mg_ns m, pvcName) of
        Inl e \<Rightarrow> Inl (WrapError (''get migration PVC '' @ pvcName @ '': '') e)
      | Inr p \<Rightarrow> Inr (time_sub (ev_now env) (md_creation (pc_meta p)) > migrationMountTimeout))"

section \<open>Cleanup\<close>

definition cleanupAllowed :: "migration \<Rightarrow> bool" where
  "cleanupAllowed m \<longleftrightarrow> (case mg_options m of None \<Rightarrow> True | Some o1 \<Rightarrow> mo_CleanupPolicy o1 \<noteq> CleanupPolicyNever)"

definition cleanup_mount_path :: "migration \<Rightarrow> string" where
  "cleanup_mount_path m =
     (let pvcCfg = (case mg_storage m of None \<Rightarrow> None | Some st \<Rightarrow> st_PVC st);
          pvcName = (if mt_StoragePVCName (mg_status m) = '''' then
                       (case pvcCfg of Some c \<Rightarrow> pg_Name c | None \<Rightarrow> '''')
                     else mt_StoragePVCName (mg_status m));
          basePath = (case pvcCfg of Some c \<Rightarrow> if pg_MountPath c \<noteq> '''' then pg_MountPath c else ''/mnt/migration-storage''
                        | None \<Rightarrow> ''/mnt/migration-storage'')
      in basePath @ ''/'' @ pvcName)"

definition cleanupIntermediateStorage :: "mig_env \<Rightarrow> migration \<Rightarrow> mig_state \<Rightarrow> mig_state \<times> go_error option" where
  "cleanupIntermediateStorage env m s =
     (case mg_storage m of
        None \<Rightarrow> (s, None)
      | Some st \<Rightarrow>
          (let pvcName = (if mt_StoragePVCName (mg_status m) = '''' then
                            (case st_PVC st of Some c \<Rightarrow> pg_Name c | None \<Rightarrow> '''')
                          else mt_StoragePVCName (mg_status m));
               config = \<lparr>sc_Type = ''pvc'', sc_PVCName = pvcName, sc_PVCNamespace = mg_ns m,
                         sc_MountPath = cleanup_mount_path m, sc_S3 = None\<rparr>
           in case NewStorage (ev_os env) (mgr_files s) (\<lambda>_. Inl (PlainError '''') :: unit result) config of
                Inr (Inl store) \<Rightarrow>
                  (case generateStorageURL m ''export'' of
                     Inl e \<Rightarrow> (s, None)
                   | Inr url \<Rightarrow> (s\<lparr>mgr_files := fst (pvc_Delete (ev_os env) store url (mgr_files s))\<rparr>, None))
              | Inr (Inr _) \<Rightarrow> (s, None)
              | Inl e \<Rightarrow> (s, Some (WrapError ''failed to create storage client: '' e))))"

text \<open>The bounded wait for a task: up to \<open>left\<close> polls, an error counting as not done.\<close>

fun poll_task :: "provider_instance \<Rightarrow> string \<Rightarrow> nat \<Rightarrow> nat \<Rightarrow> bool" where
  "poll_task inst task i 0 = False"
| "poll_task inst task i (Suc left) =
     (case pi_IsTaskComplete inst task i of Inr True \<Rightarrow> True | _ \<Rightarrow> poll_task inst task (Suc i) left)"

definition deleteSourceSnapshot :: "mig_env \<Rightarrow> mig_reconciler \<Rightarrow> migration \<Rightarrow> mig_state
    \<Rightarrow> mig_state \<times> migration \<times> go_error option" where
  "deleteSourceSnapshot env r m s =
     (case getSourceVM env m of
        Inl e \<Rightarrow> (s, m, Some (WrapError ''failed to get source VM: '' e))
      | Inr vm \<Rightarrow>
          (case getProvider env (sourceProviderRef m vm) (mg_ns m) of
             Inl e \<Rightarrow> (s, m, Some (WrapError ''failed to get source provider: '' e))
           | Inr p \<Rightarrow>
               (case getProviderInstance env r p of
                  Inl e \<Rightarrow> (s, m, Some (WrapError ''failed to get provider instance: '' e))
                | Inr inst \<Rightarrow>
                    (let vmId = vt_ID (vm_status vm); snap = mt_SnapshotID (mg_status m);
                         resp = pi_SnapshotDelete inst vmId snap;
                         s1 = emit (EvSnapshotDelete vmId snap (\<not> isl resp)) s;
                         gone = set_st (\<lambda>t. t\<lparr>mt_SnapshotID := ''''\<rparr>) m
                     in case resp of
                          Inl e \<Rightarrow> (s1, m, Some (WrapError ''failed to delete snapshot: '' e))
                        | Inr task \<Rightarrow>
                            if task = '''' then (s1, gone, None)
                            else if \<not> poll_task inst task 0 (ev_polls env) then
                              (s1, m, Some (WrapError (''await snapshot delete task '' @ task @ '': '') (ev_poll_timeout env)))
                            else case pi_TaskStatus inst task of
                              Inl e \<Rightarrow> (s1, m, Some (WrapError (''get snapshot delete task '' @ task @ '' status: '') e))
                            | Inr ts \<Rightarrow>
                                if ts_Error ts \<noteq> '''' then
                                  (s1, m, Some (PlainError (''snapshot delete task '' @ task @ '' failed: '' @ ts_Error ts)))
                                else (s1, gone, None)))))"

definition deleteSourceVM :: "mig_env \<Rightarrow> migration \<Rightarrow> mig_state \<Rightarrow> mig_state \<times> go_error option" where
  "deleteSourceVM env m s =
     (case getSourceVM env m of
        Inl e \<Rightarrow> (s, Some (WrapError ''failed to get source VM: '' e))
      | Inr vm \<Rightarrow>
          (case do_write env (DeleteVM vm) s of
             (s1, Some e) \<Rightarrow> (s1, Some (WrapError ''failed to delete source VM: '' e))
           | (s1, None) \<Rightarrow> (s1, None)))"

definition cleanupSnapshotOnTerminalFailure :: "mig_env \<Rightarrow> mig_reconciler \<Rightarrow> migration \<Rightarrow> mig_state
    \<Rightarrow> mig_state \<times> migration" where
  "cleanupSnapshotOnTerminalFailure env r m s =
     (if \<not> cleanupAllowed m \<or> mt_SnapshotID (mg_status m) = '''' \<or> src_SnapshotRef (mg_source m) \<noteq> None then (s, m)
      else let (s', m', _) = deleteSourceSnapshot env r m s in (s', m'))"

end
