(* ===== verification/MigrationPhases.thy ===== *)
theory MigrationPhases
  imports MigrationStorage
begin

text \<open>
  The phase handlers of the VMMigration reconciler and \<^verbatim>\<open>Reconcile\<close> itself.
\<close>

section \<open>Pending and Validating\<close>

definition handlePendingPhase :: "mig_env \<Rightarrow> migration \<Rightarrow> mig_state \<Rightarrow> mig_state \<times> go_error outcome" where
  "handlePendingPhase env m s =
     finish env
       (set_cond env CondValidating ConditionTrue ''ValidationStarted'' ''Migration validation started''
         (set_st (\<lambda>t. t\<lparr>mt_Phase := PhaseValidating, mt_Message := ''Starting validation''\<rparr>) m))
       requeue_now s"

text \<open>
  The result is the error, or whether the source is off (with the result to return when it is not).
\<close>

definition ensureSourcePoweredOff :: "mig_env \<Rightarrow> mig_reconciler \<Rightarrow> migration \<Rightarrow> mig_state
    \<Rightarrow> mig_state \<times> migration \<times> (bool \<times> go_error outcome) result" where
  "ensureSourcePoweredOff env r m s =
     (case getSourceVM env m of
        Inl e \<Rightarrow> (s, m, Inl (WrapError ''get source VM: '' e))
      | Inr vm \<Rightarrow>
          if vt_ID (vm_status vm) = '''' then
            (s, m, Inl (PlainError (''source VM '' @ md_name (vm_meta vm) @ '' has no provider ID yet'')))
          else let (s1, perr) =
              (if vs_PowerState (vm_spec vm) \<noteq> PowerStateOff
               then do_write env (PatchVM (vm\<lparr>vm_spec := (vm_spec vm)\<lparr>vs_PowerState := PowerStateOff\<rparr>\<rparr>)) s
               else (s, None))
            in case perr of
              Some e \<Rightarrow> (s1, m, Inl (WrapError (''set source VM '' @ md_name (vm_meta vm)
                          @ '' desired power state to Off: '') e))
            | None \<Rightarrow>
                (case getProvider env (vs_ProviderRef (vm_spec vm)) (mg_ns m) of
                   Inl e \<Rightarrow> (s1, m, Inl (WrapError ''get source provider: '' e))
                 | Inr p \<Rightarrow>
                     (case getProviderInstance env r p of
                        Inl e \<Rightarrow> (s1, m, Inl (WrapError ''get source provider instance: '' e))
                      | Inr inst \<Rightarrow>
                          (case pi_Describe inst (vt_ID (vm_status vm)) of
                             Inl e \<Rightarrow> (s1, m, Inl (WrapError ''describe source VM: '' e))
                           | Inr desc \<Rightarrow>
                               if ds_PowerState desc = ''Off'' then (s1, m, Inr (True, done_result))
                               else let (s2, werr) =
                                   (if ds_PowerState desc = ''On'' then
                                      (let resp = pi_Power inst (vt_ID (vm_status vm)) PowerOpOff in
                                       (emit (EvPower (vt_ID (vm_status vm)) PowerOpOff (\<not> isl resp)) s1,
                                        (case resp of Inl e \<Rightarrow> Some e | Inr _ \<Rightarrow> None)))
                                    else (s1, None))
                                 in case werr of
                                   Some e \<Rightarrow> (s2, m, Inl (WrapError ''power off source VM: '' e))
                                 | None \<Rightarrow>
                                     (case updateStatus env
                                        (set_st (\<lambda>t. t\<lparr>mt_Message := ''Powering off source VM before migration''\<rparr>) m) s2 of
                                        (s3, m3, Some e) \<Rightarrow> (s3, m3, Inl e)
                                      | (s3, m3, None) \<Rightarrow> (s3, m3, Inr (False, requeue_in migrationPowerOffPollInterval)))))))"

definition wait_validating :: "mig_env \<Rightarrow> migration \<Rightarrow> string \<Rightarrow> string \<Rightarrow> mig_state \<Rightarrow> mig_state \<times> go_error outcome" where
  "wait_validating env m reason msg s =
     finish env (set_cond env CondValidating ConditionFalse reason msg m) (requeue_in (30 * second)) s"

text \<open>The end of validation: power off the source if asked to, then enter the next phase.\<close>

definition complete_validation :: "mig_env \<Rightarrow> mig_reconciler \<Rightarrow> migration \<Rightarrow> mig_state \<Rightarrow> mig_state \<times> go_error outcome" where
  "complete_validation env r m s =
     (let advance = (\<lambda>m s.
        finish env
          (set_cond env CondValidating ConditionTrue ''ValidationComplete'' ''Migration validation completed successfully''
            (if src_CreateSnapshot (mg_source m)
             then set_st (\<lambda>t. t\<lparr>mt_Phase := PhaseSnapshotting, mt_Message := ''Preparing to snapshot source VM''\<rparr>) m
             else set_st (\<lambda>t. t\<lparr>mt_Phase := PhaseExporting, mt_Message := ''Preparing to export source VM''\<rparr>) m))
          requeue_now s)
      in if src_PowerOffBeforeMigration (mg_source m) then
           (case ensureSourcePoweredOff env r m s of
              (s1, m1, Inl e) \<Rightarrow> transitionToFailed env m1
                (''Failed to power off source VM before migration: '' @ error_string e) s1
            | (s1, m1, Inr (False, res)) \<Rightarrow> (s1, res)
            | (s1, m1, Inr (True, _)) \<Rightarrow> advance m1 s1)
         else advance m s)"

text \<open>The PVC branch of validation.\<close>

definition validate_pvc_path :: "mig_env \<Rightarrow> mig_reconciler \<Rightarrow> migration \<Rightarrow> provider \<Rightarrow> provider \<Rightarrow> mig_state
    \<Rightarrow> mig_state \<times> go_error outcome" where
  "validate_pvc_path env r m src tgt s =
     (if md_namespace (pv_meta src) \<noteq> mg_ns m \<or> md_namespace (pv_meta tgt) \<noteq> mg_ns m then
        transitionToFailed env m
          (''PVC-based migration requires the migration ('' @ mg_ns m @ ''), source provider ('' @ md_namespace (pv_meta src)
           @ ''/'' @ md_name (pv_meta src) @ '') and target provider ('' @ md_namespace (pv_meta tgt) @ ''/''
           @ md_name (pv_meta tgt) @ '') to share one namespace; a pod cannot mount a PVC across namespaces'') s
      else case ensureMigrationPVC env m s of
        (s1, Inl e) \<Rightarrow> transitionToFailed env m (''Failed to ensure migration PVC: '' @ error_string e) s1
      | (s1, Inr pvcName) \<Rightarrow>
          (case (if mt_StoragePVCName (mg_status m) = ''''
                 then updateStatus env (set_st (\<lambda>t. t\<lparr>mt_StoragePVCName := pvcName\<rparr>) m) s1
                 else (s1, m, None)) of
             (s2, m2, Some e) \<Rightarrow> (s2, fail_with e)
           | (s2, m2, None) \<Rightarrow>
               (case migrationProvidersMounted env src tgt pvcName of
                  Inl e \<Rightarrow> transitionToFailed env m2 (''Failed to check migration storage mount: '' @ error_string e) s2
                | Inr None \<Rightarrow> complete_validation env r m2 s2
                | Inr (Some reason) \<Rightarrow>
                    (case migrationMountDeadlineExceeded env m2 pvcName of
                       Inl e \<Rightarrow> transitionToFailed env m2 (''Failed to check migration storage mount: '' @ error_string e) s2
                     | Inr True \<Rightarrow>
                         transitionToFailed env m2
                           (''timed out after 5m0s waiting for providers to mount migration PVC '' @ pvcName @ '' ('' @ reason
                            @ ''); verify the provider Deployments rolled new pods and that those pods are Ready (kubectl -n ''
                            @ mg_ns m2 @ '' get deploy,pod -l app.kubernetes.io/name=virtrigaud-provider)'') s2
                     | Inr False \<Rightarrow>
                         finish env
                           (set_st (\<lambda>t. t\<lparr>mt_Message := ''Waiting for providers to mount migration storage: '' @ reason\<rparr>)
                             (set_cond env CondValidating ConditionFalse ''WaitingForStorageMount'' reason m2))
                           (requeue_in migrationMountPollInterval) s2))))"

definition handleValidatingPhase :: "mig_env \<Rightarrow> mig_reconciler \<Rightarrow> migration \<Rightarrow> mig_state \<Rightarrow> mig_state \<times> go_error outcome" where
  "handleValidatingPhase env r m s =
     (case getSourceVM env m of
        Inl e \<Rightarrow> transitionToFailed env m (''Failed to get source VM: '' @ error_string e) s
      | Inr vm \<Rightarrow>
          if vt_ID (vm_status vm) = '''' then
            wait_validating env m ''SourceVMNotReady'' ''Source VM is not yet provisioned'' s
          else case getProvider env (sourceProviderRef m vm) (mg_ns m) of
            Inl e \<Rightarrow> transitionToFailed env m (''Failed to get source provider: '' @ error_string e) s
          | Inr src \<Rightarrow>
              (case getProvider env (tg_ProviderRef (mg_target m)) (mg_ns m) of
                 Inl e \<Rightarrow> transitionToFailed env m (''Failed to get target provider: '' @ error_string e) s
               | Inr tgt \<Rightarrow>
                   if \<not> isProviderReady src then
                     wait_validating env m ''SourceProviderNotReady'' ''Source provider is not ready'' s
                   else if \<not> isProviderReady tgt then
                     wait_validating env m ''TargetProviderNotReady'' ''Target provider is not ready'' s
                   else case gateMigrationStorageBackend m src tgt of
                     Some msg \<Rightarrow> transitionToFailed env m msg s
                   | None \<Rightarrow>
                       (case mg_storage m of
                          None \<Rightarrow> complete_validation env r m s
                        | Some st \<Rightarrow>
                            (case validateStorageConfig env r (Some st) of
                               Some e \<Rightarrow> transitionToFailed env m (''Invalid storage configuration: '' @ error_string e) s
                             | None \<Rightarrow>
                                 if migrationBackendType m = BackendS3 then
                                   (case loadS3Credentials env m of
                                      Inl e \<Rightarrow> transitionToFailed env m
                                                (''Invalid s3 storage configuration: '' @ error_string e) s
                                    | Inr _ \<Rightarrow> complete_validation env r m s)
                                 else if migrationBackendType m = BackendNFS then complete_validation env r m s
                                 else validate_pvc_path env r m src tgt s))))"

section \<open>Snapshotting\<close>

definition panic_error :: "string \<Rightarrow> go_error" where
  "panic_error what = PlainError (''panic: '' @ what)"

definition handleSnapshottingPhase :: "mig_env \<Rightarrow> mig_reconciler \<Rightarrow> migration \<Rightarrow> mig_state \<Rightarrow> mig_state \<times> go_error outcome" where
  "handleSnapshottingPhase env r m s =
     (case getSourceVM env m of
        Inl e \<Rightarrow> transitionToFailed env m (''Failed to get source VM: '' @ error_string e) s
      | Inr vm \<Rightarrow>
          (case src_SnapshotRef (mg_source m) of
             Some snap \<Rightarrow>
               finish env
                 (set_cond env CondSnapshotting ConditionTrue ''SnapshotSelected'' ''Using existing snapshot''
                   (set_st (\<lambda>t. t\<lparr>mt_SnapshotID := snap, mt_Phase := PhaseExporting,
                                  mt_Message := ''Using existing snapshot '' @ snap\<rparr>) m))
                 requeue_now s
           | None \<Rightarrow>
               (case getProvider env (sourceProviderRef m vm) (mg_ns m) of
                  Inl e \<Rightarrow> transitionToFailed env m (''Failed to get source provider: '' @ error_string e) s
                | Inr p \<Rightarrow>
                    (case getProviderInstance env r p of
                       Inl e \<Rightarrow> transitionToFailed env m (''Failed to get provider instance: '' @ error_string e) s
                     | Inr inst \<Rightarrow>
                         if mt_SnapshotID (mg_status m) \<noteq> '''' then
                           finish env
                             (set_cond env CondSnapshotting ConditionTrue ''SnapshotComplete'' ''Source VM snapshot created''
                               (set_st (\<lambda>t. t\<lparr>mt_Phase := PhaseExporting, mt_Message := ''Snapshot ready, starting export''\<rparr>) m))
                             requeue_now s
                         else if length (md_uid (mg_meta m)) < 8 then
                           (s, fail_with (panic_error ''slice bounds out of range''))
                         else
                           (let req = \<lparr>sq_VmId = vt_ID (vm_status vm),
                                  sq_NameHint = src_VMRef (mg_source m) @ ''-migration-'' @ take 8 (md_uid (mg_meta m)),
                                  sq_Description = ''Migration snapshot for '' @ mg_name m,
                                  sq_IncludeMemory = False, sq_Quiesce = False\<rparr>;
                                resp = pi_SnapshotCreate inst req;
                                s1 = emit (EvSnapshotCreate req (\<not> isl resp)) s
                            in case resp of
                                 Inl e \<Rightarrow> transitionToFailed env m (''Failed to create snapshot: '' @ error_string e) s1
                               | Inr sr \<Rightarrow>
                                   (let m1 = set_st (\<lambda>t. t\<lparr>mt_SnapshotID := sr_SnapshotId sr,
                                               mt_Message := ''Snapshot '' @ sr_SnapshotId sr @ '' created''\<rparr>) m
                                    in case sr_Task sr of
                                         Some task \<Rightarrow>
                                           if task \<noteq> '''' then
                                             finish env (set_st (\<lambda>t. t\<lparr>mt_TaskRef := task\<rparr>) m1) (requeue_in (10 * second)) s1
                                           else finish env
                                             (set_cond env CondSnapshotting ConditionTrue ''SnapshotComplete'' ''Source VM snapshot created''
                                               (set_st (\<lambda>t. t\<lparr>mt_Phase := PhaseExporting,
                                                  mt_Message := ''Snapshot created, starting export'', mt_TaskRef := ''''\<rparr>) m1))
                                             requeue_now s1
                                       | None \<Rightarrow>
                                           finish env
                                             (set_cond env CondSnapshotting ConditionTrue ''SnapshotComplete'' ''Source VM snapshot created''
                                               (set_st (\<lambda>t. t\<lparr>mt_Phase := PhaseExporting,
                                                  mt_Message := ''Snapshot created, starting export'', mt_TaskRef := ''''\<rparr>) m1))
                                             requeue_now s1))))))"

section \<open>Exporting\<close>

definition disk_format :: "migration \<Rightarrow> string" where
  "disk_format m = (case mg_options m of Some o1 \<Rightarrow> if mo_DiskFormat o1 \<noteq> '''' then mo_DiskFormat o1 else ''qcow2'' | None \<Rightarrow> ''qcow2'')"

text \<open>
  The wait for the task of an issued export or import: \<open>Some\<close> result to return now, \<open>None\<close> to
  advance. \<open>what\<close> is \<open>export\<close> or \<open>import\<close>, \<open>What\<close> its capitalised form.
\<close>

definition await_task :: "mig_env \<Rightarrow> provider_instance \<Rightarrow> string \<Rightarrow> string \<Rightarrow> migration \<Rightarrow> mig_state
    \<Rightarrow> (mig_state \<times> go_error outcome) option" where
  "await_task env inst what What m s =
     (if mt_TaskRef (mg_status m) = '''' then None
      else case pi_IsTaskComplete inst (mt_TaskRef (mg_status m)) 0 of
        Inl e \<Rightarrow> Some (s, requeue_in (30 * second))
      | Inr False \<Rightarrow> Some (s, requeue_in (30 * second))
      | Inr True \<Rightarrow>
          (case pi_TaskStatus inst (mt_TaskRef (mg_status m)) of
             Inl e \<Rightarrow> Some (transitionToFailed env m (''Failed to get '' @ what @ '' task status: '' @ error_string e) s)
           | Inr ts \<Rightarrow>
               if ts_Error ts \<noteq> '''' then Some (transitionToFailed env m (What @ '' failed: '' @ ts_Error ts) s)
               else None))"

definition export_complete :: "mig_env \<Rightarrow> migration \<Rightarrow> migration" where
  "export_complete env m =
     set_cond env CondExporting ConditionTrue ''ExportComplete'' ''Source VM disk exported''
       (set_st (\<lambda>t. t\<lparr>mt_Phase := PhaseImporting, mt_Message := ''Disk exported successfully'', mt_TaskRef := ''''\<rparr>) m)"

definition exportAlreadyDone :: "migration \<Rightarrow> mig_state \<Rightarrow> bool" where
  "exportAlreadyDone m s \<longleftrightarrow> mt_ExportID (mg_status m) \<noteq> '''' \<or>
     IsConditionTrue (mt_Conditions (mg_status m)) CondExporting \<or> longOpAlreadyStarted m LongOpExport s"

definition export_request :: "migration \<Rightarrow> virtual_machine \<Rightarrow> string \<Rightarrow> string \<Rightarrow> (string \<rightharpoonup> string) \<Rightarrow> export_disk_request" where
  "export_request m vm url opts creds =
     \<lparr>er_VmId = vt_ID (vm_status vm), er_DiskId = '''', er_SnapshotId = mt_SnapshotID (mg_status m),
      er_DestinationURL = url, er_Format = disk_format m,
      er_Compress = (case mg_options m of Some o1 \<Rightarrow> mo_Compress o1 | None \<Rightarrow> False),
      er_Credentials = creds, er_BackendType = migrationBackendType m, er_TransferMode = resolveTransferMode m,
      er_StorageOptionsJSON = opts\<rparr>"

definition record_export :: "migration \<Rightarrow> export_disk_response \<Rightarrow> migration" where
  "record_export m resp =
     set_st (\<lambda>t. t\<lparr>mt_ExportID := ep_ExportId resp,
       mt_Message := ''Exporting disk (estimated size: '' @ show_int (ep_EstimatedSizeBytes resp) @ '' bytes)'',
       mt_DiskInfo := Some ((case mt_DiskInfo t of None \<Rightarrow> empty_disk_info | Some d \<Rightarrow> d)
         \<lparr>di_SourceDiskID := '''', di_SourceFormat := disk_format m, di_SourceChecksum := ep_Checksum resp\<rparr>)\<rparr>) m"

text \<open>Claiming the guard, issuing the RPC and recording its outcome.\<close>

definition issue_export :: "mig_env \<Rightarrow> provider_instance \<Rightarrow> migration \<Rightarrow> export_disk_request \<Rightarrow> mig_state
    \<Rightarrow> mig_state \<times> go_error outcome" where
  "issue_export env inst m req s =
     (case markLongOpStarted m LongOpExport s of
        (s1, False) \<Rightarrow> (s1, requeue_in (30 * second))
      | (s1, True) \<Rightarrow>
          (let resp = pi_ExportDisk inst req;
               s2 = emit (EvExportDisk req (\<not> isl resp)) s1
           in case resp of
                Inl e \<Rightarrow> transitionToFailed env m (''Failed to start disk export: '' @ error_string e)
                          (releaseLongOp m LongOpExport s2)
              | Inr er \<Rightarrow>
                  (let m1 = record_export m er in
                   if ep_TaskRef er \<noteq> '''' then
                     finish env (set_st (\<lambda>t. t\<lparr>mt_TaskRef := ep_TaskRef er\<rparr>) m1) (requeue_in (30 * second)) s2
                   else finish env (export_complete env m1) done_result s2)))"

definition handleExportingPhase :: "mig_env \<Rightarrow> mig_reconciler \<Rightarrow> migration \<Rightarrow> mig_state \<Rightarrow> mig_state \<times> go_error outcome" where
  "handleExportingPhase env r m s =
     (case getSourceVM env m of
        Inl e \<Rightarrow> transitionToFailed env m (''Failed to get source VM: '' @ error_string e) s
      | Inr vm \<Rightarrow>
          (case getProvider env (sourceProviderRef m vm) (mg_ns m) of
             Inl e \<Rightarrow> transitionToFailed env m (''Failed to get source provider: '' @ error_string e) s
           | Inr p \<Rightarrow>
               (case getProviderInstance env r p of
                  Inl e \<Rightarrow> transitionToFailed env m (''Failed to get provider instance: '' @ error_string e) s
                | Inr inst \<Rightarrow>
                    if exportAlreadyDone m s then
                      (case await_task env inst ''export'' ''Export'' m s of
                         Some res \<Rightarrow> res
                       | None \<Rightarrow> finish env (export_complete env m) done_result s)
                    else case generateStorageURL m ''export'' of
                      Inl e \<Rightarrow> transitionToFailed env m (''Failed to generate storage URL: '' @ error_string e) s
                    | Inr url \<Rightarrow>
                        (case storageOptionsJSON env m of
                           Inl e \<Rightarrow> transitionToFailed env m (''Failed to build storage options: '' @ error_string e) s
                         | Inr opts \<Rightarrow>
                             (case loadS3Credentials env m of
                                Inl e \<Rightarrow> transitionToFailed env m (''Failed to load storage credentials: '' @ error_string e) s
                              | Inr creds \<Rightarrow>
                                  (case gateProviderCapability env r m inst cap_SupportsDiskExport
                                          ''Source provider does not support disk export'' s of
                                     (s1, Some res) \<Rightarrow> (s1, res)
                                   | (s1, None) \<Rightarrow>
                                       issue_export env inst m (export_request m vm url opts creds) s1))))))"

section \<open>Transferring and Converting\<close>

definition handleTransferringPhase :: "mig_env \<Rightarrow> migration \<Rightarrow> mig_state \<Rightarrow> mig_state \<times> go_error outcome" where
  "handleTransferringPhase env m s =
     finish env
       (set_cond env CondTransferring ConditionTrue ''TransferComplete'' ''Disk transfer completed''
         (set_st (\<lambda>t. t\<lparr>mt_Phase := PhaseImporting, mt_Message := ''Transfer complete, starting import''\<rparr>) m))
       requeue_now s"

definition handleConvertingPhase :: "mig_env \<Rightarrow> migration \<Rightarrow> mig_state \<Rightarrow> mig_state \<times> go_error outcome" where
  "handleConvertingPhase env m s =
     finish env
       (set_st (\<lambda>t. t\<lparr>mt_Phase := PhaseImporting, mt_Message := ''Conversion complete, starting import''\<rparr>) m)
       requeue_now s"

section \<open>Importing\<close>

definition import_complete :: "mig_env \<Rightarrow> migration \<Rightarrow> migration" where
  "import_complete env m =
     set_cond env CondImporting ConditionTrue ''ImportComplete'' ''Disk imported to target provider''
       (set_st (\<lambda>t. t\<lparr>mt_Phase := PhaseCreating, mt_Message := ''Disk imported, creating target VM'', mt_TaskRef := ''''\<rparr>) m)"

definition importAlreadyDone :: "migration \<Rightarrow> mig_state \<Rightarrow> bool" where
  "importAlreadyDone m s \<longleftrightarrow> mt_ImportID (mg_status m) \<noteq> '''' \<or>
     IsConditionTrue (mt_Conditions (mg_status m)) CondImporting \<or> longOpAlreadyStarted m LongOpImport s"

definition import_format :: "mig_env \<Rightarrow> migration \<Rightarrow> string result" where
  "import_format env m =
     (if migrationBackendType m = BackendS3 then
        (case getSourceProvider env m of Inl e \<Rightarrow> Inl e | Inr p \<Rightarrow> Inr (stagedImportFormat p))
      else if migrationBackendType m = BackendNFS then Inr ''qcow2''
      else Inr (disk_format m))"

definition import_request :: "migration \<Rightarrow> string \<Rightarrow> string \<Rightarrow> string \<Rightarrow> (string \<rightharpoonup> string) \<Rightarrow> import_disk_request" where
  "import_request m url fmt opts creds =
     \<lparr>ir_SourceURL = url, ir_StorageHint = '''', ir_Format = fmt, ir_TargetName = tg_Name (mg_target m) @ ''-migrated'',
      ir_VerifyChecksum = (case mg_options m of None \<Rightarrow> True | Some o1 \<Rightarrow> mo_VerifyChecksums o1),
      ir_ExpectedChecksum = (case mt_DiskInfo (mg_status m) of Some d \<Rightarrow> di_SourceChecksum d | None \<Rightarrow> ''''),
      ir_Credentials = creds, ir_BackendType = migrationBackendType m, ir_TransferMode = resolveTransferMode m,
      ir_StorageOptionsJSON = opts\<rparr>"

definition record_import :: "migration \<Rightarrow> provider \<Rightarrow> import_disk_response \<Rightarrow> migration" where
  "record_import m tgt resp =
     set_st (\<lambda>t. t\<lparr>mt_ImportID := ip_DiskId resp,
       mt_Message := ''Importing disk (size: '' @ show_int (ip_ActualSizeBytes resp) @ '' bytes)'',
       mt_DiskInfo := Some ((case mt_DiskInfo t of None \<Rightarrow> empty_disk_info | Some d \<Rightarrow> d)
         \<lparr>di_TargetDiskID := ip_DiskId resp, di_TargetFormat := landedTargetFormat tgt,
          di_TargetPath := ip_Path resp, di_TargetChecksum := ip_Checksum resp\<rparr>)\<rparr>) m"

definition issue_import :: "mig_env \<Rightarrow> provider_instance \<Rightarrow> provider \<Rightarrow> migration \<Rightarrow> import_disk_request \<Rightarrow> mig_state
    \<Rightarrow> mig_state \<times> go_error outcome" where
  "issue_import env inst tgt m req s =
     (case markLongOpStarted m LongOpImport s of
        (s1, False) \<Rightarrow> (s1, requeue_in (30 * second))
      | (s1, True) \<Rightarrow>
          (let resp = pi_ImportDisk inst req;
               s2 = emit (EvImportDisk req (\<not> isl resp)) s1
           in case resp of
                Inl e \<Rightarrow> transitionToFailed env m (''Failed to start disk import: '' @ error_string e)
                          (releaseLongOp m LongOpImport s2)
              | Inr ir \<Rightarrow>
                  (let m1 = record_import m tgt ir in
                   if ip_TaskRef ir \<noteq> '''' then
                     finish env (set_st (\<lambda>t. t\<lparr>mt_TaskRef := ip_TaskRef ir\<rparr>) m1) (requeue_in (30 * second)) s2
                   else finish env (import_complete env m1) (requeue_in migrationImportSettleInterval) s2)))"

definition handleImportingPhase :: "mig_env \<Rightarrow> mig_reconciler \<Rightarrow> migration \<Rightarrow> mig_state \<Rightarrow> mig_state \<times> go_error outcome" where
  "handleImportingPhase env r m s =
     (case getProvider env (tg_ProviderRef (mg_target m)) (mg_ns m) of
        Inl e \<Rightarrow> transitionToFailed env m (''Failed to get target provider: '' @ error_string e) s
      | Inr tgt \<Rightarrow>
          (case getProviderInstance env r tgt of
             Inl e \<Rightarrow> transitionToFailed env m (''Failed to get target provider instance: '' @ error_string e) s
           | Inr inst \<Rightarrow>
               if importAlreadyDone m s then
                 (case await_task env inst ''import'' ''Import'' m s of
                    Some res \<Rightarrow> res
                  | None \<Rightarrow> finish env (import_complete env m) done_result s)
               else case generateStorageURL m ''export'' of
                 Inl e \<Rightarrow> transitionToFailed env m (''Failed to generate source URL: '' @ error_string e) s
               | Inr url \<Rightarrow>
                   (case storageOptionsJSON env m of
                      Inl e \<Rightarrow> transitionToFailed env m (''Failed to build storage options: '' @ error_string e) s
                    | Inr opts \<Rightarrow>
                        (case loadS3Credentials env m of
                           Inl e \<Rightarrow> transitionToFailed env m (''Failed to load storage credentials: '' @ error_string e) s
                         | Inr creds \<Rightarrow>
                             (case import_format env m of
                                Inl e \<Rightarrow> transitionToFailed env m (''Failed to get source provider: '' @ error_string e) s
                              | Inr fmt \<Rightarrow>
                                  (case gateProviderCapability env r m inst cap_SupportsDiskImport
                                          ''Target provider does not support disk import'' s of
                                     (s1, Some res) \<Rightarrow> (s1, res)
                                   | (s1, None) \<Rightarrow>
                                       issue_import env inst tgt m (import_request m url fmt opts creds) s1))))))"

section \<open>Creating and validating the target\<close>

definition AnnMigratedFrom :: string where "AnnMigratedFrom = ''virtrigaud.io/migrated-from''"
definition AnnMigration :: string where "AnnMigration = ''virtrigaud.io/migration''"
definition AnnImportedDiskID :: string where "AnnImportedDiskID = ''virtrigaud.io/imported-disk-id''"
definition AnnDiskChecksum :: string where "AnnDiskChecksum = ''virtrigaud.io/disk-checksum''"
definition AnnCompleted :: string where "AnnCompleted = ''virtrigaud.io/migration-completed''"
definition AnnCompletedAt :: string where "AnnCompletedAt = ''virtrigaud.io/migration-completed-at''"

lemmas ann_names = AnnMigratedFrom_def AnnMigration_def AnnImportedDiskID_def AnnDiskChecksum_def
  AnnCompleted_def AnnCompletedAt_def

text \<open>\<^verbatim>\<open>meta.FindStatusCondition(conditions, "Ready")\<close> and the text of its status.\<close>

definition vm_ready_condition :: "virtual_machine \<Rightarrow> condition option" where
  "vm_ready_condition vm = find (\<lambda>c. c_type c = ''Ready'') (vt_Conditions (vm_status vm))"

definition vm_ready :: "virtual_machine \<Rightarrow> bool" where
  "vm_ready vm = (case vm_ready_condition vm of Some c \<Rightarrow> c_status c = ConditionTrue | None \<Rightarrow> False)"

fun cond_status_string :: "cond_status \<Rightarrow> string" where
  "cond_status_string ConditionTrue = ''True''"
| "cond_status_string ConditionFalse = ''False''"
| "cond_status_string ConditionUnknown = ''Unknown''"

definition ready_status_text :: "virtual_machine \<Rightarrow> string" where
  "ready_status_text vm = (case vm_ready_condition vm of Some c \<Rightarrow> cond_status_string (c_status c) | None \<Rightarrow> ''not set'')"

definition new_target_vm :: "migration \<Rightarrow> disk_info \<Rightarrow> virtual_machine" where
  "new_target_vm m d =
     \<lparr>vm_meta = (new_meta (targetNamespace m) (targetVMName m))
        \<lparr>md_labels := tg_Labels (mg_target m),
         md_annotations :=
           [AnnMigratedFrom \<mapsto> mg_ns m @ ''/'' @ src_VMRef (mg_source m),
            AnnMigration \<mapsto> mg_ns m @ ''/'' @ mg_name m,
            AnnImportedDiskID \<mapsto> mt_ImportID (mg_status m),
            AnnDiskChecksum \<mapsto> di_TargetChecksum d] ++ tg_Annotations (mg_target m)\<rparr>,
      vm_spec = empty_vm_spec
        \<lparr>vs_ProviderRef := tg_ProviderRef (mg_target m),
         vs_ClassRef := (case tg_ClassRef (mg_target m) of
            Some c \<Rightarrow> \<lparr>or_name = c, or_namespace = mg_ns m\<rparr> | None \<Rightarrow> no_ref),
         vs_Networks := tg_Networks (mg_target m),
         vs_ImportedDisk := Some \<lparr>id_DiskID = mt_ImportID (mg_status m), id_Path = di_TargetPath d,
            id_Format = di_TargetFormat d, id_Source = ''migration'', id_MigrationRef = Some (mg_name m), id_SizeGiB = 0\<rparr>,
         vs_PlacementRef := tg_PlacementRef (mg_target m)\<rparr>,
      vm_status = empty_vm_status\<rparr>"

definition handleCreatingPhase :: "mig_env \<Rightarrow> migration \<Rightarrow> mig_state \<Rightarrow> mig_state \<times> go_error outcome" where
  "handleCreatingPhase env m s =
     (case ev_get_vm env (targetNamespace m, targetVMName m) of
        Inr existing \<Rightarrow>
          if vt_ID (vm_status existing) \<noteq> '''' \<and> vm_ready existing then
            finish env
              (set_st (\<lambda>t. t\<lparr>mt_TargetVMID := vt_ID (vm_status existing), mt_Phase := PhaseValidatingTarget,
                             mt_Message := ''Target VM ready, validating''\<rparr>) m)
              requeue_now s
          else (s, requeue_in (30 * second))
      | Inl e \<Rightarrow>
          if \<not> api_is_not_found e then transitionToFailed env m (''Failed to check target VM: '' @ error_string e) s
          else case mt_DiskInfo (mg_status m) of
            None \<Rightarrow> transitionToFailed env m
              ''import did not record disk info (status.diskInfo is nil); cannot create target VM'' s
          | Some d \<Rightarrow>
              (case do_write env (CreateVM (new_target_vm m d)) s of
                 (s1, Some ce) \<Rightarrow> transitionToFailed env m (''Failed to create target VM: '' @ error_string ce) s1
               | (s1, None) \<Rightarrow>
                   finish env
                     (set_st (\<lambda>t. t\<lparr>mt_Message := ''Target VM '' @ targetVMName m @ '' created, waiting for provisioning''\<rparr>) m)
                     (requeue_in (10 * second)) s1))"

definition handleValidatingTargetPhase :: "mig_env \<Rightarrow> migration \<Rightarrow> mig_state \<Rightarrow> mig_state \<times> go_error outcome" where
  "handleValidatingTargetPhase env m s =
     (case ev_get_vm env (targetNamespace m, targetVMName m) of
        Inl e \<Rightarrow> transitionToFailed env m (''Failed to get target VM: '' @ error_string e) s
      | Inr vm \<Rightarrow>
          if \<not> vm_ready vm then
            finish env
              (set_st (\<lambda>t. t\<lparr>mt_Message := ''Waiting for target VM to be ready (current Ready condition: ''
                               @ ready_status_text vm @ '')''\<rparr>) m)
              (requeue_in (30 * second)) s
          else
            (let m1 = set_cond env CondReady ConditionTrue ''MigrationComplete'' ''VM migration completed successfully''
                   (set_st (\<lambda>t. t\<lparr>mt_TargetVMID := vt_ID (vm_status vm), mt_Phase := PhaseReady,
                      mt_Message := ''Migration completed successfully'', mt_CompletionTime := Some (ev_now env)\<rparr>) m);
                 vm1 = vm\<lparr>vm_meta := (vm_meta vm)\<lparr>md_annotations := (md_annotations (vm_meta vm))
                   (AnnCompleted \<mapsto> ''true'', AnnCompletedAt \<mapsto> ev_rfc3339 env (ev_now env))\<rparr>\<rparr>;
                 (s1, _) = do_write env (UpdateVM vm1) s
             in finish env m1 done_result s1))"

section \<open>Ready\<close>

definition handleReadyPhase :: "mig_env \<Rightarrow> mig_reconciler \<Rightarrow> migration \<Rightarrow> mig_state \<Rightarrow> mig_state \<times> go_error outcome" where
  "handleReadyPhase env r m s =
     (if mt_CleanedUp (mg_status m) = Some True then (s, done_result)
      else
        (let retry = requeue_in (5 * minute);
             step1 = (if cleanupAllowed m \<and> mg_storage m \<noteq> None then
                        (case cleanupIntermediateStorage env m s of
                           (s1, Some e) \<Rightarrow> (s1, None) | (s1, None) \<Rightarrow> (s1, Some True))
                      else (s, Some False))
         in case step1 of
              (s1, None) \<Rightarrow> (s1, retry)
            | (s1, Some performed1) \<Rightarrow>
                (let step2 = (if cleanupAllowed m \<and> mt_SnapshotID (mg_status m) \<noteq> '''' \<and> src_SnapshotRef (mg_source m) = None then
                                (case deleteSourceSnapshot env r m s1 of
                                   (s2, m2, Some e) \<Rightarrow> (s2, m2, None) | (s2, m2, None) \<Rightarrow> (s2, m2, Some True))
                              else (s1, m, Some performed1))
                 in case step2 of
                      (s2, m2, None) \<Rightarrow> (s2, retry)
                    | (s2, m2, Some performed2) \<Rightarrow>
                        (let step3 = (if src_DeleteAfterMigration (mg_source m2) then
                                        (case deleteSourceVM env m2 s2 of
                                           (s3, Some e) \<Rightarrow> (s3, None) | (s3, None) \<Rightarrow> (s3, Some True))
                                      else (s2, Some performed2))
                         in case step3 of
                              (s3, None) \<Rightarrow> (s3, retry)
                            | (s3, Some performed3) \<Rightarrow>
                                if performed3 then
                                  finish env
                                    (set_st (\<lambda>t. t\<lparr>mt_CleanedUp := Some True,
                                                   mt_Message := ''Migration completed, cleanup finished''\<rparr>) m2)
                                    done_result s3
                                else (s3, done_result)))))"

section \<open>Failed\<close>

definition max_retries :: "mig_retry_policy \<Rightarrow> int" where
  "max_retries p = (case ry_MaxRetries p of Some n \<Rightarrow> n | None \<Rightarrow> 3)"

text \<open>The loop that multiplies the delay once per earlier retry, in 64-bit arithmetic.\<close>

fun backoff_mul :: "nat \<Rightarrow> int \<Rightarrow> int \<Rightarrow> int" where
  "backoff_mul 0 mult d = d"
| "backoff_mul (Suc n) mult d = backoff_mul n mult (wrap64 (d * mult))"

definition retry_delay :: "mig_retry_policy \<Rightarrow> int \<Rightarrow> int" where
  "retry_delay p count =
     (let baseDelay = (case ry_RetryDelay p of Some d \<Rightarrow> d | None \<Rightarrow> 5 * minute);
          mult = (case ry_BackoffMultiplier p of Some b \<Rightarrow> b | None \<Rightarrow> 2);
          d = backoff_mul (nat count) mult baseDelay
      in if d > 30 * minute then 30 * minute else d)"

definition retry_text :: "int \<Rightarrow> int \<Rightarrow> string" where
  "retry_text n mx = ''Retrying migration (attempt '' @ show_int n @ ''/'' @ show_int mx @ '')''"

definition handleFailedPhase :: "mig_env \<Rightarrow> mig_reconciler \<Rightarrow> migration \<Rightarrow> mig_state \<Rightarrow> mig_state \<times> go_error outcome" where
  "handleFailedPhase env r m s =
     (case (case mg_options m of None \<Rightarrow> None | Some o1 \<Rightarrow> mo_RetryPolicy o1) of
        None \<Rightarrow> (fst (cleanupSnapshotOnTerminalFailure env r m s), done_result)
      | Some pol \<Rightarrow>
          (let mx = max_retries pol; count = mt_RetryCount (mg_status m) in
           if count \<ge> mx then
             (let m1 = set_st (\<lambda>t. t\<lparr>mt_Message := ''Migration failed after '' @ show_int count @ '' retries: '' @ mt_Message t\<rparr>) m;
                  (s2, m2) = cleanupSnapshotOnTerminalFailure env r m1 s
              in finish env m2 done_result s2)
           else
             (let delay = retry_delay pol count;
                  since = map_option (\<lambda>t. time_sub (ev_now env) t) (mt_LastRetryTime (mg_status m))
              in case since of
                   Some d \<Rightarrow>
                     if d < delay then (s, requeue_in (wrap64 (delay - d)))
                     else finish env
                       (set_cond env CondFailed ConditionFalse ''Retrying'' (retry_text (wrap32 (count + 1)) mx)
                         (set_st (\<lambda>t. t\<lparr>mt_RetryCount := wrap32 (count + 1), mt_LastRetryTime := Some (ev_now env),
                            mt_Phase := PhasePending, mt_Message := retry_text (wrap32 (count + 1)) mx, mt_TaskRef := ''''\<rparr>) m))
                       requeue_now s
                 | None \<Rightarrow>
                     finish env
                       (set_cond env CondFailed ConditionFalse ''Retrying'' (retry_text (wrap32 (count + 1)) mx)
                         (set_st (\<lambda>t. t\<lparr>mt_RetryCount := wrap32 (count + 1), mt_LastRetryTime := Some (ev_now env),
                            mt_Phase := PhasePending, mt_Message := retry_text (wrap32 (count + 1)) mx, mt_TaskRef := ''''\<rparr>) m))
                       requeue_now s)))"

section \<open>Deletion\<close>

definition migration_finalizer :: string where
  "migration_finalizer = ''vmmigration.infra.virtrigaud.io/finalizer''"

definition delete_staged_storage :: "mig_env \<Rightarrow> migration \<Rightarrow> mig_state \<Rightarrow> mig_state" where
  "delete_staged_storage env m s =
     (if mg_storage m \<noteq> None \<and> mt_CleanedUp (mg_status m) \<noteq> Some True
      then fst (cleanupIntermediateStorage env m s) else s)"

definition delete_migration_pvc :: "mig_env \<Rightarrow> migration \<Rightarrow> mig_state \<Rightarrow> mig_state" where
  "delete_migration_pvc env m s =
     (if mt_StoragePVCName (mg_status m) = '''' then s
      else case ev_get_pvc env (mg_ns m, mt_StoragePVCName (mg_status m)) of
        Inr p \<Rightarrow> fst (do_write env (DeletePVC p) s)
      | Inl e \<Rightarrow> s)"

definition delete_migration_snapshot :: "mig_env \<Rightarrow> mig_reconciler \<Rightarrow> migration \<Rightarrow> mig_state \<Rightarrow> mig_state \<times> migration" where
  "delete_migration_snapshot env r m s =
     (if cleanupAllowed m \<and> mt_SnapshotID (mg_status m) \<noteq> '''' \<and> src_SnapshotRef (mg_source m) = None
      then (let (s', m', _) = deleteSourceSnapshot env r m s in (s', m')) else (s, m))"

definition delete_partial_target :: "mig_env \<Rightarrow> migration \<Rightarrow> mig_state \<Rightarrow> mig_state" where
  "delete_partial_target env m s =
     (if mg_phase m = PhaseFailed \<or> mg_phase m = PhaseCreating then
        (case ev_get_vm env (targetNamespace m, targetVMName m) of
           Inl e \<Rightarrow> s
         | Inr vm \<Rightarrow>
             if map_get (md_annotations (vm_meta vm)) AnnCompleted = ''true'' then s
             else case md_annotations (vm_meta vm) AnnMigration of
               Some ref \<Rightarrow> if ref = mg_ns m @ ''/'' @ mg_name m then fst (do_write env (DeleteVM vm) s) else s
             | None \<Rightarrow> s)
      else s)"

definition handleDeletion :: "mig_env \<Rightarrow> mig_reconciler \<Rightarrow> migration \<Rightarrow> mig_state \<Rightarrow> mig_state \<times> go_error outcome" where
  "handleDeletion env r m s =
     (let s1 = delete_staged_storage env m s;
          s2 = delete_migration_pvc env m s1;
          (s3, m3) = delete_migration_snapshot env r m s2;
          s4 = delete_partial_target env m3 s3;
          m4 = m3\<lparr>mg_meta := remove_finalizer migration_finalizer (mg_meta m3)\<rparr>
      in case do_write env (UpdateMigration m4) s4 of
           (s5, Some e) \<Rightarrow> (s5, fail_with e)
         | (s5, None) \<Rightarrow> (s5, done_result))"

section \<open>Reconcile\<close>

text \<open>The phase after which a failed migration is no longer reconciled.\<close>

definition failed_for_good :: "migration \<Rightarrow> bool" where
  "failed_for_good m \<longleftrightarrow>
     (case (case mg_options m of None \<Rightarrow> None | Some o1 \<Rightarrow> mo_RetryPolicy o1) of
        Some pol \<Rightarrow> mt_RetryCount (mg_status m) \<ge> max_retries pol
      | None \<Rightarrow> True)"

definition dispatch :: "mig_env \<Rightarrow> mig_reconciler \<Rightarrow> migration \<Rightarrow> mig_state \<Rightarrow> mig_state \<times> go_error outcome" where
  "dispatch env r m s =
     (case mg_phase m of
        PhasePending \<Rightarrow> handlePendingPhase env m s
      | PhaseValidating \<Rightarrow> handleValidatingPhase env r m s
      | PhaseSnapshotting \<Rightarrow> handleSnapshottingPhase env r m s
      | PhaseExporting \<Rightarrow> handleExportingPhase env r m s
      | PhaseTransferring \<Rightarrow> handleTransferringPhase env m s
      | PhaseConverting \<Rightarrow> handleConvertingPhase env m s
      | PhaseImporting \<Rightarrow> handleImportingPhase env r m s
      | PhaseCreating \<Rightarrow> handleCreatingPhase env m s
      | PhaseValidatingTarget \<Rightarrow> handleValidatingTargetPhase env m s
      | PhaseReady \<Rightarrow> handleReadyPhase env r m s
      | PhaseFailed \<Rightarrow> handleFailedPhase env r m s
      | _ \<Rightarrow> (s, requeue_in (30 * second)))"

definition Reconcile :: "mig_env \<Rightarrow> mig_reconciler \<Rightarrow> mig_state \<Rightarrow> mig_state \<times> go_error outcome" where
  "Reconcile env r s =
     (case ev_get_migration env of
        Inl e \<Rightarrow> (s, (case ignore_not_found e of None \<Rightarrow> done_result | Some e' \<Rightarrow> fail_with e'))
      | Inr m \<Rightarrow>
          if md_deleting (mg_meta m) then handleDeletion env r m s
          else if \<not> HasFinalizer (mg_meta m) migration_finalizer then
            (case do_write env (UpdateMigration (m\<lparr>mg_meta := add_finalizer migration_finalizer (mg_meta m)\<rparr>)) s of
               (s1, Some e) \<Rightarrow> (s1, fail_with e)
             | (s1, None) \<Rightarrow> (s1, requeue_now))
          else if mg_phase m = PhaseNone then
            finish env (set_st (\<lambda>t. t\<lparr>mt_Phase := PhasePending, mt_StartTime := Some (ev_now env)\<rparr>) m) requeue_now s
          else if mg_phase m = PhaseFailed \<and> failed_for_good m then (s, done_result)
          else dispatch env r m s)"

end
