(* ===== verification/MigrationEffects.thy ===== *)
theory MigrationEffects
  imports MigrationPhases
begin

text \<open>
  Reasoning about the effects of a reconcile: \<open>extends P s s'\<close> says that the log grew from \<open>s\<close> to
  \<open>s'\<close> by events that all satisfy \<open>P\<close> and that no operation in flight was forgotten. The rules of this theory compose such facts along the code, so
  that a safety property of \<open>Reconcile\<close> is one predicate on events and one pass over the handlers.
\<close>

definition extends :: "(mig_event \<Rightarrow> bool) \<Rightarrow> mig_state \<Rightarrow> mig_state \<Rightarrow> bool" where
  "extends P s s' \<longleftrightarrow> (\<exists>evs. log s' = log s @ evs \<and> (\<forall>e \<in> set evs. P e)) \<and>
     set (longOpInFlight s) \<subseteq> set (longOpInFlight s')"

lemma ext_refl: "extends P s s"
  by (simp add: extends_def)

lemma ext_trans: "extends P s s1 \<Longrightarrow> extends P s1 s2 \<Longrightarrow> extends P s s2"
  unfolding extends_def by (metis Un_iff append.assoc set_append subset_trans)

lemma ext_emit: "P e \<Longrightarrow> extends P s (emit e s)"
  by (simp add: extends_def emit_def)

lemma ext_same_log: "log s' = log s \<Longrightarrow> longOpInFlight s' = longOpInFlight s \<Longrightarrow> extends P s s'"
  by (simp add: extends_def)

lemma ext_mono: "extends P s s' \<Longrightarrow> (\<And>e. P e \<Longrightarrow> Q e) \<Longrightarrow> extends Q s s'"
  unfolding extends_def by blast

text \<open>Writing the status of \<open>m\<close> is allowed: any object with that status may be written.\<close>

definition may_write :: "(mig_event \<Rightarrow> bool) \<Rightarrow> migration \<Rightarrow> bool" where
  "may_write P m \<longleftrightarrow> (\<forall>m' ok. mg_status m' = mg_status m \<longrightarrow> P (EvStatus m' ok))"

lemma update_status_loop_effects:
  assumes "update_status_loop n env m s = (s', m', err)"
  shows "mg_status m' = mg_status m \<and> longOpInFlight s' = longOpInFlight s \<and> mgr_files s' = mgr_files s \<and>
    (may_write P m \<longrightarrow> extends P s s')"
  using assms
proof (induction n arbitrary: m s)
  case 0
  then show ?case by (auto intro: ext_refl)
next
  case (Suc n)
  let ?s = "(emit (EvStatus m (ev_status_err env (status_writes s) = None)) s)
      \<lparr>status_writes := Suc (status_writes s)\<rparr>"
  have one: "may_write P m \<Longrightarrow> extends P s ?s"
    by (rule ext_trans [OF ext_emit ext_same_log]) (auto simp: may_write_def)
  show ?case
  proof (cases "\<exists>e f. ev_status_err env (status_writes s) = Some e \<and> api_is_conflict e \<and> 0 < n \<and>
      ev_fresh env (status_writes s) = Inr f")
    case True
    then obtain e f where e: "ev_status_err env (status_writes s) = Some e" "api_is_conflict e" "0 < n"
        "ev_fresh env (status_writes s) = Inr f" by blast
    have "update_status_loop n env (f\<lparr>mg_status := mg_status m\<rparr>) ?s = (s', m', err)"
      using Suc.prems e by (simp add: Let_def)
    from Suc.IH [OF this] one show ?thesis by (auto simp: may_write_def emit_def intro: ext_trans)
  next
    case False
    then have "s' = ?s \<and> m' = m"
      using Suc.prems by (auto simp: Let_def split: option.splits if_splits sum.splits)
    with one show ?thesis by (simp add: emit_def)
  qed
qed

lemma updateStatus_effects:
  assumes "updateStatus env m s = (s', m', err)"
  shows "mg_status m' = mg_status m" "longOpInFlight s' = longOpInFlight s" "mgr_files s' = mgr_files s"
    "may_write P m \<Longrightarrow> extends P s s'"
  using update_status_loop_effects [OF assms [unfolded updateStatus_def]] by auto

lemma finish_inflight [simp]: "longOpInFlight (fst (finish env m res s)) = longOpInFlight s"
  using updateStatus_effects(2) by (fastforce simp: finish_def split: prod.splits option.splits)

lemma ext_finish: "may_write P m \<Longrightarrow> extends P s (fst (finish env m res s))"
  using updateStatus_effects(4) by (fastforce simp: finish_def split: prod.splits option.splits)

definition failed_of :: "mig_env \<Rightarrow> string \<Rightarrow> migration \<Rightarrow> migration" where
  "failed_of env message m =
     set_cond env CondReady ConditionFalse ''MigrationFailed'' message
       (set_cond env CondFailed ConditionTrue ''MigrationFailed'' message
         (set_st (\<lambda>t. t\<lparr>mt_Phase := PhaseFailed, mt_Message := message, mt_CompletionTime := Some (ev_now env)\<rparr>) m))"

lemma transitionToFailed_finish: "transitionToFailed env m message s = finish env (failed_of env message m) requeue_now s"
  by (simp add: transitionToFailed_def failed_of_def)

lemma ext_failed: "may_write P (failed_of env message m) \<Longrightarrow> extends P s (fst (transitionToFailed env m message s))"
  by (simp add: transitionToFailed_finish ext_finish)

lemma transitionToFailed_inflight [simp]:
  "longOpInFlight (fst (transitionToFailed env m message s)) = longOpInFlight s"
  by (simp add: transitionToFailed_finish)

lemma ext_write: "P (EvWrite w True) \<Longrightarrow> P (EvWrite w False) \<Longrightarrow> extends P s (fst (do_write env w s))"
  by (cases "ev_write_err env w = None") (auto simp: do_write_def intro: ext_emit)

lemma do_write_inflight [simp]: "longOpInFlight (fst (do_write env w s)) = longOpInFlight s"
  by (simp add: do_write_def emit_def)

lemma emit_inflight [simp]: "longOpInFlight (emit e s) = longOpInFlight s"
  by (simp add: emit_def)

text \<open>Status fields under the two setters.\<close>

lemma mg_status_set_st [simp]: "mg_status (set_st f m) = f (mg_status m)"
  by (simp add: set_st_def)

lemma mg_spec_set_st [simp]: "mg_spec (set_st f m) = mg_spec m" "mg_meta (set_st f m) = mg_meta m"
  by (simp_all add: set_st_def)

lemma mg_spec_set_cond [simp]:
  "mg_spec (set_cond env ty st rs msg m) = mg_spec m" "mg_meta (set_cond env ty st rs msg m) = mg_meta m"
  by (simp_all add: set_cond_def)

lemma mg_status_set_cond [simp]:
  "mg_status (set_cond env ty st rs msg m) =
     (mg_status m)\<lparr>mt_Conditions := SetCondition (ev_now env) ty st rs msg (mt_Conditions (mg_status m))\<rparr>"
  by (simp add: set_cond_def)

section \<open>Composition rules\<close>

text \<open>One rule per branching construct of the handlers, for goals \<open>extends P s (fst \<dots>)\<close>.\<close>

lemma ext_if: "(b \<Longrightarrow> extends P s (fst x)) \<Longrightarrow> (\<not> b \<Longrightarrow> extends P s (fst y)) \<Longrightarrow> extends P s (fst (if b then x else y))"
  by simp

lemma ext_case_sum:
  "(\<And>e. x = Inl e \<Longrightarrow> extends P s (fst (f e))) \<Longrightarrow> (\<And>a. x = Inr a \<Longrightarrow> extends P s (fst (g a))) \<Longrightarrow>
   extends P s (fst (case x of Inl e \<Rightarrow> f e | Inr a \<Rightarrow> g a))"
  by (cases x) auto

lemma ext_case_option:
  "(x = None \<Longrightarrow> extends P s (fst f)) \<Longrightarrow> (\<And>a. x = Some a \<Longrightarrow> extends P s (fst (g a))) \<Longrightarrow>
   extends P s (fst (case x of None \<Rightarrow> f | Some a \<Rightarrow> g a))"
  by (cases x) auto

lemma ext_Pair: "extends P s s' \<Longrightarrow> extends P s (fst (s', res))"
  by simp

lemma ext_write_then:
  assumes "P (EvWrite w True)" "P (EvWrite w False)"
    and "\<And>s1 e. extends P s s1 \<Longrightarrow> longOpInFlight s1 = longOpInFlight s \<Longrightarrow> extends P s (fst (f s1 e))"
    and "\<And>s1. extends P s s1 \<Longrightarrow> longOpInFlight s1 = longOpInFlight s \<Longrightarrow> extends P s (fst (g s1))"
  shows "extends P s (fst (case do_write env w s of (s1, Some e) \<Rightarrow> f s1 e | (s1, None) \<Rightarrow> g s1))"
proof -
  have "extends P s (fst (do_write env w s))" using assms(1,2) by (rule ext_write)
  moreover have "longOpInFlight (fst (do_write env w s)) = longOpInFlight s" by simp
  ultimately show ?thesis using assms(3,4)
    by (cases "do_write env w s") (auto split: option.splits)
qed

lemma ext_finish_from: "extends P s s1 \<Longrightarrow> may_write P m \<Longrightarrow> extends P s (fst (finish env m res s1))"
  by (blast intro: ext_trans ext_finish)

lemma ext_failed_from:
  "extends P s s1 \<Longrightarrow> may_write P (failed_of env message m) \<Longrightarrow> extends P s (fst (transitionToFailed env m message s1))"
  by (blast intro: ext_trans ext_failed)

lemmas ext_intros = ext_if ext_case_sum ext_case_option ext_Pair ext_finish_from ext_failed_from ext_refl

end
