(* ===== verification/MigrationSpec.thy ===== *)
theory MigrationSpec
  imports MigrationEffects
begin

text \<open>
  What one reconcile of a migration may do: \<open>legal env r m e\<close> says, for each kind of effect, when it is
  allowed on the object \<open>m\<close> the call started from. The handlers are shown to stay within it, ending in
  \<open>Reconcile_legal\<close>; the properties of the controller are read off from there.
\<close>

section \<open>The specification\<close>

text \<open>The object in hand after a status write that met a conflict is one read again during the call.\<close>

definition in_hand :: "mig_env \<Rightarrow> migration \<Rightarrow> migration \<Rightarrow> bool" where
  "in_hand env m m' \<longleftrightarrow> mg_spec m' = mg_spec m \<and> mg_meta m' = mg_meta m \<or>
     (\<exists>i f. ev_fresh env i = Inr f \<and> mg_spec m' = mg_spec f \<and> mg_meta m' = mg_meta f)"

text \<open>The provider reports the source VM as off.\<close>

definition source_off :: "mig_env \<Rightarrow> mig_reconciler \<Rightarrow> migration \<Rightarrow> bool" where
  "source_off env r m \<longleftrightarrow> (\<exists>vm p inst desc.
     getSourceVM env m = Inr vm \<and> getProvider env (vs_ProviderRef (vm_spec vm)) (mg_ns m) = Inr p \<and>
     getProviderInstance env r p = Inr inst \<and> pi_Describe inst (vt_ID (vm_status vm)) = Inr desc \<and>
     ds_PowerState desc = ''Off'')"

text \<open>Every check of the Validating phase passed.\<close>

definition checks_passed :: "mig_env \<Rightarrow> mig_reconciler \<Rightarrow> migration \<Rightarrow> bool" where
  "checks_passed env r m \<longleftrightarrow> (\<exists>vm src tgt.
     getSourceVM env m = Inr vm \<and> vt_ID (vm_status vm) \<noteq> '''' \<and>
     getProvider env (sourceProviderRef m vm) (mg_ns m) = Inr src \<and> getTargetProvider env m = Inr tgt \<and>
     isProviderReady src \<and> isProviderReady tgt \<and> gateMigrationStorageBackend m src tgt = None \<and>
     (mg_storage m \<noteq> None \<longrightarrow> validateStorageConfig env r (mg_storage m) = None \<and>
       (migrationBackendType m = BackendS3 \<longrightarrow> \<not> isl (loadS3Credentials env m)) \<and>
       (migrationBackendType m \<notin> {BackendS3, BackendNFS} \<longrightarrow>
          md_namespace (pv_meta src) = mg_ns m \<and> md_namespace (pv_meta tgt) = mg_ns m \<and>
          (\<exists>pvcName. migrationProvidersMounted env src tgt pvcName = Inr None))))"

definition retry_policy :: "migration \<Rightarrow> mig_retry_policy option" where
  "retry_policy m = (case mg_options m of None \<Rightarrow> None | Some o1 \<Rightarrow> mo_RetryPolicy o1)"

text \<open>The target VM is there and reports Ready.\<close>

definition target_ready :: "mig_env \<Rightarrow> migration \<Rightarrow> string \<Rightarrow> bool" where
  "target_ready env m vmid \<longleftrightarrow> (\<exists>vm. ev_get_vm env (targetNamespace m, targetVMName m) = Inr vm \<and> vm_ready vm \<and>
     vmid = vt_ID (vm_status vm))"

fun phase_edge :: "mig_env \<Rightarrow> mig_reconciler \<Rightarrow> migration \<Rightarrow> mig_status \<Rightarrow> migration_phase \<Rightarrow> bool" where
  "phase_edge env r m t PhaseNone \<longleftrightarrow> mt_Phase t = PhasePending"
| "phase_edge env r m t PhasePending \<longleftrightarrow> mt_Phase t = PhaseValidating"
| "phase_edge env r m t PhaseValidating \<longleftrightarrow> mt_Phase t \<in> {PhaseValidating, PhaseFailed} \<or>
     checks_passed env r m \<and> (\<exists>m'. in_hand env m m' \<and>
       (src_PowerOffBeforeMigration (mg_source m') \<longrightarrow> source_off env r m') \<and>
       mt_Phase t = (if src_CreateSnapshot (mg_source m') then PhaseSnapshotting else PhaseExporting))"
| "phase_edge env r m t PhaseSnapshotting \<longleftrightarrow> mt_Phase t \<in> {PhaseSnapshotting, PhaseExporting, PhaseFailed}"
| "phase_edge env r m t PhaseExporting \<longleftrightarrow> mt_Phase t \<in> {PhaseExporting, PhaseImporting, PhaseFailed}"
| "phase_edge env r m t PhaseTransferring \<longleftrightarrow> mt_Phase t = PhaseImporting"
| "phase_edge env r m t PhaseConverting \<longleftrightarrow> mt_Phase t = PhaseImporting"
| "phase_edge env r m t PhaseImporting \<longleftrightarrow> mt_Phase t \<in> {PhaseImporting, PhaseCreating, PhaseFailed}"
| "phase_edge env r m t PhaseCreating \<longleftrightarrow> mt_Phase t \<in> {PhaseCreating, PhaseFailed} \<or>
     mt_Phase t = PhaseValidatingTarget \<and> target_ready env m (mt_TargetVMID t) \<and> mt_TargetVMID t \<noteq> ''''"
| "phase_edge env r m t PhaseValidatingTarget \<longleftrightarrow> mt_Phase t \<in> {PhaseValidatingTarget, PhaseFailed} \<or>
     mt_Phase t = PhaseReady \<and> target_ready env m (mt_TargetVMID t)"
| "phase_edge env r m t PhaseReady \<longleftrightarrow> mt_Phase t = PhaseReady \<and> mt_CleanedUp t = Some True"
| "phase_edge env r m t PhaseFailed \<longleftrightarrow> mt_Phase t = PhasePending"
| "phase_edge env r m t (PhaseOther p) \<longleftrightarrow> False"

text \<open>The retry counter moves only when a failed migration is restarted, within its budget.\<close>

definition retry_edge :: "migration \<Rightarrow> mig_status \<Rightarrow> bool" where
  "retry_edge m t \<longleftrightarrow>
     (if mg_phase m = PhaseFailed
      then (\<exists>pol. retry_policy m = Some pol \<and> mt_RetryCount (mg_status m) < max_retries pol \<and>
              mt_RetryCount t = wrap32 (mt_RetryCount (mg_status m) + 1))
      else mt_RetryCount t = mt_RetryCount (mg_status m))"

definition legal_status :: "mig_env \<Rightarrow> mig_reconciler \<Rightarrow> migration \<Rightarrow> mig_status \<Rightarrow> bool" where
  "legal_status env r m t \<longleftrightarrow> \<not> md_deleting (mg_meta m) \<and> phase_edge env r m t (mg_phase m) \<and> retry_edge m t"

fun legal_write :: "mig_env \<Rightarrow> migration \<Rightarrow> mig_write \<Rightarrow> bool" where
  "legal_write env m (UpdateMigration m') \<longleftrightarrow> mg_spec m' = mg_spec m \<and>
     mg_meta m' = (if md_deleting (mg_meta m) then remove_finalizer else add_finalizer) migration_finalizer (mg_meta m)"
| "legal_write env m (PatchVM v) \<longleftrightarrow> \<not> md_deleting (mg_meta m) \<and> mg_phase m = PhaseValidating \<and> vs_PowerState (vm_spec v) = PowerStateOff"
| "legal_write env m (CreateVM v) \<longleftrightarrow> \<not> md_deleting (mg_meta m) \<and> mg_phase m = PhaseCreating \<and> (\<exists>d. v = new_target_vm m d) \<and>
     (\<exists>e. ev_get_vm env (targetNamespace m, targetVMName m) = Inl e \<and> api_is_not_found e)"
| "legal_write env m (UpdateVM v) \<longleftrightarrow> \<not> md_deleting (mg_meta m) \<and> mg_phase m = PhaseValidatingTarget \<and>
     md_annotations (vm_meta v) AnnCompleted = Some ''true''"
| "legal_write env m (DeleteVM v) \<longleftrightarrow>
     (if md_deleting (mg_meta m)
      then mg_phase m \<in> {PhaseFailed, PhaseCreating} \<and> ev_get_vm env (targetNamespace m, targetVMName m) = Inr v \<and>
           md_annotations (vm_meta v) AnnCompleted \<noteq> Some ''true'' \<and>
           md_annotations (vm_meta v) AnnMigration = Some (mg_ns m @ ''/'' @ mg_name m)
      else mg_phase m = PhaseReady \<and> src_DeleteAfterMigration (mg_source m) \<and> getSourceVM env m = Inr v)"
| "legal_write env m (CreatePVC p) \<longleftrightarrow> \<not> md_deleting (mg_meta m) \<and> mg_phase m = PhaseValidating \<and> pc_Owner p = Some (md_uid (mg_meta m))"
| "legal_write env m (DeletePVC p) \<longleftrightarrow> md_deleting (mg_meta m) \<and>
     ev_get_pvc env (mg_ns m, mt_StoragePVCName (mg_status m)) = Inr p"
| "legal_write env m (UpdateProvider p) \<longleftrightarrow> \<not> md_deleting (mg_meta m) \<and> mg_phase m = PhaseValidating"

fun legal :: "mig_env \<Rightarrow> mig_reconciler \<Rightarrow> migration \<Rightarrow> mig_event \<Rightarrow> bool" where
  "legal env r m (EvStatus m' ok) \<longleftrightarrow> legal_status env r m (mg_status m')"
| "legal env r m (EvWrite w ok) \<longleftrightarrow> legal_write env m w"
| "legal env r m (EvPower vmid op ok) \<longleftrightarrow> \<not> md_deleting (mg_meta m) \<and> mg_phase m = PhaseValidating \<and> op = PowerOpOff"
| "legal env r m (EvSnapshotCreate req ok) \<longleftrightarrow> \<not> md_deleting (mg_meta m) \<and> mg_phase m = PhaseSnapshotting \<and> src_SnapshotRef (mg_source m) = None \<and>
     mt_SnapshotID (mg_status m) = ''''"
| "legal env r m (EvSnapshotDelete vmid snap ok) \<longleftrightarrow> (md_deleting (mg_meta m) \<or> mg_phase m = PhaseReady) \<and>
     cleanupAllowed m \<and> src_SnapshotRef (mg_source m) = None \<and> snap = mt_SnapshotID (mg_status m) \<and> snap \<noteq> ''''"
| "legal env r m (EvExportDisk req ok) \<longleftrightarrow> \<not> md_deleting (mg_meta m) \<and> mg_phase m = PhaseExporting \<and> mt_ExportID (mg_status m) = '''' \<and>
     \<not> IsConditionTrue (mt_Conditions (mg_status m)) CondExporting \<and>
     (\<exists>vm url opts creds. getSourceVM env m = Inr vm \<and> generateStorageURL m ''export'' = Inr url \<and>
        storageOptionsJSON env m = Inr opts \<and> loadS3Credentials env m = Inr creds \<and> req = export_request m vm url opts creds)"
| "legal env r m (EvImportDisk req ok) \<longleftrightarrow> \<not> md_deleting (mg_meta m) \<and> mg_phase m = PhaseImporting \<and> mt_ImportID (mg_status m) = '''' \<and>
     \<not> IsConditionTrue (mt_Conditions (mg_status m)) CondImporting \<and>
     (\<exists>url fmt opts creds. generateStorageURL m ''export'' = Inr url \<and> import_format env m = Inr fmt \<and>
        storageOptionsJSON env m = Inr opts \<and> loadS3Credentials env m = Inr creds \<and> req = import_request m url fmt opts creds)"

lemma may_write_legal: "may_write (legal env r m) m' \<longleftrightarrow> legal_status env r m (mg_status m')"
  by (auto simp: may_write_def)

lemmas edge_simps = may_write_legal legal_status_def retry_edge_def failed_of_def export_complete_def
  record_export_def import_complete_def record_import_def

section \<open>The handlers stay within it\<close>

lemma handlePendingPhase_legal:
  assumes "mg_phase m = PhasePending" "\<not> md_deleting (mg_meta m)"
  shows "extends (legal env r m) s (fst (handlePendingPhase env m s))"
  unfolding handlePendingPhase_def using assms by (intro ext_intros) (simp add: edge_simps)

definition may_fail :: "migration \<Rightarrow> bool" where
  "may_fail m \<longleftrightarrow> \<not> md_deleting (mg_meta m) \<and> mg_phase m \<in> {PhaseValidating, PhaseSnapshotting, PhaseExporting,
     PhaseImporting, PhaseCreating, PhaseValidatingTarget}"

lemma failed_legal [simp]:
  assumes "may_fail m" "mt_RetryCount (mg_status m') = mt_RetryCount (mg_status m)"
  shows "may_write (legal env r m) (failed_of env msg m')"
  using assms by (auto simp: may_fail_def edge_simps)

lemma ext_await_task:
  assumes "may_fail m" "await_task env inst what What m s = Some res"
  shows "extends (legal env r m) s (fst res)"
  using assms unfolding await_task_def
  by (auto split: if_splits sum.splits bool.splits intro!: ext_refl ext_failed)

lemma gateProviderCapability_effects:
  assumes "may_fail m" "gateProviderCapability env r m inst supp msg s = (s1, res)"
  shows "extends (legal env r m) s s1" "longOpInFlight s1 = longOpInFlight s"
proof -
  have f: "extends (legal env r m) s (fst (transitionToFailed env m msg s))"
    using assms(1) by (intro ext_failed) simp
  have g: "transitionToFailed env m msg s = (s1, x) \<Longrightarrow> longOpInFlight s1 = longOpInFlight s" for x
    using transitionToFailed_inflight by (metis fst_conv)
  show "extends (legal env r m) s s1" "longOpInFlight s1 = longOpInFlight s"
    using assms(2) f g unfolding gateProviderCapability_def
    by (auto split: if_splits option.splits sum.splits prod.splits intro: ext_refl)
qed

lemma handleSnapshottingPhase_legal:
  assumes "mg_phase m = PhaseSnapshotting" "\<not> md_deleting (mg_meta m)"
  shows "extends (legal env r m) s (fst (handleSnapshottingPhase env r m s))"
  unfolding handleSnapshottingPhase_def Let_def using assms
  by (intro ext_intros ext_emit; simp add: may_fail_def edge_simps)

lemma ext_log_then:
  assumes "extends P s1 s2" "log s1 = log s" "set (longOpInFlight s) \<subseteq> set (longOpInFlight s1)"
  shows "extends P s s2"
  using assms by (auto simp: extends_def)

lemma issue_export_legal:
  assumes "mg_phase m = PhaseExporting" "\<not> md_deleting (mg_meta m)" "\<And>ok. legal env r m (EvExportDisk req ok)"
  shows "extends (legal env r m) s (fst (issue_export env inst m req s))"
proof -
  define s1 where "s1 = s\<lparr>longOpInFlight := longOpKey m LongOpExport # longOpInFlight s\<rparr>"
  have s2: "extends (legal env r m) s (emit (EvExportDisk req b) s1)" for b
    by (rule ext_log_then [OF ext_emit]) (auto simp: assms(3) s1_def simp del: legal.simps)
  have rel: "extends (legal env r m) s (releaseLongOp m LongOpExport (emit (EvExportDisk req b) s1))"
    if "longOpKey m LongOpExport \<notin> set (longOpInFlight s)" for b
    using s2 [of b] that by (auto simp: releaseLongOp_def extends_def)
  show ?thesis
    unfolding issue_export_def markLongOpStarted_def Let_def using assms s2 rel
    by (cases "pi_ExportDisk inst req")
      (auto simp: s1_def [symmetric] may_fail_def edge_simps simp del: legal.simps
        intro!: ext_refl ext_finish_from ext_failed_from)
qed

lemma issue_import_legal:
  assumes "mg_phase m = PhaseImporting" "\<not> md_deleting (mg_meta m)" "\<And>ok. legal env r m (EvImportDisk req ok)"
  shows "extends (legal env r m) s (fst (issue_import env inst tgt m req s))"
proof -
  define s1 where "s1 = s\<lparr>longOpInFlight := longOpKey m LongOpImport # longOpInFlight s\<rparr>"
  have s2: "extends (legal env r m) s (emit (EvImportDisk req b) s1)" for b
    by (rule ext_log_then [OF ext_emit]) (auto simp: assms(3) s1_def simp del: legal.simps)
  have rel: "extends (legal env r m) s (releaseLongOp m LongOpImport (emit (EvImportDisk req b) s1))"
    if "longOpKey m LongOpImport \<notin> set (longOpInFlight s)" for b
    using s2 [of b] that by (auto simp: releaseLongOp_def extends_def)
  show ?thesis
    unfolding issue_import_def markLongOpStarted_def Let_def using assms s2 rel
    by (cases "pi_ImportDisk inst req")
      (auto simp: s1_def [symmetric] may_fail_def edge_simps simp del: legal.simps
        intro!: ext_refl ext_finish_from ext_failed_from)
qed

text \<open>The two steps the export and import handlers share, as composition rules.\<close>

lemma ext_case_await:
  assumes "may_fail m" "extends (legal env r m) s (fst f)"
  shows "extends (legal env r m) s (fst (case await_task env inst what What m s of Some res \<Rightarrow> res | None \<Rightarrow> f))"
  using assms ext_await_task by (fastforce split: option.splits)

lemma ext_case_gate:
  assumes "may_fail m" "\<And>s1. longOpInFlight s1 = longOpInFlight s \<Longrightarrow> extends (legal env r m) s1 (fst (f s1))"
  shows "extends (legal env r m) s (fst (case gateProviderCapability env r m inst supp msg s of
           (s1, Some res) \<Rightarrow> (s1, res) | (s1, None) \<Rightarrow> f s1))"
proof (cases "gateProviderCapability env r m inst supp msg s")
  case (Pair s1 res)
  from gateProviderCapability_effects [OF assms(1) this] show ?thesis
    using assms(2) by (auto simp: Pair split: option.splits intro: ext_trans)
qed

lemma handleExportingPhase_legal:
  assumes "mg_phase m = PhaseExporting" "\<not> md_deleting (mg_meta m)"
  shows "extends (legal env r m) s (fst (handleExportingPhase env r m s))"
proof -
  have "may_fail m" using assms by (simp add: may_fail_def)
  then show ?thesis
    unfolding handleExportingPhase_def
    by (intro ext_case_await ext_case_gate ext_intros issue_export_legal)
      (auto simp: assms edge_simps exportAlreadyDone_def)
qed

lemma handleImportingPhase_legal:
  assumes "mg_phase m = PhaseImporting" "\<not> md_deleting (mg_meta m)"
  shows "extends (legal env r m) s (fst (handleImportingPhase env r m s))"
proof -
  have "may_fail m" using assms by (simp add: may_fail_def)
  then show ?thesis
    unfolding handleImportingPhase_def
    by (intro ext_case_await ext_case_gate ext_intros issue_import_legal)
      (auto simp: assms edge_simps importAlreadyDone_def)
qed

lemma handleTransferringPhase_legal:
  assumes "mg_phase m = PhaseTransferring" "\<not> md_deleting (mg_meta m)"
  shows "extends (legal env r m) s (fst (handleTransferringPhase env m s))"
  unfolding handleTransferringPhase_def using assms by (intro ext_intros) (simp add: edge_simps)

lemma handleConvertingPhase_legal:
  assumes "mg_phase m = PhaseConverting" "\<not> md_deleting (mg_meta m)"
  shows "extends (legal env r m) s (fst (handleConvertingPhase env m s))"
  unfolding handleConvertingPhase_def using assms by (intro ext_intros) (simp add: edge_simps)

lemma handleCreatingPhase_legal:
  assumes "mg_phase m = PhaseCreating" "\<not> md_deleting (mg_meta m)"
  shows "extends (legal env r m) s (fst (handleCreatingPhase env m s))"
  unfolding handleCreatingPhase_def using assms
  by (intro ext_intros ext_write_then) (auto simp: may_fail_def edge_simps target_ready_def)

lemma handleValidatingTargetPhase_legal:
  assumes "mg_phase m = PhaseValidatingTarget" "\<not> md_deleting (mg_meta m)"
  shows "extends (legal env r m) s (fst (handleValidatingTargetPhase env m s))"
  unfolding handleValidatingTargetPhase_def Let_def case_prod_unfold using assms
  by (intro ext_intros ext_write) (auto simp: may_fail_def edge_simps target_ready_def ann_names)

text \<open>Validation works on the object in hand, which keeps the phase and the retry count of \<open>m0\<close>.\<close>

definition validating :: "migration \<Rightarrow> migration \<Rightarrow> bool" where
  "validating m0 m \<longleftrightarrow> \<not> md_deleting (mg_meta m0) \<and> mg_phase m0 = PhaseValidating \<and>
     mg_phase m = PhaseValidating \<and> mt_RetryCount (mg_status m) = mt_RetryCount (mg_status m0)"

lemma validating_may_fail: "validating m0 m \<Longrightarrow> may_write (legal env r m0) (failed_of env msg m)"
  by (rule failed_legal) (simp_all add: validating_def may_fail_def)

lemma validating_stay:
  "validating m0 m \<Longrightarrow> mt_Phase (mg_status m') = PhaseValidating \<Longrightarrow>
   mt_RetryCount (mg_status m') = mt_RetryCount (mg_status m) \<Longrightarrow> may_write (legal env r m0) m'"
  by (simp add: validating_def edge_simps)

lemma ensureSourcePoweredOff_effects:
  assumes "validating m0 m"
  shows "outcome_sat (ensureSourcePoweredOff env r m s) (\<lambda>(s', m', res).
    extends (legal env r m0) s s' \<and> validating m0 m' \<and> (\<forall>x. res = Inr (True, x) \<longrightarrow> m' = m \<and> source_off env r m))"
proof -
  let ?m = "set_st (\<lambda>t. t\<lparr>mt_Message := ''Powering off source VM before migration''\<rparr>) m"
  have patch: "do_write env (PatchVM (vm\<lparr>vm_spec := (vm_spec vm)\<lparr>vs_PowerState := PowerStateOff\<rparr>\<rparr>)) s = (s1, e) \<Longrightarrow>
      extends (legal env r m0) s s1" for vm s1 e
    using ext_write [of "legal env r m0" "PatchVM (vm\<lparr>vm_spec := (vm_spec vm)\<lparr>vs_PowerState := PowerStateOff\<rparr>\<rparr>)" s env] assms
    by (simp add: validating_def)
  have pow: "extends (legal env r m0) s s1 \<Longrightarrow> extends (legal env r m0) s (emit (EvPower v PowerOpOff b) s1)" for s1 v b
    using assms by (intro ext_trans [OF _ ext_emit]) (simp_all add: validating_def)
  have upd: "updateStatus env ?m s1 = (s2, m2, e) \<Longrightarrow> extends (legal env r m0) s s1 \<Longrightarrow> extends (legal env r m0) s s2"
      "updateStatus env ?m s1 = (s2, m2, e) \<Longrightarrow> validating m0 m2" for s1 s2 m2 e
    using updateStatus_effects(1,4) [of env ?m s1 s2 m2 e] validating_stay [OF assms, of ?m] assms
    by (auto simp: validating_def intro: ext_trans)
  show ?thesis
    unfolding ensureSourcePoweredOff_def
    apply (intro sat_intros)
    apply (unfold outcome_sat_def prod.case)
    using assms
    by (auto simp: source_off_def Let_def ext_refl intro: pow pow [OF ext_refl] patch upd split: if_splits)
qed

lemma complete_validation_legal:
  assumes "validating m0 m" "checks_passed env r m0" "in_hand env m0 m"
  shows "extends (legal env r m0) s (fst (complete_validation env r m s))"
proof -
  let ?adv = "\<lambda>m. set_cond env CondValidating ConditionTrue ''ValidationComplete'' ''Migration validation completed successfully''
            (if src_CreateSnapshot (mg_source m)
             then set_st (\<lambda>t. t\<lparr>mt_Phase := PhaseSnapshotting, mt_Message := ''Preparing to snapshot source VM''\<rparr>) m
             else set_st (\<lambda>t. t\<lparr>mt_Phase := PhaseExporting, mt_Message := ''Preparing to export source VM''\<rparr>) m)"
  have adv: "(src_PowerOffBeforeMigration (mg_source m) \<longrightarrow> source_off env r m) \<Longrightarrow> may_write (legal env r m0) (?adv m)"
    using assms by (auto simp: edge_simps validating_def)
  show ?thesis
  proof (cases "src_PowerOffBeforeMigration (mg_source m)")
    case False
    with adv show ?thesis by (simp add: complete_validation_def Let_def ext_finish)
  next
    case True
    obtain s1 m1 res where e: "ensureSourcePoweredOff env r m s = (s1, m1, res)" by (metis prod_cases3)
    from outcome_satD [OF ensureSourcePoweredOff_effects [OF assms(1)] e]
    have e1: "extends (legal env r m0) s s1" "validating m0 m1" and
      e2: "\<And>x. res = Inr (True, x) \<Longrightarrow> m1 = m \<and> source_off env r m" by auto
    then show ?thesis
      using True adv by (auto simp: complete_validation_def e split: sum.splits prod.splits bool.splits
        intro!: ext_finish_from ext_failed_from validating_may_fail)
  qed
qed

lemma triggerProviderReconciliation_legal:
  assumes "mg_phase m0 = PhaseValidating" "\<not> md_deleting (mg_meta m0)"
  shows "extends (legal env r m0) s (fst (triggerProviderReconciliation env m s))"
proof -
  have up: "extends (legal env r m0) s s1 \<Longrightarrow> do_write env (UpdateProvider p) s1 = (s2, e) \<Longrightarrow> extends (legal env r m0) s s2"
    for p s1 s2 e
    using ext_write [of "legal env r m0" "UpdateProvider p" s1 env] assms by (auto intro: ext_trans)
  have "outcome_sat (triggerProviderReconciliation env m s) (\<lambda>x. extends (legal env r m0) s (fst x))"
    unfolding triggerProviderReconciliation_def
    by (intro sat_intros; unfold outcome_sat_def fst_conv; blast intro: ext_refl up)
  then show ?thesis by (simp add: outcome_sat_def)
qed

lemma ensureMigrationPVC_legal:
  assumes "mg_phase m = PhaseValidating" "\<not> md_deleting (mg_meta m)"
  shows "extends (legal env r m) s (fst (ensureMigrationPVC env m s))"
proof -
  have cr: "do_write env (CreatePVC (new_migration_pvc m cfg)) s = (s1, e) \<Longrightarrow> extends (legal env r m) s s1" for cfg s1 e
    using ext_write [of "legal env r m" "CreatePVC (new_migration_pvc m cfg)" s env] assms
    by (simp add: new_migration_pvc_def)
  have "outcome_sat (ensureMigrationPVC env m s) (\<lambda>x. extends (legal env r m) s (fst x))"
    unfolding ensureMigrationPVC_def
    by (intro sat_intros; unfold outcome_sat_def fst_conv;
        blast intro: ext_refl cr ext_trans triggerProviderReconciliation_legal [OF assms])
  then show ?thesis by (simp add: outcome_sat_def)
qed

lemma update_status_loop_in_hand: "update_status_loop n env m s = (s', m', e) \<Longrightarrow> in_hand env m m'"
proof (induction n arbitrary: m s)
  case 0
  then show ?case by (simp add: in_hand_def)
next
  case (Suc n)
  show ?case
  proof (cases "m' = m")
    case True
    then show ?thesis by (simp add: in_hand_def)
  next
    case False
    then obtain f s1 where f: "ev_fresh env (status_writes s) = Inr f"
        "update_status_loop n env (f\<lparr>mg_status := mg_status m\<rparr>) s1 = (s', m', e)"
      using Suc.prems by (auto simp: Let_def split: option.splits if_splits sum.splits)
    from Suc.IH [OF this(2)] f(1) show ?thesis by (auto simp: in_hand_def)
  qed
qed

lemma ext_case_update:
  assumes "may_write P m" "extends P s s1"
    and "\<And>s2 m2. extends P s s2 \<Longrightarrow> mg_status m2 = mg_status m \<Longrightarrow> in_hand env m m2 \<Longrightarrow> extends P s (fst (g s2 m2))"
  shows "extends P s (fst (case updateStatus env m s1 of (s2, m2, Some e) \<Rightarrow> (s2, fail_with e) | (s2, m2, None) \<Rightarrow> g s2 m2))"
proof -
  obtain s2 m2 e where u: "updateStatus env m s1 = (s2, m2, e)" by (metis prod_cases3)
  have "extends P s s2" using updateStatus_effects(4) [OF u assms(1)] assms(2) by (rule ext_trans [rotated])
  moreover have "in_hand env m m2" using update_status_loop_in_hand u by (simp add: updateStatus_def)
  ultimately show ?thesis using assms(3) updateStatus_effects(1) [OF u] by (simp add: u split: option.splits)
qed

lemma in_hand_set_st [simp]: "in_hand env (set_st f m) m' \<longleftrightarrow> in_hand env m m'"
  by (simp add: in_hand_def)

text \<open>The wait for the provider mounts, from any object in hand.\<close>

lemma mount_wait_legal:
  assumes v: "validating m0 m2" and c: "migrationProvidersMounted env src tgt pvcName = Inr None \<Longrightarrow> checks_passed env r m0"
    and h: "in_hand env m0 m2" and s: "extends (legal env r m0) s s2"
  shows "extends (legal env r m0) s (fst
    (case migrationProvidersMounted env src tgt pvcName of
                  Inl e \<Rightarrow> transitionToFailed env m2 (f1 e) s2
                | Inr None \<Rightarrow> complete_validation env r m2 s2
                | Inr (Some reason) \<Rightarrow>
                    (case migrationMountDeadlineExceeded env m2 pvcName of
                       Inl e \<Rightarrow> transitionToFailed env m2 (f2 e) s2
                     | Inr True \<Rightarrow> transitionToFailed env m2 (f3 reason) s2
                     | Inr False \<Rightarrow>
                         finish env
                           (set_st (\<lambda>t. t\<lparr>mt_Message := f4 reason\<rparr>)
                             (set_cond env CondValidating ConditionFalse ''WaitingForStorageMount'' reason m2))
                           (requeue_in migrationMountPollInterval) s2)))"
proof -
  have "migrationProvidersMounted env src tgt pvcName = Inr None \<Longrightarrow>
      extends (legal env r m0) s (fst (complete_validation env r m2 s2))"
    by (rule ext_trans [OF s]) (rule complete_validation_legal [OF v c h])
  then show ?thesis using v s
    by (auto split: sum.splits option.splits bool.splits intro!: ext_failed_from ext_finish_from
        validating_may_fail validating_stay simp: validating_def)
qed

lemma validate_pvc_path_legal:
  assumes v: "validating m m"
    and c: "\<And>pvcName. md_namespace (pv_meta src) = mg_ns m \<Longrightarrow> md_namespace (pv_meta tgt) = mg_ns m \<Longrightarrow>
      migrationProvidersMounted env src tgt pvcName = Inr None \<Longrightarrow> checks_passed env r m"
  shows "extends (legal env r m) s (fst (validate_pvc_path env r m src tgt s))"
proof (cases "md_namespace (pv_meta src) \<noteq> mg_ns m \<or> md_namespace (pv_meta tgt) \<noteq> mg_ns m")
  case True
  with v show ?thesis by (simp add: validate_pvc_path_def ext_failed validating_may_fail)
next
  case False
  obtain s1 res where e: "ensureMigrationPVC env m s = (s1, res)" by (metis surj_pair)
  have s1: "extends (legal env r m) s s1"
    using ensureMigrationPVC_legal [of m env r s] v e by (simp add: validating_def)
  note mount = mount_wait_legal [OF _ c]
  show ?thesis
  proof (cases res)
    case (Inl er)
    with False v s1 show ?thesis by (simp add: validate_pvc_path_def e ext_failed_from validating_may_fail)
  next
    case (Inr pvcName)
    have "extends (legal env r m) s (fst (case (if mt_StoragePVCName (mg_status m) = ''''
                 then updateStatus env (set_st (\<lambda>t. t\<lparr>mt_StoragePVCName := pvcName\<rparr>) m) s1
                 else (s1, m, None)) of
             (s2, m2, Some e) \<Rightarrow> (s2, fail_with e) | (s2, m2, None) \<Rightarrow> g s2 m2))"
      if g: "\<And>s2 m2. validating m m2 \<Longrightarrow> in_hand env m m2 \<Longrightarrow> extends (legal env r m) s s2 \<Longrightarrow>
        extends (legal env r m) s (fst (g s2 m2))" for g
    proof (cases "mt_StoragePVCName (mg_status m) = ''''")
      case True
      have "extends (legal env r m) s (fst (case updateStatus env (set_st (\<lambda>t. t\<lparr>mt_StoragePVCName := pvcName\<rparr>) m) s1 of
          (s2, m2, Some e) \<Rightarrow> (s2, fail_with e) | (s2, m2, None) \<Rightarrow> g s2 m2))"
        using v s1 by (intro ext_case_update g) (auto simp: validating_def intro: validating_stay)
      with True show ?thesis by simp
    next
      case False
      with g [of m s1] v s1 show ?thesis by (simp add: in_hand_def)
    qed
    from this [OF mount] False v Inr show ?thesis by (simp add: validate_pvc_path_def e)
  qed
qed

lemma handleValidatingPhase_legal:
  assumes "mg_phase m = PhaseValidating" "\<not> md_deleting (mg_meta m)"
  shows "extends (legal env r m) s (fst (handleValidatingPhase env r m s))"
proof -
  have v: "validating m m" and h: "in_hand env m m" using assms by (simp_all add: validating_def in_hand_def)
  have w: "extends (legal env r m) s (fst (wait_validating env m reason msg s))" for reason msg
    unfolding wait_validating_def using v by (intro ext_finish validating_stay [OF v]) (simp_all add: assms)
  show ?thesis
    unfolding handleValidatingPhase_def
    by (intro ext_if ext_case_sum ext_case_option w ext_failed complete_validation_legal [OF v _ h]
        validate_pvc_path_legal [OF v] validating_may_fail [OF v])
      (auto simp: checks_passed_def getTargetProvider_def)
qed

definition snapshot_owned :: "migration \<Rightarrow> bool" where
  "snapshot_owned m \<longleftrightarrow> cleanupAllowed m \<and> mt_SnapshotID (mg_status m) \<noteq> '''' \<and> src_SnapshotRef (mg_source m) = None"

lemma deleteSourceSnapshot_effects:
  assumes "snapshot_owned m" "md_deleting (mg_meta m) \<or> mg_phase m = PhaseReady"
  shows "outcome_sat (deleteSourceSnapshot env r m s) (\<lambda>(s', m', e). extends (legal env r m) s s' \<and>
    mg_spec m' = mg_spec m \<and> mg_meta m' = mg_meta m \<and>
    mg_status m' \<in> {mg_status m, (mg_status m)\<lparr>mt_SnapshotID := ''''\<rparr>})"
proof -
  have ev: "extends (legal env r m) s (emit (EvSnapshotDelete v (mt_SnapshotID (mg_status m)) b) s)" for v b
    using assms by (intro ext_emit) (simp add: snapshot_owned_def)
  show ?thesis
    unfolding deleteSourceSnapshot_def
    by (intro sat_intros; simp add: outcome_sat_def ext_refl ev)
qed

lemma deleteSourceVM_legal:
  assumes "\<not> md_deleting (mg_meta m)" "mg_phase m = PhaseReady" "src_DeleteAfterMigration (mg_source m)"
    and "mg_spec m2 = mg_spec m" "mg_meta m2 = mg_meta m"
  shows "extends (legal env r m) s (fst (deleteSourceVM env m2 s))"
proof -
  have "getSourceVM env m2 = getSourceVM env m" using assms by (simp add: getSourceVM_def)
  then show ?thesis
    unfolding deleteSourceVM_def using assms
    by (auto simp: do_write_def ext_refl split: sum.splits option.splits intro!: ext_emit)
qed

lemma cleanupIntermediateStorage_log [simp]: "log (fst (cleanupIntermediateStorage env m s)) = log s"
  unfolding cleanupIntermediateStorage_def by (auto simp: Let_def split: option.splits sum.splits)

lemma cleanupIntermediateStorage_inflight [simp]:
  "longOpInFlight (fst (cleanupIntermediateStorage env m s)) = longOpInFlight s"
  unfolding cleanupIntermediateStorage_def by (auto simp: Let_def split: option.splits sum.splits)

text \<open>The last two steps of the Ready handler.\<close>

definition ready_delete_source :: "mig_env \<Rightarrow> migration \<Rightarrow> mig_state \<Rightarrow> bool \<Rightarrow> mig_state \<times> go_error outcome" where
  "ready_delete_source env m2 s2 performed2 =
     (case (if src_DeleteAfterMigration (mg_source m2) then
              (case deleteSourceVM env m2 s2 of (s3, Some e) \<Rightarrow> (s3, None) | (s3, None) \<Rightarrow> (s3, Some True))
            else (s2, Some performed2)) of
        (s3, None) \<Rightarrow> (s3, requeue_in (5 * minute))
      | (s3, Some performed3) \<Rightarrow>
          if performed3 then
            finish env
              (set_st (\<lambda>t. t\<lparr>mt_CleanedUp := Some True, mt_Message := ''Migration completed, cleanup finished''\<rparr>) m2)
              done_result s3
          else (s3, done_result))"

definition ready_delete_snapshot :: "mig_env \<Rightarrow> mig_reconciler \<Rightarrow> migration \<Rightarrow> mig_state \<Rightarrow> bool \<Rightarrow> mig_state \<times> go_error outcome" where
  "ready_delete_snapshot env r m s1 performed1 =
     (case (if snapshot_owned m then
              (case deleteSourceSnapshot env r m s1 of
                 (s2, m2, Some e) \<Rightarrow> (s2, m2, None) | (s2, m2, None) \<Rightarrow> (s2, m2, Some True))
            else (s1, m, Some performed1)) of
        (s2, m2, None) \<Rightarrow> (s2, requeue_in (5 * minute))
      | (s2, m2, Some performed2) \<Rightarrow> ready_delete_source env m2 s2 performed2)"

lemma handleReadyPhase_steps:
  "handleReadyPhase env r m s =
     (if mt_CleanedUp (mg_status m) = Some True then (s, done_result)
      else case (if cleanupAllowed m \<and> mg_storage m \<noteq> None then
                   (case cleanupIntermediateStorage env m s of (s1, Some e) \<Rightarrow> (s1, None) | (s1, None) \<Rightarrow> (s1, Some True))
                 else (s, Some False)) of
        (s1, None) \<Rightarrow> (s1, requeue_in (5 * minute))
      | (s1, Some performed1) \<Rightarrow> ready_delete_snapshot env r m s1 performed1)"
  unfolding handleReadyPhase_def Let_def ready_delete_source_def ready_delete_snapshot_def snapshot_owned_def
  by (rule refl)

lemma ready_delete_source_legal:
  assumes "\<not> md_deleting (mg_meta m)" "mg_phase m = PhaseReady"
    and "mg_spec m2 = mg_spec m" "mg_meta m2 = mg_meta m" "mg_status m2 \<in> {mg_status m, (mg_status m)\<lparr>mt_SnapshotID := ''''\<rparr>}"
  shows "extends (legal env r m) s (fst (ready_delete_source env m2 s b))"
proof -
  have fin: "extends (legal env r m) s s3 \<Longrightarrow> extends (legal env r m) s (fst (finish env
              (set_st (\<lambda>t. t\<lparr>mt_CleanedUp := Some True, mt_Message := ''Migration completed, cleanup finished''\<rparr>) m2)
              done_result s3))" for s3
    using assms by (intro ext_finish_from) (auto simp: edge_simps)
  have del: "src_DeleteAfterMigration (mg_source m2) \<Longrightarrow> deleteSourceVM env m2 s = (s3, e) \<Longrightarrow> extends (legal env r m) s s3" for s3 e
    using deleteSourceVM_legal [OF assms(1,2) _ assms(3,4), of env r s] assms(3) by simp
  show ?thesis
    unfolding ready_delete_source_def
    by (auto simp: ext_refl split: prod.splits option.splits if_splits intro!: fin intro: del)
qed

lemma handleReadyPhase_legal:
  assumes "mg_phase m = PhaseReady" "\<not> md_deleting (mg_meta m)"
  shows "extends (legal env r m) s (fst (handleReadyPhase env r m s))"
proof -
  have two: "extends (legal env r m) s1 (fst (ready_delete_snapshot env r m s1 b))" for s1 b
  proof (cases "snapshot_owned m")
    case True
    obtain s2 m2 e where d: "deleteSourceSnapshot env r m s1 = (s2, m2, e)" by (metis prod_cases3)
    from outcome_satD [OF deleteSourceSnapshot_effects [OF True] d] assms
    have x: "extends (legal env r m) s1 s2" "mg_spec m2 = mg_spec m" "mg_meta m2 = mg_meta m"
      "mg_status m2 \<in> {mg_status m, (mg_status m)\<lparr>mt_SnapshotID := ''''\<rparr>}" by auto
    have y: "extends (legal env r m) s1 (fst (ready_delete_source env m2 s2 True))"
      by (rule ext_trans [OF x(1) ready_delete_source_legal]) (use assms x in auto)
    from x y True show ?thesis by (auto simp: ready_delete_snapshot_def d split: option.splits)
  next
    case False
    with assms show ?thesis by (simp add: ready_delete_snapshot_def ready_delete_source_legal)
  qed
  show ?thesis
  proof (cases "cleanupIntermediateStorage env m s")
    case (Pair s1 e)
    then have "log s1 = log s" "longOpInFlight s1 = longOpInFlight s"
      using cleanupIntermediateStorage_log [of env m s] cleanupIntermediateStorage_inflight [of env m s] by simp_all
    with two show ?thesis
      by (auto simp: handleReadyPhase_steps Pair split: option.splits intro: ext_refl ext_same_log
          ext_log_then [of _ s1 _ s])
  qed
qed

lemma handleFailedPhase_legal:
  assumes "mg_phase m = PhaseFailed" "\<not> md_deleting (mg_meta m)" "\<not> failed_for_good m"
  shows "extends (legal env r m) s (fst (handleFailedPhase env r m s))"
proof -
  obtain pol where pol: "retry_policy m = Some pol" "mt_RetryCount (mg_status m) < max_retries pol"
    using assms(3) by (auto simp: failed_for_good_def retry_policy_def split: option.splits)
  then show ?thesis
    unfolding handleFailedPhase_def retry_policy_def Let_def using assms(1,2)
    by (auto simp: edge_simps retry_policy_def ext_refl split: option.splits intro!: ext_finish)
qed

lemma delete_migration_snapshot_effects:
  assumes "md_deleting (mg_meta m)"
  shows "outcome_sat (delete_migration_snapshot env r m s) (\<lambda>(s', m'). extends (legal env r m) s s' \<and>
    mg_spec m' = mg_spec m \<and> mg_meta m' = mg_meta m \<and> mg_phase m' = mg_phase m)"
proof (cases "snapshot_owned m")
  case True
  obtain s2 m2 e where d: "deleteSourceSnapshot env r m s = (s2, m2, e)" by (metis prod_cases3)
  from outcome_satD [OF deleteSourceSnapshot_effects [OF True] d] assms True show ?thesis
    by (auto simp: outcome_sat_def delete_migration_snapshot_def d snapshot_owned_def)
next
  case False
  then show ?thesis by (auto simp: outcome_sat_def delete_migration_snapshot_def snapshot_owned_def ext_refl)
qed

lemma delete_partial_target_legal:
  assumes "md_deleting (mg_meta m)" "mg_spec m' = mg_spec m" "mg_meta m' = mg_meta m" "mg_phase m' = mg_phase m"
  shows "extends (legal env r m) s (fst (delete_partial_target env m' s, x))"
proof -
  have "targetNamespace m' = targetNamespace m" "targetVMName m' = targetVMName m"
    using assms by (simp_all add: targetNamespace_def targetVMName_def)
  then show ?thesis
    unfolding delete_partial_target_def using assms
    by (auto simp: ext_refl map_get_def split: sum.splits option.splits intro!: ext_write)
qed

lemma handleDeletion_steps:
  assumes "md_deleting (mg_meta m)"
  obtains s4 m3 where "extends (legal env r m) s s4" "mg_spec m3 = mg_spec m" "mg_meta m3 = mg_meta m"
    "handleDeletion env r m s =
       (case do_write env (UpdateMigration (m3\<lparr>mg_meta := remove_finalizer migration_finalizer (mg_meta m)\<rparr>)) s4 of
          (s5, Some e) \<Rightarrow> (s5, fail_with e) | (s5, None) \<Rightarrow> (s5, done_result))"
proof -
  define s1 where "s1 = delete_staged_storage env m s"
  define s2 where "s2 = delete_migration_pvc env m s1"
  obtain s3 m3 where d: "delete_migration_snapshot env r m s2 = (s3, m3)" by (metis surj_pair)
  have a: "extends (legal env r m) s s1" by (simp add: s1_def delete_staged_storage_def ext_same_log)
  have b: "extends (legal env r m) s1 s2"
    using assms by (auto simp: s2_def delete_migration_pvc_def ext_refl split: sum.splits intro!: ext_write)
  from outcome_satD [OF delete_migration_snapshot_effects [OF assms] d]
  have c: "extends (legal env r m) s2 s3" and m3: "mg_spec m3 = mg_spec m" "mg_meta m3 = mg_meta m" "mg_phase m3 = mg_phase m"
    by auto
  have "extends (legal env r m) s3 (delete_partial_target env m3 s3)"
    using delete_partial_target_legal [OF assms m3] by simp
  with a b c have "extends (legal env r m) s (delete_partial_target env m3 s3)" by (blast intro: ext_trans)
  then show ?thesis
    by (rule that [OF _ m3(1,2)]) (simp add: handleDeletion_def Let_def s1_def [symmetric] s2_def [symmetric] d m3(2))
qed

lemma handleDeletion_legal:
  assumes "md_deleting (mg_meta m)"
  shows "extends (legal env r m) s (fst (handleDeletion env r m s))"
proof -
  obtain s4 m3 where st: "extends (legal env r m) s s4" "mg_spec m3 = mg_spec m" "mg_meta m3 = mg_meta m"
    "handleDeletion env r m s =
       (case do_write env (UpdateMigration (m3\<lparr>mg_meta := remove_finalizer migration_finalizer (mg_meta m)\<rparr>)) s4 of
          (s5, Some e) \<Rightarrow> (s5, fail_with e) | (s5, None) \<Rightarrow> (s5, done_result))"
    by (rule handleDeletion_steps [OF assms])
  have "extends (legal env r m) s4 (fst (handleDeletion env r m s))"
    unfolding st(4) by (rule ext_write_then) (use assms st in auto)
  with st(1) show ?thesis by (rule ext_trans)
qed

lemma dispatch_legal:
  assumes "\<not> md_deleting (mg_meta m)" "mg_phase m = PhaseFailed \<Longrightarrow> \<not> failed_for_good m"
  shows "extends (legal env r m) s (fst (dispatch env r m s))"
  using assms unfolding dispatch_def
  by (cases "mg_phase m")
    (simp_all add: handlePendingPhase_legal handleValidatingPhase_legal handleSnapshottingPhase_legal
      handleExportingPhase_legal handleTransferringPhase_legal handleConvertingPhase_legal handleImportingPhase_legal
      handleCreatingPhase_legal handleValidatingTargetPhase_legal handleReadyPhase_legal handleFailedPhase_legal ext_refl)

lemma Reconcile_legal:
  assumes "ev_get_migration env = Inr m"
  shows "extends (legal env r m) s (fst (Reconcile env r s))"
proof -
  have fin: "\<not> md_deleting (mg_meta m) \<Longrightarrow> extends (legal env r m) s
     (fst (case do_write env (UpdateMigration (m\<lparr>mg_meta := add_finalizer migration_finalizer (mg_meta m)\<rparr>)) s of
               (s1, Some e) \<Rightarrow> (s1, fail_with e) | (s1, None) \<Rightarrow> (s1, requeue_now)))"
    by (rule ext_write_then) auto
  show ?thesis
    unfolding Reconcile_def assms sum.case
    by (intro ext_if handleDeletion_legal fin dispatch_legal ext_finish ext_Pair ext_refl)
      (auto simp: edge_simps)
qed

end
