(* ===== verification/MigrationOnce.thy ===== *)
theory MigrationOnce
  imports MigrationSpec
begin

text \<open>
  The guard of the long operations: whatever the reads answer (a stale cache included) and whichever
  status writes fail, a reconciler issues each of the two disk RPCs at most once with success for one
  UID and generation of a migration.
\<close>

definition new_events :: "mig_state \<Rightarrow> mig_state \<Rightarrow> mig_event list" where
  "new_events s s' = drop (length (log s)) (log s')"

fun export_started :: "mig_event \<Rightarrow> bool" where
  "export_started (EvExportDisk req ok) = ok"
| "export_started _ = False"

fun import_started :: "mig_event \<Rightarrow> bool" where
  "import_started (EvImportDisk req ok) = ok"
| "import_started _ = False"

text \<open>
  A sequence of reconciles, each in its own environment (its own reads of the migration, of any
  migration), and how many events of a kind the ones for the operation key \<open>K\<close> produce.
\<close>

fun run :: "mig_reconciler \<Rightarrow> mig_env list \<Rightarrow> mig_state \<Rightarrow> mig_state" where
  "run r [] s = s"
| "run r (env # envs) s = run r envs (fst (Reconcile env r s))"

definition works_on :: "mig_env \<Rightarrow> mig_long_op \<Rightarrow> string \<Rightarrow> bool" where
  "works_on env op K \<longleftrightarrow> (case ev_get_migration env of Inr m \<Rightarrow> longOpKey m op = K | Inl e \<Rightarrow> False)"

fun rpc_count :: "(mig_event \<Rightarrow> bool) \<Rightarrow> mig_long_op \<Rightarrow> string \<Rightarrow> mig_reconciler \<Rightarrow> mig_env list \<Rightarrow> mig_state \<Rightarrow> nat" where
  "rpc_count P op K r [] s = 0"
| "rpc_count P op K r (env # envs) s =
     (let s' = fst (Reconcile env r s) in
      (if works_on env op K then length (filter P (new_events s s')) else 0) + rpc_count P op K r envs s')"

section \<open>The contract of a guarded operation\<close>

definition guarded :: "(mig_event \<Rightarrow> bool) \<Rightarrow> string \<Rightarrow> mig_state \<Rightarrow> mig_state \<Rightarrow> bool" where
  "guarded P K s s' \<longleftrightarrow> (\<exists>evs. log s' = log s @ evs \<and> length (filter P evs) \<le> 1 \<and>
     (K \<in> set (longOpInFlight s) \<longrightarrow> filter P evs = []) \<and> (filter P evs \<noteq> [] \<longrightarrow> K \<in> set (longOpInFlight s')))"

locale long_op_guard =
  fixes op :: mig_long_op and started :: "mig_event \<Rightarrow> bool"
  assumes step_guarded: "ev_get_migration env = Inr m \<Longrightarrow> guarded started (longOpKey m op) s (fst (Reconcile env r s))"
    and step_keeps: "set (longOpInFlight s) \<subseteq> set (longOpInFlight (fst (Reconcile env r s)))"
begin

lemma step_new:
  assumes "works_on env op K"
  shows "length (filter started (new_events s (fst (Reconcile env r s)))) \<le> 1"
    and "K \<in> set (longOpInFlight s) \<Longrightarrow> filter started (new_events s (fst (Reconcile env r s))) = []"
    and "filter started (new_events s (fst (Reconcile env r s))) \<noteq> [] \<Longrightarrow> K \<in> set (longOpInFlight (fst (Reconcile env r s)))"
proof -
  obtain m where "ev_get_migration env = Inr m" "longOpKey m op = K"
    using assms by (auto simp: works_on_def split: sum.splits)
  then have "guarded started K s (fst (Reconcile env r s))" using step_guarded by blast
  then show "length (filter started (new_events s (fst (Reconcile env r s)))) \<le> 1"
    and "K \<in> set (longOpInFlight s) \<Longrightarrow> filter started (new_events s (fst (Reconcile env r s))) = []"
    and "filter started (new_events s (fst (Reconcile env r s))) \<noteq> [] \<Longrightarrow> K \<in> set (longOpInFlight (fst (Reconcile env r s)))"
    by (auto simp: guarded_def new_events_def)
qed

lemma none_while_in_flight: "K \<in> set (longOpInFlight s) \<Longrightarrow> rpc_count started op K r envs s = 0"
proof (induction envs arbitrary: s)
  case (Cons env envs)
  have "K \<in> set (longOpInFlight (fst (Reconcile env r s)))" using Cons.prems step_keeps by blast
  with Cons.IH step_new(2) [OF _ Cons.prems] show ?case by (simp add: Let_def)
qed simp

lemma at_most_once: "rpc_count started op K r envs s \<le> 1"
proof (induction envs arbitrary: s)
  case (Cons env envs)
  let ?s = "fst (Reconcile env r s)"
  show ?case
  proof (cases "works_on env op K \<and> filter started (new_events s ?s) \<noteq> []")
    case True
    then have "rpc_count started op K r envs ?s = 0" using step_new(3) none_while_in_flight by blast
    with True step_new(1) [of env K s r] show ?thesis by (simp add: Let_def)
  next
    case False
    with Cons.IH show ?thesis by (auto simp: Let_def)
  qed
qed simp

end

section \<open>The handlers keep it\<close>

lemma guarded_none: "extends (\<lambda>e. \<not> P e) s s' \<Longrightarrow> guarded P K s s'"
  by (auto simp: extends_def guarded_def filter_empty_conv)

lemma guarded_after: "extends (\<lambda>e. \<not> P e) s s1 \<Longrightarrow> longOpInFlight s1 = longOpInFlight s \<Longrightarrow> guarded P K s1 s' \<Longrightarrow> guarded P K s s'"
  unfolding extends_def guarded_def by (force simp: filter_empty_conv)

text \<open>A kind of event that no status write is.\<close>

definition rpc_kind :: "(mig_event \<Rightarrow> bool) \<Rightarrow> bool" where
  "rpc_kind P \<longleftrightarrow> (\<forall>m ok. \<not> P (EvStatus m ok))"

lemma rpc_kind_started [simp]: "rpc_kind export_started" "rpc_kind import_started"
  by (simp_all add: rpc_kind_def)

lemma guarded_failed: "rpc_kind P \<Longrightarrow> guarded P K s (fst (transitionToFailed env m msg s))"
  by (intro guarded_none ext_failed) (simp add: may_write_def rpc_kind_def)

lemma guarded_finish: "rpc_kind P \<Longrightarrow> guarded P K s (fst (finish env m res s))"
  by (intro guarded_none ext_finish) (simp add: may_write_def rpc_kind_def)

lemma guarded_await:
  "rpc_kind P \<Longrightarrow> guarded P K s (fst f) \<Longrightarrow>
   guarded P K s (fst (case await_task env inst what What m s of Some res \<Rightarrow> res | None \<Rightarrow> f))"
  unfolding await_task_def
  by (auto split: sum.splits bool.splits option.splits simp: guarded_failed guarded_none ext_refl)

lemma guarded_gate:
  assumes "rpc_kind P" "\<And>s1. longOpInFlight s1 = longOpInFlight s \<Longrightarrow> guarded P K s1 (fst (f s1))"
  shows "guarded P K s (fst (case gateProviderCapability env r m inst supp msg s of
           (s1, Some res) \<Rightarrow> (s1, res) | (s1, None) \<Rightarrow> f s1))"
  using guarded_failed [OF assms(1), of K s env m msg] assms(2) [of s]
  unfolding gateProviderCapability_def
  by (auto split: option.splits sum.splits prod.splits)

lemma guarded_issued:
  assumes "K \<notin> set (longOpInFlight s)" "log s2 = log s @ [e]" "P e \<Longrightarrow> K \<in> set (longOpInFlight s2)"
    and "extends (\<lambda>e. \<not> P e) s2 s3"
  shows "guarded P K s s3"
proof -
  obtain evs where evs: "log s3 = log s @ e # evs" "filter P evs = []" and K: "set (longOpInFlight s2) \<subseteq> set (longOpInFlight s3)"
    using assms(2,4) by (auto simp: extends_def filter_empty_conv)
  show ?thesis unfolding guarded_def
    by (rule exI [of _ "e # evs"]) (use assms(1,3) evs K in auto)
qed

lemma issue_export_guarded: "guarded export_started (longOpKey m LongOpExport) s (fst (issue_export env inst m req s))"
proof (cases "longOpKey m LongOpExport \<in> set (longOpInFlight s)")
  case True
  then show ?thesis by (simp add: issue_export_def markLongOpStarted_def guarded_none ext_refl)
next
  case False
  have mw: "may_write (\<lambda>e. \<not> export_started e) m'" for m' by (simp add: may_write_def)
  from False show ?thesis
    by (cases "pi_ExportDisk inst req")
      (auto simp: issue_export_def markLongOpStarted_def Let_def emit_def releaseLongOp_def mw
        intro!: guarded_issued [OF False _ _ ext_finish] guarded_issued [OF False _ _ ext_failed])
qed

lemma issue_import_guarded: "guarded import_started (longOpKey m LongOpImport) s (fst (issue_import env inst tgt m req s))"
proof (cases "longOpKey m LongOpImport \<in> set (longOpInFlight s)")
  case True
  then show ?thesis by (simp add: issue_import_def markLongOpStarted_def guarded_none ext_refl)
next
  case False
  have mw: "may_write (\<lambda>e. \<not> import_started e) m'" for m' by (simp add: may_write_def)
  from False show ?thesis
    by (cases "pi_ImportDisk inst req")
      (auto simp: issue_import_def markLongOpStarted_def Let_def emit_def releaseLongOp_def mw
        intro!: guarded_issued [OF False _ _ ext_finish] guarded_issued [OF False _ _ ext_failed])
qed

lemma guarded_if: "(b \<Longrightarrow> guarded P K s (fst x)) \<Longrightarrow> (\<not> b \<Longrightarrow> guarded P K s (fst y)) \<Longrightarrow> guarded P K s (fst (if b then x else y))"
  by simp

lemma guarded_sum:
  "(\<And>e. x = Inl e \<Longrightarrow> guarded P K s (fst (f e))) \<Longrightarrow> (\<And>a. x = Inr a \<Longrightarrow> guarded P K s (fst (g a))) \<Longrightarrow>
   guarded P K s (fst (case x of Inl e \<Rightarrow> f e | Inr a \<Rightarrow> g a))"
  by (cases x) auto

lemma handleExportingPhase_guarded:
  "guarded export_started (longOpKey m LongOpExport) s (fst (handleExportingPhase env r m s))"
  unfolding handleExportingPhase_def
  by (intro guarded_sum guarded_if guarded_await guarded_gate guarded_failed guarded_finish issue_export_guarded
      rpc_kind_started)

lemma handleImportingPhase_guarded:
  "guarded import_started (longOpKey m LongOpImport) s (fst (handleImportingPhase env r m s))"
  unfolding handleImportingPhase_def
  by (intro guarded_sum guarded_if guarded_await guarded_gate guarded_failed guarded_finish issue_import_guarded
      rpc_kind_started)

lemma Reconcile_keeps: "set (longOpInFlight s) \<subseteq> set (longOpInFlight (fst (Reconcile env r s)))"
proof (cases "ev_get_migration env")
  case (Inr m)
  from Reconcile_legal [OF this, of r s] show ?thesis by (simp add: extends_def)
qed (simp add: Reconcile_def)

lemma Reconcile_guarded:
  assumes m: "ev_get_migration env = Inr m" and P: "rpc_kind P" "\<And>w ok. \<not> P (EvWrite w ok)"
    and ph: "\<And>e. legal env r m e \<Longrightarrow> P e \<Longrightarrow> mg_phase m = ph \<and> \<not> md_deleting (mg_meta m)" "ph \<notin> {PhaseNone, PhaseFailed}"
    and d: "mg_phase m = ph \<Longrightarrow> guarded P K s (fst (dispatch env r m s))"
  shows "guarded P K s (fst (Reconcile env r s))"
proof (cases "mg_phase m = ph \<and> \<not> md_deleting (mg_meta m)")
  case True
  have "guarded P K s (fst (case do_write env w s of
        (s1, Some e) \<Rightarrow> (s1, fail_with e) | (s1, None) \<Rightarrow> (s1, requeue_now)))" for w
    by (intro guarded_none ext_write_then) (simp_all add: P)
  with True d ph(2) m show ?thesis by (auto simp: Reconcile_def)
next
  case False
  show ?thesis
    by (rule guarded_none, rule ext_mono [OF Reconcile_legal [OF m]]) (use False ph(1) in blast)
qed

interpretation export_guard: long_op_guard LongOpExport export_started
proof
  fix env :: mig_env and m s r
  assume m: "ev_get_migration env = Inr m"
  show "guarded export_started (longOpKey m LongOpExport) s (fst (Reconcile env r s))"
  proof (rule Reconcile_guarded [where ph = PhaseExporting, OF m])
    show "legal env r m e \<Longrightarrow> export_started e \<Longrightarrow> mg_phase m = PhaseExporting \<and> \<not> md_deleting (mg_meta m)" for e
      by (cases e) simp_all
  qed (simp_all add: dispatch_def handleExportingPhase_guarded)
qed (rule Reconcile_keeps)

interpretation import_guard: long_op_guard LongOpImport import_started
proof
  fix env :: mig_env and m s r
  assume m: "ev_get_migration env = Inr m"
  show "guarded import_started (longOpKey m LongOpImport) s (fst (Reconcile env r s))"
  proof (rule Reconcile_guarded [where ph = PhaseImporting, OF m])
    show "legal env r m e \<Longrightarrow> import_started e \<Longrightarrow> mg_phase m = PhaseImporting \<and> \<not> md_deleting (mg_meta m)" for e
      by (cases e) simp_all
  qed (simp_all add: dispatch_def handleImportingPhase_guarded)
qed (rule Reconcile_keeps)

end
