(* ===== verification/MigrationProps.thy ===== *)
theory MigrationProps
  imports MigrationOnce
begin

text \<open>
  The safety properties of the VMMigration controller, each stated of \<open>Reconcile\<close> for every
  environment. The sample objects at the beginning serve the witnesses.
\<close>

section \<open>Sample objects\<close>

definition sample_meta :: object_meta where
  "sample_meta = (new_meta ''ns'' ''mig'')\<lparr>md_uid := ''0123456789'', md_finalizers := [migration_finalizer]\<rparr>"

definition sample_vm :: virtual_machine where
  "sample_vm = \<lparr>vm_meta = new_meta ''ns'' ''vm'',
     vm_spec = empty_vm_spec\<lparr>vs_ProviderRef := \<lparr>or_name = ''p'', or_namespace = ''''\<rparr>\<rparr>,
     vm_status = empty_vm_status\<lparr>vt_ID := ''id-1'',
       vt_Conditions := [\<lparr>c_type = ''Ready'', c_status = ConditionTrue, c_reason = '''', c_message = '''',
                          c_lastTransition = 0, c_observedGeneration = 0\<rparr>]\<rparr>\<rparr>"

definition sample_provider :: provider where
  "sample_provider = \<lparr>pv_meta = new_meta ''ns'' ''p'', pv_Type = ''libvirt'',
     pv_Conditions = [\<lparr>c_type = ''ProviderAvailable'', c_status = ConditionTrue, c_reason = '''', c_message = '''',
                       c_lastTransition = 0, c_observedGeneration = 0\<rparr>],
     pv_ReportedCapabilities = None\<rparr>"

definition sample_instance :: provider_instance where
  "sample_instance = \<lparr>
     pi_Create = (\<lambda>_. Inr \<lparr>cr_ID = ''id-2'', cr_TaskRef = ''''\<rparr>), pi_Reconfigure = (\<lambda>_ _. Inr ''''),
     pi_Describe = (\<lambda>_. Inr \<lparr>ds_Exists = True, ds_PowerState = ''Off'', ds_IPs = [], ds_ConsoleURL = '''', ds_ProviderRaw = Map.empty\<rparr>),
     pi_Power = (\<lambda>_ _. Inr ''''), pi_Delete = (\<lambda>_. Inr ''''), pi_IsTaskComplete = (\<lambda>_ _. Inr True),
     pi_TaskStatus = (\<lambda>_. Inr \<lparr>ts_IsCompleted = True, ts_Error = ''disk full'', ts_Message = ''''\<rparr>),
     pi_SnapshotCreate = (\<lambda>_. Inr \<lparr>sr_SnapshotId = ''snap'', sr_Task = None\<rparr>),
     pi_SnapshotDelete = (\<lambda>_ _. Inr ''''),
     pi_ExportDisk = (\<lambda>_. Inr \<lparr>ep_ExportId = ''exp'', ep_TaskRef = '''', ep_EstimatedSizeBytes = 5, ep_Checksum = ''sum''\<rparr>),
     pi_ImportDisk = (\<lambda>_. Inr \<lparr>ip_DiskId = ''disk'', ip_Path = ''/d'', ip_TaskRef = '''', ip_ActualSizeBytes = 5, ip_Checksum = ''sum''\<rparr>),
     pi_GetCapabilities = None, pi_Clone = None, pi_PrepareImage = None, pi_ListVMs = Inr []\<rparr>"

definition sample_spec :: mig_spec where
  "sample_spec = \<lparr>
     sp_Source = \<lparr>src_VMRef = ''vm'', src_ProviderRef = None, src_SnapshotRef = None, src_CreateSnapshot = False,
       src_PowerOffBeforeMigration = True, src_DeleteAfterMigration = True\<rparr>,
     sp_Target = \<lparr>tg_Name = ''new'', tg_Namespace = '''', tg_ProviderRef = \<lparr>or_name = ''q'', or_namespace = ''''\<rparr>,
       tg_ClassRef = None, tg_Networks = [], tg_PlacementRef = None, tg_Labels = Map.empty, tg_Annotations = Map.empty\<rparr>,
     sp_Options = Some \<lparr>mo_DiskFormat = '''', mo_Compress = False, mo_VerifyChecksums = True,
       mo_RetryPolicy = Some \<lparr>ry_MaxRetries = Some 2, ry_RetryDelay = None, ry_BackoffMultiplier = None\<rparr>, mo_CleanupPolicy = ''''\<rparr>,
     sp_Storage = None\<rparr>"

definition sample_status :: "migration_phase \<Rightarrow> mig_status" where
  "sample_status ph = \<lparr>mt_Phase = ph, mt_Message = '''', mt_SnapshotID = ''snap'', mt_ExportID = '''', mt_ImportID = '''',
     mt_TaskRef = '''', mt_TargetVMID = '''', mt_StartTime = None, mt_CompletionTime = None, mt_DiskInfo = None,
     mt_CleanedUp = None, mt_StoragePVCName = '''', mt_Conditions = [], mt_RetryCount = 0, mt_LastRetryTime = None\<rparr>"

definition sample_mig :: "migration_phase \<Rightarrow> migration" where
  "sample_mig ph = \<lparr>mg_meta = sample_meta, mg_spec = sample_spec, mg_status = sample_status ph\<rparr>"

definition sample_env :: "migration \<Rightarrow> mig_env" where
  "sample_env m = \<lparr>ev_now = 0, ev_get_migration = Inr m, ev_fresh = (\<lambda>_. Inr m), ev_status_err = (\<lambda>_. None),
     ev_get_vm = (\<lambda>_. Inr sample_vm), ev_get_provider = (\<lambda>_. Inr sample_provider),
     ev_get_pvc = (\<lambda>_. Inl (PlainError '''')), ev_get_secret = (\<lambda>_. Inl (PlainError '''')),
     ev_get_deployment = (\<lambda>_. Inl (PlainError '''')), ev_list_pods = (\<lambda>_. Inr []), ev_write_err = (\<lambda>_. None),
     ev_resolve = (\<lambda>_. Inr sample_instance), ev_parse_quantity = (\<lambda>_. None), ev_owner_err = None,
     ev_enc = (\<lambda>_. Inr ''{}''), ev_rfc3339 = (\<lambda>_. ''t''), ev_net = sample_net, ev_os = good_os,
     ev_polls = 0, ev_poll_timeout = PlainError ''timeout''\<rparr>"

definition sample_reconciler :: mig_reconciler where
  "sample_reconciler = \<lparr>EnforceCapabilities = True, StorageHostPolicy = None, providerInstanceFn = None\<rparr>"

definition start :: mig_state where
  "start = \<lparr>longOpInFlight = [], mgr_files = Map.empty, status_writes = 0, log = []\<rparr>"

lemmas sample_defs = sample_meta_def sample_vm_def sample_provider_def sample_instance_def sample_spec_def
  sample_status_def sample_mig_def sample_env_def sample_reconciler_def start_def new_meta_def empty_vm_spec_def
  empty_vm_status_def no_ref_def

text \<open>The equations that evaluate a reconcile of a sample object.\<close>

lemmas run_simps = Reconcile_def HasFinalizer_def finish_def updateStatus_def numeral_3_eq_3 emit_def set_st_def set_cond_def
  new_events_def dispatch_def Let_def do_write_def getSourceVM_def getProvider_def getProviderInstance_def
  sourceProviderRef_def

section \<open>Phases\<close>

lemma legal_new_event:
  assumes "ev_get_migration env = Inr m" "e \<in> set (new_events s (fst (Reconcile env r s)))"
  shows "legal env r m e"
  using Reconcile_legal [OF assms(1), of r s] assms(2) by (auto simp: extends_def new_events_def)

text \<open>The documented order of the phases.\<close>

fun phase_graph :: "migration_phase \<Rightarrow> migration_phase set" where
  "phase_graph PhaseNone = {PhasePending}"
| "phase_graph PhasePending = {PhaseValidating}"
| "phase_graph PhaseValidating = {PhaseValidating, PhaseSnapshotting, PhaseExporting, PhaseFailed}"
| "phase_graph PhaseSnapshotting = {PhaseSnapshotting, PhaseExporting, PhaseFailed}"
| "phase_graph PhaseExporting = {PhaseExporting, PhaseImporting, PhaseFailed}"
| "phase_graph PhaseTransferring = {PhaseImporting}"
| "phase_graph PhaseConverting = {PhaseImporting}"
| "phase_graph PhaseImporting = {PhaseImporting, PhaseCreating, PhaseFailed}"
| "phase_graph PhaseCreating = {PhaseCreating, PhaseValidatingTarget, PhaseFailed}"
| "phase_graph PhaseValidatingTarget = {PhaseValidatingTarget, PhaseReady, PhaseFailed}"
| "phase_graph PhaseReady = {PhaseReady}"
| "phase_graph PhaseFailed = {PhasePending}"
| "phase_graph (PhaseOther p) = {}"

lemma phase_edge_graph: "phase_edge env r m t ph \<Longrightarrow> mt_Phase t \<in> phase_graph ph"
  by (cases ph) auto

text \<open>
  C16. The migration moves along its phases only: whatever the API and the providers answer, every
  status a reconcile tries to write has a phase that follows the phase of the object it read, Ready is
  never left, a failed migration can only be restarted, an object in an unknown phase or under
  deletion gets no status written at all.
\<close>

theorem reconcile_phase_graph:
  assumes "ev_get_migration env = Inr m"
    and "EvStatus m' ok \<in> set (new_events s (fst (Reconcile env r s)))"
  shows "mg_phase m' \<in> phase_graph (mg_phase m) \<and> \<not> md_deleting (mg_meta m)"
  using legal_new_event [OF assms] by (auto simp: legal_status_def phase_edge_graph)

theorem reconcile_phase_graph_witness:
  "\<exists>m'. EvStatus m' True \<in> set (new_events start (fst (Reconcile (sample_env (sample_mig PhaseValidating)) sample_reconciler start))) \<and>
     mg_phase m' = PhaseExporting \<and> PhaseExporting \<in> phase_graph PhaseValidating"
proof -
  let ?m = "sample_mig PhaseValidating" and ?e = "sample_env (sample_mig PhaseValidating)"
  obtain m' where m': "EvStatus m' True \<in> set (new_events start (fst (Reconcile ?e sample_reconciler start)))"
      "mg_phase m' = PhaseExporting"
    by (simp add: sample_defs run_simps handleValidatingPhase_def complete_validation_def ensureSourcePoweredOff_def
        isProviderReady_def gateMigrationStorageBackend_def migrationBackendType_def migrationTransferMode_def backend_names
        containsString_def reportedExportBackends_def reportedImportBackends_def PVCOnlyExportBackends_def
        PVCOnlyImportBackends_def PowerStateOff_def)
  have "ev_get_migration ?e = Inr ?m" by (simp add: sample_env_def)
  from reconcile_phase_graph [OF this m'(1)] m' show ?thesis
    by (auto simp: sample_mig_def sample_status_def)
qed


lemmas validate_simps = handleValidatingPhase_def complete_validation_def ensureSourcePoweredOff_def
  isProviderReady_def gateMigrationStorageBackend_def migrationBackendType_def migrationTransferMode_def backend_names
  containsString_def reportedExportBackends_def reportedImportBackends_def PVCOnlyExportBackends_def
  PVCOnlyImportBackends_def PowerStateOff_def


text \<open>
  A migration is declared done only on a ready target: a reconcile tries to write ValidatingTarget
  or Ready as a new phase only if the target VM object exists in that very call, its Ready condition is
  true, and the status records its provider ID.
\<close>

lemma ready_needs_ready_target:
  assumes "ev_get_migration env = Inr m"
    and "EvStatus m' ok \<in> set (new_events s (fst (Reconcile env r s)))"
    and "mg_phase m' \<in> {PhaseValidatingTarget, PhaseReady}" "mg_phase m' \<noteq> mg_phase m"
  shows "\<exists>vm. ev_get_vm env (targetNamespace m, targetVMName m) = Inr vm \<and> vm_ready vm \<and>
    mt_TargetVMID (mg_status m') = vt_ID (vm_status vm)"
  using legal_new_event [OF assms(1,2)] assms(3,4)
  by (cases "mg_phase m") (auto simp: legal_status_def target_ready_def split: if_splits)

section \<open>Retries\<close>

text \<open>
  The objects a migration becomes by successful status writes, the latest first, as long as its spec is
  not edited; and the restarts among them.
\<close>

inductive history :: "mig_reconciler \<Rightarrow> migration \<Rightarrow> migration list \<Rightarrow> bool" for r m0 where
  history_start: "history r m0 [m0]"
| history_step: "history r m0 (m # ms) \<Longrightarrow> ev_get_migration env = Inr m \<Longrightarrow>
    EvStatus m' True \<in> set (new_events s (fst (Reconcile env r s))) \<Longrightarrow> mg_spec m' = mg_spec m0 \<Longrightarrow>
    history r m0 (m' # m # ms)"

fun restarts :: "migration list \<Rightarrow> nat" where
  "restarts (m' # m # ms) = (if mg_phase m = PhaseFailed then 1 else 0) + restarts (m # ms)"
| "restarts _ = 0"

lemma retry_count_step:
  assumes "ev_get_migration env = Inr m" "EvStatus m' ok \<in> set (new_events s (fst (Reconcile env r s)))"
    and "retry_policy m = Some pol" "0 \<le> mt_RetryCount (mg_status m)" "max_retries pol < 2 ^ 31"
  shows "mt_RetryCount (mg_status m') = mt_RetryCount (mg_status m) + (if mg_phase m = PhaseFailed then 1 else 0) \<and>
    (mg_phase m = PhaseFailed \<longrightarrow> mt_RetryCount (mg_status m) < max_retries pol)"
proof -
  have "retry_edge m (mg_status m')" using legal_new_event [OF assms(1,2)] by (simp add: legal_status_def)
  with assms(3-5) show ?thesis
    by (auto simp: retry_edge_def wrap32_def split: if_splits)
qed

text \<open>
  C26. The retry budget: along any history of a migration that started with a retry count of zero, the
  count is the number of times the failed migration was restarted, and it never passes MaxRetries.
\<close>

theorem retry_budget:
  assumes "history r m0 (m # ms)" "retry_policy m0 = Some pol"
    and "mt_RetryCount (mg_status m0) = 0" "0 \<le> max_retries pol" "max_retries pol < 2 ^ 31"
  shows "mt_RetryCount (mg_status m) = int (restarts (m # ms)) \<and> int (restarts (m # ms)) \<le> max_retries pol"
proof -
  have "mg_spec m = mg_spec m0 \<and> mt_RetryCount (mg_status m) = int (restarts (m # ms)) \<and>
      int (restarts (m # ms)) \<le> max_retries pol"
    using assms(1)
  proof (induction "m # ms" arbitrary: m ms rule: history.induct)
    case history_start
    with assms show ?case by simp
  next
    case (history_step m ms env m' s)
    then have IH: "mg_spec m = mg_spec m0" "mt_RetryCount (mg_status m) = int (restarts (m # ms))"
      "int (restarts (m # ms)) \<le> max_retries pol" by auto
    have pol: "retry_policy m = Some pol" using assms(2) IH(1) by (simp add: retry_policy_def)
    from retry_count_step [OF history_step(3,4) pol _ assms(5)] IH history_step(5) show ?case by auto
  qed
  then show ?thesis by simp
qed

theorem retry_budget_witness:
  "\<exists>m'. history sample_reconciler (sample_mig PhaseFailed) [m', sample_mig PhaseFailed] \<and>
     mg_phase m' = PhasePending \<and> mt_RetryCount (mg_status m') = 1 \<and> (1 :: int) \<le> 2"
proof -
  let ?m = "sample_mig PhaseFailed" and ?e = "sample_env (sample_mig PhaseFailed)"
  obtain m' where m': "EvStatus m' True \<in> set (new_events start (fst (Reconcile ?e sample_reconciler start)))"
      "mg_phase m' = PhasePending" "mg_spec m' = mg_spec ?m"
    by (simp add: sample_defs run_simps handleFailedPhase_def failed_for_good_def max_retries_def)
  have "ev_get_migration ?e = Inr ?m" by (simp add: sample_defs)
  from history_step [OF history_start this m'(1) m'(3)]
  have h: "history sample_reconciler ?m [m', ?m]" .
  have "retry_policy ?m = Some \<lparr>ry_MaxRetries = Some 2, ry_RetryDelay = None, ry_BackoffMultiplier = None\<rparr>"
    "mt_RetryCount (mg_status ?m) = 0" "mg_phase ?m = PhaseFailed"
    by (simp_all add: retry_policy_def sample_mig_def sample_spec_def sample_status_def)
  with retry_budget [OF h this(1,2)] h m'(2) show ?thesis by (auto simp: max_retries_def)
qed

text \<open>
  A migration that failed for good is left alone: with no retry policy, or with the budget used
  up, a reconcile does nothing at all and asks for no other, whatever is still recorded in the status.
  In particular the snapshot it created stays on the source VM: \<open>cleanupSnapshotOnTerminalFailure\<close>,
  which the failed handler runs in exactly these two cases, is never reached.
\<close>

lemma terminal_failure_is_inert:
  assumes "ev_get_migration env = Inr m" "\<not> md_deleting (mg_meta m)" "HasFinalizer (mg_meta m) migration_finalizer"
    and "mg_phase m = PhaseFailed"
    and "\<forall>pol. retry_policy m = Some pol \<longrightarrow> max_retries pol \<le> mt_RetryCount (mg_status m)"
  shows "Reconcile env r s = (s, done_result)"
  using assms by (auto simp: Reconcile_def failed_for_good_def retry_policy_def split: option.splits)

section \<open>Long operations\<close>

text \<open>
  C1. Export and import are issued once: over any sequence of reconciles of one manager, for whatever
  migrations, with whatever stale or fresh reads, failing status writes and provider answers, at most
  one ExportDisk and at most one ImportDisk succeed for one UID and generation.
\<close>

theorem disk_rpcs_issued_once:
  "rpc_count export_started LongOpExport K r envs s \<le> 1 \<and> rpc_count import_started LongOpImport K r envs s \<le> 1"
  using export_guard.at_most_once import_guard.at_most_once by blast

section \<open>Deletions\<close>

text \<open>
  C25. Which virtual machines a migration deletes: a reconcile only ever deletes either the source VM,
  when the migration is Ready and asked for it, or, when the migration itself is being deleted in
  Failed or Creating, the target VM, if that VM names this migration in its annotation and is not
  marked as completed.
\<close>

theorem vm_deletions_are_licensed:
  assumes "ev_get_migration env = Inr m"
    and "EvWrite (DeleteVM v) ok \<in> set (new_events s (fst (Reconcile env r s)))"
  shows "if md_deleting (mg_meta m)
    then mg_phase m \<in> {PhaseFailed, PhaseCreating} \<and> ev_get_vm env (targetNamespace m, targetVMName m) = Inr v \<and>
         md_annotations (vm_meta v) AnnCompleted \<noteq> Some ''true'' \<and>
         md_annotations (vm_meta v) AnnMigration = Some (mg_ns m @ ''/'' @ mg_name m)
    else mg_phase m = PhaseReady \<and> src_DeleteAfterMigration (mg_source m) \<and> getSourceVM env m = Inr v"
  using legal_new_event [OF assms] by simp

theorem vm_deletions_are_licensed_witness:
  "EvWrite (DeleteVM sample_vm) True \<in> set (new_events start
     (fst (Reconcile (sample_env (sample_mig PhaseReady)) sample_reconciler start))) \<and>
   src_DeleteAfterMigration (mg_source (sample_mig PhaseReady))"
proof -
  let ?m = "sample_mig PhaseReady" and ?e = "sample_env (sample_mig PhaseReady)"
  have e: "EvWrite (DeleteVM sample_vm) True \<in> set (new_events start (fst (Reconcile ?e sample_reconciler start)))"
    by (simp add: sample_defs run_simps handleReadyPhase_def cleanupAllowed_def CleanupPolicyNever_def
        deleteSourceSnapshot_def deleteSourceVM_def)
  have "ev_get_migration ?e = Inr ?m" "\<not> md_deleting (mg_meta ?m)" by (simp_all add: sample_defs)
  with vm_deletions_are_licensed [OF this(1) e] e show ?thesis by simp
qed

text \<open>
  Which snapshots a migration deletes: only the one recorded in its status, only if the user did
  not supply it, only if the cleanup policy is not Never, and only once the migration is Ready or
  being deleted.
\<close>

lemma snapshot_deletions_are_licensed:
  assumes "ev_get_migration env = Inr m"
    and "EvSnapshotDelete vmid snap ok \<in> set (new_events s (fst (Reconcile env r s)))"
  shows "snap = mt_SnapshotID (mg_status m) \<and> snap \<noteq> '''' \<and> src_SnapshotRef (mg_source m) = None \<and> cleanupAllowed m \<and>
    (mg_phase m = PhaseReady \<or> md_deleting (mg_meta m))"
  using legal_new_event [OF assms] by auto

text \<open>
  C27. Deletion cannot get stuck on cleanup: whatever fails while a migration under deletion is cleaned
  up, the last thing the reconcile does is the write that removes its finalizer, and it returns an
  error exactly when that write fails.
\<close>

theorem deletion_always_releases:
  assumes "ev_get_migration env = Inr m" "md_deleting (mg_meta m)"
  shows "\<exists>m' evs. log (fst (Reconcile env r s)) = log s @ evs @ [EvWrite (UpdateMigration m') (ev_write_err env (UpdateMigration m') = None)] \<and>
    mg_meta m' = remove_finalizer migration_finalizer (mg_meta m) \<and>
    ret_err (snd (Reconcile env r s)) = ev_write_err env (UpdateMigration m')"
proof -
  obtain s4 m3 where st: "extends (legal env r m) s s4" "mg_spec m3 = mg_spec m" "mg_meta m3 = mg_meta m"
    "handleDeletion env r m s =
       (case do_write env (UpdateMigration (m3\<lparr>mg_meta := remove_finalizer migration_finalizer (mg_meta m)\<rparr>)) s4 of
          (s5, Some e) \<Rightarrow> (s5, fail_with e) | (s5, None) \<Rightarrow> (s5, done_result))"
    by (rule handleDeletion_steps [OF assms(2)])
  then obtain evs where "log s4 = log s @ evs" by (auto simp: extends_def)
  then show ?thesis
    using assms st(4)
    by (auto simp: Reconcile_def do_write_def emit_def fail_with_def done_result_def split: option.splits)
qed

definition sample_deleted :: migration where
  "sample_deleted = (sample_mig PhaseExporting)\<lparr>mg_meta := sample_meta\<lparr>md_deleting := True\<rparr>\<rparr>"

theorem deletion_always_releases_witness:
  "\<exists>m'. EvWrite (UpdateMigration m') True \<in> set (log (fst (Reconcile (sample_env sample_deleted) sample_reconciler start))) \<and>
     \<not> HasFinalizer (mg_meta m') migration_finalizer"
proof -
  have "ev_get_migration (sample_env sample_deleted) = Inr sample_deleted" "md_deleting (mg_meta sample_deleted)"
    by (simp_all add: sample_env_def sample_deleted_def)
  moreover have "ev_write_err (sample_env sample_deleted) w = None" for w by (simp add: sample_env_def)
  ultimately show ?thesis
    using deletion_always_releases [of "sample_env sample_deleted" sample_deleted sample_reconciler start] by fastforce
qed

end
