(* ===== verification/MigrationFlow.thy ===== *)
theory MigrationFlow
  imports MigrationProps
begin

text \<open>
  How data travels through a migration: from the spec to the requests the providers see, from one
  phase's status to the next, and where the code does not do what it documents.
\<close>

section \<open>Requests\<close>

text \<open>The backend sets the storage package offers to a provider, each with the guard that goes with it.\<close>

definition export_guards :: "(string list \<times> (string \<Rightarrow> go_error option)) set" where
  "export_guards = {(PVCOnlyExportBackends, EnsurePVCBackend), (PVCAndS3ExportBackends, EnsurePVCOrS3Backend),
     (PVCS3AndNFSExportBackends, EnsurePVCS3OrNFSBackend), (S3AndNFSExportBackends, EnsureS3OrNFSBackend)}"

definition import_guards :: "(string list \<times> (string \<Rightarrow> go_error option)) set" where
  "import_guards = {(PVCOnlyImportBackends, EnsurePVCBackend), (PVCAndS3ImportBackends, EnsurePVCOrS3Backend),
     (PVCS3AndNFSImportBackends, EnsurePVCS3OrNFSBackend), (S3AndNFSImportBackends, EnsureS3OrNFSBackend)}"

interpretation pvc_only_import: honest_backends PVCOnlyImportBackends EnsurePVCBackend
  by unfold_locales (auto simp: honest_defs)

interpretation pvc_s3_import: honest_backends PVCAndS3ImportBackends EnsurePVCOrS3Backend
  by unfold_locales (auto simp: honest_defs)

lemmas guard_accepts = pvc_only.advertised_accepted pvc_s3.advertised_accepted
  pvc_s3_nfs_export.advertised_accepted s3_nfs_export.advertised_accepted pvc_only_import.advertised_accepted
  pvc_s3_import.advertised_accepted pvc_s3_nfs_import.advertised_accepted s3_nfs_import.advertised_accepted

lemma export_guard_accepts: "(adv, g) \<in> export_guards \<Longrightarrow> b \<in> set adv \<Longrightarrow> b \<noteq> '''' \<Longrightarrow> g b = None"
  by (auto simp: export_guards_def guard_accepts)

lemma import_guard_accepts: "(adv, g) \<in> import_guards \<Longrightarrow> b \<in> set adv \<Longrightarrow> b \<noteq> '''' \<Longrightarrow> g b = None"
  by (auto simp: import_guards_def guard_accepts)

lemma containsString_iff [simp]: "containsString xs x \<longleftrightarrow> x \<in> set xs"
  by (auto simp: containsString_def list_ex_iff)

text \<open>What it means that the storage gate lets a migration pass.\<close>

lemma gate_passed:
  "gateMigrationStorageBackend m src tgt = None \<longleftrightarrow>
     migrationBackendType m \<in> {BackendPVC, BackendS3, BackendNFS} \<and>
     migrationBackendType m \<in> set (reportedExportBackends src) \<and> migrationBackendType m \<in> set (reportedImportBackends tgt) \<and>
     (migrationBackendType m = BackendNFS \<or> migrationTransferMode m = TransferModeAuto \<or>
      migrationTransferMode m \<noteq> TransferModeDirect \<and>
      migrationTransferMode m \<in> set (reportedTransferModes src) \<and> migrationTransferMode m \<in> set (reportedTransferModes tgt))"
  by (auto simp: gateMigrationStorageBackend_def Let_def backend_names)

text \<open>
  C29. What the gate accepts the providers accept: if the storage gate lets a migration pass, each
  provider advertises one of the backend sets of the storage package and the source advertises relay
  mode only, then the guard that goes with the advertised set accepts the backend named in the export
  and in the import request, and off NFS the transfer mode in them passes \<open>EnsureRelayMode\<close>; it is never
  \<open>auto\<close>.
\<close>

theorem gate_agrees_with_providers:
  assumes "gateMigrationStorageBackend m src tgt = None"
    and "(reportedExportBackends src, g) \<in> export_guards" "(reportedImportBackends tgt, h) \<in> import_guards"
    and "reportedTransferModes src = RelayOnlyTransferModes"
  shows "g (er_BackendType (export_request m vm url opts creds)) = None \<and>
    h (ir_BackendType (import_request m url' fmt opts' creds')) = None \<and>
    er_TransferMode (export_request m vm url opts creds) \<noteq> TransferModeAuto \<and>
    (migrationBackendType m \<noteq> BackendNFS \<longrightarrow>
       EnsureRelayMode (er_TransferMode (export_request m vm url opts creds)) = None \<and>
       EnsureRelayMode (ir_TransferMode (import_request m url' fmt opts' creds')) = None)"
proof -
  have b: "migrationBackendType m \<noteq> ''''" and e: "migrationBackendType m \<in> set (reportedExportBackends src)"
    and i: "migrationBackendType m \<in> set (reportedImportBackends tgt)"
    using assms(1) by (auto simp: gate_passed backend_names)
  have "migrationBackendType m \<noteq> BackendNFS \<longrightarrow> resolveTransferMode m = TransferModeRelay"
    using assms(1,4) by (auto simp: gate_passed resolveTransferMode_def RelayOnlyTransferModes_def Let_def)
  moreover have "resolveTransferMode m \<noteq> TransferModeAuto"
    by (simp add: resolveTransferMode_def Let_def backend_names)
  ultimately show ?thesis
    using export_guard_accepts [OF assms(2) e b] import_guard_accepts [OF assms(3) i b]
    by (simp add: export_request_def import_request_def EnsureRelayMode_def)
qed

theorem gate_agrees_with_providers_witness:
  "EnsurePVCBackend (er_BackendType (export_request (sample_mig PhaseExporting) sample_vm ''u'' '''' Map.empty)) = None \<and>
   EnsureRelayMode (er_TransferMode (export_request (sample_mig PhaseExporting) sample_vm ''u'' '''' Map.empty)) = None"
proof -
  have "gateMigrationStorageBackend (sample_mig PhaseExporting) sample_provider sample_provider = None"
    by (simp add: sample_defs validate_simps)
  moreover have "(reportedExportBackends sample_provider, EnsurePVCBackend) \<in> export_guards"
    "(reportedImportBackends sample_provider, EnsurePVCBackend) \<in> import_guards"
    "reportedTransferModes sample_provider = RelayOnlyTransferModes"
    by (simp_all add: sample_provider_def reportedExportBackends_def reportedImportBackends_def reportedTransferModes_def
        export_guards_def import_guards_def)
  moreover have "migrationBackendType (sample_mig PhaseExporting) \<noteq> BackendNFS"
    by (simp add: sample_mig_def sample_spec_def migrationBackendType_def backend_names)
  ultimately show ?thesis
    using gate_agrees_with_providers [of "sample_mig PhaseExporting" sample_provider sample_provider EnsurePVCBackend
        EnsurePVCBackend sample_vm "''u''" "''''" Map.empty "''u''" "''''" "''''" Map.empty] by blast
qed


text \<open>
  The s3 configuration survives the trip to the provider: if the controller encodes the storage
  options of a validated s3 migration and loads its credentials, the provider that decodes them gets a
  configuration with exactly the bucket, endpoint, region and addressing style of the spec and the two
  keys of the Secret, both present. The hypotheses are that the JSON decoder inverts the encoder and
  that an encoded object is not the empty string.
\<close>

lemma s3_config_roundtrip:
  assumes "migrationBackendType m = BackendS3" "validateStorageConfig env r (mg_storage m) = None"
    and "storageOptionsJSON env m = Inr js" "loadS3Credentials env m = Inr creds"
    and "\<And>o1 j. ev_enc env o1 = Inr j \<Longrightarrow> dec j = Inr o1 \<and> j \<noteq> ''''"
  shows "\<exists>st s3 data. mg_storage m = Some st \<and> st_S3 st = Some s3 \<and>
    ev_get_secret env (mg_ns m, or_name (sg_CredentialsSecretRef s3)) = Inr data \<and>
    map_get data CredKeyAccessKeyID \<noteq> '''' \<and> map_get data CredKeySecretAccessKey \<noteq> '''' \<and>
    S3StorageConfigFromRequest dec js creds =
      Inr \<lparr>sc_Type = BackendS3, sc_PVCName = '''', sc_PVCNamespace = '''', sc_MountPath = '''',
        sc_S3 = Some \<lparr>s3_Endpoint = sg_Endpoint s3, s3_Region = sg_Region s3, s3_Bucket = sg_Bucket s3,
          s3_UsePathStyle = sg_UsePathStyle s3, s3_AccessKeyID = map_get data CredKeyAccessKeyID,
          s3_SecretAccessKey = map_get data CredKeySecretAccessKey, s3_SessionToken = map_get data CredKeySessionToken\<rparr>\<rparr>"
proof -
  obtain st where st: "mg_storage m = Some st" "st_Type st = BackendS3"
    using assms(1) by (auto simp: migrationBackendType_def backend_names split: option.splits if_splits)
  obtain s3 where s3: "st_S3 st = Some s3" "sg_Bucket s3 \<noteq> ''''"
    using assms(2) st by (auto simp: validateStorageConfig_def backend_names split: option.splits if_splits)
  obtain o1 where "ev_enc env o1 = Inr js" "o1 = zero_options\<lparr>so_Backend := BackendS3, so_Bucket := sg_Bucket s3,
      so_Endpoint := sg_Endpoint s3, so_Region := sg_Region s3, so_Prefix := sg_Prefix s3, so_UsePathStyle := sg_UsePathStyle s3\<rparr>"
    using assms(1,3) st s3 by (auto simp: storageOptionsJSON_def MarshalStorageOptions_def split: sum.splits)
  with assms(5) s3 have p: "ParseStorageOptions dec js = Inr o1" "so_Bucket o1 \<noteq> ''''" "so_Bucket o1 = sg_Bucket s3"
      "so_Endpoint o1 = sg_Endpoint s3" "so_Region o1 = sg_Region s3" "so_UsePathStyle o1 = sg_UsePathStyle s3"
    by (auto simp: ParseStorageOptions_def)
  obtain data where d: "ev_get_secret env (mg_ns m, or_name (sg_CredentialsSecretRef s3)) = Inr data"
      "map_get data CredKeyAccessKeyID \<noteq> ''''" "map_get data CredKeySecretAccessKey \<noteq> ''''"
      "map_get creds CredKeyAccessKeyID = map_get data CredKeyAccessKeyID"
      "map_get creds CredKeySecretAccessKey = map_get data CredKeySecretAccessKey"
      "map_get creds CredKeySessionToken = map_get data CredKeySessionToken"
    using assms(1,4) st s3
    by (fastforce simp: loadS3Credentials_def Let_def map_get_def CredKeyAccessKeyID_def CredKeySecretAccessKey_def
        CredKeySessionToken_def split: sum.splits option.splits if_splits)
  show ?thesis
    using st s3(1) d p by (simp add: S3StorageConfigFromRequest_def Let_def)
qed

lemma sample_s3_host: "ValidateHost (sample_net\<lparr>lookup_ip := (\<lambda>_. Inr [[10, 0, 0, 9]])\<rparr>) defaultStorageHostPolicy ''h'' = None"
proof -
  have "[10, 0, 0, 9] \<noteq> (replicate 16 0 :: ip)" by (auto dest: arg_cong [where f = length])
  then show ?thesis
    by (simp add: ValidateHost_def host_name_of_def split_host_port_def last_colon_def resolveHost_def trim_set_def
        sample_net_def trim_space_graphic graphic_def Let_def defaultStorageHostPolicy_def ip_class to4_def)
qed

section \<open>Staged files\<close>

text \<open>Kubernetes object names: non-empty labels of letters, digits and hyphens, separated by dots.\<close>

definition dns_chars :: string where
  "dns_chars = ''abcdefghijklmnopqrstuvwxyz0123456789-''"

definition dns_name :: "string \<Rightarrow> bool" where
  "dns_name s \<longleftrightarrow> (\<forall>l \<in> set (split_on CHR ''.'' s). l \<noteq> [] \<and> set l \<subseteq> set dns_chars)"

lemma dotdot_slash: "contains_sub ''..'' (a @ CHR ''/'' # b) \<longleftrightarrow> contains_sub ''..'' a \<or> contains_sub ''..'' b"
  by (induction a rule: induct_list012) (auto simp: starts_with_def)

lemma contains_sep: "contains_sub ''..'' s \<Longrightarrow> [] \<in> set (split_on CHR ''.'' s)"
  by (auto simp: contains_sub_iff split_on_sep)

lemma slash_not_dns: "CHR ''/'' \<in> set l \<Longrightarrow> set l \<subseteq> set dns_chars \<Longrightarrow> False"
proof -
  have "CHR ''/'' \<notin> set dns_chars" by (simp add: dns_chars_def)
  then show "CHR ''/'' \<in> set l \<Longrightarrow> set l \<subseteq> set dns_chars \<Longrightarrow> False" by blast
qed

lemma dns_name_facts:
  assumes "dns_name s"
  shows "\<not> contains_sub ''..'' s" "CHR ''/'' \<notin> set s" "s \<noteq> ''''" "s \<noteq> ''.''" "s \<noteq> ''..''"
proof -
  have "set s \<subseteq> insert CHR ''.'' (\<Union> (set ` set (split_on CHR ''.'' s)))"
    using set_join_with [of "CHR ''.''" "split_on CHR ''.'' s"] by (simp add: join_split_on)
  moreover have "\<forall>l \<in> set (split_on CHR ''.'' s). CHR ''/'' \<notin> set l" 
    using assms by (auto simp: dns_name_def dest: slash_not_dns)
  ultimately show "CHR ''/'' \<notin> set s" by auto
  show "\<not> contains_sub ''..'' s" using contains_sep assms by (auto simp: dns_name_def)
  show "s \<noteq> ''''" "s \<noteq> ''.''" "s \<noteq> ''..''" using assms by (auto simp: dns_name_def)
qed

text \<open>
  Where a pvc migration is staged: for object names as Kubernetes allows them, the URL the
  controller generates is accepted by a store opened on an absolute mount path and denotes the file
  \<open>vmmigrations/<namespace>/<name>/export.qcow2\<close> below the mount. Two migrations therefore share a
  staged file on one claim only if they have the same namespace and name.
\<close>

lemma pvc_url_denotes_own_file:
  assumes "NewPVCStorage ev fs config = Inr p" "starts_with ''/'' (sc_MountPath config)"
    and "mg_storage m = Some st" "st_Type st \<in> {'''', ''pvc''}" "dns_name (mt_StoragePVCName (mg_status m))"
    and "dns_name (mg_ns m)" "dns_name (mg_name m)"
  shows "\<exists>u ms. generateStorageURL m ''export'' = Inr u \<and> ps_mountPath p = CHR ''/'' # join_with CHR ''/'' ms \<and>
    parsePath p u = Inr (CHR ''/'' # join_with CHR ''/'' (ms @ [''vmmigrations'', mg_ns m, mg_name m, ''export.qcow2'']))"
proof -
  let ?pvc = "mt_StoragePVCName (mg_status m)"
  let ?f = "''vmmigrations/'' @ mg_ns m @ ''/'' @ mg_name m @ ''/'' @ ''export.qcow2''"
  let ?u = "''pvc://'' @ ?pvc @ ''/'' @ ?f"
  obtain ms where mount: "ps_mountPath p = CHR ''/'' # join_with CHR ''/'' ms" "''..'' \<notin> set ms"
      "\<And>w. w \<in> set ms \<Longrightarrow> w \<noteq> [] \<and> w \<noteq> ''.'' \<and> CHR ''/'' \<notin> set w"
    using NewPVCStorage_mount [OF assms(1,2)] by metis
  note n = dns_name_facts [OF assms(5)] dns_name_facts [OF assms(6)] dns_name_facts [OF assms(7)]
  have u: "generateStorageURL m ''export'' = Inr ?u" using assms(3,4) n by (auto simp: generateStorageURL_def Let_def)
  have fs: "?f = ''vmmigrations'' @ CHR ''/'' # (mg_ns m @ CHR ''/'' # (mg_name m @ CHR ''/'' # ''export.qcow2''))" by simp
  have t: "trim_prefix ''pvc://'' (trim_space ?u) = ?pvc @ CHR ''/'' # ?f"
    by (simp add: trim_space_graphic graphic_def trim_prefix_def starts_with_def)
  have dd: "\<not> contains_sub ''..'' (?pvc @ CHR ''/'' # ?f)"
    unfolding fs dotdot_slash using n by (simp add: starts_with_def)
  have segs: "segs_of ?f = [''vmmigrations'', mg_ns m, mg_name m, ''export.qcow2'']"
    unfolding fs segs_of_slash using n by (simp add: segs_of_word)
  have "''..'' \<notin> set (ms @ segs_of ?f)"
    unfolding segs using mount(2) n(5,10,15) by auto
  then have pc: "path_clean (CHR ''/'' # (join_with CHR ''/'' ms @ CHR ''/'' # ?f)) = CHR ''/'' # join_with CHR ''/'' (ms @ segs_of ?f)"
    using path_clean_rooted [of "join_with CHR ''/'' ms @ CHR ''/'' # ?f"] mount(3) by (simp add: segs_of_join)
  have "split2 CHR ''/'' (?pvc @ CHR ''/'' # ?f) = Some (?pvc, ?f)" using n(2) by (rule split2_first)
  then have "parsePath p ?u = Inr (CHR ''/'' # join_with CHR ''/'' (ms @ segs_of ?f))"
    unfolding parsePath_def Let_def t using dd pc mount(1) by (simp add: filepath_join_def)
  with u mount(1) segs show ?thesis by auto
qed

end
