(* ===== verification/MigrationFindings.thy ===== *)
theory MigrationFindings
  imports MigrationFlow
begin

text \<open>
  Behaviours of the migration controller that contradict what its comments promise, each as a theorem
  about the modelled code with a concrete instance.
\<close>

text \<open>
  A claim the user brought along is deleted with the migration: if the spec names an existing
  claim, validation uses that claim and records its name, and the deletion of a migration with that name
  recorded deletes the claim, whoever created it.
\<close>

lemma user_claim_is_deleted:
  assumes "mg_storage m = Some st" "st_PVC st = Some cfg" "pg_Name cfg \<noteq> ''''"
    and "ev_get_pvc env (mg_ns m, pg_Name cfg) = Inr p"
  shows "ensureMigrationPVC env m s = (s, Inr (pg_Name cfg)) \<and>
    (ev_get_migration env = Inr m \<and> md_deleting (mg_meta m) \<and> mt_StoragePVCName (mg_status m) = pg_Name cfg \<longrightarrow>
      EvWrite (DeletePVC p) (ev_write_err env (DeletePVC p) = None) \<in> set (new_events s (fst (Reconcile env r s))))"
proof -
  have "EvWrite (DeletePVC p) (ev_write_err env (DeletePVC p) = None) \<in> set (new_events s (fst (Reconcile env r s)))"
    if a: "ev_get_migration env = Inr m" "md_deleting (mg_meta m)" "mt_StoragePVCName (mg_status m) = pg_Name cfg"
  proof -
    let ?e = "EvWrite (DeletePVC p) (ev_write_err env (DeletePVC p) = None)"
    define s1 where "s1 = delete_staged_storage env m s"
    define s2 where "s2 = delete_migration_pvc env m s1"
    obtain s3 m3 where d: "delete_migration_snapshot env r m s2 = (s3, m3)" by (metis surj_pair)
    have s1: "log s1 = log s" by (simp add: s1_def delete_staged_storage_def)
    have s2: "log s2 = log s @ [?e]"
      using assms(3,4) a(3) s1 by (simp add: s2_def delete_migration_pvc_def do_write_def emit_def)
    from outcome_satD [OF delete_migration_snapshot_effects [OF a(2)] d]
    have c: "extends (legal env r m) s2 s3" and m3: "mg_spec m3 = mg_spec m" "mg_meta m3 = mg_meta m" "mg_phase m3 = mg_phase m"
      by auto
    have "extends (legal env r m) s3 (delete_partial_target env m3 s3)"
      using delete_partial_target_legal [OF a(2) m3] by simp
    with c s2 obtain evs where evs: "log (delete_partial_target env m3 s3) = log s @ ?e # evs"
      by (auto simp: extends_def)
    have "Reconcile env r s = handleDeletion env r m s" using a by (simp add: Reconcile_def)
    with evs show ?thesis
      by (auto simp: handleDeletion_def Let_def s1_def [symmetric] s2_def [symmetric] d do_write_def emit_def new_events_def
          split: option.splits)
  qed
  then show ?thesis using assms by (auto simp: ensureMigrationPVC_def)
qed


definition sample_exporting :: "string \<Rightarrow> migration" where
  "sample_exporting task = (sample_mig PhaseExporting)
     \<lparr>mg_status := (sample_status PhaseExporting)\<lparr>mt_ExportID := ''e1'', mt_TaskRef := task\<rparr>\<rparr>"


lemma NewPVCStorage_needs_dir:
  assumes "sc_MountPath config \<noteq> ''''" "\<not> os_is_dir ev (path_clean (sc_MountPath config))"
  shows "isl (NewPVCStorage ev fs config)"
  using assms by (auto simp: NewPVCStorage_def verifyMount_def Let_def split: option.splits)

text \<open>
  Cleanup that can never succeed: the Ready handler always opens a pvc store on the manager, also
  for an s3 or nfs migration. Where the manager has no such mount, every reconcile of a completed
  migration with storage ends at once with a requeue after five minutes and no effect: the snapshot and
  the source VM the user asked to delete stay.
\<close>

lemma ready_cleanup_never_ends:
  assumes "ev_get_migration env = Inr m" "\<not> md_deleting (mg_meta m)" "HasFinalizer (mg_meta m) migration_finalizer"
    and "mg_phase m = PhaseReady" "mt_CleanedUp (mg_status m) \<noteq> Some True" "mg_storage m \<noteq> None" "cleanupAllowed m"
    and "\<not> os_is_dir (ev_os env) (path_clean (cleanup_mount_path m))"
  shows "Reconcile env r s = (s, requeue_in (5 * minute))"
proof -
  have "cleanup_mount_path m \<noteq> ''''" by (simp add: cleanup_mount_path_def Let_def)
  obtain st where st: "mg_storage m = Some st" using assms(6) by blast
  let ?n = "if mt_StoragePVCName (mg_status m) = '''' then (case st_PVC st of Some c \<Rightarrow> pg_Name c | None \<Rightarrow> '''')
            else mt_StoragePVCName (mg_status m)"
  let ?cfg = "\<lparr>sc_Type = ''pvc'', sc_PVCName = ?n, sc_PVCNamespace = mg_ns m, sc_MountPath = cleanup_mount_path m, sc_S3 = None\<rparr>"
  have "isl (NewPVCStorage (ev_os env) (mgr_files s) ?cfg)"
    using assms(8) \<open>cleanup_mount_path m \<noteq> ''''\<close> by (intro NewPVCStorage_needs_dir) simp_all
  then obtain e where "NewPVCStorage (ev_os env) (mgr_files s) ?cfg = Inl e" by (auto simp: isl_def)
  then have "cleanupIntermediateStorage env m s = (s, Some (WrapError ''failed to create storage client: '' e))"
    by (simp add: cleanupIntermediateStorage_def NewStorage_def st)
  then show ?thesis
    using assms(1-7) by (simp add: Reconcile_def dispatch_def handleReadyPhase_def Let_def)
qed

text \<open>
  Any ready VM with the target's name counts as the migrated one: the Creating handler adopts it
  without looking at its annotations, also when it is the source VM itself, and moves on; a migration
  that asked for it then deletes the source VM once Ready.
\<close>

lemma foreign_target_is_adopted:
  assumes "ev_get_migration env = Inr m" "\<not> md_deleting (mg_meta m)" "HasFinalizer (mg_meta m) migration_finalizer"
    and "mg_phase m = PhaseCreating" "ev_get_vm env (targetNamespace m, targetVMName m) = Inr vm"
    and "vt_ID (vm_status vm) \<noteq> ''''" "vm_ready vm"
  shows "\<exists>f. Reconcile env r s = finish env f requeue_now s \<and> mg_phase f = PhaseValidatingTarget \<and>
    mt_TargetVMID (mg_status f) = vt_ID (vm_status vm)"
  using assms by (auto simp: Reconcile_def dispatch_def handleCreatingPhase_def)

lemma backoff_mul_numeral: "backoff_mul (numeral k) mult d = backoff_mul (pred_numeral k) mult (wrap64 (d * mult))"
  by (subst numeral_eq_Suc) (rule backoff_mul.simps)

lemma wrap64_numeral: "wrap64 x = (x + 9223372036854775808) mod 18446744073709551616 - 9223372036854775808"
  by (simp add: wrap64_def)

text \<open>
  The retry delay overflows within the limits of the API: with the default delay of five minutes, a
  multiplier of ten and eight retries done, the product wraps around in 64 bits to a negative delay, so
  the ninth retry waits for nothing; the cap of thirty minutes does not catch it. One retry earlier the
  delay is the cap.
\<close>

lemma retry_delay_overflows:
  "retry_delay \<lparr>ry_MaxRetries = Some 10, ry_RetryDelay = None, ry_BackoffMultiplier = Some 10\<rparr> 8 < 0 \<and>
   retry_delay \<lparr>ry_MaxRetries = Some 10, ry_RetryDelay = None, ry_BackoffMultiplier = Some 10\<rparr> 7 = 30 * minute"
  unfolding retry_delay_def Let_def by (simp add: wrap64_numeral backoff_mul_numeral)

text \<open>
  The nfs staging key does not keep migrations apart: namespace, name and stage are joined with
  hyphens, which both may contain, so two different migrations can be staged under one URL.
\<close>

lemma nfs_keys_collide:
  assumes "mg_storage m = Some st" "mg_storage m' = Some st" "st_Type st = BackendNFS"
    and "mg_ns m = a" "mg_name m = b @ ''-'' @ c" "mg_ns m' = a @ ''-'' @ b" "mg_name m' = c"
  shows "generateStorageURL m stage = generateStorageURL m' stage"
  using assms by (auto simp: generateStorageURL_def backend_names split: option.split)

text \<open>
  A status write that meets a conflict is repeated over the newer object: the second attempt writes
  the spec and metadata just read and the whole status in hand, so whatever the other writer had put
  into the status is lost.
\<close>

lemma status_conflict_overwrites:
  assumes "ev_status_err env (status_writes s) = Some e" "api_is_conflict e"
    and "ev_fresh env (status_writes s) = Inr f" "ev_status_err env (Suc (status_writes s)) = None"
  shows "updateStatus env m s =
    (s\<lparr>log := log s @ [EvStatus m False, EvStatus (f\<lparr>mg_status := mg_status m\<rparr>) True], status_writes := Suc (Suc (status_writes s))\<rparr>,
     f\<lparr>mg_status := mg_status m\<rparr>, None)"
  using assms by (simp add: updateStatus_def numeral_3_eq_3 emit_def)

end
