(* ===== verification/CtlModel.thy ===== *)
theory CtlModel
  imports KubeObjects
begin

text \<open>
  What the VirtualMachine, VMSnapshot, VMClone and adoption controllers share: the API objects they
  read (\<^verbatim>\<open>VMClass\<close>, \<^verbatim>\<open>VMImage\<close>, \<^verbatim>\<open>VMNetworkAttachment\<close>, \<^verbatim>\<open>VMSnapshot\<close>, \<^verbatim>\<open>VMClone\<close>, as far as the
  controllers read them), the environment that answers every read, write and RPC, and the log of
  effects. \<open>ops\<close> numbers the writes and the reads of a call: the same read or write may answer
  differently when it is made again, as it does in a conflict-retry loop. Quantities are their
  \<^verbatim>\<open>Value()\<close>; string-valued enumerations are strings; a text quoted with \<^verbatim>\<open>%q\<close> is shown without the quotes.
\<close>

section \<open>API objects\<close>

record api_limits =
  al_CPULimit :: "int option"
  al_CPUReservation :: "int option"
  al_MemoryLimit :: "int option"
  al_MemoryReservation :: "int option"
  al_CPUShares :: "int option"

record encryption_policy =
  ec_Enabled :: bool
  ec_KeyProvider :: string
  ec_RequireEncryption :: bool

record api_security =
  as_SecureBoot :: bool
  as_TPMEnabled :: bool
  as_TPMVersion :: string
  as_VTDEnabled :: bool
  as_EncryptionPolicy :: "encryption_policy option"

record api_disk_defaults =
  ad_Type :: string
  ad_Size :: int

record vm_class =
  vc_meta :: object_meta
  vc_CPU :: int
  vc_Memory :: int
  vc_Firmware :: string
  vc_DiskDefaults :: "api_disk_defaults option"
  vc_GuestToolsPolicy :: string
  vc_ExtraConfig :: "string \<rightharpoonup> string"
  vc_ResourceLimits :: "api_limits option"
  vc_PerformanceProfile :: "performance_profile option"
  vc_SecurityProfile :: "api_security option"

record vsphere_source =
  vv_TemplateName :: string
  vv_ContentLibrary :: bool
  vv_OVAURL :: string
  vv_Checksum :: string
  vv_ChecksumType :: string

record libvirt_source =
  vl_Path :: string
  vl_URL :: string
  vl_Format :: string
  vl_Checksum :: string
  vl_ChecksumType :: string

record proxmox_source =
  vp_TemplateID :: "int option"
  vp_TemplateName :: string

text \<open>The spec is kept with its JSON rendering, which the provider is sent.\<close>

record image_spec =
  is_VSphere :: "vsphere_source option"
  is_Libvirt :: "libvirt_source option"
  is_Proxmox :: "proxmox_source option"
  is_OnMissing :: "string option"
  is_JSON :: "string result"

record provider_image =
  pm_Available :: bool
  pm_ID :: string
  pm_Path :: string
  pm_LastUpdated :: "int option"
  pm_Message :: string

record image_status =
  im_Ready :: bool
  im_Phase :: string
  im_Message :: string
  im_AvailableOn :: "string list"
  im_Conditions :: "condition list"
  im_LastPrepareTime :: "int option"
  im_PrepareTaskRef :: string
  im_ProviderStatus :: "string \<rightharpoonup> provider_image"

record vm_image =
  vg_meta :: object_meta
  vg_spec :: image_spec
  vg_status :: image_status

record vsphere_net =
  xv_Portgroup :: string
  xv_VlanID :: "int option"
  xv_PCISlotNumber :: "int option"

record libvirt_net =
  xl_NetworkName :: string
  xl_BridgeName :: "string option"
  xl_Model :: string

record proxmox_net =
  xp_Bridge :: string
  xp_Model :: string
  xp_VLANTag :: "int option"

record vm_network =
  vw_VSphere :: "vsphere_net option"
  vw_Libvirt :: "libvirt_net option"
  vw_Proxmox :: "proxmox_net option"

record snapshot_config =
  sf_Name :: string
  sf_Description :: string
  sf_IncludeMemory :: bool
  sf_Quiesce :: bool

record retention_policy =
  rt_MaxAge :: "int option"
  rt_DeleteOnVMDelete :: bool

record snapshot_status =
  sn_SnapshotID :: string
  sn_Phase :: string
  sn_Message :: string
  sn_CreationTime :: "int option"
  sn_TaskRef :: string
  sn_Conditions :: "condition list"

record vm_snapshot =
  vz_meta :: object_meta
  vz_VMRef :: string
  vz_SnapshotConfig :: "snapshot_config option"
  vz_RetentionPolicy :: "retention_policy option"
  vz_status :: snapshot_status

text \<open>\<open>cn_CustomizationJSON\<close> is what marshalling \<^verbatim>\<open>spec.customization\<close> gives, \<open>None\<close> when it is nil.\<close>

record clone_target =
  cg_Name :: string
  cg_Namespace :: string
  cg_ClassRef :: "string option"
  cg_PlacementRef :: "string option"
  cg_Networks :: "vm_network_ref list"
  cg_Labels :: "string \<rightharpoonup> string"
  cg_Annotations :: "string \<rightharpoonup> string"

record clone_status =
  cs_TargetRef :: "string option"
  cs_TargetVMID :: string
  cs_Phase :: string
  cs_Message :: string
  cs_TaskRef :: string
  cs_StartTime :: "int option"
  cs_CompletionTime :: "int option"
  cs_ActualCloneType :: string
  cs_Conditions :: "condition list"
  cs_ObservedGeneration :: int

record vm_clone =
  cn_meta :: object_meta
  cn_SourceVMRef :: "string option"
  cn_Target :: clone_target
  cn_Type :: "string option"
  cn_CustomizationJSON :: "string result option"
  cn_status :: clone_status

text \<open>\<^verbatim>\<open>ProviderAdoptionStatus\<close>.\<close>

record adoption_status =
  ao_DiscoveredVMs :: int
  ao_AdoptedVMs :: int
  ao_FailedAdoptions :: int
  ao_LastDiscoveryTime :: "int option"
  ao_Message :: string

record adoption_filter =
  af_NamePattern :: string
  af_PowerState :: string
  af_MinCPU :: int
  af_MaxCPU :: int
  af_MinMemoryMiB :: int
  af_MaxMemoryMiB :: int

section \<open>Environment, state, effects\<close>

text \<open>
  \<open>ce_parse_filter\<close> is the JSON decoding of a filter, \<open>ce_regexp\<close> compiles a pattern to its matcher; the
  decoders and encoders are library code.
\<close>

datatype ctl_write =
    WVMMeta virtual_machine | WVMStatus virtual_machine | WVMCreate virtual_machine
  | WImageStatus vm_image | WClassCreate vm_class
  | WSnapMeta vm_snapshot | WSnapStatus vm_snapshot | WSnapDelete vm_snapshot
  | WCloneMeta vm_clone | WCloneStatus vm_clone
  | WAdoptionStatus provider "adoption_status option"

datatype ctl_event =
    CtlWrite ctl_write bool
  | CtlCreate create_request bool
  | CtlPower string power_op bool
  | CtlReconfigure string create_request bool
  | CtlDelete string bool
  | CtlPrepare image_prepare_request bool
  | CtlSnapCreate snapshot_create_request bool
  | CtlSnapDelete string string bool
  | CtlClone clone_request bool

record ctl_env =
  ce_now :: int
  ce_get_vm :: "nat \<Rightarrow> nn \<Rightarrow> virtual_machine result"
  ce_get_image :: "nat \<Rightarrow> nn \<Rightarrow> vm_image result"
  ce_get_class :: "nat \<Rightarrow> nn \<Rightarrow> vm_class result"
  ce_get_network :: "nn \<Rightarrow> vm_network result"
  ce_get_provider :: "nn \<Rightarrow> provider result"
  ce_get_secret :: "nn \<Rightarrow> (string \<rightharpoonup> string) result"
  ce_get_snapshot :: "vm_snapshot result"
  ce_get_clone :: "vm_clone result"
  ce_list_vms :: "virtual_machine list result"
  ce_get_adoption :: "(provider \<times> adoption_status option) result"
  ce_parse_filter :: "string \<Rightarrow> adoption_filter result"
  ce_regexp :: "string \<Rightarrow> (string \<Rightarrow> bool) result"
  ce_write_err :: "nat \<Rightarrow> ctl_write \<Rightarrow> go_error option"
  ce_resolver :: "(provider \<Rightarrow> provider_instance result) option"
  ce_SetStatusCondition :: "condition \<Rightarrow> condition list \<Rightarrow> condition list"
  ce_retry_steps :: nat
  ce_json_class :: "vm_class \<Rightarrow> string result"
  ce_json_ref :: "string \<Rightarrow> string result"

record ctl_state =
  ops :: nat
  evs :: "ctl_event list"

definition ctl_emit :: "ctl_event \<Rightarrow> ctl_state \<Rightarrow> ctl_state" where
  "ctl_emit e s = s\<lparr>evs := evs s @ [e]\<rparr>"

definition ctl_write :: "ctl_env \<Rightarrow> ctl_write \<Rightarrow> ctl_state \<Rightarrow> ctl_state \<times> go_error option" where
  "ctl_write env w s =
     (let err = ce_write_err env (ops s) w
      in (ctl_emit (CtlWrite w (err = None)) (s\<lparr>ops := Suc (ops s)\<rparr>), err))"

definition read_vm :: "ctl_env \<Rightarrow> nn \<Rightarrow> ctl_state \<Rightarrow> ctl_state \<times> virtual_machine result" where
  "read_vm env key s = (s\<lparr>ops := Suc (ops s)\<rparr>, ce_get_vm env (ops s) key)"

definition read_image :: "ctl_env \<Rightarrow> nn \<Rightarrow> ctl_state \<Rightarrow> ctl_state \<times> vm_image result" where
  "read_image env key s = (s\<lparr>ops := Suc (ops s)\<rparr>, ce_get_image env (ops s) key)"

definition read_class :: "ctl_env \<Rightarrow> nn \<Rightarrow> ctl_state \<Rightarrow> ctl_state \<times> vm_class result" where
  "read_class env key s = (s\<lparr>ops := Suc (ops s)\<rparr>, ce_get_class env (ops s) key)"

text \<open>
  \<^verbatim>\<open>retry.RetryOnConflict\<close>: the function is run again while it fails with a conflict and steps are left; the
  last error is returned. The number of steps (\<^verbatim>\<open>retry.DefaultRetry\<close>) and \<^verbatim>\<open>meta.SetStatusCondition\<close> are
  library code and part of the environment.
\<close>

fun retry_on_conflict :: "nat \<Rightarrow> ('s \<Rightarrow> 's \<times> 'a result) \<Rightarrow> 's \<Rightarrow> 's \<times> 'a result" where
  "retry_on_conflict 0 f s = (s, Inl (PlainError ''timed out waiting for the condition''))"
| "retry_on_conflict (Suc n) f s =
     (case f s of
        (s', Inr x) \<Rightarrow> (s', Inr x)
      | (s', Inl e) \<Rightarrow> if api_is_conflict e \<and> 0 < n then retry_on_conflict n f s' else (s', Inl e))"

text \<open>\<^verbatim>\<open>getProviderInstance\<close>, the same three lines in the VirtualMachine, VMSnapshot and VMClone controllers.\<close>

definition ctl_getProviderInstance :: "ctl_env \<Rightarrow> provider \<Rightarrow> provider_instance result" where
  "ctl_getProviderInstance env p =
     (case ce_resolver env of None \<Rightarrow> Inl (PlainError ''no remote resolver available'') | Some f \<Rightarrow> f p)"

text \<open>
  The namespace of a reference: its own, else that of the referring object.
\<close>

definition ref_key :: "object_ref \<Rightarrow> string \<Rightarrow> nn" where
  "ref_key ref ns = ((if or_namespace ref = '''' then ns else or_namespace ref), or_name ref)"

abbreviation vm_name :: "virtual_machine \<Rightarrow> string" where "vm_name vm \<equiv> md_name (vm_meta vm)"
abbreviation vm_ns :: "virtual_machine \<Rightarrow> string" where "vm_ns vm \<equiv> md_namespace (vm_meta vm)"
abbreviation vm_id :: "virtual_machine \<Rightarrow> string" where "vm_id vm \<equiv> vt_ID (vm_status vm)"
abbreviation pv_name :: "provider \<Rightarrow> string" where "pv_name p \<equiv> md_name (pv_meta p)"

definition AdoptedLabel :: string where "AdoptedLabel = ''virtrigaud.io/adopted''"
definition AdoptedLabelValue :: string where "AdoptedLabelValue = ''true''"

text \<open>\<^verbatim>\<open>a / b\<close> on Go integers, truncated towards zero.\<close>

definition go_div :: "int \<Rightarrow> int \<Rightarrow> int" where
  "go_div a b = sgn a * sgn b * (\<bar>a\<bar> div \<bar>b\<bar>)"

section \<open>Effects of a call\<close>

text \<open>
  \<open>log_grows log P s s'\<close>: from \<open>s\<close> to \<open>s'\<close> the log grew by events that satisfy \<open>P\<close>.
\<close>

definition log_grows :: "('s \<Rightarrow> 'e list) \<Rightarrow> ('e \<Rightarrow> bool) \<Rightarrow> 's \<Rightarrow> 's \<Rightarrow> bool" where
  "log_grows log P s s' \<longleftrightarrow> (\<exists>es. log s' = log s @ es \<and> list_all P es)"

lemma log_grows_refl: "log_grows log P s s"
  by (simp add: log_grows_def)

lemma log_grows_same: "log s' = log s \<Longrightarrow> log_grows log P s s'"
  by (simp add: log_grows_def)

lemma log_grows_trans: "log_grows log P s s' \<Longrightarrow> log_grows log P s' s'' \<Longrightarrow> log_grows log P s s''"
  by (auto simp: log_grows_def)

lemma log_grows_mono: "log_grows log P s s' \<Longrightarrow> (\<And>e. P e \<Longrightarrow> Q e) \<Longrightarrow> log_grows log Q s s'"
  by (auto simp: log_grows_def list_all_iff)

lemma log_grows_mem: "log_grows log P s s' \<Longrightarrow> e \<in> set (drop (length (log s)) (log s')) \<Longrightarrow> P e"
  by (auto simp: log_grows_def list_all_iff)

text \<open>A retried step adds only what its attempts add, and a successful one ends with a successful attempt.\<close>

lemma retry_on_conflict_log_grows:
  "(\<And>s s' r. f s = (s', r) \<Longrightarrow> log_grows log P s s') \<Longrightarrow> retry_on_conflict n f s = (s', r) \<Longrightarrow> log_grows log P s s'"
proof (induction n arbitrary: s)
  case (Suc n)
  then show ?case by (auto split: prod.splits sum.splits if_splits) (meson log_grows_trans)+
qed (simp add: log_grows_refl)

lemma retry_on_conflict_ok:
  "retry_on_conflict n f s = (s', Inr x) \<Longrightarrow> \<exists>s0. f s0 = (s', Inr x)"
  by (induction n arbitrary: s) (auto split: prod.splits sum.splits if_splits)

abbreviation grows :: "(ctl_event \<Rightarrow> bool) \<Rightarrow> ctl_state \<Rightarrow> ctl_state \<Rightarrow> bool" where
  "grows \<equiv> log_grows evs"

lemma grows_def: "grows P s s' \<longleftrightarrow> (\<exists>es. evs s' = evs s @ es \<and> list_all P es)"
  by (rule log_grows_def)

definition new_evs :: "ctl_state \<Rightarrow> ctl_state \<Rightarrow> ctl_event list" where
  "new_evs s s' = drop (length (evs s)) (evs s')"

lemmas grows_refl [intro, simp] = log_grows_refl [of evs]
lemmas grows_trans [trans] = log_grows_trans [of evs]
lemmas grows_mono = log_grows_mono [of evs]

lemma grows_emit: "P e \<Longrightarrow> grows P s (ctl_emit e s)"
  by (simp add: grows_def ctl_emit_def)

lemma grows_write: "(\<And>ok. P (CtlWrite w ok)) \<Longrightarrow> grows P s (fst (ctl_write env w s))"
  by (simp add: grows_def ctl_write_def ctl_emit_def Let_def)

lemma grows_read_vm [simp]: "grows P s (fst (read_vm env k s))"
  by (simp add: grows_def read_vm_def)

lemma grows_read_image [simp]: "grows P s (fst (read_image env k s))"
  by (simp add: grows_def read_image_def)

lemma grows_evs: "grows P s s' \<Longrightarrow> e \<in> set (new_evs s s') \<Longrightarrow> P e"
  by (auto simp: grows_def new_evs_def list_all_iff)

lemma grows_read_vmE: "read_vm env k s = (s', r) \<Longrightarrow> grows P s s'"
  by (auto simp: read_vm_def grows_def)

lemma grows_read_imageE: "read_image env k s = (s', r) \<Longrightarrow> grows P s s'"
  by (auto simp: read_image_def grows_def)

lemma grows_read_classE: "read_class env k s = (s', r) \<Longrightarrow> grows P s s'"
  by (auto simp: read_class_def grows_def)

lemma grows_writeE: "ctl_write env w s = (s', r) \<Longrightarrow> (\<And>ok. P (CtlWrite w ok)) \<Longrightarrow> grows P s s'"
  by (metis fst_conv grows_write)

lemmas retry_on_conflict_grows = retry_on_conflict_log_grows [of _ evs]

end
