(* ===== verification/CloudInit.thy ===== *)
theory CloudInit
  imports CtlModel
begin

text \<open>
  Cloud-init user data and metadata of a machine (\<^verbatim>\<open>internal/controller/cloudinit.go\<close>): inline text, the
  text of a secret, or both merged. A secret is its \<^verbatim>\<open>Data\<close> map.
\<close>

section \<open>Model\<close>

definition cloudInitBoundary :: string where
  "cloudInitBoundary = ''VIRTRIGAUD_CLOUD_INIT_BOUNDARY''"

fun first_key :: "string list \<Rightarrow> (string \<rightharpoonup> string) \<Rightarrow> string option" where
  "first_key [] d = None"
| "first_key (k # ks) d = (case d k of Some v \<Rightarrow> Some v | None \<Rightarrow> first_key ks d)"

definition cloud_init_keys :: "string list" where
  "cloud_init_keys = [''userdata'', ''user-data'', ''cloud-init'', ''cloud-config'']"

definition meta_data_keys :: "string list" where
  "meta_data_keys = [''metadata'', ''meta-data'', ''meta_data'']"

definition extractCloudInitFromSecret :: "string \<Rightarrow> (string \<rightharpoonup> string) \<Rightarrow> string result" where
  "extractCloudInitFromSecret name d =
     (case first_key cloud_init_keys d of
        Some v \<Rightarrow> Inr v
      | None \<Rightarrow> Inl (PlainError (''secret '' @ name @ '' contains no recognised cloud-init key'')))"

definition extractMetaDataFromSecret :: "string \<Rightarrow> (string \<rightharpoonup> string) \<Rightarrow> string result" where
  "extractMetaDataFromSecret name d =
     (case first_key meta_data_keys d of
        Some v \<Rightarrow> Inr v
      | None \<Rightarrow> Inl (PlainError (''secret '' @ name @ '' contains no recognised metadata key'')))"

definition nl :: string where "nl = [CHR 0x0A]"
definition quote :: string where "quote = [CHR 0x22]"

definition part_delimiter :: string where
  "part_delimiter = nl @ ''--'' @ cloudInitBoundary"

definition part_header :: string where
  "part_header = nl @ ''Content-Type: text/cloud-config; charset='' @ quote @ ''utf-8'' @ quote @ nl @ nl"

definition merge_part :: "string \<Rightarrow> string" where
  "merge_part part = part_delimiter @ part_header @ part @ nl"

definition mergeCloudConfigParts :: "string list \<Rightarrow> string" where
  "mergeCloudConfigParts parts =
     ''Content-Type: multipart/mixed; boundary='' @ quote @ cloudInitBoundary @ quote @ nl @ ''MIME-Version: 1.0'' @ nl
     @ concat (map merge_part parts) @ part_delimiter @ ''--'' @ nl"

definition inline_part :: "cloud_init \<Rightarrow> string list" where
  "inline_part ci = (if ci_Inline ci = '''' then [] else [ci_Inline ci])"

definition resolveCloudInitUserData :: "ctl_env \<Rightarrow> string \<Rightarrow> cloud_init \<Rightarrow> string result" where
  "resolveCloudInitUserData env ns ci =
     (let merge = (\<lambda>parts. case parts of [] \<Rightarrow> [] | [p] \<Rightarrow> p | _ \<Rightarrow> mergeCloudConfigParts parts)
      in case ci_SecretRef ci of
           None \<Rightarrow> Inr (merge (inline_part ci))
         | Some name \<Rightarrow>
             (case ce_get_secret env (ns, name) of
                Inl e \<Rightarrow> Inl (WrapError (''fetching cloud-init secret '' @ name @ '': '') e)
              | Inr d \<Rightarrow>
                  (case extractCloudInitFromSecret name d of
                     Inl e \<Rightarrow> Inl e
                   | Inr v \<Rightarrow> Inr (merge (inline_part ci @ [v])))))"

definition resolveCloudInitMetaData :: "ctl_env \<Rightarrow> string \<Rightarrow> cloud_init \<Rightarrow> string result" where
  "resolveCloudInitMetaData env ns ci =
     (case ci_SecretRef ci of
        None \<Rightarrow> Inr (join_with (CHR 0x0A) (inline_part ci))
      | Some name \<Rightarrow>
          (case ce_get_secret env (ns, name) of
             Inl e \<Rightarrow> Inl (WrapError (''fetching metadata secret '' @ name @ '': '') e)
           | Inr d \<Rightarrow>
               (case extractMetaDataFromSecret name d of
                  Inl e \<Rightarrow> Inl e
                | Inr v \<Rightarrow> Inr (join_with (CHR 0x0A) (inline_part ci @ [v])))))"

section \<open>A merged document determines its parts\<close>

text \<open>
  A delimiter whose first character occurs nowhere else in it marks the end of a text that does not
  contain it: two such splittings of one document are the same.
\<close>

lemma delimiter_not_inside:
  assumes "u @ d # (d # ds) @ y = d # (d # ds) @ x" "u \<noteq> []" "d \<notin> set ds" "ds \<noteq> []"
  shows "contains_sub (d # ds) u"
proof -
  obtain u' where u: "u = d # u'" "u' @ d # (d # ds) @ y = d # ds @ x"
    using assms(1,2) by (cases u) auto
  moreover have "u' \<noteq> []" using u assms(3,4) by (cases ds) auto
  ultimately obtain u'' where u': "u' = d # u''" "u'' @ d # (d # ds) @ y = ds @ x"
    by (cases u') auto
  then have "(\<exists>z. ds @ z = u'') \<or> (\<exists>z. ds = u'' @ z \<and> z \<noteq> [] \<and> z @ x = d # (d # ds) @ y)"
    by (auto simp: append_eq_append_conv2)
  then obtain z where "u'' = ds @ z" using assms(3) by (auto simp: append_eq_Cons_conv)
  then show ?thesis using u(1) u'(1) by (simp add: contains_sub_iff) (metis append.left_neutral append_Cons)
qed

lemma delimiter_splits:
  assumes "p @ d # (d # ds) @ x = q @ d # (d # ds) @ y" "d \<notin> set ds" "ds \<noteq> []"
    and "\<not> contains_sub (d # ds) p" "\<not> contains_sub (d # ds) q"
  shows "p = q \<and> x = y"
proof -
  have ext: "\<not> contains_sub (d # ds) u" if "\<not> contains_sub (d # ds) (p' @ u)" for p' u
    using that by (auto simp: contains_sub_iff) (metis append.assoc)
  from assms(1) consider (le) u where "q = p @ u" "d # (d # ds) @ x = u @ d # (d # ds) @ y"
    | (ge) u where "p = q @ u" "u @ d # (d # ds) @ x = d # (d # ds) @ y"
    by (auto simp: append_eq_append_conv2)
  then show ?thesis
  proof cases
    case le
    then have "u = []" using delimiter_not_inside [of u d ds y x] ext [of p u] assms by auto
    then show ?thesis using le by simp
  next
    case ge
    then have "u = []" using delimiter_not_inside [of u d ds x y] ext [of q u] assms by auto
    then show ?thesis using ge by simp
  qed
qed

lemma part_delimiter_Cons: "part_delimiter = CHR 0x0A # ''--'' @ cloudInitBoundary"
  by (simp add: part_delimiter_def nl_def)

lemma merge_body_inj:
  assumes "concat (map merge_part ps) @ part_delimiter @ ''--'' @ nl = concat (map merge_part qs) @ part_delimiter @ ''--'' @ nl"
    and "list_all (\<lambda>p. \<not> contains_sub part_delimiter p) ps" "list_all (\<lambda>p. \<not> contains_sub part_delimiter p) qs"
  shows "ps = qs"
  using assms
proof (induction ps arbitrary: qs)
  case Nil
  then show ?case by (cases qs) (auto simp: merge_part_def part_header_def nl_def)
next
  case (Cons p ps)
  obtain q qs' where qs: "qs = q # qs'" using Cons.prems(1) by (cases qs) (auto simp: merge_part_def part_header_def nl_def)
  have tail: "\<exists>x. concat (map merge_part ps) @ part_delimiter @ ''--'' @ nl = part_delimiter @ x" for ps
    by (cases ps) (auto simp: merge_part_def)
  obtain x y where xy: "concat (map merge_part ps) @ part_delimiter @ ''--'' @ nl = part_delimiter @ x"
      "concat (map merge_part qs') @ part_delimiter @ ''--'' @ nl = part_delimiter @ y"
    using tail by blast
  have "merge_part p @ part_delimiter @ x = merge_part q @ part_delimiter @ y"
    using Cons.prems(1) by (simp only: qs list.map concat.simps append_assoc xy)
  then have "p @ nl @ part_delimiter @ x = q @ nl @ part_delimiter @ y"
    by (simp only: merge_part_def append_assoc same_append_eq)
  then have "p = q \<and> x = y"
    using Cons.prems(2,3) qs delimiter_splits [of p "CHR 0x0A" "''--'' @ cloudInitBoundary" x q y]
    by (simp add: part_delimiter_Cons nl_def cloudInitBoundary_def)
  then have "ps = qs'" using Cons.prems(2,3) qs xy by (intro Cons.IH) simp_all
  with \<open>p = q \<and> x = y\<close> qs show ?case by simp
qed

text \<open>
  Merging several cloud-config documents loses nothing: when none of the documents contains the
  MIME part delimiter, the merged document determines the documents and their order.
\<close>

lemma cloud_init_merge_unambiguous:
  assumes "mergeCloudConfigParts ps = mergeCloudConfigParts qs"
    and "list_all (\<lambda>p. \<not> contains_sub part_delimiter p) ps" "list_all (\<lambda>p. \<not> contains_sub part_delimiter p) qs"
  shows "ps = qs"
  using assms merge_body_inj [of ps qs] by (simp add: mergeCloudConfigParts_def)

end
