(* ===== verification/VmRequest.thy ===== *)
theory VmRequest
  imports CloudInit
begin

text \<open>
  From the API objects of a machine to the create request its provider is sent: \<^verbatim>\<open>buildCreateRequest\<close>,
  \<^verbatim>\<open>overrideImageWithPreparedLocation\<close> and the tracking of its resources
  (\<^verbatim>\<open>internal/controller/virtualmachine_controller.go\<close>). 32-bit fields are \<open>int\<close> with the conversions'
  wrap-around written out.
\<close>

section \<open>Class\<close>

definition max_int32 :: int where "max_int32 = 2 ^ 31 - 1"

definition MiB :: int where "MiB = 1024 * 1024"
definition GiB :: int where "GiB = 1024 * 1024 * 1024"

definition memory_mib32 :: "int \<Rightarrow> int" where
  "memory_mib32 bytes = wrap32 (go_div bytes MiB)"

definition limit_mib32 :: "int \<Rightarrow> int" where
  "limit_mib32 bytes = (let m = go_div bytes MiB in wrap32 (if max_int32 < m then max_int32 else m))"

definition convert_disk_defaults :: "api_disk_defaults \<Rightarrow> disk_defaults" where
  "convert_disk_defaults d = \<lparr>dd_Type = ad_Type d, dd_SizeGiB = wrap32 (go_div (ad_Size d) GiB)\<rparr>"

definition convert_security :: "api_security \<Rightarrow> security_profile" where
  "convert_security p =
     \<lparr>sx_SecureBoot = as_SecureBoot p, sx_TPMEnabled = as_TPMEnabled p, sx_TPMVersion = as_TPMVersion p,
      sx_VTDEnabled = as_VTDEnabled p,
      sx_EncryptionEnabled = (case as_EncryptionPolicy p of None \<Rightarrow> False | Some e \<Rightarrow> ec_Enabled e),
      sx_KeyProvider = (case as_EncryptionPolicy p of None \<Rightarrow> '''' | Some e \<Rightarrow> ec_KeyProvider e),
      sx_RequireEncryption = (case as_EncryptionPolicy p of None \<Rightarrow> False | Some e \<Rightarrow> ec_RequireEncryption e)\<rparr>"

definition convert_limits :: "api_limits \<Rightarrow> resource_limits" where
  "convert_limits l =
     \<lparr>rl_CPULimit = al_CPULimit l, rl_CPUReservation = al_CPUReservation l,
      rl_MemoryLimitMiB = map_option limit_mib32 (al_MemoryLimit l),
      rl_MemoryReservationMiB = map_option limit_mib32 (al_MemoryReservation l),
      rl_CPUShares = al_CPUShares l\<rparr>"

definition convert_class :: "vm_class \<Rightarrow> contract_class" where
  "convert_class c =
     \<lparr>kc_CPU = vc_CPU c, kc_MemoryMiB = memory_mib32 (vc_Memory c), kc_Firmware = vc_Firmware c,
      kc_DiskDefaults = map_option convert_disk_defaults (vc_DiskDefaults c),
      kc_GuestToolsPolicy = vc_GuestToolsPolicy c, kc_ExtraConfig = vc_ExtraConfig c,
      kc_PerformanceProfile = vc_PerformanceProfile c,
      kc_SecurityProfile = map_option convert_security (vc_SecurityProfile c),
      kc_ResourceLimits = map_option convert_limits (vc_ResourceLimits c)\<rparr>"

section \<open>Image\<close>

definition no_image :: contract_image where
  "no_image = \<lparr>ki_TemplateName = '''', ki_Path = '''', ki_URL = '''', ki_Format = '''', ki_Checksum = '''', ki_ChecksumType = ''''\<rparr>"

definition image_of_disk :: "imported_disk \<Rightarrow> contract_image" where
  "image_of_disk d =
     (let format = (if id_Format d = '''' then ''qcow2'' else id_Format d)
      in no_image\<lparr>
           ki_Path := (if id_Path d = '''' then ''/var/lib/libvirt/images/'' @ id_DiskID d @ ''.'' @ format else id_Path d),
           ki_Format := format, ki_ChecksumType := ''sha256''\<rparr>)"

definition from_vsphere :: "vsphere_source \<Rightarrow> contract_image \<Rightarrow> contract_image" where
  "from_vsphere v i =
     i\<lparr>ki_TemplateName := vv_TemplateName v, ki_URL := vv_OVAURL v,
       ki_Checksum := (if vv_Checksum v = '''' then ki_Checksum i else vv_Checksum v),
       ki_ChecksumType := (if vv_ChecksumType v = '''' then ki_ChecksumType i else vv_ChecksumType v)\<rparr>"

definition from_libvirt :: "libvirt_source \<Rightarrow> contract_image \<Rightarrow> contract_image" where
  "from_libvirt l i =
     i\<lparr>ki_Path := vl_Path l, ki_URL := vl_URL l, ki_Format := vl_Format l,
       ki_Checksum := (if vl_Checksum l = '''' then ki_Checksum i else vl_Checksum l),
       ki_ChecksumType := (if vl_ChecksumType l = '''' then ki_ChecksumType i else vl_ChecksumType l)\<rparr>"

definition from_proxmox :: "proxmox_source \<Rightarrow> contract_image \<Rightarrow> contract_image" where
  "from_proxmox p i =
     (case vp_TemplateID p of
        Some n \<Rightarrow> i\<lparr>ki_TemplateName := show_int n\<rparr>
      | None \<Rightarrow> if vp_TemplateName p = '''' then i else i\<lparr>ki_TemplateName := vp_TemplateName p\<rparr>)"

definition image_of_source :: "image_spec \<Rightarrow> contract_image" where
  "image_of_source spec =
     (let i0 = no_image\<lparr>ki_Format := ''template'', ki_ChecksumType := ''sha256''\<rparr>;
          i1 = (case is_VSphere spec of None \<Rightarrow> i0 | Some v \<Rightarrow> from_vsphere v i0);
          i2 = (case is_Libvirt spec of None \<Rightarrow> i1 | Some l \<Rightarrow> from_libvirt l i1)
      in case is_Proxmox spec of None \<Rightarrow> i2 | Some p \<Rightarrow> from_proxmox p i2)"

definition overrideImageWithPreparedLocation :: "contract_image \<Rightarrow> vm_image \<Rightarrow> string \<Rightarrow> contract_image" where
  "overrideImageWithPreparedLocation ki img pname =
     (case im_ProviderStatus (vg_status img) pname of
        None \<Rightarrow> ki
      | Some ps \<Rightarrow>
          if \<not> pm_Available ps then ki
          else if is_Libvirt (vg_spec img) \<noteq> None then
            (if pm_Path ps = '''' then ki else ki\<lparr>ki_Path := pm_Path ps, ki_URL := ''''\<rparr>)
          else if is_VSphere (vg_spec img) \<noteq> None then
            (if pm_ID ps = '''' then ki else ki\<lparr>ki_TemplateName := pm_ID ps, ki_URL := ''''\<rparr>)
          else if is_Proxmox (vg_spec img) \<noteq> None then
            (if pm_ID ps = '''' then ki else ki\<lparr>ki_TemplateName := pm_ID ps\<rparr>)
          else ki)"

definition convert_image :: "virtual_machine \<Rightarrow> string \<Rightarrow> vm_image option \<Rightarrow> contract_image" where
  "convert_image vm pname img =
     (case vs_ImportedDisk (vm_spec vm) of
        Some d \<Rightarrow> image_of_disk d
      | None \<Rightarrow>
          (case img of
             None \<Rightarrow> no_image
           | Some i \<Rightarrow> overrideImageWithPreparedLocation (image_of_source (vg_spec i)) i pname))"

section \<open>Networks\<close>

definition attachment_of :: "vm_network_ref \<Rightarrow> network_attachment" where
  "attachment_of r =
     \<lparr>na_Name = nr_Name r, na_Portgroup = '''', na_NetworkName = '''', na_Bridge = '''', na_VLAN = 0, na_Model = '''',
      na_MacAddress = '''', na_IPPolicy = '''', na_StaticIP = nr_IPAddress r, na_Prefix = nr_Prefix r,
      na_Gateway = nr_Gateway r, na_DNS = nr_DNS r, na_PCISlotNumber = None\<rparr>"

definition with_vsphere :: "vsphere_net \<Rightarrow> network_attachment \<Rightarrow> network_attachment" where
  "with_vsphere v a =
     a\<lparr>na_NetworkName := xv_Portgroup v,
       na_VLAN := (case xv_VlanID v of None \<Rightarrow> na_VLAN a | Some n \<Rightarrow> n),
       na_PCISlotNumber := (case xv_PCISlotNumber v of None \<Rightarrow> na_PCISlotNumber a | Some n \<Rightarrow> Some n)\<rparr>"

definition with_libvirt :: "libvirt_net \<Rightarrow> network_attachment \<Rightarrow> network_attachment" where
  "with_libvirt l a =
     a\<lparr>na_NetworkName := xl_NetworkName l,
       na_Bridge := (case xl_BridgeName l of None \<Rightarrow> na_Bridge a | Some b \<Rightarrow> b),
       na_Model := xl_Model l\<rparr>"

definition with_proxmox :: "proxmox_net \<Rightarrow> network_attachment \<Rightarrow> network_attachment" where
  "with_proxmox p a =
     a\<lparr>na_Bridge := xp_Bridge p, na_Model := xp_Model p,
       na_VLAN := (case xp_VLANTag p of None \<Rightarrow> na_VLAN a | Some n \<Rightarrow> n)\<rparr>"

definition convert_network :: "vm_network_ref \<Rightarrow> vm_network option \<Rightarrow> network_attachment" where
  "convert_network r net =
     (let a0 = attachment_of r
      in case net of
           None \<Rightarrow> a0
         | Some n \<Rightarrow>
             if nr_NetworkRef r = None then a0
             else
               (let a1 = (case vw_VSphere n of None \<Rightarrow> a0 | Some v \<Rightarrow> with_vsphere v a0);
                    a2 = (case vw_Libvirt n of None \<Rightarrow> a1 | Some l \<Rightarrow> with_libvirt l a1)
                in case vw_Proxmox n of None \<Rightarrow> a2 | Some p \<Rightarrow> with_proxmox p a2))"

text \<open>\<open>nets\<close> is aligned with the references; a reference beyond its end has no network.\<close>

fun convert_networks :: "vm_network_ref list \<Rightarrow> vm_network option list \<Rightarrow> network_attachment list" where
  "convert_networks [] nets = []"
| "convert_networks (r # rs) [] = convert_network r None # convert_networks rs []"
| "convert_networks (r # rs) (n # nets) = convert_network r n # convert_networks rs nets"

section \<open>The request\<close>

definition convert_placement :: "vm_placement \<Rightarrow> contract_placement" where
  "convert_placement p =
     \<lparr>kp_Datastore = pl_Datastore p, kp_StoragePod = pl_StoragePod p, kp_Cluster = pl_Cluster p,
      kp_Folder = pl_Folder p, kp_Host = ''''\<rparr>"

definition request_user_data :: "ctl_env \<Rightarrow> virtual_machine \<Rightarrow> contract_user_data option result" where
  "request_user_data env vm =
     (case Option.bind (vs_UserData (vm_spec vm)) ud_CloudInit of
        None \<Rightarrow> Inr None
      | Some ci \<Rightarrow>
          (case resolveCloudInitUserData env (vm_ns vm) ci of
             Inl e \<Rightarrow> Inl (WrapError ''resolving cloud-init user data: '' e)
           | Inr d \<Rightarrow> Inr (if d = '''' then None else Some \<lparr>ku_CloudInitData = d, ku_Type = ''cloud-init''\<rparr>)))"

definition request_meta_data :: "ctl_env \<Rightarrow> virtual_machine \<Rightarrow> string option result" where
  "request_meta_data env vm =
     (case Option.bind (vs_MetaData (vm_spec vm)) ud_CloudInit of
        None \<Rightarrow> Inr None
      | Some ci \<Rightarrow>
          (case resolveCloudInitMetaData env (vm_ns vm) ci of
             Inl e \<Rightarrow> Inl (WrapError ''resolving cloud-init metadata: '' e)
           | Inr d \<Rightarrow> Inr (if d = '''' then None else Some d)))"

definition buildCreateRequest ::
  "ctl_env \<Rightarrow> virtual_machine \<Rightarrow> string \<Rightarrow> vm_class \<Rightarrow> vm_image option \<Rightarrow> vm_network option list \<Rightarrow> create_request result" where
  "buildCreateRequest env vm pname cls img nets =
     (case request_user_data env vm of
        Inl e \<Rightarrow> Inl e
      | Inr ud \<Rightarrow>
          (case request_meta_data env vm of
             Inl e \<Rightarrow> Inl e
           | Inr md \<Rightarrow>
               Inr \<lparr>rq_Name = vm_name vm, rq_Class = convert_class cls, rq_Image = convert_image vm pname img,
                    rq_Networks = convert_networks (vs_Networks (vm_spec vm)) nets, rq_Disks = vs_Disks (vm_spec vm),
                    rq_UserData = ud, rq_MetaData = md,
                    rq_Placement = map_option convert_placement (vs_Placement (vm_spec vm)),
                    rq_Tags = vs_Tags (vm_spec vm)\<rparr>))"

section \<open>Resources in force\<close>

text \<open>The class's CPU and memory with the machine's overrides; computed by \<^verbatim>\<open>needsReconfigure\<close> and \<^verbatim>\<open>updateCurrentResources\<close> alike.\<close>

definition override :: "int option \<Rightarrow> int \<Rightarrow> int" where
  "override ov d = (case ov of None \<Rightarrow> d | Some x \<Rightarrow> x)"

definition desired_cpu :: "virtual_machine \<Rightarrow> vm_class \<Rightarrow> int" where
  "desired_cpu vm cls = override (Option.bind (vs_Resources (vm_spec vm)) rs_CPU) (vc_CPU cls)"

definition desired_memory :: "virtual_machine \<Rightarrow> vm_class \<Rightarrow> int" where
  "desired_memory vm cls = override (Option.bind (vs_Resources (vm_spec vm)) rs_MemoryMiB) (go_div (vc_Memory cls) MiB)"

definition getCurrentCPU :: "virtual_machine \<Rightarrow> int" where
  "getCurrentCPU vm = override (Option.bind (vt_CurrentResources (vm_status vm)) rs_CPU) 0"

definition getCurrentMemoryMiB :: "virtual_machine \<Rightarrow> int" where
  "getCurrentMemoryMiB vm = override (Option.bind (vt_CurrentResources (vm_status vm)) rs_MemoryMiB) 0"

definition needsReconfigure :: "virtual_machine \<Rightarrow> vm_class \<Rightarrow> bool" where
  "needsReconfigure vm cls \<longleftrightarrow>
     \<not> (getCurrentCPU vm = 0 \<and> getCurrentMemoryMiB vm = 0) \<and>
     (getCurrentCPU vm \<noteq> desired_cpu vm cls \<or> getCurrentMemoryMiB vm \<noteq> desired_memory vm cls)"

definition set_vst :: "(vm_status \<Rightarrow> vm_status) \<Rightarrow> virtual_machine \<Rightarrow> virtual_machine" where
  "set_vst f vm = vm\<lparr>vm_status := f (vm_status vm)\<rparr>"

definition updateCurrentResources :: "virtual_machine \<Rightarrow> vm_class \<Rightarrow> virtual_machine" where
  "updateCurrentResources vm cls =
     set_vst (\<lambda>t. t\<lparr>vt_CurrentResources :=
       Some \<lparr>rs_CPU = Some (desired_cpu vm cls), rs_MemoryMiB = Some (desired_memory vm cls)\<rparr>\<rparr>) vm"

section \<open>Lemmas\<close>

lemma convert_networks_length [simp]: "length (convert_networks rs nets) = length rs"
  by (induction rs nets rule: convert_networks.induct) auto

lemma convert_networks_nth:
  "i < length rs \<Longrightarrow> convert_networks rs nets ! i = convert_network (rs ! i) (if i < length nets then nets ! i else None)"
  by (induction rs nets arbitrary: i rule: convert_networks.induct) (auto simp: nth_Cons split: nat.splits)

lemma wrap32_range: "- (2 ^ 31) \<le> wrap32 x" "wrap32 x \<le> max_int32"
  by (simp_all add: wrap32_def max_int32_def)

lemma wrap32_id: "- (2 ^ 31) \<le> x \<Longrightarrow> x \<le> max_int32 \<Longrightarrow> wrap32 x = x"
  by (simp add: wrap32_def max_int32_def)

lemma go_div_nonneg: "0 \<le> a \<Longrightarrow> 0 < b \<Longrightarrow> go_div a b = a div b"
  by (cases "a = 0") (simp_all add: go_div_def)

lemma updateCurrentResources_settles: "\<not> needsReconfigure (updateCurrentResources vm cls) cls"
  by (simp add: needsReconfigure_def updateCurrentResources_def set_vst_def getCurrentCPU_def getCurrentMemoryMiB_def
      desired_cpu_def desired_memory_def override_def)

lemma buildCreateRequest_image:
  "buildCreateRequest env vm pname cls img nets = Inr rq \<Longrightarrow>
   rq_Name rq = vm_name vm \<and> rq_Class rq = convert_class cls \<and> rq_Image rq = convert_image vm pname img"
  by (auto simp: buildCreateRequest_def split: sum.splits)

text \<open>
  The create request says what the objects say: there is one network attachment per network
  reference, in order, each with the attachment object of its own reference; an imported disk with a path is
  passed by that path and no URL; a libvirt image prepared on the provider with a recorded path is
  passed by that path instead of its source URL; and a non-negative memory limit
  is passed in MiB, cut off at the largest 32-bit value instead of wrapping.
\<close>

lemma create_request_faithful:
  assumes "buildCreateRequest env vm pname cls img nets = Inr rq"
  shows "length (rq_Networks rq) = length (vs_Networks (vm_spec vm)) \<and>
    (\<forall>i < length (rq_Networks rq). rq_Networks rq ! i =
       convert_network (vs_Networks (vm_spec vm) ! i) (if i < length nets then nets ! i else None)) \<and>
    (\<forall>d. vs_ImportedDisk (vm_spec vm) = Some d \<and> id_Path d \<noteq> '''' \<longrightarrow> ki_Path (rq_Image rq) = id_Path d \<and> ki_URL (rq_Image rq) = '''') \<and>
    (\<forall>i ps l. vs_ImportedDisk (vm_spec vm) = None \<and> img = Some i \<and> im_ProviderStatus (vg_status i) pname = Some ps \<and>
       pm_Available ps \<and> is_Libvirt (vg_spec i) = Some l \<and> pm_Path ps \<noteq> '''' \<longrightarrow>
       ki_Path (rq_Image rq) = pm_Path ps \<and> ki_URL (rq_Image rq) = '''') \<and>
    (\<forall>lim b. vc_ResourceLimits cls = Some lim \<and> al_MemoryLimit lim = Some b \<and> 0 \<le> b \<longrightarrow>
       (\<exists>rl. kc_ResourceLimits (rq_Class rq) = Some rl \<and> rl_MemoryLimitMiB rl = Some (min max_int32 (b div MiB))))"
proof -
  have rq: "rq_Networks rq = convert_networks (vs_Networks (vm_spec vm)) nets" "rq_Image rq = convert_image vm pname img"
      "rq_Class rq = convert_class cls"
    using assms by (auto simp: buildCreateRequest_def split: sum.splits)
  have clamp: "limit_mib32 b = min max_int32 (b div MiB)" if "0 \<le> b" for b
  proof -
    have "0 \<le> b div MiB" using that by (simp add: MiB_def)
    then show ?thesis using that go_div_nonneg [of b MiB]
      by (simp add: limit_mib32_def Let_def MiB_def wrap32_id max_int32_def)
  qed
  show ?thesis
    by (auto simp: rq convert_networks_nth convert_image_def image_of_disk_def Let_def no_image_def overrideImageWithPreparedLocation_def
        convert_class_def convert_limits_def clamp)
qed

end
