(* ===== verification/ImagePrepare.thy ===== *)
theory ImagePrepare
  imports VmRequest
begin

text \<open>
  Image preparation driven by the VirtualMachine controller
  (\<^verbatim>\<open>internal/controller/virtualmachine_image_prepare.go\<close>). Each change of the image's status is a
  function on the object read last, applied in the conflict-retry loop of \<open>writeImageStatus\<close>; the
  sentinel \<^verbatim>\<open>errImagePrepareHold\<close> is a constructor of the result.
\<close>

section \<open>Decisions\<close>

definition ImageMissingActionImport :: string where "ImageMissingActionImport = ''Import''"
definition ImageMissingActionFail :: string where "ImageMissingActionFail = ''Fail''"
definition ImageMissingActionWait :: string where "ImageMissingActionWait = ''Wait''"

definition imagePrepareRequeueAfter :: int where "imagePrepareRequeueAfter = 5 * second"

definition providerAdvertisesImageImport :: "provider \<Rightarrow> bool" where
  "providerAdvertisesImageImport p \<longleftrightarrow>
     (case pv_ReportedCapabilities p of None \<Rightarrow> False | Some c \<Rightarrow> rp_SupportsImageImport c)"

definition imageMissingAction :: "vm_image \<Rightarrow> string" where
  "imageMissingAction img =
     (case is_OnMissing (vg_spec img) of
        None \<Rightarrow> ImageMissingActionImport
      | Some a \<Rightarrow> if a = '''' then ImageMissingActionImport else a)"

definition imageSourceNeedsPrepare :: "vm_image \<Rightarrow> bool" where
  "imageSourceNeedsPrepare img \<longleftrightarrow>
     (case is_Libvirt (vg_spec img) of
        Some l \<Rightarrow> vl_URL l \<noteq> '''' \<or> vl_Path l = ''''
      | None \<Rightarrow>
          (case is_VSphere (vg_spec img) of
             Some v \<Rightarrow> vv_OVAURL v \<noteq> '''' \<or> (vv_TemplateName v = '''' \<and> \<not> vv_ContentLibrary v)
           | None \<Rightarrow>
               (case is_Proxmox (vg_spec img) of
                  Some p \<Rightarrow> vp_TemplateID p = None \<and> vp_TemplateName p = ''''
                | None \<Rightarrow> True)))"

section \<open>Status changes\<close>

fun appendDedup :: "string list \<Rightarrow> string \<Rightarrow> string list" where
  "appendDedup xs s = (if s \<in> set xs then xs else xs @ [s])"

definition set_ist :: "(image_status \<Rightarrow> image_status) \<Rightarrow> vm_image \<Rightarrow> vm_image" where
  "set_ist f img = img\<lparr>vg_status := f (vg_status img)\<rparr>"

definition set_image_cond :: "ctl_env \<Rightarrow> string \<Rightarrow> cond_status \<Rightarrow> string \<Rightarrow> string \<Rightarrow> vm_image \<Rightarrow> vm_image" where
  "set_image_cond env ty st reason msg img =
     set_ist (\<lambda>t. t\<lparr>im_Conditions := ce_SetStatusCondition env
       \<lparr>c_type = ty, c_status = st, c_reason = reason, c_message = msg, c_lastTransition = 0,
        c_observedGeneration = md_generation (vg_meta img)\<rparr> (im_Conditions t)\<rparr>) img"

definition mark_missing :: "ctl_env \<Rightarrow> string \<Rightarrow> vm_image \<Rightarrow> vm_image" where
  "mark_missing env pname img =
     (let msg = ''image not available on provider '' @ pname @ '' and Prepare.OnMissing=Fail''
      in set_image_cond env ''Ready'' ConditionFalse ''MissingOnProvider'' msg
           (set_ist (\<lambda>t. t\<lparr>im_Ready := False, im_Phase := ''Failed'', im_Message := msg\<rparr>) img))"

definition mark_waiting :: "ctl_env \<Rightarrow> string \<Rightarrow> vm_image \<Rightarrow> vm_image" where
  "mark_waiting env pname img =
     (let msg = ''image not available on provider '' @ pname @ ''; waiting (Prepare.OnMissing=Wait)''
      in set_image_cond env ''Ready'' ConditionFalse ''WaitingForImage'' msg
           (set_ist (\<lambda>t. t\<lparr>im_Ready := False, im_Phase := ''Pending'', im_Message := msg\<rparr>) img))"

definition mark_preparing :: "ctl_env \<Rightarrow> vm_image \<Rightarrow> vm_image" where
  "mark_preparing env img =
     set_image_cond env ''Importing'' ConditionTrue ''Importing'' ''image import in progress''
       (set_ist (\<lambda>t. t\<lparr>im_Phase := ''Importing'', im_Ready := False\<rparr>) img)"

text \<open>A map read of an absent key gives the zero value.\<close>

definition zero_provider_image :: provider_image where
  "zero_provider_image = \<lparr>pm_Available = False, pm_ID = '''', pm_Path = '''', pm_LastUpdated = None, pm_Message = ''''\<rparr>"

definition provider_entry :: "image_status \<Rightarrow> string \<Rightarrow> provider_image" where
  "provider_entry t pname = (case im_ProviderStatus t pname of None \<Rightarrow> zero_provider_image | Some ps \<Rightarrow> ps)"

definition mark_started :: "ctl_env \<Rightarrow> string \<Rightarrow> image_prepare_response \<Rightarrow> vm_image \<Rightarrow> vm_image" where
  "mark_started env pname resp img =
     (let msg = ''importing image into provider '' @ pname;
          img1 = set_ist (\<lambda>t. t\<lparr>im_PrepareTaskRef := ix_TaskRef resp, im_Phase := ''Importing'', im_Ready := False,
                   im_Message := msg, im_LastPrepareTime := Some (ce_now env)\<rparr>) img;
          img2 = (if ix_PreparedImageID resp \<noteq> '''' \<or> ix_PreparedImagePath resp \<noteq> '''' then
                    set_ist (\<lambda>t. t\<lparr>im_ProviderStatus := (im_ProviderStatus t)(pname \<mapsto>
                      (provider_entry t pname)\<lparr>pm_Available := False, pm_ID := ix_PreparedImageID resp,
                        pm_Path := ix_PreparedImagePath resp, pm_LastUpdated := Some (ce_now env),
                        pm_Message := ''image import in progress''\<rparr>)\<rparr>) img1
                  else img1)
      in set_image_cond env ''Importing'' ConditionTrue ''Importing'' msg img2)"

definition mark_prepared :: "ctl_env \<Rightarrow> string \<Rightarrow> string \<Rightarrow> string \<Rightarrow> vm_image \<Rightarrow> vm_image" where
  "mark_prepared env pname ident path img =
     set_image_cond env ''Importing'' ConditionFalse ''Prepared'' ''image import complete''
       (set_image_cond env ''Ready'' ConditionTrue ''Prepared'' (''image prepared on provider '' @ pname)
         (set_ist (\<lambda>t. t\<lparr>
            im_ProviderStatus := (im_ProviderStatus t)(pname \<mapsto>
              (provider_entry t pname)\<lparr>pm_Available := True, pm_LastUpdated := Some (ce_now env), pm_Message := ''image prepared'',
                pm_ID := (if ident = '''' then pm_ID (provider_entry t pname) else ident),
                pm_Path := (if path = '''' then pm_Path (provider_entry t pname) else path)\<rparr>),
            im_AvailableOn := appendDedup (im_AvailableOn t) pname,
            im_PrepareTaskRef := '''', im_Ready := True, im_Phase := ''Ready'', im_Message := '''',
            im_LastPrepareTime := Some (ce_now env)\<rparr>) img))"

section \<open>Writing the status\<close>

definition image_attempt :: "ctl_env \<Rightarrow> nn \<Rightarrow> (vm_image \<Rightarrow> vm_image) \<Rightarrow> ctl_state \<Rightarrow> ctl_state \<times> vm_image result" where
  "image_attempt env key mutate s =
     (case read_image env key s of
        (s1, Inl e) \<Rightarrow> (s1, Inl e)
      | (s1, Inr latest) \<Rightarrow>
          (case ctl_write env (WImageStatus (mutate latest)) s1 of
             (s2, Some e) \<Rightarrow> (s2, Inl e)
           | (s2, None) \<Rightarrow> (s2, Inr (mutate latest))))"

text \<open>The image in hand gets the committed status.\<close>

definition writeImageStatus ::
  "ctl_env \<Rightarrow> vm_image \<Rightarrow> (vm_image \<Rightarrow> vm_image) \<Rightarrow> ctl_state \<Rightarrow> ctl_state \<times> vm_image result" where
  "writeImageStatus env img mutate s =
     (case retry_on_conflict (ce_retry_steps env)
             (image_attempt env (md_namespace (vg_meta img), md_name (vg_meta img)) mutate) s of
        (s', Inl e) \<Rightarrow> (s', Inl (WrapError (''update VMImage '' @ md_name (vg_meta img) @ '' status: '') e))
      | (s', Inr latest) \<Rightarrow> (s', Inr (img\<lparr>vg_status := vg_status latest\<rparr>)))"

definition markImagePreparing :: "ctl_env \<Rightarrow> vm_image \<Rightarrow> ctl_state \<Rightarrow> ctl_state \<times> vm_image result" where
  "markImagePreparing env img s = writeImageStatus env img (mark_preparing env) s"

definition markImagePrepared ::
  "ctl_env \<Rightarrow> vm_image \<Rightarrow> string \<Rightarrow> string \<Rightarrow> string \<Rightarrow> ctl_state \<Rightarrow> ctl_state \<times> vm_image result" where
  "markImagePrepared env img pname ident path s = writeImageStatus env img (mark_prepared env pname ident path) s"

section \<open>EnsureImageOnProvider\<close>

datatype ensure_result = EnsureProceed | EnsureRequeue | EnsureHold | EnsureError go_error

text \<open>
  After a status write: the given result with the image as committed, or the write's error. The image
  in hand is part of the result, since the create request is built from it.
\<close>

definition after_write ::
  "vm_image \<Rightarrow> ensure_result \<Rightarrow> ctl_state \<times> vm_image result \<Rightarrow> ctl_state \<times> vm_image \<times> ensure_result" where
  "after_write img res w =
     (case w of (s', Inl e) \<Rightarrow> (s', img, EnsureError e) | (s', Inr img') \<Rightarrow> (s', img', res))"

definition poll_prepare_task ::
  "ctl_env \<Rightarrow> vm_image \<Rightarrow> provider \<Rightarrow> provider_instance \<Rightarrow> ctl_state \<Rightarrow> ctl_state \<times> vm_image \<times> ensure_result" where
  "poll_prepare_task env img p inst s =
     (let task = im_PrepareTaskRef (vg_status img)
      in case pi_IsTaskComplete inst task 0 of
           Inl e \<Rightarrow> (s, img, EnsureError (WrapError (''check image prepare task '' @ task @ '': '') e))
         | Inr False \<Rightarrow> after_write img EnsureRequeue (markImagePreparing env img s)
         | Inr True \<Rightarrow> after_write img EnsureProceed (markImagePrepared env img (pv_name p) '''' '''' s))"

definition trigger_prepare ::
  "ctl_env \<Rightarrow> vm_image \<Rightarrow> provider \<Rightarrow> (image_prepare_request \<Rightarrow> image_prepare_response result) \<Rightarrow> ctl_state
     \<Rightarrow> ctl_state \<times> vm_image \<times> ensure_result" where
  "trigger_prepare env img p prepare s =
     (case is_JSON (vg_spec img) of
        Inl e \<Rightarrow> (s, img, EnsureError (WrapError (''marshal VMImage '' @ md_name (vg_meta img) @ '' spec for prepare: '') e))
      | Inr json \<Rightarrow>
          (let req = \<lparr>iq_ImageJSON = json, iq_TargetName = md_name (vg_meta img), iq_StorageHint = ''''\<rparr>
           in case prepare req of
                Inl e \<Rightarrow> (ctl_emit (CtlPrepare req False) s, img,
                  EnsureError (WrapError (''prepare image '' @ md_name (vg_meta img) @ '' on provider '' @ pv_name p @ '': '') e))
              | Inr resp \<Rightarrow>
                  (let s1 = ctl_emit (CtlPrepare req True) s
                   in if ix_TaskRef resp \<noteq> '''' then
                        after_write img EnsureRequeue (writeImageStatus env img (mark_started env (pv_name p) resp) s1)
                      else
                        after_write img EnsureProceed
                          (markImagePrepared env img (pv_name p) (ix_PreparedImageID resp) (ix_PreparedImagePath resp) s1))))"

definition already_prepared :: "vm_image \<Rightarrow> string \<Rightarrow> bool" where
  "already_prepared img pname \<longleftrightarrow>
     (case im_ProviderStatus (vg_status img) pname of None \<Rightarrow> False | Some ps \<Rightarrow> pm_Available ps)"

definition EnsureImageOnProvider ::
  "ctl_env \<Rightarrow> virtual_machine \<Rightarrow> vm_image option \<Rightarrow> provider \<Rightarrow> provider_instance \<Rightarrow> ctl_state
     \<Rightarrow> ctl_state \<times> vm_image option \<times> ensure_result" where
  "EnsureImageOnProvider env vm image_opt p inst s =
     (case image_opt of
        None \<Rightarrow> (s, None, EnsureProceed)
      | Some img \<Rightarrow>
          (let some_img = (\<lambda>(s', img', res). (s', Some img', res))
           in if vs_ImageRef (vm_spec vm) = None then (s, Some img, EnsureProceed)
              else
                (case pi_PrepareImage inst of
                   None \<Rightarrow> (s, Some img, EnsureProceed)
                 | Some prepare \<Rightarrow>
                     if \<not> providerAdvertisesImageImport p then (s, Some img, EnsureProceed)
                     else if already_prepared img (pv_name p) then (s, Some img, EnsureProceed)
                     else if \<not> imageSourceNeedsPrepare img then (s, Some img, EnsureProceed)
                     else if imageMissingAction img = ImageMissingActionFail then
                       some_img (after_write img EnsureHold (writeImageStatus env img (mark_missing env (pv_name p)) s))
                     else if imageMissingAction img = ImageMissingActionWait then
                       some_img (after_write img EnsureHold (writeImageStatus env img (mark_waiting env (pv_name p)) s))
                     else if im_PrepareTaskRef (vg_status img) \<noteq> '''' then
                       some_img (poll_prepare_task env img p inst s)
                     else some_img (trigger_prepare env img p prepare s))))"

end
