(* ===== verification/VmController.thy ===== *)
theory VmController
  imports ImagePrepare
begin

text \<open>
  The VirtualMachine reconciler (\<^verbatim>\<open>internal/controller/virtualmachine_controller.go\<close>). \<open>VM_Reconcile\<close> works
  on the environment and log of \<open>CtlModel\<close>. A status write's error is dropped, as in
  \<^verbatim>\<open>updateStatus\<close>; metrics and logging are left out. The polls of one call are numbered 0 (image
  task), 1 (last task) and 2 (reconfigure task).
\<close>

section \<open>Model\<close>

definition VirtualMachineFinalizer :: string where
  "VirtualMachineFinalizer = ''virtualmachine.infra.virtrigaud.io/finalizer''"

definition forceDeleteAnnotation :: string where "forceDeleteAnnotation = ''virtrigaud.io/force-delete''"

definition vmDeleteRetryInterval :: int where "vmDeleteRetryInterval = 15 * second"

definition hasForceDeleteAnnotation :: "virtual_machine \<Rightarrow> bool" where
  "hasForceDeleteAnnotation vm \<longleftrightarrow> md_annotations (vm_meta vm) forceDeleteAnnotation = Some ''true''"

definition vmIsAdopted :: "virtual_machine \<Rightarrow> bool" where
  "vmIsAdopted vm \<longleftrightarrow> md_labels (vm_meta vm) AdoptedLabel = Some AdoptedLabelValue"

definition vm_cond :: "ctl_env \<Rightarrow> string \<Rightarrow> cond_status \<Rightarrow> string \<Rightarrow> string \<Rightarrow> virtual_machine \<Rightarrow> virtual_machine" where
  "vm_cond env ty st reason msg vm =
     set_vst (\<lambda>t. t\<lparr>vt_Conditions := SetCondition (ce_now env) ty st reason msg (vt_Conditions t)\<rparr>) vm"

definition VM_updateStatus :: "ctl_env \<Rightarrow> virtual_machine \<Rightarrow> ctl_state \<Rightarrow> ctl_state" where
  "VM_updateStatus env vm s = fst (ctl_write env (WVMStatus vm) s)"

text \<open>The usual ending: write the status, return.\<close>

definition vm_end :: "ctl_env \<Rightarrow> virtual_machine \<Rightarrow> go_error outcome \<Rightarrow> ctl_state \<Rightarrow> ctl_state \<times> go_error outcome" where
  "vm_end env vm res s = (VM_updateStatus env vm s, res)"

fun get_networks :: "ctl_env \<Rightarrow> string \<Rightarrow> vm_network_ref list \<Rightarrow> vm_network option list result" where
  "get_networks env ns [] = Inr []"
| "get_networks env ns (r # rs) =
     (case nr_NetworkRef r of
        None \<Rightarrow> (case get_networks env ns rs of Inl e \<Rightarrow> Inl e | Inr nets \<Rightarrow> Inr (None # nets))
      | Some ref \<Rightarrow>
          (case ce_get_network env (ns, or_name ref) of
             Inl e \<Rightarrow> Inl (WrapError (''failed to get vmnetworkattachment '' @ or_name ref @ '': '') e)
           | Inr n \<Rightarrow> (case get_networks env ns rs of Inl e \<Rightarrow> Inl e | Inr nets \<Rightarrow> Inr (Some n # nets))))"

definition get_dep_image :: "ctl_env \<Rightarrow> virtual_machine \<Rightarrow> ctl_state \<Rightarrow> ctl_state \<times> vm_image option result" where
  "get_dep_image env vm s =
     (case vs_ImageRef (vm_spec vm) of
        None \<Rightarrow> (s, Inr None)
      | Some ref \<Rightarrow>
          (case read_image env (ref_key ref (vm_ns vm)) s of
             (s', Inl e) \<Rightarrow> (s', Inl (WrapError (''failed to get vmimage '' @ or_name ref @ '': '') e))
           | (s', Inr img) \<Rightarrow> (s', Inr (Some img))))"

definition getDependencies ::
  "ctl_env \<Rightarrow> virtual_machine \<Rightarrow> ctl_state
     \<Rightarrow> ctl_state \<times> (provider \<times> vm_class \<times> vm_image option \<times> vm_network option list) result" where
  "getDependencies env vm s =
     (let pref = vs_ProviderRef (vm_spec vm); cref = vs_ClassRef (vm_spec vm)
      in case ce_get_provider env (ref_key pref (vm_ns vm)) of
           Inl e \<Rightarrow>
             (s, Inl (if api_is_not_found e
                      then WrapError (''provider '' @ or_name pref @ '' not found (namespace: ''
                             @ fst (ref_key pref (vm_ns vm)) @ ''): '') e
                      else WrapError (''failed to get provider '' @ or_name pref @ '': '') e))
         | Inr p \<Rightarrow>
             (case ce_get_class env (ops s) (ref_key cref (vm_ns vm)) of
                Inl e \<Rightarrow> (s, Inl (WrapError (''failed to get vmclass '' @ or_name cref @ '': '') e))
              | Inr cls \<Rightarrow>
                  (case get_dep_image env vm s of
                     (s1, Inl e) \<Rightarrow> (s1, Inl e)
                   | (s1, Inr img) \<Rightarrow>
                       (case get_networks env (vm_ns vm) (vs_Networks (vm_spec vm)) of
                          Inl e \<Rightarrow> (s1, Inl e)
                        | Inr nets \<Rightarrow> (s1, Inr (p, cls, img, nets))))))"

definition createVM ::
  "ctl_env \<Rightarrow> virtual_machine \<Rightarrow> provider_instance \<Rightarrow> string \<Rightarrow> vm_class \<Rightarrow> vm_image option \<Rightarrow> vm_network option list
     \<Rightarrow> ctl_state \<Rightarrow> ctl_state \<times> go_error outcome" where
  "createVM env vm inst pname cls img nets s =
     (let refuse = (\<lambda>msg. vm_end env (vm_cond env ConditionProvisioning ConditionFalse ReasonProviderError msg vm)
                            (fail_with (PlainError msg)) s)
      in if vs_ImageRef (vm_spec vm) = None \<and> vs_ImportedDisk (vm_spec vm) = None then
           refuse ''either imageRef or importedDisk must be specified''
         else if vs_ImageRef (vm_spec vm) \<noteq> None \<and> vs_ImportedDisk (vm_spec vm) \<noteq> None then
           refuse ''imageRef and importedDisk are mutually exclusive''
         else
           (case buildCreateRequest env vm pname cls img nets of
              Inl e \<Rightarrow>
                vm_end env (vm_cond env ConditionProvisioning ConditionFalse ReasonProviderError
                  (''Failed to build create request: '' @ error_string e) vm) (requeue_in (5 * second)) s
            | Inr req \<Rightarrow>
                (case pi_Create inst req of
                   Inl e \<Rightarrow>
                     vm_end env (vm_cond env ConditionProvisioning ConditionFalse ReasonProviderError
                       (''Failed to create VM: '' @ error_string e) vm) (requeue_in (5 * second))
                       (ctl_emit (CtlCreate req False) s)
                 | Inr resp \<Rightarrow>
                     (let vm1 = updateCurrentResources (set_vst (\<lambda>t. t\<lparr>vt_ID := cr_ID resp\<rparr>) vm) cls;
                          vm2 = (if cr_TaskRef resp \<noteq> '''' then
                                   vm_cond env ConditionProvisioning ConditionTrue ReasonCreating ''VM creation initiated''
                                     (set_vst (\<lambda>t. t\<lparr>vt_LastTaskRef := cr_TaskRef resp\<rparr>) vm1)
                                 else
                                   vm_cond env ConditionProvisioning ConditionFalse ReasonReconcileSuccess ''VM created'' vm1)
                      in vm_end env vm2 (requeue_in (5 * second)) (ctl_emit (CtlCreate req True) s)))))"

definition power_op_for :: "string \<Rightarrow> power_op option" where
  "power_op_for desired =
     (if desired = ''On'' then Some PowerOpOn
      else if desired = ''Off'' then Some PowerOpOff
      else if desired = ''OffGraceful'' then Some PowerOpShutdownGraceful
      else None)"

definition adjustPowerState ::
  "ctl_env \<Rightarrow> virtual_machine \<Rightarrow> provider_instance \<Rightarrow> string \<Rightarrow> ctl_state \<Rightarrow> ctl_state \<times> go_error outcome" where
  "adjustPowerState env vm inst desired s =
     (case power_op_for desired of
        None \<Rightarrow> (s, requeue_in (5 * second))
      | Some op \<Rightarrow>
          (case pi_Power inst (vm_id vm) op of
             Inl e \<Rightarrow>
               vm_end env (vm_cond env ConditionReady ConditionFalse ReasonProviderError
                 (''Failed to adjust power state: '' @ error_string e) vm) (requeue_in (5 * second))
                 (ctl_emit (CtlPower (vm_id vm) op False) s)
           | Inr task \<Rightarrow>
               vm_end env
                 (if task \<noteq> '''' then
                    vm_cond env ConditionReconfiguring ConditionTrue ReasonUpdating ''Adjusting power state''
                      (set_vst (\<lambda>t. t\<lparr>vt_LastTaskRef := task\<rparr>) vm)
                  else vm)
                 (requeue_in (5 * second)) (ctl_emit (CtlPower (vm_id vm) op True) s)))"

definition reconfigureVM ::
  "ctl_env \<Rightarrow> virtual_machine \<Rightarrow> provider_instance \<Rightarrow> string \<Rightarrow> vm_class \<Rightarrow> vm_image option \<Rightarrow> vm_network option list
     \<Rightarrow> ctl_state \<Rightarrow> ctl_state \<times> go_error outcome" where
  "reconfigureVM env vm inst pname cls img nets s =
     (case buildCreateRequest env vm pname cls img nets of
        Inl e \<Rightarrow> (s, fail_with e)
      | Inr req \<Rightarrow>
          (case pi_Reconfigure inst (vm_id vm) req of
             Inl e \<Rightarrow>
               vm_end env (vm_cond env ConditionReconfiguring ConditionFalse ReasonProviderError
                 (''Failed to reconfigure VM: '' @ error_string e) vm) (requeue_in (5 * second))
                 (ctl_emit (CtlReconfigure (vm_id vm) req False) s)
           | Inr task \<Rightarrow>
               (let vm1 = set_vst (\<lambda>t. t\<lparr>vt_Phase := ''Reconfiguring'', vt_LastReconfigureTime := Some (ce_now env)\<rparr>) vm;
                    vm2 = (if task \<noteq> '''' then
                             vm_cond env ConditionReconfiguring ConditionTrue ReasonUpdating ''VM reconfiguration in progress''
                               (set_vst (\<lambda>t. t\<lparr>vt_ReconfigureTaskRef := task\<rparr>) vm1)
                           else
                             vm_cond env ConditionReady ConditionTrue ReasonReconcileSuccess ''VM is ready''
                               (vm_cond env ConditionReconfiguring ConditionFalse ReasonReconcileSuccess ''VM reconfigured successfully''
                                 (set_vst (\<lambda>t. t\<lparr>vt_Phase := ''Running''\<rparr>) (updateCurrentResources vm1 cls))))
                in vm_end env vm2 (requeue_in (5 * second)) (ctl_emit (CtlReconfigure (vm_id vm) req True) s))))"

definition getRequeueInterval :: "describe_response \<Rightarrow> int" where
  "getRequeueInterval desc =
     (if ds_PowerState desc = ''poweredOn'' \<and> ds_IPs desc = [] then 10 * second
      else if ds_PowerState desc = ''poweredOn'' then 2 * minute
      else if ds_PowerState desc = ''poweredOff'' then 5 * minute
      else if ds_PowerState desc = ''suspended'' then 2 * minute
      else 10 * second)"

text \<open>
  The two task polls of \<open>reconcileVM\<close>: either the call ends, or it goes on with the changed machine.
\<close>

definition poll_last_task ::
  "ctl_env \<Rightarrow> virtual_machine \<Rightarrow> provider_instance \<Rightarrow> ctl_state \<Rightarrow> (ctl_state \<times> go_error outcome) + virtual_machine" where
  "poll_last_task env vm inst s =
     (if vt_LastTaskRef (vm_status vm) = '''' then Inr vm
      else
        (case pi_IsTaskComplete inst (vt_LastTaskRef (vm_status vm)) 1 of
           Inl e \<Rightarrow>
             Inl (vm_end env (vm_cond env ConditionProvisioning ConditionFalse ReasonProviderError
               (''Failed to check task: '' @ error_string e) vm) (requeue_in (5 * second)) s)
         | Inr False \<Rightarrow>
             Inl (vm_end env (vm_cond env ConditionProvisioning ConditionTrue ReasonTaskInProgress ''Task in progress'' vm)
               (requeue_in (5 * second)) s)
         | Inr True \<Rightarrow> Inr (set_vst (\<lambda>t. t\<lparr>vt_LastTaskRef := ''''\<rparr>) vm)))"

definition poll_reconfigure_task ::
  "ctl_env \<Rightarrow> virtual_machine \<Rightarrow> provider_instance \<Rightarrow> vm_class \<Rightarrow> ctl_state
     \<Rightarrow> (ctl_state \<times> go_error outcome) + virtual_machine" where
  "poll_reconfigure_task env vm inst cls s =
     (if vt_ReconfigureTaskRef (vm_status vm) = '''' then Inr vm
      else
        (case pi_IsTaskComplete inst (vt_ReconfigureTaskRef (vm_status vm)) 2 of
           Inl e \<Rightarrow>
             Inl (vm_end env (vm_cond env ConditionReconfiguring ConditionFalse ReasonProviderError
               (''Failed to check reconfigure task: '' @ error_string e) vm) (requeue_in (5 * second)) s)
         | Inr False \<Rightarrow>
             Inl (vm_end env (vm_cond env ConditionReconfiguring ConditionTrue ReasonTaskInProgress ''Reconfiguration in progress'' vm)
               (requeue_in (5 * second)) s)
         | Inr True \<Rightarrow>
             Inr (vm_cond env ConditionReconfiguring ConditionFalse ReasonReconcileSuccess ''VM reconfigured successfully''
               (set_vst (\<lambda>t. t\<lparr>vt_ReconfigureTaskRef := '''', vt_Phase := ''Running''\<rparr>) (updateCurrentResources vm cls)))))"

definition observe :: "describe_response \<Rightarrow> virtual_machine \<Rightarrow> virtual_machine" where
  "observe desc vm =
     set_vst (\<lambda>t. t\<lparr>vt_PowerState := ds_PowerState desc, vt_IPs := ds_IPs desc, vt_ConsoleURL := ds_ConsoleURL desc,
       vt_Provider := ds_ProviderRaw desc\<rparr>) vm"

definition desired_power :: "virtual_machine \<Rightarrow> string" where
  "desired_power vm = (if vs_PowerState (vm_spec vm) = '''' then PowerStateOn else vs_PowerState (vm_spec vm))"

text \<open>From "Ensure VM exists" to the end of \<^verbatim>\<open>reconcileVM\<close>.\<close>

definition converge ::
  "ctl_env \<Rightarrow> virtual_machine \<Rightarrow> provider_instance \<Rightarrow> string \<Rightarrow> vm_class \<Rightarrow> vm_image option \<Rightarrow> vm_network option list
     \<Rightarrow> ctl_state \<Rightarrow> ctl_state \<times> go_error outcome" where
  "converge env vm inst pname cls img nets s =
     (if vm_id vm = '''' then
        if vmIsAdopted vm then
          vm_end env (vm_cond env ConditionProvisioning ConditionTrue ReasonWaitingForDependencies
            ''Waiting for adoption/clone controller to set Status.ID'' vm) (requeue_in (5 * second)) s
        else createVM env vm inst pname cls img nets s
      else
        (case pi_Describe inst (vm_id vm) of
           Inl e \<Rightarrow>
             vm_end env (vm_cond env ConditionReady ConditionFalse ReasonProviderError
               (''Failed to describe VM: '' @ error_string e) vm) (requeue_in (5 * second)) s
         | Inr desc \<Rightarrow>
             if \<not> ds_Exists desc then
               createVM env (set_vst (\<lambda>t. t\<lparr>vt_ID := ''''\<rparr>) vm) inst pname cls img nets s
             else
               (let vm1 = observe desc vm
                in if ds_PowerState desc \<noteq> desired_power vm1 then adjustPowerState env vm1 inst (desired_power vm1) s
                   else if needsReconfigure vm1 cls then reconfigureVM env vm1 inst pname cls img nets s
                   else
                     vm_end env
                       (vm_cond env ConditionProvisioning ConditionFalse ReasonReconcileSuccess ''VM provisioned''
                         (vm_cond env ConditionReady ConditionTrue ReasonReconcileSuccess ''VM is ready'' vm1))
                       (requeue_in (getRequeueInterval desc)) s)))"

text \<open>What \<^verbatim>\<open>reconcileVM\<close> does after the image is ensured.\<close>

definition reconcile_tasks ::
  "ctl_env \<Rightarrow> virtual_machine \<Rightarrow> provider_instance \<Rightarrow> string \<Rightarrow> vm_class \<Rightarrow> vm_image option \<Rightarrow> vm_network option list
     \<Rightarrow> ctl_state \<Rightarrow> ctl_state \<times> go_error outcome" where
  "reconcile_tasks env vm inst pname cls img nets s =
     (case poll_last_task env vm inst s of
        Inl done_ \<Rightarrow> done_
      | Inr vm1 \<Rightarrow>
          (case poll_reconfigure_task env vm1 inst cls s of
             Inl done_ \<Rightarrow> done_
           | Inr vm2 \<Rightarrow> converge env vm2 inst pname cls img nets s))"

definition deps_failed :: "ctl_env \<Rightarrow> virtual_machine \<Rightarrow> go_error \<Rightarrow> ctl_state \<Rightarrow> ctl_state \<times> go_error outcome" where
  "deps_failed env vm e s =
     (if api_is_not_found e \<or> contains_sub ''not found'' (error_string e) then
        vm_end env (vm_cond env ConditionReady ConditionFalse ReasonWaitingForDependencies
          (''Provider '' @ or_name (vs_ProviderRef (vm_spec vm)) @ '' not found'') vm) (requeue_in (30 * second)) s
      else
        vm_end env (vm_cond env ConditionReady ConditionFalse ReasonWaitingForDependencies (error_string e) vm)
          (requeue_in (5 * second)) s)"

definition image_name :: "vm_image option \<Rightarrow> string" where
  "image_name img = (case img of None \<Rightarrow> '''' | Some i \<Rightarrow> md_name (vg_meta i))"

definition reconcileVM :: "ctl_env \<Rightarrow> virtual_machine \<Rightarrow> ctl_state \<Rightarrow> ctl_state \<times> go_error outcome" where
  "reconcileVM env vm0 s =
     (let vm = set_vst (\<lambda>t. t\<lparr>vt_ObservedGeneration := md_generation (vm_meta vm0)\<rparr>) vm0
      in case getDependencies env vm s of
           (s1, Inl e) \<Rightarrow> deps_failed env vm e s1
         | (s1, Inr (p, cls, img, nets)) \<Rightarrow>
             (case ctl_getProviderInstance env p of
                Inl e \<Rightarrow>
                  vm_end env (vm_cond env ConditionReady ConditionFalse ReasonProviderError (error_string e) vm)
                    (requeue_in (5 * second)) s1
              | Inr inst \<Rightarrow>
                  (case EnsureImageOnProvider env vm img p inst s1 of
                     (s2, img', EnsureHold) \<Rightarrow>
                       vm_end env (vm_cond env ConditionReady ConditionFalse ReasonWaitingForDependencies
                         (''Image '' @ image_name img' @ '' not prepared on provider '' @ pv_name p) vm)
                         (requeue_in imagePrepareRequeueAfter) s2
                   | (s2, img', EnsureError e) \<Rightarrow>
                       vm_end env (vm_cond env ConditionReady ConditionFalse ReasonProviderError
                         (''Image prepare failed: '' @ error_string e) vm) (requeue_in (5 * second)) s2
                   | (s2, img', EnsureRequeue) \<Rightarrow>
                       vm_end env (vm_cond env ConditionProvisioning ConditionTrue ReasonTaskInProgress
                         (''Preparing image '' @ image_name img' @ '' on provider '' @ pv_name p) vm)
                         (requeue_in imagePrepareRequeueAfter) s2
                   | (s2, img', EnsureProceed) \<Rightarrow>
                       reconcile_tasks env vm inst (pv_name p) cls img' nets s2)))"

text \<open>The last part of \<^verbatim>\<open>handleDeletion\<close>.\<close>

definition release_vm :: "ctl_env \<Rightarrow> virtual_machine \<Rightarrow> ctl_state \<Rightarrow> ctl_state \<times> go_error outcome" where
  "release_vm env vm s =
     (case RemoveFinalizer (vm_meta vm) VirtualMachineFinalizer of
        None \<Rightarrow> (s, done_result)
      | Some m \<Rightarrow>
          (case ctl_write env (WVMMeta (vm\<lparr>vm_meta := m\<rparr>)) s of
             (s', Some e) \<Rightarrow> (s', fail_with e)
           | (s', None) \<Rightarrow> (s', done_result)))"

definition VM_handleDeletion :: "ctl_env \<Rightarrow> virtual_machine \<Rightarrow> ctl_state \<Rightarrow> ctl_state \<times> go_error outcome" where
  "VM_handleDeletion env vm s =
     (if \<not> HasFinalizer (vm_meta vm) VirtualMachineFinalizer then (s, done_result)
      else if vm_id vm = '''' \<or> or_name (vs_ProviderRef (vm_spec vm)) = '''' then release_vm env vm s
      else
        (case ce_get_provider env (ref_key (vs_ProviderRef (vm_spec vm)) (vm_ns vm)) of
           Inl e \<Rightarrow> if api_is_not_found e then release_vm env vm s else (s, requeue_in (5 * second))
         | Inr p \<Rightarrow>
             (case ctl_getProviderInstance env p of
                Inl e \<Rightarrow> release_vm env vm s
              | Inr inst \<Rightarrow>
                  (case pi_Delete inst (vm_id vm) of
                     Inr task \<Rightarrow> release_vm env vm (ctl_emit (CtlDelete (vm_id vm) True) s)
                   | Inl e \<Rightarrow>
                       (let s' = ctl_emit (CtlDelete (vm_id vm) False) s
                        in if is_not_found_provider (Some e) \<or> hasForceDeleteAnnotation vm then release_vm env vm s'
                           else (s', requeue_in vmDeleteRetryInterval))))))"

definition VM_Reconcile :: "ctl_env \<Rightarrow> nn \<Rightarrow> ctl_state \<Rightarrow> ctl_state \<times> go_error outcome" where
  "VM_Reconcile env key s =
     (case read_vm env key s of
        (s1, Inl e) \<Rightarrow> if api_is_not_found e then (s1, done_result) else (s1, fail_with e)
      | (s1, Inr vm) \<Rightarrow>
          if IsBeingDeleted (vm_meta vm) then VM_handleDeletion env vm s1
          else
            (case AddFinalizer (vm_meta vm) VirtualMachineFinalizer of
               Some m \<Rightarrow>
                 (case ctl_write env (WVMMeta (vm\<lparr>vm_meta := m\<rparr>)) s1 of
                    (s2, Some e) \<Rightarrow> (s2, fail_with e)
                  | (s2, None) \<Rightarrow> (s2, requeue_now))
             | None \<Rightarrow> reconcileVM env vm s1))"

end
