(* ===== verification/VmProps.thy ===== *)
theory VmProps
  imports VmController
begin

text \<open>
  What a reconcile of a VirtualMachine does to the hypervisor: the abstract specification \<open>vm_rpc\<close> of
  the state-changing RPCs a call may issue, and that every call issues at most one and only a
  permitted one; when the finalizer is released; and what is written to the image's status.
\<close>

section \<open>One RPC at most\<close>

text \<open>The RPCs on machines; preparing an image is not one.\<close>

fun machine_rpc :: "ctl_event \<Rightarrow> bool" where
  "machine_rpc (CtlWrite w ok) = False"
| "machine_rpc (CtlPrepare rq ok) = False"
| "machine_rpc _ = True"

text \<open>
  \<open>one_rpc Q s s'\<close>: from \<open>s\<close> to \<open>s'\<close> at most one machine RPC was issued, and it satisfies \<open>Q\<close>.
\<close>

definition one_rpc :: "(ctl_event \<Rightarrow> bool) \<Rightarrow> ctl_state \<Rightarrow> ctl_state \<Rightarrow> bool" where
  "one_rpc Q s s' \<longleftrightarrow>
     (\<exists>es. evs s' = evs s @ es \<and> length (filter machine_rpc es) \<le> 1 \<and> list_all Q (filter machine_rpc es))"

abbreviation no_rpc :: "ctl_state \<Rightarrow> ctl_state \<Rightarrow> bool" where
  "no_rpc \<equiv> grows (\<lambda>e. \<not> machine_rpc e)"

lemma no_rpc_filter: "no_rpc s s' \<Longrightarrow> \<exists>es. evs s' = evs s @ es \<and> filter machine_rpc es = []"
  by (auto simp: grows_def list_all_iff filter_empty_conv)

lemma one_rpc_none: "no_rpc s s' \<Longrightarrow> one_rpc Q s s'"
  using no_rpc_filter by (fastforce simp: one_rpc_def)

lemma one_rpc_before:
  assumes "no_rpc s s1" "one_rpc Q s1 s2"
  shows "one_rpc Q s s2"
proof -
  obtain es where "evs s1 = evs s @ es" "filter machine_rpc es = []" using no_rpc_filter [OF assms(1)] by blast
  then show ?thesis using assms(2) by (fastforce simp: one_rpc_def)
qed

lemma one_rpc_emit:
  assumes "Q e" "no_rpc (ctl_emit e s) s2"
  shows "one_rpc Q s s2"
proof -
  obtain es where "evs s2 = evs (ctl_emit e s) @ es" "filter machine_rpc es = []"
    using no_rpc_filter [OF assms(2)] by blast
  then have "evs s2 = evs s @ (e # es)" by (simp add: ctl_emit_def)
  then show ?thesis using \<open>filter machine_rpc es = []\<close> assms(1) unfolding one_rpc_def
    by (intro exI [of _ "e # es"]) simp
qed

lemma one_rpc_mono: "one_rpc P s s' \<Longrightarrow> (\<And>e. P e \<Longrightarrow> Q e) \<Longrightarrow> one_rpc Q s s'"
  by (fastforce simp: one_rpc_def list_all_iff)

lemma one_rpcD:
  assumes "one_rpc Q s s'"
  shows "length (filter machine_rpc (new_evs s s')) \<le> 1" "e \<in> set (new_evs s s') \<Longrightarrow> machine_rpc e \<Longrightarrow> Q e"
  using assms by (auto simp: one_rpc_def new_evs_def list_all_iff)

lemma vm_end_no_rpc: "no_rpc s (fst (vm_end env vm res s))"
  by (simp add: vm_end_def VM_updateStatus_def grows_write)

lemma one_rpc_end [simp]: "one_rpc Q s (fst (vm_end env vm res s))"
  by (rule one_rpc_none, rule vm_end_no_rpc)

lemma one_rpc_rpc_end: "Q e \<Longrightarrow> one_rpc Q s (fst (vm_end env vm res (ctl_emit e s)))"
  by (rule one_rpc_emit [OF _ vm_end_no_rpc])

section \<open>Which RPC\<close>

text \<open>
  \<open>vm_rpc env vm inst cls e\<close>: reconciling the machine object \<open>vm\<close> on the provider instance \<open>inst\<close> with
  the class \<open>cls\<close> may issue \<open>e\<close>.
\<close>

definition task_over :: "provider_instance \<Rightarrow> string \<Rightarrow> nat \<Rightarrow> bool" where
  "task_over inst task n \<longleftrightarrow> task = '''' \<or> pi_IsTaskComplete inst task n = Inr True"

definition observed :: "provider_instance \<Rightarrow> virtual_machine \<Rightarrow> describe_response \<Rightarrow> bool" where
  "observed inst vm desc \<longleftrightarrow> vm_id vm \<noteq> '''' \<and> pi_Describe inst (vm_id vm) = Inr desc"

definition one_source :: "virtual_machine \<Rightarrow> bool" where
  "one_source vm \<longleftrightarrow> (vs_ImageRef (vm_spec vm) = None) \<noteq> (vs_ImportedDisk (vm_spec vm) = None)"

fun vm_rpc :: "virtual_machine \<Rightarrow> provider_instance \<Rightarrow> vm_class \<Rightarrow> ctl_event \<Rightarrow> bool" where
  "vm_rpc vm inst cls (CtlCreate rq ok) \<longleftrightarrow>
     one_source vm \<and> rq_Name rq = vm_name vm \<and> rq_Class rq = convert_class cls \<and>
     (\<forall>d. vs_ImportedDisk (vm_spec vm) = Some d \<longrightarrow> rq_Image rq = image_of_disk d) \<and>
     ok = (\<exists>r. pi_Create inst rq = Inr r) \<and>
     (if vm_id vm = '''' then \<not> vmIsAdopted vm else (\<exists>desc. observed inst vm desc \<and> \<not> ds_Exists desc))"
| "vm_rpc vm inst cls (CtlPower ident op ok) \<longleftrightarrow>
     ident = vm_id vm \<and> power_op_for (desired_power vm) = Some op \<and>
     (\<exists>desc. observed inst vm desc \<and> ds_Exists desc \<and> ds_PowerState desc \<noteq> desired_power vm)"
| "vm_rpc vm inst cls (CtlReconfigure ident rq ok) \<longleftrightarrow>
     ident = vm_id vm \<and> needsReconfigure vm cls \<and>
     (\<exists>desc. observed inst vm desc \<and> ds_Exists desc \<and> ds_PowerState desc = desired_power vm)"
| "vm_rpc vm inst cls _ \<longleftrightarrow> False"

text \<open>What the permission depends on is not changed by observing, polling and conditions.\<close>

definition same_machine :: "virtual_machine \<Rightarrow> virtual_machine \<Rightarrow> bool" where
  "same_machine vm vm' \<longleftrightarrow> vm_meta vm' = vm_meta vm \<and> vm_spec vm' = vm_spec vm \<and> vm_id vm' = vm_id vm"

lemma same_machineI [intro]:
  "(\<And>t. vt_ID (f t) = vt_ID t) \<Longrightarrow> same_machine vm (set_vst f vm)"
  by (simp add: same_machine_def set_vst_def)

lemma same_machine_refl [simp]: "same_machine vm vm"
  by (simp add: same_machine_def)

lemma same_machine_trans: "same_machine a b \<Longrightarrow> same_machine b c \<Longrightarrow> same_machine a c"
  by (simp add: same_machine_def)

lemma same_machine_more:
  "same_machine vm (vm_cond env ty st rs msg vm)" "same_machine vm (updateCurrentResources vm cls)"
  "same_machine vm (observe desc vm)"
  unfolding vm_cond_def updateCurrentResources_def observe_def by (rule same_machineI, simp)+

lemma vm_rpc_same:
  "same_machine vm vm' \<Longrightarrow> vm_rpc vm' inst cls e \<Longrightarrow> (needsReconfigure vm' cls \<Longrightarrow> needsReconfigure vm cls) \<Longrightarrow> vm_rpc vm inst cls e"
  by (cases e) (auto simp: same_machine_def one_source_def observed_def vmIsAdopted_def desired_power_def split: if_splits)

section \<open>The handlers\<close>

lemma createVM_rpc:
  assumes "if vm_id vm = '''' then \<not> vmIsAdopted vm else (\<exists>desc. observed inst vm desc \<and> \<not> ds_Exists desc)"
    and "vm' = vm \<or> vm' = set_vst (\<lambda>t. t\<lparr>vt_ID := ''''\<rparr>) vm"
  shows "one_rpc (vm_rpc vm inst cls) s (fst (createVM env vm' inst pname cls img nets s))"
proof -
  have v: "vm_spec vm' = vm_spec vm" "vm_name vm' = vm_name vm"
    using assms(2) by (auto simp: set_vst_def)
  have rpc: "vm_rpc vm inst cls (CtlCreate rq (\<exists>r. pi_Create inst rq = Inr r))"
    if "one_source vm" "buildCreateRequest env vm' pname cls img nets = Inr rq" for rq
    using that assms(1) buildCreateRequest_image [OF that(2)] v by (simp add: convert_image_def)
  show ?thesis
  proof (cases "one_source vm")
    case False
    then show ?thesis by (auto simp: createVM_def one_source_def v Let_def)
  next
    case src: True
    show ?thesis
    proof (cases "buildCreateRequest env vm' pname cls img nets")
      case (Inl e)
      then show ?thesis using src by (auto simp: createVM_def one_source_def v Let_def)
    next
      case (Inr rq)
      then show ?thesis using src rpc [OF src Inr]
        by (auto simp: createVM_def one_source_def v Let_def intro: one_rpc_rpc_end split: sum.splits)
    qed
  qed
qed

lemma adjustPowerState_rpc:
  assumes "observed inst vm desc" "ds_Exists desc" "ds_PowerState desc \<noteq> desired_power vm"
  shows "one_rpc (vm_rpc vm inst cls) s (fst (adjustPowerState env vm inst (desired_power vm) s))"
  using assms
  by (auto simp: adjustPowerState_def one_rpc_none intro!: one_rpc_rpc_end split: option.splits sum.splits)

lemma reconfigureVM_rpc:
  assumes "observed inst vm desc" "ds_Exists desc" "ds_PowerState desc = desired_power vm" "needsReconfigure vm cls"
  shows "one_rpc (vm_rpc vm inst cls) s (fst (reconfigureVM env vm inst pname cls img nets s))"
  using assms
  by (auto simp: reconfigureVM_def one_rpc_none Let_def intro!: one_rpc_rpc_end split: sum.splits)

lemma converge_rpc: "one_rpc (vm_rpc vm inst cls) s (fst (converge env vm inst pname cls img nets s))"
proof (cases "vm_id vm = ''''")
  case True
  then show ?thesis using createVM_rpc [of vm inst vm cls s env pname img nets] by (simp add: converge_def)
next
  case False
  show ?thesis
  proof (cases "pi_Describe inst (vm_id vm)")
    case (Inl e)
    then show ?thesis using False by (simp add: converge_def)
  next
    case (Inr desc)
    then have obs: "observed inst vm desc" using False by (simp add: observed_def)
    define vm1 where "vm1 = observe desc vm"
    have vm1: "same_machine vm vm1" "needsReconfigure vm1 cls = needsReconfigure vm cls"
      by (simp_all add: vm1_def same_machine_more)
        (simp add: observe_def set_vst_def needsReconfigure_def getCurrentCPU_def getCurrentMemoryMiB_def desired_cpu_def desired_memory_def)
    then have obs1: "observed inst vm1 desc" using obs by (simp add: same_machine_def observed_def)
    have lift: "one_rpc (vm_rpc vm inst cls) s s'" if "one_rpc (vm_rpc vm1 inst cls) s s'" for s'
      using that vm1 by (auto intro: one_rpc_mono vm_rpc_same)
    show ?thesis
      using Inr False obs createVM_rpc [of vm inst "set_vst (\<lambda>t. t\<lparr>vt_ID := ''''\<rparr>) vm" cls s env pname img nets]
        lift [OF adjustPowerState_rpc [OF obs1, of cls s env]] lift [OF reconfigureVM_rpc [OF obs1, of cls s env pname img nets]]
      by (auto simp: converge_def Let_def vm1_def)
  qed
qed

definition tasks_over :: "provider_instance \<Rightarrow> virtual_machine \<Rightarrow> bool" where
  "tasks_over inst vm \<longleftrightarrow>
     task_over inst (vt_LastTaskRef (vm_status vm)) 1 \<and> task_over inst (vt_ReconfigureTaskRef (vm_status vm)) 2"

lemma poll_last_task_Inr:
  "poll_last_task env vm inst s = Inr vm1 \<Longrightarrow>
   task_over inst (vt_LastTaskRef (vm_status vm)) 1 \<and> same_machine vm vm1 \<and>
   vt_ReconfigureTaskRef (vm_status vm1) = vt_ReconfigureTaskRef (vm_status vm) \<and>
   needsReconfigure vm1 cls = needsReconfigure vm cls"
  by (auto simp: poll_last_task_def task_over_def set_vst_def same_machine_def needsReconfigure_def getCurrentCPU_def
      getCurrentMemoryMiB_def desired_cpu_def desired_memory_def split: if_splits sum.splits bool.splits)

lemma poll_reconfigure_task_Inr:
  assumes "poll_reconfigure_task env vm inst cls s = Inr vm1"
  shows "task_over inst (vt_ReconfigureTaskRef (vm_status vm)) 2 \<and> same_machine vm vm1 \<and>
    (needsReconfigure vm1 cls \<longrightarrow> needsReconfigure vm cls)"
proof (cases "vt_ReconfigureTaskRef (vm_status vm) = ''''")
  case True
  then show ?thesis using assms by (simp add: poll_reconfigure_task_def task_over_def)
next
  case False
  let ?u = "updateCurrentResources vm cls"
  from False assms have d: "pi_IsTaskComplete inst (vt_ReconfigureTaskRef (vm_status vm)) 2 = Inr True"
    and vm1: "vm1 = vm_cond env ConditionReconfiguring ConditionFalse ReasonReconcileSuccess ''VM reconfigured successfully''
      (set_vst (\<lambda>t. t\<lparr>vt_ReconfigureTaskRef := '''', vt_Phase := ''Running''\<rparr>) ?u)"
    by (auto simp: poll_reconfigure_task_def split: sum.splits bool.splits)
  have "needsReconfigure vm1 cls = needsReconfigure ?u cls"
    by (simp add: vm1 vm_cond_def set_vst_def needsReconfigure_def getCurrentCPU_def getCurrentMemoryMiB_def
        desired_cpu_def desired_memory_def)
  then have "\<not> needsReconfigure vm1 cls" by (simp add: updateCurrentResources_settles)
  moreover have "same_machine vm vm1"
    by (simp add: vm1 same_machine_def vm_cond_def set_vst_def updateCurrentResources_def)
  ultimately show ?thesis using d by (simp add: task_over_def)
qed

lemma poll_end_no_rpc:
  "poll_last_task env vm inst s = Inl (s', r) \<Longrightarrow> no_rpc s s'"
  "poll_reconfigure_task env vm inst cls s = Inl (s', r) \<Longrightarrow> no_rpc s s'"
  by (auto simp: poll_last_task_def poll_reconfigure_task_def vm_end_def VM_updateStatus_def
      split: if_splits sum.splits bool.splits intro!: grows_write)

lemma reconcile_tasks_rpc:
  "one_rpc (\<lambda>e. vm_rpc vm inst cls e \<and> tasks_over inst vm) s (fst (reconcile_tasks env vm inst pname cls img nets s))"
proof (cases "poll_last_task env vm inst s")
  case (Inl a)
  then show ?thesis using poll_end_no_rpc(1) [of env vm inst s "fst a" "snd a"]
    by (simp add: reconcile_tasks_def one_rpc_none)
next
  case (Inr vm1)
  note l = poll_last_task_Inr [OF Inr, of cls]
  show ?thesis
  proof (cases "poll_reconfigure_task env vm1 inst cls s")
    case (Inl a)
    then show ?thesis using Inr poll_end_no_rpc(2) [of env vm1 inst cls s "fst a" "snd a"]
      by (simp add: reconcile_tasks_def one_rpc_none)
  next
    case r: (Inr vm2)
    note l2 = poll_reconfigure_task_Inr [OF r]
    have "vm_rpc vm inst cls e" if "vm_rpc vm2 inst cls e" for e
      using that l l2 by (auto intro: vm_rpc_same [of vm vm2] same_machine_trans)
    then have "one_rpc (\<lambda>e. vm_rpc vm inst cls e \<and> tasks_over inst vm) s (fst (converge env vm2 inst pname cls img nets s))"
      using l l2 by (intro one_rpc_mono [OF converge_rpc]) (auto simp: tasks_over_def)
    then show ?thesis using Inr r by (simp add: reconcile_tasks_def)
  qed
qed

section \<open>Image status\<close>

definition available_on :: "string \<Rightarrow> vm_image \<Rightarrow> bool" where
  "available_on pname img \<longleftrightarrow> pm_Available (provider_entry (vg_status img) pname)"

text \<open>
  \<open>merges pname img img'\<close>: \<open>img'\<close> is \<open>img\<close> with at most the entries of provider \<open>pname\<close> changed.
\<close>

definition merges :: "string \<Rightarrow> vm_image \<Rightarrow> vm_image \<Rightarrow> bool" where
  "merges pname img img' \<longleftrightarrow>
     vg_meta img' = vg_meta img \<and> vg_spec img' = vg_spec img \<and>
     (\<forall>q. q \<noteq> pname \<longrightarrow> im_ProviderStatus (vg_status img') q = im_ProviderStatus (vg_status img) q) \<and>
     im_AvailableOn (vg_status img') \<in> {im_AvailableOn (vg_status img), appendDedup (im_AvailableOn (vg_status img)) pname}"

lemmas mutator_defs = mark_missing_def mark_waiting_def mark_preparing_def mark_started_def mark_prepared_def
  set_image_cond_def set_ist_def Let_def

lemma mutators_merge:
  "merges pname img (mark_missing env pname img)" "merges pname img (mark_waiting env pname img)"
  "merges pname img (mark_preparing env img)" "merges pname img (mark_started env pname resp img)"
  "merges pname img (mark_prepared env pname ident path img)"
  by (simp_all add: merges_def mutator_defs)

lemma mutators_available:
  "available_on q (mark_missing env pname img) = available_on q img"
  "available_on q (mark_waiting env pname img) = available_on q img"
  "available_on q (mark_preparing env img) = available_on q img"
  "available_on q (mark_started env pname resp img) \<Longrightarrow> available_on q img"
  "available_on q (mark_prepared env pname ident path img) = (q = pname \<or> available_on q img)"
  by (auto simp: available_on_def mutator_defs provider_entry_def split: if_splits)

text \<open>
  The events of \<open>EnsureImageOnProvider\<close>: writes of the image's status, each made from the object just
  read, and the RPC. \<open>C\<close> is what licenses the provider's entry to become available.
\<close>

fun image_event :: "ctl_env \<Rightarrow> nn \<Rightarrow> string \<Rightarrow> bool \<Rightarrow> ctl_event \<Rightarrow> bool" where
  "image_event env key pname C (CtlWrite (WImageStatus img') ok) \<longleftrightarrow>
     (\<exists>n img. ce_get_image env n key = Inr img \<and> merges pname img img' \<and>
        (\<forall>q. available_on q img' \<longrightarrow> available_on q img \<or> q = pname \<and> C))"
| "image_event env key pname C (CtlPrepare rq ok) \<longleftrightarrow> True"
| "image_event env key pname C _ \<longleftrightarrow> False"

lemma image_event_no_rpc: "image_event env key pname C e \<Longrightarrow> \<not> machine_rpc e"
  by (cases "(env, key, pname, C, e)" rule: image_event.cases) auto

lemma image_event_mono: "image_event env key pname C e \<Longrightarrow> (C \<Longrightarrow> D) \<Longrightarrow> image_event env key pname D e"
  by (cases "(env, key, pname, C, e)" rule: image_event.cases) auto

lemma writeImageStatus_grows:
  assumes "writeImageStatus env img mutate s = (s', r)"
    and "\<And>i. merges pname i (mutate i)" "\<And>i q. available_on q (mutate i) \<Longrightarrow> available_on q i \<or> q = pname \<and> C"
  shows "grows (image_event env (md_namespace (vg_meta img), md_name (vg_meta img)) pname C) s s'"
proof -
  let ?k = "(md_namespace (vg_meta img), md_name (vg_meta img))"
  have "grows (image_event env ?k pname C) s s'" if f: "image_attempt env ?k mutate s = (s', r)" for s s' r
  proof (cases "read_image env ?k s")
    case (Pair s1 x)
    note rd = grows_read_imageE [OF Pair]
    show ?thesis
    proof (cases x)
      case (Inl e)
      then show ?thesis using f Pair rd by (simp add: image_attempt_def)
    next
      case (Inr latest)
      then have "ce_get_image env (ops s) ?k = Inr latest" using Pair by (simp add: read_image_def)
      then have "image_event env ?k pname C (CtlWrite (WImageStatus (mutate latest)) ok)" for ok
        using assms(2,3) by simp blast
      then have "grows (image_event env ?k pname C) s1 (fst (ctl_write env (WImageStatus (mutate latest)) s1))"
        by (rule grows_write)
      moreover have "s' = fst (ctl_write env (WImageStatus (mutate latest)) s1)"
        using f Pair Inr by (auto simp: image_attempt_def split: prod.splits option.splits)
      ultimately show ?thesis using grows_trans [OF rd] by simp
    qed
  qed
  then show ?thesis using assms(1)
    by (auto simp: writeImageStatus_def split: prod.splits sum.splits intro: retry_on_conflict_grows)
qed

lemma fst_after_write: "fst (after_write img res w) = fst w"
  by (auto simp: after_write_def split: prod.splits sum.splits)

text \<open>When the provider says the image is there.\<close>

definition prepare_reported :: "vm_image \<Rightarrow> provider_instance \<Rightarrow> bool" where
  "prepare_reported img inst \<longleftrightarrow>
     (let task = im_PrepareTaskRef (vg_status img)
      in if task \<noteq> '''' then pi_IsTaskComplete inst task 0 = Inr True
         else (\<exists>prepare rq resp. pi_PrepareImage inst = Some prepare \<and> prepare rq = Inr resp \<and> ix_TaskRef resp = ''''))"

abbreviation image_key :: "vm_image \<Rightarrow> nn" where
  "image_key img \<equiv> (md_namespace (vg_meta img), md_name (vg_meta img))"

lemma poll_prepare_grows:
  assumes "im_PrepareTaskRef (vg_status img) \<noteq> ''''"
  shows "grows (image_event env (image_key img) (pv_name p) (prepare_reported img inst)) s (fst (poll_prepare_task env img p inst s))"
  using assms
  by (auto simp: poll_prepare_task_def Let_def fst_after_write markImagePreparing_def markImagePrepared_def
      mutators_merge mutators_available prepare_reported_def split: sum.splits bool.splits
      intro!: writeImageStatus_grows [OF surjective_pairing])

lemma trigger_prepare_grows:
  assumes "im_PrepareTaskRef (vg_status img) = ''''" "pi_PrepareImage inst = Some prepare"
  shows "grows (image_event env (image_key img) (pv_name p) (prepare_reported img inst)) s (fst (trigger_prepare env img p prepare s))"
    (is "grows ?P s _")
proof (cases "is_JSON (vg_spec img)")
  case (Inl e)
  then show ?thesis by (simp add: trigger_prepare_def)
next
  case (Inr json)
  define rq where "rq = \<lparr>iq_ImageJSON = json, iq_TargetName = md_name (vg_meta img), iq_StorageHint = ''''\<rparr>"
  have em: "grows ?P s (ctl_emit (CtlPrepare rq ok) s)" for ok by (rule grows_emit) simp
  show ?thesis
  proof (cases "prepare rq")
    case e: (Inl e)
    then show ?thesis using Inr em [of False] by (simp add: trigger_prepare_def rq_def)
  next
    case r: (Inr resp)
    let ?s1 = "ctl_emit (CtlPrepare rq True) s"
    have "prepare_reported img inst" if "ix_TaskRef resp = ''''"
      using that r assms by (auto simp: prepare_reported_def)
    then have "grows ?P ?s1 (fst (if ix_TaskRef resp \<noteq> '''' then writeImageStatus env img (mark_started env (pv_name p) resp) ?s1
        else markImagePrepared env img (pv_name p) (ix_PreparedImageID resp) (ix_PreparedImagePath resp) ?s1))"
      by (auto simp: markImagePrepared_def mutators_merge mutators_available
          intro!: writeImageStatus_grows [OF surjective_pairing])
    then show ?thesis using grows_trans [OF em [of True]] Inr r
      by (auto simp: trigger_prepare_def rq_def Let_def fst_after_write split: if_splits)
  qed
qed

lemma EnsureImage_grows:
  "grows (image_event env (image_key img) (pv_name p) (prepare_reported img inst)) s
     (fst (EnsureImageOnProvider env vm (Some img) p inst s))"
  using poll_prepare_grows [of img env p inst s] trigger_prepare_grows [of img inst _ env p s]
  by (auto simp: EnsureImageOnProvider_def Let_def split_beta fst_after_write mutators_merge mutators_available
      intro!: writeImageStatus_grows [OF surjective_pairing] split: option.splits)

lemma EnsureImage_no_rpc: "no_rpc s (fst (EnsureImageOnProvider env vm img p inst s))"
proof (cases img)
  case (Some i)
  then show ?thesis using EnsureImage_grows [of env i p inst s vm] by (auto intro: grows_mono dest: image_event_no_rpc)
qed (simp add: EnsureImageOnProvider_def)

section \<open>A reconcile\<close>

definition image_usable :: "provider \<Rightarrow> provider_instance \<Rightarrow> vm_image \<Rightarrow> bool" where
  "image_usable p inst img \<longleftrightarrow>
     pi_PrepareImage inst = None \<or> \<not> providerAdvertisesImageImport p \<or> already_prepared img (pv_name p) \<or>
     \<not> imageSourceNeedsPrepare img \<or>
     (imageMissingAction img \<notin> {ImageMissingActionFail, ImageMissingActionWait} \<and> prepare_reported img inst)"

lemma after_write_proceed: "after_write img res w = (s', img', EnsureProceed) \<Longrightarrow> res = EnsureProceed"
  by (auto simp: after_write_def split: prod.splits sum.splits)

lemma EnsureImage_proceed:
  assumes "EnsureImageOnProvider env vm (Some img) p inst s = (s', img', EnsureProceed)" "vs_ImageRef (vm_spec vm) \<noteq> None"
  shows "image_usable p inst img"
proof -
  have poll: "prepare_reported img inst" if "poll_prepare_task env img p inst s = (s', i, EnsureProceed)"
      "im_PrepareTaskRef (vg_status img) \<noteq> ''''" for i
    using that by (auto simp: poll_prepare_task_def Let_def prepare_reported_def split: sum.splits bool.splits
        dest: after_write_proceed)
  have trig: "prepare_reported img inst" if "trigger_prepare env img p prepare s = (s', i, EnsureProceed)"
      "im_PrepareTaskRef (vg_status img) = ''''" "pi_PrepareImage inst = Some prepare" for i prepare
    using that by (auto simp: trigger_prepare_def Let_def prepare_reported_def split: sum.splits if_splits
        dest: after_write_proceed)
  show ?thesis using assms
    by (auto simp: EnsureImageOnProvider_def image_usable_def Let_def split: option.splits if_splits prod.splits
        dest: after_write_proceed poll trig)
qed

lemma getDependencies_ok:
  assumes "getDependencies env vm s = (s1, Inr (p, cls, img, nets))"
  shows "ce_get_provider env (ref_key (vs_ProviderRef (vm_spec vm)) (vm_ns vm)) = Inr p \<and>
    ce_get_class env (ops s) (ref_key (vs_ClassRef (vm_spec vm)) (vm_ns vm)) = Inr cls \<and>
    (case vs_ImageRef (vm_spec vm) of
       None \<Rightarrow> img = None
     | Some ref \<Rightarrow> (\<exists>i. img = Some i \<and> ce_get_image env (ops s) (ref_key ref (vm_ns vm)) = Inr i))"
  using assms by (auto simp: getDependencies_def get_dep_image_def read_image_def Let_def
      split: sum.splits prod.splits option.splits if_splits)

lemma getDependencies_no_rpc: "no_rpc s (fst (getDependencies env vm s))"
proof -
  have "no_rpc s (fst (get_dep_image env vm s))"
    by (auto simp: get_dep_image_def split: option.splits prod.splits sum.splits dest: grows_read_imageE)
  then show ?thesis
    by (auto simp: getDependencies_def Let_def split: sum.splits prod.splits)
qed

text \<open>
  The specification of a call on the object \<open>vm\<close>, whose dependencies are read at number \<open>n\<close>.
\<close>

definition licensed :: "ctl_env \<Rightarrow> nat \<Rightarrow> virtual_machine \<Rightarrow> ctl_event \<Rightarrow> bool" where
  "licensed env n vm e \<longleftrightarrow>
     (\<exists>p inst cls.
        ce_get_provider env (ref_key (vs_ProviderRef (vm_spec vm)) (vm_ns vm)) = Inr p \<and>
        ctl_getProviderInstance env p = Inr inst \<and>
        ce_get_class env n (ref_key (vs_ClassRef (vm_spec vm)) (vm_ns vm)) = Inr cls \<and>
        tasks_over inst vm \<and> vm_rpc vm inst cls e \<and>
        (\<forall>ref. vs_ImageRef (vm_spec vm) = Some ref \<longrightarrow>
           (\<exists>img. ce_get_image env n (ref_key ref (vm_ns vm)) = Inr img \<and> image_usable p inst img)))"

lemma reconcileVM_rpc: "one_rpc (licensed env (ops s) vm0) s (fst (reconcileVM env vm0 s))"
proof -
  define vm where "vm = set_vst (\<lambda>t. t\<lparr>vt_ObservedGeneration := md_generation (vm_meta vm0)\<rparr>) vm0"
  have same: "same_machine vm0 vm" "tasks_over inst vm0 = tasks_over inst vm"
      "needsReconfigure vm0 cls = needsReconfigure vm cls" for inst cls
    by (simp_all add: vm_def same_machine_def tasks_over_def set_vst_def needsReconfigure_def getCurrentCPU_def
        getCurrentMemoryMiB_def desired_cpu_def desired_memory_def)
  then have spec: "vm_spec vm = vm_spec vm0" "vm_meta vm = vm_meta vm0" by (simp_all add: same_machine_def)
  obtain s1 r where d: "getDependencies env vm s = (s1, r)" by (cases "getDependencies env vm s")
  then have n1: "no_rpc s s1" using getDependencies_no_rpc [of s env vm] by simp
  have early: "fst (reconcileVM env vm0 s) = fst (vm_end env v res s1) \<Longrightarrow> ?thesis" for v res
    using one_rpc_before [OF n1 one_rpc_end] by simp
  show ?thesis
  proof (cases r)
    case (Inl e)
    then show ?thesis using d one_rpc_before [OF n1 one_rpc_end]
      by (simp add: reconcileVM_def vm_def [symmetric] deps_failed_def Let_def)
  next
    case (Inr t)
    obtain p cls img nets where t: "t = (p, cls, img, nets)" by (cases t)
    note dep = getDependencies_ok [OF d [unfolded Inr t]]
    show ?thesis
    proof (cases "ctl_getProviderInstance env p")
      case (Inl e)
      then show ?thesis using d Inr t by (intro early) (simp add: reconcileVM_def vm_def [symmetric])
    next
      case i: (Inr inst)
      obtain s2 img' res where e: "EnsureImageOnProvider env vm img p inst s1 = (s2, img', res)"
        by (cases "EnsureImageOnProvider env vm img p inst s1")
      then have n2: "no_rpc s s2" using EnsureImage_no_rpc [of s1 env vm img p inst] grows_trans [OF n1] by simp
      show ?thesis
      proof (cases "res = EnsureProceed")
        case False
        then show ?thesis using d Inr t i e one_rpc_before [OF n2 one_rpc_end]
          by (cases res) (simp_all add: reconcileVM_def vm_def [symmetric])
      next
        case True
        have "licensed env (ops s) vm0 ev" if "vm_rpc vm inst cls ev \<and> tasks_over inst vm" for ev
        proof -
          have "vm_rpc vm0 inst cls ev" using that same by (auto intro: vm_rpc_same)
          moreover have "\<exists>img. ce_get_image env (ops s) (ref_key ref (vm_ns vm)) = Inr img \<and> image_usable p inst img"
            if "vs_ImageRef (vm_spec vm) = Some ref" for ref
            using that dep e True EnsureImage_proceed by (auto split: option.splits)
          ultimately show ?thesis using that dep i unfolding licensed_def
            by (intro exI [of _ p] exI [of _ inst] exI [of _ cls]) (simp add: spec same(2))
        qed
        then have "one_rpc (licensed env (ops s) vm0) s2 (fst (reconcile_tasks env vm inst (pv_name p) cls img' nets s2))"
          by (rule one_rpc_mono [OF reconcile_tasks_rpc])
        then show ?thesis using one_rpc_before [OF n2] d Inr t i e True
          by (simp add: reconcileVM_def vm_def [symmetric])
      qed
    qed
  qed
qed

text \<open>What a deletion issues.\<close>

definition deletion_rpc :: "virtual_machine \<Rightarrow> ctl_event \<Rightarrow> bool" where
  "deletion_rpc vm e \<longleftrightarrow> (\<exists>ok. e = CtlDelete (vm_id vm) ok) \<and> vm_id vm \<noteq> ''''"

lemma release_vm_no_rpc: "no_rpc s (fst (release_vm env vm s))"
  by (auto simp: release_vm_def split: option.splits prod.splits dest: grows_writeE [where P = "\<lambda>e. \<not> machine_rpc e"])

lemma VM_handleDeletion_rpc: "one_rpc (deletion_rpc vm) s (fst (VM_handleDeletion env vm s))"
  by (auto simp: VM_handleDeletion_def Let_def deletion_rpc_def one_rpc_none release_vm_no_rpc
      intro!: one_rpc_emit [OF _ release_vm_no_rpc] one_rpc_emit [OF _ grows_refl] split: sum.splits)

lemma VM_Reconcile_rpc:
  assumes "ce_get_vm env (ops s) key = Inr vm"
  shows "one_rpc (\<lambda>e. HasFinalizer (vm_meta vm) VirtualMachineFinalizer \<and>
      (if IsBeingDeleted (vm_meta vm) then deletion_rpc vm e else licensed env (Suc (ops s)) vm e)) s (fst (VM_Reconcile env key s))"
proof -
  let ?s1 = "s\<lparr>ops := Suc (ops s)\<rparr>"
  have rd: "read_vm env key s = (?s1, Inr vm)" using assms by (simp add: read_vm_def)
  note before = one_rpc_before [OF grows_read_vmE [OF rd]]
  show ?thesis
  proof (cases "IsBeingDeleted (vm_meta vm)")
    case True
    show ?thesis
    proof (cases "HasFinalizer (vm_meta vm) VirtualMachineFinalizer")
      case False
      then show ?thesis using rd True before [OF one_rpc_none [OF grows_refl]]
        by (simp add: VM_Reconcile_def VM_handleDeletion_def)
    next
      case fin: True
      then show ?thesis using rd True before [OF VM_handleDeletion_rpc [of vm ?s1 env]] by (simp add: VM_Reconcile_def)
    qed
  next
    case False
    show ?thesis
    proof (cases "HasFinalizer (vm_meta vm) VirtualMachineFinalizer")
      case fin: True
      then show ?thesis using rd False before [OF reconcileVM_rpc [of env ?s1 vm]]
        by (simp add: VM_Reconcile_def AddFinalizer_def)
    next
      case fin: False
      obtain s2 r where w: "ctl_write env (WVMMeta (vm\<lparr>vm_meta := add_finalizer VirtualMachineFinalizer (vm_meta vm)\<rparr>)) ?s1 = (s2, r)"
        by (metis surj_pair)
      have "no_rpc ?s1 s2" by (rule grows_writeE [OF w]) simp
      then show ?thesis using rd False fin w before [OF one_rpc_none]
        by (cases r) (simp_all add: VM_Reconcile_def AddFinalizer_def)
    qed
  qed
qed

section \<open>Sample objects\<close>

definition sample_ctl_instance :: provider_instance where
  "sample_ctl_instance = \<lparr>
     pi_Create = (\<lambda>_. Inr \<lparr>cr_ID = ''id-1'', cr_TaskRef = ''''\<rparr>), pi_Reconfigure = (\<lambda>_ _. Inr ''''),
     pi_Describe = (\<lambda>_. Inr \<lparr>ds_Exists = True, ds_PowerState = ''Off'', ds_IPs = [], ds_ConsoleURL = '''', ds_ProviderRaw = Map.empty\<rparr>),
     pi_Power = (\<lambda>_ _. Inr ''''), pi_Delete = (\<lambda>_. Inr ''''), pi_IsTaskComplete = (\<lambda>_ _. Inr True),
     pi_TaskStatus = (\<lambda>_. Inr \<lparr>ts_IsCompleted = True, ts_Error = '''', ts_Message = ''''\<rparr>),
     pi_SnapshotCreate = (\<lambda>_. Inr \<lparr>sr_SnapshotId = ''snap'', sr_Task = None\<rparr>),
     pi_SnapshotDelete = (\<lambda>_ _. Inr ''''),
     pi_ExportDisk = (\<lambda>_. Inl (PlainError '''')), pi_ImportDisk = (\<lambda>_. Inl (PlainError '''')),
     pi_GetCapabilities = None, pi_Clone = Some (\<lambda>_. Inr \<lparr>cl_TargetVmID = ''id-2'', cl_TaskRef = ''''\<rparr>),
     pi_PrepareImage = Some (\<lambda>_. Inr \<lparr>ix_TaskRef = ''task'', ix_PreparedImageID = ''img'', ix_PreparedImagePath = ''''\<rparr>),
     pi_ListVMs = Inr []\<rparr>"

definition sample_ctl_provider :: provider where
  "sample_ctl_provider = \<lparr>pv_meta = new_meta ''ns'' ''p'', pv_Type = ''libvirt'',
     pv_Conditions = [\<lparr>c_type = ''ProviderAvailable'', c_status = ConditionTrue, c_reason = '''', c_message = '''',
                       c_lastTransition = 0, c_observedGeneration = 0\<rparr>],
     pv_ReportedCapabilities = Some \<lparr>rp_SupportsReconfigureOnline = False, rp_SupportsDiskExpansionOnline = False, rp_SupportsSnapshots = False,
       rp_SupportsMemorySnapshots = False, rp_SupportsLinkedClones = False, rp_SupportsImageImport = True,
       rp_SupportedDiskTypes = [], rp_SupportedNetworkTypes = [], rp_SupportsDiskExport = False,
       rp_SupportsDiskImport = False, rp_SupportedExportFormats = [], rp_SupportedImportFormats = [],
       rp_SupportsExportCompression = False, rp_SupportedExportBackends = [], rp_SupportedImportBackends = [],
       rp_SupportedTransferModes = []\<rparr>\<rparr>"

definition sample_class :: vm_class where
  "sample_class = \<lparr>vc_meta = new_meta ''ns'' ''small'', vc_CPU = 2, vc_Memory = 4 * 2 ^ 30, vc_Firmware = ''BIOS'',
     vc_DiskDefaults = None, vc_GuestToolsPolicy = '''', vc_ExtraConfig = Map.empty, vc_ResourceLimits = None,
     vc_PerformanceProfile = None, vc_SecurityProfile = None\<rparr>"

definition sample_image :: vm_image where
  "sample_image = \<lparr>vg_meta = new_meta ''ns'' ''ubuntu'',
     vg_spec = \<lparr>is_VSphere = None,
       is_Libvirt = Some \<lparr>vl_Path = '''', vl_URL = ''https://x/y.img'', vl_Format = ''qcow2'', vl_Checksum = '''', vl_ChecksumType = ''''\<rparr>,
       is_Proxmox = None, is_OnMissing = None, is_JSON = Inr ''{}''\<rparr>,
     vg_status = \<lparr>im_Ready = False, im_Phase = '''', im_Message = '''', im_AvailableOn = [], im_Conditions = [],
       im_LastPrepareTime = None, im_PrepareTaskRef = '''', im_ProviderStatus = Map.empty\<rparr>\<rparr>"

definition sample_machine :: virtual_machine where
  "sample_machine = \<lparr>
     vm_meta = (new_meta ''ns'' ''vm'')\<lparr>md_finalizers := [VirtualMachineFinalizer]\<rparr>,
     vm_spec = empty_vm_spec\<lparr>vs_ProviderRef := \<lparr>or_name = ''p'', or_namespace = ''''\<rparr>,
       vs_ClassRef := \<lparr>or_name = ''small'', or_namespace = ''''\<rparr>,
       vs_ImportedDisk := Some \<lparr>id_DiskID = ''d'', id_Path = ''/d.qcow2'', id_Format = ''qcow2'', id_Source = ''migration'',
         id_MigrationRef = None, id_SizeGiB = 0\<rparr>\<rparr>,
     vm_status = empty_vm_status\<rparr>"

definition sample_ctl_env :: "virtual_machine \<Rightarrow> ctl_env" where
  "sample_ctl_env vm = \<lparr>ce_now = 0, ce_get_vm = (\<lambda>_ _. Inr vm), ce_get_image = (\<lambda>_ _. Inr sample_image),
     ce_get_class = (\<lambda>_ _. Inr sample_class), ce_get_network = (\<lambda>_. Inl (PlainError '''')),
     ce_get_provider = (\<lambda>_. Inr sample_ctl_provider), ce_get_secret = (\<lambda>_. Inl (PlainError '''')),
     ce_get_snapshot = Inl (PlainError ''''), ce_get_clone = Inl (PlainError ''''), ce_list_vms = Inr [],
     ce_get_adoption = Inr (sample_ctl_provider, None), ce_parse_filter = (\<lambda>_. Inl (PlainError '''')),
     ce_regexp = (\<lambda>_. Inl (PlainError '''')), ce_write_err = (\<lambda>_ _. None),
     ce_resolver = Some (\<lambda>_. Inr sample_ctl_instance), ce_SetStatusCondition = (\<lambda>c cs. c # cs), ce_retry_steps = 5,
     ce_json_class = (\<lambda>_. Inr ''{}''), ce_json_ref = (\<lambda>_. Inr ''{}'')\<rparr>"

definition ctl_start :: ctl_state where
  "ctl_start = \<lparr>ops = 0, evs = []\<rparr>"

lemmas ctl_samples = sample_ctl_instance_def sample_ctl_provider_def sample_class_def sample_image_def sample_machine_def
  sample_ctl_env_def ctl_start_def new_meta_def empty_vm_spec_def empty_vm_status_def no_ref_def

section \<open>Properties\<close>



text \<open>
  C6. The finalizer of a machine whose provider can be reached is released only after a Delete of the
  recorded identifier was issued in the same call and succeeded, found nothing, or was overridden by
  the force-delete annotation; a Delete that fails otherwise keeps the finalizer and is retried after
  15 seconds.
\<close>

theorem vm_delete_before_release:
  assumes "ce_get_vm env (ops s) key = Inr vm" "IsBeingDeleted (vm_meta vm)" "HasFinalizer (vm_meta vm) VirtualMachineFinalizer"
    and "vm_id vm \<noteq> ''''" "or_name (vs_ProviderRef (vm_spec vm)) \<noteq> ''''"
    and "ce_get_provider env (ref_key (vs_ProviderRef (vm_spec vm)) (vm_ns vm)) = Inr p" "ctl_getProviderInstance env p = Inr inst"
    and "VM_Reconcile env key s = (s', out)"
  shows "case pi_Delete inst (vm_id vm) of
      Inr task \<Rightarrow> \<exists>ok. new_evs s s' =
        [CtlDelete (vm_id vm) True, CtlWrite (WVMMeta (vm\<lparr>vm_meta := remove_finalizer VirtualMachineFinalizer (vm_meta vm)\<rparr>)) ok]
    | Inl e \<Rightarrow>
        if is_not_found_provider (Some e) \<or> hasForceDeleteAnnotation vm then \<exists>ok. new_evs s s' =
          [CtlDelete (vm_id vm) False, CtlWrite (WVMMeta (vm\<lparr>vm_meta := remove_finalizer VirtualMachineFinalizer (vm_meta vm)\<rparr>)) ok]
        else new_evs s s' = [CtlDelete (vm_id vm) False] \<and> out = requeue_in (15 * second)"
proof -
  have rel: "evs (fst (release_vm env vm t)) = evs t @
      [CtlWrite (WVMMeta (vm\<lparr>vm_meta := remove_finalizer VirtualMachineFinalizer (vm_meta vm)\<rparr>))
        (ce_write_err env (ops t) (WVMMeta (vm\<lparr>vm_meta := remove_finalizer VirtualMachineFinalizer (vm_meta vm)\<rparr>)) = None)]" for t
    using assms(3) by (simp add: release_vm_def RemoveFinalizer_def ctl_write_def ctl_emit_def Let_def split: option.splits)
  have "s' = fst (VM_handleDeletion env vm (s\<lparr>ops := Suc (ops s)\<rparr>))" "out = snd (VM_handleDeletion env vm (s\<lparr>ops := Suc (ops s)\<rparr>))"
    using assms(1,2,8) by (simp_all add: VM_Reconcile_def read_vm_def)
  then show ?thesis
    using assms(3-7) by (auto simp: VM_handleDeletion_def new_evs_def rel ctl_emit_def Let_def vmDeleteRetryInterval_def split: sum.splits)
qed

definition sample_deleted :: virtual_machine where
  "sample_deleted = sample_machine\<lparr>vm_meta := (vm_meta sample_machine)\<lparr>md_deleting := True\<rparr>,
     vm_status := (vm_status sample_machine)\<lparr>vt_ID := ''id-1''\<rparr>\<rparr>"

theorem vm_delete_before_release_witness:
  "\<exists>vm' ok. new_evs ctl_start (fst (VM_Reconcile (sample_ctl_env sample_deleted) (''ns'', ''vm'') ctl_start)) =
     [CtlDelete ''id-1'' True, CtlWrite (WVMMeta vm') ok]"
proof -
  have "pi_Delete sample_ctl_instance ''id-1'' = Inr ''''" by (simp add: sample_ctl_instance_def)
  then show ?thesis
    using vm_delete_before_release [where env = "sample_ctl_env sample_deleted" and s = ctl_start and key = "(''ns'', ''vm'')"
        and vm = sample_deleted and p = sample_ctl_provider and inst = sample_ctl_instance, OF _ _ _ _ _ _ _ surjective_pairing]
    by (auto simp: sample_deleted_def sample_machine_def sample_ctl_env_def IsBeingDeleted_def HasFinalizer_def
        ctl_getProviderInstance_def empty_vm_spec_def empty_vm_status_def)
qed

text \<open>
  Machines on different providers that share an image do not overwrite each other's record of it:
  every status write of the image-preparation flow is made from an image object read in the same
  attempt and changes nothing but the entry of the machine's own provider, whose name is added to
  \<^verbatim>\<open>AvailableOn\<close> at most once; and the flow turns a provider's entry available only when that provider's
  instance reported the preparation done.
\<close>

lemma image_status_is_merged:
  assumes "CtlWrite (WImageStatus img') ok \<in> set (new_evs s (fst (EnsureImageOnProvider env vm (Some img) p inst s)))"
  shows "\<exists>n img0. ce_get_image env n (image_key img) = Inr img0 \<and> merges (pv_name p) img0 img' \<and>
    (distinct (im_AvailableOn (vg_status img0)) \<longrightarrow> distinct (im_AvailableOn (vg_status img'))) \<and>
    (\<forall>q. available_on q img' \<longrightarrow> available_on q img0 \<or> q = pv_name p \<and> prepare_reported img inst)"
proof -
  from grows_evs [OF EnsureImage_grows assms] obtain n img0 where
    "ce_get_image env n (image_key img) = Inr img0" "merges (pv_name p) img0 img'"
    "\<forall>q. available_on q img' \<longrightarrow> available_on q img0 \<or> q = pv_name p \<and> prepare_reported img inst"
    by auto
  moreover from this(2) have "distinct (im_AvailableOn (vg_status img0)) \<Longrightarrow> distinct (im_AvailableOn (vg_status img'))"
    by (auto simp: merges_def)
  ultimately show ?thesis by blast
qed

definition sample_image_vm :: virtual_machine where
  "sample_image_vm = sample_machine\<lparr>vm_spec := (vm_spec sample_machine)\<lparr>vs_ImportedDisk := None,
     vs_ImageRef := Some \<lparr>or_name = ''ubuntu'', or_namespace = ''''\<rparr>\<rparr>\<rparr>"

lemma ensure_sample_event:
  "\<exists>img'. CtlWrite (WImageStatus img') True \<in> set (new_evs ctl_start (fst (EnsureImageOnProvider (sample_ctl_env sample_image_vm)
     sample_image_vm (Some sample_image) sample_ctl_provider sample_ctl_instance ctl_start)))"
  by (simp add: EnsureImageOnProvider_def sample_image_vm_def ctl_samples providerAdvertisesImageImport_def already_prepared_def
      imageSourceNeedsPrepare_def imageMissingAction_def ImageMissingActionImport_def ImageMissingActionFail_def
      ImageMissingActionWait_def trigger_prepare_def Let_def ctl_emit_def writeImageStatus_def numeral_eq_Suc image_attempt_def
      read_image_def ctl_write_def after_write_def new_evs_def)

end
