(* ===== verification/VmFindings.thy ===== *)
theory VmFindings
  imports VmProps
begin

text \<open>
  Behaviour of the VirtualMachine controller that its comments or the API documentation do not
  describe, stated for every environment in which it occurs.
\<close>

text \<open>
  A machine under deletion whose provider exists but cannot be resolved to an instance loses its
  finalizer without any Delete being issued, force-delete annotation or not: the machine on the
  hypervisor is left behind.
\<close>

lemma vm_orphaned_by_unresolved_provider:
  assumes "ce_get_vm env (ops s) key = Inr vm" "IsBeingDeleted (vm_meta vm)" "HasFinalizer (vm_meta vm) VirtualMachineFinalizer"
    and "ce_get_provider env (ref_key (vs_ProviderRef (vm_spec vm)) (vm_ns vm)) = Inr p" "ctl_getProviderInstance env p = Inl e"
  shows "\<exists>ok. new_evs s (fst (VM_Reconcile env key s)) =
    [CtlWrite (WVMMeta (vm\<lparr>vm_meta := remove_finalizer VirtualMachineFinalizer (vm_meta vm)\<rparr>)) ok]"
  using assms
  by (auto simp: VM_Reconcile_def read_vm_def VM_handleDeletion_def release_vm_def RemoveFinalizer_def ctl_write_def
      ctl_emit_def new_evs_def Let_def split: option.splits)

text \<open>
  The override of a machine's CPU count is recorded but never sent: the Create request carries the
  CPU count of the class, while the status written after it records the override as the count in
  force, so that no later reconcile sees anything to correct.
\<close>

lemma cpu_override_is_not_sent:
  assumes "Option.bind (vs_Resources (vm_spec vm)) rs_CPU = Some c" "one_source vm"
    and "buildCreateRequest env vm pname cls img nets = Inr rq" "pi_Create inst rq = Inr resp"
  shows "\<exists>vm' ok. new_evs s (fst (createVM env vm inst pname cls img nets s)) = [CtlCreate rq True, CtlWrite (WVMStatus vm') ok] \<and>
    kc_CPU (rq_Class rq) = vc_CPU cls \<and> getCurrentCPU vm' = c \<and> \<not> needsReconfigure vm' cls"
proof -
  let ?u = "updateCurrentResources (set_vst (\<lambda>t. t\<lparr>vt_ID := cr_ID resp\<rparr>) vm) cls"
  define vm' where "vm' = (if cr_TaskRef resp \<noteq> '''' then
      vm_cond env ConditionProvisioning ConditionTrue ReasonCreating ''VM creation initiated''
        (set_vst (\<lambda>t. t\<lparr>vt_LastTaskRef := cr_TaskRef resp\<rparr>) ?u)
    else vm_cond env ConditionProvisioning ConditionFalse ReasonReconcileSuccess ''VM created'' ?u)"
  have keep: "getCurrentCPU vm' = getCurrentCPU ?u" "needsReconfigure vm' cls = needsReconfigure ?u cls"
    by (simp_all add: vm'_def vm_cond_def set_vst_def getCurrentCPU_def getCurrentMemoryMiB_def needsReconfigure_def
        desired_cpu_def desired_memory_def)
  have "getCurrentCPU ?u = c"
    using assms(1) by (simp add: updateCurrentResources_def set_vst_def getCurrentCPU_def desired_cpu_def override_def)
  moreover have "kc_CPU (rq_Class rq) = vc_CPU cls"
    using buildCreateRequest_image [OF assms(3)] by (simp add: convert_class_def)
  moreover have "\<exists>ok. new_evs s (fst (createVM env vm inst pname cls img nets s)) = [CtlCreate rq True, CtlWrite (WVMStatus vm') ok]"
    using assms(2-4) by (auto simp: createVM_def one_source_def Let_def vm'_def vm_end_def VM_updateStatus_def ctl_write_def
        ctl_emit_def new_evs_def)
  ultimately show ?thesis using keep updateCurrentResources_settles by metis
qed

text \<open>
  A machine asked to shut down gracefully never settles: the provider reports it as ''Off'', which is
  not the desired ''OffGraceful'', so every reconcile issues another graceful shutdown, and none
  marks the machine ready.
\<close>

lemma graceful_shutdown_repeats:
  assumes "vs_PowerState (vm_spec vm) = ''OffGraceful''" "vm_id vm \<noteq> ''''"
    and "pi_Describe inst (vm_id vm) = Inr desc" "ds_Exists desc" "ds_PowerState desc = ''Off''"
  shows "\<exists>vm' ok ok'. new_evs s (fst (converge env vm inst pname cls img nets s)) =
      [CtlPower (vm_id vm) PowerOpShutdownGraceful ok, CtlWrite (WVMStatus vm') ok'] \<and>
    (IsConditionTrue (vt_Conditions (vm_status vm')) ConditionReady \<longrightarrow> IsConditionTrue (vt_Conditions (vm_status vm)) ConditionReady)"
  using assms
  by (auto simp: converge_def observe_def desired_power_def adjustPowerState_def power_op_for_def set_vst_def vm_end_def
      VM_updateStatus_def ctl_write_def ctl_emit_def new_evs_def Let_def vm_cond_def ConditionReady_def ConditionReconfiguring_def
      split: sum.splits)

text \<open>
  A preparation task is polled on whichever provider the next machine uses. When the image's
  import was started on provider \<open>a\<close>, a machine on another provider that knows the same task reference
  and calls it complete marks the image available on its own provider and goes on to the create step, although no
  preparation was ever requested there; the task of \<open>a\<close> is forgotten.
\<close>

lemma prepare_task_of_another_provider:
  assumes "img = mark_started env0 a started img0" "ix_TaskRef started \<noteq> ''''" "a \<noteq> pv_name p" "\<not> available_on (pv_name p) img0"
    and "vs_ImageRef (vm_spec vm) \<noteq> None" "pi_PrepareImage inst = Some prepare" "providerAdvertisesImageImport p"
    and "imageSourceNeedsPrepare img0" "imageMissingAction img0 = ImageMissingActionImport"
    and "pi_IsTaskComplete inst (ix_TaskRef started) 0 = Inr True"
    and "ce_get_image env (ops s) (image_key img) = Inr img" "\<And>n w. ce_write_err env n w = None" "0 < ce_retry_steps env"
  shows "\<exists>s' img'. EnsureImageOnProvider env vm (Some img) p inst s = (s', Some img', EnsureProceed) \<and>
    new_evs s s' = [CtlWrite (WImageStatus img') True] \<and> available_on (pv_name p) img' \<and> im_PrepareTaskRef (vg_status img') = ''''"
proof -
  have keep: "vg_spec img = vg_spec img0" "im_PrepareTaskRef (vg_status img) = ix_TaskRef started"
      "im_ProviderStatus (vg_status img) (pv_name p) = im_ProviderStatus (vg_status img0) (pv_name p)"
    using assms(1,3) by (simp_all add: mark_started_def set_image_cond_def set_ist_def Let_def)
  have ap: "\<not> already_prepared img (pv_name p)"
    using assms(4) keep(3) by (auto simp: already_prepared_def available_on_def provider_entry_def split: option.splits)
  have np: "imageSourceNeedsPrepare img" "imageMissingAction img = ImageMissingActionImport"
    using assms(8,9) unfolding imageSourceNeedsPrepare_def imageMissingAction_def keep(1) by auto
  have ne: "ImageMissingActionImport \<noteq> ImageMissingActionFail" "ImageMissingActionImport \<noteq> ImageMissingActionWait"
    by (simp_all add: ImageMissingActionImport_def ImageMissingActionFail_def ImageMissingActionWait_def)
  obtain m where m: "ce_retry_steps env = Suc m" using assms(13) by (cases "ce_retry_steps env") auto
  define img' where "img' = mark_prepared env (pv_name p) '''' '''' img"
  have st: "img\<lparr>vg_status := vg_status img'\<rparr> = img'"
    by (simp add: img'_def mark_prepared_def set_image_cond_def set_ist_def)
  define s' where "s' = ctl_emit (CtlWrite (WImageStatus img') True) (s\<lparr>ops := Suc (Suc (ops s))\<rparr>)"
  have "writeImageStatus env img (mark_prepared env (pv_name p) '''' '''') s = (s', Inr img')"
    using assms(11,12) m st by (simp add: writeImageStatus_def image_attempt_def read_image_def ctl_write_def Let_def img'_def s'_def)
  then have "EnsureImageOnProvider env vm (Some img) p inst s = (s', Some img', EnsureProceed)"
    using assms(2,5-7,10) ap np ne keep(2)
    by (auto simp: EnsureImageOnProvider_def poll_prepare_task_def markImagePrepared_def after_write_def Let_def)
  moreover have "available_on (pv_name p) img'" by (simp add: img'_def mutators_available)
  moreover have "im_PrepareTaskRef (vg_status img') = ''''"
    by (simp add: img'_def mark_prepared_def set_image_cond_def set_ist_def)
  ultimately show ?thesis by (auto simp: s'_def new_evs_def ctl_emit_def)
qed

end
