(* ===== verification/VmSnapshot.thy ===== *)
theory VmSnapshot
  imports CtlModel
begin

text \<open>
  The VMSnapshot reconciler (\<^verbatim>\<open>internal/controller/vmsnapshot_controller.go\<close>). A call that dereferences a
  nil pointer is \<open>None\<close>: only \<open>handleRetention\<close> can. Events of the recorder are left out.
\<close>

section \<open>Model\<close>

definition snapshot_finalizer :: string where "snapshot_finalizer = ''snapshot.infra.virtrigaud.io/finalizer''"

definition set_sst :: "(snapshot_status \<Rightarrow> snapshot_status) \<Rightarrow> vm_snapshot \<Rightarrow> vm_snapshot" where
  "set_sst f z = z\<lparr>vz_status := f (vz_status z)\<rparr>"

definition snap_cond :: "ctl_env \<Rightarrow> string \<Rightarrow> cond_status \<Rightarrow> string \<Rightarrow> string \<Rightarrow> vm_snapshot \<Rightarrow> vm_snapshot" where
  "snap_cond env ty st reason msg z =
     set_sst (\<lambda>t. t\<lparr>sn_Conditions := util_set (ce_now env) ty st reason msg (sn_Conditions t)\<rparr>) z"

definition Snap_updateStatus :: "ctl_env \<Rightarrow> vm_snapshot \<Rightarrow> ctl_state \<Rightarrow> ctl_state \<times> go_error option" where
  "Snap_updateStatus env z s = ctl_write env (WSnapStatus z) s"

text \<open>Write the status, ignore its error; and write it, return its error.\<close>

definition snap_end :: "ctl_env \<Rightarrow> vm_snapshot \<Rightarrow> go_error outcome \<Rightarrow> ctl_state \<Rightarrow> ctl_state \<times> go_error outcome" where
  "snap_end env z res s = (fst (Snap_updateStatus env z s), res)"

definition snap_commit :: "ctl_env \<Rightarrow> vm_snapshot \<Rightarrow> go_error outcome \<Rightarrow> ctl_state \<Rightarrow> ctl_state \<times> go_error outcome" where
  "snap_commit env z res s =
     (case Snap_updateStatus env z s of (s', Some e) \<Rightarrow> (s', fail_with e) | (s', None) \<Rightarrow> (s', res))"

definition snap_ready :: "ctl_env \<Rightarrow> vm_snapshot \<Rightarrow> vm_snapshot" where
  "snap_ready env z =
     snap_cond env ''Creating'' ConditionFalse ''Created'' ''Snapshot creation completed''
       (snap_cond env ''Ready'' ConditionTrue ''Created'' ''Snapshot created successfully''
         (set_sst (\<lambda>t. t\<lparr>sn_Phase := ''Ready'', sn_Message := ''Snapshot created successfully'', sn_TaskRef := ''''\<rparr>) z))"

definition buildSnapshotCreateRequest :: "vm_snapshot \<Rightarrow> virtual_machine \<Rightarrow> snapshot_create_request" where
  "buildSnapshotCreateRequest z vm =
     (case vz_SnapshotConfig z of
        Some c \<Rightarrow>
          \<lparr>sq_VmId = vm_id vm, sq_NameHint = (if sf_Name c = '''' then md_name (vz_meta z) else sf_Name c),
           sq_Description = sf_Description c, sq_IncludeMemory = sf_IncludeMemory c, sq_Quiesce = sf_Quiesce c\<rparr>
      | None \<Rightarrow>
          \<lparr>sq_VmId = vm_id vm, sq_NameHint = md_name (vz_meta z), sq_Description = '''', sq_IncludeMemory = False,
           sq_Quiesce = True\<rparr>)"

definition blockSnapshot :: "ctl_env \<Rightarrow> vm_snapshot \<Rightarrow> string \<Rightarrow> ctl_state \<Rightarrow> ctl_state \<times> go_error outcome" where
  "blockSnapshot env z msg s =
     snap_end env
       (snap_cond env ''Creating'' ConditionFalse ''UnsupportedByProvider'' msg
         (snap_cond env ''Ready'' ConditionFalse ''UnsupportedByProvider'' msg
           (set_sst (\<lambda>t. t\<lparr>sn_Phase := ''Failed'', sn_Message := msg\<rparr>) z)))
       done_result s"

text \<open>The message that blocks, if the gate blocks.\<close>

definition gateSnapshotCreate :: "bool \<Rightarrow> provider_instance \<Rightarrow> snapshot_create_request \<Rightarrow> string option" where
  "gateSnapshotCreate enforce inst req =
     (if \<not> enforce then None
      else
        (case pi_GetCapabilities inst of
           None \<Rightarrow> None
         | Some (Inl e) \<Rightarrow> None
         | Some (Inr caps) \<Rightarrow>
             if \<not> cap_SupportsSnapshots caps then Some ''Provider does not support snapshots''
             else if sq_IncludeMemory req \<and> \<not> cap_SupportsMemorySnapshots caps
               then Some ''Provider does not support memory-inclusive snapshots''
             else None))"

definition snap_create_failed :: "ctl_env \<Rightarrow> vm_snapshot \<Rightarrow> go_error \<Rightarrow> vm_snapshot" where
  "snap_create_failed env z e =
     (let msg = ''Snapshot creation failed: '' @ error_string e
      in snap_cond env ''Creating'' ConditionFalse ''ProviderError'' msg
           (snap_cond env ''Ready'' ConditionFalse ''ProviderError'' msg
             (set_sst (\<lambda>t. t\<lparr>sn_Phase := ''Failed'', sn_Message := ''Failed to create snapshot: '' @ error_string e\<rparr>) z)))"

definition createSnapshot ::
  "ctl_env \<Rightarrow> bool \<Rightarrow> vm_snapshot \<Rightarrow> virtual_machine \<Rightarrow> ctl_state \<Rightarrow> ctl_state \<times> go_error outcome" where
  "createSnapshot env enforce z0 vm s =
     (let z = snap_cond env ''Creating'' ConditionTrue ''Creating'' ''Snapshot creation initiated''
                (set_sst (\<lambda>t. t\<lparr>sn_Phase := ''Creating'', sn_Message := ''Creating snapshot''\<rparr>) z0);
          unready = (\<lambda>msg. snap_end env (snap_cond env ''Ready'' ConditionFalse ''ProviderError'' msg z) (requeue_in (30 * second)) s)
      in case ce_get_provider env (ref_key (vs_ProviderRef (vm_spec vm)) (vm_ns vm)) of
           Inl e \<Rightarrow> unready (''Failed to get provider: '' @ error_string e)
         | Inr p \<Rightarrow>
             (case ctl_getProviderInstance env p of
                Inl e \<Rightarrow> unready (''Failed to get provider instance: '' @ error_string e)
              | Inr inst \<Rightarrow>
                  (let req = buildSnapshotCreateRequest z vm
                   in case gateSnapshotCreate enforce inst req of
                        Some msg \<Rightarrow> blockSnapshot env z msg s
                      | None \<Rightarrow>
                          (case pi_SnapshotCreate inst req of
                             Inl e \<Rightarrow>
                               snap_end env (snap_create_failed env z e) (requeue_in (5 * minute))
                                 (ctl_emit (CtlSnapCreate req False) s)
                           | Inr resp \<Rightarrow>
                               (let z1 = set_sst (\<lambda>t. t\<lparr>sn_SnapshotID := sr_SnapshotId resp, sn_CreationTime := Some (ce_now env)\<rparr>) z;
                                    task = (case sr_Task resp of None \<Rightarrow> '''' | Some i \<Rightarrow> i);
                                    z2 = (if task \<noteq> '''' then set_sst (\<lambda>t. t\<lparr>sn_TaskRef := task\<rparr>) z1 else snap_ready env z1)
                                in snap_commit env z2 (if task \<noteq> '''' then requeue_in (10 * second) else done_result)
                                     (ctl_emit (CtlSnapCreate req True) s))))))"

definition checkSnapshotCreation ::
  "ctl_env \<Rightarrow> vm_snapshot \<Rightarrow> virtual_machine \<Rightarrow> ctl_state \<Rightarrow> ctl_state \<times> go_error outcome" where
  "checkSnapshotCreation env z vm s =
     (if sn_TaskRef (vz_status z) = '''' then snap_commit env (snap_ready env z) done_result s
      else
        (case ce_get_provider env (ref_key (vs_ProviderRef (vm_spec vm)) (vm_ns vm)) of
           Inl e \<Rightarrow> (s, requeue_in (30 * second))
         | Inr p \<Rightarrow>
             (case ctl_getProviderInstance env p of
                Inl e \<Rightarrow> (s, requeue_in (30 * second))
              | Inr inst \<Rightarrow>
                  (case pi_TaskStatus inst (sn_TaskRef (vz_status z)) of
                     Inl e \<Rightarrow> (s, requeue_in (10 * second))
                   | Inr t \<Rightarrow>
                       if \<not> ts_IsCompleted t then (s, requeue_in (10 * second))
                       else if ts_Error t \<noteq> '''' then
                         snap_commit env
                           (snap_cond env ''Creating'' ConditionFalse ''ProviderError'' ''Snapshot creation failed''
                             (snap_cond env ''Ready'' ConditionFalse ''ProviderError'' (''Snapshot creation failed: '' @ ts_Error t)
                               (set_sst (\<lambda>st. st\<lparr>sn_Phase := ''Failed'', sn_TaskRef := '''',
                                 sn_Message := ''Snapshot creation failed: '' @ ts_Error t\<rparr>) z)))
                           done_result s
                       else snap_commit env (snap_ready env z) done_result s))))"

definition delete_snapshot_object :: "ctl_env \<Rightarrow> vm_snapshot \<Rightarrow> ctl_state \<Rightarrow> ctl_state \<times> go_error outcome" where
  "delete_snapshot_object env z s =
     (case ctl_write env (WSnapDelete z) s of (s', Some e) \<Rightarrow> (s', fail_with e) | (s', None) \<Rightarrow> (s', done_result))"

text \<open>The second check of \<^verbatim>\<open>handleRetention\<close>, on the machine.\<close>

definition retain_with_vm :: "ctl_env \<Rightarrow> vm_snapshot \<Rightarrow> ctl_state \<Rightarrow> ctl_state \<times> go_error outcome" where
  "retain_with_vm env z s =
     (case vz_RetentionPolicy z of
        Some rp \<Rightarrow>
          if rt_DeleteOnVMDelete rp then
            (case read_vm env (md_namespace (vz_meta z), vz_VMRef z) s of
               (s1, Inl e) \<Rightarrow> if api_is_not_found e then delete_snapshot_object env z s1 else (s1, requeue_in hour)
             | (s1, Inr vm) \<Rightarrow> (s1, requeue_in hour))
          else (s, requeue_in hour)
      | None \<Rightarrow> (s, requeue_in hour))"

definition handleRetention :: "ctl_env \<Rightarrow> vm_snapshot \<Rightarrow> ctl_state \<Rightarrow> (ctl_state \<times> go_error outcome) option" where
  "handleRetention env z s =
     (case Option.bind (vz_RetentionPolicy z) rt_MaxAge of
        None \<Rightarrow> Some (retain_with_vm env z s)
      | Some maxAge \<Rightarrow>
          (case sn_CreationTime (vz_status z) of
             None \<Rightarrow> None
           | Some t \<Rightarrow>
               Some (if maxAge < time_sub (ce_now env) t then delete_snapshot_object env z s else retain_with_vm env z s)))"

text \<open>The provider call of \<^verbatim>\<open>handleDeletion\<close>: \<open>Inl\<close> when the deletion has to wait.\<close>

definition delete_on_provider ::
  "ctl_env \<Rightarrow> vm_snapshot \<Rightarrow> virtual_machine \<Rightarrow> ctl_state \<Rightarrow> ctl_state \<times> (go_error outcome + unit)" where
  "delete_on_provider env z vm s =
     (if sn_SnapshotID (vz_status z) = '''' \<or> vm_id vm = '''' then (s, Inr ())
      else
        (case ce_get_provider env (ref_key (vs_ProviderRef (vm_spec vm)) (vm_ns vm)) of
           Inl e \<Rightarrow> (s, Inl (requeue_in (30 * second)))
         | Inr p \<Rightarrow>
             (case ctl_getProviderInstance env p of
                Inl e \<Rightarrow> (s, Inl (requeue_in (30 * second)))
              | Inr inst \<Rightarrow>
                  (case pi_SnapshotDelete inst (vm_id vm) (sn_SnapshotID (vz_status z)) of
                     Inl e \<Rightarrow> (ctl_emit (CtlSnapDelete (vm_id vm) (sn_SnapshotID (vz_status z)) False) s, Inr ())
                   | Inr task \<Rightarrow> (ctl_emit (CtlSnapDelete (vm_id vm) (sn_SnapshotID (vz_status z)) True) s, Inr ())))))"

definition release_snapshot :: "ctl_env \<Rightarrow> vm_snapshot \<Rightarrow> ctl_state \<Rightarrow> ctl_state \<times> go_error outcome" where
  "release_snapshot env z s =
     (case ctl_write env (WSnapMeta (z\<lparr>vz_meta := remove_finalizer snapshot_finalizer (vz_meta z)\<rparr>)) s of
        (s', Some e) \<Rightarrow> (s', fail_with e)
      | (s', None) \<Rightarrow> (s', done_result))"

definition Snap_handleDeletion :: "ctl_env \<Rightarrow> vm_snapshot \<Rightarrow> ctl_state \<Rightarrow> ctl_state \<times> go_error outcome" where
  "Snap_handleDeletion env z0 s =
     (let z = snap_cond env ''Deleting'' ConditionTrue ''Deleting'' ''Snapshot deletion initiated''
                (set_sst (\<lambda>t. t\<lparr>sn_Phase := ''Deleting''\<rparr>) z0);
          s1 = fst (Snap_updateStatus env z s)
      in case read_vm env (md_namespace (vz_meta z), vz_VMRef z) s1 of
           (s2, Inl e) \<Rightarrow> if api_is_not_found e then release_snapshot env z s2 else (s2, requeue_in (30 * second))
         | (s2, Inr vm) \<Rightarrow>
             (case delete_on_provider env z vm s2 of
                (s3, Inl res) \<Rightarrow> (s3, res)
              | (s3, Inr _) \<Rightarrow> release_snapshot env z s3))"

text \<open>The dispatch on the phase, once the machine is there.\<close>

definition snap_phase ::
  "ctl_env \<Rightarrow> bool \<Rightarrow> vm_snapshot \<Rightarrow> virtual_machine \<Rightarrow> ctl_state \<Rightarrow> (ctl_state \<times> go_error outcome) option" where
  "snap_phase env enforce z vm s =
     (if vm_id vm = '''' then
        Some (snap_end env (snap_cond env ''Creating'' ConditionTrue ''Creating'' ''Waiting for VM to be provisioned'' z)
          (requeue_in (30 * second)) s)
      else if sn_Phase (vz_status z) = '''' then Some (createSnapshot env enforce z vm s)
      else if sn_Phase (vz_status z) = ''Creating'' then Some (checkSnapshotCreation env z vm s)
      else if sn_Phase (vz_status z) = ''Ready'' then handleRetention env z s
      else if sn_Phase (vz_status z) = ''Failed'' then Some (s, requeue_in (5 * minute))
      else Some (s, requeue_in (30 * second)))"

definition Snap_Reconcile :: "ctl_env \<Rightarrow> bool \<Rightarrow> ctl_state \<Rightarrow> (ctl_state \<times> go_error outcome) option" where
  "Snap_Reconcile env enforce s =
     (case ce_get_snapshot env of
        Inl e \<Rightarrow> Some (s, if api_is_not_found e then done_result else fail_with e)
      | Inr z \<Rightarrow>
          if md_deleting (vz_meta z) then Some (Snap_handleDeletion env z s)
          else if \<not> HasFinalizer (vz_meta z) snapshot_finalizer then
            Some (case ctl_write env (WSnapMeta (z\<lparr>vz_meta := add_finalizer snapshot_finalizer (vz_meta z)\<rparr>)) s of
                    (s', Some e) \<Rightarrow> (s', fail_with e)
                  | (s', None) \<Rightarrow> (s', requeue_now))
          else
            (case read_vm env (md_namespace (vz_meta z), vz_VMRef z) s of
               (s1, Inl e) \<Rightarrow>
                 Some (snap_end env (snap_cond env ''Ready'' ConditionFalse ''ProviderError''
                   (''Referenced VM not found: '' @ error_string e) z) (requeue_in (30 * second)) s1)
             | (s1, Inr vm) \<Rightarrow> snap_phase env enforce z vm s1))"

end
