(* ===== verification/SnapshotProps.thy ===== *)
theory SnapshotProps
  imports VmSnapshot VmProps
begin

text \<open>
  The life cycle of a VMSnapshot: which phase changes and which RPCs a reconcile may make, and the path
  on which a snapshot that was never taken is reported ready.
\<close>

section \<open>Specification\<close>

definition snap_edge :: "string \<Rightarrow> string \<Rightarrow> bool" where
  "snap_edge a b \<longleftrightarrow>
     b = a \<or> b = ''Deleting'' \<or> a = '''' \<and> b \<in> {''Creating'', ''Ready'', ''Failed''} \<or> a = ''Creating'' \<and> b \<in> {''Ready'', ''Failed''}"

definition expired :: "ctl_env \<Rightarrow> vm_snapshot \<Rightarrow> bool" where
  "expired env z \<longleftrightarrow>
     (\<exists>rp age t. vz_RetentionPolicy z = Some rp \<and> rt_MaxAge rp = Some age \<and> sn_CreationTime (vz_status z) = Some t \<and>
        age < time_sub (ce_now env) t)"

fun snap_event :: "ctl_env \<Rightarrow> bool \<Rightarrow> vm_snapshot \<Rightarrow> ctl_event \<Rightarrow> bool" where
  "snap_event env enforce z (CtlWrite (WSnapStatus z') ok) \<longleftrightarrow>
     z' = z\<lparr>vz_status := vz_status z'\<rparr> \<and> snap_edge (sn_Phase (vz_status z)) (sn_Phase (vz_status z')) \<and>
     (sn_Phase (vz_status z') = ''Deleting'' \<longrightarrow> md_deleting (vz_meta z) \<or> sn_Phase (vz_status z) = ''Deleting'')"
| "snap_event env enforce z (CtlWrite (WSnapMeta z') ok) \<longleftrightarrow>
     HasFinalizer (vz_meta z') snapshot_finalizer = (\<not> md_deleting (vz_meta z))"
| "snap_event env enforce z (CtlWrite (WSnapDelete z') ok) \<longleftrightarrow>
     z' = z \<and> sn_Phase (vz_status z) = ''Ready'' \<and>
     (expired env z \<or> (\<exists>rp n e. vz_RetentionPolicy z = Some rp \<and> rt_DeleteOnVMDelete rp \<and>
        ce_get_vm env n (md_namespace (vz_meta z), vz_VMRef z) = Inl e \<and> api_is_not_found e))"
| "snap_event env enforce z (CtlSnapCreate rq ok) \<longleftrightarrow>
     \<not> md_deleting (vz_meta z) \<and> sn_Phase (vz_status z) = '''' \<and>
     (\<exists>n vm p inst. ce_get_vm env n (md_namespace (vz_meta z), vz_VMRef z) = Inr vm \<and> vm_id vm \<noteq> '''' \<and>
        ce_get_provider env (ref_key (vs_ProviderRef (vm_spec vm)) (vm_ns vm)) = Inr p \<and>
        ctl_getProviderInstance env p = Inr inst \<and> gateSnapshotCreate enforce inst rq = None \<and>
        sq_VmId rq = vm_id vm)"
| "snap_event env enforce z (CtlSnapDelete vmid ident ok) \<longleftrightarrow>
     md_deleting (vz_meta z) \<and> ident = sn_SnapshotID (vz_status z) \<and> ident \<noteq> '''' \<and>
     (\<exists>n vm. ce_get_vm env n (md_namespace (vz_meta z), vz_VMRef z) = Inr vm \<and> vmid = vm_id vm \<and> vmid \<noteq> '''')"
| "snap_event env enforce z _ \<longleftrightarrow> False"

lemma snap_cond_keeps [simp]:
  "vz_meta (snap_cond env ty st rs msg z) = vz_meta z" "vz_VMRef (snap_cond env ty st rs msg z) = vz_VMRef z"
  "sn_Phase (vz_status (snap_cond env ty st rs msg z)) = sn_Phase (vz_status z)"
  "sn_SnapshotID (vz_status (snap_cond env ty st rs msg z)) = sn_SnapshotID (vz_status z)"
  "(snap_cond env ty st rs msg z)\<lparr>vz_status := t\<rparr> = z\<lparr>vz_status := t\<rparr>"
  by (simp_all add: snap_cond_def set_sst_def)

lemma set_sst_keeps [simp]:
  "vz_meta (set_sst f z) = vz_meta z" "vz_VMRef (set_sst f z) = vz_VMRef z" "vz_status (set_sst f z) = f (vz_status z)"
  "(set_sst f z)\<lparr>vz_status := t\<rparr> = z\<lparr>vz_status := t\<rparr>"
  by (simp_all add: set_sst_def)

lemma snap_ready_keeps [simp]:
  "sn_Phase (vz_status (snap_ready env z)) = ''Ready''" "(snap_ready env z)\<lparr>vz_status := t\<rparr> = z\<lparr>vz_status := t\<rparr>"
  by (simp_all add: snap_ready_def)

text \<open>A changed snapshot differs from the original in its status only.\<close>

definition only_status :: "vm_snapshot \<Rightarrow> vm_snapshot \<Rightarrow> bool" where
  "only_status z z' \<longleftrightarrow> (\<exists>t. z' = z\<lparr>vz_status := t\<rparr>)"

lemma only_status_keeps [simp]:
  "only_status z z' \<Longrightarrow> only_status z (snap_cond env ty st rs msg z')"
  "only_status z z' \<Longrightarrow> only_status z (set_sst f z')"
  "only_status z z' \<Longrightarrow> only_status z (snap_ready env z')"
  "only_status z z"
  by (auto simp: only_status_def snap_ready_def snap_cond_def set_sst_def intro: exI [of _ "vz_status z"])

lemma snap_status_event:
  assumes "only_status z z'" "snap_edge (sn_Phase (vz_status z)) (sn_Phase (vz_status z'))"
    and "sn_Phase (vz_status z') = ''Deleting'' \<longrightarrow> md_deleting (vz_meta z) \<or> sn_Phase (vz_status z) = ''Deleting''"
  shows "grows (snap_event env enforce z) s (fst (Snap_updateStatus env z' s))"
  unfolding Snap_updateStatus_def by (rule grows_write) (use assms in \<open>auto simp: only_status_def\<close>)

lemma fst_snap_commit: "fst (snap_commit env z res s) = fst (Snap_updateStatus env z s)"
  by (auto simp: snap_commit_def split: prod.splits option.splits)

lemma fst_snap_end: "fst (snap_end env z res s) = fst (Snap_updateStatus env z s)"
  by (simp add: snap_end_def)

lemmas snap_endings = fst_snap_commit fst_snap_end

section \<open>The handlers\<close>

lemma createSnapshot_events:
  assumes "\<not> md_deleting (vz_meta z)" "sn_Phase (vz_status z) = ''''" "vm_id vm \<noteq> ''''"
    and "ce_get_vm env n (md_namespace (vz_meta z), vz_VMRef z) = Inr vm"
  shows "grows (snap_event env enforce z) s (fst (createSnapshot env enforce z vm s))"
proof -
  define z1 where "z1 = snap_cond env ''Creating'' ConditionTrue ''Creating'' ''Snapshot creation initiated''
    (set_sst (\<lambda>t. t\<lparr>sn_Phase := ''Creating'', sn_Message := ''Creating snapshot''\<rparr>) z)"
  have z1: "only_status z z1" "sn_Phase (vz_status z1) = ''Creating''" by (simp_all add: z1_def)
  have st: "grows (snap_event env enforce z) t (fst (Snap_updateStatus env z' t))"
    if "only_status z z'" "sn_Phase (vz_status z') \<in> {''Creating'', ''Ready'', ''Failed''}" for z' t
    using that assms(2) by (intro snap_status_event) (auto simp: snap_edge_def)
  have em: "grows (snap_event env enforce z) s (ctl_emit (CtlSnapCreate (buildSnapshotCreateRequest z1 vm) ok) s)"
    if "ce_get_provider env (ref_key (vs_ProviderRef (vm_spec vm)) (vm_ns vm)) = Inr p" "ctl_getProviderInstance env p = Inr inst"
      "gateSnapshotCreate enforce inst (buildSnapshotCreateRequest z1 vm) = None" for ok p inst
  proof (rule grows_emit)
    have "sq_VmId (buildSnapshotCreateRequest z1 vm) = vm_id vm" by (simp add: buildSnapshotCreateRequest_def split: option.splits)
    then show "snap_event env enforce z (CtlSnapCreate (buildSnapshotCreateRequest z1 vm) ok)"
      using that assms by simp blast
  qed
  show ?thesis using z1
    by (auto simp: createSnapshot_def z1_def [symmetric] Let_def snap_endings blockSnapshot_def snap_create_failed_def
        intro!: st split: sum.splits option.splits intro: grows_trans [OF em st])
qed

lemma checkSnapshotCreation_events:
  assumes "sn_Phase (vz_status z) = ''Creating''"
  shows "grows (snap_event env enforce z) s (fst (checkSnapshotCreation env z vm s))"
  using assms
  by (auto simp: checkSnapshotCreation_def snap_endings snap_edge_def intro!: snap_status_event split: sum.splits)

lemma delete_snapshot_object_events:
  assumes "snap_event env enforce z (CtlWrite (WSnapDelete z) True)"
  shows "grows (snap_event env enforce z) s (fst (delete_snapshot_object env z s))"
proof -
  have "fst (delete_snapshot_object env z s) = fst (ctl_write env (WSnapDelete z) s)"
    by (auto simp: delete_snapshot_object_def split: prod.splits option.splits)
  then show ?thesis using assms by (auto intro!: grows_write)
qed

lemma retain_with_vm_events:
  assumes "sn_Phase (vz_status z) = ''Ready''"
  shows "grows (snap_event env enforce z) s (fst (retain_with_vm env z s))"
proof -
  have "grows (snap_event env enforce z) t (fst (delete_snapshot_object env z t))"
    if "vz_RetentionPolicy z = Some rp" "rt_DeleteOnVMDelete rp" "api_is_not_found e"
      "ce_get_vm env n (md_namespace (vz_meta z), vz_VMRef z) = Inl e" for rp e n t
    using that assms by (intro delete_snapshot_object_events) auto
  moreover have "grows (snap_event env enforce z) s (s\<lparr>ops := Suc (ops s)\<rparr>)" by (simp add: grows_def)
  ultimately show ?thesis
    by (auto simp: retain_with_vm_def read_vm_def split: option.splits sum.splits intro: grows_trans)
qed

lemma handleRetention_events:
  assumes "sn_Phase (vz_status z) = ''Ready''" "handleRetention env z s = Some (s', out)"
  shows "grows (snap_event env enforce z) s s'"
proof -
  have ex: "grows (snap_event env enforce z) s (fst (delete_snapshot_object env z s))" if "expired env z"
    using that assms(1) by (intro delete_snapshot_object_events) simp
  have rt: "grows (snap_event env enforce z) s (fst (retain_with_vm env z s))" by (rule retain_with_vm_events [OF assms(1)])
  show ?thesis using assms(2) ex rt
    by (auto simp: handleRetention_def expired_def bind_eq_Some_conv split: option.splits if_splits)
qed

lemma release_snapshot_events:
  assumes "md_deleting (vz_meta z)"
  shows "grows (snap_event env enforce z) s (fst (release_snapshot env z' s))"
proof -
  have "fst (release_snapshot env z' s)
      = fst (ctl_write env (WSnapMeta (z'\<lparr>vz_meta := remove_finalizer snapshot_finalizer (vz_meta z')\<rparr>)) s)"
    by (auto simp: release_snapshot_def split: prod.splits option.splits)
  then show ?thesis using assms by (auto intro!: grows_write)
qed

lemma delete_on_provider_events:
  assumes "md_deleting (vz_meta z)" "sn_SnapshotID (vz_status z') = sn_SnapshotID (vz_status z)"
    and "ce_get_vm env n (md_namespace (vz_meta z), vz_VMRef z) = Inr vm"
  shows "grows (snap_event env enforce z) s (fst (delete_on_provider env z' vm s))"
  using assms by (auto simp: delete_on_provider_def split: sum.splits intro!: grows_emit) blast+

lemma Snap_handleDeletion_events:
  assumes "md_deleting (vz_meta z)"
  shows "grows (snap_event env enforce z) s (fst (Snap_handleDeletion env z s))"
proof -
  define z1 where "z1 = snap_cond env ''Deleting'' ConditionTrue ''Deleting'' ''Snapshot deletion initiated''
    (set_sst (\<lambda>t. t\<lparr>sn_Phase := ''Deleting''\<rparr>) z)"
  have z1: "only_status z z1" "sn_Phase (vz_status z1) = ''Deleting''" "sn_SnapshotID (vz_status z1) = sn_SnapshotID (vz_status z)"
      "vz_meta z1 = vz_meta z" "vz_VMRef z1 = vz_VMRef z"
    by (simp_all add: z1_def)
  let ?s1 = "fst (Snap_updateStatus env z1 s)"
  let ?s2 = "?s1\<lparr>ops := Suc (ops ?s1)\<rparr>"
  have g2: "grows (snap_event env enforce z) s ?s2"
    using snap_status_event [OF z1(1), of env enforce s] z1(2) assms by (auto simp: snap_edge_def grows_def)
  show ?thesis
  proof (cases "ce_get_vm env (ops ?s1) (md_namespace (vz_meta z), vz_VMRef z)")
    case (Inl e)
    then show ?thesis using g2 grows_trans [OF g2 release_snapshot_events [OF assms]]
      by (auto simp: Snap_handleDeletion_def z1_def [symmetric] Let_def read_vm_def z1)
  next
    case (Inr vm)
    note d = grows_trans [OF g2 delete_on_provider_events [OF assms z1(3) Inr]]
    then show ?thesis using Inr grows_trans [OF d release_snapshot_events [OF assms]]
      by (auto simp: Snap_handleDeletion_def z1_def [symmetric] Let_def read_vm_def z1 split: prod.splits sum.splits)
  qed
qed

lemma Snap_Reconcile_events:
  assumes "ce_get_snapshot env = Inr z" "Snap_Reconcile env enforce s = Some (s', out)"
  shows "grows (snap_event env enforce z) s s'"
proof -
  consider (del) "md_deleting (vz_meta z)" | (fin) "\<not> md_deleting (vz_meta z)" "\<not> HasFinalizer (vz_meta z) snapshot_finalizer"
    | (go) "\<not> md_deleting (vz_meta z)" "HasFinalizer (vz_meta z) snapshot_finalizer" by blast
  then show ?thesis
  proof cases
    case del
    then show ?thesis using assms Snap_handleDeletion_events [OF del, of env enforce s] by (auto simp: Snap_Reconcile_def)
  next
    case fin
    then have "s' = fst (ctl_write env (WSnapMeta (z\<lparr>vz_meta := add_finalizer snapshot_finalizer (vz_meta z)\<rparr>)) s)"
      using assms by (auto simp: Snap_Reconcile_def split: prod.splits option.splits)
    then show ?thesis using fin by (auto intro!: grows_write)
  next
    case go
    let ?s1 = "s\<lparr>ops := Suc (ops s)\<rparr>"
    have g1: "grows (snap_event env enforce z) s ?s1" by (simp add: grows_def)
    have st: "grows (snap_event env enforce z) s (fst (Snap_updateStatus env (snap_cond env ty c rs msg z) ?s1))" for ty c rs msg
      by (rule grows_trans [OF g1], rule snap_status_event) (auto simp: snap_edge_def)
    show ?thesis
    proof (cases "ce_get_vm env (ops s) (md_namespace (vz_meta z), vz_VMRef z)")
      case (Inl e)
      then show ?thesis using assms go st by (auto simp: Snap_Reconcile_def read_vm_def snap_end_def)
    next
      case (Inr vm)
      then have r: "snap_phase env enforce z vm ?s1 = Some (s', out)"
        using assms go by (simp add: Snap_Reconcile_def read_vm_def)
      then show ?thesis
        using st grows_trans [OF g1 createSnapshot_events [OF go(1) _ _ Inr]] grows_trans [OF g1 checkSnapshotCreation_events]
          grows_trans [OF g1 handleRetention_events] g1
        by (auto simp: snap_phase_def snap_end_def split: if_splits) (metis fst_conv)+
    qed
  qed
qed

section \<open>Properties\<close>

lemma util_IsConditionTrue_set:
  "util_IsConditionTrue (util_set now ty st rs msg cs) ty' \<longleftrightarrow> (if ty' = ty then st = ConditionTrue else util_IsConditionTrue cs ty')"
proof -
  have "util_IsConditionTrue cs ty \<longleftrightarrow> util_conds.status_of cs ty = Some ConditionTrue" for cs ty
    by (auto simp: util_IsConditionTrue_def util_conds.status_of_def split: option.splits)
  then show ?thesis by (simp add: util_conds.status_of_set)
qed

definition sample_snapshot :: vm_snapshot where
  "sample_snapshot = \<lparr>vz_meta = (new_meta ''ns'' ''snap'')\<lparr>md_finalizers := [snapshot_finalizer]\<rparr>, vz_VMRef = ''vm'',
     vz_SnapshotConfig = None, vz_RetentionPolicy = Some \<lparr>rt_MaxAge = Some hour, rt_DeleteOnVMDelete = False\<rparr>,
     vz_status = \<lparr>sn_SnapshotID = '''', sn_Phase = '''', sn_Message = '''', sn_CreationTime = None, sn_TaskRef = '''',
       sn_Conditions = []\<rparr>\<rparr>"

definition sample_running :: virtual_machine where
  "sample_running = sample_machine\<lparr>vm_status := (vm_status sample_machine)\<lparr>vt_ID := ''id-1''\<rparr>\<rparr>"

definition sample_snap_env :: ctl_env where
  "sample_snap_env = (sample_ctl_env sample_running)\<lparr>ce_get_snapshot := Inr sample_snapshot\<rparr>"



text \<open>
  A snapshot that was never taken is reported ready. When the provider of the machine cannot be read, the
  first reconcile writes the phase Creating without any RPC; the next one, reading that status, finds
  no task and writes the phase Ready with the condition Ready true, still without any RPC and
  without a snapshot identifier or creation time; and with a maximal age set, the reconcile after
  that dereferences the missing creation time.
\<close>

lemma snapshot_ready_without_rpc:
  assumes "ce_get_snapshot env = Inr z" "\<not> md_deleting (vz_meta z)" "HasFinalizer (vz_meta z) snapshot_finalizer"
    and "sn_Phase (vz_status z) = ''''" "sn_TaskRef (vz_status z) = ''''" "sn_CreationTime (vz_status z) = None"
    and "vz_RetentionPolicy z = Some rp" "rt_MaxAge rp = Some age"
    and "\<And>n. ce_get_vm env n (md_namespace (vz_meta z), vz_VMRef z) = Inr vm" "vm_id vm \<noteq> ''''"
    and "ce_get_provider env (ref_key (vs_ProviderRef (vm_spec vm)) (vm_ns vm)) = Inl e"
    and "env' = env\<lparr>ce_get_snapshot := Inr z1\<rparr>" "env'' = env\<lparr>ce_get_snapshot := Inr z2\<rparr>"
    and "new_evs s (fst (the (Snap_Reconcile env enforce s))) = [CtlWrite (WSnapStatus z1) True]"
    and "new_evs s1 (fst (the (Snap_Reconcile env' enforce s1))) = [CtlWrite (WSnapStatus z2) True]"
  shows "sn_Phase (vz_status z2) = ''Ready'' \<and> util_IsConditionTrue (sn_Conditions (vz_status z2)) ''Ready'' \<and>
    sn_SnapshotID (vz_status z2) = sn_SnapshotID (vz_status z) \<and> Snap_Reconcile env'' enforce s2 = None"
proof -
  have "z1 = snap_cond env ''Ready'' ConditionFalse ''ProviderError'' (''Failed to get provider: '' @ error_string e)
      (snap_cond env ''Creating'' ConditionTrue ''Creating'' ''Snapshot creation initiated''
        (set_sst (\<lambda>t. t\<lparr>sn_Phase := ''Creating'', sn_Message := ''Creating snapshot''\<rparr>) z))"
    using assms(1-4,9-11,14)
    by (simp add: Snap_Reconcile_def read_vm_def snap_phase_def createSnapshot_def Let_def snap_end_def Snap_updateStatus_def
        ctl_write_def ctl_emit_def new_evs_def)
  then have z1: "vz_meta z1 = vz_meta z" "vz_VMRef z1 = vz_VMRef z" "sn_Phase (vz_status z1) = ''Creating''"
      "sn_TaskRef (vz_status z1) = ''''" "sn_CreationTime (vz_status z1) = None" "vz_RetentionPolicy z1 = Some rp"
      "sn_SnapshotID (vz_status z1) = sn_SnapshotID (vz_status z)"
    using assms(5-7) by (simp_all add: snap_cond_def set_sst_def)
  have "z2 = snap_ready env' z1"
    using assms(2,3,9,10,12,15) z1
    by (simp add: Snap_Reconcile_def read_vm_def snap_phase_def checkSnapshotCreation_def snap_commit_def Snap_updateStatus_def
        ctl_write_def ctl_emit_def new_evs_def Let_def split: option.splits)
  then have z2: "vz_meta z2 = vz_meta z" "vz_VMRef z2 = vz_VMRef z" "sn_Phase (vz_status z2) = ''Ready''"
      "sn_CreationTime (vz_status z2) = None" "vz_RetentionPolicy z2 = Some rp"
      "sn_SnapshotID (vz_status z2) = sn_SnapshotID (vz_status z)" "util_IsConditionTrue (sn_Conditions (vz_status z2)) ''Ready''"
    using z1 by (simp_all add: snap_ready_def snap_cond_def set_sst_def util_IsConditionTrue_set)
  have "Snap_Reconcile env'' enforce s2 = None"
    using assms(2,3,8-10,13) z2 by (simp add: Snap_Reconcile_def read_vm_def snap_phase_def handleRetention_def)
  then show ?thesis using z2 by simp
qed

end
