(* ===== verification/VmClone.thy ===== *)
theory VmClone
  imports CtlModel
begin

text \<open>
  The VMClone reconciler (\<^verbatim>\<open>internal/controller/vmclone_controller.go\<close>).
\<close>

section \<open>Model\<close>

definition vmCloneFinalizer :: string where "vmCloneFinalizer = ''clone.infra.virtrigaud.io/finalizer''"
definition CloneAnnotationClonedFrom :: string where "CloneAnnotationClonedFrom = ''virtrigaud.io/cloned-from''"
definition CloneAnnotationClone :: string where "CloneAnnotationClone = ''virtrigaud.io/clone''"
definition CloneTypeFullClone :: string where "CloneTypeFullClone = ''FullClone''"
definition CloneTypeLinkedClone :: string where "CloneTypeLinkedClone = ''LinkedClone''"

definition set_cst :: "(clone_status \<Rightarrow> clone_status) \<Rightarrow> vm_clone \<Rightarrow> vm_clone" where
  "set_cst f c = c\<lparr>cn_status := f (cn_status c)\<rparr>"

definition clone_cond :: "ctl_env \<Rightarrow> string \<Rightarrow> cond_status \<Rightarrow> string \<Rightarrow> string \<Rightarrow> vm_clone \<Rightarrow> vm_clone" where
  "clone_cond env ty st reason msg c =
     set_cst (\<lambda>t. t\<lparr>cs_Conditions := util_set (ce_now env) ty st reason msg (cs_Conditions t)\<rparr>) c"

definition Clone_updateStatus :: "ctl_env \<Rightarrow> vm_clone \<Rightarrow> ctl_state \<Rightarrow> ctl_state \<times> go_error option" where
  "Clone_updateStatus env c s = ctl_write env (WCloneStatus c) s"

definition markFailed :: "ctl_env \<Rightarrow> vm_clone \<Rightarrow> string \<Rightarrow> string \<Rightarrow> ctl_state \<Rightarrow> ctl_state \<times> go_error outcome" where
  "markFailed env c reason msg s =
     (fst (Clone_updateStatus env
        (clone_cond env ''Failed'' ConditionTrue reason msg
          (clone_cond env ''Ready'' ConditionFalse reason msg
            (set_cst (\<lambda>t. t\<lparr>cs_Phase := ''Failed'', cs_Message := msg, cs_TaskRef := ''''\<rparr>) c))) s),
      done_result)"

definition markPending :: "ctl_env \<Rightarrow> vm_clone \<Rightarrow> string \<Rightarrow> string \<Rightarrow> ctl_state \<Rightarrow> ctl_state \<times> go_error outcome" where
  "markPending env c reason msg s =
     (fst (Clone_updateStatus env
        (clone_cond env ''Ready'' ConditionFalse reason msg
          (set_cst (\<lambda>t. t\<lparr>cs_Phase := ''Pending'', cs_Message := msg\<rparr>) c)) s),
      requeue_in (30 * second))"

definition requestedCloneType :: "vm_clone \<Rightarrow> string" where
  "requestedCloneType c =
     (case cn_Type c of None \<Rightarrow> CloneTypeFullClone | Some t \<Rightarrow> if t = '''' then CloneTypeFullClone else t)"

text \<open>A reference with a name, if there is one.\<close>

definition named :: "string option \<Rightarrow> string option" where
  "named r = (case r of None \<Rightarrow> None | Some n \<Rightarrow> if n = '''' then None else Some n)"

definition classJSON :: "ctl_env \<Rightarrow> vm_clone \<Rightarrow> ctl_state \<Rightarrow> string" where
  "classJSON env c s =
     (case named (cg_ClassRef (cn_Target c)) of
        None \<Rightarrow> ''''
      | Some n \<Rightarrow>
          (case ce_get_class env (ops s) (md_namespace (cn_meta c), n) of
             Inl e \<Rightarrow> ''''
           | Inr cls \<Rightarrow> (case ce_json_class env cls of Inl e \<Rightarrow> '''' | Inr j \<Rightarrow> j)))"

definition placementJSON :: "ctl_env \<Rightarrow> vm_clone \<Rightarrow> string" where
  "placementJSON env c =
     (case named (cg_PlacementRef (cn_Target c)) of
        None \<Rightarrow> ''''
      | Some n \<Rightarrow> (case ce_json_ref env n of Inl e \<Rightarrow> '''' | Inr j \<Rightarrow> j))"

definition customizeJSON :: "vm_clone \<Rightarrow> string" where
  "customizeJSON c = (case cn_CustomizationJSON c of Some (Inr j) \<Rightarrow> j | _ \<Rightarrow> '''')"

definition buildTargetVM :: "vm_clone \<Rightarrow> virtual_machine \<Rightarrow> string \<Rightarrow> virtual_machine" where
  "buildTargetVM c src ns =
     \<lparr>vm_meta = (new_meta ns (cg_Name (cn_Target c)))\<lparr>
        md_labels := (cg_Labels (cn_Target c))(AdoptedLabel \<mapsto> AdoptedLabelValue),
        md_annotations := [CloneAnnotationClonedFrom \<mapsto> vm_name src, CloneAnnotationClone \<mapsto> md_name (cn_meta c)]
          ++ cg_Annotations (cn_Target c)\<rparr>,
      vm_spec = empty_vm_spec\<lparr>
        vs_ProviderRef := vs_ProviderRef (vm_spec src),
        vs_ClassRef := (case named (cg_ClassRef (cn_Target c)) of
           None \<Rightarrow> vs_ClassRef (vm_spec src) | Some n \<Rightarrow> \<lparr>or_name = n, or_namespace = ''''\<rparr>),
        vs_Networks := cg_Networks (cn_Target c),
        vs_PlacementRef := named (cg_PlacementRef (cn_Target c))\<rparr>,
      vm_status = empty_vm_status\<rparr>"

definition finalizeReady :: "ctl_env \<Rightarrow> vm_clone \<Rightarrow> string \<Rightarrow> ctl_state \<Rightarrow> ctl_state \<times> go_error outcome" where
  "finalizeReady env c target s =
     (case Clone_updateStatus env
             (clone_cond env ''Cloning'' ConditionFalse ''Completed'' ''Clone completed''
               (clone_cond env ''Ready'' ConditionTrue ''Completed'' ''Clone completed successfully''
                 (set_cst (\<lambda>t. t\<lparr>cs_Phase := ''Ready'', cs_Message := ''Clone completed successfully'', cs_TaskRef := '''',
                    cs_CompletionTime := Some (ce_now env), cs_TargetRef := Some target\<rparr>) c))) s of
        (s', Some e) \<Rightarrow> (s', fail_with e)
      | (s', None) \<Rightarrow> (s', done_result))"

text \<open>One run of the loop that seeds the target's \<^verbatim>\<open>Status.ID\<close>.\<close>

definition seed_attempt :: "ctl_env \<Rightarrow> nn \<Rightarrow> string \<Rightarrow> ctl_state \<Rightarrow> ctl_state \<times> unit result" where
  "seed_attempt env key ident s =
     (case read_vm env key s of
        (s1, Inl e) \<Rightarrow> (s1, Inl e)
      | (s1, Inr latest) \<Rightarrow>
          if vm_id latest = ident then (s1, Inr ())
          else
            (case ctl_write env (WVMStatus (latest\<lparr>vm_status := (vm_status latest)\<lparr>vt_ID := ident\<rparr>\<rparr>)) s1 of
               (s2, Some e) \<Rightarrow> (s2, Inl e)
             | (s2, None) \<Rightarrow> (s2, Inr ())))"

definition seed_and_finalize ::
  "ctl_env \<Rightarrow> vm_clone \<Rightarrow> nn \<Rightarrow> string \<Rightarrow> string \<Rightarrow> ctl_state \<Rightarrow> ctl_state \<times> go_error outcome" where
  "seed_and_finalize env c key ident target s =
     (case retry_on_conflict (ce_retry_steps env) (seed_attempt env key ident) s of
        (s', Inl e) \<Rightarrow> (s', requeue_in (5 * second))
      | (s', Inr _) \<Rightarrow> finalizeReady env c target s')"

definition bindTargetVM ::
  "ctl_env \<Rightarrow> vm_clone \<Rightarrow> virtual_machine \<Rightarrow> string \<Rightarrow> string \<Rightarrow> ctl_state \<Rightarrow> ctl_state \<times> go_error outcome" where
  "bindTargetVM env c src ns ident s =
     (if ident = '''' then
        markFailed env c ''ProviderError'' ''clone completed but provider returned no target VM ID'' s
      else
        (let key = (ns, cg_Name (cn_Target c))
         in case read_vm env key s of
              (s1, Inr vm) \<Rightarrow> seed_and_finalize env c key ident (vm_name vm) s1
            | (s1, Inl e) \<Rightarrow>
                if api_is_not_found e then
                  (let target = buildTargetVM c src ns
                   in case ctl_write env (WVMCreate target) s1 of
                        (s2, None) \<Rightarrow> seed_and_finalize env c key ident (vm_name target) s2
                      | (s2, Some e') \<Rightarrow>
                          if api_is_already_exists e' then seed_and_finalize env c key ident (vm_name target) s2
                          else markFailed env c ''ProviderError'' (''failed to create target VM: '' @ error_string e') s2)
                else (s1, requeue_in (30 * second))))"

definition startClone ::
  "ctl_env \<Rightarrow> vm_clone \<Rightarrow> virtual_machine \<Rightarrow> provider_instance \<Rightarrow> string \<Rightarrow> bool \<Rightarrow> ctl_state \<Rightarrow> ctl_state \<times> go_error outcome" where
  "startClone env c src inst ns linked s =
     (case pi_Clone inst of
        None \<Rightarrow> markFailed env c ''Unsupported'' ''provider does not support clone'' s
      | Some clone \<Rightarrow>
          (let req = \<lparr>cq_SourceVmID = vm_id src, cq_TargetName = cg_Name (cn_Target c), cq_Linked = linked,
                      cq_ClassJSON = classJSON env c s, cq_PlacementJSON = placementJSON env c,
                      cq_CustomizeJSON = customizeJSON c\<rparr>;
               c1 = clone_cond env ''Cloning'' ConditionTrue ''Cloning'' ''Clone operation initiated''
                      (set_cst (\<lambda>t. t\<lparr>cs_Phase := ''Cloning'', cs_StartTime := Some (ce_now env),
                         cs_ActualCloneType := (if linked then CloneTypeLinkedClone else CloneTypeFullClone)\<rparr>) c)
           in case clone req of
                Inl e \<Rightarrow>
                  markFailed env c1 ''ProviderError'' (''clone failed: '' @ error_string e) (ctl_emit (CtlClone req False) s)
              | Inr resp \<Rightarrow>
                  (let c2 = set_cst (\<lambda>t. t\<lparr>cs_TargetVMID := cl_TargetVmID resp, cs_TaskRef := cl_TaskRef resp\<rparr>) c1
                   in case Clone_updateStatus env c2 (ctl_emit (CtlClone req True) s) of
                        (s', Some e) \<Rightarrow> (s', fail_with e)
                      | (s', None) \<Rightarrow>
                          if cl_TaskRef resp = '''' then bindTargetVM env c2 src ns (cl_TargetVmID resp) s'
                          else (s', requeue_in (10 * second)))))"

definition pollCloneTask ::
  "ctl_env \<Rightarrow> vm_clone \<Rightarrow> virtual_machine \<Rightarrow> provider_instance \<Rightarrow> string \<Rightarrow> ctl_state \<Rightarrow> ctl_state \<times> go_error outcome" where
  "pollCloneTask env c src inst ns s =
     (case pi_IsTaskComplete inst (cs_TaskRef (cn_status c)) 0 of
        Inl e \<Rightarrow> markFailed env c ''ProviderError'' (''clone task failed: '' @ error_string e) s
      | Inr False \<Rightarrow> (s, requeue_in (10 * second))
      | Inr True \<Rightarrow>
          (let c1 = set_cst (\<lambda>t. t\<lparr>cs_TaskRef := ''''\<rparr>) c
           in case Clone_updateStatus env c1 s of
                (s', Some e) \<Rightarrow> (s', fail_with e)
              | (s', None) \<Rightarrow> bindTargetVM env c1 src ns (cs_TargetVMID (cn_status c1)) s'))"

definition gateLinkedClone :: "provider_instance \<Rightarrow> bool" where
  "gateLinkedClone inst \<longleftrightarrow>
     (case pi_GetCapabilities inst of Some (Inr caps) \<Rightarrow> \<not> cap_SupportsLinkedClones caps | _ \<Rightarrow> False)"

definition Clone_handleDeletion :: "ctl_env \<Rightarrow> vm_clone \<Rightarrow> ctl_state \<Rightarrow> ctl_state \<times> go_error outcome" where
  "Clone_handleDeletion env c s =
     (case ctl_write env (WCloneMeta (c\<lparr>cn_meta := remove_finalizer vmCloneFinalizer (cn_meta c)\<rparr>)) s of
        (s', Some e) \<Rightarrow> (s', fail_with e)
      | (s', None) \<Rightarrow> (s', done_result))"

text \<open>\<^verbatim>\<open>Reconcile\<close> from the resolved provider on.\<close>

definition clone_on_provider ::
  "ctl_env \<Rightarrow> vm_clone \<Rightarrow> virtual_machine \<Rightarrow> provider_instance \<Rightarrow> ctl_state \<Rightarrow> ctl_state \<times> go_error outcome" where
  "clone_on_provider env c src inst s =
     (let ns = (if cg_Namespace (cn_Target c) = '''' then md_namespace (cn_meta c) else cg_Namespace (cn_Target c));
          linked = (requestedCloneType c = CloneTypeLinkedClone)
      in if linked \<and> gateLinkedClone inst then
           markFailed env c ''LinkedCloneUnsupported'' ''provider does not support linked clones'' s
         else if cs_TaskRef (cn_status c) \<noteq> '''' then pollCloneTask env c src inst ns s
         else if cs_TargetVMID (cn_status c) \<noteq> '''' then bindTargetVM env c src ns (cs_TargetVMID (cn_status c)) s
         else
           (case read_vm env (ns, cg_Name (cn_Target c)) s of
              (s1, Inr vm) \<Rightarrow>
                markFailed env c ''ProviderError''
                  (''target VM '' @ cg_Name (cn_Target c) @ '' already exists and was not created by this clone'') s1
            | (s1, Inl e) \<Rightarrow>
                if api_is_not_found e then startClone env c src inst ns linked s1
                else (s1, requeue_in (30 * second))))"

definition clone_from_vm :: "ctl_env \<Rightarrow> vm_clone \<Rightarrow> virtual_machine \<Rightarrow> ctl_state \<Rightarrow> ctl_state \<times> go_error outcome" where
  "clone_from_vm env c src s =
     (if vm_id src = '''' then markPending env c ''Cloning'' ''waiting for source VM to be provisioned'' s
      else
        (let pref = vs_ProviderRef (vm_spec src)
         in case ce_get_provider env (ref_key pref (vm_ns src)) of
              Inl e \<Rightarrow> markPending env c ''ProviderError'' (''provider '' @ or_name pref @ '' not found'') s
            | Inr p \<Rightarrow>
                (case ctl_getProviderInstance env p of
                   Inl e \<Rightarrow>
                     markPending env c ''ProviderError'' (''failed to resolve provider '' @ or_name pref @ '': '' @ error_string e) s
                 | Inr inst \<Rightarrow> clone_on_provider env c src inst s)))"

definition Clone_Reconcile :: "ctl_env \<Rightarrow> ctl_state \<Rightarrow> ctl_state \<times> go_error outcome" where
  "Clone_Reconcile env s =
     (case ce_get_clone env of
        Inl e \<Rightarrow> (s, if api_is_not_found e then done_result else fail_with e)
      | Inr c0 \<Rightarrow>
          if md_deleting (cn_meta c0) then Clone_handleDeletion env c0 s
          else if \<not> HasFinalizer (cn_meta c0) vmCloneFinalizer then
            (case ctl_write env (WCloneMeta (c0\<lparr>cn_meta := add_finalizer vmCloneFinalizer (cn_meta c0)\<rparr>)) s of
               (s', Some e) \<Rightarrow> (s', fail_with e)
             | (s', None) \<Rightarrow> (s', requeue_now))
          else if cs_Phase (cn_status c0) = ''Ready'' \<or> cs_Phase (cn_status c0) = ''Failed'' then (s, done_result)
          else
            (let c = set_cst (\<lambda>t. t\<lparr>cs_ObservedGeneration := md_generation (cn_meta c0)\<rparr>) c0
             in case named (cn_SourceVMRef c) of
                  None \<Rightarrow> markFailed env c ''UnsupportedSource'' ''clone source type not yet supported; use source.vmRef'' s
                | Some n \<Rightarrow>
                    (case read_vm env (md_namespace (cn_meta c), n) s of
                       (s1, Inl e) \<Rightarrow>
                         if api_is_not_found e then
                           markPending env c ''SourceNotFound'' (''source VM '' @ n @ '' not found'') s1
                         else (s1, requeue_in (30 * second))
                     | (s1, Inr src) \<Rightarrow> clone_from_vm env c src s1)))"

end
