(* ===== verification/CloneProps.thy ===== *)
theory CloneProps
  imports VmClone VmProps
begin

text \<open>
  The VMClone controller over a whole history of reconciles, and together with the VirtualMachine
  controller: a clone is requested once, and the machine it makes is never created a second time.
\<close>

section \<open>Settled clones\<close>

fun clone_rpc :: "ctl_event \<Rightarrow> bool" where
  "clone_rpc (CtlClone rq ok) = True"
| "clone_rpc _ = False"

text \<open>A status after which no Clone is issued: a task or a target is recorded, or the clone is finished.\<close>

definition settled :: "clone_status \<Rightarrow> bool" where
  "settled t \<longleftrightarrow> cs_TaskRef t \<noteq> '''' \<or> cs_TargetVMID t \<noteq> '''' \<or> cs_Phase t \<in> {''Ready'', ''Failed''}"

text \<open>The status the API server holds after the writes of a log, and that none of them was lost.\<close>

fun persist :: "clone_status \<Rightarrow> ctl_event \<Rightarrow> clone_status" where
  "persist t (CtlWrite (WCloneStatus c) True) = cn_status c"
| "persist t _ = t"

fun lost_write :: "ctl_event \<Rightarrow> bool" where
  "lost_write (CtlWrite (WCloneStatus c) False) = True"
| "lost_write _ = False"

abbreviation persisted :: "clone_status \<Rightarrow> ctl_event list \<Rightarrow> clone_status" where
  "persisted t es \<equiv> foldl persist t es"

text \<open>Events of the binding step: no Clone, and every status written is settled.\<close>

fun bind_event :: "ctl_event \<Rightarrow> bool" where
  "bind_event (CtlWrite (WCloneStatus c) ok) \<longleftrightarrow> settled (cn_status c)"
| "bind_event e \<longleftrightarrow> \<not> clone_rpc e"

lemma bind_event_no_rpc: "list_all bind_event es \<Longrightarrow> filter clone_rpc es = []"
proof (induction es)
  case (Cons e es)
  then show ?case by (cases e rule: bind_event.cases) auto
qed simp

lemma bind_event_settled: "list_all bind_event es \<Longrightarrow> settled t \<Longrightarrow> settled (persisted t es)"
proof (induction es arbitrary: t)
  case (Cons e es)
  then have "settled (persist t e)" by (cases "(t, e)" rule: persist.cases) auto
  with Cons show ?case by simp
qed simp

text \<open>
  \<open>clone_call t s s'\<close>: what one reconcile of a clone with status \<open>t\<close> does when no status write is
  lost: it issues no Clone and leaves a settled status settled, or it issues one Clone from an
  unsettled status and leaves a settled one.
\<close>

definition clone_call :: "clone_status \<Rightarrow> ctl_state \<Rightarrow> ctl_state \<Rightarrow> bool" where
  "clone_call t s s' \<longleftrightarrow>
     (\<exists>es. evs s' = evs s @ es \<and>
        (list_ex lost_write es \<or>
         (filter clone_rpc es = [] \<and> (settled t \<longrightarrow> settled (persisted t es))) \<or>
         (\<not> settled t \<and> length (filter clone_rpc es) = 1 \<and> settled (persisted t es))))"

lemma clone_call_grows:
  assumes "grows bind_event s s'"
  shows "clone_call t s s'"
  using assms bind_event_no_rpc bind_event_settled by (fastforce simp: grows_def clone_call_def)

lemma clone_call_reads: "evs s1 = evs s \<Longrightarrow> clone_call t s1 s' \<Longrightarrow> clone_call t s s'"
  by (simp add: clone_call_def)

lemma clone_cond_keeps [simp]:
  "cs_TaskRef (cn_status (clone_cond env ty st rs msg c)) = cs_TaskRef (cn_status c)"
  "cs_TargetVMID (cn_status (clone_cond env ty st rs msg c)) = cs_TargetVMID (cn_status c)"
  "cs_Phase (cn_status (clone_cond env ty st rs msg c)) = cs_Phase (cn_status c)"
  by (simp_all add: clone_cond_def set_cst_def)

lemma set_cst_status [simp]: "cn_status (set_cst f c) = f (cn_status c)"
  by (simp add: set_cst_def)

section \<open>The handlers\<close>

lemma status_write_grows:
  "settled (cn_status c) \<Longrightarrow> grows bind_event s (fst (Clone_updateStatus env c s))"
  unfolding Clone_updateStatus_def by (rule grows_write) simp

lemma markFailed_grows: "grows bind_event s (fst (markFailed env c rs msg s))"
  by (simp add: markFailed_def status_write_grows settled_def)

lemma markPending_grows:
  "cs_TaskRef (cn_status c) \<noteq> '''' \<or> cs_TargetVMID (cn_status c) \<noteq> '''' \<Longrightarrow> grows bind_event s (fst (markPending env c rs msg s))"
  by (simp add: markPending_def status_write_grows settled_def)

lemma markPending_call:
  assumes "cs_Phase (cn_status c) \<notin> {''Ready'', ''Failed''}"
  shows "clone_call (cn_status c) s (fst (markPending env c rs msg s))"
proof (cases "settled (cn_status c)")
  case True
  then show ?thesis using assms by (intro clone_call_grows markPending_grows) (auto simp: settled_def)
next
  case False
  then show ?thesis by (simp add: clone_call_def markPending_def Clone_updateStatus_def ctl_write_def ctl_emit_def Let_def)
qed

lemma finalizeReady_grows: "grows bind_event s (fst (finalizeReady env c target s))"
proof -
  have "fst (finalizeReady env c target s) = fst (Clone_updateStatus env
      (clone_cond env ''Cloning'' ConditionFalse ''Completed'' ''Clone completed''
        (clone_cond env ''Ready'' ConditionTrue ''Completed'' ''Clone completed successfully''
          (set_cst (\<lambda>t. t\<lparr>cs_Phase := ''Ready'', cs_Message := ''Clone completed successfully'', cs_TaskRef := '''',
             cs_CompletionTime := Some (ce_now env), cs_TargetRef := Some target\<rparr>) c))) s)"
    by (auto simp: finalizeReady_def split: prod.splits option.splits)
  then show ?thesis by (simp add: status_write_grows settled_def)
qed

lemma seed_attempt_grows: "seed_attempt env key ident s = (s', r) \<Longrightarrow> grows bind_event s s'"
  by (auto simp: seed_attempt_def split: prod.splits sum.splits if_splits option.splits
      dest!: grows_read_vmE [where P = bind_event] grows_writeE [where P = bind_event] intro: grows_trans)

lemma seed_and_finalize_grows: "grows bind_event s (fst (seed_and_finalize env c key ident target s))"
proof (cases "retry_on_conflict (ce_retry_steps env) (seed_attempt env key ident) s")
  case (Pair s' r)
  have "grows bind_event s s'" by (rule retry_on_conflict_grows [OF seed_attempt_grows Pair])
  then show ?thesis using Pair grows_trans [OF _ finalizeReady_grows]
    by (auto simp: seed_and_finalize_def split: sum.splits)
qed

lemma bindTargetVM_grows: "grows bind_event s (fst (bindTargetVM env c src ns ident s))"
proof (cases "read_vm env (ns, cg_Name (cn_Target c)) s")
  case (Pair s1 r)
  have g1: "grows bind_event s s1" by (rule grows_read_vmE [OF Pair])
  obtain s2 r2 where w: "ctl_write env (WVMCreate (buildTargetVM c src ns)) s1 = (s2, r2)" by (metis surj_pair)
  have g2: "grows bind_event s s2" by (rule grows_trans [OF g1 grows_writeE [OF w]]) simp
  show ?thesis using Pair w g1 grows_trans [OF g1 seed_and_finalize_grows] grows_trans [OF g2 seed_and_finalize_grows]
      grows_trans [OF g2 markFailed_grows]
    by (auto simp: bindTargetVM_def Let_def markFailed_grows split: sum.splits option.splits)
qed

lemma bindTargetVM_empty:
  "fst (bindTargetVM env c src ns '''' s) =
   fst (markFailed env c ''ProviderError'' ''clone completed but provider returned no target VM ID'' s)"
  by (simp add: bindTargetVM_def)

lemma markFailed_event:
  "\<exists>c' ok. evs (fst (markFailed env c rs msg s)) = evs s @ [CtlWrite (WCloneStatus c') ok] \<and> settled (cn_status c')"
proof -
  define c' where "c' = clone_cond env ''Failed'' ConditionTrue rs msg (clone_cond env ''Ready'' ConditionFalse rs msg
    (set_cst (\<lambda>t. t\<lparr>cs_Phase := ''Failed'', cs_Message := msg, cs_TaskRef := ''''\<rparr>) c))"
  have "evs (fst (markFailed env c rs msg s)) = evs s @ [CtlWrite (WCloneStatus c') (ce_write_err env (ops s) (WCloneStatus c') = None)]"
    by (simp add: markFailed_def c'_def Clone_updateStatus_def ctl_write_def ctl_emit_def Let_def)
  moreover have "settled (cn_status c')" by (simp add: c'_def settled_def)
  ultimately show ?thesis by blast
qed

text \<open>A written status that may be unsettled, followed by the binding of the target it names.\<close>

lemma write_then_bind:
  assumes w: "Clone_updateStatus env c s = (s1, None)" and "ident = cs_TargetVMID (cn_status c)"
  shows "\<exists>es. evs (fst (bindTargetVM env c src ns ident s1)) = evs s @ es \<and> filter clone_rpc es = [] \<and>
    (list_ex lost_write es \<or> settled (persisted t es))"
proof -
  obtain es where es: "evs (fst (bindTargetVM env c src ns ident s1)) = evs s1 @ es" "list_all bind_event es"
    using bindTargetVM_grows [of s1 env c src ns ident] by (auto simp: grows_def)
  have s1: "evs s1 = evs s @ [CtlWrite (WCloneStatus c) True]"
    using w by (auto simp: Clone_updateStatus_def ctl_write_def ctl_emit_def Let_def)
  have "list_ex lost_write es \<or> settled (persisted (cn_status c) es)"
  proof (cases "ident = ''''")
    case False
    then show ?thesis using bind_event_settled [OF es(2), of "cn_status c"] assms(2) by (simp add: settled_def)
  next
    case True
    obtain c' ok where "evs s1 @ es = evs s1 @ [CtlWrite (WCloneStatus c') ok]" "settled (cn_status c')"
      using markFailed_event [of env c "''ProviderError''" "''clone completed but provider returned no target VM ID''" s1] es(1)
      unfolding True bindTargetVM_empty by auto
    then show ?thesis by (cases ok) simp_all
  qed
  then show ?thesis using es s1 bind_event_no_rpc [OF es(2)] by (intro exI [of _ "CtlWrite (WCloneStatus c) True # es"]) auto
qed

lemma pollCloneTask_call:
  assumes "cs_TaskRef (cn_status c) \<noteq> ''''"
  shows "clone_call (cn_status c) s (fst (pollCloneTask env c src inst ns s))"
proof -
  let ?c1 = "set_cst (\<lambda>t. t\<lparr>cs_TaskRef := ''''\<rparr>) c"
  obtain s1 r where w: "Clone_updateStatus env ?c1 s = (s1, r)" by (metis surj_pair)
  show ?thesis
  proof (cases "pi_IsTaskComplete inst (cs_TaskRef (cn_status c)) 0")
    case (Inl e)
    then show ?thesis by (simp add: pollCloneTask_def clone_call_grows markFailed_grows)
  next
    case (Inr d)
    show ?thesis
    proof (cases d)
      case False
      then show ?thesis using Inr by (simp add: pollCloneTask_def clone_call_grows)
    next
      case d: True
      show ?thesis
      proof (cases r)
        case None
        have "clone_call (cn_status c) s (fst (bindTargetVM env ?c1 src ns (cs_TargetVMID (cn_status ?c1)) s1))"
          using write_then_bind [OF w [unfolded None] refl, of src ns "cn_status c"] by (auto simp: clone_call_def)
        then show ?thesis using Inr d w None by (simp add: pollCloneTask_def Let_def)
      next
        case (Some e)
        then have "evs s1 = evs s @ [CtlWrite (WCloneStatus ?c1) False]"
          using w by (auto simp: Clone_updateStatus_def ctl_write_def ctl_emit_def Let_def)
        then show ?thesis using Inr d w Some by (simp add: pollCloneTask_def Let_def clone_call_def)
      qed
    qed
  qed
qed

lemma startClone_call:
  assumes "\<not> settled (cn_status c)"
  shows "clone_call (cn_status c) s (fst (startClone env c src inst ns linked s))"
proof (cases "pi_Clone inst")
  case None
  then show ?thesis by (simp add: startClone_def clone_call_grows markFailed_grows)
next
  case (Some clone)
  define rq where "rq = \<lparr>cq_SourceVmID = vm_id src, cq_TargetName = cg_Name (cn_Target c), cq_Linked = linked,
    cq_ClassJSON = classJSON env c s, cq_PlacementJSON = placementJSON env c, cq_CustomizeJSON = customizeJSON c\<rparr>"
  define c1 where "c1 = clone_cond env ''Cloning'' ConditionTrue ''Cloning'' ''Clone operation initiated''
    (set_cst (\<lambda>t. t\<lparr>cs_Phase := ''Cloning'', cs_StartTime := Some (ce_now env),
       cs_ActualCloneType := (if linked then CloneTypeLinkedClone else CloneTypeFullClone)\<rparr>) c)"
  have issue: "clone_call (cn_status c) s s'"
    if "evs s' = evs (ctl_emit (CtlClone rq ok) s) @ es" "filter clone_rpc es = []" "list_ex lost_write es \<or> settled (persisted (cn_status c) es)"
    for s' ok es
    unfolding clone_call_def using that assms
    by (intro exI [of _ "CtlClone rq ok # es"]) (auto simp: ctl_emit_def)
  show ?thesis
  proof (cases "clone rq")
    case (Inl e)
    let ?f = "\<lambda>ok. fst (markFailed env c1 ''ProviderError'' (''clone failed: '' @ error_string e) (ctl_emit (CtlClone rq ok) s))"
    obtain c' ok' where "evs (?f False) = evs (ctl_emit (CtlClone rq False) s) @ [CtlWrite (WCloneStatus c') ok']" "settled (cn_status c')"
      using markFailed_event [of env c1 "''ProviderError''" "''clone failed: '' @ error_string e" "ctl_emit (CtlClone rq False) s"] by blast
    then have "clone_call (cn_status c) s (?f False)" by (cases ok') (auto intro: issue)
    then show ?thesis using Some Inl by (simp add: startClone_def Let_def rq_def c1_def)
  next
    case (Inr resp)
    let ?c2 = "set_cst (\<lambda>t. t\<lparr>cs_TargetVMID := cl_TargetVmID resp, cs_TaskRef := cl_TaskRef resp\<rparr>) c1"
    let ?s1 = "ctl_emit (CtlClone rq True) s"
    obtain s2 r where w: "Clone_updateStatus env ?c2 ?s1 = (s2, r)" by (metis surj_pair)
    then have ev2: "evs s2 = evs ?s1 @ [CtlWrite (WCloneStatus ?c2) (r = None)]"
      by (auto simp: Clone_updateStatus_def ctl_write_def ctl_emit_def Let_def)
    have out: "fst (startClone env c src inst ns linked s) = (if r = None \<and> cl_TaskRef resp = '''' then
        fst (bindTargetVM env ?c2 src ns (cl_TargetVmID resp) s2) else s2)"
      using Some Inr w by (cases r) (simp_all add: startClone_def Let_def rq_def [symmetric] c1_def [symmetric])
    show ?thesis
    proof (cases "r = None \<and> cl_TaskRef resp = ''''")
      case True
      obtain es where "evs (fst (bindTargetVM env ?c2 src ns (cl_TargetVmID resp) s2)) = evs ?s1 @ es"
          "filter clone_rpc es = []" "list_ex lost_write es \<or> settled (persisted (cn_status c) es)"
        using write_then_bind [of env ?c2 ?s1 s2 "cl_TargetVmID resp" src ns "cn_status c"] w True by auto
      then show ?thesis using out True by (auto intro: issue)
    next
      case False
      then show ?thesis using out ev2 issue [of s2 True "[CtlWrite (WCloneStatus ?c2) (r = None)]"]
        by (cases r) (auto simp: settled_def)
    qed
  qed
qed

lemma clone_on_provider_call:
  assumes "cs_Phase (cn_status c) \<notin> {''Ready'', ''Failed''}"
  shows "clone_call (cn_status c) s (fst (clone_on_provider env c src inst s))"
proof -
  define ns where "ns = (if cg_Namespace (cn_Target c) = '''' then md_namespace (cn_meta c) else cg_Namespace (cn_Target c))"
  let ?s1 = "s\<lparr>ops := Suc (ops s)\<rparr>"
  have rd: "clone_call (cn_status c) s s'" if "clone_call (cn_status c) ?s1 s'" for s'
    using that by (rule clone_call_reads [rotated]) simp
  have fl: "clone_call (cn_status c) s' (fst (markFailed env c rs msg s'))" for rs msg s'
    by (rule clone_call_grows [OF markFailed_grows])
  have st: "clone_call (cn_status c) s (fst (startClone env c src inst ns linked ?s1))"
    if "cs_TaskRef (cn_status c) = ''''" "cs_TargetVMID (cn_status c) = ''''" for linked
    using that assms by (intro rd startClone_call) (simp add: settled_def)
  have "clone_call (cn_status c) s ?s1" by (rule rd [OF clone_call_grows [OF grows_refl]])
  then show ?thesis
    using pollCloneTask_call [of c s env src inst ns] st rd [OF fl] clone_call_grows [OF bindTargetVM_grows]
    unfolding clone_on_provider_def ns_def [symmetric]
    by (auto simp: Let_def read_vm_def fl split: sum.splits)
qed

lemma clone_from_vm_call:
  assumes "cs_Phase (cn_status c) \<notin> {''Ready'', ''Failed''}"
  shows "clone_call (cn_status c) s (fst (clone_from_vm env c src s))"
  using markPending_call [OF assms] clone_on_provider_call [OF assms]
  by (auto simp: clone_from_vm_def Let_def split: sum.splits)

lemma Clone_Reconcile_call:
  assumes "ce_get_clone env = Inr c0"
  shows "clone_call (cn_status c0) s (fst (Clone_Reconcile env s))"
proof -
  let ?c = "set_cst (\<lambda>t. t\<lparr>cs_ObservedGeneration := md_generation (cn_meta c0)\<rparr>) c0"
  have gen: "clone_call (cn_status ?c) s s' \<Longrightarrow> clone_call (cn_status c0) s s'" for s'
  proof -
    have "persisted (cn_status ?c) es = persisted (cn_status c0) es \<or>
        (persisted (cn_status ?c) es = cn_status ?c \<and> persisted (cn_status c0) es = cn_status c0)" for es
    proof (induction es rule: rev_induct)
      case (snoc e es)
      then show ?case by (cases "(persisted (cn_status ?c) es, e)" rule: persist.cases) auto
    qed simp
    moreover have "settled (cn_status ?c) = settled (cn_status c0)" by (simp add: settled_def)
    ultimately show "clone_call (cn_status ?c) s s' \<Longrightarrow> clone_call (cn_status c0) s s'" unfolding clone_call_def by metis
  qed
  have meta: "clone_call (cn_status c0) s (fst (ctl_write env (WCloneMeta c) s))" for c
    by (rule clone_call_grows, rule grows_write) simp
  have fin: "fst (case ctl_write env (WCloneMeta c) s of (s', Some e) \<Rightarrow> (s', fail_with e) | (s', None) \<Rightarrow> (s', x)) =
      fst (ctl_write env (WCloneMeta c) s)" for c x
    by (auto split: prod.splits option.splits)
  let ?s1 = "s\<lparr>ops := Suc (ops s)\<rparr>"
  have rd: "clone_call (cn_status c0) s s'" if "clone_call (cn_status ?c) ?s1 s'" for s'
    using gen [OF clone_call_reads [OF _ that, of s]] by simp
  show ?thesis
  proof (cases "cs_Phase (cn_status c0) = ''Ready'' \<or> cs_Phase (cn_status c0) = ''Failed''")
    case True
    then show ?thesis using assms meta
      by (auto simp: Clone_Reconcile_def Clone_handleDeletion_def fin clone_call_grows)
  next
    case False
    then have ph: "cs_Phase (cn_status ?c) \<notin> {''Ready'', ''Failed''}" by simp
    have "clone_call (cn_status c0) s ?s1" by (rule rd [OF clone_call_grows [OF grows_refl]])
    then show ?thesis
      using assms False meta rd [OF markPending_call [OF ph]] rd [OF clone_from_vm_call [OF ph]] gen [OF clone_call_grows [OF markFailed_grows]]
      by (auto simp: Clone_Reconcile_def Clone_handleDeletion_def fin Let_def read_vm_def split: option.splits sum.splits)
  qed
qed

section \<open>Histories\<close>

text \<open>
  \<open>clone_run t es\<close>: the reconciles of one VMClone, each reading the status the API server holds and
  none losing a status write, have issued the events \<open>es\<close> and left the status \<open>t\<close>. Between two
  reconciles anything else may change.
\<close>

inductive clone_run :: "clone_status \<Rightarrow> ctl_event list \<Rightarrow> bool" where
  clone_start: "clone_run t []"
| clone_step:
    "clone_run t es \<Longrightarrow> ce_get_clone env = Inr c \<Longrightarrow> cn_status c = t \<Longrightarrow>
     es' = new_evs s (fst (Clone_Reconcile env s)) \<Longrightarrow> \<not> list_ex lost_write es' \<Longrightarrow> clone_run (persisted t es') (es @ es')"

lemma clone_run_invariant:
  assumes "clone_run t es"
  shows "filter clone_rpc es = [] \<or> length (filter clone_rpc es) = 1 \<and> settled t"
  using assms
proof induction
  case (clone_step t es env c es' s)
  from Clone_Reconcile_call [OF clone_step.hyps(2), of s] obtain fs where
    fs: "evs (fst (Clone_Reconcile env s)) = evs s @ fs"
      "list_ex lost_write fs \<or> filter clone_rpc fs = [] \<and> (settled t \<longrightarrow> settled (persisted t fs)) \<or>
       \<not> settled t \<and> length (filter clone_rpc fs) = 1 \<and> settled (persisted t fs)"
    unfolding clone_call_def clone_step.hyps(3) by blast
  have "es' = fs" using fs(1) clone_step.hyps(4) by (simp add: new_evs_def)
  then show ?case using fs(2) clone_step.hyps(5) clone_step.IH by auto
qed simp

definition sample_clone :: vm_clone where
  "sample_clone = \<lparr>cn_meta = (new_meta ''ns'' ''clone'')\<lparr>md_finalizers := [vmCloneFinalizer]\<rparr>, cn_SourceVMRef = Some ''vm'',
     cn_Target = \<lparr>cg_Name = ''copy'', cg_Namespace = '''', cg_ClassRef = None, cg_PlacementRef = None, cg_Networks = [],
       cg_Labels = Map.empty, cg_Annotations = Map.empty\<rparr>,
     cn_Type = None, cn_CustomizationJSON = None,
     cn_status = \<lparr>cs_TargetRef = None, cs_TargetVMID = '''', cs_Phase = '''', cs_Message = '''', cs_TaskRef = '''',
       cs_StartTime = None, cs_CompletionTime = None, cs_ActualCloneType = '''', cs_Conditions = [], cs_ObservedGeneration = 0\<rparr>\<rparr>"

definition sample_source :: virtual_machine where
  "sample_source = sample_machine\<lparr>vm_status := (vm_status sample_machine)\<lparr>vt_ID := ''id-1''\<rparr>\<rparr>"

definition sample_clone_env :: ctl_env where
  "sample_clone_env = (sample_ctl_env sample_source)\<lparr>
     ce_get_vm := \<lambda>n key. if key = (''ns'', ''vm'') then Inr sample_source else Inl (StatusError ReasonNotFound ''not found''),
     ce_get_clone := Inr sample_clone\<rparr>"

text \<open>
  C5. A clone is requested from the hypervisor at most once: over any sequence of reconciles of a VMClone, as
  long as each reads the status written last and no status write is lost, at most one Clone RPC is
  issued, whatever the answers of the API server and the provider are, and after it the status
  always records a task, a target or the end of the clone.
\<close>

theorem clone_issued_once:
  assumes "clone_run t es"
  shows "length (filter clone_rpc es) \<le> 1 \<and> (filter clone_rpc es \<noteq> [] \<longrightarrow> settled t)"
  using clone_run_invariant [OF assms] by auto

theorem clone_issued_once_witness:
  "\<exists>t es. clone_run t es \<and> length (filter clone_rpc es) = 1 \<and> settled t"
proof -
  define es where "es = new_evs ctl_start (fst (Clone_Reconcile sample_clone_env ctl_start))"
  have "\<exists>rq c r. es = CtlClone rq True # CtlWrite (WCloneStatus c) True # r \<and> \<not> list_ex lost_write r \<and> r = [CtlWrite (WVMCreate (buildTargetVM c sample_source ''ns'')) True]"
    unfolding es_def
    by (simp add: Clone_Reconcile_def sample_clone_env_def sample_clone_def sample_source_def ctl_samples HasFinalizer_def Let_def named_def
        read_vm_def clone_from_vm_def ctl_getProviderInstance_def clone_on_provider_def requestedCloneType_def CloneTypeFullClone_def
        CloneTypeLinkedClone_def startClone_def Clone_updateStatus_def ctl_write_def ctl_emit_def set_cst_def bindTargetVM_def
        seed_and_finalize_def numeral_eq_Suc seed_attempt_def new_evs_def clone_cond_def api_is_not_found_def api_is_conflict_def)
  then have "filter clone_rpc es \<noteq> []" "\<not> list_ex lost_write es" by auto
  moreover from this(2) have "clone_run (persisted (cn_status sample_clone) es) ([] @ es)"
    by (intro clone_step [OF clone_start, where env = sample_clone_env and s = ctl_start and c = sample_clone])
      (simp_all add: sample_clone_env_def es_def)
  ultimately show ?thesis using clone_issued_once [of "persisted (cn_status sample_clone) es" es]
    by (metis One_nat_def append_Nil le_antisym length_0_conv not_less_eq_eq le_0_eq)
qed

text \<open>
  The two controllers do not create the same machine twice: whatever has happened to its status, a
  VirtualMachine object with the spec and labels the clone controller gives its target never makes the
  VirtualMachine controller issue a Create, and as long as its identifier is empty it makes it issue
  no RPC on machines at all.
\<close>

lemma clone_target_never_created:
  assumes "ce_get_vm env (ops s) key = Inr vm" "vm_spec vm = vm_spec (buildTargetVM c src ns)"
    and "md_labels (vm_meta vm) = md_labels (vm_meta (buildTargetVM c src ns))" "\<not> IsBeingDeleted (vm_meta vm)"
    and "e \<in> set (new_evs s (fst (VM_Reconcile env key s)))"
  shows "(\<forall>rq ok. e \<noteq> CtlCreate rq ok) \<and> (vm_id vm = '''' \<longrightarrow> \<not> machine_rpc e)"
proof -
  have adopted: "vmIsAdopted vm" "\<not> one_source vm"
    using assms(2,3) by (simp_all add: vmIsAdopted_def one_source_def buildTargetVM_def empty_vm_spec_def)
  have rpc: "vm_rpc vm inst cls e \<Longrightarrow> (\<forall>rq ok. e \<noteq> CtlCreate rq ok) \<and> vm_id vm \<noteq> ''''" for inst cls
    using adopted by (cases e) (auto simp: observed_def)
  show ?thesis
  proof (cases "machine_rpc e")
    case True
    then have "licensed env (Suc (ops s)) vm e"
      using one_rpcD(2) [OF VM_Reconcile_rpc [OF assms(1)] assms(5)] assms(4) by simp
    then obtain inst cls where "vm_rpc vm inst cls e" unfolding licensed_def by blast
    from rpc [OF this] show ?thesis by simp
  qed auto
qed

text \<open>
  Binding does not look whose object it binds. A clone whose Clone RPC is done and whose
  target name meanwhile belongs to a machine object that another actor created overwrites that object's identifier with its
  own and reports itself ready, so that the object now stands for the cloned machine and its own
  machine on the hypervisor is no longer managed.
\<close>

lemma clone_binds_foreign_machine:
  assumes "ident \<noteq> ''''" "\<And>n. ce_get_vm env n (ns, cg_Name (cn_Target c)) = Inr vm" "vm_id vm \<noteq> ident"
    and "\<And>n w. ce_write_err env n w = None" "0 < ce_retry_steps env"
  shows "\<exists>c'. new_evs s (fst (bindTargetVM env c src ns ident s)) =
      [CtlWrite (WVMStatus (vm\<lparr>vm_status := (vm_status vm)\<lparr>vt_ID := ident\<rparr>\<rparr>)) True, CtlWrite (WCloneStatus c') True] \<and>
    cs_Phase (cn_status c') = ''Ready''"
proof -
  obtain m where "ce_retry_steps env = Suc m" using assms(5) by (cases "ce_retry_steps env") auto
  then show ?thesis using assms(1-4)
    by (simp add: bindTargetVM_def Let_def read_vm_def seed_and_finalize_def seed_attempt_def ctl_write_def ctl_emit_def
        finalizeReady_def Clone_updateStatus_def new_evs_def)
qed

end
