(* ===== verification/VmAdoption.thy ===== *)
theory VmAdoption
  imports CtlModel
begin

text \<open>
  The adoption controller (\<^verbatim>\<open>internal/controller/vmadoption_controller.go\<close>), which makes VirtualMachine
  objects for machines the hypervisor already has. \<open>AdoptionReconcile\<close> is its \<^verbatim>\<open>Reconcile\<close>. The memory of
  a generated class is its number of MiB times \<open>2 ^ 20\<close>, as \<^verbatim>\<open>resource.MustParse\<close> reads it.
\<close>

section \<open>Names\<close>

text \<open>
  \<^verbatim>\<open>strings.ToLower\<close>: the ASCII letters, and the two code points outside ASCII whose lower case is an
  ASCII letter, KELVIN SIGN and LATIN CAPITAL LETTER I WITH DOT ABOVE; other letters outside ASCII are
  left alone.
\<close>

definition lower_char :: "char \<Rightarrow> char" where
  "lower_char c = (if 65 \<le> (of_char c :: nat) \<and> of_char c \<le> (90 :: nat) then char_of (of_char c + (32 :: nat)) else c)"

fun to_lower :: "string \<Rightarrow> string" where
  "to_lower [] = []"
| "to_lower (c # cs) =
     (if starts_with [CHR 0xE2, CHR 0x84, CHR 0xAA] (c # cs) then CHR ''k'' # to_lower (drop 2 cs)
      else if starts_with [CHR 0xC4, CHR 0xB0] (c # cs) then CHR ''i'' # to_lower (drop 1 cs)
      else lower_char c # to_lower cs)"

definition dash_for :: "char \<Rightarrow> char" where
  "dash_for c = (if c = CHR ''_'' \<or> c = CHR ''.'' \<or> c = CHR '' '' then CHR ''-'' else c)"

definition k8s_char :: "char \<Rightarrow> bool" where
  "k8s_char c \<longleftrightarrow>
     (97 \<le> (of_char c :: nat) \<and> of_char c \<le> (122 :: nat)) \<or> (48 \<le> (of_char c :: nat) \<and> of_char c \<le> (57 :: nat)) \<or> c = CHR ''-''"

definition sanitizeVMName :: "string \<Rightarrow> string" where
  "sanitizeVMName name =
     (let n = trim_set ''-'' (filter k8s_char (map dash_for (to_lower name)))
      in if 63 < length n then trim_set ''-'' (take 63 n) else n)"

section \<open>Filter\<close>

definition parseFilterAnnotation :: "ctl_env \<Rightarrow> string \<Rightarrow> adoption_filter result" where
  "parseFilterAnnotation env str =
     (case ce_parse_filter env str of
        Inl e \<Rightarrow> Inl (WrapError ''failed to parse filter JSON: '' e)
      | Inr f \<Rightarrow>
          if af_NamePattern f = '''' then Inr f
          else (case ce_regexp env (af_NamePattern f) of
                  Inl e \<Rightarrow> Inl (WrapError ''invalid namePattern regex: '' e)
                | Inr _ \<Rightarrow> Inr f))"

definition matchesFilter :: "ctl_env \<Rightarrow> vm_info \<Rightarrow> adoption_filter \<Rightarrow> bool" where
  "matchesFilter env v f \<longleftrightarrow>
     (af_NamePattern f = '''' \<or> (case ce_regexp env (af_NamePattern f) of Inl e \<Rightarrow> False | Inr m \<Rightarrow> m (vi_Name v))) \<and>
     (af_PowerState f = '''' \<or> to_lower (trim_space (vi_PowerState v)) = to_lower (trim_space (af_PowerState f))) \<and>
     \<not> (0 < af_MinCPU f \<and> vi_CPU v < af_MinCPU f) \<and>
     \<not> (0 < af_MaxCPU f \<and> af_MaxCPU f < vi_CPU v) \<and>
     \<not> (0 < af_MinMemoryMiB f \<and> vi_MemoryMiB v < af_MinMemoryMiB f) \<and>
     \<not> (0 < af_MaxMemoryMiB f \<and> af_MaxMemoryMiB f < vi_MemoryMiB v)"

section \<open>Discovery\<close>

text \<open>The hypervisor identifiers of the machines the provider has objects for.\<close>

definition managed_ids :: "provider \<Rightarrow> virtual_machine list \<Rightarrow> string list" where
  "managed_ids p vms =
     map (\<lambda>vm. if vm_id vm = '''' then vm_name vm else vm_id vm)
       (filter (\<lambda>vm. ref_key (vs_ProviderRef (vm_spec vm)) (vm_ns vm) = (md_namespace (pv_meta p), pv_name p)) vms)"

definition adoption_provider_instance :: "ctl_env \<Rightarrow> provider \<Rightarrow> provider_instance result" where
  "adoption_provider_instance env p =
     (case ce_resolver env of
        None \<Rightarrow> Inl (PlainError ''remote resolver not configured'')
      | Some f \<Rightarrow> (case f p of Inl e \<Rightarrow> Inl (WrapError ''failed to get provider: '' e) | Inr i \<Rightarrow> Inr i))"

definition discoverUnmanagedVMs :: "ctl_env \<Rightarrow> provider \<Rightarrow> adoption_filter option \<Rightarrow> vm_info list result" where
  "discoverUnmanagedVMs env p flt =
     (case adoption_provider_instance env p of
        Inl e \<Rightarrow> Inl (WrapError ''failed to get provider instance: '' e)
      | Inr inst \<Rightarrow>
          (case pi_ListVMs inst of
             Inl e \<Rightarrow> Inl (WrapError ''failed to list VMs: '' e)
           | Inr all_vms \<Rightarrow>
               (case ce_list_vms env of
                  Inl e \<Rightarrow> Inl (WrapError ''failed to list VirtualMachine CRs: '' e)
                | Inr crs \<Rightarrow>
                    Inr (filter (\<lambda>v. vi_ID v \<notin> set (managed_ids p crs) \<and>
                                     (case flt of None \<Rightarrow> True | Some f \<Rightarrow> matchesFilter env v f)) all_vms))))"

section \<open>Adoption\<close>

definition adopted_class :: "vm_info \<Rightarrow> string \<Rightarrow> vm_class" where
  "adopted_class v ns =
     (let cpu = (if vi_CPU v = 0 then 2 else vi_CPU v);
          mem = (if vi_MemoryMiB v = 0 then 4096 else vi_MemoryMiB v)
      in \<lparr>vc_meta = (new_meta ns (''adopted-'' @ show_int cpu @ ''cpu-'' @ show_int mem @ ''mb''))\<lparr>
            md_labels := [AdoptedLabel \<mapsto> AdoptedLabelValue]\<rparr>,
          vc_CPU = cpu, vc_Memory = mem * 2 ^ 20, vc_Firmware = ''BIOS'', vc_DiskDefaults = None,
          vc_GuestToolsPolicy = '''', vc_ExtraConfig = Map.empty, vc_ResourceLimits = None,
          vc_PerformanceProfile = None, vc_SecurityProfile = None\<rparr>)"

definition ensureVMClass :: "ctl_env \<Rightarrow> vm_info \<Rightarrow> string \<Rightarrow> ctl_state \<Rightarrow> ctl_state \<times> vm_class result" where
  "ensureVMClass env v ns s =
     (let c = adopted_class v ns
      in case read_class env (ns, md_name (vc_meta c)) s of
           (s1, Inr existing) \<Rightarrow> (s1, Inr existing)
         | (s1, Inl e) \<Rightarrow>
             if \<not> api_is_not_found e then (s1, Inl (WrapError ''failed to check for existing VMClass: '' e))
             else
               (case ctl_write env (WClassCreate c) s1 of
                  (s2, Some e') \<Rightarrow> (s2, Inl (WrapError ''failed to create VMClass: '' e'))
                | (s2, None) \<Rightarrow> (s2, Inr c)))"

definition adopted_status :: "vm_info \<Rightarrow> vm_status \<Rightarrow> vm_status" where
  "adopted_status v t =
     t\<lparr>vt_ID := vi_ID v, vt_PowerState := vi_PowerState v, vt_IPs := vi_IPs v, vt_Provider := vi_ProviderRaw v\<rparr>"

definition adopted_disk :: "vm_info \<Rightarrow> imported_disk" where
  "adopted_disk v =
     (let d0 = \<lparr>id_DiskID = vi_ID v, id_Path = '''', id_Format = ''qcow2'', id_Source = ''manual'',
                id_MigrationRef = None, id_SizeGiB = 0\<rparr>
      in case vi_Disks v of
           [] \<Rightarrow> d0
         | d # ds \<Rightarrow> d0\<lparr>id_Format := vd_Format d, id_Path := vd_Path d\<rparr>)"

definition adopted_resources :: "vm_info \<Rightarrow> vm_resources option" where
  "adopted_resources v =
     (if 0 < vi_CPU v \<or> 0 < vi_MemoryMiB v then
        Some \<lparr>rs_CPU = (if 0 < vi_CPU v then Some (vi_CPU v) else None),
              rs_MemoryMiB = (if 0 < vi_MemoryMiB v then Some (vi_MemoryMiB v) else None)\<rparr>
      else None)"

definition adopted_vm :: "provider \<Rightarrow> vm_info \<Rightarrow> string \<Rightarrow> vm_class \<Rightarrow> virtual_machine" where
  "adopted_vm p v name cls =
     \<lparr>vm_meta = (new_meta (md_namespace (pv_meta p)) name)\<lparr>md_labels := [AdoptedLabel \<mapsto> AdoptedLabelValue]\<rparr>,
      vm_spec = empty_vm_spec\<lparr>
        vs_ProviderRef := \<lparr>or_name = pv_name p, or_namespace = md_namespace (pv_meta p)\<rparr>,
        vs_ClassRef := \<lparr>or_name = md_name (vc_meta cls), or_namespace = md_namespace (vc_meta cls)\<rparr>,
        vs_ImportedDisk := Some (adopted_disk v),
        vs_PowerState := vi_PowerState v,
        vs_Resources := adopted_resources v\<rparr>,
      vm_status = adopted_status v empty_vm_status\<rparr>"

definition adopted_name :: "vm_info \<Rightarrow> string" where
  "adopted_name v = (let n = sanitizeVMName (vi_Name v) in if n = '''' then ''vm-'' @ vi_ID v else n)"

definition adoptVM :: "ctl_env \<Rightarrow> provider \<Rightarrow> vm_info \<Rightarrow> ctl_state \<Rightarrow> ctl_state \<times> go_error option" where
  "adoptVM env p v s =
     (let ns = md_namespace (pv_meta p);
          put_status = (\<lambda>vm s0. case ctl_write env (WVMStatus vm) s0 of
                          (s', Some e) \<Rightarrow> (s', Some (WrapError ''failed to update VM status: '' e))
                        | (s', None) \<Rightarrow> (s', None))
      in case read_vm env (ns, adopted_name v) s of
           (s1, Inr existing) \<Rightarrow>
             if md_labels (vm_meta existing) AdoptedLabel = Some AdoptedLabelValue \<and> vm_id existing = '''' then
               put_status (existing\<lparr>vm_status := adopted_status v (vm_status existing)\<rparr>) s1
             else (s1, None)
         | (s1, Inl e) \<Rightarrow>
             if \<not> api_is_not_found e then (s1, Some (WrapError ''failed to check for existing VM: '' e))
             else
               (case ensureVMClass env v ns s1 of
                  (s2, Inl e') \<Rightarrow> (s2, Some (WrapError ''failed to ensure VMClass: '' e'))
                | (s2, Inr cls) \<Rightarrow>
                    (case ctl_write env (WVMCreate (adopted_vm p v (adopted_name v) cls)) s2 of
                       (s3, Some e') \<Rightarrow> (s3, Some (WrapError ''failed to create VirtualMachine CR: '' e'))
                     | (s3, None) \<Rightarrow> put_status (adopted_vm p v (adopted_name v) cls) s3)))"

text \<open>The counts of adopted and failed machines are \<^verbatim>\<open>int32\<close> counters.\<close>

fun adopt_all :: "ctl_env \<Rightarrow> provider \<Rightarrow> vm_info list \<Rightarrow> int \<Rightarrow> int \<Rightarrow> ctl_state \<Rightarrow> ctl_state \<times> int \<times> int" where
  "adopt_all env p [] a f s = (s, a, f)"
| "adopt_all env p (v # vs) a f s =
     (case adoptVM env p v s of
        (s', Some e) \<Rightarrow> adopt_all env p vs a (wrap32 (f + 1)) s'
      | (s', None) \<Rightarrow> adopt_all env p vs (wrap32 (a + 1)) f s')"

definition adoption_isProviderReady :: "provider \<Rightarrow> bool" where
  "adoption_isProviderReady p \<longleftrightarrow> IsConditionTrue (pv_Conditions p) ''ProviderAvailable''"

definition no_adoption :: adoption_status where
  "no_adoption = \<lparr>ao_DiscoveredVMs = 0, ao_AdoptedVMs = 0, ao_FailedAdoptions = 0, ao_LastDiscoveryTime = None, ao_Message = ''''\<rparr>"

text \<open>
  \<open>adopt_discovered\<close> is \<^verbatim>\<open>Reconcile\<close> from the discovered machines on: nothing more when the last
  discovery is less than five minutes old, else the adoption of each of them.
\<close>

definition adopt_discovered ::
  "ctl_env \<Rightarrow> provider \<Rightarrow> adoption_status \<Rightarrow> vm_info list \<Rightarrow> ctl_state \<Rightarrow> ctl_state \<times> go_error outcome" where
  "adopt_discovered env p ad found s =
     (if (case ao_LastDiscoveryTime ad of None \<Rightarrow> False | Some t \<Rightarrow> time_sub (ce_now env) t < 5 * minute)
      then (s, requeue_in (5 * minute))
      else
        (case adopt_all env p found 0 0 s of
           (s1, a, f) \<Rightarrow>
             (let ad' = ad\<lparr>ao_LastDiscoveryTime := Some (ce_now env), ao_DiscoveredVMs := wrap32 (int (length found)),
                          ao_AdoptedVMs := a, ao_FailedAdoptions := f,
                          ao_Message := (if 0 < f then ''Adopted '' @ show_int a @ '' VMs, '' @ show_int f @ '' failed''
                                         else ''Successfully adopted '' @ show_int a @ '' VMs'')\<rparr>
              in case ctl_write env (WAdoptionStatus p (Some ad')) s1 of
                   (s2, Some e) \<Rightarrow> (s2, fail_with e)
                 | (s2, None) \<Rightarrow> (s2, requeue_in hour))))"

definition AdoptionReconcile :: "ctl_env \<Rightarrow> ctl_state \<Rightarrow> ctl_state \<times> go_error outcome" where
  "AdoptionReconcile env s =
     (case ce_get_adoption env of
        Inl e \<Rightarrow> (s, if api_is_not_found e then done_result else fail_with e)
      | Inr (p, ad_opt) \<Rightarrow>
          if md_annotations (pv_meta p) ''virtrigaud.io/adopt-vms'' \<noteq> Some ''true'' then
            (if ad_opt = None then s else fst (ctl_write env (WAdoptionStatus p None) s), done_result)
          else
            (let ad = (case ad_opt of None \<Rightarrow> no_adoption | Some a \<Rightarrow> a);
                 say = (\<lambda>msg d. (fst (ctl_write env (WAdoptionStatus p (Some (ad\<lparr>ao_Message := msg\<rparr>))) s), requeue_in d))
             in if \<not> adoption_isProviderReady p then say ''Provider not ready'' (30 * second)
                else
                  (let str = (case md_annotations (pv_meta p) ''virtrigaud.io/adopt-filter'' of None \<Rightarrow> '''' | Some x \<Rightarrow> x);
                       parsed = (if str = '''' then Inr None
                                 else (case parseFilterAnnotation env str of Inl e \<Rightarrow> Inl e | Inr f \<Rightarrow> Inr (Some f)))
                   in case parsed of
                        Inl e \<Rightarrow> say (''Invalid filter: '' @ error_string e) (5 * minute)
                      | Inr flt \<Rightarrow>
                          (case discoverUnmanagedVMs env p flt of
                             Inl e \<Rightarrow> say (''Discovery failed: '' @ error_string e) (5 * minute)
                           | Inr found \<Rightarrow> adopt_discovered env p ad found s))))"

end
