(* ===== verification/AdoptionProps.thy ===== *)
theory AdoptionProps
  imports VmAdoption VmProps
begin

text \<open>
  Adoption: the names it makes are valid object names, what is adopted is not discovered again, and
  what happens to machines whose names fall together.
\<close>

section \<open>Names\<close>

definition dns_label :: "string \<Rightarrow> bool" where
  "dns_label s \<longleftrightarrow> length s \<le> 63 \<and> list_all k8s_char s \<and> (s \<noteq> [] \<longrightarrow> hd s \<noteq> CHR ''-'' \<and> last s \<noteq> CHR ''-'')"

lemma dropWhile_hd: "dropWhile P s \<noteq> [] \<Longrightarrow> \<not> P (hd (dropWhile P s))"
  by (induction s) auto

lemma trim_set_ends:
  assumes "trim_set cs s \<noteq> []"
  shows "hd (trim_set cs s) \<notin> set cs \<and> last (trim_set cs s) \<notin> set cs"
proof -
  let ?P = "\<lambda>c. c \<in> set cs"
  define t where "t = dropWhile ?P s"
  define u where "u = dropWhile ?P (rev t)"
  have tr: "trim_set cs s = rev u" by (simp add: trim_set_def t_def u_def)
  then have u: "u \<noteq> []" using assms by auto
  then have l: "\<not> ?P (hd u)" unfolding u_def by (rule dropWhile_hd)
  obtain w where "rev t = w @ u" unfolding u_def using takeWhile_dropWhile_id by metis
  then have "t = rev u @ rev w" by (metis rev_append rev_rev_ident)
  then have "hd t = hd (rev u)" "t \<noteq> []" using u by (metis hd_append rev_is_Nil_conv, simp)
  then have "\<not> ?P (hd (rev u))" using dropWhile_hd [of ?P s] unfolding t_def by metis
  then show ?thesis using l u by (simp add: tr last_rev)
qed

lemma set_trim_set: "set (trim_set cs s) \<subseteq> set s"
  unfolding trim_set_def by (auto dest!: set_dropWhileD)

lemma length_trim_set: "length (trim_set cs s) \<le> length s"
  unfolding trim_set_def by (metis length_dropWhile_le length_rev order_trans)

lemma trim_set_id:
  assumes "s \<noteq> [] \<longrightarrow> hd s \<notin> set cs \<and> last s \<notin> set cs"
  shows "trim_set cs s = s"
proof (cases "s = []")
  case False
  then have "dropWhile (\<lambda>c. c \<in> set cs) s = s" using assms by (cases s) auto
  moreover have "dropWhile (\<lambda>c. c \<in> set cs) (rev s) = rev s" using assms False by (cases s rule: rev_cases) auto
  ultimately show ?thesis by (simp add: trim_set_def)
qed (simp add: trim_set_def)

lemma k8s_char_plain:
  assumes "k8s_char c"
  shows "lower_char c = c" "dash_for c = c" "c \<noteq> CHR 0xE2" "c \<noteq> CHR 0xC4"
  using assms by (auto simp: k8s_char_def lower_char_def dash_for_def)

lemma to_lower_plain: "list_all k8s_char s \<Longrightarrow> to_lower s = s"
  by (induction s rule: to_lower.induct) (auto simp: k8s_char_plain starts_with_def)

lemma sanitize_plain: "dns_label s \<Longrightarrow> sanitizeVMName s = s"
proof -
  assume s: "dns_label s"
  then have "map dash_for (to_lower s) = s"
    by (auto simp: dns_label_def to_lower_plain list_all_iff k8s_char_plain intro: map_idI)
  moreover have "filter k8s_char s = s" using s by (simp add: dns_label_def list_all_iff filter_id_conv)
  moreover have "trim_set ''-'' s = s" using s by (intro trim_set_id) (auto simp: dns_label_def)
  ultimately show ?thesis using s by (simp add: sanitizeVMName_def dns_label_def)
qed

lemma trimmed_label: "list_all k8s_char s \<Longrightarrow> length s \<le> 63 \<Longrightarrow> dns_label (trim_set ''-'' s)"
  using trim_set_ends [of "''-''" s] set_trim_set [of "''-''" s] length_trim_set [of "''-''" s]
  by (auto simp: dns_label_def list_all_iff)

lemma sanitize_label: "dns_label (sanitizeVMName name)"
proof -
  let ?f = "filter k8s_char (map dash_for (to_lower name))"
  let ?n = "trim_set ''-'' ?f"
  have k: "list_all k8s_char ?n" using set_trim_set [of "''-''" ?f] by (auto simp: list_all_iff)
  show ?thesis
  proof (cases "63 < length ?n")
    case True
    have "list_all k8s_char (take 63 ?n)" using k by (metis list_all_append append_take_drop_id)
    then have "dns_label (trim_set ''-'' (take 63 ?n))" by (rule trimmed_label) simp
    then show ?thesis using True by (simp add: sanitizeVMName_def Let_def)
  next
    case False
    have "dns_label ?n" using k False trim_set_ends [of "''-''" ?f] by (auto simp: dns_label_def)
    then show ?thesis using False by (simp add: sanitizeVMName_def Let_def)
  qed
qed

section \<open>Properties\<close>

text \<open>
  The object name made from a hypervisor's machine name is a DNS label or empty: at most 63
  characters, only lower-case letters, digits and hyphens, with no hyphen at either end; and making a name of such a
  name changes nothing.
\<close>

lemma sanitized_names_are_labels:
  "dns_label (sanitizeVMName name) \<and> sanitizeVMName (sanitizeVMName name) = sanitizeVMName name"
  using sanitize_label sanitize_plain by blast

definition sample_info :: vm_info where
  "sample_info = \<lparr>vi_ID = ''uuid-1'', vi_Name = ''Web_1'', vi_PowerState = ''On'', vi_IPs = [], vi_CPU = 2, vi_MemoryMiB = 2048,
     vi_Disks = [], vi_Networks = [], vi_ProviderRaw = Map.empty\<rparr>"

lemma ensureVMClass_events: "ensureVMClass env v ns s = (s', r) \<Longrightarrow> grows (\<lambda>e. \<exists>c ok. e = CtlWrite (WClassCreate c) ok) s s'"
  by (auto simp: ensureVMClass_def Let_def split: prod.splits sum.splits if_splits option.splits
      dest!: grows_read_classE [where P = "\<lambda>e. \<exists>c ok. e = CtlWrite (WClassCreate c) ok"]
        grows_writeE [where P = "\<lambda>e. \<exists>c ok. e = CtlWrite (WClassCreate c) ok"] intro: grows_trans)

lemma adoptVM_new:
  assumes "adoptVM env p v s = (s', None)" "ce_get_vm env (ops s) (md_namespace (pv_meta p), adopted_name v) = Inl e"
  shows "\<exists>cls es. new_evs s s' = es @ [CtlWrite (WVMCreate (adopted_vm p v (adopted_name v) cls)) True,
      CtlWrite (WVMStatus (adopted_vm p v (adopted_name v) cls)) True] \<and> list_all (\<lambda>e. \<exists>c ok. e = CtlWrite (WClassCreate c) ok) es"
proof -
  let ?s1 = "s\<lparr>ops := Suc (ops s)\<rparr>"
  obtain s2 cls where c: "ensureVMClass env v (md_namespace (pv_meta p)) ?s1 = (s2, Inr cls)"
    using assms by (auto simp: adoptVM_def Let_def read_vm_def split: if_splits prod.splits sum.splits)
  let ?vm = "adopted_vm p v (adopted_name v) cls"
  obtain es where es: "evs s2 = evs s @ es" "list_all (\<lambda>e. \<exists>c ok. e = CtlWrite (WClassCreate c) ok) es"
    using ensureVMClass_events [OF c] by (auto simp: grows_def)
  have "new_evs s s' = es @ [CtlWrite (WVMCreate ?vm) True, CtlWrite (WVMStatus ?vm) True]"
    using assms c es(1)
    by (auto simp: adoptVM_def Let_def read_vm_def ctl_write_def ctl_emit_def new_evs_def split: if_splits option.splits)
  then show ?thesis using es(2) by blast
qed


lemma adopt_sample:
  "snd (adoptVM ((sample_ctl_env sample_machine)\<lparr>ce_get_vm := \<lambda>_ _. Inl (StatusError ReasonNotFound '''')\<rparr>) sample_ctl_provider sample_info ctl_start) = None"
  by (simp add: adoptVM_def Let_def read_vm_def sample_ctl_env_def api_is_not_found_def ensureVMClass_def read_class_def ctl_write_def)


text \<open>
  Two machines of a provider whose names fall together after sanitizing are not both adopted. Once an object of that
  name stands for the first, adopting the second does nothing at all and yet counts as an adopted machine: it is
  neither managed nor reported as failed.
\<close>

lemma colliding_names_are_dropped:
  assumes "sanitizeVMName (vi_Name v) = sanitizeVMName (vi_Name w)" "sanitizeVMName (vi_Name v) \<noteq> ''''"
    and "\<And>n. ce_get_vm env n (md_namespace (pv_meta p), adopted_name w) = Inr existing" "vm_id existing = vi_ID w" "vi_ID w \<noteq> ''''"
    and "adopt_all env p (v # vs) a f s = (s', a', f')"
  shows "new_evs s (fst (adoptVM env p v s)) = [] \<and> adopt_all env p vs (wrap32 (a + 1)) f (s\<lparr>ops := Suc (ops s)\<rparr>) = (s', a', f')"
proof -
  have "adopted_name v = adopted_name w" using assms(1,2) by (simp add: adopted_name_def)
  then have "adoptVM env p v s = (s\<lparr>ops := Suc (ops s)\<rparr>, None)"
    using assms(3-5) by (simp add: adoptVM_def read_vm_def Let_def)
  then show ?thesis using assms(6) by (simp add: new_evs_def)
qed

end
