(* ===== verification/Composition.thy ===== *)
theory Composition
  imports MigrationFlow VmProps
begin

text \<open>
  The VMMigration controller and the VirtualMachine controller together: the machine object a migration creates is
  what the VirtualMachine controller then creates on the target provider.
\<close>

lemma create_is_licensed:
  assumes "ce_get_vm env (ops s) key = Inr vm" "CtlCreate rq ok \<in> set (new_evs s (fst (VM_Reconcile env key s)))"
  shows "\<not> IsBeingDeleted (vm_meta vm) \<and> licensed env (Suc (ops s)) vm (CtlCreate rq ok)"
  using one_rpcD(2) [OF VM_Reconcile_rpc [OF assms(1)] assms(2)] by (auto simp: deletion_rpc_def split: if_splits)

text \<open>
  C19. The imported disk reaches the hypervisor: when the VirtualMachine controller creates the machine
  of an object that a migration made from the status its import step left behind, the create request names the
  path the target provider reported for the imported disk, in that provider's native format and without a
  download URL.
\<close>

theorem migrated_disk_backs_create:
  assumes "m' = import_complete env0 (record_import m tgt iresp)" "mt_DiskInfo (mg_status m') = Some d" "ip_Path iresp \<noteq> ''''"
    and "vm_spec vm = vm_spec (new_target_vm m' d)" "ce_get_vm env (ops s) key = Inr vm"
    and "CtlCreate rq ok \<in> set (new_evs s (fst (VM_Reconcile env key s)))"
  shows "ki_Path (rq_Image rq) = ip_Path iresp \<and> ki_Format (rq_Image rq) = nativeDiskFormat (Some tgt) \<and> ki_URL (rq_Image rq) = ''''"
proof -
  have disk: "\<exists>i. vs_ImportedDisk (vm_spec vm) = Some i \<and> id_Path i = ip_Path iresp \<and> id_Format i = nativeDiskFormat (Some tgt)"
    using assms(1,2,4) by (auto simp: import_complete_def record_import_def new_target_vm_def landedTargetFormat_def split: option.splits)
  have "rq_Image rq = image_of_disk i" if "vs_ImportedDisk (vm_spec vm) = Some i" for i
    using create_is_licensed [OF assms(5,6)] that by (auto simp: licensed_def)
  moreover have "nativeDiskFormat (Some tgt) \<noteq> ''''" by (simp add: nativeDiskFormat_def)
  ultimately show ?thesis using disk assms(3) by (auto simp: image_of_disk_def Let_def no_image_def)
qed

definition sample_import :: import_disk_response where
  "sample_import = \<lparr>ip_DiskId = ''disk'', ip_Path = ''/pool/disk.qcow2'', ip_TaskRef = '''', ip_ActualSizeBytes = 0, ip_Checksum = ''''\<rparr>"

definition sample_imported :: migration where
  "sample_imported = import_complete (sample_env (sample_mig PhaseImporting))
     (record_import (sample_mig PhaseImporting) sample_provider sample_import)"

definition sample_target :: virtual_machine where
  "sample_target = (new_target_vm sample_imported (the (mt_DiskInfo (mg_status sample_imported))))\<lparr>
     vm_meta := (new_meta ''ns'' ''new'')\<lparr>md_finalizers := [VirtualMachineFinalizer]\<rparr>\<rparr>"

lemma sample_target_created:
  "\<exists>rq. CtlCreate rq True \<in> set (new_evs ctl_start (fst (VM_Reconcile (sample_ctl_env sample_target) (''ns'', ''new'') ctl_start)))"
proof -
  have spec: "vs_ImageRef (vm_spec sample_target) = None" "vs_ImportedDisk (vm_spec sample_target) \<noteq> None"
      "vs_Networks (vm_spec sample_target) = []" "vs_UserData (vm_spec sample_target) = None" "vs_MetaData (vm_spec sample_target) = None"
      "vm_status sample_target = empty_vm_status"
    by (simp_all add: sample_target_def new_target_vm_def empty_vm_spec_def sample_imported_def import_complete_def record_import_def
        sample_mig_def sample_spec_def)
  have meta: "vm_meta sample_target = (new_meta ''ns'' ''new'')\<lparr>md_finalizers := [VirtualMachineFinalizer]\<rparr>"
    by (simp add: sample_target_def)
  show ?thesis
    by (simp add: new_evs_def VM_Reconcile_def read_vm_def sample_ctl_env_def ctl_start_def sample_ctl_instance_def IsBeingDeleted_def
        AddFinalizer_def meta new_meta_def HasFinalizer_def reconcileVM_def Let_def getDependencies_def get_dep_image_def
        ctl_getProviderInstance_def EnsureImageOnProvider_def reconcile_tasks_def poll_last_task_def poll_reconfigure_task_def
        set_vst_def converge_def vmIsAdopted_def createVM_def buildCreateRequest_def request_user_data_def request_meta_data_def
        spec empty_vm_status_def vm_end_def VM_updateStatus_def ctl_write_def ctl_emit_def)
qed

theorem migrated_disk_backs_create_witness:
  "\<exists>rq. CtlCreate rq True \<in> set (new_evs ctl_start (fst (VM_Reconcile (sample_ctl_env sample_target) (''ns'', ''new'') ctl_start))) \<and>
     ki_Path (rq_Image rq) = ''/pool/disk.qcow2''"
proof -
  obtain rq where rq: "CtlCreate rq True \<in> set (new_evs ctl_start (fst (VM_Reconcile (sample_ctl_env sample_target) (''ns'', ''new'') ctl_start)))"
    using sample_target_created by blast
  have d: "mt_DiskInfo (mg_status sample_imported) = Some (the (mt_DiskInfo (mg_status sample_imported)))"
    by (simp add: sample_imported_def import_complete_def record_import_def)
  have v: "vm_spec sample_target = vm_spec (new_target_vm sample_imported (the (mt_DiskInfo (mg_status sample_imported))))"
    by (simp add: sample_target_def)
  have "ce_get_vm (sample_ctl_env sample_target) (ops ctl_start) (''ns'', ''new'') = Inr sample_target" by (simp add: sample_ctl_env_def)
  from migrated_disk_backs_create [OF sample_imported_def d _ v this rq] rq show ?thesis by (auto simp: sample_import_def)
qed

text \<open>
  The class of a migration's target is optional in its API and required by the VirtualMachine controller. The
  object of a migration without one refers to the class with the empty name; as long as the API
  server serves no object of that name, no reconcile of it ever issues an RPC, so that the target is
  never created.
\<close>

lemma migration_without_class_stalls:
  assumes "tg_ClassRef (mg_target m) = None" "vm_spec vm = vm_spec (new_target_vm m d)" "ce_get_vm env (ops s) key = Inr vm"
    and "\<not> IsBeingDeleted (vm_meta vm)" "\<And>n ns. \<exists>e. ce_get_class env n (ns, '''') = Inl e"
  shows "list_all (\<lambda>e. \<not> machine_rpc e) (new_evs s (fst (VM_Reconcile env key s)))"
proof -
  have ref: "vs_ClassRef (vm_spec vm) = no_ref" using assms(1,2) by (simp add: new_target_vm_def)
  have "\<not> licensed env n vm e" for n e
    using assms(5) [of n "vm_ns vm"] by (auto simp: licensed_def ref ref_key_def no_ref_def)
  then show ?thesis using one_rpcD(2) [OF VM_Reconcile_rpc [OF assms(3)]] assms(4) by (auto simp: list_all_iff)
qed

end
