(* ===== verification/GrpcClient.thy ===== *)
theory GrpcClient
  imports CircuitBreaker KubeObjects
begin

text \<open>
  The gRPC client through which the controllers talk to a provider process
  (\<^verbatim>\<open>internal/transport/grpc/client.go\<close>). The generated protobuf stub is the parameter \<open>provider_stub\<close>:
  what the provider process answers to each request. A protobuf message with one field is that field;
  an optional \<^verbatim>\<open>TaskRef\<close> is an option. The JSON encoders are the parameter \<open>wire_codec\<close>. A client
  carries the breaker its interceptor consults and the set of task references it tracks together with
  the gauge that reports its size. The other metrics and the call deadlines are not modelled; a missed
  deadline is one of the errors the stub may answer.
\<close>

section \<open>Messages\<close>

record pb_validate_response =
  pv_Ok :: bool
  pv_Message :: string

record pb_create_request =
  pq_Name :: string
  pq_UserData :: string
  pq_MetaData :: string
  pq_ClassJson :: string
  pq_ImageJson :: string
  pq_NetworksJson :: string
  pq_DisksJson :: string
  pq_PlacementJson :: string
  pq_Tags :: "string list"

record pb_create_response =
  pr_Id :: string
  pr_Task :: "string option"

datatype pb_power_op =
    POWER_OP_UNSPECIFIED | POWER_OP_ON | POWER_OP_OFF | POWER_OP_REBOOT | POWER_OP_SHUTDOWN_GRACEFUL

record pb_power_request =
  pw_Id :: string
  pw_Op :: pb_power_op
  pw_GracefulTimeoutSeconds :: int

record pb_reconfigure_request =
  pf_Id :: string
  pf_DesiredJson :: string

record pb_describe_response =
  pd_Exists :: bool
  pd_PowerState :: string
  pd_Ips :: "string list"
  pd_ConsoleUrl :: string
  pd_ProviderRawJson :: string

record pb_task_status =
  pt_Done :: bool
  pt_Error :: string

record pb_snapshot_create_request =
  psq_VmId :: string
  psq_NameHint :: string
  psq_IncludeMemory :: bool
  psq_Description :: string

record pb_snapshot_create_response =
  psr_SnapshotId :: string
  psr_Task :: "string option"

record pb_clone_request =
  plq_SourceVmId :: string
  plq_TargetName :: string
  plq_Linked :: bool
  plq_ClassJson :: string
  plq_PlacementJson :: string
  plq_CustomizeJson :: string

record pb_clone_response =
  plr_TargetVmId :: string
  plr_Task :: "string option"

record pb_image_prepare_request =
  pmq_ImageJson :: string
  pmq_TargetName :: string
  pmq_StorageHint :: string

record pb_image_prepare_response =
  pmr_Task :: "string option"
  pmr_PreparedImageId :: string
  pmr_PreparedImagePath :: string

record pb_export_disk_request =
  peq_VmId :: string
  peq_DiskId :: string
  peq_SnapshotId :: string
  peq_DestinationUrl :: string
  peq_Format :: string
  peq_Compress :: bool
  peq_Credentials :: "string \<rightharpoonup> string"
  peq_BackendType :: string
  peq_TransferMode :: string
  peq_StorageOptionsJson :: string

record pb_export_disk_response =
  per_ExportId :: string
  per_Task :: "string option"
  per_EstimatedSizeBytes :: int
  per_Checksum :: string

record pb_import_disk_request =
  piq_SourceUrl :: string
  piq_StorageHint :: string
  piq_Format :: string
  piq_TargetName :: string
  piq_VerifyChecksum :: bool
  piq_ExpectedChecksum :: string
  piq_Credentials :: "string \<rightharpoonup> string"
  piq_BackendType :: string
  piq_TransferMode :: string
  piq_StorageOptionsJson :: string

record pb_import_disk_response =
  pir_DiskId :: string
  pir_Path :: string
  pir_Task :: "string option"
  pir_ActualSizeBytes :: int
  pir_Checksum :: string

record pb_get_disk_info_request =
  pgq_VmId :: string
  pgq_DiskId :: string
  pgq_SnapshotId :: string

record pb_get_disk_info_response =
  pgr_DiskId :: string
  pgr_Format :: string
  pgr_VirtualSizeBytes :: int
  pgr_ActualSizeBytes :: int
  pgr_Path :: string
  pgr_IsBootable :: bool
  pgr_Snapshots :: "string list"
  pgr_BackingFile :: string
  pgr_Metadata :: "string \<rightharpoonup> string"

record pb_disk_info =
  pdi_Id :: string
  pdi_Path :: string
  pdi_SizeGib :: int
  pdi_Format :: string

record pb_network_info =
  pni_Name :: string
  pni_Mac :: string
  pni_IpAddress :: string

record pb_vm_info =
  pvi_Id :: string
  pvi_Name :: string
  pvi_PowerState :: string
  pvi_Ips :: "string list"
  pvi_Cpu :: int
  pvi_MemoryMib :: int
  pvi_Disks :: "pb_disk_info list"
  pvi_Networks :: "pb_network_info list"
  pvi_ProviderRaw :: "string \<rightharpoonup> string"

record pb_capabilities =
  pca_SupportsReconfigureOnline :: bool
  pca_SupportsDiskExpansionOnline :: bool
  pca_SupportsSnapshots :: bool
  pca_SupportsMemorySnapshots :: bool
  pca_SupportsLinkedClones :: bool
  pca_SupportsImageImport :: bool
  pca_SupportedDiskTypes :: "string list"
  pca_SupportedNetworkTypes :: "string list"
  pca_SupportsDiskExport :: bool
  pca_SupportsDiskImport :: bool
  pca_SupportedExportFormats :: "string list"
  pca_SupportedImportFormats :: "string list"
  pca_SupportsExportCompression :: bool
  pca_SupportedExportBackends :: "string list"
  pca_SupportedImportBackends :: "string list"
  pca_SupportedTransferModes :: "string list"

text \<open>The disk-information messages of the contract.\<close>

record get_disk_info_request =
  gi_VmId :: string
  gi_DiskId :: string
  gi_SnapshotId :: string

record get_disk_info_response =
  gr_DiskId :: string
  gr_Format :: string
  gr_VirtualSizeBytes :: int
  gr_ActualSizeBytes :: int
  gr_Path :: string
  gr_IsBootable :: bool
  gr_Snapshots :: "string list"
  gr_BackingFile :: string
  gr_Metadata :: "string \<rightharpoonup> string"

text \<open>
  The provider process behind the stub: its answer to each request, which may be a gRPC status or any
  other error. The n-th poll of a task may answer differently from the first.
\<close>

record provider_stub =
  ps_Validate :: "pb_validate_response result"
  ps_Create :: "pb_create_request \<Rightarrow> pb_create_response result"
  ps_Delete :: "string \<Rightarrow> string option result"
  ps_Power :: "pb_power_request \<Rightarrow> string option result"
  ps_Reconfigure :: "pb_reconfigure_request \<Rightarrow> string option result"
  ps_Describe :: "string \<Rightarrow> pb_describe_response result"
  ps_TaskStatus :: "string \<Rightarrow> nat \<Rightarrow> pb_task_status result"
  ps_SnapshotCreate :: "pb_snapshot_create_request \<Rightarrow> pb_snapshot_create_response result"
  ps_SnapshotDelete :: "string \<times> string \<Rightarrow> string option result"
  ps_SnapshotRevert :: "string \<times> string \<Rightarrow> string option result"
  ps_Clone :: "pb_clone_request \<Rightarrow> pb_clone_response result"
  ps_ImagePrepare :: "pb_image_prepare_request \<Rightarrow> pb_image_prepare_response result"
  ps_GetCapabilities :: "pb_capabilities result"
  ps_ExportDisk :: "pb_export_disk_request \<Rightarrow> pb_export_disk_response result"
  ps_ImportDisk :: "pb_import_disk_request \<Rightarrow> pb_import_disk_response result"
  ps_GetDiskInfo :: "pb_get_disk_info_request \<Rightarrow> pb_get_disk_info_response result"
  ps_ListVMs :: "pb_vm_info list result"

text \<open>
  \<^verbatim>\<open>json.Marshal\<close> on the parts of a request, and the decoding of \<^verbatim>\<open>provider_raw_json\<close> into a map whose
  values are printed with \<^verbatim>\<open>%v\<close>.
\<close>

record wire_codec =
  wc_class :: "contract_class \<Rightarrow> string result"
  wc_image :: "contract_image \<Rightarrow> string result"
  wc_networks :: "network_attachment list \<Rightarrow> string result"
  wc_disks :: "vm_disk list \<Rightarrow> string result"
  wc_placement :: "contract_placement \<Rightarrow> string result"
  wc_request :: "create_request \<Rightarrow> string result"
  wc_raw :: "string \<Rightarrow> (string \<rightharpoonup> string) result"

section \<open>Errors\<close>

text \<open>
  \<^verbatim>\<open>status.FromError\<close>: a status error itself, or one found through wrapping, then with the whole
  error's text as its message. \<^verbatim>\<open>status.Code\<close> calls anything else \<^verbatim>\<open>Unknown\<close>.
\<close>

fun as_grpc_error :: "go_error \<Rightarrow> grpc_code option" where
  "as_grpc_error (GrpcError c m) = Some c"
| "as_grpc_error (WrapError p e) = as_grpc_error e"
| "as_grpc_error (ProviderError t m (Some e) r) = as_grpc_error e"
| "as_grpc_error (StorageError t m (Some e)) = as_grpc_error e"
| "as_grpc_error _ = None"

definition status_from_error :: "go_error \<Rightarrow> (grpc_code \<times> string) option" where
  "status_from_error e =
     (case e of GrpcError c m \<Rightarrow> Some (c, m) | _ \<Rightarrow> map_option (\<lambda>c. (c, error_string e)) (as_grpc_error e))"

definition status_code :: "go_error option \<Rightarrow> grpc_code" where
  "status_code err =
     (case err of
        None \<Rightarrow> CodeOK
      | Some e \<Rightarrow> (case as_grpc_error e of None \<Rightarrow> CodeUnknown | Some c \<Rightarrow> c))"

definition mapGRPCError :: "string \<Rightarrow> go_error \<Rightarrow> go_error" where
  "mapGRPCError operation err =
     (case status_from_error err of
        None \<Rightarrow> WrapError (operation @ '' failed: '') err
      | Some (code, msg) \<Rightarrow>
          (case code of
             CodeNotFound \<Rightarrow> new_not_found_error (operation @ '': '' @ msg) (Some err)
           | CodeInvalidArgument \<Rightarrow> new_invalid_spec_error (operation @ '': '' @ msg) (Some err)
           | CodeUnavailable \<Rightarrow> new_retryable_error (operation @ '': '' @ msg) (Some err)
           | CodeDeadlineExceeded \<Rightarrow> new_retryable_error (operation @ '': '' @ msg) (Some err)
           | _ \<Rightarrow> PlainError (operation @ '' failed: '' @ msg)))"

definition isInfraFailure :: "go_error option \<Rightarrow> bool" where
  "isInfraFailure err \<longleftrightarrow>
     err \<noteq> None \<and>
     (case status_code err of
        CodeUnavailable \<Rightarrow> True
      | CodeDeadlineExceeded \<Rightarrow> True
      | CodeInternal \<Rightarrow> True
      | CodeUnknown \<Rightarrow> True
      | _ \<Rightarrow> False)"

section \<open>The interceptor\<close>

definition error_of :: "'a result \<Rightarrow> go_error option" where
  "error_of r = (case r of Inl e \<Rightarrow> Some e | Inr _ \<Rightarrow> None)"

text \<open>
  One RPC through the breaker. \<open>r\<close> is what the provider answers if the call gets through; the state of
  the call is \<^verbatim>\<open>invokerErr\<close>, which stays nil when the breaker refuses.
\<close>

definition providerCircuitBreakerInterceptor ::
  "int \<times> int \<Rightarrow> 'a result \<Rightarrow> circuit_breaker \<Rightarrow> circuit_breaker \<times> 'a result" where
  "providerCircuitBreakerInterceptor t r cb =
     (case Call (fst t) (snd t)
             (\<lambda>_. let invokerErr = error_of r in (invokerErr, if isInfraFailure invokerErr then invokerErr else None))
             (cb, None) of
        ((cb', invokerErr), cbErr) \<Rightarrow>
          (cb', case cbErr of
                  Some e \<Rightarrow> if invokerErr = None
                            then Inl (GrpcError CodeUnavailable (''circuit breaker open: '' @ error_string e)) else r
                | None \<Rightarrow> r))"

section \<open>The client\<close>

record grpc_client =
  gc_breaker :: "circuit_breaker option"
  gc_inflight :: "string list"
  gc_gauge :: nat

text \<open>\<^verbatim>\<open>NewClient\<close> once the connection is set up.\<close>

definition NewClient :: "circuit_breaker option \<Rightarrow> grpc_client" where
  "NewClient cb = \<lparr>gc_breaker = cb, gc_inflight = [], gc_gauge = 0\<rparr>"

definition trackTaskStart :: "string \<Rightarrow> grpc_client \<Rightarrow> grpc_client" where
  "trackTaskStart task c =
     (if task = '''' \<or> task \<in> set (gc_inflight c) then c
      else let ts = task # gc_inflight c in c\<lparr>gc_inflight := ts, gc_gauge := length ts\<rparr>)"

definition trackTaskDone :: "string \<Rightarrow> grpc_client \<Rightarrow> grpc_client" where
  "trackTaskDone task c =
     (if task = '''' \<or> task \<notin> set (gc_inflight c) then c
      else let ts = removeAll task (gc_inflight c) in c\<lparr>gc_inflight := ts, gc_gauge := length ts\<rparr>)"

definition track_started :: "string option \<Rightarrow> grpc_client \<Rightarrow> grpc_client" where
  "track_started task c = (case task of None \<Rightarrow> c | Some i \<Rightarrow> trackTaskStart i c)"

text \<open>A stub call with the client's interceptors; without a breaker it goes straight through.\<close>

definition invoke :: "int \<times> int \<Rightarrow> 'a result \<Rightarrow> grpc_client \<Rightarrow> grpc_client \<times> 'a result" where
  "invoke t r c =
     (case gc_breaker c of
        None \<Rightarrow> (c, r)
      | Some cb \<Rightarrow> (case providerCircuitBreakerInterceptor t r cb of (cb', r') \<Rightarrow> (c\<lparr>gc_breaker := Some cb'\<rparr>, r')))"

text \<open>
  The shape the methods share: the call, the mapping of its error, the tracking of the task it
  started, and the conversion of the response.
\<close>

definition call_rpc ::
  "string \<Rightarrow> int \<times> int \<Rightarrow> 'r result \<Rightarrow> ('r \<Rightarrow> string option) \<Rightarrow> ('r \<Rightarrow> 'a) \<Rightarrow> grpc_client \<Rightarrow> grpc_client \<times> 'a result" where
  "call_rpc operation t r task conv c =
     (case invoke t r c of
        (c', Inl e) \<Rightarrow> (c', Inl (mapGRPCError operation e))
      | (c', Inr resp) \<Rightarrow> (track_started (task resp) c', Inr (conv resp)))"

abbreviation no_task :: "'r \<Rightarrow> string option" where "no_task \<equiv> \<lambda>_. None"

text \<open>A missing task reference reads as the empty string.\<close>

definition task_id :: "string option \<Rightarrow> string" where
  "task_id task = (case task of None \<Rightarrow> '''' | Some i \<Rightarrow> i)"

section \<open>Methods\<close>

definition Client_Validate :: "provider_stub \<Rightarrow> int \<times> int \<Rightarrow> grpc_client \<Rightarrow> grpc_client \<times> go_error option" where
  "Client_Validate st t c =
     (case call_rpc ''validate'' t (ps_Validate st) no_task (\<lambda>resp. resp) c of
        (c', Inl e) \<Rightarrow> (c', Some e)
      | (c', Inr resp) \<Rightarrow>
          (c', if \<not> pv_Ok resp then Some (PlainError (''provider validation failed: '' @ pv_Message resp)) else None))"

definition convert_capabilities :: "pb_capabilities \<Rightarrow> capabilities" where
  "convert_capabilities resp =
     \<lparr>cap_SupportsReconfigureOnline = pca_SupportsReconfigureOnline resp,
      cap_SupportsDiskExpansionOnline = pca_SupportsDiskExpansionOnline resp,
      cap_SupportsSnapshots = pca_SupportsSnapshots resp,
      cap_SupportsMemorySnapshots = pca_SupportsMemorySnapshots resp,
      cap_SupportsLinkedClones = pca_SupportsLinkedClones resp,
      cap_SupportsImageImport = pca_SupportsImageImport resp,
      cap_SupportedDiskTypes = pca_SupportedDiskTypes resp,
      cap_SupportedNetworkTypes = pca_SupportedNetworkTypes resp,
      cap_SupportsDiskExport = pca_SupportsDiskExport resp,
      cap_SupportsDiskImport = pca_SupportsDiskImport resp,
      cap_SupportedExportFormats = pca_SupportedExportFormats resp,
      cap_SupportedImportFormats = pca_SupportedImportFormats resp,
      cap_SupportsExportCompression = pca_SupportsExportCompression resp,
      cap_SupportedExportBackends = pca_SupportedExportBackends resp,
      cap_SupportedImportBackends = pca_SupportedImportBackends resp,
      cap_SupportedTransferModes = pca_SupportedTransferModes resp\<rparr>"

definition Client_GetCapabilities ::
  "provider_stub \<Rightarrow> int \<times> int \<Rightarrow> grpc_client \<Rightarrow> grpc_client \<times> capabilities result" where
  "Client_GetCapabilities st t = call_rpc ''get capabilities'' t (ps_GetCapabilities st) no_task convert_capabilities"

definition Client_Clone ::
  "provider_stub \<Rightarrow> int \<times> int \<Rightarrow> clone_request \<Rightarrow> grpc_client \<Rightarrow> grpc_client \<times> clone_response result" where
  "Client_Clone st t req =
     call_rpc ''clone'' t
       (ps_Clone st \<lparr>plq_SourceVmId = cq_SourceVmID req, plq_TargetName = cq_TargetName req,
          plq_Linked = cq_Linked req, plq_ClassJson = cq_ClassJSON req,
          plq_PlacementJson = cq_PlacementJSON req, plq_CustomizeJson = cq_CustomizeJSON req\<rparr>)
       plr_Task (\<lambda>resp. \<lparr>cl_TargetVmID = plr_TargetVmId resp, cl_TaskRef = task_id (plr_Task resp)\<rparr>)"

definition Client_PrepareImage ::
  "provider_stub \<Rightarrow> int \<times> int \<Rightarrow> image_prepare_request \<Rightarrow> grpc_client \<Rightarrow> grpc_client \<times> image_prepare_response result" where
  "Client_PrepareImage st t req =
     call_rpc ''image prepare'' t
       (ps_ImagePrepare st \<lparr>pmq_ImageJson = iq_ImageJSON req, pmq_TargetName = iq_TargetName req,
          pmq_StorageHint = iq_StorageHint req\<rparr>)
       pmr_Task
       (\<lambda>resp. \<lparr>ix_TaskRef = task_id (pmr_Task resp), ix_PreparedImageID = pmr_PreparedImageId resp,
          ix_PreparedImagePath = pmr_PreparedImagePath resp\<rparr>)"

text \<open>A part of the request that cannot be encoded is left empty.\<close>

definition json_or_empty :: "string result \<Rightarrow> string" where
  "json_or_empty r = (case r of Inl _ \<Rightarrow> '''' | Inr s \<Rightarrow> s)"

definition convertCreateRequest :: "wire_codec \<Rightarrow> create_request \<Rightarrow> pb_create_request result" where
  "convertCreateRequest w req =
     Inr \<lparr>pq_Name = rq_Name req,
          pq_UserData = (case rq_UserData req of None \<Rightarrow> '''' | Some u \<Rightarrow> ku_CloudInitData u),
          pq_MetaData = (case rq_MetaData req of None \<Rightarrow> '''' | Some m \<Rightarrow> m),
          pq_ClassJson = json_or_empty (wc_class w (rq_Class req)),
          pq_ImageJson = json_or_empty (wc_image w (rq_Image req)),
          pq_NetworksJson = json_or_empty (wc_networks w (rq_Networks req)),
          pq_DisksJson = json_or_empty (wc_disks w (rq_Disks req)),
          pq_PlacementJson = (case rq_Placement req of None \<Rightarrow> '''' | Some p \<Rightarrow> json_or_empty (wc_placement w p)),
          pq_Tags = rq_Tags req\<rparr>"

definition Client_Create ::
  "wire_codec \<Rightarrow> provider_stub \<Rightarrow> int \<times> int \<Rightarrow> create_request \<Rightarrow> grpc_client \<Rightarrow> grpc_client \<times> create_response result" where
  "Client_Create w st t req c =
     (case convertCreateRequest w req of
        Inl e \<Rightarrow> (c, Inl (WrapError ''failed to convert create request: '' e))
      | Inr grpcReq \<Rightarrow>
          call_rpc ''create'' t (ps_Create st grpcReq) pr_Task
            (\<lambda>resp. \<lparr>cr_ID = pr_Id resp, cr_TaskRef = task_id (pr_Task resp)\<rparr>) c)"

definition Client_Delete ::
  "provider_stub \<Rightarrow> int \<times> int \<Rightarrow> string \<Rightarrow> grpc_client \<Rightarrow> grpc_client \<times> string result" where
  "Client_Delete st t i = call_rpc ''delete'' t (ps_Delete st i) (\<lambda>task. task) task_id"

fun convertPowerOp :: "power_op \<Rightarrow> pb_power_op result" where
  "convertPowerOp PowerOpOn = Inr POWER_OP_ON"
| "convertPowerOp PowerOpOff = Inr POWER_OP_OFF"
| "convertPowerOp PowerOpReboot = Inr POWER_OP_REBOOT"
| "convertPowerOp PowerOpShutdownGraceful = Inr POWER_OP_SHUTDOWN_GRACEFUL"

definition Client_Power ::
  "provider_stub \<Rightarrow> int \<times> int \<Rightarrow> string \<Rightarrow> power_op \<Rightarrow> grpc_client \<Rightarrow> grpc_client \<times> string result" where
  "Client_Power st t i op c =
     (case convertPowerOp op of
        Inl e \<Rightarrow> (c, Inl (WrapError ''invalid power operation: '' e))
      | Inr grpcOp \<Rightarrow>
          call_rpc ''power'' t
            (ps_Power st \<lparr>pw_Id = i, pw_Op = grpcOp,
               pw_GracefulTimeoutSeconds = (if op = PowerOpShutdownGraceful then 60 else 0)\<rparr>)
            (\<lambda>task. task) task_id c)"

definition Client_Reconfigure ::
  "wire_codec \<Rightarrow> provider_stub \<Rightarrow> int \<times> int \<Rightarrow> string \<Rightarrow> create_request \<Rightarrow> grpc_client \<Rightarrow> grpc_client \<times> string result" where
  "Client_Reconfigure w st t i desired c =
     (case wc_request w desired of
        Inl e \<Rightarrow> (c, Inl (WrapError ''failed to marshal desired configuration: '' e))
      | Inr js \<Rightarrow>
          call_rpc ''reconfigure'' t (ps_Reconfigure st \<lparr>pf_Id = i, pf_DesiredJson = js\<rparr>) (\<lambda>task. task) task_id c)"

definition parse_provider_raw :: "wire_codec \<Rightarrow> string \<Rightarrow> string \<rightharpoonup> string" where
  "parse_provider_raw w js =
     (if js = '''' then Map.empty
      else case wc_raw w js of Inl e \<Rightarrow> [''parseError'' \<mapsto> error_string e] | Inr m \<Rightarrow> m)"

definition Client_Describe ::
  "wire_codec \<Rightarrow> provider_stub \<Rightarrow> int \<times> int \<Rightarrow> string \<Rightarrow> grpc_client \<Rightarrow> grpc_client \<times> describe_response result" where
  "Client_Describe w st t i =
     call_rpc ''describe'' t (ps_Describe st i) no_task
       (\<lambda>resp. \<lparr>ds_Exists = pd_Exists resp, ds_PowerState = pd_PowerState resp, ds_IPs = pd_Ips resp,
          ds_ConsoleURL = pd_ConsoleUrl resp, ds_ProviderRaw = parse_provider_raw w (pd_ProviderRawJson resp)\<rparr>)"

text \<open>
  \<^verbatim>\<open>IsTaskComplete\<close> answers the pair of a flag and an error; a failed task is \<^verbatim>\<open>true\<close> with an error, and
  the callers look at the error first. \<open>n\<close> is the number of the poll.
\<close>

definition Client_IsTaskComplete ::
  "provider_stub \<Rightarrow> int \<times> int \<Rightarrow> string \<Rightarrow> nat \<Rightarrow> grpc_client \<Rightarrow> grpc_client \<times> bool \<times> go_error option" where
  "Client_IsTaskComplete st t taskRef n c =
     (case call_rpc ''taskStatus'' t (ps_TaskStatus st taskRef n) no_task (\<lambda>resp. resp) c of
        (c', Inl e) \<Rightarrow> (c', False, Some e)
      | (c', Inr resp) \<Rightarrow>
          if pt_Error resp \<noteq> '''' then (trackTaskDone taskRef c', True, Some (PlainError (''task failed: '' @ pt_Error resp)))
          else (if pt_Done resp then trackTaskDone taskRef c' else c', pt_Done resp, None))"

definition Client_TaskStatus ::
  "provider_stub \<Rightarrow> int \<times> int \<Rightarrow> string \<Rightarrow> nat \<Rightarrow> grpc_client \<Rightarrow> grpc_client \<times> task_status result" where
  "Client_TaskStatus st t taskRef n c =
     (case call_rpc ''taskStatus'' t (ps_TaskStatus st taskRef n) no_task (\<lambda>resp. resp) c of
        (c', Inl e) \<Rightarrow> (c', Inl e)
      | (c', Inr resp) \<Rightarrow>
          (if pt_Done resp \<or> pt_Error resp \<noteq> '''' then trackTaskDone taskRef c' else c',
           Inr \<lparr>ts_IsCompleted = pt_Done resp, ts_Error = pt_Error resp, ts_Message = ''''\<rparr>))"

definition Client_SnapshotCreate ::
  "provider_stub \<Rightarrow> int \<times> int \<Rightarrow> snapshot_create_request \<Rightarrow> grpc_client \<Rightarrow> grpc_client \<times> snapshot_create_response result" where
  "Client_SnapshotCreate st t req =
     call_rpc ''snapshotCreate'' t
       (ps_SnapshotCreate st \<lparr>psq_VmId = sq_VmId req, psq_NameHint = sq_NameHint req,
          psq_IncludeMemory = sq_IncludeMemory req, psq_Description = sq_Description req\<rparr>)
       psr_Task (\<lambda>resp. \<lparr>sr_SnapshotId = psr_SnapshotId resp, sr_Task = psr_Task resp\<rparr>)"

definition Client_SnapshotDelete ::
  "provider_stub \<Rightarrow> int \<times> int \<Rightarrow> string \<Rightarrow> string \<Rightarrow> grpc_client \<Rightarrow> grpc_client \<times> string result" where
  "Client_SnapshotDelete st t vmId snapshotId =
     call_rpc ''snapshotDelete'' t (ps_SnapshotDelete st (vmId, snapshotId)) (\<lambda>task. task) task_id"

definition Client_SnapshotRevert ::
  "provider_stub \<Rightarrow> int \<times> int \<Rightarrow> string \<Rightarrow> string \<Rightarrow> grpc_client \<Rightarrow> grpc_client \<times> string result" where
  "Client_SnapshotRevert st t vmId snapshotId =
     call_rpc ''snapshotRevert'' t (ps_SnapshotRevert st (vmId, snapshotId)) (\<lambda>task. task) task_id"

definition Client_ExportDisk ::
  "provider_stub \<Rightarrow> int \<times> int \<Rightarrow> export_disk_request \<Rightarrow> grpc_client \<Rightarrow> grpc_client \<times> export_disk_response result" where
  "Client_ExportDisk st t req =
     call_rpc ''exportDisk'' t
       (ps_ExportDisk st \<lparr>peq_VmId = er_VmId req, peq_DiskId = er_DiskId req, peq_SnapshotId = er_SnapshotId req,
          peq_DestinationUrl = er_DestinationURL req, peq_Format = er_Format req, peq_Compress = er_Compress req,
          peq_Credentials = er_Credentials req, peq_BackendType = er_BackendType req,
          peq_TransferMode = er_TransferMode req, peq_StorageOptionsJson = er_StorageOptionsJSON req\<rparr>)
       per_Task
       (\<lambda>resp. \<lparr>ep_ExportId = per_ExportId resp, ep_TaskRef = task_id (per_Task resp),
          ep_EstimatedSizeBytes = per_EstimatedSizeBytes resp, ep_Checksum = per_Checksum resp\<rparr>)"

definition Client_ImportDisk ::
  "provider_stub \<Rightarrow> int \<times> int \<Rightarrow> import_disk_request \<Rightarrow> grpc_client \<Rightarrow> grpc_client \<times> import_disk_response result" where
  "Client_ImportDisk st t req =
     call_rpc ''importDisk'' t
       (ps_ImportDisk st \<lparr>piq_SourceUrl = ir_SourceURL req, piq_StorageHint = ir_StorageHint req,
          piq_Format = ir_Format req, piq_TargetName = ir_TargetName req, piq_VerifyChecksum = ir_VerifyChecksum req,
          piq_ExpectedChecksum = ir_ExpectedChecksum req, piq_Credentials = ir_Credentials req,
          piq_BackendType = ir_BackendType req, piq_TransferMode = ir_TransferMode req,
          piq_StorageOptionsJson = ir_StorageOptionsJSON req\<rparr>)
       pir_Task
       (\<lambda>resp. \<lparr>ip_DiskId = pir_DiskId resp, ip_Path = pir_Path resp, ip_TaskRef = task_id (pir_Task resp),
          ip_ActualSizeBytes = pir_ActualSizeBytes resp, ip_Checksum = pir_Checksum resp\<rparr>)"

definition Client_GetDiskInfo ::
  "provider_stub \<Rightarrow> int \<times> int \<Rightarrow> get_disk_info_request \<Rightarrow> grpc_client \<Rightarrow> grpc_client \<times> get_disk_info_response result" where
  "Client_GetDiskInfo st t req =
     call_rpc ''getDiskInfo'' t
       (ps_GetDiskInfo st \<lparr>pgq_VmId = gi_VmId req, pgq_DiskId = gi_DiskId req, pgq_SnapshotId = gi_SnapshotId req\<rparr>)
       no_task
       (\<lambda>resp. \<lparr>gr_DiskId = pgr_DiskId resp, gr_Format = pgr_Format resp,
          gr_VirtualSizeBytes = pgr_VirtualSizeBytes resp, gr_ActualSizeBytes = pgr_ActualSizeBytes resp,
          gr_Path = pgr_Path resp, gr_IsBootable = pgr_IsBootable resp, gr_Snapshots = pgr_Snapshots resp,
          gr_BackingFile = pgr_BackingFile resp, gr_Metadata = pgr_Metadata resp\<rparr>)"

definition convert_vm_info :: "pb_vm_info \<Rightarrow> vm_info" where
  "convert_vm_info p =
     \<lparr>vi_ID = pvi_Id p, vi_Name = pvi_Name p, vi_PowerState = pvi_PowerState p, vi_IPs = pvi_Ips p,
      vi_CPU = pvi_Cpu p, vi_MemoryMiB = pvi_MemoryMib p,
      vi_Disks = map (\<lambda>d. \<lparr>vd_ID = pdi_Id d, vd_Path = pdi_Path d, vd_SizeGiB = pdi_SizeGib d,
                          vd_Format = pdi_Format d\<rparr>) (pvi_Disks p),
      vi_Networks = map (\<lambda>n. \<lparr>vn_Name = pni_Name n, vn_MAC = pni_Mac n, vn_IPAddress = pni_IpAddress n\<rparr>)
                      (pvi_Networks p),
      vi_ProviderRaw = pvi_ProviderRaw p\<rparr>"

definition Client_ListVMs :: "provider_stub \<Rightarrow> int \<times> int \<Rightarrow> grpc_client \<Rightarrow> grpc_client \<times> vm_info list result" where
  "Client_ListVMs st t = call_rpc ''listVMs'' t (ps_ListVMs st) no_task (map convert_vm_info)"

text \<open>
  The client as the controllers see it: the provider instance whose answers are those of a client
  whose calls all get through. The gRPC client implements every optional interface.
\<close>

definition client_instance :: "wire_codec \<Rightarrow> provider_stub \<Rightarrow> provider_instance" where
  "client_instance w st =
     (let c = NewClient None; t = (0, 0) in
      \<lparr>pi_Create = (\<lambda>req. snd (Client_Create w st t req c)),
       pi_Reconfigure = (\<lambda>i req. snd (Client_Reconfigure w st t i req c)),
       pi_Describe = (\<lambda>i. snd (Client_Describe w st t i c)),
       pi_Power = (\<lambda>i op. snd (Client_Power st t i op c)),
       pi_Delete = (\<lambda>i. snd (Client_Delete st t i c)),
       pi_IsTaskComplete = (\<lambda>task n.
         case snd (Client_IsTaskComplete st t task n c) of (done, Some e) \<Rightarrow> Inl e | (done, None) \<Rightarrow> Inr done),
       pi_TaskStatus = (\<lambda>task. snd (Client_TaskStatus st t task 0 c)),
       pi_SnapshotCreate = (\<lambda>req. snd (Client_SnapshotCreate st t req c)),
       pi_SnapshotDelete = (\<lambda>i sn. snd (Client_SnapshotDelete st t i sn c)),
       pi_ExportDisk = (\<lambda>req. snd (Client_ExportDisk st t req c)),
       pi_ImportDisk = (\<lambda>req. snd (Client_ImportDisk st t req c)),
       pi_GetCapabilities = Some (snd (Client_GetCapabilities st t c)),
       pi_Clone = Some (\<lambda>req. snd (Client_Clone st t req c)),
       pi_PrepareImage = Some (\<lambda>req. snd (Client_PrepareImage st t req c)),
       pi_ListVMs = snd (Client_ListVMs st t c)\<rparr>)"

end
