(* ===== verification/Resolver.thy ===== *)
theory Resolver
  imports GrpcClient
begin

text \<open>
  The resolver that turns a Provider object into a gRPC client (\<^verbatim>\<open>internal/runtime/remote/resolver.go\<close>).
  It caches one client per object, takes the client's breaker from the shared registry, and validates
  the client at every use; the validation is an RPC and goes through the breaker. The cache and the
  registry are guarded by mutexes, so a concurrent execution is a sequence of the operations below.
  Certificates, the dialling of a connection, the provider processes and the clock are parameters;
  the closing of a connection has no effect the model sees.
\<close>

section \<open>Objects\<close>

text \<open>
  \<^verbatim>\<open>spec.runtime.service.tls\<close> is \<open>None\<close> when any part of that path is nil; a nil secret reference reads as
  one with an empty name.
\<close>

record tls_spec =
  tl_Enabled :: bool
  tl_SecretRef :: string
  tl_InsecureSkipVerify :: bool

record runtime_status =
  rs_Endpoint :: string
  rs_Phase :: string

record remote_provider =
  rp_object :: provider
  rp_TLS :: "tls_spec option"
  rp_Runtime :: "runtime_status option"

abbreviation rp_name :: "remote_provider \<Rightarrow> string" where "rp_name p \<equiv> md_name (pv_meta (rp_object p))"
abbreviation rp_ns :: "remote_provider \<Rightarrow> string" where "rp_ns p \<equiv> md_namespace (pv_meta (rp_object p))"
abbreviation rp_type :: "remote_provider \<Rightarrow> string" where "rp_type p \<equiv> pv_Type (rp_object p)"

text \<open>A \<^verbatim>\<open>tls.Config\<close>: the PEM texts of the key pair and the authority stand for the parsed values.\<close>

datatype tls_version = VersionTLS12 | VersionTLS13

record tls_config =
  tc_Certificate :: "string \<times> string"
  tc_RootCAs :: string
  tc_MinVersion :: tls_version
  tc_ServerName :: string
  tc_InsecureSkipVerify :: bool

text \<open>
  The world: Secrets, the parsers of \<^verbatim>\<open>crypto/tls\<close> and \<^verbatim>\<open>crypto/x509\<close>, \<^verbatim>\<open>grpc.NewClient\<close>, the process that
  answers at an endpoint, and the two clock readings of the n-th RPC.
\<close>

record resolver_env =
  re_secret :: "nn \<Rightarrow> (string \<rightharpoonup> string) result"
  re_key_pair :: "string \<Rightarrow> string \<Rightarrow> go_error option"
  re_parse_ca :: "string \<Rightarrow> bool"
  re_dial :: "string \<Rightarrow> tls_config option \<Rightarrow> go_error option"
  re_process :: "string \<Rightarrow> tls_config option \<Rightarrow> nat \<Rightarrow> provider_stub"
  re_clock :: "nat \<Rightarrow> int \<times> int"

section \<open>TLS configuration\<close>

definition ErrTLSBlockMissing :: go_error where
  "ErrTLSBlockMissing = PlainError (''provider.spec.runtime.service.tls is unset; v0.3.7 requires an explicit TLS decision '' @
     ''(see umbrella #156 / ADR-0003)'')"

definition ErrTLSSecretRefMissing :: go_error where
  "ErrTLSSecretRefMissing =
     PlainError ''provider.spec.runtime.service.tls.enabled=true requires a non-empty secretRef''"

text \<open>A key of the Secret; a missing and an empty value are the same.\<close>

definition secret_value :: "(string \<rightharpoonup> string) \<Rightarrow> string \<Rightarrow> string" where
  "secret_value data key = (case data key of None \<Rightarrow> '''' | Some v \<Rightarrow> v)"

definition missing_keys :: "(string \<rightharpoonup> string) \<Rightarrow> string list" where
  "missing_keys data = filter (\<lambda>key. secret_value data key = '''') [''tls.crt'', ''tls.key'', ''ca.crt'']"

definition tls_server_name :: "remote_provider \<Rightarrow> string" where
  "tls_server_name p = ''virtrigaud-provider-'' @ rp_ns p @ ''-'' @ rp_name p @ ''.'' @ rp_ns p @ ''.svc.cluster.local''"

text \<open>The result \<open>Inr None\<close> is the explicit choice of plaintext.\<close>

definition buildTLSConfig :: "resolver_env \<Rightarrow> remote_provider \<Rightarrow> tls_config option result" where
  "buildTLSConfig env p =
     (case rp_TLS p of
        None \<Rightarrow> Inl ErrTLSBlockMissing
      | Some tls \<Rightarrow>
          if \<not> tl_Enabled tls then Inr None
          else if tl_SecretRef tls = '''' then Inl ErrTLSSecretRefMissing
          else
            let where_txt = rp_ns p @ ''/'' @ tl_SecretRef tls in
            (case re_secret env (rp_ns p, tl_SecretRef tls) of
               Inl e \<Rightarrow> Inl (WrapError (''get TLS Secret '' @ where_txt @ '': '') e)
             | Inr data \<Rightarrow>
                 let certPEM = secret_value data ''tls.crt''; keyPEM = secret_value data ''tls.key'';
                     caPEM = secret_value data ''ca.crt'' in
                 if missing_keys data \<noteq> [] then
                   Inl (PlainError (''TLS Secret '' @ where_txt @ '' is missing required key(s): ['' @
                     join_with CHR '' '' (missing_keys data) @ ''] (expected: tls.crt, tls.key, ca.crt)''))
                 else
                   (case re_key_pair env certPEM keyPEM of
                      Some e \<Rightarrow> Inl (WrapError (''parse client cert/key from TLS Secret '' @ where_txt @ '': '') e)
                    | None \<Rightarrow>
                        if \<not> re_parse_ca env caPEM then
                          Inl (PlainError (''parse ca.crt from TLS Secret '' @ where_txt @
                            '': no valid PEM certificates found''))
                        else
                          Inr (Some \<lparr>tc_Certificate = (certPEM, keyPEM), tc_RootCAs = caPEM,
                            tc_MinVersion = VersionTLS13, tc_ServerName = tls_server_name p,
                            tc_InsecureSkipVerify = tl_InsecureSkipVerify tls\<rparr>))))"

section \<open>State\<close>

text \<open>
  A cached client is its connection (endpoint and transport security), the address of its breaker in
  the registry, if it has one, and its tracked tasks. \<open>rv_sent\<close> records the endpoints the RPCs of the
  resolver went out to, \<open>rv_calls\<close> counts the attempted ones.
\<close>

record cached_client =
  cc_endpoint :: string
  cc_tls :: "tls_config option"
  cc_breaker :: "nat option"
  cc_inflight :: "string list"
  cc_gauge :: nat

record resolver =
  rv_clients :: "(string \<times> cached_client) list"
  rv_registry :: "registry option"
  rv_calls :: nat
  rv_sent :: "string list"

definition NewResolver :: "registry option \<Rightarrow> resolver" where
  "NewResolver reg = \<lparr>rv_clients = [], rv_registry = reg, rv_calls = 0, rv_sent = []\<rparr>"

definition circuitBreakerName :: string where "circuitBreakerName = ''rpc''"

definition cacheKey :: "remote_provider \<Rightarrow> string" where
  "cacheKey p = rp_ns p @ ''/'' @ rp_name p"

text \<open>The breaker a client's pointer refers to.\<close>

definition breaker_at :: "resolver \<Rightarrow> nat option \<Rightarrow> circuit_breaker option" where
  "breaker_at rv a =
     (case rv_registry rv of None \<Rightarrow> None | Some reg \<Rightarrow> map_option (\<lambda>i. cb_heap reg ! i) a)"

definition set_breaker :: "nat option \<Rightarrow> circuit_breaker option \<Rightarrow> resolver \<Rightarrow> resolver" where
  "set_breaker a cb rv =
     (case (a, cb, rv_registry rv) of
        (Some i, Some b, Some reg) \<Rightarrow> rv\<lparr>rv_registry := Some (reg\<lparr>cb_heap := (cb_heap reg)[i := b]\<rparr>)\<rparr>
      | _ \<Rightarrow> rv)"

definition goes_out :: "circuit_breaker option \<Rightarrow> int \<Rightarrow> bool" where
  "goes_out cb t = (case cb of None \<Rightarrow> True | Some b \<Rightarrow> snd (allowCall t b))"

text \<open>\<^verbatim>\<open>client.Validate(ctx)\<close>, which leaves the tracked tasks alone.\<close>

definition validate_client :: "resolver_env \<Rightarrow> cached_client \<Rightarrow> resolver \<Rightarrow> resolver \<times> go_error option" where
  "validate_client env cl rv =
     (let n = rv_calls rv; t = re_clock env n; cb = breaker_at rv (cc_breaker cl) in
      case Client_Validate (re_process env (cc_endpoint cl) (cc_tls cl) n) t
             \<lparr>gc_breaker = cb, gc_inflight = cc_inflight cl, gc_gauge = cc_gauge cl\<rparr> of
        (c', err) \<Rightarrow>
          (set_breaker (cc_breaker cl) (gc_breaker c')
             (rv\<lparr>rv_calls := Suc n, rv_sent := rv_sent rv @ (if goes_out cb (fst t) then [cc_endpoint cl] else [])\<rparr>),
           err))"

section \<open>Operations\<close>

definition get_breaker :: "remote_provider \<Rightarrow> resolver \<Rightarrow> resolver \<times> nat option" where
  "get_breaker p rv =
     (case rv_registry rv of
        None \<Rightarrow> (rv, None)
      | Some reg \<Rightarrow>
          (case GetOrCreate circuitBreakerName (rp_type p) (rp_name p) reg of
             (reg', a) \<Rightarrow> (rv\<lparr>rv_registry := Some reg'\<rparr>, Some a)))"

definition create_client :: "resolver_env \<Rightarrow> remote_provider \<Rightarrow> string \<Rightarrow> resolver \<Rightarrow> resolver \<times> cached_client result" where
  "create_client env p endpoint rv =
     (case buildTLSConfig env p of
        Inl e \<Rightarrow> (rv, Inl (WrapError ''failed to build TLS config: '' e))
      | Inr tls \<Rightarrow>
          (case get_breaker p rv of
             (rv1, a) \<Rightarrow>
               (case re_dial env endpoint tls of
                  Some e \<Rightarrow> (rv1, Inl (WrapError ''failed to create gRPC client: '' e))
                | None \<Rightarrow>
                    (let cl = \<lparr>cc_endpoint = endpoint, cc_tls = tls, cc_breaker = a, cc_inflight = [], cc_gauge = 0\<rparr> in
                     (case validate_client env cl rv1 of
                        (rv2, Some e) \<Rightarrow> (rv2, Inl (WrapError ''remote provider validation failed: '' e))
                      | (rv2, None) \<Rightarrow> (rv2\<lparr>rv_clients := AList.update (cacheKey p) cl (rv_clients rv2)\<rparr>, Inr cl))))))"

definition getRemoteProvider :: "resolver_env \<Rightarrow> remote_provider \<Rightarrow> resolver \<Rightarrow> resolver \<times> cached_client result" where
  "getRemoteProvider env p rv =
     (case rp_Runtime p of
        None \<Rightarrow> (rv, Inl (PlainError ''remote provider runtime is not ready: no endpoint available''))
      | Some rt \<Rightarrow>
          if rs_Endpoint rt = '''' then
            (rv, Inl (PlainError ''remote provider runtime is not ready: no endpoint available''))
          else if rs_Phase rt \<noteq> ''Running'' then
            (rv, Inl (PlainError (''remote provider runtime is not ready: phase='' @ rs_Phase rt)))
          else
            (case map_of (rv_clients rv) (cacheKey p) of
               Some cl \<Rightarrow>
                 (case validate_client env cl rv of
                    (rv', None) \<Rightarrow> (rv', Inr cl)
                  | (rv', Some _) \<Rightarrow>
                      create_client env p (rs_Endpoint rt)
                        (rv'\<lparr>rv_clients := AList.delete (cacheKey p) (rv_clients rv')\<rparr>))
             | None \<Rightarrow> create_client env p (rs_Endpoint rt) rv))"

definition GetProvider :: "resolver_env \<Rightarrow> remote_provider \<Rightarrow> resolver \<Rightarrow> resolver \<times> cached_client result" where
  "GetProvider = getRemoteProvider"

definition CleanupClient :: "remote_provider \<Rightarrow> resolver \<Rightarrow> resolver" where
  "CleanupClient p rv =
     rv\<lparr>rv_clients := AList.delete (cacheKey p) (rv_clients rv),
        rv_registry := map_option (reg_Remove circuitBreakerName (rp_type p) (rp_name p)) (rv_registry rv)\<rparr>"

definition CleanupAllClients :: "resolver \<Rightarrow> resolver" where
  "CleanupAllClients rv = rv\<lparr>rv_clients := []\<rparr>"

end
