(* ===== verification/GrpcProps.thy ===== *)
theory GrpcProps
  imports Resolver VmProps
begin

text \<open>
  What the gRPC client and the resolver guarantee, alone and together with the VirtualMachine
  controller: which RPC outcomes count as an outage, what becomes of a provider's status codes, what a
  failed task does to its machine, which clients the resolver hands out, and what an open breaker does
  to a deletion.
\<close>

section \<open>RPCs through the breaker\<close>

lemma interceptor_eq:
  "providerCircuitBreakerInterceptor t r cb =
     (let (cb1, ok) = allowCall (fst t) cb in
      if ok then (recordResult (snd t) (if isInfraFailure (error_of r) then error_of r else None) cb1, r)
      else (cb1, Inl (GrpcError CodeUnavailable (''circuit breaker open: '' @ error_string (open_error cb1)))))"
  by (auto simp: providerCircuitBreakerInterceptor_def Call_def Let_def split_beta isInfraFailure_def
      split: option.splits)

lemma interceptor_closed:
  "cb_st cb = StateClosed \<Longrightarrow>
   providerCircuitBreakerInterceptor t r cb =
     (recordResult (snd t) (if isInfraFailure (error_of r) then error_of r else None) cb, r)"
  by (simp add: interceptor_eq allowCall_def)

lemma interceptor_open_early:
  "cb_st cb = StateOpen \<Longrightarrow> time_sub (fst t) (lastFailureTime cb) \<le> ResetTimeout (cb_config cb) \<Longrightarrow>
   providerCircuitBreakerInterceptor t r cb =
     (cb, Inl (GrpcError CodeUnavailable (''circuit breaker open: '' @ error_string (open_error cb))))"
  by (simp add: interceptor_eq allowCall_def)

text \<open>A sequence of RPCs, each with its clock readings and the answer the provider would give.\<close>

fun rpc_sequence :: "((int \<times> int) \<times> 'a result) list \<Rightarrow> circuit_breaker \<Rightarrow> circuit_breaker \<times> 'a result list" where
  "rpc_sequence [] cb = (cb, [])"
| "rpc_sequence ((t, r) # calls) cb =
     (let (cb', r') = providerCircuitBreakerInterceptor t r cb; (cb'', rs) = rpc_sequence calls cb' in (cb'', r' # rs))"

lemma rpc_sequence_append:
  "rpc_sequence (xs @ ys) cb =
     (let (cb', rs) = rpc_sequence xs cb; (cb'', rs') = rpc_sequence ys cb' in (cb'', rs @ rs'))"
  by (induction xs arbitrary: cb) (auto simp: Let_def split: prod.splits)

definition outage :: "nat \<Rightarrow> 'a result list \<Rightarrow> bool" where
  "outage n rs \<longleftrightarrow> (\<exists>a b d. rs = a @ b @ d \<and> length b = n \<and> (\<forall>r \<in> set b. isInfraFailure (error_of r)))"

lemma outage_append: "outage n rs \<Longrightarrow> outage n (rs @ rs')"
  unfolding outage_def by (metis append.assoc)

definition recorded :: "((int \<times> int) \<times> 'a result) list \<Rightarrow> (int \<times> go_error option) list" where
  "recorded calls = map (\<lambda>(t, r). (snd t, if isInfraFailure (error_of r) then error_of r else None)) calls"

lemma recorded_failure: "(if isInfraFailure e then e else None) \<noteq> None \<longleftrightarrow> isInfraFailure e"
  by (auto simp: isInfraFailure_def)

lemma record_all_recorded:
  assumes "0 < n" "FailureThreshold c = int n"
  shows "cb_st (record_all (recorded calls) (NewCircuitBreaker name (Some c))) = StateOpen \<longleftrightarrow> outage n (map snd calls)"
proof -
  have "cb_st (record_all (recorded calls) (NewCircuitBreaker name (Some c))) = StateOpen \<longleftrightarrow>
      (\<exists>a b d. recorded calls = a @ b @ d \<and> map (\<lambda>(t, e). e \<noteq> None) b = replicate n True)"
    by (simp add: record_all_opens_iff [OF assms] map_eq_replicate_True split_beta)
  also have "\<dots> \<longleftrightarrow> (\<exists>a d. map (\<lambda>(t, e). e \<noteq> None) (recorded calls) = a @ replicate n True @ d)"
    by (rule map_factor [symmetric])
  also have "\<dots> \<longleftrightarrow> (\<exists>a d. map (\<lambda>r. isInfraFailure (error_of r)) (map snd calls) = a @ replicate n True @ d)"
    by (simp add: recorded_def recorded_failure [unfolded not_None_eq] split_beta comp_def)
  also have "\<dots> \<longleftrightarrow> outage n (map snd calls)"
    unfolding outage_def map_factor by (simp add: map_eq_replicate_True)
  finally show ?thesis .
qed

lemma rpc_sequence_until_outage:
  assumes "0 < n" "FailureThreshold c = int n" "\<not> outage n (butlast (map snd calls))"
  shows "rpc_sequence calls (NewCircuitBreaker name (Some c)) =
    (record_all (recorded calls) (NewCircuitBreaker name (Some c)), map snd calls)"
  using assms(3)
proof (induction calls rule: rev_induct)
  case Nil
  then show ?case by (simp add: record_all_def recorded_def)
next
  case (snoc x xs)
  let ?cb = "record_all (recorded xs) (NewCircuitBreaker name (Some c))"
  have quiet: "\<not> outage n (map snd xs)" using snoc.prems by simp
  then have "\<not> outage n (butlast (map snd xs))"
    by (metis outage_append append_butlast_last_id butlast.simps(1))
  moreover have "cb_st ?cb = StateClosed"
    using quiet record_all_recorded [OF assms(1,2), of xs name]
      record_all_fail_run [of "NewCircuitBreaker name (Some c)" n "recorded xs"] assms(2)
    by (simp add: NewCircuitBreaker_def split: if_splits)
  ultimately show ?case
    using snoc.IH by (cases x) (simp add: rpc_sequence_append interceptor_closed record_all_def recorded_def)
qed

lemma record_all_config [simp]: "cb_config (record_all rs cb) = cb_config cb"
  by (induction rs arbitrary: cb)
     (auto simp: record_all_def cb_ops Let_def split: option.splits cb_state.splits)

lemma record_all_last_failure:
  "cb_st (record_all rs cb) = StateClosed \<Longrightarrow> cb_st (record_all (rs @ [(t, e)]) cb) = StateOpen \<Longrightarrow>
   lastFailureTime (record_all (rs @ [(t, e)]) cb) = t"
  by (auto simp: record_all_def cb_ops Let_def split: option.splits if_splits)

text \<open>
  C33. A provider is cut off exactly when it is down. A fresh breaker with threshold \<open>n\<close> delivers every
  answer of the provider unchanged, errors included, until \<open>n\<close> RPCs in a row have failed with
  Unavailable, DeadlineExceeded, Internal, Unknown or an error that is no gRPC status; answers such as
  NotFound or InvalidArgument never count, and reset the count. After such a row the breaker is open: an RPC within the
  reset timeout of the last failure does not depend on the provider and leaves the breaker as it is, and the client reports it as a
  retryable provider error.
\<close>

theorem breaker_cuts_off_outages:
  assumes "0 < n" "FailureThreshold c = int n" "\<not> outage n (butlast (map snd calls))"
    and "rpc_sequence calls (NewCircuitBreaker name (Some c)) = (cb, answers)"
  shows "answers = map snd calls \<and> (cb_st cb = (if outage n (map snd calls) then StateOpen else StateClosed)) \<and>
    (outage n (map snd calls) \<and> time_sub (fst t) (snd (fst (last calls))) \<le> ResetTimeout c \<longrightarrow>
       (\<exists>e. \<forall>r :: 'b result. providerCircuitBreakerInterceptor t r cb = (cb, Inl e) \<and>
          pe_type (mapGRPCError op e) = ErrorTypeRetryable \<and> pe_retryable (mapGRPCError op e)))"
proof -
  let ?cb0 = "NewCircuitBreaker name (Some c)"
  have eq: "cb = record_all (recorded calls) ?cb0" "answers = map snd calls"
    using rpc_sequence_until_outage [OF assms(1-3), of name] assms(4) by simp_all
  have st: "cb_st (record_all (recorded xs) ?cb0) = (if outage n (map snd xs) then StateOpen else StateClosed)" for xs
    using record_all_recorded [OF assms(1,2), of xs name] record_all_fail_run [of ?cb0 n "recorded xs"] assms(2)
    by (auto simp: NewCircuitBreaker_def split: if_splits)
  have "\<exists>e. \<forall>r :: 'b result. providerCircuitBreakerInterceptor t r cb = (cb, Inl e) \<and>
      pe_type (mapGRPCError op e) = ErrorTypeRetryable \<and> pe_retryable (mapGRPCError op e)"
    if out: "outage n (map snd calls)" and t: "time_sub (fst t) (snd (fst (last calls))) \<le> ResetTimeout c"
  proof -
    have "calls \<noteq> []" using out assms(1) by (auto simp: outage_def)
    then obtain xs x where calls: "calls = xs @ [x]" by (metis append_butlast_last_id)
    have "lastFailureTime cb = snd (fst (last calls))"
      using record_all_last_failure [of "recorded xs" ?cb0] st [of xs] st [of calls] out assms(3)
      by (simp add: eq calls recorded_def split_beta)
    then have "providerCircuitBreakerInterceptor t r cb =
        (cb, Inl (GrpcError CodeUnavailable (''circuit breaker open: '' @ error_string (open_error cb))))" for r :: "'b result"
      using interceptor_open_early [of cb t r] st [of calls] out t by (simp add: eq NewCircuitBreaker_def)
    then show ?thesis
      by (intro exI [of _ "GrpcError CodeUnavailable (''circuit breaker open: '' @ error_string (open_error cb))"])
        (simp add: mapGRPCError_def status_from_error_def new_retryable_error_def)
  qed
  then show ?thesis using eq st [of calls] by auto
qed

theorem breaker_cuts_off_outages_witness:
  "\<exists>cb e. rpc_sequence [((1, 2), Inl (GrpcError CodeNotFound ''no'') :: nat result),
         ((3, 4), Inl (GrpcError CodeUnavailable ''down''))]
       (NewCircuitBreaker ''rpc'' (Some \<lparr>FailureThreshold = 1, ResetTimeout = 60, HalfOpenMaxCalls = 1\<rparr>)) =
       (cb, [Inl (GrpcError CodeNotFound ''no''), Inl (GrpcError CodeUnavailable ''down'')]) \<and>
     cb_st cb = StateOpen \<and> providerCircuitBreakerInterceptor (10, 11) (Inr (7 :: nat)) cb = (cb, Inl e)"
proof -
  let ?c = "\<lparr>FailureThreshold = 1, ResetTimeout = 60, HalfOpenMaxCalls = 1\<rparr> :: cb_config"
  let ?calls = "[((1, 2), Inl (GrpcError CodeNotFound ''no'')), ((3, 4), Inl (GrpcError CodeUnavailable ''down''))]
      :: ((int \<times> int) \<times> nat result) list"
  have quiet: "\<not> outage 1 (butlast (map snd ?calls))"
    by (auto simp: outage_def Cons_eq_append_conv isInfraFailure_def error_of_def status_code_def)
  have out: "outage 1 (map snd ?calls)"
    unfolding outage_def
    by (intro exI [of _ "[Inl (GrpcError CodeNotFound ''no'')]"] exI [of _ "[Inl (GrpcError CodeUnavailable ''down'')]"]
        exI [of _ "[]"]) (simp add: isInfraFailure_def error_of_def status_code_def)
  obtain cb as where "rpc_sequence ?calls (NewCircuitBreaker ''rpc'' (Some ?c)) = (cb, as)" by (metis surj_pair)
  with breaker_cuts_off_outages [OF _ _ quiet this, where t = "(10, 11)" and 'b = nat] out
  show ?thesis
    by (intro exI [of _ cb]) (simp add: time_sub_def max_int64_def min_int64_def del: rpc_sequence.simps, blast)
qed

section \<open>Errors of the provider\<close>

lemma invoke_direct [simp]: "invoke t r (NewClient None) = (NewClient None, r)"
  by (simp add: invoke_def NewClient_def)

lemma call_rpc_direct:
  "call_rpc op t r task conv (NewClient None) =
     (case r of Inl e \<Rightarrow> (NewClient None, Inl (mapGRPCError op e))
      | Inr resp \<Rightarrow> (track_started (task resp) (NewClient None), Inr (conv resp)))"
  by (simp add: call_rpc_def split: sum.splits)

text \<open>
  The controllers' view is what a client answers, up to RPCs its breaker refuses: these are retryable
  errors.
\<close>

lemma call_rpc_view:
  "snd (call_rpc op t r task conv c) = snd (call_rpc op t r task conv (NewClient None)) \<or>
   (\<exists>msg e. snd (call_rpc op t r task conv c) = Inl (new_retryable_error msg (Some e)))"
proof (cases "gc_breaker c")
  case None
  then show ?thesis unfolding call_rpc_direct by (simp add: call_rpc_def invoke_def split: sum.splits)
next
  case (Some cb)
  obtain cb1 ok where a: "allowCall (fst t) cb = (cb1, ok)" by (metis surj_pair)
  show ?thesis
  proof (cases ok)
    case True
    then show ?thesis unfolding call_rpc_direct
      using Some a by (simp add: call_rpc_def invoke_def interceptor_eq split: sum.splits)
  next
    case False
    then show ?thesis using Some a
      by (intro disjI2) (simp add: call_rpc_def invoke_def interceptor_eq mapGRPCError_def status_from_error_def, blast)
  qed
qed

lemma pi_Delete_client:
  "pi_Delete (client_instance w st) i =
     (case ps_Delete st i of Inl e \<Rightarrow> Inl (mapGRPCError ''delete'' e) | Inr task \<Rightarrow> Inr (task_id task))"
  by (simp add: client_instance_def Client_Delete_def call_rpc_direct Let_def split: sum.splits)

lemma pi_IsTaskComplete_client:
  "pi_IsTaskComplete (client_instance w st) task n =
     (case ps_TaskStatus st task n of
        Inl e \<Rightarrow> Inl (mapGRPCError ''taskStatus'' e)
      | Inr resp \<Rightarrow> if pt_Error resp \<noteq> '''' then Inl (PlainError (''task failed: '' @ pt_Error resp)) else Inr (pt_Done resp))"
  by (simp add: client_instance_def Client_IsTaskComplete_def call_rpc_direct track_started_def Let_def split: sum.splits)

lemma mapGRPCError_not_found:
  "is_not_found_provider (Some (mapGRPCError op (GrpcError c m))) \<longleftrightarrow> c = CodeNotFound"
  by (cases c) (simp_all add: mapGRPCError_def status_from_error_def is_not_found_provider_def new_not_found_error_def
      new_invalid_spec_error_def new_retryable_error_def)

text \<open>
  Deletion over the wire. The VirtualMachine controller, talking to a provider process through the
  gRPC client, sends exactly one Delete of the recorded identifier for a machine under deletion; the
  finalizer goes when the process accepts it or answers with the status NotFound, and for every other
  status it stays and the deletion is retried after 15 seconds.
\<close>

lemma deletion_over_grpc:
  assumes "ce_get_vm env (ops s) key = Inr vm" "IsBeingDeleted (vm_meta vm)" "HasFinalizer (vm_meta vm) VirtualMachineFinalizer"
    and "vm_id vm \<noteq> ''''" "or_name (vs_ProviderRef (vm_spec vm)) \<noteq> ''''" "\<not> hasForceDeleteAnnotation vm"
    and "ce_get_provider env (ref_key (vs_ProviderRef (vm_spec vm)) (vm_ns vm)) = Inr p"
    and "ctl_getProviderInstance env p = Inr (client_instance w st)"
    and "\<And>e. ps_Delete st (vm_id vm) = Inl e \<Longrightarrow> \<exists>c m. e = GrpcError c m"
  shows "case ps_Delete st (vm_id vm) of
      Inr task \<Rightarrow> \<exists>ok. new_evs s (fst (VM_Reconcile env key s)) =
        [CtlDelete (vm_id vm) True,
         CtlWrite (WVMMeta (vm\<lparr>vm_meta := remove_finalizer VirtualMachineFinalizer (vm_meta vm)\<rparr>)) ok]
    | Inl e \<Rightarrow>
        if status_code (Some e) = CodeNotFound
        then \<exists>ok. new_evs s (fst (VM_Reconcile env key s)) =
          [CtlDelete (vm_id vm) False,
           CtlWrite (WVMMeta (vm\<lparr>vm_meta := remove_finalizer VirtualMachineFinalizer (vm_meta vm)\<rparr>)) ok]
        else new_evs s (fst (VM_Reconcile env key s)) = [CtlDelete (vm_id vm) False] \<and>
          snd (VM_Reconcile env key s) = requeue_in (15 * second)"
proof -
  have run: "VM_Reconcile env key s = VM_handleDeletion env vm (s\<lparr>ops := Suc (ops s)\<rparr>)"
    using assms(1,2) by (simp add: VM_Reconcile_def read_vm_def)
  have rel: "\<exists>ok. evs (fst (release_vm env vm s')) =
      evs s' @ [CtlWrite (WVMMeta (vm\<lparr>vm_meta := remove_finalizer VirtualMachineFinalizer (vm_meta vm)\<rparr>)) ok]" for s'
    using assms(3) by (auto simp: release_vm_def RemoveFinalizer_def ctl_write_def ctl_emit_def Let_def split: option.splits)
  show ?thesis
  proof (cases "ps_Delete st (vm_id vm)")
    case (Inr task)
    then show ?thesis using run rel [of "ctl_emit (CtlDelete (vm_id vm) True) (s\<lparr>ops := Suc (ops s)\<rparr>)"] assms
      by (auto simp: VM_handleDeletion_def pi_Delete_client new_evs_def ctl_emit_def)
  next
    case (Inl e)
    then obtain c m where e: "e = GrpcError c m" using assms(9) by blast
    show ?thesis
    proof (cases "c = CodeNotFound")
      case True
      then show ?thesis using run rel [of "ctl_emit (CtlDelete (vm_id vm) False) (s\<lparr>ops := Suc (ops s)\<rparr>)"] assms Inl e
        by (auto simp: VM_handleDeletion_def pi_Delete_client new_evs_def ctl_emit_def mapGRPCError_not_found status_code_def)
    next
      case False
      then show ?thesis using run assms Inl e
        by (simp add: VM_handleDeletion_def pi_Delete_client new_evs_def ctl_emit_def mapGRPCError_not_found status_code_def
            Let_def vmDeleteRetryInterval_def)
    qed
  qed
qed

text \<open>A provider process that refuses everything, and encoders that encode everything as the empty object.\<close>

definition sample_stub :: "go_error \<Rightarrow> provider_stub" where
  "sample_stub e =
     \<lparr>ps_Validate = Inl e, ps_Create = (\<lambda>_. Inl e), ps_Delete = (\<lambda>_. Inl e), ps_Power = (\<lambda>_. Inl e),
      ps_Reconfigure = (\<lambda>_. Inl e), ps_Describe = (\<lambda>_. Inl e),
      ps_TaskStatus = (\<lambda>_ _. Inr \<lparr>pt_Done = True, pt_Error = ''no space''\<rparr>),
      ps_SnapshotCreate = (\<lambda>_. Inl e), ps_SnapshotDelete = (\<lambda>_. Inl e), ps_SnapshotRevert = (\<lambda>_. Inl e),
      ps_Clone = (\<lambda>_. Inl e), ps_ImagePrepare = (\<lambda>_. Inl e), ps_GetCapabilities = Inl e,
      ps_ExportDisk = (\<lambda>_. Inl e), ps_ImportDisk = (\<lambda>_. Inl e), ps_GetDiskInfo = (\<lambda>_. Inl e), ps_ListVMs = Inl e\<rparr>"

definition sample_codec :: wire_codec where
  "sample_codec = \<lparr>wc_class = (\<lambda>_. Inr ''{}''), wc_image = (\<lambda>_. Inr ''{}''), wc_networks = (\<lambda>_. Inr ''[]''),
     wc_disks = (\<lambda>_. Inr ''[]''), wc_placement = (\<lambda>_. Inr ''{}''), wc_request = (\<lambda>_. Inr ''{}''), wc_raw = (\<lambda>_. Inr Map.empty)\<rparr>"

abbreviation over_grpc :: "provider_stub \<Rightarrow> virtual_machine \<Rightarrow> ctl_env" where
  "over_grpc st vm \<equiv> (sample_ctl_env vm)\<lparr>ce_resolver := Some (\<lambda>_. Inr (client_instance sample_codec st))\<rparr>"

section \<open>Failed tasks\<close>

text \<open>An event that neither changes a machine nor forgets the task \<open>task\<close> of a machine object.\<close>

fun keeps_task :: "string \<Rightarrow> virtual_machine \<Rightarrow> ctl_event \<Rightarrow> bool" where
  "keeps_task task vm (CtlWrite (WVMStatus vm') ok) \<longleftrightarrow>
     vt_LastTaskRef (vm_status vm') = task \<and> vm_spec vm' = vm_spec vm \<and> vm_meta vm' = vm_meta vm"
| "keeps_task task vm e \<longleftrightarrow> \<not> machine_rpc e"

lemma image_event_keeps_task: "image_event env key pname C e \<Longrightarrow> keeps_task task vm e"
  by (cases "(env, key, pname, C, e)" rule: image_event.cases) auto

lemma EnsureImage_keeps_task: "grows (keeps_task task vm0) s (fst (EnsureImageOnProvider env vm img p inst s))"
proof (cases img)
  case (Some i)
  then show ?thesis using grows_mono [OF EnsureImage_grows image_event_keeps_task] by simp
qed (simp add: EnsureImageOnProvider_def)

lemma getDependencies_grows: "grows P s (fst (getDependencies env vm s))"
proof -
  have "grows P s (fst (get_dep_image env vm s))"
    by (auto simp: get_dep_image_def split: option.splits prod.splits sum.splits dest: grows_read_imageE)
  then show ?thesis
    by (auto simp: getDependencies_def Let_def split: sum.splits prod.splits)
qed

lemma vm_end_keeps_task:
  "vt_LastTaskRef (vm_status vm') = task \<Longrightarrow> vm_spec vm' = vm_spec vm \<Longrightarrow> vm_meta vm' = vm_meta vm \<Longrightarrow>
   grows (keeps_task task vm) s (fst (vm_end env vm' res s))"
  by (simp add: vm_end_def VM_updateStatus_def grows_write)

lemma vm_cond_frame [simp]:
  "vt_LastTaskRef (vm_status (vm_cond env a b c d vm)) = vt_LastTaskRef (vm_status vm)"
  "vm_spec (vm_cond env a b c d vm) = vm_spec vm" "vm_meta (vm_cond env a b c d vm) = vm_meta vm"
  by (simp_all add: vm_cond_def set_vst_def)

lemma reconcileVM_keeps_task:
  assumes "vt_LastTaskRef (vm_status vm0) = task" "task \<noteq> ''''"
    and "\<And>p inst. ctl_getProviderInstance env p = Inr inst \<Longrightarrow> \<exists>e. pi_IsTaskComplete inst task 1 = Inl e"
  shows "grows (keeps_task task vm0) s (fst (reconcileVM env vm0 s))"
proof -
  define vm where "vm = set_vst (\<lambda>t. t\<lparr>vt_ObservedGeneration := md_generation (vm_meta vm0)\<rparr>) vm0"
  have vm: "vt_LastTaskRef (vm_status vm) = task" "vm_spec vm = vm_spec vm0" "vm_meta vm = vm_meta vm0"
    using assms(1) by (simp_all add: vm_def set_vst_def)
  obtain s1 r where d: "getDependencies env vm s = (s1, r)" by (metis surj_pair)
  have n1: "grows (keeps_task task vm0) s s1" using getDependencies_grows [of _ s env vm] d by (metis fst_conv)
  have ends: "grows (keeps_task task vm0) s (fst (vm_end env (vm_cond env a b c m vm) res s'))"
    if "grows (keeps_task task vm0) s s'" for s' a b c m res
    by (rule grows_trans [OF that vm_end_keeps_task]) (simp_all add: vm)
  show ?thesis
  proof (cases r)
    case (Inl e)
    then show ?thesis using d ends [OF n1] by (simp add: reconcileVM_def vm_def [symmetric] deps_failed_def)
  next
    case (Inr t)
    obtain p cls img nets where t: "t = (p, cls, img, nets)" by (cases t)
    show ?thesis
    proof (cases "ctl_getProviderInstance env p")
      case (Inl e)
      then show ?thesis using d Inr t ends [OF n1] by (simp add: reconcileVM_def vm_def [symmetric])
    next
      case i: (Inr inst)
      obtain s2 img' res where e: "EnsureImageOnProvider env vm img p inst s1 = (s2, img', res)" by (metis surj_pair)
      then have n2: "grows (keeps_task task vm0) s s2"
        using EnsureImage_keeps_task [of task vm0 s1 env vm img p inst] grows_trans [OF n1] by simp
      obtain err where "pi_IsTaskComplete inst task 1 = Inl err" using assms(3) [OF i] by blast
      then show ?thesis using d Inr t i e ends [OF n2] vm assms(2)
        by (cases res) (simp_all add: reconcileVM_def vm_def [symmetric] reconcile_tasks_def poll_last_task_def)
    qed
  qed
qed

text \<open>
  C34. A failed task blocks its machine for good. When the provider reports that the task a machine
  waits for has failed, the client turns the report into an error, and the VirtualMachine controller
  takes every such error for a failure to reach the provider: no reconcile of the machine issues an RPC
  on machines, and every status it writes still refers to the failed task, so that the next reconcile
  is in the same position.
\<close>

theorem failed_task_blocks_machine:
  assumes "ce_get_vm env (ops s) key = Inr vm" "\<not> IsBeingDeleted (vm_meta vm)"
    and "vt_LastTaskRef (vm_status vm) = task" "task \<noteq> ''''"
    and "ce_resolver env = Some (\<lambda>p. Inr (client_instance w st))"
    and "ps_TaskStatus st task 1 = Inr \<lparr>pt_Done = d, pt_Error = msg\<rparr>" "msg \<noteq> ''''"
  shows "\<forall>e \<in> set (new_evs s (fst (VM_Reconcile env key s))). \<not> machine_rpc e \<and>
    (\<forall>vm' ok. e = CtlWrite (WVMStatus vm') ok \<longrightarrow>
       vt_LastTaskRef (vm_status vm') = task \<and> vm_spec vm' = vm_spec vm \<and> vm_meta vm' = vm_meta vm)"
proof -
  let ?s = "s\<lparr>ops := Suc (ops s)\<rparr>"
  have "grows (keeps_task task vm) ?s (fst (reconcileVM env vm ?s))"
    by (rule reconcileVM_keeps_task)
      (use assms in \<open>auto simp: ctl_getProviderInstance_def pi_IsTaskComplete_client\<close>)
  moreover have "grows (keeps_task task vm) ?s s'" if "ctl_write env (WVMMeta v) ?s = (s', r)" for v s' r
    by (rule grows_writeE [OF that]) simp
  ultimately have "grows (keeps_task task vm) ?s (fst (VM_Reconcile env key s))"
    using assms(1,2) by (auto simp: VM_Reconcile_def read_vm_def split: option.splits prod.splits)
  then have "keeps_task task vm e" if "e \<in> set (new_evs s (fst (VM_Reconcile env key s)))" for e
    using that grows_evs [of "keeps_task task vm" ?s] by (simp add: new_evs_def)
  moreover have "\<not> machine_rpc e \<and> (\<forall>vm' ok. e = CtlWrite (WVMStatus vm') ok \<longrightarrow>
      vt_LastTaskRef (vm_status vm') = task \<and> vm_spec vm' = vm_spec vm \<and> vm_meta vm' = vm_meta vm)"
    if "keeps_task task vm e" for e
    using that by (cases "(task, vm, e)" rule: keeps_task.cases) auto
  ultimately show ?thesis by blast
qed

definition sample_waiting :: virtual_machine where
  "sample_waiting = set_vst (\<lambda>t. t\<lparr>vt_LastTaskRef := ''task-1''\<rparr>) sample_machine"

theorem failed_task_blocks_machine_witness:
  "\<exists>vm' ok. new_evs ctl_start (fst (VM_Reconcile (over_grpc (sample_stub (PlainError '''')) sample_waiting) (''ns'', ''vm'') ctl_start)) =
     [CtlWrite (WVMStatus vm') ok] \<and> vt_LastTaskRef (vm_status vm') = ''task-1''"
proof -
  let ?env = "over_grpc (sample_stub (PlainError '''')) sample_waiting"
  have "\<exists>vm' ok. new_evs ctl_start (fst (VM_Reconcile ?env (''ns'', ''vm'') ctl_start)) = [CtlWrite (WVMStatus vm') ok]"
    by (simp add: VM_Reconcile_def read_vm_def reconcileVM_def getDependencies_def get_dep_image_def get_networks.simps
        ctl_samples sample_waiting_def set_vst_def IsBeingDeleted_def AddFinalizer_def HasFinalizer_def read_class_def
        ctl_getProviderInstance_def EnsureImageOnProvider_def reconcile_tasks_def poll_last_task_def pi_IsTaskComplete_client
        sample_stub_def vm_end_def VM_updateStatus_def ctl_write_def ctl_emit_def new_evs_def Let_def) blast
  moreover have "\<forall>e \<in> set (new_evs ctl_start (fst (VM_Reconcile ?env (''ns'', ''vm'') ctl_start))). \<not> machine_rpc e \<and>
      (\<forall>vm' ok. e = CtlWrite (WVMStatus vm') ok \<longrightarrow> vt_LastTaskRef (vm_status vm') = ''task-1'' \<and>
         vm_spec vm' = vm_spec sample_waiting \<and> vm_meta vm' = vm_meta sample_waiting)"
    by (rule failed_task_blocks_machine [where st = "sample_stub (PlainError '''')" and w = sample_codec
        and d = True and msg = "''no space''"])
      (simp_all add: sample_waiting_def sample_machine_def set_vst_def sample_ctl_env_def IsBeingDeleted_def new_meta_def sample_stub_def)
  ultimately show ?thesis by fastforce
qed

end
