(* ===== verification/ResolverProps.thy ===== *)
theory ResolverProps
  imports GrpcProps VmFindings
begin

text \<open>
  The resolver over its whole life: which clients it may hold, what it hands out when the Provider
  object has changed, and what an open breaker means for the objects that share it.
\<close>

section \<open>Histories\<close>

text \<open>
  The resolver after a sequence of operations, each in a world of its own; \<open>seen\<close> lists the Provider
  objects it was given, together with the world it saw them in.
\<close>

inductive resolver_run :: "registry option \<Rightarrow> (resolver_env \<times> remote_provider) list \<Rightarrow> resolver \<Rightarrow> bool" where
  start: "resolver_run reg [] (NewResolver reg)"
| get: "resolver_run reg seen rv \<Longrightarrow> GetProvider env p rv = (rv', r) \<Longrightarrow> resolver_run reg ((env, p) # seen) rv'"
| cleanup: "resolver_run reg seen rv \<Longrightarrow> resolver_run reg seen (CleanupClient p rv)"
| cleanup_all: "resolver_run reg seen rv \<Longrightarrow> resolver_run reg seen (CleanupAllClients rv)"

lemma set_breaker_frame [simp]:
  "rv_clients (set_breaker a cb rv) = rv_clients rv"
  "rv_sent (set_breaker a cb rv) = rv_sent rv" "rv_calls (set_breaker a cb rv) = rv_calls rv"
  by (auto simp: set_breaker_def split: option.splits)

lemma validate_client_clients: "validate_client env cl rv = (rv', r) \<Longrightarrow> rv_clients rv' = rv_clients rv"
  by (auto simp: validate_client_def Let_def split: prod.splits)

lemma get_breaker_clients: "get_breaker p rv = (rv', a) \<Longrightarrow> rv_clients rv' = rv_clients rv"
  by (auto simp: get_breaker_def split: option.splits prod.splits)

text \<open>A client built for the object \<open>p\<close> in the world \<open>env\<close>.\<close>

definition built_for :: "resolver_env \<Rightarrow> remote_provider \<Rightarrow> cached_client \<Rightarrow> bool" where
  "built_for env p cl \<longleftrightarrow>
     buildTLSConfig env p = Inr (cc_tls cl) \<and>
     (\<exists>rt. rp_Runtime p = Some rt \<and> rs_Phase rt = ''Running'' \<and> rs_Endpoint rt = cc_endpoint cl \<and> cc_endpoint cl \<noteq> '''')"

lemma create_client_cases:
  assumes "create_client env p ep rv = (rv', r)"
  shows "(\<exists>e. r = Inl e) \<and> rv_clients rv' = rv_clients rv \<or>
    (\<exists>cl. r = Inr cl \<and> buildTLSConfig env p = Inr (cc_tls cl) \<and> cc_endpoint cl = ep \<and>
       rv_clients rv' = AList.update (cacheKey p) cl (rv_clients rv))"
  using assms
  by (auto simp: create_client_def Let_def split: sum.splits prod.splits option.splits
      dest!: validate_client_clients get_breaker_clients)

lemma set_update: "set (AList.update k v al) \<subseteq> insert (k, v) (set al)"
  by (induction al) auto

lemma set_delete: "set (AList.delete k al) \<subseteq> set al"
  by (auto simp: AList.delete_eq)

lemma GetProvider_cases:
  assumes "GetProvider env p rv = (rv', r)"
  shows "(\<exists>e. r = Inl e) \<and> set (rv_clients rv') \<subseteq> set (rv_clients rv) \<or>
    (\<exists>cl. r = Inr cl \<and> (cacheKey p, cl) \<in> set (rv_clients rv) \<and> rv_clients rv' = rv_clients rv) \<or>
    (\<exists>cl. r = Inr cl \<and> built_for env p cl \<and> set (rv_clients rv') \<subseteq> insert (cacheKey p, cl) (set (rv_clients rv)))"
proof (cases "\<exists>rt. rp_Runtime p = Some rt \<and> rs_Endpoint rt \<noteq> '''' \<and> rs_Phase rt = ''Running''")
  case False
  then show ?thesis using assms by (auto simp: GetProvider_def getRemoteProvider_def split: option.splits if_splits)
next
  case True
  then obtain rt where rt: "rp_Runtime p = Some rt" "rs_Endpoint rt \<noteq> ''''" "rs_Phase rt = ''Running''" by blast
  have new: "?thesis" if c: "create_client env p (rs_Endpoint rt) rv1 = (rv', r)" and "set (rv_clients rv1) \<subseteq> set (rv_clients rv)" for rv1
    using create_client_cases [OF c] that(2) rt set_update [of "cacheKey p" _ "rv_clients rv1"]
    by (fastforce simp: built_for_def)
  show ?thesis
  proof (cases "map_of (rv_clients rv) (cacheKey p)")
    case None
    then show ?thesis using assms rt by (intro new [of rv]) (simp_all add: GetProvider_def getRemoteProvider_def)
  next
    case (Some cl)
    obtain rv1 err where v: "validate_client env cl rv = (rv1, err)" by (metis surj_pair)
    note c = validate_client_clients [OF v]
    show ?thesis
    proof (cases err)
      case None
      then show ?thesis using assms rt Some v c map_of_SomeD [OF Some]
        by (auto simp: GetProvider_def getRemoteProvider_def)
    next
      case e: (Some e)
      then show ?thesis using assms rt Some v c set_delete [of "cacheKey p" "rv_clients rv"]
        by (intro new [of "rv1\<lparr>rv_clients := AList.delete (cacheKey p) (rv_clients rv1)\<rparr>"])
          (simp_all add: GetProvider_def getRemoteProvider_def)
    qed
  qed
qed

lemma resolver_clients_built:
  assumes "resolver_run reg seen rv" "(k, cl) \<in> set (rv_clients rv)"
  shows "\<exists>(env, p) \<in> set seen. cacheKey p = k \<and> built_for env p cl"
  using assms
proof (induction arbitrary: k cl)
  case (start reg)
  then show ?case by (simp add: NewResolver_def)
next
  case (get reg seen rv env p rv' r)
  then show ?case using GetProvider_cases [OF get(2)] by fastforce
next
  case (cleanup reg seen rv p)
  then show ?case using set_delete by (fastforce simp: CleanupClient_def)
next
  case (cleanup_all reg seen rv)
  then show ?case by (simp add: CleanupAllClients_def)
qed

lemma validate_client_ok:
  assumes "validate_client env cl rv = (rv', None)"
  shows "rv_sent rv' = rv_sent rv @ [cc_endpoint cl] \<and> rv_calls rv' = Suc (rv_calls rv) \<and>
    (\<exists>resp. ps_Validate (re_process env (cc_endpoint cl) (cc_tls cl) (rv_calls rv)) = Inr resp \<and> pv_Ok resp)"
  using assms
  by (auto simp: validate_client_def Let_def Client_Validate_def call_rpc_def invoke_def interceptor_eq goes_out_def
      track_started_def split: prod.splits sum.splits if_splits option.splits)

lemma GetProvider_validated:
  assumes "GetProvider env p rv = (rv', Inr cl)"
  shows "(\<exists>xs. rv_sent rv' = rv_sent rv @ xs @ [cc_endpoint cl]) \<and>
    (\<exists>n resp. ps_Validate (re_process env (cc_endpoint cl) (cc_tls cl) n) = Inr resp \<and> pv_Ok resp)"
proof -
  have sent: "\<exists>xs. rv_sent rb = rv_sent ra @ xs" if "validate_client env c ra = (rb, e)" for c ra rb e
    using that by (auto simp: validate_client_def Let_def split: prod.splits)
  have brk: "rv_sent rb = rv_sent ra" if "get_breaker p ra = (rb, a)" for ra rb a
    using that by (auto simp: get_breaker_def split: option.splits prod.splits)
  have new: "?thesis" if c: "create_client env p ep ra = (rv', Inr cl)" and "\<exists>xs. rv_sent ra = rv_sent rv @ xs" for ep ra
    using c that(2)
    by (auto simp: create_client_def Let_def split: sum.splits prod.splits option.splits dest!: validate_client_ok brk)
  obtain rt where rt: "rp_Runtime p = Some rt" "rs_Endpoint rt \<noteq> []" "rs_Phase rt = ''Running''"
    using assms by (auto simp: GetProvider_def getRemoteProvider_def split: option.splits if_splits)
  show ?thesis
  proof (cases "map_of (rv_clients rv) (cacheKey p)")
    case None
    then show ?thesis using assms rt by (intro new [where ra = rv]) (auto simp: GetProvider_def getRemoteProvider_def)
  next
    case (Some c)
    obtain rb err where v: "validate_client env c rv = (rb, err)" by (metis surj_pair)
    show ?thesis
    proof (cases err)
      case None
      then show ?thesis using assms rt Some v validate_client_ok [of env c rv rb]
        by (auto simp: GetProvider_def getRemoteProvider_def)
    next
      case e: (Some e)
      then show ?thesis using assms rt Some v sent [OF v]
        by (intro new [where ra = "rb\<lparr>rv_clients := AList.delete (cacheKey p) (rv_clients rb)\<rparr>"])
          (auto simp: GetProvider_def getRemoteProvider_def)
    qed
  qed
qed

text \<open>What a TLS configuration built from an object says.\<close>

definition honours_tls :: "resolver_env \<Rightarrow> remote_provider \<Rightarrow> tls_config option \<Rightarrow> bool" where
  "honours_tls env p tls \<longleftrightarrow>
     (case (rp_TLS p, tls) of
        (None, _) \<Rightarrow> False
      | (Some t, None) \<Rightarrow> \<not> tl_Enabled t
      | (Some t, Some c) \<Rightarrow>
          tl_Enabled t \<and> tc_MinVersion c = VersionTLS13 \<and> tc_ServerName c = tls_server_name p \<and>
          tc_InsecureSkipVerify c = tl_InsecureSkipVerify t \<and>
          (\<exists>data. re_secret env (rp_ns p, tl_SecretRef t) = Inr data \<and> data ''tls.crt'' = Some (fst (tc_Certificate c)) \<and>
             data ''tls.key'' = Some (snd (tc_Certificate c)) \<and> data ''ca.crt'' = Some (tc_RootCAs c)))"

lemma buildTLSConfig_honours: "buildTLSConfig env p = Inr tls \<Longrightarrow> honours_tls env p tls"
  by (auto simp: buildTLSConfig_def honours_tls_def Let_def missing_keys_def secret_value_def
      split: option.splits sum.splits if_splits)

section \<open>Properties\<close>

text \<open>
  C35. The resolver hands out authentic, live clients. Over any history of lookups and cleanups, a client
  returned for a Provider object was built from an object of the same namespace and name that was Running
  at the client's endpoint, now or at an earlier lookup; it is plaintext only if that object's TLS
  block says so explicitly, and otherwise uses TLS 1.3, the key pair and authority of that object's Secret
  in its own namespace, its service's name, and skips verification only if that object asks for it;
  and the last RPC the lookup sent went to the client's endpoint and was answered by a process that calls itself valid.
\<close>

theorem resolver_hands_out_authentic_clients:
  assumes "resolver_run reg seen rv" "GetProvider env p rv = (rv', Inr cl)"
  shows "(\<exists>(env', p') \<in> set ((env, p) # seen). cacheKey p' = cacheKey p \<and> honours_tls env' p' (cc_tls cl) \<and>
      (\<exists>rt. rp_Runtime p' = Some rt \<and> rs_Phase rt = ''Running'' \<and> rs_Endpoint rt = cc_endpoint cl)) \<and>
    (\<exists>xs. rv_sent rv' = rv_sent rv @ xs @ [cc_endpoint cl]) \<and>
    (\<exists>n resp. ps_Validate (re_process env (cc_endpoint cl) (cc_tls cl) n) = Inr resp \<and> pv_Ok resp)"
proof -
  have "\<exists>(env', p') \<in> set ((env, p) # seen). cacheKey p' = cacheKey p \<and> built_for env' p' cl"
    using GetProvider_cases [OF assms(2)] resolver_clients_built [OF assms(1)] by fastforce
  then obtain env' p' where "(env', p') \<in> set ((env, p) # seen)" "cacheKey p' = cacheKey p" "built_for env' p' cl"
    by blast
  then show ?thesis using GetProvider_validated [OF assms(2)] buildTLSConfig_honours [of env' p' "cc_tls cl"]
    by (intro conjI bexI [of _ "(env', p')"]) (auto simp: built_for_def)
qed

definition sample_world :: resolver_env where
  "sample_world = \<lparr>re_secret = (\<lambda>_. Inr [''tls.crt'' \<mapsto> ''c'', ''tls.key'' \<mapsto> ''k'', ''ca.crt'' \<mapsto> ''a'']),
     re_key_pair = (\<lambda>_ _. None), re_parse_ca = (\<lambda>_. True), re_dial = (\<lambda>_ _. None),
     re_process = (\<lambda>_ _ _. (sample_stub (PlainError ''''))\<lparr>ps_Validate := Inr \<lparr>pv_Ok = True, pv_Message = ''''\<rparr>\<rparr>),
     re_clock = (\<lambda>n. (int n, int n))\<rparr>"

definition sample_remote :: "string \<Rightarrow> bool \<Rightarrow> remote_provider" where
  "sample_remote ep tls = \<lparr>rp_object = sample_ctl_provider,
     rp_TLS = Some \<lparr>tl_Enabled = tls, tl_SecretRef = ''s'', tl_InsecureSkipVerify = False\<rparr>,
     rp_Runtime = Some \<lparr>rs_Endpoint = ep, rs_Phase = ''Running''\<rparr>\<rparr>"

lemmas resolver_samples = sample_world_def sample_remote_def sample_ctl_provider_def new_meta_def NewResolver_def
lemmas resolver_eval = GetProvider_def getRemoteProvider_def create_client_def buildTLSConfig_def missing_keys_def
  secret_value_def get_breaker_def validate_client_def Client_Validate_def call_rpc_def invoke_def breaker_at_def
  set_breaker_def goes_out_def track_started_def Let_def

definition plain_client :: cached_client where
  "plain_client = \<lparr>cc_endpoint = ''a:1'', cc_tls = None, cc_breaker = None, cc_inflight = [], cc_gauge = 0\<rparr>"

lemma sample_lookup:
  "GetProvider sample_world (sample_remote ''a:1'' False) (NewResolver None) =
     (\<lparr>rv_clients = [(''ns/p'', plain_client)], rv_registry = None, rv_calls = 1, rv_sent = [''a:1'']\<rparr>, Inr plain_client)"
  by (simp add: resolver_eval resolver_samples plain_client_def cacheKey_def)

theorem resolver_hands_out_authentic_clients_witness:
  "\<exists>cl rv'. GetProvider sample_world (sample_remote ''a:1'' False) (NewResolver None) = (rv', Inr cl) \<and>
     honours_tls sample_world (sample_remote ''a:1'' False) (cc_tls cl) \<and> cc_endpoint cl = ''a:1''"
  using resolver_hands_out_authentic_clients [OF resolver_run.start [of None] sample_lookup] sample_lookup
  by (auto simp: sample_remote_def)

text \<open>
  The cache does not notice that the object has changed: as long as the process behind a cached
  client answers, the resolver returns that client, whatever endpoint and TLS block the Provider object
  has now. A client that was dialled in plaintext stays in use after TLS was switched on.
\<close>

lemma changed_object_keeps_client:
  assumes "map_of (rv_clients rv) (cacheKey p) = Some cl"
    and "rp_Runtime p = Some \<lparr>rs_Endpoint = ep, rs_Phase = ''Running''\<rparr>" "ep \<noteq> ''''"
    and "goes_out (breaker_at rv (cc_breaker cl)) (fst (re_clock env (rv_calls rv)))"
    and "ps_Validate (re_process env (cc_endpoint cl) (cc_tls cl) (rv_calls rv)) = Inr \<lparr>pv_Ok = True, pv_Message = m\<rparr>"
  shows "\<exists>rv'. GetProvider env p rv = (rv', Inr cl) \<and> rv_clients rv' = rv_clients rv"
proof -
  have "\<exists>rv'. validate_client env cl rv = (rv', None)"
  proof (cases "breaker_at rv (cc_breaker cl)")
    case None
    then show ?thesis using assms(5)
      by (simp add: validate_client_def Client_Validate_def call_rpc_def invoke_def track_started_def Let_def)
  next
    case (Some b)
    then obtain b' where "allowCall (fst (re_clock env (rv_calls rv))) b = (b', True)"
      using assms(4) by (metis goes_out_def option.simps(5) prod.collapse)
    then show ?thesis using assms(5) Some
      by (simp add: validate_client_def Client_Validate_def call_rpc_def invoke_def track_started_def interceptor_eq Let_def)
  qed
  then obtain rv' where v: "validate_client env cl rv = (rv', None)" by blast
  then show ?thesis using assms(1-3) validate_client_clients [OF v]
    by (simp add: GetProvider_def getRemoteProvider_def)
qed

section \<open>An open breaker\<close>

lemma validate_client_open:
  assumes "breaker_at rv (cc_breaker cl) = Some cb" "cb_st cb = StateOpen"
    and "time_sub (fst (re_clock env (rv_calls rv))) (lastFailureTime cb) \<le> ResetTimeout (cb_config cb)"
  shows "\<exists>e. validate_client env cl rv = (set_breaker (cc_breaker cl) (Some cb) (rv\<lparr>rv_calls := Suc (rv_calls rv)\<rparr>), Some e)"
  using assms
  by (simp add: validate_client_def Client_Validate_def call_rpc_def invoke_def interceptor_open_early goes_out_def
      allowCall_def Let_def)

lemma set_breaker_same:
  "breaker_at rv (Some a) = Some cb \<Longrightarrow> set_breaker (Some a) (Some cb) (rv\<lparr>rv_calls := n\<rparr>) = rv\<lparr>rv_calls := n\<rparr>"
  by (auto simp: breaker_at_def set_breaker_def split: option.splits)

lemma GetProvider_open:
  assumes reg: "rv_registry rv = Some reg" "reg_Get circuitBreakerName (rp_type p) (rp_name p) reg = Some a"
    and cb: "cb_st (cb_heap reg ! a) = StateOpen"
    and early: "\<And>n. time_sub (fst (re_clock env n)) (lastFailureTime (cb_heap reg ! a)) \<le> ResetTimeout (cb_config (cb_heap reg ! a))"
    and own: "\<And>cl. map_of (rv_clients rv) (cacheKey p) = Some cl \<Longrightarrow> cc_breaker cl = Some a"
  shows "(\<exists>e. snd (GetProvider env p rv) = Inl e) \<and> rv_sent (fst (GetProvider env p rv)) = rv_sent rv"
proof -
  have refused: "\<exists>e. validate_client env cl r = (r\<lparr>rv_calls := Suc (rv_calls r)\<rparr>, Some e)"
    if "rv_registry r = Some reg" "cc_breaker cl = Some a" for r cl
  proof -
    have at: "breaker_at r (Some a) = Some (cb_heap reg ! a)" using that by (simp add: breaker_at_def)
    show ?thesis using validate_client_open [of r cl, OF _ cb early] that at set_breaker_same [OF at] by simp
  qed
  have create: "(\<exists>e. snd (create_client env p ep r) = Inl e) \<and> rv_sent (fst (create_client env p ep r)) = rv_sent r"
    if r: "rv_registry r = Some reg" for ep r
  proof -
    have gb: "get_breaker p r = (r, Some a)"
      using that reg(2) by (simp add: get_breaker_def GetOrCreate_def reg_Get_def Let_def)
    show ?thesis
    proof (cases "buildTLSConfig env p")
      case (Inr tls)
      obtain e where "validate_client env \<lparr>cc_endpoint = ep, cc_tls = tls, cc_breaker = Some a, cc_inflight = [], cc_gauge = 0\<rparr> r =
          (r\<lparr>rv_calls := Suc (rv_calls r)\<rparr>, Some e)" using refused [OF r] by fastforce
      then show ?thesis using Inr gb by (simp add: create_client_def Let_def split: option.splits)
    qed (simp add: create_client_def)
  qed
  show ?thesis
  proof (cases "map_of (rv_clients rv) (cacheKey p)")
    case None
    then show ?thesis using create [OF reg(1)] by (auto simp: GetProvider_def getRemoteProvider_def split: option.splits)
  next
    case (Some cl)
    then obtain e where v: "validate_client env cl rv = (rv\<lparr>rv_calls := Suc (rv_calls rv)\<rparr>, Some e)"
      using refused [OF reg(1) own] by blast
    show ?thesis
      using Some v create [of "rv\<lparr>rv_calls := Suc (rv_calls rv), rv_clients := AList.delete (cacheKey p) (rv_clients rv)\<rparr>"] reg(1)
      by (auto simp: GetProvider_def getRemoteProvider_def split: option.splits)
  qed
qed

text \<open>
  C36. An open breaker orphans machines, also those of a namesake. Breakers are kept per type and name
  of the Provider, without its namespace, and the resolver validates a client through its breaker. So
  while the breaker of some type and name is open, no Provider object of that type and name in any
  namespace can be resolved, and no RPC is sent for it; a machine of such a Provider that is deleted in
  this time loses its finalizer without any Delete.
\<close>

theorem open_breaker_orphans_machine:
  assumes "rv_registry rv = Some reg" "reg_Get circuitBreakerName (rp_type (remote q)) (rp_name (remote q)) reg = Some a"
    and "cb_st (cb_heap reg ! a) = StateOpen"
    and "\<And>n. time_sub (fst (re_clock renv n)) (lastFailureTime (cb_heap reg ! a)) \<le> ResetTimeout (cb_config (cb_heap reg ! a))"
    and "\<And>cl. map_of (rv_clients rv) (cacheKey (remote q)) = Some cl \<Longrightarrow> cc_breaker cl = Some a"
    and "ce_resolver env = Some (\<lambda>q. map_sum (\<lambda>e. e) inst (snd (GetProvider renv (remote q) rv)))"
    and "ce_get_vm env (ops s) key = Inr vm" "IsBeingDeleted (vm_meta vm)" "HasFinalizer (vm_meta vm) VirtualMachineFinalizer"
    and "ce_get_provider env (ref_key (vs_ProviderRef (vm_spec vm)) (vm_ns vm)) = Inr q"
  shows "rv_sent (fst (GetProvider renv (remote q) rv)) = rv_sent rv \<and>
    (\<exists>ok. new_evs s (fst (VM_Reconcile env key s)) =
      [CtlWrite (WVMMeta (vm\<lparr>vm_meta := remove_finalizer VirtualMachineFinalizer (vm_meta vm)\<rparr>)) ok])"
proof -
  obtain e where e: "snd (GetProvider renv (remote q) rv) = Inl e" and sent: "rv_sent (fst (GetProvider renv (remote q) rv)) = rv_sent rv"
    using GetProvider_open [OF assms(1-5)] by auto
  then have "\<exists>e'. ctl_getProviderInstance env q = Inl e'" using assms(6) by (simp add: ctl_getProviderInstance_def)
  then show ?thesis using vm_orphaned_by_unresolved_provider [OF assms(7-10)] sent by blast
qed

text \<open>The breaker of a Provider ''p'' of type libvirt, opened by failures of a Provider in another namespace.\<close>

definition tripped_registry :: registry where
  "tripped_registry = (let r = fst (GetOrCreate circuitBreakerName ''libvirt'' ''p'' (NewRegistry None)) in
     r\<lparr>cb_heap := [transitionToOpen (hd (cb_heap r))]\<rparr>)"

theorem open_breaker_orphans_machine_witness:
  "\<exists>vm' ok. new_evs ctl_start (fst (VM_Reconcile ((sample_ctl_env sample_deleted)\<lparr>ce_resolver := Some (\<lambda>q. map_sum (\<lambda>e. e)
       (\<lambda>cl. client_instance sample_codec (re_process sample_world (cc_endpoint cl) (cc_tls cl) 0))
       (snd (GetProvider (sample_world\<lparr>re_clock := (\<lambda>n. (9, 9))\<rparr>) (sample_remote ''a:1'' False) (NewResolver (Some tripped_registry)))))\<rparr>)
     (''ns'', ''vm'') ctl_start)) = [CtlWrite (WVMMeta vm') ok]"
  using open_breaker_orphans_machine [where rv = "NewResolver (Some tripped_registry)" and reg = tripped_registry and a = 0
      and remote = "\<lambda>_. sample_remote ''a:1'' False" and renv = "sample_world\<lparr>re_clock := (\<lambda>n. (9, 9))\<rparr>"
      and inst = "\<lambda>cl. client_instance sample_codec (re_process sample_world (cc_endpoint cl) (cc_tls cl) 0)"
      and s = ctl_start and key = "(''ns'', ''vm'')" and vm = sample_deleted and q = sample_ctl_provider
      and env = "(sample_ctl_env sample_deleted)\<lparr>ce_resolver := Some (\<lambda>q. map_sum (\<lambda>e. e)
       (\<lambda>cl. client_instance sample_codec (re_process sample_world (cc_endpoint cl) (cc_tls cl) 0))
       (snd (GetProvider (sample_world\<lparr>re_clock := (\<lambda>n. (9, 9))\<rparr>) (sample_remote ''a:1'' False) (NewResolver (Some tripped_registry)))))\<rparr>"]
  by (auto simp: NewResolver_def tripped_registry_def GetOrCreate_def NewRegistry_def reg_Get_def registry_key_def circuitBreakerName_def
      sample_remote_def sample_ctl_provider_def transitionToOpen_def NewCircuitBreaker_def DefaultConfig_def sample_world_def
      time_sub_def max_int64_def min_int64_def sample_deleted_def sample_machine_def sample_ctl_env_def IsBeingDeleted_def
      HasFinalizer_def new_meta_def)

end
