(* ===== verification/ProviderCtl.thy ===== *)
theory ProviderCtl
  imports Resolver CtlModel
begin

text \<open>
  The Provider controller (\<^verbatim>\<open>internal/controller/provider_controller.go\<close>): it renders a Service and a
  Deployment for every Provider object, decides the TLS posture of the pod, mounts the claims of running
  migrations and keeps the Provider's status, from which the resolver takes the endpoint. The objects
  are those of the API with the fields the controller reads or writes; quantities are their text, and
  tolerations and affinities, which are only copied, are opaque. The clock has one value in a call. Reads,
  lists and writes are numbered, so that the same request can be answered differently when it is made
  again; the log holds every write with its success.
\<close>

section \<open>Kubernetes objects\<close>

datatype env_value = EnvLiteral string | EnvField string | EnvOther string

record env_var =
  en_Name :: string
  en_Value :: env_value

datatype volume_source = SecretSource string | ClaimSource string | EmptyDirSource string "string option"

record pod_volume =
  vq_Name :: string
  vq_Source :: volume_source

record volume_mount =
  mn_Name :: string
  mn_MountPath :: string
  mn_ReadOnly :: bool

record resource_requirements =
  rq_Requests :: "(string \<times> string) list"
  rq_Limits :: "(string \<times> string) list"

record security_context =
  sx_RunAsNonRoot :: "bool option"
  sx_RunAsUser :: "int option"
  sx_ReadOnlyRootFilesystem :: "bool option"
  sx_AllowPrivilegeEscalation :: "bool option"
  sx_DropCapabilities :: "string list"

record probe =
  pq_Path :: string
  pq_Port :: int
  pq_InitialDelay :: int
  pq_Period :: int

record container =
  ct_Name :: string
  ct_Image :: string
  ct_ImagePullPolicy :: string
  ct_Args :: "string list"
  ct_Env :: "env_var list"
  ct_Resources :: resource_requirements
  ct_VolumeMounts :: "volume_mount list"
  ct_SecurityContext :: security_context
  ct_Ports :: "(string \<times> int) list"
  ct_Liveness :: probe
  ct_Readiness :: probe
  ct_PreStop :: "string list"

record pod_template =
  tp_Labels :: "string \<rightharpoonup> string"
  tp_Containers :: "container list"
  tp_Volumes :: "pod_volume list"
  tp_NodeSelector :: "string \<rightharpoonup> string"
  tp_Tolerations :: "string list"
  tp_Affinity :: "string option"
  tp_RestartPolicy :: string
  tp_GracePeriod :: int

record kube_service =
  ks_Name :: string
  ks_Namespace :: string
  ks_Labels :: "string \<rightharpoonup> string"
  ks_Owner :: "string option"
  ks_Type :: string
  ks_Selector :: "string \<rightharpoonup> string"
  ks_Ports :: "(string \<times> int \<times> int) list"

record kube_deployment =
  kd_Name :: string
  kd_Namespace :: string
  kd_Labels :: "string \<rightharpoonup> string"
  kd_Owner :: "string option"
  kd_Replicas :: "int option"
  kd_Selector :: "string \<rightharpoonup> string"
  kd_Template :: pod_template
  kd_UpdatedReplicas :: int
  kd_ReadyReplicas :: int

section \<open>The Provider object\<close>

record service_spec =
  sv_Port :: int
  sv_TLS :: "tls_spec option"

record provider_defaults =
  df_Datastore :: string
  df_StoragePod :: string
  df_Cluster :: string
  df_Folder :: string

record runtime_spec =
  ru_Image :: string
  ru_ImagePullPolicy :: string
  ru_Replicas :: "int option"
  ru_Service :: "service_spec option"
  ru_Resources :: "resource_requirements option"
  ru_NodeSelector :: "string \<rightharpoonup> string"
  ru_Tolerations :: "string list"
  ru_Affinity :: "string option"
  ru_SecurityContext :: "security_context option"
  ru_LogLevel :: string
  ru_LogFormat :: string
  ru_Env :: "env_var list"

record provider_runtime_status = runtime_status +
  rs_Mode :: string
  rs_ServiceRef :: "string option"
  rs_Message :: string

record provider_status =
  ps_Healthy :: bool
  ps_LastHealthCheck :: "int option"
  ps_Runtime :: "provider_runtime_status option"
  ps_Conditions :: "condition list"
  ps_ObservedGeneration :: int
  ps_ReportedCapabilities :: "reported_capabilities option"
  ps_ConnectedVMs :: int
  ps_Adoption :: "adoption_status option"

record provider_cr =
  pk_meta :: object_meta
  pk_Type :: string
  pk_Endpoint :: string
  pk_CredentialSecret :: string
  pk_InsecureSkipVerify :: bool
  pk_Defaults :: "provider_defaults option"
  pk_Runtime :: "runtime_spec option"
  pk_status :: provider_status

abbreviation pk_name :: "provider_cr \<Rightarrow> string" where "pk_name p \<equiv> md_name (pk_meta p)"
abbreviation pk_ns :: "provider_cr \<Rightarrow> string" where "pk_ns p \<equiv> md_namespace (pk_meta p)"

text \<open>\<open>spec.runtime.service.tls\<close>, and the object as the other controllers and the resolver read it.\<close>

definition tls_block :: "provider_cr \<Rightarrow> tls_spec option" where
  "tls_block p = (case pk_Runtime p of None \<Rightarrow> None | Some rt \<Rightarrow>
     (case ru_Service rt of None \<Rightarrow> None | Some sv \<Rightarrow> sv_TLS sv))"

definition provider_of :: "provider_cr \<Rightarrow> provider" where
  "provider_of p = \<lparr>pv_meta = pk_meta p, pv_Type = pk_Type p, pv_Conditions = ps_Conditions (pk_status p),
     pv_ReportedCapabilities = ps_ReportedCapabilities (pk_status p)\<rparr>"

definition remote_of :: "provider_cr \<Rightarrow> remote_provider" where
  "remote_of p = \<lparr>rp_object = provider_of p, rp_TLS = tls_block p,
     rp_Runtime = map_option runtime_status.truncate (ps_Runtime (pk_status p))\<rparr>"

text \<open>A Deployment as the VMMigration controller reads it.\<close>

definition volume_of :: "pod_volume \<Rightarrow> volume" where
  "volume_of v = (case vq_Source v of ClaimSource c \<Rightarrow> Some c | _ \<Rightarrow> None)"

definition deployment_of :: "kube_deployment \<Rightarrow> deployment" where
  "deployment_of d = \<lparr>dp_Volumes = map volume_of (tp_Volumes (kd_Template d)), dp_Replicas = kd_Replicas d,
     dp_UpdatedReplicas = kd_UpdatedReplicas d, dp_ReadyReplicas = kd_ReadyReplicas d\<rparr>"

section \<open>Environment and state\<close>

datatype prov_write =
    PwCreateService kube_service | PwUpdateService kube_service
  | PwCreateDeployment kube_deployment | PwUpdateDeployment kube_deployment
  | PwDeleteDeployment nn | PwDeleteService nn
  | PwStatus provider_cr

text \<open>\<open>pe_pvcs\<close> are all claims of the cluster; the selection of a list call is part of the model.\<close>

record prov_env =
  pe_now :: int
  pe_get_provider :: "nat \<Rightarrow> nn \<Rightarrow> provider_cr result"
  pe_get_service :: "nat \<Rightarrow> nn \<Rightarrow> kube_service result"
  pe_get_deployment :: "nat \<Rightarrow> nn \<Rightarrow> kube_deployment result"
  pe_pvcs :: "nat \<Rightarrow> pvc list result"
  pe_vms :: "nat \<Rightarrow> virtual_machine list result"
  pe_providers :: "nat \<Rightarrow> provider_cr list result"
  pe_write_err :: "nat \<Rightarrow> prov_write \<Rightarrow> go_error option"
  pe_owner_err :: "go_error option"
  pe_resolver :: "(remote_provider \<Rightarrow> provider_instance result) option"
  pe_retry_steps :: nat

record prov_state =
  pn_ops :: nat
  pn_log :: "(prov_write \<times> bool) list"

definition prov_read :: "(nat \<Rightarrow> 'a) \<Rightarrow> prov_state \<Rightarrow> prov_state \<times> 'a" where
  "prov_read f s = (s\<lparr>pn_ops := Suc (pn_ops s)\<rparr>, f (pn_ops s))"

definition prov_put :: "prov_env \<Rightarrow> prov_write \<Rightarrow> prov_state \<Rightarrow> prov_state \<times> go_error option" where
  "prov_put env w s =
     (let err = pe_write_err env (pn_ops s) w
      in (s\<lparr>pn_ops := Suc (pn_ops s), pn_log := pn_log s @ [(w, err = None)]\<rparr>, err))"

definition go_bool :: "bool \<Rightarrow> string" where
  "go_bool b = (if b then ''true'' else ''false'')"

section \<open>Status helpers\<close>

definition prov_cond :: "prov_env \<Rightarrow> string \<Rightarrow> cond_status \<Rightarrow> string \<Rightarrow> string \<Rightarrow> provider_cr \<Rightarrow> provider_cr" where
  "prov_cond env ctype st reason msg p =
     p\<lparr>pk_status := (pk_status p)\<lparr>ps_Conditions := SetCondition (pe_now env) ctype st reason msg (ps_Conditions (pk_status p))\<rparr>\<rparr>"

definition set_runtime :: "(provider_runtime_status \<Rightarrow> provider_runtime_status) \<Rightarrow> provider_cr \<Rightarrow> provider_cr" where
  "set_runtime f p = p\<lparr>pk_status := (pk_status p)\<lparr>ps_Runtime := map_option f (ps_Runtime (pk_status p))\<rparr>\<rparr>"

text \<open>The three assignments every failing step of \<^verbatim>\<open>reconcileRemoteRuntime\<close> makes.\<close>

definition runtime_failed :: "prov_env \<Rightarrow> string \<Rightarrow> string \<Rightarrow> string \<Rightarrow> provider_cr \<Rightarrow> provider_cr" where
  "runtime_failed env reason cond_msg msg p =
     set_runtime (\<lambda>r. r\<lparr>rs_Phase := ''Failed'', rs_Message := msg\<rparr>)
       (prov_cond env ''ProviderRuntimeReady'' ConditionFalse reason cond_msg p)"

section \<open>Validation and TLS posture\<close>

definition validateRemoteRuntimeSpec :: "provider_cr \<Rightarrow> go_error option" where
  "validateRemoteRuntimeSpec p =
     (case pk_Runtime p of
        None \<Rightarrow> Some (PlainError ''runtime configuration is required for remote mode'')
      | Some rt \<Rightarrow> if ru_Image rt = '''' then Some (PlainError ''image is required for remote runtime'') else None)"

definition providerTLSEnabled :: "provider_cr \<Rightarrow> bool" where
  "providerTLSEnabled p = (case tls_block p of None \<Rightarrow> False | Some t \<Rightarrow> tl_Enabled t)"

definition tlsBlockMissingMessage :: string where
  "tlsBlockMissingMessage =
     ''TLS is on-by-default in v0.3.7. To proceed: (a) provision a Secret with tls.crt/tls.key/ca.crt and set '' @
     ''spec.runtime.service.tls.enabled=true with secretRef pointing at it, OR (b) explicitly set '' @
     ''spec.runtime.service.tls.enabled=false to keep plaintext (lab / migration scenarios). See umbrella #156 for the runbook.''"

text \<open>The arrow of the second message is U+2194.\<close>

definition evaluateTLSPosture :: "prov_env \<Rightarrow> provider_cr \<Rightarrow> provider_cr \<times> bool" where
  "evaluateTLSPosture env p =
     (case tls_block p of
        None \<Rightarrow> (prov_cond env ''TLSConfigured'' ConditionFalse ''TLSBlockMissing'' tlsBlockMissingMessage p, False)
      | Some t \<Rightarrow>
          if \<not> tl_Enabled t then
            (prov_cond env ''TLSConfigured'' ConditionFalse ''ExplicitlyDisabled''
               (''TLS is explicitly disabled (tls.enabled=false); manager'' @ [CHR 0xE2, CHR 0x86, CHR 0x94] @
                ''provider gRPC traffic will be plaintext. Compensating controls (NetworkPolicy + encrypted CNI) '' @
                ''are the operator'' @ [CHR 0x27] @ ''s responsibility.'') p, True)
          else if tl_SecretRef t = '''' then
            (prov_cond env ''TLSConfigured'' ConditionFalse ''SecretRefMissing''
               (''spec.runtime.service.tls.enabled=true but secretRef is missing. '' @
                ''Set secretRef.name to a Secret containing tls.crt / tls.key / ca.crt.'') p, False)
          else
            (prov_cond env ''TLSConfigured'' ConditionTrue ''Enabled''
               (''TLS enabled; using Secret '' @ [CHR 0x22] @ tl_SecretRef t @ [CHR 0x22]) p, True))"

section \<open>Names, labels and ports\<close>

definition getDeploymentName :: "provider_cr \<Rightarrow> string" where
  "getDeploymentName p = ''virtrigaud-provider-'' @ pk_ns p @ ''-'' @ pk_name p"

definition getServiceName :: "provider_cr \<Rightarrow> string" where
  "getServiceName p = ''virtrigaud-provider-'' @ pk_ns p @ ''-'' @ pk_name p"

definition grpc_port :: "runtime_spec \<Rightarrow> int" where
  "grpc_port rt = (case ru_Service rt of None \<Rightarrow> 9443 | Some sv \<Rightarrow> if sv_Port sv \<noteq> 0 then sv_Port sv else 9443)"

definition provider_labels :: "provider_cr \<Rightarrow> string \<rightharpoonup> string" where
  "provider_labels p =
     [''app.kubernetes.io/name'' \<mapsto> ''virtrigaud-provider'', ''app.kubernetes.io/instance'' \<mapsto> pk_name p,
      ''app.kubernetes.io/component'' \<mapsto> ''provider'', ''app.kubernetes.io/managed-by'' \<mapsto> ''virtrigaud'',
      ''virtrigaud.io/provider-type'' \<mapsto> pk_Type p]"

definition provider_selector :: "provider_cr \<Rightarrow> string \<rightharpoonup> string" where
  "provider_selector p =
     [''app.kubernetes.io/name'' \<mapsto> ''virtrigaud-provider'', ''app.kubernetes.io/instance'' \<mapsto> pk_name p]"

section \<open>Migration claims\<close>

definition migration_pvcs :: "prov_env \<Rightarrow> string \<Rightarrow> nat \<Rightarrow> pvc list result" where
  "migration_pvcs env ns n =
     map_sum id (filter (\<lambda>c. md_namespace (pc_meta c) = ns \<and>
       md_labels (pc_meta c) ''virtrigaud.io/component'' = Some ''migration-storage'')) (pe_pvcs env n)"

definition migrationPVCIsMountable :: "pvc \<Rightarrow> bool" where
  "migrationPVCIsMountable c \<longleftrightarrow> \<not> md_deleting (pc_meta c)"

definition discoverMigrationPVCs :: "prov_env \<Rightarrow> string \<Rightarrow> prov_state \<Rightarrow> prov_state \<times> pod_volume list" where
  "discoverMigrationPVCs env ns s =
     (case prov_read (migration_pvcs env ns) s of
        (s1, Inl e) \<Rightarrow> (s1, [])
      | (s1, Inr cs) \<Rightarrow>
          (s1, map (\<lambda>c. \<lparr>vq_Name = ''migration-'' @ md_name (pc_meta c), vq_Source = ClaimSource (md_name (pc_meta c))\<rparr>)
                 (filter migrationPVCIsMountable cs)))"

definition discoverMigrationVolumeMounts :: "prov_env \<Rightarrow> string \<Rightarrow> prov_state \<Rightarrow> prov_state \<times> volume_mount list" where
  "discoverMigrationVolumeMounts env ns s =
     (case prov_read (migration_pvcs env ns) s of
        (s1, Inl e) \<Rightarrow> (s1, [])
      | (s1, Inr cs) \<Rightarrow>
          (s1, map (\<lambda>c. \<lparr>mn_Name = ''migration-'' @ md_name (pc_meta c),
                         mn_MountPath = ''/mnt/migration-storage/'' @ md_name (pc_meta c), mn_ReadOnly = False\<rparr>)
                 (filter migrationPVCIsMountable cs)))"

definition providersForMigrationPVC :: "prov_env \<Rightarrow> object_meta \<Rightarrow> prov_state \<Rightarrow> prov_state \<times> nn list" where
  "providersForMigrationPVC env obj s =
     (if md_labels obj ''virtrigaud.io/component'' \<noteq> Some ''migration-storage'' then (s, [])
      else case prov_read (pe_providers env) s of
        (s1, Inl e) \<Rightarrow> (s1, [])
      | (s1, Inr ps) \<Rightarrow> (s1, map (\<lambda>p. (pk_ns p, pk_name p)) (filter (\<lambda>p. pk_ns p = md_namespace obj) ps)))"

section \<open>Pod template\<close>

definition opt_env :: "string \<Rightarrow> string \<Rightarrow> env_var list" where
  "opt_env name v = (if v = '''' then [] else [\<lparr>en_Name = name, en_Value = EnvLiteral v\<rparr>])"

definition base_env :: "provider_cr \<Rightarrow> env_var list" where
  "base_env p =
     [\<lparr>en_Name = ''PROVIDER_TYPE'', en_Value = EnvLiteral (pk_Type p)\<rparr>,
      \<lparr>en_Name = ''PROVIDER_ENDPOINT'', en_Value = EnvLiteral (pk_Endpoint p)\<rparr>,
      \<lparr>en_Name = ''PROVIDER_NAMESPACE'', en_Value = EnvField ''metadata.namespace''\<rparr>,
      \<lparr>en_Name = ''PROVIDER_NAME'',
       en_Value = EnvField (''metadata.labels['' @ [CHR 0x27] @ ''app.kubernetes.io/instance'' @ [CHR 0x27] @ '']'')\<rparr>,
      \<lparr>en_Name = ''TLS_ENABLED'', en_Value = EnvLiteral (go_bool (providerTLSEnabled p))\<rparr>] @
     (if providerTLSEnabled p then []
      else [\<lparr>en_Name = ''VIRTRIGAUD_PROVIDER_INSECURE'', en_Value = EnvLiteral ''true''\<rparr>]) @
     [\<lparr>en_Name = ''TLS_INSECURE_SKIP_VERIFY'', en_Value = EnvLiteral (go_bool (pk_InsecureSkipVerify p))\<rparr>]"

definition default_env :: "provider_cr \<Rightarrow> env_var list" where
  "default_env p =
     (case pk_Defaults p of
        None \<Rightarrow> []
      | Some d \<Rightarrow>
          opt_env ''PROVIDER_DEFAULT_DATASTORE'' (df_Datastore d) @ opt_env ''PROVIDER_DEFAULT_STORAGE_POD'' (df_StoragePod d) @
          opt_env ''PROVIDER_DEFAULT_CLUSTER'' (df_Cluster d) @ opt_env ''PROVIDER_DEFAULT_FOLDER'' (df_Folder d))"

definition provider_env_vars :: "provider_cr \<Rightarrow> runtime_spec \<Rightarrow> env_var list" where
  "provider_env_vars p rt =
     base_env p @ opt_env ''LOG_LEVEL'' (ru_LogLevel rt) @ opt_env ''LOG_FORMAT'' (ru_LogFormat rt) @
     default_env p @ ru_Env rt"

definition default_resources :: resource_requirements where
  "default_resources =
     \<lparr>rq_Requests = [(''cpu'', ''100m''), (''memory'', ''128Mi'')], rq_Limits = [(''cpu'', ''1''), (''memory'', ''512Mi'')]\<rparr>"

definition default_security_context :: security_context where
  "default_security_context =
     \<lparr>sx_RunAsNonRoot = Some True, sx_RunAsUser = Some 65532, sx_ReadOnlyRootFilesystem = Some True,
      sx_AllowPrivilegeEscalation = Some False, sx_DropCapabilities = [''ALL'']\<rparr>"

definition provider_mounts :: "provider_cr \<Rightarrow> volume_mount list \<Rightarrow> volume_mount list" where
  "provider_mounts p migrationMounts =
     [\<lparr>mn_Name = ''provider-credentials'', mn_MountPath = ''/etc/virtrigaud/credentials'', mn_ReadOnly = True\<rparr>] @
     (if providerTLSEnabled p
      then [\<lparr>mn_Name = ''provider-tls'', mn_MountPath = ''/etc/virtrigaud/tls'', mn_ReadOnly = True\<rparr>] else []) @
     migrationMounts @
     [\<lparr>mn_Name = ''tmp'', mn_MountPath = ''/tmp'', mn_ReadOnly = False\<rparr>] @
     (if pk_Type p = ''libvirt''
      then [\<lparr>mn_Name = ''libvirt-ssh-key'', mn_MountPath = ''/tmp/virtrigaud-libvirt'', mn_ReadOnly = False\<rparr>] else [])"

definition health_probe :: "int \<Rightarrow> int \<Rightarrow> probe" where
  "health_probe delay period =
     \<lparr>pq_Path = ''/healthz'', pq_Port = 8080, pq_InitialDelay = delay, pq_Period = period\<rparr>"

definition buildProviderContainer ::
  "prov_env \<Rightarrow> provider_cr \<Rightarrow> runtime_spec \<Rightarrow> prov_state \<Rightarrow> prov_state \<times> container" where
  "buildProviderContainer env p rt s =
     (case discoverMigrationVolumeMounts env (pk_ns p) s of (s1, migrationMounts) \<Rightarrow>
        (s1, \<lparr>ct_Name = ''provider'', ct_Image = ru_Image rt,
              ct_ImagePullPolicy = (if ru_ImagePullPolicy rt \<noteq> '''' then ru_ImagePullPolicy rt else ''IfNotPresent''),
              ct_Args = [''--port='' @ show_int (grpc_port rt), ''--health-port=8080''],
              ct_Env = provider_env_vars p rt,
              ct_Resources = (case ru_Resources rt of Some r \<Rightarrow> r | None \<Rightarrow> default_resources),
              ct_VolumeMounts = provider_mounts p migrationMounts,
              ct_SecurityContext = (case ru_SecurityContext rt of Some c \<Rightarrow> c | None \<Rightarrow> default_security_context),
              ct_Ports = [(''grpc'', grpc_port rt), (''metrics'', 8080)],
              ct_Liveness = health_probe 15 20, ct_Readiness = health_probe 5 10,
              ct_PreStop = [''/bin/sh'', ''-c'', ''sleep 15'']\<rparr>))"

text \<open>
  With TLS enabled the name of the secret reference is read; \<open>evaluateTLSPosture\<close> has checked that there
  is one, so the nil dereference of the source is not reachable.
\<close>

definition buildPodVolumes :: "prov_env \<Rightarrow> provider_cr \<Rightarrow> prov_state \<Rightarrow> prov_state \<times> pod_volume list" where
  "buildPodVolumes env p s =
     (case discoverMigrationPVCs env (pk_ns p) s of (s1, migrationVolumes) \<Rightarrow>
        (s1,
         [\<lparr>vq_Name = ''provider-credentials'', vq_Source = SecretSource (pk_CredentialSecret p)\<rparr>] @
         (case tls_block p of
            Some t \<Rightarrow> if tl_Enabled t then [\<lparr>vq_Name = ''provider-tls'', vq_Source = SecretSource (tl_SecretRef t)\<rparr>] else []
          | None \<Rightarrow> []) @
         migrationVolumes @
         [\<lparr>vq_Name = ''tmp'', vq_Source = EmptyDirSource '''' None\<rparr>] @
         (if pk_Type p = ''libvirt''
          then [\<lparr>vq_Name = ''libvirt-ssh-key'', vq_Source = EmptyDirSource ''Memory'' (Some ''4Mi'')\<rparr>] else [])))"

section \<open>Service and Deployment\<close>

definition desired_service :: "provider_cr \<Rightarrow> runtime_spec \<Rightarrow> string \<Rightarrow> kube_service" where
  "desired_service p rt serviceName =
     \<lparr>ks_Name = serviceName, ks_Namespace = pk_ns p, ks_Labels = provider_labels p, ks_Owner = Some (md_uid (pk_meta p)),
      ks_Type = ''ClusterIP'', ks_Selector = provider_selector p,
      ks_Ports = [(''grpc'', grpc_port rt, grpc_port rt), (''metrics'', 8080, 8080)]\<rparr>"

definition reconcileService ::
  "prov_env \<Rightarrow> provider_cr \<Rightarrow> runtime_spec \<Rightarrow> string \<Rightarrow> prov_state \<Rightarrow> prov_state \<times> kube_service result" where
  "reconcileService env p rt serviceName s =
     (let desired = desired_service p rt serviceName in
      case pe_owner_err env of
        Some e \<Rightarrow> (s, Inl (WrapError ''failed to set controller reference: '' e))
      | None \<Rightarrow>
          (case prov_read (\<lambda>n. pe_get_service env n (pk_ns p, serviceName)) s of
             (s1, Inl e) \<Rightarrow>
               if api_is_not_found e then
                 (case prov_put env (PwCreateService desired) s1 of
                    (s2, Some ce) \<Rightarrow> (s2, Inl (WrapError ''failed to create service: '' ce))
                  | (s2, None) \<Rightarrow> (s2, Inr desired))
               else (s1, Inl (WrapError ''failed to get service: '' e))
           | (s1, Inr existing) \<Rightarrow>
               let updated = existing\<lparr>ks_Ports := ks_Ports desired, ks_Labels := ks_Labels desired\<rparr> in
               (case prov_put env (PwUpdateService updated) s1 of
                  (s2, Some ue) \<Rightarrow> (s2, Inl (WrapError ''failed to update service: '' ue))
                | (s2, None) \<Rightarrow> (s2, Inr updated))))"

definition desired_deployment ::
  "provider_cr \<Rightarrow> runtime_spec \<Rightarrow> string \<Rightarrow> container \<Rightarrow> pod_volume list \<Rightarrow> kube_deployment" where
  "desired_deployment p rt deploymentName c vols =
     \<lparr>kd_Name = deploymentName, kd_Namespace = pk_ns p, kd_Labels = provider_labels p,
      kd_Owner = Some (md_uid (pk_meta p)),
      kd_Replicas = Some (case ru_Replicas rt of Some n \<Rightarrow> n | None \<Rightarrow> 1), kd_Selector = provider_selector p,
      kd_Template =
        \<lparr>tp_Labels = provider_labels p, tp_Containers = [c], tp_Volumes = vols, tp_NodeSelector = ru_NodeSelector rt,
         tp_Tolerations = ru_Tolerations rt, tp_Affinity = ru_Affinity rt, tp_RestartPolicy = ''Always'',
         tp_GracePeriod = 30\<rparr>,
      kd_UpdatedReplicas = 0, kd_ReadyReplicas = 0\<rparr>"

text \<open>One attempt of the update: read the Deployment again, replace the three fields, write it.\<close>

definition update_deployment ::
  "prov_env \<Rightarrow> nn \<Rightarrow> kube_deployment \<Rightarrow> prov_state \<Rightarrow> prov_state \<times> kube_deployment result" where
  "update_deployment env key desired s =
     (case prov_read (\<lambda>n. pe_get_deployment env n key) s of
        (s1, Inl e) \<Rightarrow> (s1, Inl e)
      | (s1, Inr existing) \<Rightarrow>
          let updated = existing\<lparr>kd_Replicas := kd_Replicas desired, kd_Template := kd_Template desired,
                                 kd_Labels := kd_Labels desired\<rparr> in
          (case prov_put env (PwUpdateDeployment updated) s1 of
             (s2, Some ue) \<Rightarrow> (s2, Inl ue)
           | (s2, None) \<Rightarrow> (s2, Inr updated)))"

definition reconcileDeployment ::
  "prov_env \<Rightarrow> provider_cr \<Rightarrow> runtime_spec \<Rightarrow> string \<Rightarrow> prov_state \<Rightarrow> prov_state \<times> kube_deployment result" where
  "reconcileDeployment env p rt deploymentName s =
     (case buildProviderContainer env p rt s of (s1, c) \<Rightarrow>
      case buildPodVolumes env p s1 of (s2, vols) \<Rightarrow>
      let desired = desired_deployment p rt deploymentName c vols; key = (pk_ns p, deploymentName) in
      case pe_owner_err env of
        Some e \<Rightarrow> (s2, Inl (WrapError ''failed to set controller reference: '' e))
      | None \<Rightarrow>
          (case prov_read (\<lambda>n. pe_get_deployment env n key) s2 of
             (s3, Inl e) \<Rightarrow>
               if api_is_not_found e then
                 (case prov_put env (PwCreateDeployment desired) s3 of
                    (s4, Some ce) \<Rightarrow> (s4, Inl (WrapError ''failed to create deployment: '' ce))
                  | (s4, None) \<Rightarrow> (s4, Inr desired))
               else (s3, Inl (WrapError ''failed to get deployment: '' e))
           | (s3, Inr _) \<Rightarrow>
               (case retry_on_conflict (pe_retry_steps env) (update_deployment env key desired) s3 of
                  (s4, Inl e) \<Rightarrow> (s4, Inl (WrapError ''failed to update deployment: '' e))
                | (s4, Inr d) \<Rightarrow> (s4, Inr d))))"

section \<open>Runtime\<close>

text \<open>The last part of \<^verbatim>\<open>reconcileRemoteRuntime\<close>: endpoint, phase and conditions from what was written.\<close>

definition record_runtime ::
  "prov_env \<Rightarrow> runtime_spec \<Rightarrow> kube_service \<Rightarrow> kube_deployment \<Rightarrow> provider_cr \<Rightarrow> provider_cr \<times> go_error outcome" where
  "record_runtime env rt svc d p =
     (let p1 = set_runtime (\<lambda>r. r\<lparr>rs_Endpoint := ks_Name svc @ ''.'' @ pk_ns p @ ''.svc.cluster.local:'' @ show_int (grpc_port rt),
                                  rs_ServiceRef := Some (ks_Name svc)\<rparr>) p in
      if kd_ReadyReplicas d > 0 then
        (prov_cond env ''ProviderAvailable'' ConditionTrue ''RemoteAvailable'' ''Remote provider is available''
           (prov_cond env ''ProviderRuntimeReady'' ConditionTrue ''DeploymentReady''
              (''Deployment has '' @ show_int (kd_ReadyReplicas d) @ '' ready replicas'')
              (set_runtime (\<lambda>r. r\<lparr>rs_Phase := ''Running'', rs_Message := ''Remote provider runtime is ready''\<rparr>) p1)),
         done_result)
      else
        (prov_cond env ''ProviderRuntimeReady'' ConditionFalse ''DeploymentNotReady'' ''Deployment pods are not ready yet''
           (set_runtime (\<lambda>r. r\<lparr>rs_Phase := ''Pending'', rs_Message := ''Waiting for deployment to be ready''\<rparr>) p1),
         requeue_in (30 * second)))"

definition minute_error :: "go_error \<Rightarrow> go_error outcome" where
  "minute_error e = \<lparr>requeue = False, requeue_after = minute, ret_err = Some e\<rparr>"

definition reconcileRemoteRuntime ::
  "prov_env \<Rightarrow> provider_cr \<Rightarrow> runtime_spec \<Rightarrow> prov_state \<Rightarrow> prov_state \<times> provider_cr \<times> go_error outcome" where
  "reconcileRemoteRuntime env p rt s =
     (case validateRemoteRuntimeSpec p of
        Some e \<Rightarrow> (s, runtime_failed env ''InvalidConfiguration'' (error_string e) (error_string e) p, minute_error e)
      | None \<Rightarrow>
          (case evaluateTLSPosture env p of
             (p1, False) \<Rightarrow>
               (s, runtime_failed env ''TLSNotConfigured'' ''Refusing to deploy provider runtime without an explicit TLS decision''
                     ''TLS configuration required (see TLSConfigured Condition)'' p1, requeue_in minute)
           | (p1, True) \<Rightarrow>
               (case reconcileService env p1 rt (getServiceName p1) s of
                  (s1, Inl e) \<Rightarrow>
                    (s1, runtime_failed env ''ServiceError'' (''Failed to create service: '' @ error_string e) (error_string e) p1,
                     minute_error e)
                | (s1, Inr svc) \<Rightarrow>
                    (case reconcileDeployment env p1 rt (getDeploymentName p1) s1 of
                       (s2, Inl e) \<Rightarrow>
                         (s2, runtime_failed env ''DeploymentError'' (''Failed to create deployment: '' @ error_string e)
                                (error_string e) p1, minute_error e)
                     | (s2, Inr d) \<Rightarrow> (s2, record_runtime env rt svc d p1)))))"

section \<open>Capabilities and machines\<close>

definition capabilitiesToReported :: "capabilities \<Rightarrow> reported_capabilities" where
  "capabilitiesToReported c =
     \<lparr>rp_SupportsReconfigureOnline = cap_SupportsReconfigureOnline c,
      rp_SupportsDiskExpansionOnline = cap_SupportsDiskExpansionOnline c,
      rp_SupportsSnapshots = cap_SupportsSnapshots c, rp_SupportsMemorySnapshots = cap_SupportsMemorySnapshots c,
      rp_SupportsLinkedClones = cap_SupportsLinkedClones c, rp_SupportsImageImport = cap_SupportsImageImport c,
      rp_SupportedDiskTypes = cap_SupportedDiskTypes c, rp_SupportedNetworkTypes = cap_SupportedNetworkTypes c,
      rp_SupportsDiskExport = cap_SupportsDiskExport c, rp_SupportsDiskImport = cap_SupportsDiskImport c,
      rp_SupportedExportFormats = cap_SupportedExportFormats c, rp_SupportedImportFormats = cap_SupportedImportFormats c,
      rp_SupportsExportCompression = cap_SupportsExportCompression c,
      rp_SupportedExportBackends = cap_SupportedExportBackends c, rp_SupportedImportBackends = cap_SupportedImportBackends c,
      rp_SupportedTransferModes = cap_SupportedTransferModes c\<rparr>"

definition no_capabilities :: "prov_env \<Rightarrow> string \<Rightarrow> provider_cr \<Rightarrow> provider_cr" where
  "no_capabilities env msg = prov_cond env ''CapabilitiesReported'' ConditionFalse ''CapabilitiesUnavailable'' msg"

definition reconcileReportedCapabilities :: "prov_env \<Rightarrow> provider_cr \<Rightarrow> provider_cr" where
  "reconcileReportedCapabilities env p =
     (case pe_resolver env of
        None \<Rightarrow> no_capabilities env ''No remote resolver configured'' p
      | Some resolve \<Rightarrow>
          (case resolve (remote_of p) of
             Inl e \<Rightarrow> no_capabilities env (''Failed to resolve provider: '' @ error_string e) p
           | Inr inst \<Rightarrow>
               (case pi_GetCapabilities inst of
                  None \<Rightarrow> no_capabilities env ''Provider does not report capabilities'' p
                | Some (Inl e) \<Rightarrow> no_capabilities env (''GetCapabilities RPC failed: '' @ error_string e) p
                | Some (Inr caps) \<Rightarrow>
                    prov_cond env ''CapabilitiesReported'' ConditionTrue ''CapabilitiesFetched'' ''Provider capabilities reported''
                      (p\<lparr>pk_status := (pk_status p)\<lparr>ps_ReportedCapabilities := Some (capabilitiesToReported caps)\<rparr>\<rparr>))))"

definition countConnectedVMs :: "prov_env \<Rightarrow> provider_cr \<Rightarrow> prov_state \<Rightarrow> prov_state \<times> int result" where
  "countConnectedVMs env p s =
     (case prov_read (pe_vms env) s of
        (s1, Inl e) \<Rightarrow> (s1, Inl (WrapError ''failed to list VirtualMachines: '' e))
      | (s1, Inr vms) \<Rightarrow>
          (s1, Inr (wrap32 (int (length (filter (\<lambda>vm. ref_key (vs_ProviderRef (vm_spec vm)) (vm_ns vm) = (pk_ns p, pk_name p)) vms))))))"

section \<open>Reconcile\<close>

definition cleanupRemoteRuntime :: "prov_env \<Rightarrow> provider_cr \<Rightarrow> prov_state \<Rightarrow> prov_state \<times> go_error option" where
  "cleanupRemoteRuntime env p s =
     (case prov_put env (PwDeleteDeployment (pk_ns p, getDeploymentName p)) s of (s1, e1) \<Rightarrow>
      case Option.bind e1 ignore_not_found of
        Some e \<Rightarrow> (s1, Some (WrapError ''failed to delete deployment: '' e))
      | None \<Rightarrow>
          (case prov_put env (PwDeleteService (pk_ns p, getServiceName p)) s1 of (s2, e2) \<Rightarrow>
           case Option.bind e2 ignore_not_found of
             Some e \<Rightarrow> (s2, Some (WrapError ''failed to delete service: '' e))
           | None \<Rightarrow> (s2, None)))"

definition Prov_handleDeletion :: "prov_env \<Rightarrow> provider_cr \<Rightarrow> prov_state \<Rightarrow> prov_state \<times> go_error outcome" where
  "Prov_handleDeletion env p s =
     (case cleanupRemoteRuntime env p s of
        (s1, Some e) \<Rightarrow> (s1, minute_error e)
      | (s1, None) \<Rightarrow> (s1, done_result))"

text \<open>What \<^verbatim>\<open>Reconcile\<close> derives from the conditions once the runtime has been handled.\<close>

definition derive_health :: "prov_env \<Rightarrow> provider_cr \<Rightarrow> provider_cr" where
  "derive_health env p =
     (let healthy = IsConditionTrue (ps_Conditions (pk_status p)) ''ProviderAvailable'' in
      p\<lparr>pk_status := (pk_status p)\<lparr>ps_Healthy := healthy,
          ps_LastHealthCheck := (if healthy then Some (pe_now env) else ps_LastHealthCheck (pk_status p))\<rparr>\<rparr>)"

definition runtime_running :: "provider_cr \<Rightarrow> bool" where
  "runtime_running p \<longleftrightarrow>
     (case ps_Runtime (pk_status p) of None \<Rightarrow> False | Some r \<Rightarrow> rs_Phase r = ''Running'')"

text \<open>One attempt of the final write: the latest object with the status in hand.\<close>

definition write_status_attempt :: "prov_env \<Rightarrow> provider_cr \<Rightarrow> prov_state \<Rightarrow> prov_state \<times> unit result" where
  "write_status_attempt env p s =
     (case prov_read (\<lambda>n. pe_get_provider env n (pk_ns p, pk_name p)) s of
        (s1, Inl e) \<Rightarrow> (s1, Inl e)
      | (s1, Inr latest) \<Rightarrow>
          (case prov_put env (PwStatus (latest\<lparr>pk_status := pk_status p\<rparr>)) s1 of
             (s2, Some e) \<Rightarrow> (s2, Inl e)
           | (s2, None) \<Rightarrow> (s2, Inr ())))"

definition observe_generation :: "provider_cr \<Rightarrow> provider_cr" where
  "observe_generation p = p\<lparr>pk_status := (pk_status p)\<lparr>ps_ObservedGeneration := md_generation (pk_meta p)\<rparr>\<rparr>"

text \<open>The status in hand after \<^verbatim>\<open>reconcileRemoteRuntime\<close>: count, health, capabilities, generation.\<close>

definition complete_status :: "prov_env \<Rightarrow> int result \<Rightarrow> provider_cr \<Rightarrow> provider_cr" where
  "complete_status env count p =
     (let p1 = (case count of Inl e \<Rightarrow> p | Inr n \<Rightarrow> p\<lparr>pk_status := (pk_status p)\<lparr>ps_ConnectedVMs := n\<rparr>\<rparr>);
          p2 = derive_health env p1
      in observe_generation
           (if ps_Healthy (pk_status p2) \<and> runtime_running p2 then reconcileReportedCapabilities env p2 else p2))"

definition finish_reconcile ::
  "prov_env \<Rightarrow> provider_cr \<Rightarrow> go_error outcome \<Rightarrow> prov_state \<Rightarrow> prov_state \<times> go_error outcome" where
  "finish_reconcile env p res s =
     (case countConnectedVMs env p s of (s1, count) \<Rightarrow>
      case retry_on_conflict (pe_retry_steps env) (write_status_attempt env (complete_status env count p)) s1 of
        (s2, Inl e) \<Rightarrow> (s2, case ret_err res of None \<Rightarrow> res\<lparr>ret_err := Some e\<rparr> | Some _ \<Rightarrow> res)
      | (s2, Inr _) \<Rightarrow> (s2, res))"

definition start_runtime_status :: "provider_cr \<Rightarrow> provider_cr" where
  "start_runtime_status p =
     p\<lparr>pk_status := (pk_status p)\<lparr>ps_Runtime := Some (case ps_Runtime (pk_status p) of Some r \<Rightarrow> r
         | None \<Rightarrow> \<lparr>rs_Endpoint = '''', rs_Phase = '''', rs_Mode = '''', rs_ServiceRef = None, rs_Message = ''''\<rparr>)\<rparr>\<rparr>"

definition Prov_Reconcile :: "prov_env \<Rightarrow> nn \<Rightarrow> prov_state \<Rightarrow> prov_state \<times> go_error outcome" where
  "Prov_Reconcile env key s =
     (case prov_read (\<lambda>n. pe_get_provider env n key) s of
        (s1, Inl e) \<Rightarrow> (s1, if api_is_not_found e then done_result else fail_with e)
      | (s1, Inr p0) \<Rightarrow>
          if md_deleting (pk_meta p0) then Prov_handleDeletion env p0 s1
          else let p = start_runtime_status p0 in
            case pk_Runtime p of
              None \<Rightarrow>
                let err = PlainError ''runtime configuration is required'';
                    p1 = observe_generation (prov_cond env ''ProviderRuntimeReady'' ConditionFalse ''MissingRuntime'' (error_string err) p)
                in (fst (prov_put env (PwStatus p1) s1), fail_with err)
            | Some rt \<Rightarrow>
                (case reconcileRemoteRuntime env (set_runtime (\<lambda>r. r\<lparr>rs_Mode := ''Remote''\<rparr>) p) rt s1 of
                   (s2, p2, res) \<Rightarrow> finish_reconcile env p2 res s2))"

end
