(* ===== verification/SdkTls.thy ===== *)
theory SdkTls
  imports ProviderErrors
begin

text \<open>
  How a provider process decides its transport security
  (\<^verbatim>\<open>sdk/provider/server/tlsconfig.go\<close>). The files and the environment variables of the process are
  arguments: \<open>exists\<close> says which paths are regular files, \<open>getenv\<close> gives the empty string for an unset
  variable.
\<close>

definition ProviderTLSMountPath :: string where "ProviderTLSMountPath = ''/etc/virtrigaud/tls''"
definition ProviderTLSCertFile :: string where "ProviderTLSCertFile = ProviderTLSMountPath @ ''/tls.crt''"
definition ProviderTLSKeyFile :: string where "ProviderTLSKeyFile = ProviderTLSMountPath @ ''/tls.key''"
definition ProviderTLSCAFile :: string where "ProviderTLSCAFile = ProviderTLSMountPath @ ''/ca.crt''"
definition EnvAllowedSANs :: string where "EnvAllowedSANs = ''VIRTRIGAUD_PROVIDER_ALLOWED_SANS''"
definition EnvInsecure :: string where "EnvInsecure = ''VIRTRIGAUD_PROVIDER_INSECURE''"

definition ErrInsecureModeOptedIn :: go_error where
  "ErrInsecureModeOptedIn = PlainError ''provider started in plaintext mode (VIRTRIGAUD_PROVIDER_INSECURE=true)''"

record server_tls =
  sl_CertFile :: string
  sl_KeyFile :: string
  sl_CAFile :: string
  sl_RequireClientCert :: bool
  sl_AutoReload :: bool

record auth_config =
  ac_RequireTLS :: bool
  ac_AllowedSANs :: "string list"

record tls_resolution =
  tr_TLS :: "server_tls option"
  tr_Auth :: auth_config
  tr_Insecure :: bool

definition parseAllowedSANs :: "string \<Rightarrow> string list" where
  "parseAllowedSANs raw =
     (if raw = '''' then [] else filter (\<lambda>t. t \<noteq> '''') (map trim_space (split_on CHR '','' raw)))"

text \<open>\<^verbatim>\<open>strings.EqualFold(s, "true")\<close>: no letter of the word has a fold outside ASCII.\<close>

definition equal_fold_true :: "string \<Rightarrow> bool" where
  "equal_fold_true s \<longleftrightarrow> list_all2 (\<lambda>c (a, b). c = a \<or> c = b) s (zip ''true'' ''TRUE'')"

definition isInsecureOptedIn :: "(string \<Rightarrow> string) \<Rightarrow> bool" where
  "isInsecureOptedIn getenv = equal_fold_true (trim_space (getenv EnvInsecure))"

definition missing_files :: "(string \<Rightarrow> bool) \<Rightarrow> string list" where
  "missing_files exists =
     filter (\<lambda>f. \<not> exists f) [ProviderTLSCertFile, ProviderTLSKeyFile, ProviderTLSCAFile]"

definition join_comma :: "string list \<Rightarrow> string" where
  "join_comma xs = concat (case xs of [] \<Rightarrow> [] | x # rest \<Rightarrow> x # map (\<lambda>y. '', '' @ y) rest)"

text \<open>The pair of a resolution and an error, as the function returns it.\<close>

definition ResolveTLSAndAuth ::
  "(string \<Rightarrow> bool) \<Rightarrow> (string \<Rightarrow> string) \<Rightarrow> tls_resolution option \<times> go_error option" where
  "ResolveTLSAndAuth exists getenv =
     (let certExists = exists ProviderTLSCertFile; keyExists = exists ProviderTLSKeyFile;
          caExists = exists ProviderTLSCAFile;
          allFilesPresent = (certExists \<and> keyExists \<and> caExists);
          allFilesAbsent = (\<not> certExists \<and> \<not> keyExists \<and> \<not> caExists);
          allowedSANs = parseAllowedSANs (getenv EnvAllowedSANs)
      in if allFilesPresent then
           (Some \<lparr>tr_TLS = Some \<lparr>sl_CertFile = ProviderTLSCertFile, sl_KeyFile = ProviderTLSKeyFile,
                    sl_CAFile = ProviderTLSCAFile, sl_RequireClientCert = True, sl_AutoReload = True\<rparr>,
                  tr_Auth = \<lparr>ac_RequireTLS = True, ac_AllowedSANs = allowedSANs\<rparr>, tr_Insecure = False\<rparr>, None)
         else if allFilesAbsent \<and> isInsecureOptedIn getenv then
           (Some \<lparr>tr_TLS = None, tr_Auth = \<lparr>ac_RequireTLS = False, ac_AllowedSANs = []\<rparr>, tr_Insecure = True\<rparr>,
            Some ErrInsecureModeOptedIn)
         else if allFilesAbsent then
           (None, Some (PlainError (''TLS material missing at '' @ ProviderTLSMountPath @ '' and '' @ EnvInsecure @
              '' is not set to '' @ [CHR 0x22] @ ''true'' @ [CHR 0x22] @ ''; either provision '' @ ProviderTLSMountPath @
              ''/{tls.crt,tls.key,ca.crt} or set '' @ EnvInsecure @ ''=true to opt into plaintext (audit-flagged)'')))
         else
           (None, Some (PlainError (''TLS material partially present; missing required files: '' @
              join_comma (missing_files exists)))))"

end
