(* ===== verification/ProviderProps.thy ===== *)
theory ProviderProps
  imports ProviderCtl SdkTls
begin

text \<open>
  What the Provider controller writes: the effects of a reconcile against the specification
  \<open>permitted\<close>, the well-formedness of the pod template, the agreement of the pod's transport security
  with the manager's, and what becomes of the availability condition.
\<close>

section \<open>Effects\<close>

text \<open>Everything but the status is left alone by the status helpers.\<close>

definition same_spec :: "provider_cr \<Rightarrow> provider_cr \<Rightarrow> bool" where
  "same_spec p q \<longleftrightarrow> (\<exists>st. q = p\<lparr>pk_status := st\<rparr>)"

lemma same_spec_refl [simp]: "same_spec p p"
  unfolding same_spec_def by (rule exI [of _ "pk_status p"]) simp

lemma same_spec_trans: "same_spec p q \<Longrightarrow> same_spec q r \<Longrightarrow> same_spec p r"
  by (auto simp: same_spec_def)

lemma same_spec_fields:
  "same_spec p q \<Longrightarrow> pk_meta q = pk_meta p \<and> pk_Runtime q = pk_Runtime p \<and> tls_block q = tls_block p"
  by (auto simp: same_spec_def tls_block_def)

lemma same_spec_update [simp]: "same_spec p (p\<lparr>pk_status := st\<rparr>)"
  by (auto simp: same_spec_def)

lemma same_spec_set [simp]:
  "same_spec p (prov_cond env ty st rs msg q) \<longleftrightarrow> same_spec p q"
  "same_spec p (set_runtime f q) \<longleftrightarrow> same_spec p q"
  "same_spec p (start_runtime_status q) \<longleftrightarrow> same_spec p q"
  "same_spec p (observe_generation q) \<longleftrightarrow> same_spec p q"
  "same_spec p (derive_health env q) \<longleftrightarrow> same_spec p q"
proof -
  have upd: "same_spec p (q\<lparr>pk_status := st\<rparr>) \<longleftrightarrow> same_spec p q" for st
    unfolding same_spec_def
    by (metis (no_types, lifting) provider_cr.surjective provider_cr.update_convs(8))
  show "same_spec p (prov_cond env ty st rs msg q) \<longleftrightarrow> same_spec p q" "same_spec p (set_runtime f q) \<longleftrightarrow> same_spec p q"
    "same_spec p (start_runtime_status q) \<longleftrightarrow> same_spec p q" "same_spec p (observe_generation q) \<longleftrightarrow> same_spec p q"
    "same_spec p (derive_health env q) \<longleftrightarrow> same_spec p q"
    by (simp_all add: prov_cond_def set_runtime_def start_runtime_status_def observe_generation_def derive_health_def Let_def upd)
qed

lemma prov_read_eq [simp]: "prov_read f s = (s', r) \<longleftrightarrow> s' = s\<lparr>pn_ops := Suc (pn_ops s)\<rparr> \<and> r = f (pn_ops s)"
  by (auto simp: prov_read_def)

text \<open>The pod template rendered from a Provider when the claims are listed by the reads \<open>n\<close> and \<open>n + 1\<close>.\<close>

definition container_at :: "prov_env \<Rightarrow> provider_cr \<Rightarrow> runtime_spec \<Rightarrow> nat \<Rightarrow> container" where
  "container_at env p rt n = snd (buildProviderContainer env p rt \<lparr>pn_ops = n, pn_log = []\<rparr>)"

definition volumes_at :: "prov_env \<Rightarrow> provider_cr \<Rightarrow> nat \<Rightarrow> pod_volume list" where
  "volumes_at env p n = snd (buildPodVolumes env p \<lparr>pn_ops = n, pn_log = []\<rparr>)"

definition template_at :: "prov_env \<Rightarrow> provider_cr \<Rightarrow> runtime_spec \<Rightarrow> nat \<Rightarrow> pod_template" where
  "template_at env p rt n = kd_Template (desired_deployment p rt '''' (container_at env p rt n) (volumes_at env p (Suc n)))"

lemma build_ops:
  "buildProviderContainer env p rt s = (s\<lparr>pn_ops := Suc (pn_ops s)\<rparr>, container_at env p rt (pn_ops s))"
  "buildPodVolumes env p s = (s\<lparr>pn_ops := Suc (pn_ops s)\<rparr>, volumes_at env p (pn_ops s))"
  by (simp_all add: buildProviderContainer_def buildPodVolumes_def container_at_def volumes_at_def
      discoverMigrationPVCs_def discoverMigrationVolumeMounts_def prov_read_def split: sum.splits)

lemma template_at_eq:
  "kd_Template (desired_deployment p rt name (container_at env p rt n) (volumes_at env p (Suc n))) = template_at env p rt n"
  by (simp add: template_at_def desired_deployment_def)

lemma render_status:
  "template_at env (p\<lparr>pk_status := st\<rparr>) rt n = template_at env p rt n"
  "desired_service (p\<lparr>pk_status := st\<rparr>) rt name = desired_service p rt name"
  "provider_labels (p\<lparr>pk_status := st\<rparr>) = provider_labels p"
  "getServiceName (p\<lparr>pk_status := st\<rparr>) = getServiceName p"
  "getDeploymentName (p\<lparr>pk_status := st\<rparr>) = getDeploymentName p"
  by (simp_all add: template_at_def container_at_def volumes_at_def buildProviderContainer_def buildPodVolumes_def
      desired_deployment_def desired_service_def provider_labels_def provider_selector_def provider_mounts_def
      provider_env_vars_def base_env_def default_env_def providerTLSEnabled_def tls_block_def
      getServiceName_def getDeploymentName_def split: prod.splits)

text \<open>
  The specification of a reconcile's writes. A Service or a Deployment is written for a live Provider with
  an image and an explicit TLS decision only, and it is the one rendered from the object that was read;
  the runtime is deleted for a Provider under deletion only.
\<close>

definition tls_decided :: "provider_cr \<Rightarrow> bool" where
  "tls_decided p \<longleftrightarrow> (case tls_block p of None \<Rightarrow> False | Some t \<Rightarrow> tl_Enabled t \<longrightarrow> tl_SecretRef t \<noteq> '''')"

definition deployable :: "provider_cr \<Rightarrow> runtime_spec \<Rightarrow> bool" where
  "deployable p rt \<longleftrightarrow> \<not> md_deleting (pk_meta p) \<and> pk_Runtime p = Some rt \<and> ru_Image rt \<noteq> '''' \<and> tls_decided p"

fun permitted :: "prov_env \<Rightarrow> provider_cr \<Rightarrow> prov_write \<Rightarrow> bool" where
  "permitted env p (PwCreateService v) \<longleftrightarrow> (\<exists>rt. deployable p rt \<and> v = desired_service p rt (getServiceName p))"
| "permitted env p (PwUpdateService v) \<longleftrightarrow>
     (\<exists>rt old n. deployable p rt \<and> pe_get_service env n (pk_ns p, getServiceName p) = Inr old \<and>
        v = old\<lparr>ks_Ports := ks_Ports (desired_service p rt (getServiceName p)), ks_Labels := provider_labels p\<rparr>)"
| "permitted env p (PwCreateDeployment d) \<longleftrightarrow>
     (\<exists>rt n. deployable p rt \<and> kd_Name d = getDeploymentName p \<and> kd_Template d = template_at env p rt n)"
| "permitted env p (PwUpdateDeployment d) \<longleftrightarrow>
     (\<exists>rt n m old. deployable p rt \<and> pe_get_deployment env m (pk_ns p, getDeploymentName p) = Inr old \<and>
        d = old\<lparr>kd_Replicas := kd_Replicas d, kd_Template := template_at env p rt n, kd_Labels := provider_labels p\<rparr>)"
| "permitted env p (PwDeleteDeployment key) \<longleftrightarrow> md_deleting (pk_meta p) \<and> key = (pk_ns p, getDeploymentName p)"
| "permitted env p (PwDeleteService key) \<longleftrightarrow> md_deleting (pk_meta p) \<and> key = (pk_ns p, getServiceName p)"
| "permitted env p (PwStatus q) \<longleftrightarrow> \<not> md_deleting (pk_meta p)"

lemma permitted_spec:
  assumes "same_spec p q"
  shows "permitted env q w \<longleftrightarrow> permitted env p w"
proof -
  have "deployable q rt = deployable p rt" for rt
    using same_spec_fields [OF assms] by (auto simp: deployable_def tls_decided_def)
  moreover obtain st where "q = p\<lparr>pk_status := st\<rparr>" using assms by (auto simp: same_spec_def)
  ultimately show ?thesis by (cases w) (simp_all add: render_status)
qed

abbreviation writes :: "prov_env \<Rightarrow> provider_cr \<Rightarrow> prov_state \<Rightarrow> prov_state \<Rightarrow> bool" where
  "writes env p \<equiv> log_grows pn_log (\<lambda>(w, ok). permitted env p w)"

lemma prov_put_writes: "prov_put env w s = (s', r) \<Longrightarrow> permitted env p w \<Longrightarrow> writes env p s s'"
  by (auto simp: prov_put_def log_grows_def Let_def)

lemma prov_read_writes [simp]: "log_grows pn_log P s (s\<lparr>pn_ops := n\<rparr>)" "log_grows pn_log P (s\<lparr>pn_ops := n\<rparr>) s' \<longleftrightarrow> log_grows pn_log P s s'"
  by (simp_all add: log_grows_def)

lemma reconcileService_writes:
  assumes "reconcileService env p rt (getServiceName p) s = (s', r)" "deployable p rt"
  shows "writes env p s s'"
proof -
  have "permitted env p (PwCreateService (desired_service p rt (getServiceName p)))" using assms(2) by auto
  moreover have "permitted env p (PwUpdateService (old\<lparr>ks_Ports := ks_Ports (desired_service p rt (getServiceName p)),
      ks_Labels := ks_Labels (desired_service p rt (getServiceName p))\<rparr>))"
    if "pe_get_service env n (pk_ns p, getServiceName p) = Inr old" for n old
    using assms(2) that by (auto simp: desired_service_def)
  ultimately show ?thesis
    using assms(1) by (fastforce simp: reconcileService_def Let_def prov_put_def log_grows_def
        split: option.splits sum.splits prod.splits if_splits)
qed

lemma update_deployment_writes:
  assumes "update_deployment env (pk_ns p, getDeploymentName p) desired s = (s', r)" "deployable p rt"
    and "kd_Template desired = template_at env p rt n" "kd_Labels desired = provider_labels p"
  shows "writes env p s s'"
proof -
  have "permitted env p (PwUpdateDeployment (old\<lparr>kd_Replicas := kd_Replicas desired, kd_Template := kd_Template desired,
      kd_Labels := kd_Labels desired\<rparr>))"
    if "pe_get_deployment env m (pk_ns p, getDeploymentName p) = Inr old" for m old
    unfolding permitted.simps
    by (rule exI [of _ rt], rule exI [of _ n], rule exI [of _ m], rule exI [of _ old]) (simp add: assms that)
  with assms(1) show ?thesis
    by (auto simp: update_deployment_def prov_read_def Let_def prov_put_def log_grows_def split: sum.splits option.splits)
qed

lemma update_deployment_ok: "update_deployment env key desired s = (s', Inr d) \<Longrightarrow> kd_Template d = kd_Template desired"
  by (auto simp: update_deployment_def Let_def split: sum.splits option.splits prod.splits)

lemma reconcileDeployment_writes:
  assumes "reconcileDeployment env p rt (getDeploymentName p) s = (s', r)" "deployable p rt"
  shows "writes env p s s' \<and> (\<forall>d. r = Inr d \<longrightarrow> kd_Template d = template_at env p rt (pn_ops s))"
proof -
  let ?n = "pn_ops s" let ?d = "desired_deployment p rt (getDeploymentName p) (container_at env p rt ?n) (volumes_at env p (Suc ?n))"
  let ?upd = "update_deployment env (pk_ns p, getDeploymentName p) ?d"
  have t: "kd_Template ?d = template_at env p rt ?n" "kd_Labels ?d = provider_labels p" "kd_Name ?d = getDeploymentName p"
    by (simp_all add: template_at_eq) (simp_all add: desired_deployment_def)
  have create: "writes env p s1 s2" if "prov_put env (PwCreateDeployment ?d) s1 = (s2, q)" for s1 s2 q
    using t assms(2) by (intro prov_put_writes [OF that]) auto
  have retry: "writes env p s1 s2" if "retry_on_conflict k ?upd s1 = (s2, q)" for k s1 s2 q
    by (rule retry_on_conflict_log_grows [OF _ that]) (rule update_deployment_writes [OF _ assms(2) t(1,2)])
  have ok: "kd_Template d = template_at env p rt ?n" if "retry_on_conflict k ?upd s1 = (s2, Inr d)" for k s1 s2 d
    using retry_on_conflict_ok [OF that] update_deployment_ok t(1) by metis
  note defs = reconcileDeployment_def build_ops Let_def
  show ?thesis
  proof (intro conjI allI impI)
    show "writes env p s s'"
      using assms(1) by (auto simp: defs split: option.splits sum.splits prod.splits if_splits dest!: retry create)
    show "kd_Template d = template_at env p rt ?n" if "r = Inr d" for d
      using assms(1) that t(1)
      by (auto simp: defs split: option.splits sum.splits prod.splits if_splits dest!: ok)
  qed
qed

lemma evaluateTLSPosture_spec:
  "evaluateTLSPosture env p = (p', b) \<Longrightarrow> same_spec p p' \<and> (b \<longrightarrow> tls_decided p)"
  by (auto simp: evaluateTLSPosture_def tls_decided_def split: option.splits if_splits)

lemma reconcileRemoteRuntime_writes:
  assumes "reconcileRemoteRuntime env p rt s = (s', p', res)" "pk_Runtime p = Some rt" "\<not> md_deleting (pk_meta p)"
  shows "writes env p s s' \<and> same_spec p p'"
proof (cases "ru_Image rt = ''''")
  case True
  then show ?thesis using assms
    by (auto simp: reconcileRemoteRuntime_def validateRemoteRuntimeSpec_def runtime_failed_def log_grows_refl)
next
  case False
  obtain p1 b where e: "evaluateTLSPosture env p = (p1, b)" by (metis surj_pair)
  note s1 = evaluateTLSPosture_spec [OF e]
  have w: "permitted env p1 = permitted env p" using permitted_spec s1 by blast
  have d: "deployable p1 rt" if b using False s1 assms that same_spec_fields [of p p1] by (auto simp: deployable_def tls_decided_def)
  have svc: "writes env p sa sb" if "reconcileService env p1 rt (getServiceName p1) sa = (sb, r)" "b" for sa sb r
    using reconcileService_writes [OF that(1) d [OF that(2)]] w by simp
  have dep: "writes env p sa sb" if "reconcileDeployment env p1 rt (getDeploymentName p1) sa = (sb, r)" "b" for sa sb r
    using reconcileDeployment_writes [OF that(1) d [OF that(2)]] w by simp
  show ?thesis using assms False e s1
    by (auto simp: reconcileRemoteRuntime_def validateRemoteRuntimeSpec_def runtime_failed_def record_runtime_def Let_def
        log_grows_refl split: bool.splits sum.splits prod.splits if_splits dest!: svc dep intro: log_grows_trans)
qed

text \<open>The last step writes one status, on top of whatever the object has become.\<close>

definition status_write :: "prov_env \<Rightarrow> provider_cr \<Rightarrow> prov_write \<Rightarrow> bool" where
  "status_write env p w \<longleftrightarrow> (\<exists>latest n count. pe_get_provider env n (pk_ns p, pk_name p) = Inr latest \<and>
     w = PwStatus (latest\<lparr>pk_status := pk_status (complete_status env count p)\<rparr>))"

abbreviation status_writes :: "prov_env \<Rightarrow> provider_cr \<Rightarrow> prov_state \<Rightarrow> prov_state \<Rightarrow> bool" where
  "status_writes env p \<equiv> log_grows pn_log (\<lambda>(w, ok). status_write env p w)"

lemma complete_status_spec [simp]: "same_spec p (complete_status env count p)"
proof -
  have "same_spec q (reconcileReportedCapabilities env q)" for q
    by (auto simp: reconcileReportedCapabilities_def no_capabilities_def split: option.splits sum.splits)
  moreover have "same_spec p (derive_health env p)" for p by simp
  ultimately show ?thesis
    by (auto simp: complete_status_def Let_def split: sum.splits) (metis same_spec_trans same_spec_set(5) same_spec_update same_spec_refl)+
qed

lemma finish_reconcile_writes:
  assumes "finish_reconcile env p res s = (s', out)"
  shows "status_writes env p s s'"
proof -
  have attempt: "status_writes env p sa sb"
    if "write_status_attempt env (complete_status env count p) sa = (sb, r)" for count sa sb r
    using that same_spec_fields [OF complete_status_spec [of p env count]]
    by (fastforce simp: write_status_attempt_def status_write_def prov_put_def Let_def log_grows_def split: sum.splits option.splits prod.splits)
  have retry: "status_writes env p sa sb"
    if "retry_on_conflict k (write_status_attempt env (complete_status env count p)) sa = (sb, r)" for k count sa sb r
    by (rule retry_on_conflict_log_grows [OF _ that]) (rule attempt)
  show ?thesis using assms
    by (auto simp: finish_reconcile_def countConnectedVMs_def split: sum.splits prod.splits dest!: retry)
qed

text \<open>A reconcile of a live Provider with a runtime is its two halves.\<close>

definition started :: "provider_cr \<Rightarrow> provider_cr" where
  "started p = set_runtime (\<lambda>r. r\<lparr>rs_Mode := ''Remote''\<rparr>) (start_runtime_status p)"

lemma started_spec [simp]: "same_spec p (started p)"
  by (simp add: started_def)

lemma Prov_Reconcile_live:
  assumes "pe_get_provider env (pn_ops s) key = Inr p" "\<not> md_deleting (pk_meta p)" "pk_Runtime p = Some rt"
    and "reconcileRemoteRuntime env (started p) rt (s\<lparr>pn_ops := Suc (pn_ops s)\<rparr>) = (s1, p1, res)"
  shows "Prov_Reconcile env key s = finish_reconcile env p1 res s1"
  using assms same_spec_fields [of p "start_runtime_status p"]
  by (simp add: Prov_Reconcile_def prov_read_def Let_def started_def)

lemma Prov_Reconcile_writes:
  assumes "Prov_Reconcile env key s = (s', out)" "pe_get_provider env (pn_ops s) key = Inr p"
  shows "writes env p s s'"
proof (cases "md_deleting (pk_meta p)")
  case True
  then show ?thesis using assms
    by (auto simp: Prov_Reconcile_def prov_read_def Prov_handleDeletion_def cleanupRemoteRuntime_def prov_put_def Let_def
        log_grows_def split: option.splits)
next
  case live: False
  show ?thesis
  proof (cases "pk_Runtime p")
    case None
    then have "pk_Runtime (start_runtime_status p) = None" using same_spec_fields [of p "start_runtime_status p"] by simp
    with live show ?thesis using assms
      by (auto simp: Prov_Reconcile_def prov_read_def prov_put_def Let_def log_grows_def)
  next
    case (Some rt)
    obtain s1 p1 res where r: "reconcileRemoteRuntime env (started p) rt (s\<lparr>pn_ops := Suc (pn_ops s)\<rparr>) = (s1, p1, res)"
      by (metis surj_pair)
    have w: "permitted env (started p) = permitted env p" using permitted_spec [OF started_spec] by blast
    have "writes env p s s1" "same_spec p p1"
      using reconcileRemoteRuntime_writes [OF r] same_spec_fields [OF started_spec, of p] live Some w
        same_spec_trans [OF started_spec] by auto
    moreover have "writes env p s1 s'"
    proof (rule log_grows_mono)
      show "status_writes env p1 s1 s'"
        using Prov_Reconcile_live [OF assms(2) live Some r] assms(1) finish_reconcile_writes by metis
    qed (use live in \<open>auto simp: status_write_def\<close>)
    ultimately show ?thesis by (blast intro: log_grows_trans)
  qed
qed

section \<open>Deployment\<close>

text \<open>An API server that answers every read the same way, knows or does not know the object, and takes every write.\<close>

definition api_works :: "prov_env \<Rightarrow> bool" where
  "api_works env \<longleftrightarrow> pe_owner_err env = None \<and> (\<forall>n w. pe_write_err env n w = None) \<and> 0 < pe_retry_steps env \<and>
     (\<forall>n k e. pe_get_service env n k = Inl e \<longrightarrow> api_is_not_found e) \<and>
     (\<forall>n k. pe_get_deployment env n k = pe_get_deployment env 0 k \<and>
        (\<forall>e. pe_get_deployment env 0 k = Inl e \<longrightarrow> api_is_not_found e))"

lemma prov_put_works:
  "api_works env \<Longrightarrow> prov_put env w s = (s\<lparr>pn_ops := Suc (pn_ops s), pn_log := pn_log s @ [(w, True)]\<rparr>, None)"
  by (simp add: prov_put_def api_works_def)

lemma api_worksD:
  assumes "api_works env"
  shows "pe_owner_err env = None" "\<exists>k. pe_retry_steps env = Suc k"
    "pe_get_service env n key = Inl e \<Longrightarrow> api_is_not_found e" "pe_get_deployment env n key = Inl e \<Longrightarrow> api_is_not_found e"
    "pe_get_deployment env n key = pe_get_deployment env m key"
proof -
  show "\<exists>k. pe_retry_steps env = Suc k" using assms by (cases "pe_retry_steps env") (auto simp: api_works_def)
  show "pe_get_service env n key = Inl e \<Longrightarrow> api_is_not_found e"
    "pe_get_deployment env n key = Inl e \<Longrightarrow> api_is_not_found e" "pe_get_deployment env n key = pe_get_deployment env m key"
    using assms unfolding api_works_def by metis+
qed (use assms in \<open>auto simp: api_works_def\<close>)

lemma reconcileService_works:
  assumes "api_works env"
  shows "\<exists>s' svc xs. reconcileService env p rt name s = (s', Inr svc) \<and> pn_log s' = pn_log s @ xs"
  using api_worksD(1,3) [OF assms] prov_put_works [OF assms]
  by (cases "pe_get_service env (pn_ops s) (pk_ns p, name)") (auto simp: reconcileService_def prov_read_def Let_def)

lemma reconcileDeployment_works:
  assumes "api_works env"
  shows "\<exists>s' d w. reconcileDeployment env p rt name s = (s', Inr d) \<and> kd_Template d = template_at env p rt (pn_ops s) \<and>
    w \<in> {PwCreateDeployment d, PwUpdateDeployment d} \<and> pn_log s' = pn_log s @ [(w, True)]"
proof -
  let ?d = "desired_deployment p rt name (container_at env p rt (pn_ops s)) (volumes_at env p (Suc (pn_ops s)))"
  let ?n = "Suc (Suc (pn_ops s))"
  have again: "pe_get_deployment env (Suc ?n) (pk_ns p, name) = pe_get_deployment env ?n (pk_ns p, name)"
    by (rule api_worksD(5) [OF assms])
  have t: "kd_Template ?d = template_at env p rt (pn_ops s)" by (rule template_at_eq)
  obtain k where k: "pe_retry_steps env = Suc k" using api_worksD(2) [OF assms] by blast
  show ?thesis
    using api_worksD(1,4) [OF assms] prov_put_works [OF assms] t again
    by (cases "pe_get_deployment env ?n (pk_ns p, name)")
      (auto simp: reconcileDeployment_def build_ops prov_read_def Let_def k update_deployment_def)
qed

text \<open>A deployable Provider is deployed by one reconcile.\<close>

lemma deployable_is_deployed:
  assumes "api_works env" "pe_get_provider env (pn_ops s) key = Inr p" "deployable p rt"
    and "Prov_Reconcile env key s = (s', out)"
  shows "\<exists>d w m. w \<in> {PwCreateDeployment d, PwUpdateDeployment d} \<and> kd_Template d = template_at env p rt m \<and>
    (w, True) \<in> set (drop (length (pn_log s)) (pn_log s'))"
proof -
  let ?s = "s\<lparr>pn_ops := Suc (pn_ops s)\<rparr>"
  have p: "\<not> md_deleting (pk_meta p)" "pk_Runtime p = Some rt" "ru_Image rt \<noteq> ''''" "tls_decided p"
    using assms(3) by (auto simp: deployable_def)
  obtain p1 b where e: "evaluateTLSPosture env (started p) = (p1, b)" by (metis surj_pair)
  have "same_spec p p1" using evaluateTLSPosture_spec [OF e] same_spec_trans [OF started_spec] by blast
  then obtain st where p1: "p1 = p\<lparr>pk_status := st\<rparr>" by (auto simp: same_spec_def)
  have b: b using e p(4) same_spec_fields [OF started_spec, of p]
    by (auto simp: evaluateTLSPosture_def tls_decided_def split: option.splits if_splits)
  obtain s1 svc xs where svc: "reconcileService env p1 rt (getServiceName p1) ?s = (s1, Inr svc)" "pn_log s1 = pn_log s @ xs"
    using reconcileService_works [OF assms(1), of p1 rt "getServiceName p1" ?s] by auto
  obtain s2 d w where d: "reconcileDeployment env p1 rt (getDeploymentName p1) s1 = (s2, Inr d)"
      "kd_Template d = template_at env p rt (pn_ops s1)" "w \<in> {PwCreateDeployment d, PwUpdateDeployment d}"
      "pn_log s2 = pn_log s1 @ [(w, True)]"
    using reconcileDeployment_works [OF assms(1), of p1 rt "getDeploymentName p1" s1] unfolding p1 render_status by blast
  obtain p2 res where "reconcileRemoteRuntime env (started p) rt ?s = (s2, p2, res)"
    using e b p same_spec_fields [OF started_spec, of p] svc(1) d(1)
    by (cases "record_runtime env rt svc d p1") (auto simp: reconcileRemoteRuntime_def validateRemoteRuntimeSpec_def)
  from Prov_Reconcile_live [OF assms(2) p(1,2) this] assms(4)
  have "status_writes env p2 s2 s'" using finish_reconcile_writes by metis
  then have "(w, True) \<in> set (drop (length (pn_log s)) (pn_log s'))" using svc(2) d(4) by (auto simp: log_grows_def)
  with d(2,3) show ?thesis by blast
qed

definition sample_runtime :: runtime_spec where
  "sample_runtime = \<lparr>ru_Image = ''kvm:1'', ru_ImagePullPolicy = '''', ru_Replicas = None,
     ru_Service = Some \<lparr>sv_Port = 0, sv_TLS = Some \<lparr>tl_Enabled = True, tl_SecretRef = ''kvm-tls'', tl_InsecureSkipVerify = False\<rparr>\<rparr>,
     ru_Resources = None, ru_NodeSelector = Map.empty, ru_Tolerations = [], ru_Affinity = None, ru_SecurityContext = None,
     ru_LogLevel = ''info'', ru_LogFormat = '''', ru_Env = []\<rparr>"

definition sample_cr :: provider_cr where
  "sample_cr = \<lparr>pk_meta = new_meta ''ops'' ''kvm'', pk_Type = ''libvirt'', pk_Endpoint = ''qemu:///system'',
     pk_CredentialSecret = ''kvm-creds'', pk_InsecureSkipVerify = False, pk_Defaults = None, pk_Runtime = Some sample_runtime,
     pk_status = \<lparr>ps_Healthy = False, ps_LastHealthCheck = None, ps_Runtime = None, ps_Conditions = [],
       ps_ObservedGeneration = 0, ps_ReportedCapabilities = None, ps_ConnectedVMs = 0, ps_Adoption = None\<rparr>\<rparr>"

definition sample_prov_env :: "provider_cr \<Rightarrow> pvc list \<Rightarrow> prov_env" where
  "sample_prov_env p cs = \<lparr>pe_now = 0, pe_get_provider = (\<lambda>_ _. Inr p), pe_get_service = (\<lambda>_ _. Inl (StatusError ReasonNotFound ''none'')),
     pe_get_deployment = (\<lambda>_ _. Inl (StatusError ReasonNotFound ''none'')), pe_pvcs = (\<lambda>_. Inr cs), pe_vms = (\<lambda>_. Inr []),
     pe_providers = (\<lambda>_. Inr [p]), pe_write_err = (\<lambda>_ _. None), pe_owner_err = None, pe_resolver = None, pe_retry_steps = 5\<rparr>"

definition prov_start :: prov_state where "prov_start = \<lparr>pn_ops = 0, pn_log = []\<rparr>"

lemma sample_api [simp]: "api_works (sample_prov_env p cs)" "pe_get_provider (sample_prov_env p cs) n key = Inr p"
  by (simp_all add: api_works_def sample_prov_env_def api_is_not_found_def)

lemma sample_deployable [simp]: "deployable sample_cr sample_runtime"
  by (simp add: deployable_def sample_cr_def sample_runtime_def new_meta_def tls_decided_def tls_block_def)

lemma sample_deployed:
  "\<exists>d w m s' out. Prov_Reconcile (sample_prov_env sample_cr cs) (''ops'', ''kvm'') prov_start = (s', out) \<and>
     w \<in> {PwCreateDeployment d, PwUpdateDeployment d} \<and>
     kd_Template d = template_at (sample_prov_env sample_cr cs) sample_cr sample_runtime m \<and> (w, True) \<in> set (pn_log s')"
proof -
  obtain s' out where r: "Prov_Reconcile (sample_prov_env sample_cr cs) (''ops'', ''kvm'') prov_start = (s', out)"
    by (metis surj_pair)
  from deployable_is_deployed [OF sample_api sample_deployable r] r show ?thesis by (auto simp: prov_start_def)
qed



section \<open>Pod templates\<close>

text \<open>
  A template the API server takes: every mount names a volume, volume names and mount paths are unique.
\<close>

definition template_wf :: "pod_template \<Rightarrow> bool" where
  "template_wf t \<longleftrightarrow> distinct (map vq_Name (tp_Volumes t)) \<and>
     (\<forall>c \<in> set (tp_Containers t). mn_Name ` set (ct_VolumeMounts c) \<subseteq> vq_Name ` set (tp_Volumes t) \<and>
        distinct (map mn_MountPath (ct_VolumeMounts c)))"

definition mountable_claims :: "prov_env \<Rightarrow> string \<Rightarrow> nat \<Rightarrow> string list" where
  "mountable_claims env ns n =
     (case migration_pvcs env ns n of Inl e \<Rightarrow> [] | Inr cs \<Rightarrow> map (\<lambda>c. md_name (pc_meta c)) (filter migrationPVCIsMountable cs))"

lemma container_at_eq:
  "container_at env p rt n =
     snd (buildProviderContainer env p rt \<lparr>pn_ops = n, pn_log = []\<rparr>)
       \<lparr>ct_VolumeMounts := provider_mounts p (map (\<lambda>c. \<lparr>mn_Name = ''migration-'' @ c,
          mn_MountPath = ''/mnt/migration-storage/'' @ c, mn_ReadOnly = False\<rparr>) (mountable_claims env (pk_ns p) n))\<rparr>"
  by (auto simp: container_at_def buildProviderContainer_def discoverMigrationVolumeMounts_def prov_read_def
      mountable_claims_def comp_def split: sum.splits)

lemma volumes_at_eq:
  "volumes_at env p n =
     [\<lparr>vq_Name = ''provider-credentials'', vq_Source = SecretSource (pk_CredentialSecret p)\<rparr>] @
     (case tls_block p of
        Some t \<Rightarrow> if tl_Enabled t then [\<lparr>vq_Name = ''provider-tls'', vq_Source = SecretSource (tl_SecretRef t)\<rparr>] else []
      | None \<Rightarrow> []) @
     map (\<lambda>c. \<lparr>vq_Name = ''migration-'' @ c, vq_Source = ClaimSource c\<rparr>) (mountable_claims env (pk_ns p) n) @
     [\<lparr>vq_Name = ''tmp'', vq_Source = EmptyDirSource '''' None\<rparr>] @
     (if pk_Type p = ''libvirt''
      then [\<lparr>vq_Name = ''libvirt-ssh-key'', vq_Source = EmptyDirSource ''Memory'' (Some ''4Mi'')\<rparr>] else [])"
  by (auto simp: volumes_at_def buildPodVolumes_def discoverMigrationPVCs_def prov_read_def mountable_claims_def comp_def split: sum.splits)

lemma template_at_fields [simp]:
  "tp_Containers (template_at env p rt n) = [container_at env p rt n]"
  "tp_Volumes (template_at env p rt n) = volumes_at env p (Suc n)"
  by (simp_all add: template_at_def desired_deployment_def)

lemma template_at_wf:
  assumes "mountable_claims env (pk_ns p) (Suc n) = mountable_claims env (pk_ns p) n"
    and "distinct (mountable_claims env (pk_ns p) n)"
  shows "template_wf (template_at env p rt n)"
  using assms
  by (auto simp: template_wf_def volumes_at_eq container_at_eq provider_mounts_def providerTLSEnabled_def comp_def
      distinct_map inj_on_def image_iff split: option.splits)

lemma permitted_template:
  assumes "permitted env p w" "w \<in> {PwCreateDeployment d, PwUpdateDeployment d}"
  shows "\<exists>rt n. deployable p rt \<and> kd_Template d = template_at env p rt n"
proof (cases "w = PwCreateDeployment d")
  case True
  with assms(1) obtain rt n where "deployable p rt" "kd_Template d = template_at env p rt n" by auto
  then show ?thesis by blast
next
  case False
  with assms obtain rt n old where d: "deployable p rt"
      "d = old\<lparr>kd_Replicas := kd_Replicas d, kd_Template := template_at env p rt n, kd_Labels := provider_labels p\<rparr>"
    by auto
  from d(2) have "kd_Template d = template_at env p rt n" by (metis kube_deployment.select_convs(7) kube_deployment.surjective kube_deployment.update_convs(3,5,7))
  with d(1) show ?thesis by blast
qed

lemma written_template:
  assumes "Prov_Reconcile env key s = (s', out)" "pe_get_provider env (pn_ops s) key = Inr p"
    and "(w, ok) \<in> set (drop (length (pn_log s)) (pn_log s'))" "w \<in> {PwCreateDeployment d, PwUpdateDeployment d}"
  shows "\<exists>rt n. deployable p rt \<and> kd_Template d = template_at env p rt n"
  using log_grows_mem [OF Prov_Reconcile_writes [OF assms(1,2)] assms(3)] permitted_template [OF _ assms(4)] by auto

lemma written_object:
  assumes "Prov_Reconcile env key s = (s', out)" "(w, ok) \<in> set (drop (length (pn_log s)) (pn_log s'))"
  shows "\<exists>p. pe_get_provider env (pn_ops s) key = Inr p"
  using assms by (cases "pe_get_provider env (pn_ops s) key") (auto simp: Prov_Reconcile_def prov_read_def)


definition sample_migration_claim :: "string \<Rightarrow> pvc" where
  "sample_migration_claim name = \<lparr>pc_meta = (new_meta ''ops'' name)\<lparr>md_labels := [''virtrigaud.io/component'' \<mapsto> ''migration-storage'']\<rparr>,
     pc_StorageClassName = '''', pc_AccessMode = '''', pc_Size = ''10Gi'', pc_Owner = None\<rparr>"


section \<open>Status\<close>

abbreviation available :: "provider_cr \<Rightarrow> bool" where
  "available p \<equiv> IsConditionTrue (ps_Conditions (pk_status p)) ''ProviderAvailable''"

lemma available_set [simp]:
  "ty \<noteq> ''ProviderAvailable'' \<Longrightarrow> available (prov_cond env ty st rs msg p) \<longleftrightarrow> available p"
  "available (prov_cond env ''ProviderAvailable'' ConditionTrue rs msg p)"
  "available (set_runtime f p) \<longleftrightarrow> available p"
  using k8s_conds.get_set_other k8s_conds.get_set [of "pe_now env" "''ProviderAvailable''" ConditionTrue rs msg "ps_Conditions (pk_status p)"]
  by (auto simp: prov_cond_def set_runtime_def IsConditionTrue_def)

lemma status_frame [simp]:
  "ps_Adoption (pk_status (prov_cond env ty st rs msg p)) = ps_Adoption (pk_status p)"
  "ps_Runtime (pk_status (prov_cond env ty st rs msg p)) = ps_Runtime (pk_status p)"
  "ps_Adoption (pk_status (set_runtime f p)) = ps_Adoption (pk_status p)"
  "ps_Runtime (pk_status (set_runtime f p)) = map_option f (ps_Runtime (pk_status p))"
  "ps_Healthy (pk_status (prov_cond env ty st rs msg p)) = ps_Healthy (pk_status p)"
  by (simp_all add: prov_cond_def set_runtime_def)

lemma complete_status_frame:
  "ps_Adoption (pk_status (complete_status env count p)) = ps_Adoption (pk_status p)"
  "ps_Runtime (pk_status (complete_status env count p)) = ps_Runtime (pk_status p)"
  "available (complete_status env count p) \<longleftrightarrow> available p"
  "ps_Healthy (pk_status (complete_status env count p)) \<longleftrightarrow> available p"
proof -
  have caps: "ps_Adoption (pk_status (reconcileReportedCapabilities env q)) = ps_Adoption (pk_status q)"
    "ps_Runtime (pk_status (reconcileReportedCapabilities env q)) = ps_Runtime (pk_status q)"
    "available (reconcileReportedCapabilities env q) \<longleftrightarrow> available q"
    "ps_Healthy (pk_status (reconcileReportedCapabilities env q)) = ps_Healthy (pk_status q)" for q
    by (auto simp: reconcileReportedCapabilities_def no_capabilities_def split: option.splits sum.splits)
  show "ps_Adoption (pk_status (complete_status env count p)) = ps_Adoption (pk_status p)"
    "ps_Runtime (pk_status (complete_status env count p)) = ps_Runtime (pk_status p)"
    "available (complete_status env count p) \<longleftrightarrow> available p"
    "ps_Healthy (pk_status (complete_status env count p)) \<longleftrightarrow> available p"
    by (auto simp: complete_status_def Let_def observe_generation_def derive_health_def caps split: sum.splits)
qed

lemma evaluateTLSPosture_status:
  assumes "evaluateTLSPosture env p = (p', b)"
  shows "ps_Adoption (pk_status p') = ps_Adoption (pk_status p)" "ps_Runtime (pk_status p') = ps_Runtime (pk_status p)"
    "available p' \<longleftrightarrow> available p"
  using assms by (auto simp: evaluateTLSPosture_def split: option.splits if_splits)

lemma reconcileRemoteRuntime_status:
  assumes "reconcileRemoteRuntime env p rt s = (s', p', res)"
  shows "ps_Adoption (pk_status p') = ps_Adoption (pk_status p)" "available p \<Longrightarrow> available p'"
  using assms
  by (auto simp: reconcileRemoteRuntime_def runtime_failed_def record_runtime_def Let_def evaluateTLSPosture_status
      split: option.splits sum.splits prod.splits bool.splits if_splits)

lemma no_status_put: "prov_put env w s = (s', r) \<Longrightarrow> \<forall>q. w \<noteq> PwStatus q \<Longrightarrow> log_grows pn_log (\<lambda>(w, ok). \<forall>q. w \<noteq> PwStatus q) s s'"
  by (auto simp: prov_put_def log_grows_def Let_def)

lemma reconcileRemoteRuntime_no_status:
  assumes "reconcileRemoteRuntime env p rt s = (s', p', res)"
  shows "log_grows pn_log (\<lambda>(w, ok). \<forall>q. w \<noteq> PwStatus q) s s'"
proof -
  let ?G = "log_grows pn_log (\<lambda>(w, ok). \<forall>q. w \<noteq> PwStatus q)"
  have svc: "?G sa sb" if "reconcileService env p1 rt name sa = (sb, r)" for p1 name sa sb r
    using that by (auto simp: reconcileService_def Let_def log_grows_refl
        split: option.splits sum.splits prod.splits if_splits dest!: no_status_put)
  have "?G sa sb" if "update_deployment env key desired sa = (sb, r)" for key desired sa sb r
    using that by (auto simp: update_deployment_def Let_def split: option.splits sum.splits prod.splits dest!: no_status_put)
  then have retry: "?G sa sb" if "retry_on_conflict k (update_deployment env key desired) sa = (sb, r)" for k key desired sa sb r
    using retry_on_conflict_log_grows [OF _ that] by blast
  have dep: "?G sa sb" if "reconcileDeployment env p1 rt name sa = (sb, r)" for p1 name sa sb r
    using that by (auto simp: reconcileDeployment_def build_ops Let_def
        split: option.splits sum.splits prod.splits if_splits dest!: no_status_put retry)
  show ?thesis using assms
    by (auto simp: reconcileRemoteRuntime_def log_grows_refl split: option.splits bool.splits sum.splits prod.splits
        dest!: svc dep intro: log_grows_trans)
qed

text \<open>What the statuses written by a reconcile have to do with the object it read.\<close>

lemma written_status:
  assumes "Prov_Reconcile env key s = (s', out)" "pe_get_provider env (pn_ops s) key = Inr p"
    and "(PwStatus q, ok) \<in> set (drop (length (pn_log s)) (pn_log s'))" "pk_Runtime p = Some rt"
  obtains s1 p1 res count where "reconcileRemoteRuntime env (started p) rt (s\<lparr>pn_ops := Suc (pn_ops s)\<rparr>) = (s1, p1, res)"
    and "pk_status q = pk_status (complete_status env count p1)"
proof -
  have live: "\<not> md_deleting (pk_meta p)"
    using log_grows_mem [OF Prov_Reconcile_writes [OF assms(1,2)] assms(3)] by simp
  let ?s = "s\<lparr>pn_ops := Suc (pn_ops s)\<rparr>"
  obtain s1 p1 res where r: "reconcileRemoteRuntime env (started p) rt ?s = (s1, p1, res)" by (metis surj_pair)
  from Prov_Reconcile_live [OF assms(2) live assms(4) r] assms(1)
  have f: "status_writes env p1 s1 s'" using finish_reconcile_writes by metis
  have "log_grows pn_log (\<lambda>(w, ok). \<forall>q. w \<noteq> PwStatus q) s s1"
    using reconcileRemoteRuntime_no_status [OF r] by simp
  with f assms(3) have "status_write env p1 (PwStatus q)"
    by (fastforce simp: log_grows_def list_all_iff)
  then obtain count where "pk_status q = pk_status (complete_status env count p1)" by (auto simp: status_write_def)
  with r that show thesis by blast
qed

text \<open>
  A Provider once available stays available: when the object a reconcile reads has its condition
  ProviderAvailable true, every status the reconcile writes has it true, and, unless the runtime block is
  missing, says healthy with it, also when the image is missing, the TLS decision was withdrawn, the Service or the
  Deployment cannot be written, or no replica is ready. The condition is set to true in one place and
  to false nowhere.
\<close>

lemma availability_is_never_revoked:
  assumes "Prov_Reconcile env key s = (s', out)" "pe_get_provider env (pn_ops s) key = Inr p"
    and "(PwStatus q, ok) \<in> set (drop (length (pn_log s)) (pn_log s'))" "pk_Runtime p = Some rt" "available p"
  shows "available q \<and> ps_Healthy (pk_status q)"
proof -
  obtain s1 p1 res count where r: "reconcileRemoteRuntime env (started p) rt (s\<lparr>pn_ops := Suc (pn_ops s)\<rparr>) = (s1, p1, res)"
      "pk_status q = pk_status (complete_status env count p1)"
    using written_status [OF assms(1-4)] by blast
  have "available (started p)" using assms(5) by (simp add: started_def start_runtime_status_def)
  then have "available p1" by (rule reconcileRemoteRuntime_status(2) [OF r(1)])
  then show ?thesis using r(2) complete_status_frame(3,4) by simp
qed

definition sample_undecided :: provider_cr where
  "sample_undecided = sample_cr\<lparr>pk_Runtime := Some (sample_runtime\<lparr>ru_Service := None\<rparr>),
     pk_status := (pk_status sample_cr)\<lparr>ps_Healthy := True, ps_Conditions := [\<lparr>c_type = ''ProviderAvailable'',
       c_status = ConditionTrue, c_reason = ''RemoteAvailable'', c_message = '''', c_lastTransition = 0, c_observedGeneration = 0\<rparr>]\<rparr>\<rparr>"

lemma sample_undecided_status:
  "\<exists>q. (PwStatus q, True) \<in> set (pn_log (fst (Prov_Reconcile (sample_prov_env sample_undecided []) (''ops'', ''kvm'') prov_start)))"
proof -
  let ?env = "sample_prov_env sample_undecided []"
  obtain p1 res where r: "reconcileRemoteRuntime ?env (started sample_undecided) (sample_runtime\<lparr>ru_Service := None\<rparr>)
      (prov_start\<lparr>pn_ops := Suc (pn_ops prov_start)\<rparr>) = (prov_start\<lparr>pn_ops := Suc (pn_ops prov_start)\<rparr>, p1, res)"
    by (auto simp: reconcileRemoteRuntime_def validateRemoteRuntimeSpec_def evaluateTLSPosture_def tls_block_def
        started_def set_runtime_def start_runtime_status_def sample_undecided_def sample_cr_def sample_runtime_def)
  have "Prov_Reconcile ?env (''ops'', ''kvm'') prov_start = finish_reconcile ?env p1 res (prov_start\<lparr>pn_ops := Suc (pn_ops prov_start)\<rparr>)"
    by (rule Prov_Reconcile_live [OF _ _ _ r]) (simp_all add: sample_undecided_def sample_cr_def new_meta_def)
  then show ?thesis
    by (auto simp: finish_reconcile_def countConnectedVMs_def prov_read_def write_status_attempt_def prov_put_def
        sample_prov_env_def prov_start_def numeral_eq_Suc)
qed

text \<open>
  A status write carries the adoption status that was read at the start of the reconcile, whatever the
  adoption controller has written in the meantime: the retry on conflict reads the newer object and puts
  the old status over it.
\<close>

lemma adoption_status_is_put_back:
  assumes "Prov_Reconcile env key s = (s', out)" "pe_get_provider env (pn_ops s) key = Inr p"
    and "(PwStatus q, ok) \<in> set (drop (length (pn_log s)) (pn_log s'))" "pk_Runtime p = Some rt"
  shows "ps_Adoption (pk_status q) = ps_Adoption (pk_status p)"
proof -
  obtain s1 p1 res count where r: "reconcileRemoteRuntime env (started p) rt (s\<lparr>pn_ops := Suc (pn_ops s)\<rparr>) = (s1, p1, res)"
      "pk_status q = pk_status (complete_status env count p1)"
    using written_status [OF assms] by blast
  then show ?thesis using reconcileRemoteRuntime_status(1) [OF r(1)]
    by (simp add: complete_status_frame(1) started_def start_runtime_status_def)
qed

end
