(* ===== verification/ProviderTls.thy ===== *)
theory ProviderTls
  imports ProviderProps
begin

text \<open>
  Three components have to agree on a provider's transport: the Provider controller, which renders the pod
  and publishes the endpoint, the SDK in the pod, which decides between TLS and plaintext from files and
  environment variables, and the resolver in the manager, which dials. What the kubelet makes of a pod
  template is the hypothesis \<open>pod_sees\<close>.
\<close>

section \<open>The pod\<close>

text \<open>The value of a variable is that of its last entry.\<close>

definition env_lookup :: "env_var list \<Rightarrow> string \<Rightarrow> string option" where
  "env_lookup es name =
     (case rev (filter (\<lambda>e. en_Name e = name) es) of
        [] \<Rightarrow> None
      | e # _ \<Rightarrow> (case en_Value e of EnvLiteral v \<Rightarrow> Some v | _ \<Rightarrow> None))"

text \<open>
  A container sees the keys of a mounted Secret as files, nothing under the TLS path when nothing is
  mounted there, and the literal values of its environment.
\<close>

definition pod_sees ::
  "(string \<Rightarrow> (string \<rightharpoonup> string) result) \<Rightarrow> pod_template \<Rightarrow> (string \<Rightarrow> bool) \<Rightarrow> (string \<Rightarrow> string) \<Rightarrow> bool" where
  "pod_sees secret t exists getenv \<longleftrightarrow>
     (\<forall>c \<in> set (tp_Containers t).
        (\<forall>m \<in> set (ct_VolumeMounts c). \<forall>v \<in> set (tp_Volumes t). \<forall>n data key.
           vq_Name v = mn_Name m \<longrightarrow> vq_Source v = SecretSource n \<longrightarrow> secret n = Inr data \<longrightarrow> CHR ''/'' \<notin> set key \<longrightarrow>
           exists (mn_MountPath m @ ''/'' @ key) = (data key \<noteq> None)) \<and>
        (\<forall>key. ProviderTLSMountPath \<notin> mn_MountPath ` set (ct_VolumeMounts c) \<longrightarrow>
           \<not> exists (ProviderTLSMountPath @ ''/'' @ key)) \<and>
        (\<forall>name v. env_lookup (ct_Env c) name = Some v \<longrightarrow> getenv name = v))"

lemma container_fields:
  "ct_Env (container_at env p rt n) = provider_env_vars p rt"
  "ct_Args (container_at env p rt n) = [''--port='' @ show_int (grpc_port rt), ''--health-port=8080'']"
  "ct_Ports (container_at env p rt n) = [(''grpc'', grpc_port rt), (''metrics'', 8080)]"
  by (simp_all add: container_at_def buildProviderContainer_def split: prod.splits)

lemma container_mounts:
  "\<exists>ms. ct_VolumeMounts (container_at env p rt n) = provider_mounts p ms \<and>
     ProviderTLSMountPath \<notin> mn_MountPath ` set ms"
proof -
  let ?ms = "map (\<lambda>c. \<lparr>mn_Name = ''migration-'' @ c, mn_MountPath = ''/mnt/migration-storage/'' @ c, mn_ReadOnly = False\<rparr>)
    (mountable_claims env (pk_ns p) n)"
  have "ct_VolumeMounts (container_at env p rt n) = provider_mounts p ?ms" by (simp add: container_at_eq)
  moreover have "ProviderTLSMountPath \<notin> mn_MountPath ` set ?ms" by (auto simp: ProviderTLSMountPath_def)
  ultimately show ?thesis by blast
qed

lemma insecure_variable:
  assumes "\<not> providerTLSEnabled p" "EnvInsecure \<notin> en_Name ` set (ru_Env rt)"
  shows "env_lookup (provider_env_vars p rt) EnvInsecure = Some ''true''"
proof -
  have none: "filter (\<lambda>e. en_Name e = EnvInsecure) (ru_Env rt) = []" using assms(2) by (force simp: filter_empty_conv)
  have opt: "filter (\<lambda>e. en_Name e = EnvInsecure) (opt_env name v) = []" if "name \<noteq> EnvInsecure" for name v
    using that by (simp add: opt_env_def)
  have "filter (\<lambda>e. en_Name e = EnvInsecure) (default_env p) = []"
    by (simp add: default_env_def opt EnvInsecure_def [symmetric] split: option.split) (simp add: EnvInsecure_def opt_env_def)
  moreover have "filter (\<lambda>e. en_Name e = EnvInsecure) (base_env p) = [\<lparr>en_Name = EnvInsecure, en_Value = EnvLiteral ''true''\<rparr>]"
    using assms(1) by (simp add: base_env_def EnvInsecure_def)
  ultimately show ?thesis
    by (simp add: env_lookup_def provider_env_vars_def none opt) (simp add: opt_env_def EnvInsecure_def)
qed

lemma no_tls_mount:
  assumes "\<not> providerTLSEnabled p"
  shows "ProviderTLSMountPath \<notin> mn_MountPath ` set (ct_VolumeMounts (container_at env p rt n))"
  using container_mounts [of env p rt n] assms by (auto simp: provider_mounts_def ProviderTLSMountPath_def)

lemma tls_mount:
  assumes "tls_block p = Some t" "tl_Enabled t"
  shows "\<lparr>mn_Name = ''provider-tls'', mn_MountPath = ProviderTLSMountPath, mn_ReadOnly = True\<rparr>
       \<in> set (ct_VolumeMounts (container_at env p rt n)) \<and>
     \<lparr>vq_Name = ''provider-tls'', vq_Source = SecretSource (tl_SecretRef t)\<rparr> \<in> set (volumes_at env p m)"
  using container_mounts [of env p rt n] assms
  by (auto simp: provider_mounts_def ProviderTLSMountPath_def volumes_at_eq providerTLSEnabled_def)

section \<open>Agreement\<close>

lemma buildTLSConfig_plain: "buildTLSConfig renv q = Inr None \<Longrightarrow> \<exists>t. rp_TLS q = Some t \<and> \<not> tl_Enabled t"
  by (auto simp: buildTLSConfig_def Let_def split: option.splits if_splits sum.splits)

lemma buildTLSConfig_secured:
  assumes "buildTLSConfig renv q = Inr (Some cfg)"
  shows "\<exists>t data. rp_TLS q = Some t \<and> tl_Enabled t \<and> re_secret renv (rp_ns q, tl_SecretRef t) = Inr data \<and>
    (\<forall>key \<in> {''tls.crt'', ''tls.key'', ''ca.crt''}. data key \<noteq> None)"
  using assms
  by (auto simp: buildTLSConfig_def Let_def missing_keys_def secret_value_def split: option.splits if_splits sum.splits)

lemma resolve_plain:
  assumes "\<And>key. \<not> exists (ProviderTLSMountPath @ ''/'' @ key)" "getenv EnvInsecure = ''true''"
  shows "\<exists>res. ResolveTLSAndAuth exists getenv = (Some res, Some ErrInsecureModeOptedIn) \<and> tr_TLS res = None"
proof -
  have "isInsecureOptedIn getenv" unfolding isInsecureOptedIn_def assms(2) by code_simp
  then show ?thesis
    using assms(1) [of "''tls.crt''"] assms(1) [of "''tls.key''"] assms(1) [of "''ca.crt''"]
    by (simp add: ResolveTLSAndAuth_def ProviderTLSCertFile_def ProviderTLSKeyFile_def ProviderTLSCAFile_def)
qed

lemma resolve_secured:
  assumes "\<And>key. key \<in> {''tls.crt'', ''tls.key'', ''ca.crt''} \<Longrightarrow> exists (ProviderTLSMountPath @ ''/'' @ key)"
  shows "\<exists>res tls. ResolveTLSAndAuth exists getenv = (Some res, None) \<and> tr_TLS res = Some tls \<and>
    sl_RequireClientCert tls \<and> ac_RequireTLS (tr_Auth res)"
  using assms [of "''tls.crt''"] assms [of "''tls.key''"] assms [of "''ca.crt''"]
  by (simp add: ResolveTLSAndAuth_def ProviderTLSCertFile_def ProviderTLSKeyFile_def ProviderTLSCAFile_def)

text \<open>
  C8. Manager and provider agree on the transport. Take any Deployment the Provider controller writes for a
  Provider, and a pod that sees its Secrets and variables as the kubelet provides them, where the spec
  adds no value of its own for the opt-out variable. If the manager resolves the Provider to plaintext,
  the process in the pod starts in plaintext; if the manager resolves it to TLS, the process serves TLS
  from the same Secret and demands a client certificate. Neither side falls back to plaintext when the
  other expects TLS.
\<close>

theorem transport_agreement:
  assumes "Prov_Reconcile env key s = (s', out)" "pe_get_provider env (pn_ops s) key = Inr p"
    and "(w, ok) \<in> set (drop (length (pn_log s)) (pn_log s'))" "w \<in> {PwCreateDeployment d, PwUpdateDeployment d}"
    and "pod_sees (\<lambda>n. re_secret renv (pk_ns p, n)) (kd_Template d) exists getenv"
    and "\<And>rt. pk_Runtime p = Some rt \<Longrightarrow> EnvInsecure \<notin> en_Name ` set (ru_Env rt)"
    and "buildTLSConfig renv (remote_of p) = Inr cfg"
  shows "case cfg of
      None \<Rightarrow> \<exists>res. ResolveTLSAndAuth exists getenv = (Some res, Some ErrInsecureModeOptedIn) \<and> tr_TLS res = None
    | Some _ \<Rightarrow> \<exists>res tls. ResolveTLSAndAuth exists getenv = (Some res, None) \<and> tr_TLS res = Some tls \<and>
        sl_RequireClientCert tls \<and> ac_RequireTLS (tr_Auth res)"
proof -
  obtain rt n where rt: "deployable p rt" "kd_Template d = template_at env p rt n"
    using written_template [OF assms(1-4)] by blast
  let ?c = "container_at env p rt n"
  note sees = assms(5) [unfolded rt(2) pod_sees_def template_at_fields]
  show ?thesis
  proof (cases cfg)
    case None
    with assms(7) have "\<not> providerTLSEnabled p"
      using buildTLSConfig_plain [of renv "remote_of p"] by (auto simp: remote_of_def providerTLSEnabled_def)
    moreover have "EnvInsecure \<notin> en_Name ` set (ru_Env rt)" using assms(6) rt(1) by (simp add: deployable_def)
    ultimately have "\<And>key. \<not> exists (ProviderTLSMountPath @ ''/'' @ key)" "getenv EnvInsecure = ''true''"
      using sees no_tls_mount insecure_variable by (auto simp: container_fields)
    with None show ?thesis using resolve_plain by simp
  next
    case (Some c)
    with assms(7) obtain t data where t: "tls_block p = Some t" "tl_Enabled t" "re_secret renv (pk_ns p, tl_SecretRef t) = Inr data"
        "\<forall>key \<in> {''tls.crt'', ''tls.key'', ''ca.crt''}. data key \<noteq> None"
      using buildTLSConfig_secured [of renv "remote_of p" c] by (auto simp: remote_of_def provider_of_def)
    have "exists (ProviderTLSMountPath @ ''/'' @ key)" if "key \<in> {''tls.crt'', ''tls.key'', ''ca.crt''}" for key
    proof -
      have "CHR ''/'' \<notin> set key" "data key \<noteq> None" using that t(4) by auto
      with sees tls_mount [OF t(1,2), of env rt n "Suc n"] t(3) show ?thesis by fastforce
    qed
    with Some show ?thesis using resolve_secured by simp
  qed
qed

definition sample_tls_keys :: "string list" where "sample_tls_keys = [''tls.crt'', ''tls.key'', ''ca.crt'']"

definition sample_renv :: resolver_env where
  "sample_renv = \<lparr>re_secret = (\<lambda>k. if k = (''ops'', ''kvm-tls'') then Inr (\<lambda>key. if key \<in> set sample_tls_keys then Some ''pem'' else None)
       else Inl (StatusError ReasonNotFound ''none'')),
     re_key_pair = (\<lambda>_ _. None), re_parse_ca = (\<lambda>_. True), re_dial = (\<lambda>_ _. None),
     re_process = (\<lambda>_ _ _. undefined), re_clock = (\<lambda>_. (0, 0))\<rparr>"

definition sample_exists :: "string \<Rightarrow> bool" where
  "sample_exists path \<longleftrightarrow> path \<in> (\<lambda>key. ProviderTLSMountPath @ ''/'' @ key) ` set sample_tls_keys"

definition sample_getenv :: "string \<Rightarrow> string" where
  "sample_getenv name = (case env_lookup (provider_env_vars sample_cr sample_runtime) name of Some v \<Rightarrow> v | None \<Rightarrow> '''')"

lemma sample_exists_key: "sample_exists (ProviderTLSMountPath @ ''/'' @ key) \<longleftrightarrow> key \<in> set sample_tls_keys"
  by (auto simp: sample_exists_def)

lemma sample_secret:
  "re_secret sample_renv (pk_ns sample_cr, k) = Inr data \<Longrightarrow>
   k = ''kvm-tls'' \<and> data = (\<lambda>key. if key \<in> set sample_tls_keys then Some ''pem'' else None)"
  by (simp add: sample_renv_def split: if_splits)

lemma sample_tls: "tls_block sample_cr = Some \<lparr>tl_Enabled = True, tl_SecretRef = ''kvm-tls'', tl_InsecureSkipVerify = False\<rparr>"
  by (simp add: tls_block_def sample_cr_def sample_runtime_def)

lemma secret_mount_path:
  assumes "m \<in> set (ct_VolumeMounts (container_at env p rt n))" "v \<in> set (volumes_at env p k)" "vq_Name v = mn_Name m"
    and "vq_Source v = SecretSource x" "x \<noteq> pk_CredentialSecret p"
  shows "mn_MountPath m = ProviderTLSMountPath"
proof -
  have "vq_Name v = ''provider-tls''"
    using assms(2,4,5) by (auto simp: volumes_at_eq split: option.splits if_splits)
  then have "mn_Name m = ''provider-tls''" using assms(3) by simp
  then show ?thesis using assms(1) by (auto simp: container_at_eq provider_mounts_def ProviderTLSMountPath_def split: if_splits)
qed

lemma sample_pod:
  "pod_sees (\<lambda>n. re_secret sample_renv (pk_ns sample_cr, n)) (template_at env sample_cr sample_runtime n) sample_exists sample_getenv"
proof -
  have creds: "pk_CredentialSecret sample_cr = ''kvm-creds''" by (simp add: sample_cr_def)
  have "sample_exists (mn_MountPath m @ ''/'' @ key) = (data key \<noteq> None)"
    if "m \<in> set (ct_VolumeMounts (container_at env sample_cr sample_runtime n))" "v \<in> set (volumes_at env sample_cr (Suc n))"
      "vq_Name v = mn_Name m" "vq_Source v = SecretSource k" "re_secret sample_renv (pk_ns sample_cr, k) = Inr data" for m v k data key
    using secret_mount_path [OF that(1-4)] sample_secret [OF that(5)] sample_exists_key [of key] by (simp add: creds)
  moreover have "ProviderTLSMountPath \<in> mn_MountPath ` set (ct_VolumeMounts (container_at env sample_cr sample_runtime n))"
    using tls_mount [OF sample_tls, of env sample_runtime n 0] by force
  ultimately show ?thesis
    unfolding pod_sees_def template_at_fields by (simp add: container_fields sample_getenv_def)
qed

theorem transport_agreement_witness:
  "\<exists>cfg res tls. buildTLSConfig sample_renv (remote_of sample_cr) = Inr (Some cfg) \<and>
     ResolveTLSAndAuth sample_exists sample_getenv = (Some res, None) \<and> tr_TLS res = Some tls \<and>
     sl_RequireClientCert tls \<and> ac_RequireTLS (tr_Auth res)"
proof -
  obtain d w m s' out where r: "Prov_Reconcile (sample_prov_env sample_cr []) (''ops'', ''kvm'') prov_start = (s', out)"
      "w \<in> {PwCreateDeployment d, PwUpdateDeployment d}" "(w, True) \<in> set (pn_log s')"
      "kd_Template d = template_at (sample_prov_env sample_cr []) sample_cr sample_runtime m"
    using sample_deployed by blast
  have w: "(w, True) \<in> set (drop (length (pn_log prov_start)) (pn_log s'))" using r(3) by (simp add: prov_start_def)
  have sees: "pod_sees (\<lambda>n. re_secret sample_renv (pk_ns sample_cr, n)) (kd_Template d) sample_exists sample_getenv"
    unfolding r(4) by (rule sample_pod)
  have env: "EnvInsecure \<notin> en_Name ` set (ru_Env rt)" if "pk_Runtime sample_cr = Some rt" for rt
    using that by (auto simp: sample_cr_def sample_runtime_def)
  obtain cfg where cfg: "buildTLSConfig sample_renv (remote_of sample_cr) = Inr (Some cfg)"
    by (simp add: buildTLSConfig_def remote_of_def provider_of_def tls_block_def sample_cr_def sample_runtime_def
        sample_renv_def sample_tls_keys_def missing_keys_def secret_value_def new_meta_def)
  from transport_agreement [OF r(1) sample_api(2) w r(2) sees env cfg] cfg show ?thesis by auto
qed

section \<open>The endpoint\<close>

lemma reconcileService_name:
  assumes "reconcileService env p rt name s = (s', Inr svc)"
    and "\<And>n k v. pe_get_service env n k = Inr v \<Longrightarrow> ks_Name v = snd k"
  shows "ks_Name svc = name"
  using assms(1) assms(2) [of _ "(pk_ns p, name)"]
  by (auto simp: reconcileService_def Let_def desired_service_def split: option.splits sum.splits prod.splits if_splits)

lemma running_endpoint:
  assumes "reconcileRemoteRuntime env p rt s = (s', p', res)" "ps_Runtime (pk_status p') = Some r" "rs_Phase r = ''Running''"
    and "\<And>n k v. pe_get_service env n k = Inr v \<Longrightarrow> ks_Name v = snd k"
  shows "rs_Endpoint r = tls_server_name (remote_of p) @ '':'' @ show_int (grpc_port rt)"
proof -
  have spec: "getServiceName p1 = getServiceName p" "pk_ns p1 = pk_ns p" if "evaluateTLSPosture env p = (p1, b)" for p1 b
    using evaluateTLSPosture_spec [OF that] by (auto simp: same_spec_def render_status)
  have "\<exists>svc p1 b. rs_Endpoint r = ks_Name svc @ ''.'' @ pk_ns p1 @ ''.svc.cluster.local:'' @ show_int (grpc_port rt) \<and>
      evaluateTLSPosture env p = (p1, b) \<and> (\<exists>s1. reconcileService env p1 rt (getServiceName p1) s = (s1, Inr svc))"
    using assms(1-3)
    by (auto simp: reconcileRemoteRuntime_def runtime_failed_def record_runtime_def Let_def
        split: option.splits sum.splits prod.splits bool.splits if_splits)
  then show ?thesis
    using reconcileService_name [OF _ assms(4)] spec
    by (fastforce simp: tls_server_name_def remote_of_def provider_of_def getServiceName_def)
qed

fun serves_port :: "int \<Rightarrow> prov_write \<Rightarrow> bool" where
  "serves_port port (PwCreateDeployment d) \<longleftrightarrow> (\<forall>c \<in> set (tp_Containers (kd_Template d)). hd (ct_Args c) = ''--port='' @ show_int port)"
| "serves_port port (PwUpdateDeployment d) \<longleftrightarrow> (\<forall>c \<in> set (tp_Containers (kd_Template d)). hd (ct_Args c) = ''--port='' @ show_int port)"
| "serves_port port (PwCreateService v) \<longleftrightarrow> (''grpc'', port, port) \<in> set (ks_Ports v)"
| "serves_port port (PwUpdateService v) \<longleftrightarrow> (''grpc'', port, port) \<in> set (ks_Ports v)"
| "serves_port port w \<longleftrightarrow> True"

lemma permitted_serves_port:
  assumes "permitted env p w" "pk_Runtime p = Some rt"
  shows "serves_port (grpc_port rt) w"
proof -
  have dep: "hd (ct_Args c) = ''--port='' @ show_int (grpc_port rt)"
    if "w \<in> {PwCreateDeployment d, PwUpdateDeployment d}" "c \<in> set (tp_Containers (kd_Template d))" for d c
    using permitted_template [OF assms(1) that(1)] that(2) assms(2) by (auto simp: container_fields deployable_def)
  show ?thesis
    using assms dep by (cases w) (auto simp: deployable_def desired_service_def)
qed

text \<open>
  C22. The published endpoint is the pod that was deployed, under the name its certificate must carry.
  Whenever the Provider controller writes a status with phase Running, its endpoint is the server name
  the manager verifies, followed by the port; that port is the one every Deployment written in the same
  reconcile tells the process to listen on, and the target of the port in every Service written. A
  service read from the API is assumed to have the name it was asked for by.
\<close>

theorem endpoint_is_the_deployed_pod:
  assumes "Prov_Reconcile env key s = (s', out)" "pe_get_provider env (pn_ops s) key = Inr p" "pk_Runtime p = Some rt"
    and "\<And>n k v. pe_get_service env n k = Inr v \<Longrightarrow> ks_Name v = snd k"
    and "(PwStatus q, ok) \<in> set (drop (length (pn_log s)) (pn_log s'))"
    and "ps_Runtime (pk_status q) = Some r" "rs_Phase r = ''Running''"
  shows "rs_Endpoint r = tls_server_name (remote_of p) @ '':'' @ show_int (grpc_port rt) \<and>
    (\<forall>(w, ok') \<in> set (drop (length (pn_log s)) (pn_log s')). serves_port (grpc_port rt) w)"
proof
  obtain s1 p1 res count where run: "reconcileRemoteRuntime env (started p) rt (s\<lparr>pn_ops := Suc (pn_ops s)\<rparr>) = (s1, p1, res)"
      "pk_status q = pk_status (complete_status env count p1)"
    using written_status [OF assms(1,2,5,3)] by blast
  have "ps_Runtime (pk_status p1) = Some r" using run(2) assms(6) by (simp add: complete_status_frame(2))
  from running_endpoint [OF run(1) this assms(7,4)]
  show "rs_Endpoint r = tls_server_name (remote_of p) @ '':'' @ show_int (grpc_port rt)"
    using same_spec_fields [OF started_spec, of p] by (simp add: tls_server_name_def remote_of_def provider_of_def)
next
  show "\<forall>(w, ok') \<in> set (drop (length (pn_log s)) (pn_log s')). serves_port (grpc_port rt) w"
    using log_grows_mem [OF Prov_Reconcile_writes [OF assms(1,2)]] permitted_serves_port [OF _ assms(3)] by fastforce
qed

text \<open>An existing Deployment with a ready replica.\<close>

definition sample_running :: "nn \<Rightarrow> kube_deployment" where
  "sample_running k =
     \<lparr>kd_Name = snd k, kd_Namespace = fst k, kd_Labels = Map.empty, kd_Owner = None, kd_Replicas = Some 1, kd_Selector = Map.empty,
      kd_Template = \<lparr>tp_Labels = Map.empty, tp_Containers = [], tp_Volumes = [], tp_NodeSelector = Map.empty, tp_Tolerations = [],
        tp_Affinity = None, tp_RestartPolicy = ''Always'', tp_GracePeriod = 30\<rparr>,
      kd_UpdatedReplicas = 1, kd_ReadyReplicas = 1\<rparr>"

definition sample_running_env :: "(remote_provider \<Rightarrow> provider_instance result) option \<Rightarrow> prov_env" where
  "sample_running_env resolve = (sample_prov_env sample_cr [])
     \<lparr>pe_get_deployment := (\<lambda>_ k. Inr (sample_running k)), pe_resolver := resolve\<rparr>"

lemma sample_running_status:
  "\<exists>q r. (PwStatus q, True) \<in> set (pn_log (fst (Prov_Reconcile (sample_running_env resolve) (''ops'', ''kvm'') prov_start))) \<and>
     ps_Runtime (pk_status q) = Some r \<and> rs_Phase r = ''Running''"
proof -
  let ?env = "sample_running_env resolve"
  let ?s = "prov_start\<lparr>pn_ops := Suc (pn_ops prov_start)\<rparr>"
  have "\<exists>k. pe_retry_steps ?env = Suc k"
    by (rule exI [of _ 4]) (simp add: sample_running_env_def sample_prov_env_def)
  then obtain k0 where k0: "pe_retry_steps ?env = Suc k0" by blast
  have k: "pe_owner_err ?env = None" "pe_write_err ?env n w = None" "api_is_not_found (StatusError ReasonNotFound ''none'')"
      "pe_get_deployment ?env n key = Inr (sample_running key)" "kd_ReadyReplicas (sample_running key) = 1"
    for n w key by (simp_all add: sample_running_env_def sample_prov_env_def sample_running_def api_is_not_found_def)
  obtain p1 b where e: "evaluateTLSPosture ?env (started sample_cr) = (p1, b)" by (metis surj_pair)
  have b: b using e same_spec_fields [OF started_spec, of sample_cr] sample_tls by (auto simp: evaluateTLSPosture_def)
  have rt: "\<exists>r. ps_Runtime (pk_status p1) = Some r"
    using evaluateTLSPosture_status(2) [OF e] by (simp add: started_def start_runtime_status_def)
  obtain s1 svc where svc: "reconcileService ?env p1 sample_runtime (getServiceName p1) ?s = (s1, Inr svc)"
    using k by (auto simp: reconcileService_def prov_read_def prov_put_def Let_def sample_running_env_def sample_prov_env_def)
  obtain s2 d where d: "reconcileDeployment ?env p1 sample_runtime (getDeploymentName p1) s1 = (s2, Inr d)" "kd_ReadyReplicas d > 0"
    using k k0 by (auto simp: reconcileDeployment_def build_ops prov_read_def prov_put_def Let_def update_deployment_def)
  obtain p2 res r where run: "reconcileRemoteRuntime ?env (started sample_cr) sample_runtime ?s = (s2, p2, res)"
      "ps_Runtime (pk_status p2) = Some r" "rs_Phase r = ''Running''"
    using e b rt svc d same_spec_fields [OF started_spec, of sample_cr]
    by (auto simp: reconcileRemoteRuntime_def validateRemoteRuntimeSpec_def record_runtime_def sample_cr_def sample_runtime_def Let_def)
  have "Prov_Reconcile ?env (''ops'', ''kvm'') prov_start = finish_reconcile ?env p2 res s2"
    by (rule Prov_Reconcile_live [OF _ _ _ run(1)])
      (simp_all add: sample_running_env_def sample_prov_env_def sample_cr_def new_meta_def)
  moreover have "pe_get_provider ?env n key = Inr sample_cr" "pe_vms ?env n = Inr []" for n key
    by (simp_all add: sample_running_env_def sample_prov_env_def)
  ultimately show ?thesis using run(2,3) k k0
    by (auto simp: finish_reconcile_def countConnectedVMs_def prov_read_def write_status_attempt_def prov_put_def Let_def
        complete_status_frame(2))
qed

theorem endpoint_is_the_deployed_pod_witness:
  "\<exists>q r. (PwStatus q, True) \<in> set (pn_log (fst (Prov_Reconcile (sample_running_env None) (''ops'', ''kvm'') prov_start))) \<and>
     ps_Runtime (pk_status q) = Some r \<and> rs_Phase r = ''Running'' \<and>
     rs_Endpoint r = ''virtrigaud-provider-ops-kvm.ops.svc.cluster.local:9443''"
proof -
  obtain s' out where run: "Prov_Reconcile (sample_running_env None) (''ops'', ''kvm'') prov_start = (s', out)" by (metis surj_pair)
  obtain q r where q: "(PwStatus q, True) \<in> set (pn_log s')" "ps_Runtime (pk_status q) = Some r" "rs_Phase r = ''Running''"
    using sample_running_status [of None] run by auto
  have m: "(PwStatus q, True) \<in> set (drop (length (pn_log prov_start)) (pn_log s'))" using q(1) by (simp add: prov_start_def)
  have p: "pe_get_provider (sample_running_env None) n k = Inr sample_cr" "pk_Runtime sample_cr = Some sample_runtime" for n k
    by (simp_all add: sample_running_env_def sample_prov_env_def sample_cr_def)
  have "rs_Endpoint r = tls_server_name (remote_of sample_cr) @ '':'' @ show_int (grpc_port sample_runtime) \<and>
      (\<forall>(w, ok') \<in> set (drop (length (pn_log prov_start)) (pn_log s')). serves_port (grpc_port sample_runtime) w)"
    by (rule endpoint_is_the_deployed_pod [OF run p _ m q(2,3)]) (simp add: sample_running_env_def sample_prov_env_def)
  then have "rs_Endpoint r = tls_server_name (remote_of sample_cr) @ '':'' @ show_int (grpc_port sample_runtime)" by (rule conjunct1)
  also have "\<dots> = ''virtrigaud-provider-ops-kvm.ops.svc.cluster.local:9443''"
    by (simp add: tls_server_name_def remote_of_def provider_of_def sample_cr_def new_meta_def grpc_port_def sample_runtime_def show_int_def show_nat.simps)
  finally show ?thesis using run q by auto
qed

end
