(* ===== verification/ProviderFlow.thy ===== *)
theory ProviderFlow
  imports ProviderTls MigrationFindings AdoptionProps GrpcProps
begin

text \<open>
  The Provider controller together with its neighbours: the claims the VMMigration controller creates and
  waits for, and the capabilities a provider reports over gRPC, which the gates of the other controllers read.
\<close>

section \<open>Migration claims\<close>

text \<open>A claim of the API server that is the one the migration created, still in use.\<close>

definition created_claim :: "migration \<Rightarrow> pvc_config \<Rightarrow> pvc \<Rightarrow> bool" where
  "created_claim m cfg c \<longleftrightarrow>
     (let n = new_migration_pvc m cfg in
      md_name (pc_meta c) = md_name (pc_meta n) \<and> md_namespace (pc_meta c) = md_namespace (pc_meta n) \<and>
      md_labels (pc_meta c) = md_labels (pc_meta n) \<and> \<not> md_deleting (pc_meta c))"

lemma created_claim_mountable:
  assumes "created_claim m cfg c" "pe_pvcs env n = Inr cs" "c \<in> set cs" "pk_ns p = mg_ns m"
  shows "mg_name m @ ''-storage'' \<in> set (mountable_claims env (pk_ns p) n)"
  using assms
  by (force simp: created_claim_def new_migration_pvc_def new_meta_def Let_def mountable_claims_def migration_pvcs_def
      migrationPVCIsMountable_def)

lemma template_claims:
  "volumesContainPVC (map volume_of (tp_Volumes (template_at env p rt n))) c \<longleftrightarrow> c \<in> set (mountable_claims env (pk_ns p) (Suc n))"
  by (auto simp: volumesContainPVC_def volumes_at_eq volume_of_def list_ex_iff image_iff split: option.splits)


definition sample_pvc_config :: pvc_config where
  "sample_pvc_config = \<lparr>pg_Name = '''', pg_StorageClassName = ''nfs'', pg_Size = ''10Gi'', pg_AccessMode = '''', pg_MountPath = ''''\<rparr>"

definition sample_ops_mig :: "string \<Rightarrow> migration" where
  "sample_ops_mig name = (sample_mig PhaseValidating)\<lparr>mg_meta := new_meta ''ops'' name\<rparr>"

lemma sample_created: "created_claim (sample_ops_mig name) sample_pvc_config (new_migration_pvc (sample_ops_mig name) sample_pvc_config)"
  by (simp add: created_claim_def new_migration_pvc_def new_meta_def)

lemma sample_ns: "pk_ns sample_cr = mg_ns (sample_ops_mig name)"
  by (simp add: sample_ops_mig_def sample_cr_def new_meta_def)


text \<open>
  A claim of the user's own is not mounted: \<^verbatim>\<open>spec.storage.pvc.name\<close> names an existing claim, and the
  VMMigration controller only checks that it exists, but the Provider controller mounts claims with the
  migration label alone. Whatever Deployment it writes for the source provider, the mount check of a
  migration over an unlabelled claim does not succeed; and since the waiting time is counted from the
  creation of the claim, the migration fails in its first check when the claim is more than five minutes old.
\<close>

lemma unlabelled_claim_fails_validation:
  assumes "Prov_Reconcile env key s = (s', out)" "pe_get_provider env (pn_ops s) key = Inr p"
    and "(w, ok) \<in> set (drop (length (pn_log s)) (pn_log s'))" "w \<in> {PwCreateDeployment d, PwUpdateDeployment d}"
    and "mg_storage m = Some st" "st_PVC st = Some cfg" "pg_Name cfg \<noteq> ''''" "mt_StoragePVCName (mg_status m) = pg_Name cfg"
    and "\<And>n cs q. pe_pvcs env n = Inr cs \<Longrightarrow> q \<in> set cs \<Longrightarrow> md_name (pc_meta q) = pg_Name cfg \<Longrightarrow>
      md_namespace (pc_meta q) = pk_ns p \<Longrightarrow> md_labels (pc_meta q) ''virtrigaud.io/component'' \<noteq> Some ''migration-storage''"
    and "ev_get_pvc menv (mg_ns m, pg_Name cfg) = Inr c"
    and "time_sub (ev_now menv) (md_creation (pc_meta c)) > migrationMountTimeout"
    and "ev_get_deployment menv (pk_ns p, getDeploymentName p) = Inr dep" "dp_Volumes dep = dp_Volumes (deployment_of d)"
    and "pk_ns p = mg_ns m" "md_namespace (pv_meta tgt) = mg_ns m"
  shows "(\<exists>reason. providerMountReady menv (provider_of p) (pg_Name cfg) = Inr (Some reason)) \<and>
    (\<exists>message. validate_pvc_path menv r m (provider_of p) tgt ms = transitionToFailed menv m message ms)"
proof -
  obtain rt n where t: "kd_Template d = template_at env p rt n" using written_template [OF assms(1-4)] by blast
  have "pg_Name cfg \<notin> set (mountable_claims env (pk_ns p) (Suc n))"
  proof (cases "pe_pvcs env (Suc n)")
    case (Inr cs)
    then show ?thesis using assms(9) [OF Inr] by (auto simp: mountable_claims_def migration_pvcs_def)
  qed (simp add: mountable_claims_def migration_pvcs_def)
  then have "\<not> volumesContainPVC (dp_Volumes dep) (pg_Name cfg)"
    unfolding assms(13) deployment_of_def deployment.select_convs t template_claims .
  then have ready: "providerMountReady menv (provider_of p) (pg_Name cfg) =
      Inr (Some ''deployment not yet updated with the migration PVC volume'')"
    using assms(12) by (simp add: providerMountReady_def provider_of_def getDeploymentName_def Let_def)
  moreover have "ensureMigrationPVC menv m ms = (ms, Inr (pg_Name cfg))"
    using assms(5-7,10) by (simp add: ensureMigrationPVC_def)
  ultimately show ?thesis
    using assms(7,8,10,11,14,15)
    by (auto simp: validate_pvc_path_def migrationProvidersMounted_def migrationMountDeadlineExceeded_def provider_of_def)
qed

text \<open>
  One migration with a long name stops the rollout of every provider of its namespace: the volume
  name the Provider controller derives from a claim is longer than the 63 characters of a DNS label as
  soon as the migration's name, which may have 253, has more than 45. While the claim is listed, every
  Deployment the controller writes in that namespace has such a volume, which the API server rejects.
\<close>

lemma long_migration_name_breaks_rollouts:
  assumes "Prov_Reconcile env key s = (s', out)" "pe_get_provider env (pn_ops s) key = Inr p" "pk_ns p = mg_ns m"
    and "(w, ok) \<in> set (drop (length (pn_log s)) (pn_log s'))" "w \<in> {PwCreateDeployment d, PwUpdateDeployment d}"
    and "\<And>n. \<exists>cs. pe_pvcs env n = Inr cs \<and> c \<in> set cs" "created_claim m cfg c" "45 < length (mg_name m)"
  shows "\<exists>v \<in> set (tp_Volumes (kd_Template d)). \<not> dns_label (vq_Name v)"
proof -
  obtain rt n where t: "kd_Template d = template_at env p rt n" using written_template [OF assms(1,2,4,5)] by blast
  obtain cs where "pe_pvcs env (Suc n) = Inr cs" "c \<in> set cs" using assms(6) by blast
  from created_claim_mountable [OF assms(7) this assms(3)]
  have "\<lparr>vq_Name = ''migration-'' @ mg_name m @ ''-storage'', vq_Source = ClaimSource (mg_name m @ ''-storage'')\<rparr>
      \<in> set (tp_Volumes (kd_Template d))"
    by (auto simp: t volumes_at_eq)
  moreover have "\<not> dns_label (''migration-'' @ mg_name m @ ''-storage'')" using assms(8) by (simp add: dns_label_def)
  ultimately show ?thesis by force
qed

section \<open>Capabilities\<close>

lemma capabilities_of_complete:
  assumes "available p" "runtime_running p"
    and "pe_resolver env = Some f" "\<And>q. f q = Inr (client_instance w st)"
  shows "ps_ReportedCapabilities (pk_status (complete_status env count p)) =
    (case ps_GetCapabilities st of
       Inr resp \<Rightarrow> Some (capabilitiesToReported (convert_capabilities resp))
     | Inl e \<Rightarrow> ps_ReportedCapabilities (pk_status p))"
proof -
  have caps: "pi_GetCapabilities (client_instance w st) =
      Some (case ps_GetCapabilities st of Inl e \<Rightarrow> Inl (mapGRPCError ''get capabilities'' e) | Inr resp \<Rightarrow> Inr (convert_capabilities resp))"
    by (simp add: client_instance_def Client_GetCapabilities_def call_rpc_def invoke_def NewClient_def Let_def split: sum.split)
  show ?thesis using assms caps
    by (auto simp: complete_status_def derive_health_def observe_generation_def runtime_running_def reconcileReportedCapabilities_def
        no_capabilities_def prov_cond_def Let_def split: sum.splits)
qed

lemma running_runtime:
  assumes "reconcileRemoteRuntime env p rt s = (s', p', res)" "runtime_running p'"
  shows "available p'"
  using assms
  by (auto simp: reconcileRemoteRuntime_def runtime_failed_def record_runtime_def runtime_running_def Let_def
      split: option.splits sum.splits prod.splits bool.splits if_splits)

lemma reported_frame [simp]:
  "ps_ReportedCapabilities (pk_status (prov_cond env ty st rs msg p)) = ps_ReportedCapabilities (pk_status p)"
  "ps_ReportedCapabilities (pk_status (set_runtime f p)) = ps_ReportedCapabilities (pk_status p)"
  by (simp_all add: prov_cond_def set_runtime_def)

lemma runtime_keeps_reported:
  assumes "reconcileRemoteRuntime env p rt s = (s', p', res)"
  shows "ps_ReportedCapabilities (pk_status p') = ps_ReportedCapabilities (pk_status p)"
proof -
  have "ps_ReportedCapabilities (pk_status p1) = ps_ReportedCapabilities (pk_status p)"
    if "evaluateTLSPosture env p = (p1, b)" for p1 b
    using that by (auto simp: evaluateTLSPosture_def split: option.splits if_splits)
  with assms show ?thesis
    by (auto simp: reconcileRemoteRuntime_def runtime_failed_def record_runtime_def Let_def
        split: option.splits sum.splits prod.splits bool.splits if_splits)
qed

definition or_default :: "'a list \<Rightarrow> 'a list \<Rightarrow> 'a list" where
  "or_default d xs = (if xs = [] then d else xs)"

text \<open>
  C24. What a provider advertises over gRPC is what the gates of the migration controller read: when a
  reconcile of the Provider ends with the runtime running and the provider answers GetCapabilities, every
  status it writes makes the export and import backends and the transfer modes that the gates see those
  of the answer, the defaults standing for an empty list, and the image-import gate's flag that of the
  answer; when the call fails, the capabilities of the object that was read are kept.
\<close>

theorem advertised_capabilities_reach_the_gates:
  assumes "Prov_Reconcile env key s = (s', out)" "pe_get_provider env (pn_ops s) key = Inr p" "pk_Runtime p = Some rt"
    and "(PwStatus q, ok) \<in> set (drop (length (pn_log s)) (pn_log s'))" "runtime_running q"
    and "pe_resolver env = Some f" "\<And>x. f x = Inr (client_instance w st)"
  shows "case ps_GetCapabilities st of
      Inr resp \<Rightarrow>
        reportedExportBackends (provider_of q) = or_default PVCOnlyExportBackends (pca_SupportedExportBackends resp) \<and>
        reportedImportBackends (provider_of q) = or_default PVCOnlyImportBackends (pca_SupportedImportBackends resp) \<and>
        reportedTransferModes (provider_of q) = or_default RelayOnlyTransferModes (pca_SupportedTransferModes resp) \<and>
        map_option rp_SupportsImageImport (pv_ReportedCapabilities (provider_of q)) = Some (pca_SupportsImageImport resp)
    | Inl e \<Rightarrow> pv_ReportedCapabilities (provider_of q) = pv_ReportedCapabilities (provider_of p)"
proof -
  obtain s1 p1 res count where run: "reconcileRemoteRuntime env (started p) rt (s\<lparr>pn_ops := Suc (pn_ops s)\<rparr>) = (s1, p1, res)"
      "pk_status q = pk_status (complete_status env count p1)"
    using written_status [OF assms(1,2,4,3)] by blast
  have "runtime_running p1" using assms(5) run(2) by (simp add: runtime_running_def complete_status_frame(2))
  moreover have "available p1" by (rule running_runtime [OF run(1) calculation])
  ultimately have "ps_ReportedCapabilities (pk_status q) = (case ps_GetCapabilities st of
       Inr resp \<Rightarrow> Some (capabilitiesToReported (convert_capabilities resp)) | Inl e \<Rightarrow> ps_ReportedCapabilities (pk_status p))"
    unfolding run(2) using capabilities_of_complete [OF _ _ assms(6,7)] runtime_keeps_reported [OF run(1)]
    by (simp add: started_def start_runtime_status_def split: sum.split)
  then show ?thesis
    by (simp add: provider_of_def reportedExportBackends_def reportedImportBackends_def reportedTransferModes_def or_default_def
        capabilitiesToReported_def convert_capabilities_def split: sum.split)
qed

definition sample_advert :: pb_capabilities where
  "sample_advert = \<lparr>pca_SupportsReconfigureOnline = False, pca_SupportsDiskExpansionOnline = False, pca_SupportsSnapshots = True,
     pca_SupportsMemorySnapshots = False, pca_SupportsLinkedClones = False, pca_SupportsImageImport = True, pca_SupportedDiskTypes = [],
     pca_SupportedNetworkTypes = [], pca_SupportsDiskExport = True, pca_SupportsDiskImport = True, pca_SupportedExportFormats = [],
     pca_SupportedImportFormats = [], pca_SupportsExportCompression = False, pca_SupportedExportBackends = [''pvc'', ''s3''],
     pca_SupportedImportBackends = [], pca_SupportedTransferModes = []\<rparr>"

definition sample_reporting :: provider_stub where
  "sample_reporting = (sample_stub (PlainError ''''))\<lparr>ps_GetCapabilities := Inr sample_advert\<rparr>"

theorem advertised_capabilities_reach_the_gates_witness:
  "\<exists>q. (PwStatus q, True) \<in> set (pn_log (fst (Prov_Reconcile
       (sample_running_env (Some (\<lambda>_. Inr (client_instance sample_codec sample_reporting)))) (''ops'', ''kvm'') prov_start))) \<and>
     reportedExportBackends (provider_of q) = [''pvc'', ''s3''] \<and> reportedTransferModes (provider_of q) = RelayOnlyTransferModes"
proof -
  let ?env = "sample_running_env (Some (\<lambda>_. Inr (client_instance sample_codec sample_reporting)))"
  obtain s' out where run: "Prov_Reconcile ?env (''ops'', ''kvm'') prov_start = (s', out)" by (metis surj_pair)
  obtain q where q: "(PwStatus q, True) \<in> set (pn_log s')" "runtime_running q"
    using sample_running_status [of "Some (\<lambda>_. Inr (client_instance sample_codec sample_reporting))"] run
    by (auto simp: runtime_running_def)
  have m: "(PwStatus q, True) \<in> set (drop (length (pn_log prov_start)) (pn_log s'))" using q(1) by (simp add: prov_start_def)
  have e: "pe_get_provider ?env n k = Inr sample_cr" "pk_Runtime sample_cr = Some sample_runtime"
    "pe_resolver ?env = Some (\<lambda>_. Inr (client_instance sample_codec sample_reporting))" for n k
    by (simp_all add: sample_running_env_def sample_prov_env_def sample_cr_def)
  from advertised_capabilities_reach_the_gates [OF run e(1,2) m q(2) e(3) refl] run q(1) show ?thesis
    by (auto simp: sample_reporting_def sample_advert_def or_default_def)
qed

end
