(* ===== verification/SdkErrors.thy ===== *)
theory SdkErrors
  imports GrpcClient
begin

text \<open>
  The error package the providers are written with (\<^verbatim>\<open>sdk/provider/errors/errors.go\<close>) and what becomes of
  its errors on the way to the manager. An \<^verbatim>\<open>error\<close> value is an option, \<open>None\<close> the nil interface, over the
  dynamic types the package meets: its own \<^verbatim>\<open>*ProviderError\<close>, that pointer type holding nil (which is not the
  nil interface), the package's sentinels, a gRPC status error, a \<^verbatim>\<open>fmt.Errorf\<close> value that wraps another error,
  and an opaque error. A call returns a value or panics. The fields \<^verbatim>\<open>Details\<close>, never filled by this package,
  is not modelled.
\<close>

datatype 'a go_call = Returns 'a | Panics string

definition nil_dereference :: "'a go_call" where
  "nil_dereference = Panics ''runtime error: invalid memory address or nil pointer dereference''"

datatype sentinel =
    ErrInvalidSpec | ErrNotFound | ErrAlreadyExists | ErrPermissionDenied | ErrUnavailable
  | ErrInternal | ErrUnimplemented | ErrTimeout | ErrCanceled

primrec sentinel_text :: "sentinel \<Rightarrow> string" where
  "sentinel_text ErrInvalidSpec = ''invalid specification''"
| "sentinel_text ErrNotFound = ''resource not found''"
| "sentinel_text ErrAlreadyExists = ''resource already exists''"
| "sentinel_text ErrPermissionDenied = ''permission denied''"
| "sentinel_text ErrUnavailable = ''service unavailable''"
| "sentinel_text ErrInternal = ''internal error''"
| "sentinel_text ErrUnimplemented = ''operation not implemented''"
| "sentinel_text ErrTimeout = ''operation timeout''"
| "sentinel_text ErrCanceled = ''operation canceled''"

datatype sdk_error =
    SdkError (se_Code: grpc_code) (se_Message: string) (se_Cause: "sdk_error option") (se_Retryable: bool)
      (se_RetryAfter: int)
  | NilSdkError
  | Sentinel sentinel
  | GrpcStatus grpc_code string
  | Wrapped string sdk_error
  | Opaque string

section \<open>Text, causes and status\<close>

text \<open>How \<^verbatim>\<open>%v\<close> prints an error: \<^verbatim>\<open>fmt\<close> shows a nil pointer whose method panics as \<^verbatim>\<open><nil>\<close>.\<close>

primrec fmt_error :: "sdk_error \<Rightarrow> string" where
  "fmt_error (SdkError c m cause r a) =
     (case map_option fmt_error cause of Some ct \<Rightarrow> m @ '': '' @ ct | None \<Rightarrow> m)"
| "fmt_error NilSdkError = ''<nil>''"
| "fmt_error (Sentinel s) = sentinel_text s"
| "fmt_error (GrpcStatus c m) = ''rpc error: code = '' @ grpc_code_string c @ '' desc = '' @ m"
| "fmt_error (Wrapped p e) = p @ fmt_error e"
| "fmt_error (Opaque m) = m"

text \<open>A direct call of \<^verbatim>\<open>Error\<close>.\<close>

definition sdk_Error :: "sdk_error \<Rightarrow> string go_call" where
  "sdk_Error e = (if e = NilSdkError then nil_dereference else Returns (fmt_error e))"

text \<open>\<^verbatim>\<open>errors.Is(err, target)\<close> for a sentinel: the end of the unwrap chain; unwrapping a nil pointer panics.\<close>

fun root_cause :: "sdk_error \<Rightarrow> sdk_error" where
  "root_cause (SdkError c m (Some e) r a) = root_cause e"
| "root_cause (Wrapped p e) = root_cause e"
| "root_cause e = e"

definition errors_is :: "sdk_error \<Rightarrow> sentinel \<Rightarrow> bool go_call" where
  "errors_is e s =
     (if root_cause e = NilSdkError then nil_dereference else Returns (root_cause e = Sentinel s))"

text \<open>\<^verbatim>\<open>(*ProviderError).GRPCStatus\<close>, and \<^verbatim>\<open>Err\<close> of a status: code \<^verbatim>\<open>OK\<close> is the nil error.\<close>

definition GRPCStatus :: "sdk_error \<Rightarrow> grpc_code \<times> string" where
  "GRPCStatus e = (se_Code e, fmt_error e)"

definition status_Err :: "grpc_code \<times> string \<Rightarrow> sdk_error option" where
  "status_Err st = (if fst st = CodeOK then None else Some (GrpcStatus (fst st) (snd st)))"

text \<open>
  \<^verbatim>\<open>status.FromError\<close>: the status of the first error on the chain that has one; below a wrapper the message is
  the whole error's text.
\<close>

fun chain_status :: "sdk_error \<Rightarrow> grpc_code option go_call" where
  "chain_status (SdkError c m cause r a) = Returns (Some c)"
| "chain_status (GrpcStatus c m) = Returns (Some c)"
| "chain_status NilSdkError = nil_dereference"
| "chain_status (Wrapped p e) = chain_status e"
| "chain_status (Sentinel s) = Returns None"
| "chain_status (Opaque m) = Returns None"

definition status_FromError :: "sdk_error \<Rightarrow> (grpc_code \<times> string) option go_call" where
  "status_FromError e =
     (case chain_status e of
        Panics p \<Rightarrow> Panics p
      | Returns None \<Rightarrow> Returns None
      | Returns (Some c) \<Rightarrow> Returns (Some (c, case e of GrpcStatus _ m \<Rightarrow> m | _ \<Rightarrow> fmt_error e)))"

section \<open>Constructors\<close>

definition NewInvalidSpec :: "string \<Rightarrow> sdk_error" where
  "NewInvalidSpec message = SdkError CodeInvalidArgument message None False 0"

definition quoted :: "(string \<Rightarrow> string) \<Rightarrow> string \<Rightarrow> string \<Rightarrow> string \<Rightarrow> string" where
  "quoted q resource i suffix = resource @ '' '' @ q i @ suffix"

text \<open>\<open>q\<close> is \<^verbatim>\<open>%q\<close>; \<open>d\<close> prints a duration.\<close>

definition NewNotFound :: "(string \<Rightarrow> string) \<Rightarrow> string \<Rightarrow> string \<Rightarrow> sdk_error" where
  "NewNotFound q resource i = SdkError CodeNotFound (quoted q resource i '' not found'') None False 0"

definition NewAlreadyExists :: "(string \<Rightarrow> string) \<Rightarrow> string \<Rightarrow> string \<Rightarrow> sdk_error" where
  "NewAlreadyExists q resource i = SdkError CodeAlreadyExists (quoted q resource i '' already exists'') None False 0"

definition NewPermissionDenied :: "string \<Rightarrow> sdk_error" where
  "NewPermissionDenied operation = SdkError CodePermissionDenied (''permission denied: '' @ operation) None False 0"

definition NewUnavailable :: "string \<Rightarrow> sdk_error option \<Rightarrow> sdk_error" where
  "NewUnavailable service cause = SdkError CodeUnavailable (''service unavailable: '' @ service) cause True 0"

definition NewInternal :: "string \<Rightarrow> sdk_error option \<Rightarrow> sdk_error" where
  "NewInternal message cause = SdkError CodeInternal message cause False 0"

definition NewUnimplemented :: "string \<Rightarrow> sdk_error" where
  "NewUnimplemented operation = SdkError CodeUnimplemented (''operation not implemented: '' @ operation) None False 0"

definition NewTimeout :: "(int \<Rightarrow> string) \<Rightarrow> string \<Rightarrow> int \<Rightarrow> sdk_error" where
  "NewTimeout d operation duration =
     SdkError CodeDeadlineExceeded (''operation '' @ operation @ '' timed out after '' @ d duration) None True 0"

definition NewRateLimit :: "int \<Rightarrow> sdk_error" where
  "NewRateLimit retryAfter = SdkError CodeResourceExhausted ''rate limit exceeded'' None True retryAfter"

definition NewCanceled :: "string \<Rightarrow> sdk_error" where
  "NewCanceled operation = SdkError CodeCanceled (''operation canceled: '' @ operation) None False 0"

section \<open>Classification and conversion\<close>

definition isRetryable :: "grpc_code \<Rightarrow> bool" where
  "isRetryable code \<longleftrightarrow> code \<in> {CodeUnavailable, CodeResourceExhausted, CodeDeadlineExceeded}"

fun first_sentinel :: "sdk_error \<Rightarrow> (sentinel \<times> grpc_code) list \<Rightarrow> grpc_code \<Rightarrow> grpc_code go_call" where
  "first_sentinel e [] def = Returns def"
| "first_sentinel e ((s, c) # rest) def =
     (case errors_is e s of
        Panics p \<Rightarrow> Panics p
      | Returns b \<Rightarrow> if b then Returns c else first_sentinel e rest def)"

definition classifyError :: "sdk_error \<Rightarrow> grpc_code go_call" where
  "classifyError e =
     first_sentinel e
       [(ErrInvalidSpec, CodeInvalidArgument), (ErrNotFound, CodeNotFound), (ErrAlreadyExists, CodeAlreadyExists),
        (ErrPermissionDenied, CodePermissionDenied), (ErrUnavailable, CodeUnavailable),
        (ErrUnimplemented, CodeUnimplemented), (ErrTimeout, CodeDeadlineExceeded), (ErrCanceled, CodeCanceled)]
       CodeInternal"

text \<open>\<^verbatim>\<open>Wrap\<close> and \<^verbatim>\<open>FromGRPCError\<close> return a \<^verbatim>\<open>*ProviderError\<close>: nil comes back as the nil pointer.\<close>

definition Wrap :: "sdk_error option \<Rightarrow> string \<Rightarrow> sdk_error go_call" where
  "Wrap err message =
     (case err of
        None \<Rightarrow> Returns NilSdkError
      | Some NilSdkError \<Rightarrow> nil_dereference
      | Some (SdkError c m cause r a) \<Rightarrow> Returns (SdkError c message (Some (SdkError c m cause r a)) r a)
      | Some e \<Rightarrow>
          (case classifyError e of
             Panics p \<Rightarrow> Panics p
           | Returns code \<Rightarrow> Returns (SdkError code message (Some e) (isRetryable code) 0)))"

definition ToGRPCError :: "sdk_error option \<Rightarrow> sdk_error option go_call" where
  "ToGRPCError err =
     (case err of
        None \<Rightarrow> Returns None
      | Some NilSdkError \<Rightarrow> nil_dereference
      | Some (SdkError c m cause r a) \<Rightarrow> Returns (status_Err (GRPCStatus (SdkError c m cause r a)))
      | Some e \<Rightarrow> Returns (status_Err (CodeInternal, fmt_error e)))"

definition FromGRPCError :: "sdk_error option \<Rightarrow> sdk_error go_call" where
  "FromGRPCError err =
     (case err of
        None \<Rightarrow> Returns NilSdkError
      | Some e \<Rightarrow>
          (case status_FromError e of
             Panics p \<Rightarrow> Panics p
           | Returns None \<Rightarrow> Returns (NewInternal ''unknown error'' (Some e))
           | Returns (Some (c, m)) \<Rightarrow> Returns (SdkError c m None (isRetryable c) 0)))"

definition sdk_IsRetryable :: "sdk_error option \<Rightarrow> bool go_call" where
  "sdk_IsRetryable err =
     (case err of
        None \<Rightarrow> Returns False
      | Some NilSdkError \<Rightarrow> nil_dereference
      | Some (SdkError c m cause r a) \<Rightarrow> Returns r
      | Some e \<Rightarrow>
          (case status_FromError e of
             Panics p \<Rightarrow> Panics p
           | Returns (Some (c, m)) \<Rightarrow> Returns (isRetryable c)
           | Returns None \<Rightarrow> Returns False))"

text \<open>The shape \<^verbatim>\<open>IsNotFound\<close> and \<^verbatim>\<open>IsInvalidSpec\<close> share; the status of the nil error is \<^verbatim>\<open>OK\<close>.\<close>

definition has_code :: "grpc_code \<Rightarrow> sentinel \<Rightarrow> sdk_error option \<Rightarrow> bool go_call" where
  "has_code code s err =
     (case err of
        None \<Rightarrow> Returns False
      | Some NilSdkError \<Rightarrow> nil_dereference
      | Some (SdkError c m cause r a) \<Rightarrow> Returns (c = code)
      | Some e \<Rightarrow>
          (case status_FromError e of
             Panics p \<Rightarrow> Panics p
           | Returns (Some (c, m)) \<Rightarrow> Returns (c = code)
           | Returns None \<Rightarrow> errors_is e s))"

definition sdk_IsNotFound :: "sdk_error option \<Rightarrow> bool go_call" where
  "sdk_IsNotFound = has_code CodeNotFound ErrNotFound"

definition sdk_IsInvalidSpec :: "sdk_error option \<Rightarrow> bool go_call" where
  "sdk_IsInvalidSpec = has_code CodeInvalidArgument ErrInvalidSpec"

section \<open>Errors a provider can make\<close>

text \<open>
  What a provider gets from the package: the constructors, the conversion of a status it received, and
  \<^verbatim>\<open>Wrap\<close> around one of these or around any error that is not a \<^verbatim>\<open>*ProviderError\<close>.
\<close>

inductive sdk_made :: "sdk_error \<Rightarrow> bool" where
  "sdk_made (NewInvalidSpec m)"
| "sdk_made (NewNotFound q resource i)"
| "sdk_made (NewAlreadyExists q resource i)"
| "sdk_made (NewPermissionDenied operation)"
| "sdk_made (NewUnavailable service cause)"
| "sdk_made (NewInternal m cause)"
| "sdk_made (NewUnimplemented operation)"
| "sdk_made (NewTimeout d operation t)"
| "sdk_made (NewRateLimit t)"
| "sdk_made (NewCanceled operation)"
| received: "c \<noteq> CodeOK \<Longrightarrow> FromGRPCError (Some (GrpcStatus c m)) = Returns e \<Longrightarrow> sdk_made e"
| wrapped: "Wrap (Some e) m = Returns e' \<Longrightarrow> (is_SdkError e \<Longrightarrow> sdk_made e) \<Longrightarrow> sdk_made e'"

lemmas sdk_constructors =
  NewInvalidSpec_def NewNotFound_def NewAlreadyExists_def NewPermissionDenied_def NewUnavailable_def NewInternal_def
  NewUnimplemented_def NewTimeout_def NewRateLimit_def NewCanceled_def

lemma first_sentinel_code: "first_sentinel e xs d = Returns c \<Longrightarrow> c = d \<or> c \<in> snd ` set xs"
  by (induction e xs d rule: first_sentinel.induct) (auto split: go_call.splits if_splits)

lemma classifyError_not_ok: "classifyError e = Returns c \<Longrightarrow> c \<noteq> CodeOK"
  unfolding classifyError_def by (drule first_sentinel_code) auto

text \<open>The retry flag of such an error is the one its code implies, and its code is an error code.\<close>

definition sdk_coherent :: "sdk_error \<Rightarrow> bool" where
  "sdk_coherent e \<longleftrightarrow> is_SdkError e \<and> se_Code e \<noteq> CodeOK \<and> se_Retryable e = isRetryable (se_Code e)"

lemma Wrap_coherent:
  assumes "Wrap (Some e) m = Returns e'" "is_SdkError e \<Longrightarrow> sdk_coherent e"
  shows "sdk_coherent e'"
  using assms
  by (cases e) (auto simp: Wrap_def sdk_coherent_def nil_dereference_def dest: classifyError_not_ok split: go_call.splits)

lemma sdk_made_coherent: "sdk_made e \<Longrightarrow> sdk_coherent e"
proof (induction rule: sdk_made.induct)
  case (received c m e)
  then show ?case by (auto simp: FromGRPCError_def status_FromError_def sdk_coherent_def)
next
  case (wrapped e m e')
  from wrapped.hyps(1) wrapped.IH show ?case by (rule Wrap_coherent)
qed (simp_all add: sdk_coherent_def sdk_constructors isRetryable_def)

lemma coherent_cases:
  assumes "sdk_coherent e"
  obtains c m cause a where "e = SdkError c m cause (isRetryable c) a" "c \<noteq> CodeOK"
  using assms by (cases e) (auto simp: sdk_coherent_def)

lemma ToGRPCError_coherent:
  "sdk_coherent e \<Longrightarrow> ToGRPCError (Some e) = Returns (Some (GrpcStatus (se_Code e) (fmt_error e)))"
  by (elim coherent_cases) (simp add: ToGRPCError_def status_Err_def GRPCStatus_def)

lemma FromGRPCError_status:
  "FromGRPCError (Some (GrpcStatus c m)) = Returns (SdkError c m None (isRetryable c) 0)"
  by (simp add: FromGRPCError_def status_FromError_def)

text \<open>
  C14. The SDK's errors survive the wire. Whatever error a provider makes with the package, wrapped any number
  of times, is sent as a status with its code and its text; the error the receiver rebuilds from that status has
  the same code, text, retry flag and not-found and invalid-specification classification, and being sent on
  again yields the same status. Only the retry delay does not survive.
\<close>

theorem sdk_error_roundtrip:
  assumes "sdk_made e"
  shows "\<exists>w e'. ToGRPCError (Some e) = Returns (Some w) \<and> FromGRPCError (Some w) = Returns e' \<and>
     w = GrpcStatus (se_Code e) (fmt_error e) \<and> se_Code e' = se_Code e \<and> fmt_error e' = fmt_error e \<and>
     sdk_IsRetryable (Some e') = sdk_IsRetryable (Some e) \<and> sdk_IsNotFound (Some e') = sdk_IsNotFound (Some e) \<and>
     sdk_IsInvalidSpec (Some e') = sdk_IsInvalidSpec (Some e) \<and> ToGRPCError (Some e') = Returns (Some w) \<and>
     se_RetryAfter e' = 0"
proof -
  from sdk_made_coherent [OF assms] obtain c m cause a
    where e: "e = SdkError c m cause (isRetryable c) a" "c \<noteq> CodeOK" by (rule coherent_cases)
  let ?e' = "SdkError c (fmt_error e) None (isRetryable c) 0"
  have "sdk_coherent ?e'" using e by (simp add: sdk_coherent_def)
  then have "ToGRPCError (Some ?e') = Returns (Some (GrpcStatus c (fmt_error e)))" by (simp add: ToGRPCError_coherent)
  moreover have "ToGRPCError (Some e) = Returns (Some (GrpcStatus c (fmt_error e)))"
    using ToGRPCError_coherent [OF sdk_made_coherent [OF assms]] e by simp
  ultimately show ?thesis using e
    by (intro exI [of _ "GrpcStatus c (fmt_error e)"] exI [of _ ?e'])
       (simp add: FromGRPCError_status sdk_IsRetryable_def sdk_IsNotFound_def sdk_IsInvalidSpec_def has_code_def)
qed

text \<open>The witness: a missing machine, wrapped once.\<close>

theorem sdk_error_roundtrip_witness:
  "\<exists>e w e'. Wrap (Some (NewNotFound (\<lambda>s. s) ''VM'' ''vm-9'')) ''describe'' = Returns e \<and>
     ToGRPCError (Some e) = Returns (Some w) \<and> FromGRPCError (Some w) = Returns e' \<and>
     w = GrpcStatus CodeNotFound ''describe: VM vm-9 not found'' \<and> sdk_IsNotFound (Some e') = Returns True"
proof -
  let ?n = "NewNotFound (\<lambda>s. s) ''VM'' ''vm-9''"
  let ?e = "SdkError CodeNotFound ''describe'' (Some ?n) False 0"
  have w: "Wrap (Some ?n) ''describe'' = Returns ?e" by (simp add: Wrap_def NewNotFound_def)
  have "sdk_made ?e" by (rule sdk_made.wrapped [OF w]) (rule sdk_made.intros)
  from sdk_error_roundtrip [OF this] obtain w e' where r:
    "ToGRPCError (Some ?e) = Returns (Some w)" "FromGRPCError (Some w) = Returns e'"
    "w = GrpcStatus (se_Code ?e) (fmt_error ?e)" "sdk_IsNotFound (Some e') = sdk_IsNotFound (Some ?e)" by blast
  from r(3) have "w = GrpcStatus CodeNotFound ''describe: VM vm-9 not found''" by (simp add: NewNotFound_def quoted_def)
  moreover from r(4) have "sdk_IsNotFound (Some e') = Returns True" by (simp add: sdk_IsNotFound_def has_code_def)
  ultimately show ?thesis using w r(1,2) by blast
qed

section \<open>What the manager makes of them\<close>

text \<open>The status as the manager's stub reports it.\<close>

definition on_the_wire :: "sdk_error \<Rightarrow> go_error" where
  "on_the_wire w = (case w of GrpcStatus c m \<Rightarrow> GrpcError c m | _ \<Rightarrow> GrpcError CodeUnknown (fmt_error w))"

definition manager_retries :: "go_error \<Rightarrow> bool" where
  "manager_retries e \<longleftrightarrow>
     (case as_provider_error e of
        Some (ProviderError t m c r) \<Rightarrow> provider_is_retryable t r
      | _ \<Rightarrow> False)"

definition manager_invalid_spec :: "go_error \<Rightarrow> bool" where
  "manager_invalid_spec e \<longleftrightarrow>
     (case as_provider_error e of Some pe \<Rightarrow> pe_type pe = ErrorTypeInvalidSpec | None \<Rightarrow> False)"



end
