(* ===== verification/SdkClient.thy ===== *)
theory SdkClient
  imports SdkErrors
begin

text \<open>
  The SDK's gRPC client (\<^verbatim>\<open>sdk/provider/client/client.go\<close>). The generated stub is the parameter: for every call
  deadline, what the provider process answers. The n-th poll of a task is a call of its own. A method returns the
  pair of a response and an \<^verbatim>\<open>error\<close> interface value. Loading key pairs and dialing are parameters.
\<close>

section \<open>Configuration\<close>

record client_tls =
  kt_Enabled :: bool
  kt_InsecureSkipVerify :: bool
  kt_ServerName :: string
  kt_CertFile :: string
  kt_KeyFile :: string
  kt_CAFile :: string

record timeout_config =
  to_DialTimeout :: int
  to_CallTimeout :: int
  to_PerMethodTimeouts :: "string \<rightharpoonup> int"

record client_retry =
  kr_Enabled :: bool
  kr_MaxAttempts :: int
  kr_InitialBackoff :: int
  kr_MaxBackoff :: int

record client_keepalive =
  kk_Time :: int
  kk_Timeout :: int
  kk_PermitWithoutStream :: bool

record client_config =
  kc_Address :: string
  kc_TLS :: "client_tls option"
  kc_Timeout :: "timeout_config option"
  kc_Retry :: "client_retry option"
  kc_KeepAlive :: "client_keepalive option"

text \<open>The multiplier of the retry settings is a floating-point number and left out.\<close>

definition client_DefaultConfig :: "string \<Rightarrow> client_config" where
  "client_DefaultConfig address =
     \<lparr>kc_Address = address,
      kc_TLS = Some \<lparr>kt_Enabled = False, kt_InsecureSkipVerify = False, kt_ServerName = '''', kt_CertFile = '''',
        kt_KeyFile = '''', kt_CAFile = ''''\<rparr>,
      kc_Timeout = Some \<lparr>to_DialTimeout = 10 * second, to_CallTimeout = 30 * second, to_PerMethodTimeouts = Map.empty\<rparr>,
      kc_Retry = Some \<lparr>kr_Enabled = True, kr_MaxAttempts = 3, kr_InitialBackoff = 100 * millisecond,
        kr_MaxBackoff = 5 * second\<rparr>,
      kc_KeepAlive = Some \<lparr>kk_Time = 30 * second, kk_Timeout = 5 * second, kk_PermitWithoutStream = True\<rparr>\<rparr>"

section \<open>Connecting\<close>

text \<open>What of \<^verbatim>\<open>tls.Config\<close> is set; no trust roots means the roots of the host.\<close>

record 'cert client_creds =
  cr_ServerName :: string
  cr_InsecureSkipVerify :: bool
  cr_Certificates :: "'cert list"
  cr_RootCAs :: "'cert option"

definition client_buildTLSCredentials ::
  "(string \<Rightarrow> string \<Rightarrow> sdk_error + 'cert) \<Rightarrow> client_tls \<Rightarrow> sdk_error + 'cert client_creds" where
  "client_buildTLSCredentials load config =
     (let tlsConfig = \<lparr>cr_ServerName = kt_ServerName config, cr_InsecureSkipVerify = kt_InsecureSkipVerify config,
            cr_Certificates = [], cr_RootCAs = None\<rparr>
      in if kt_CertFile config \<noteq> '''' \<and> kt_KeyFile config \<noteq> '''' then
           (case load (kt_CertFile config) (kt_KeyFile config) of
              Inl err \<Rightarrow> Inl (Wrapped ''failed to load client certificate: '' err)
            | Inr cert \<Rightarrow> Inr (tlsConfig\<lparr>cr_Certificates := [cert]\<rparr>))
         else Inr tlsConfig)"

text \<open>The options a connection is dialed with; no credentials is plaintext.\<close>

record 'cert dial_options =
  do_Creds :: "'cert client_creds option"
  do_KeepAlive :: "client_keepalive option"
  do_Timeout :: "int option"

record 'cert sdk_client =
  sk_config :: client_config
  sk_conn :: "'cert dial_options"

definition client_New ::
  "(string \<Rightarrow> string \<Rightarrow> sdk_error + 'cert) \<Rightarrow> (string \<Rightarrow> 'cert dial_options \<Rightarrow> sdk_error option) \<Rightarrow>
   client_config option \<Rightarrow> sdk_error + 'cert sdk_client" where
  "client_New load dial config =
     (case config of
        None \<Rightarrow> Inl (Opaque ''config is required'')
      | Some config \<Rightarrow>
          if kc_Address config = '''' then Inl (Opaque ''address is required'')
          else
            (case (case kc_TLS config of
                     Some tls \<Rightarrow> if kt_Enabled tls then map_sum id Some (client_buildTLSCredentials load tls) else Inr None
                   | None \<Rightarrow> Inr None) of
               Inl err \<Rightarrow> Inl (Wrapped ''failed to build TLS credentials: '' err)
             | Inr creds \<Rightarrow>
                 let opts = \<lparr>do_Creds = creds, do_KeepAlive = kc_KeepAlive config,
                       do_Timeout = (case kc_Timeout config of
                           Some t \<Rightarrow> if to_DialTimeout t > 0 then Some (to_DialTimeout t) else None
                         | None \<Rightarrow> None)\<rparr>
                 in case dial (kc_Address config) opts of
                      Some err \<Rightarrow>
                        Inl (Wrapped (''failed to dial provider at '' @ kc_Address config @ '': '') err)
                    | None \<Rightarrow> Inr \<lparr>sk_config = config, sk_conn = opts\<rparr>))"

text \<open>A deadline never moves past the one the caller already has.\<close>

definition context_WithTimeout :: "int \<Rightarrow> int option \<Rightarrow> int \<Rightarrow> int option" where
  "context_WithTimeout now deadline timeout =
     Some (case deadline of None \<Rightarrow> now + timeout | Some d \<Rightarrow> min d (now + timeout))"

definition withTimeout :: "client_config \<Rightarrow> int \<Rightarrow> int option \<Rightarrow> string \<Rightarrow> int option" where
  "withTimeout config now deadline method =
     (case kc_Timeout config of
        None \<Rightarrow> deadline
      | Some t \<Rightarrow>
          (case to_PerMethodTimeouts t method of
             Some timeout \<Rightarrow> context_WithTimeout now deadline timeout
           | None \<Rightarrow>
               if to_CallTimeout t > 0 then context_WithTimeout now deadline (to_CallTimeout t) else deadline))"

section \<open>Methods\<close>

text \<open>The error of the generated stub.\<close>

fun stub_error :: "go_error \<Rightarrow> sdk_error" where
  "stub_error (GrpcError c m) = GrpcStatus c m"
| "stub_error (WrapError p e) = Wrapped p (stub_error e)"
| "stub_error e = Opaque (error_string e)"

text \<open>
  The body the methods share: the call under its deadline, and \<^verbatim>\<open>FromGRPCError\<close> on its error. The pointer that
  function returns is converted to the interface type \<^verbatim>\<open>error\<close>, which makes a nil pointer a non-nil error.
\<close>

definition sdk_call :: "'r result \<Rightarrow> ('r option \<times> sdk_error option) go_call" where
  "sdk_call r =
     (case FromGRPCError (case r of Inl e \<Rightarrow> Some (stub_error e) | Inr _ \<Rightarrow> None) of
        Panics p \<Rightarrow> Panics p
      | Returns pe \<Rightarrow> Returns (case r of Inl _ \<Rightarrow> None | Inr resp \<Rightarrow> Some resp, Some pe))"

record sdk_context =
  sx_config :: client_config
  sx_now :: int
  sx_deadline :: "int option"
  sx_stub :: "int option \<Rightarrow> provider_stub"

definition sdk_stub :: "sdk_context \<Rightarrow> string \<Rightarrow> provider_stub" where
  "sdk_stub x method =
     sx_stub x (withTimeout (sx_config x) (sx_now x) (sx_deadline x) (''/provider.v1.Provider/'' @ method))"

definition sdk_Validate :: "sdk_context \<Rightarrow> (pb_validate_response option \<times> sdk_error option) go_call" where
  "sdk_Validate x = sdk_call (ps_Validate (sdk_stub x ''Validate''))"

definition sdk_Create ::
  "sdk_context \<Rightarrow> pb_create_request \<Rightarrow> (pb_create_response option \<times> sdk_error option) go_call" where
  "sdk_Create x req = sdk_call (ps_Create (sdk_stub x ''Create'') req)"

definition sdk_Delete :: "sdk_context \<Rightarrow> string \<Rightarrow> (string option option \<times> sdk_error option) go_call" where
  "sdk_Delete x req = sdk_call (ps_Delete (sdk_stub x ''Delete'') req)"

definition sdk_Power :: "sdk_context \<Rightarrow> pb_power_request \<Rightarrow> (string option option \<times> sdk_error option) go_call" where
  "sdk_Power x req = sdk_call (ps_Power (sdk_stub x ''Power'') req)"

definition sdk_Reconfigure ::
  "sdk_context \<Rightarrow> pb_reconfigure_request \<Rightarrow> (string option option \<times> sdk_error option) go_call" where
  "sdk_Reconfigure x req = sdk_call (ps_Reconfigure (sdk_stub x ''Reconfigure'') req)"

definition sdk_Describe :: "sdk_context \<Rightarrow> string \<Rightarrow> (pb_describe_response option \<times> sdk_error option) go_call" where
  "sdk_Describe x req = sdk_call (ps_Describe (sdk_stub x ''Describe'') req)"

definition sdk_ListVMs :: "sdk_context \<Rightarrow> (pb_vm_info list option \<times> sdk_error option) go_call" where
  "sdk_ListVMs x =
     (case ps_ListVMs (sdk_stub x ''ListVMs'') of
        Inl e \<Rightarrow>
          (case FromGRPCError (Some (stub_error e)) of
             Panics p \<Rightarrow> Panics p
           | Returns pe \<Rightarrow> Returns (None, Some pe))
      | Inr vms \<Rightarrow> Returns (Some vms, None))"

definition sdk_TaskStatus ::
  "sdk_context \<Rightarrow> string \<Rightarrow> nat \<Rightarrow> (pb_task_status option \<times> sdk_error option) go_call" where
  "sdk_TaskStatus x task n = sdk_call (ps_TaskStatus (sdk_stub x ''TaskStatus'') task n)"

definition sdk_SnapshotCreate ::
  "sdk_context \<Rightarrow> pb_snapshot_create_request \<Rightarrow> (pb_snapshot_create_response option \<times> sdk_error option) go_call" where
  "sdk_SnapshotCreate x req = sdk_call (ps_SnapshotCreate (sdk_stub x ''SnapshotCreate'') req)"

definition sdk_SnapshotDelete ::
  "sdk_context \<Rightarrow> string \<times> string \<Rightarrow> (string option option \<times> sdk_error option) go_call" where
  "sdk_SnapshotDelete x req = sdk_call (ps_SnapshotDelete (sdk_stub x ''SnapshotDelete'') req)"

definition sdk_SnapshotRevert ::
  "sdk_context \<Rightarrow> string \<times> string \<Rightarrow> (string option option \<times> sdk_error option) go_call" where
  "sdk_SnapshotRevert x req = sdk_call (ps_SnapshotRevert (sdk_stub x ''SnapshotRevert'') req)"

definition sdk_Clone ::
  "sdk_context \<Rightarrow> pb_clone_request \<Rightarrow> (pb_clone_response option \<times> sdk_error option) go_call" where
  "sdk_Clone x req = sdk_call (ps_Clone (sdk_stub x ''Clone'') req)"

definition sdk_ImagePrepare ::
  "sdk_context \<Rightarrow> pb_image_prepare_request \<Rightarrow> (pb_image_prepare_response option \<times> sdk_error option) go_call" where
  "sdk_ImagePrepare x req = sdk_call (ps_ImagePrepare (sdk_stub x ''ImagePrepare'') req)"

definition sdk_GetCapabilities :: "sdk_context \<Rightarrow> (pb_capabilities option \<times> sdk_error option) go_call" where
  "sdk_GetCapabilities x = sdk_call (ps_GetCapabilities (sdk_stub x ''GetCapabilities''))"

section \<open>Waiting for a task\<close>

text \<open>
  The polling loop. Iteration \<open>n\<close> ends with the context's error when \<open>cancelled n\<close> gives one, the branch
  \<^verbatim>\<open>ctx.Done\<close> of the select, and polls otherwise; \<open>None\<close> is a loop that never returns.
\<close>

partial_function (option) wait_loop ::
  "(nat \<Rightarrow> sdk_context) \<Rightarrow> (nat \<Rightarrow> sdk_error option) \<Rightarrow> string \<Rightarrow> nat \<Rightarrow> sdk_error option go_call option" where
  "wait_loop x cancelled task n =
     (case cancelled n of
        Some e \<Rightarrow> Some (Returns (Some e))
      | None \<Rightarrow>
          (case sdk_TaskStatus (x n) task n of
             Panics p \<Rightarrow> Some (Panics p)
           | Returns (resp, Some err) \<Rightarrow> Some (Returns (Some (Wrapped ''failed to check task status: '' err)))
           | Returns (None, None) \<Rightarrow> Some nil_dereference
           | Returns (Some resp, None) \<Rightarrow>
               if pt_Done resp then
                 Some (Returns (if pt_Error resp \<noteq> '''' then Some (Opaque (''task failed: '' @ pt_Error resp)) else None))
               else wait_loop x cancelled task (Suc n)))"

definition WaitForTask ::
  "(nat \<Rightarrow> sdk_context) \<Rightarrow> (nat \<Rightarrow> sdk_error option) \<Rightarrow> string option \<Rightarrow> sdk_error option go_call option" where
  "WaitForTask x cancelled taskRef =
     (if task_id taskRef = '''' then Some (Returns None) else wait_loop x cancelled (task_id taskRef) 0)"

section \<open>Properties\<close>

text \<open>The deadline of a call is never later than the caller's, nor than the timeout configured for the method.\<close>

lemma withTimeout_bounded:
  "deadline = Some d \<Longrightarrow> \<exists>d'. withTimeout config now deadline method = Some d' \<and> d' \<le> d"
  "kc_Timeout config = Some t \<Longrightarrow> to_PerMethodTimeouts t method = Some m \<Longrightarrow>
     \<exists>d'. withTimeout config now deadline method = Some d' \<and> d' \<le> now + m"
  by (auto simp: withTimeout_def context_WithTimeout_def split: option.splits)

text \<open>A bundle of trust roots in the settings changes nothing.\<close>

lemma client_ca_ignored:
  "client_buildTLSCredentials load (tls\<lparr>kt_CAFile := ca\<rparr>) = client_buildTLSCredentials load tls"
  "client_buildTLSCredentials load tls = Inr creds \<Longrightarrow> cr_RootCAs creds = None"
  by (auto simp: client_buildTLSCredentials_def Let_def split: if_splits sum.splits)

lemma sdk_call_success: "sdk_call (Inr resp) = Returns (Some resp, Some NilSdkError)"
  by (simp add: sdk_call_def FromGRPCError_def)

lemma chain_status_stub: "\<exists>c. chain_status (stub_error e) = Returns c"
  by (induction e rule: stub_error.induct) auto

lemma status_FromError_stub: "\<exists>st. status_FromError (stub_error e) = Returns st"
  using chain_status_stub [of e] by (auto simp: status_FromError_def split: option.splits)

lemma sdk_call_error: "\<exists>pe. sdk_call (Inl e) = Returns (None, Some pe) \<and> is_SdkError pe"
  using status_FromError_stub [of e]
  by (auto simp: sdk_call_def FromGRPCError_def NewInternal_def split: option.splits)

text \<open>A call never panics and always hands back an error that is not nil.\<close>

lemma sdk_call_returns: "\<exists>resp e. sdk_call r = Returns (resp, Some e)"
  using sdk_call_error [of "projl r"] by (cases r) (auto simp: sdk_call_success)

lemma wait_loop_ends: "\<exists>e. wait_loop x cancelled task n = Some (Returns (Some e))"
  using sdk_call_returns [of "ps_TaskStatus (sdk_stub (x n) ''TaskStatus'') task n"]
  by (subst wait_loop.simps) (auto simp: sdk_TaskStatus_def split: option.splits)


definition idle_stub :: provider_stub where
  "idle_stub =
     (let no = GrpcError CodeUnimplemented ''not implemented'' in
      \<lparr>ps_Validate = Inl no, ps_Create = (\<lambda>_. Inr \<lparr>pr_Id = ''vm-7'', pr_Task = Some ''task-7''\<rparr>),
       ps_Delete = (\<lambda>_. Inl no), ps_Power = (\<lambda>_. Inl no), ps_Reconfigure = (\<lambda>_. Inl no),
       ps_Describe = (\<lambda>_. Inl no), ps_TaskStatus = (\<lambda>_ _. Inr \<lparr>pt_Done = True, pt_Error = ''''\<rparr>),
       ps_SnapshotCreate = (\<lambda>_. Inl no), ps_SnapshotDelete = (\<lambda>_. Inl no), ps_SnapshotRevert = (\<lambda>_. Inl no),
       ps_Clone = (\<lambda>_. Inl no), ps_ImagePrepare = (\<lambda>_. Inl no), ps_GetCapabilities = Inl no,
       ps_ExportDisk = (\<lambda>_. Inl no), ps_ImportDisk = (\<lambda>_. Inl no), ps_GetDiskInfo = (\<lambda>_. Inl no),
       ps_ListVMs = Inr []\<rparr>)"

definition sample_context :: sdk_context where
  "sample_context =
     \<lparr>sx_config = client_DefaultConfig ''provider:9443'', sx_now = 0, sx_deadline = None, sx_stub = (\<lambda>_. idle_stub)\<rparr>"


end
