(* ===== verification/SdkMiddleware.thy ===== *)
theory SdkMiddleware
  imports SdkErrors SdkTls
begin

text \<open>
  The interceptors of a provider's gRPC server (\<^verbatim>\<open>sdk/provider/middleware/middleware.go\<close>). A handler maps the
  request context and the provider's state to a new state and either a reply, the pair of a response and an error,
  or a panic. An interceptor turns a handler into a handler; the meth is an argument. Log lines are not modelled.
\<close>

section \<open>Requests\<close>

text \<open>What the checks read of a leaf certificate, of the peer and of the request context.\<close>

record x509_leaf =
  xl_DNSNames :: "string list"
  xl_URIs :: "string list"
  xl_CommonName :: string

datatype auth_info = TLSInfo (verified_chains: "x509_leaf list list") | OtherAuthInfo string

record rpc_context =
  rx_peer :: "auth_info option option"
  rx_metadata :: "(string \<Rightarrow> string list) option"
  rx_now :: int
  rx_deadline :: "int option"

type_synonym ('s, 'r) handler = "rpc_context \<Rightarrow> 's \<Rightarrow> 's \<times> ('r option \<times> sdk_error option) go_call"
type_synonym ('s, 'r) interceptor = "string \<Rightarrow> ('s, 'r) handler \<Rightarrow> ('s, 'r) handler"
type_synonym 's stream_handler = "rpc_context \<Rightarrow> 's \<Rightarrow> 's \<times> sdk_error option go_call"
type_synonym 's stream_interceptor = "string \<Rightarrow> 's stream_handler \<Rightarrow> 's stream_handler"

section \<open>Configuration\<close>

text \<open>\<^verbatim>\<open>AuthConfig\<close>: the fields the resolution of the transport fills, and those for bearer tokens.\<close>

record auth_settings = auth_config +
  ac_BearerTokenAuth :: bool
  ac_ValidateToken :: "(rpc_context \<Rightarrow> string \<Rightarrow> sdk_error option) option"

record mw_timeout =
  mt_DefaultTimeout :: int
  mt_PerMethod :: "string \<rightharpoonup> int"

text \<open>An optional part with only an \<^verbatim>\<open>Enabled\<close> flag that matters is that flag; nil is \<open>None\<close>.\<close>

record middleware_config =
  mw_Logging :: "bool option"
  mw_Recovery :: "bool option"
  mw_Auth :: "auth_settings option"
  mw_RateLimit :: "bool option"
  mw_Timeout :: "mw_timeout option"
  mw_Metrics :: "bool option"

section \<open>Authentication\<close>

definition certMatchesAllowList :: "x509_leaf \<Rightarrow> string list \<Rightarrow> bool" where
  "certMatchesAllowList leaf allowedSANs \<longleftrightarrow>
     list_ex (\<lambda>allowed.
        list_ex (\<lambda>dns. dns = allowed) (xl_DNSNames leaf) \<or>
        list_ex (\<lambda>uri. uri = allowed) (xl_URIs leaf) \<or>
        (xl_CommonName leaf \<noteq> '''' \<and> xl_CommonName leaf = allowed)) allowedSANs"

definition validateTLSPeer :: "rpc_context \<Rightarrow> string list \<Rightarrow> sdk_error option" where
  "validateTLSPeer ctx allowedSANs =
     (case rx_peer ctx of
        None \<Rightarrow> Some (GrpcStatus CodeUnauthenticated ''mTLS required: no peer information'')
      | Some None \<Rightarrow> Some (GrpcStatus CodeUnauthenticated ''mTLS required: connection is not TLS'')
      | Some (Some (OtherAuthInfo _)) \<Rightarrow>
          Some (GrpcStatus CodeUnauthenticated ''mTLS required: TLS handshake info unavailable'')
      | Some (Some (TLSInfo vchains)) \<Rightarrow>
          (case vchains of
             (leaf # _) # _ \<Rightarrow>
               if allowedSANs = [] then None
               else if certMatchesAllowList leaf allowedSANs then None
               else Some (GrpcStatus CodePermissionDenied ''client certificate does not match the configured allow-list'')
           | _ \<Rightarrow> Some (GrpcStatus CodeUnauthenticated ''mTLS required: no verified client certificate'')))"

definition validateBearerToken ::
  "rpc_context \<Rightarrow> (rpc_context \<Rightarrow> string \<Rightarrow> sdk_error option) option \<Rightarrow> sdk_error option go_call" where
  "validateBearerToken ctx validateFunc =
     (case rx_metadata ctx of
        None \<Rightarrow> Returns (Some (Opaque ''no metadata''))
      | Some md \<Rightarrow>
          (case md ''authorization'' of
             [] \<Rightarrow> Returns (Some (Opaque ''no authorization header''))
           | token # _ \<Rightarrow>
               if length token < 7 \<or> take 7 token \<noteq> ''Bearer '' then
                 Returns (Some (Opaque ''invalid authorization header format''))
               else (case validateFunc of
                       None \<Rightarrow> nil_dereference
                     | Some f \<Rightarrow> Returns (f ctx (drop 7 token)))))"

definition authenticateRequest :: "rpc_context \<Rightarrow> auth_settings \<Rightarrow> sdk_error option go_call" where
  "authenticateRequest ctx config =
     (case (if ac_RequireTLS config then validateTLSPeer ctx (ac_AllowedSANs config) else None) of
        Some err \<Rightarrow> Returns (Some err)
      | None \<Rightarrow>
          if ac_BearerTokenAuth config then
            (case validateBearerToken ctx (ac_ValidateToken config) of
               Panics p \<Rightarrow> Panics p
             | Returns (Some _) \<Rightarrow> Returns (status_Err (GRPCStatus (NewPermissionDenied ''token authentication failed'')))
             | Returns None \<Rightarrow> Returns None)
          else Returns None)"

section \<open>Interceptors\<close>

definition internal_server_error :: sdk_error where
  "internal_server_error = GrpcStatus CodeInternal ''internal server error''"

definition recoveryUnaryInterceptor :: "('s, 'r) interceptor" where
  "recoveryUnaryInterceptor meth h ctx s =
     (case h ctx s of
        (s', Panics _) \<Rightarrow> (s', Returns (None, Some internal_server_error))
      | (s', Returns r) \<Rightarrow> (s', Returns r))"

definition recoveryStreamInterceptor :: "'s stream_interceptor" where
  "recoveryStreamInterceptor meth h ctx s =
     (case h ctx s of
        (s', Panics _) \<Rightarrow> (s', Returns (Some internal_server_error))
      | (s', Returns r) \<Rightarrow> (s', Returns r))"

definition authUnaryInterceptor :: "auth_settings \<Rightarrow> ('s, 'r) interceptor" where
  "authUnaryInterceptor config meth h ctx s =
     (case authenticateRequest ctx config of
        Panics p \<Rightarrow> (s, Panics p)
      | Returns (Some err) \<Rightarrow> (s, Returns (None, Some err))
      | Returns None \<Rightarrow> h ctx s)"

definition authStreamInterceptor :: "auth_settings \<Rightarrow> 's stream_interceptor" where
  "authStreamInterceptor config meth h ctx s =
     (case authenticateRequest ctx config of
        Panics p \<Rightarrow> (s, Panics p)
      | Returns (Some err) \<Rightarrow> (s, Returns (Some err))
      | Returns None \<Rightarrow> h ctx s)"

text \<open>Rate limiting and metrics are placeholders in the source; logging hands the reply on unchanged.\<close>

definition rateLimitUnaryInterceptor :: "('s, 'r) interceptor" where
  "rateLimitUnaryInterceptor meth h ctx s = h ctx s"

definition rateLimitStreamInterceptor :: "'s stream_interceptor" where
  "rateLimitStreamInterceptor meth h ctx s = h ctx s"

definition timeout_context :: "mw_timeout \<Rightarrow> string \<Rightarrow> rpc_context \<Rightarrow> rpc_context" where
  "timeout_context config meth ctx =
     (let timeout = (case mt_PerMethod config meth of Some t \<Rightarrow> t | None \<Rightarrow> mt_DefaultTimeout config);
          d = rx_now ctx + timeout
      in ctx\<lparr>rx_deadline := Some (case rx_deadline ctx of None \<Rightarrow> d | Some d0 \<Rightarrow> min d0 d)\<rparr>)"

definition timeoutUnaryInterceptor :: "mw_timeout \<Rightarrow> ('s, 'r) interceptor" where
  "timeoutUnaryInterceptor config meth h ctx s = h (timeout_context config meth ctx) s"

definition timeoutStreamInterceptor :: "mw_timeout \<Rightarrow> 's stream_interceptor" where
  "timeoutStreamInterceptor config meth h ctx s = h (timeout_context config meth ctx) s"

definition metricsUnaryInterceptor :: "('s, 'r) interceptor" where
  "metricsUnaryInterceptor meth h ctx s = h ctx s"

definition metricsStreamInterceptor :: "'s stream_interceptor" where
  "metricsStreamInterceptor meth h ctx s = h ctx s"

definition loggingUnaryInterceptor :: "('s, 'r) interceptor" where
  "loggingUnaryInterceptor meth h ctx s = h ctx s"

definition loggingStreamInterceptor :: "'s stream_interceptor" where
  "loggingStreamInterceptor meth h ctx s = h ctx s"

definition auth_enabled :: "auth_settings option \<Rightarrow> bool" where
  "auth_enabled auth \<longleftrightarrow> (case auth of None \<Rightarrow> False | Some a \<Rightarrow> ac_RequireTLS a \<or> ac_BearerTokenAuth a)"

definition timeout_enabled :: "mw_timeout option \<Rightarrow> bool" where
  "timeout_enabled timeout \<longleftrightarrow> (case timeout of None \<Rightarrow> False | Some t \<Rightarrow> mt_DefaultTimeout t > 0)"

text \<open>The two chains, outermost interceptor first.\<close>

definition Build :: "middleware_config option \<Rightarrow> ('s, 'r) interceptor list \<times> 's stream_interceptor list" where
  "Build config =
     (case config of
        None \<Rightarrow> ([], [])
      | Some c \<Rightarrow>
          ((if mw_Recovery c = Some True then [recoveryUnaryInterceptor] else []) @
           (if auth_enabled (mw_Auth c) then [authUnaryInterceptor (the (mw_Auth c))] else []) @
           (if mw_RateLimit c = Some True then [rateLimitUnaryInterceptor] else []) @
           (if timeout_enabled (mw_Timeout c) then [timeoutUnaryInterceptor (the (mw_Timeout c))] else []) @
           (if mw_Metrics c = Some True then [metricsUnaryInterceptor] else []) @
           (if mw_Logging c = Some True then [loggingUnaryInterceptor] else []),
           (if mw_Recovery c = Some True then [recoveryStreamInterceptor] else []) @
           (if auth_enabled (mw_Auth c) then [authStreamInterceptor (the (mw_Auth c))] else []) @
           (if mw_RateLimit c = Some True then [rateLimitStreamInterceptor] else []) @
           (if timeout_enabled (mw_Timeout c) then [timeoutStreamInterceptor (the (mw_Timeout c))] else []) @
           (if mw_Metrics c = Some True then [metricsStreamInterceptor] else []) @
           (if mw_Logging c = Some True then [loggingStreamInterceptor] else [])))"

text \<open>\<^verbatim>\<open>grpc.ChainUnaryInterceptor\<close> and its stream counterpart: the first interceptor is the outermost.\<close>

definition chain_interceptors :: "(string \<Rightarrow> 'h \<Rightarrow> 'h) list \<Rightarrow> string \<Rightarrow> 'h \<Rightarrow> 'h" where
  "chain_interceptors is meth h = foldr (\<lambda>i. i meth) is h"

definition serve_unary :: "middleware_config option \<Rightarrow> string \<Rightarrow> ('s, 'r) handler \<Rightarrow> ('s, 'r) handler" where
  "serve_unary config = chain_interceptors (fst (Build config))"

definition serve_stream :: "middleware_config option \<Rightarrow> string \<Rightarrow> 's stream_handler \<Rightarrow> 's stream_handler" where
  "serve_stream config = chain_interceptors (snd (Build config :: ('s, unit) interceptor list \<times> 's stream_interceptor list))"

text \<open>
  The configuration every provider binary serves with: the transport it resolved, logging and recovery
  (\<^verbatim>\<open>cmd/provider-mock/main.go\<close> and its siblings). \<open>None\<close> is the exit of the process.
\<close>

definition provider_middleware ::
  "(string \<Rightarrow> bool) \<Rightarrow> (string \<Rightarrow> string) \<Rightarrow> (server_tls option \<times> middleware_config) option" where
  "provider_middleware exists getenv =
     (case ResolveTLSAndAuth exists getenv of
        (Some res, err) \<Rightarrow>
          if err = None \<or> err = Some ErrInsecureModeOptedIn then
            Some (tr_TLS res,
                  \<lparr>mw_Logging = Some True, mw_Recovery = Some True,
                   mw_Auth = Some \<lparr>ac_RequireTLS = ac_RequireTLS (tr_Auth res), ac_AllowedSANs = ac_AllowedSANs (tr_Auth res),
                     ac_BearerTokenAuth = False, ac_ValidateToken = None\<rparr>,
                   mw_RateLimit = None, mw_Timeout = None, mw_Metrics = None\<rparr>)
          else None
      | (None, _) \<Rightarrow> None)"

section \<open>Who is admitted\<close>

text \<open>The identity the TLS stack verified, and the rule that admits it.\<close>

definition verified_leaf :: "rpc_context \<Rightarrow> x509_leaf option" where
  "verified_leaf ctx =
     (case rx_peer ctx of
        Some (Some (TLSInfo ((leaf # _) # _))) \<Rightarrow> Some leaf
      | _ \<Rightarrow> None)"

definition identities :: "x509_leaf \<Rightarrow> string set" where
  "identities leaf = set (xl_DNSNames leaf) \<union> set (xl_URIs leaf) \<union> ({xl_CommonName leaf} - {''''})"

definition peer_admitted :: "string list \<Rightarrow> rpc_context \<Rightarrow> bool" where
  "peer_admitted sans ctx \<longleftrightarrow>
     (\<exists>leaf. verified_leaf ctx = Some leaf \<and> (sans = [] \<or> identities leaf \<inter> set sans \<noteq> {}))"

lemma certMatchesAllowList_iff: "certMatchesAllowList leaf sans \<longleftrightarrow> identities leaf \<inter> set sans \<noteq> {}"
  by (auto simp: certMatchesAllowList_def identities_def list_ex_iff)

text \<open>The refusal tells a peer without a verified certificate from one with the wrong certificate.\<close>

definition refusal :: "rpc_context \<Rightarrow> grpc_code" where
  "refusal ctx = (if verified_leaf ctx = None then CodeUnauthenticated else CodePermissionDenied)"

lemma validateTLSPeer_spec:
  "validateTLSPeer ctx sans = None \<longleftrightarrow> peer_admitted sans ctx"
  "\<not> peer_admitted sans ctx \<Longrightarrow> \<exists>m. validateTLSPeer ctx sans = Some (GrpcStatus (refusal ctx) m)"
  by (auto simp: validateTLSPeer_def peer_admitted_def verified_leaf_def refusal_def certMatchesAllowList_iff
      split: option.splits auth_info.splits list.splits)

section \<open>The chain\<close>

lemma pass_through:
  "rateLimitUnaryInterceptor meth h = h" "rateLimitStreamInterceptor meth hs = hs"
  "metricsUnaryInterceptor meth h = h" "metricsStreamInterceptor meth hs = hs"
  "loggingUnaryInterceptor meth h = h" "loggingStreamInterceptor meth hs = hs"
  by (auto simp: rateLimitUnaryInterceptor_def rateLimitStreamInterceptor_def metricsUnaryInterceptor_def
      metricsStreamInterceptor_def loggingUnaryInterceptor_def loggingStreamInterceptor_def intro!: ext)

lemma optional_interceptor:
  "foldr (\<lambda>i. i meth) (if b then [i] else []) h = (if b then i meth h else h)"
  by simp

text \<open>The part of a chain inside the recovery and authentication interceptors only sets a deadline.\<close>

definition inner_context :: "middleware_config \<Rightarrow> string \<Rightarrow> rpc_context \<Rightarrow> rpc_context" where
  "inner_context c meth ctx =
     (if timeout_enabled (mw_Timeout c) then timeout_context (the (mw_Timeout c)) meth ctx else ctx)"

definition authentication :: "middleware_config \<Rightarrow> rpc_context \<Rightarrow> sdk_error option go_call" where
  "authentication c ctx =
     (if auth_enabled (mw_Auth c) then authenticateRequest ctx (the (mw_Auth c)) else Returns None)"

definition guarded :: "middleware_config \<Rightarrow> string \<Rightarrow> ('s, 'r) handler \<Rightarrow> ('s, 'r) handler" where
  "guarded c meth h ctx s =
     (case authentication c ctx of
        Panics p \<Rightarrow> (s, Panics p)
      | Returns (Some err) \<Rightarrow> (s, Returns (None, Some err))
      | Returns None \<Rightarrow> h (inner_context c meth ctx) s)"

definition guarded_stream :: "middleware_config \<Rightarrow> string \<Rightarrow> 's stream_handler \<Rightarrow> 's stream_handler" where
  "guarded_stream c meth h ctx s =
     (case authentication c ctx of
        Panics p \<Rightarrow> (s, Panics p)
      | Returns (Some err) \<Rightarrow> (s, Returns (Some err))
      | Returns None \<Rightarrow> h (inner_context c meth ctx) s)"

lemmas chain_defs = chain_interceptors_def Build_def foldr_append optional_interceptor pass_through

lemma serve_unary_eq:
  "serve_unary (Some c) meth h =
     (if mw_Recovery c = Some True then recoveryUnaryInterceptor meth (guarded c meth h) else guarded c meth h)"
proof -
  let ?inner = "if timeout_enabled (mw_Timeout c) then timeoutUnaryInterceptor (the (mw_Timeout c)) meth h else h"
  have "(if auth_enabled (mw_Auth c) then authUnaryInterceptor (the (mw_Auth c)) meth ?inner else ?inner) = guarded c meth h"
    by (intro ext) (simp add: guarded_def authentication_def inner_context_def authUnaryInterceptor_def timeoutUnaryInterceptor_def split: go_call.splits option.splits)
  then show ?thesis by (simp only: serve_unary_def chain_defs option.case fst_conv if_cancel)
qed

lemma serve_stream_eq:
  "serve_stream (Some c) meth h =
     (if mw_Recovery c = Some True then recoveryStreamInterceptor meth (guarded_stream c meth h) else guarded_stream c meth h)"
proof -
  let ?inner = "if timeout_enabled (mw_Timeout c) then timeoutStreamInterceptor (the (mw_Timeout c)) meth h else h"
  have "(if auth_enabled (mw_Auth c) then authStreamInterceptor (the (mw_Auth c)) meth ?inner else ?inner) =
      guarded_stream c meth h"
    by (intro ext)
       (simp add: guarded_stream_def authentication_def inner_context_def authStreamInterceptor_def timeoutStreamInterceptor_def split: go_call.splits option.splits)
  then show ?thesis by (simp only: serve_stream_def chain_defs option.case snd_conv if_cancel)
qed

lemma recovery_never_panics:
  "\<exists>s' r. recoveryUnaryInterceptor meth h ctx s = (s', Returns r)"
  "\<exists>s' r. recoveryStreamInterceptor meth h' ctx s = (s', Returns r)"
  by (auto simp: recoveryUnaryInterceptor_def recoveryStreamInterceptor_def split: prod.splits go_call.splits)

text \<open>An allow-list that names nobody admits everybody the CA vouches for.\<close>

lemma blank_allow_list_admits_all:
  "filter (\<lambda>t. t \<noteq> '''') (map trim_space (split_on CHR '','' raw)) = [] \<Longrightarrow>
     peer_admitted (parseAllowedSANs raw) ctx \<longleftrightarrow> verified_leaf ctx \<noteq> None"
  by (auto simp: parseAllowedSANs_def peer_admitted_def)

section \<open>A provider process\<close>

lemma ResolveTLSAndAuth_cases:
  assumes "ResolveTLSAndAuth exists getenv = (Some res, err)"
  shows "(\<exists>t. tr_TLS res = Some t \<and> sl_RequireClientCert t) \<and> ac_RequireTLS (tr_Auth res) \<and>
       ac_AllowedSANs (tr_Auth res) = parseAllowedSANs (getenv EnvAllowedSANs) \<or>
     tr_TLS res = None \<and> isInsecureOptedIn getenv \<and> \<not> ac_RequireTLS (tr_Auth res)"
  using assms unfolding ResolveTLSAndAuth_def Let_def by (auto split: if_splits)

lemma provider_middleware_cases:
  assumes "provider_middleware exists getenv = Some (tls, mw)"
  shows "mw_Recovery mw = Some True \<and> (\<forall>ctx. inner_context mw meth ctx = ctx) \<and>
     (tls = None \<and> isInsecureOptedIn getenv \<and> (\<forall>ctx. authentication mw ctx = Returns None) \<or>
      (\<exists>t. tls = Some t \<and> sl_RequireClientCert t) \<and>
      (\<forall>ctx. authentication mw ctx = Returns (validateTLSPeer ctx (parseAllowedSANs (getenv EnvAllowedSANs)))))"
proof -
  from assms obtain res err where r: "ResolveTLSAndAuth exists getenv = (Some res, err)" and mw:
    "tls = tr_TLS res" "mw_Recovery mw = Some True" "mw_Timeout mw = None"
    "mw_Auth mw = Some \<lparr>ac_RequireTLS = ac_RequireTLS (tr_Auth res), ac_AllowedSANs = ac_AllowedSANs (tr_Auth res),
       ac_BearerTokenAuth = False, ac_ValidateToken = None\<rparr>"
    by (auto simp: provider_middleware_def split: prod.splits option.splits if_splits)
  have "authentication mw ctx =
      Returns (if ac_RequireTLS (tr_Auth res) then validateTLSPeer ctx (ac_AllowedSANs (tr_Auth res)) else None)" for ctx
    by (auto simp: authentication_def mw auth_enabled_def authenticateRequest_def split: option.splits)
  moreover have "inner_context mw meth ctx = ctx" for ctx by (simp add: inner_context_def timeout_enabled_def mw)
  ultimately show ?thesis using ResolveTLSAndAuth_cases [OF r] mw(1,2) by auto
qed

text \<open>
  C9. A provider process runs a request only for a peer it admits. A process that starts without TLS was told to
  by the opt-out variable. Otherwise it demands a client certificate, and a request whose peer presents no
  verified certificate, or one none of whose names is on a non-empty allow-list, is answered with
  \<^verbatim>\<open>Unauthenticated\<close> or \<^verbatim>\<open>PermissionDenied\<close> without the provider's handler running, unary and stream requests
  alike; an admitted peer gets the handler's own reply. No request panics the process, whatever the handler does.
\<close>

theorem only_admitted_peers_are_served:
  assumes "provider_middleware exists getenv = Some (tls, mw)"
  shows "(tls = None \<longrightarrow> isInsecureOptedIn getenv) \<and> (\<forall>t. tls = Some t \<longrightarrow> sl_RequireClientCert t) \<and>
     (\<exists>s' r. serve_unary (Some mw) meth h ctx s = (s', Returns r)) \<and>
     (\<exists>s' r. serve_stream (Some mw) meth hs ctx s = (s', Returns r)) \<and>
     (if tls = None \<or> peer_admitted (parseAllowedSANs (getenv EnvAllowedSANs)) ctx
      then (\<forall>s' r. h ctx s = (s', Returns r) \<longrightarrow> serve_unary (Some mw) meth h ctx s = (s', Returns r)) \<and>
           (\<forall>s' r. hs ctx s = (s', Returns r) \<longrightarrow> serve_stream (Some mw) meth hs ctx s = (s', Returns r))
      else \<exists>m. serve_unary (Some mw) meth h ctx s = (s, Returns (None, Some (GrpcStatus (refusal ctx) m))) \<and>
             serve_stream (Some mw) meth hs ctx s = (s, Returns (Some (GrpcStatus (refusal ctx) m))))"
proof -
  note cases = provider_middleware_cases [OF assms, of meth]
  let ?sans = "parseAllowedSANs (getenv EnvAllowedSANs)"
  have auth: "authentication mw ctx = Returns (if tls = None then None else validateTLSPeer ctx ?sans)"
    using cases by auto
  have serve: "serve_unary (Some mw) meth h ctx s = recoveryUnaryInterceptor meth (guarded mw meth h) ctx s"
    "serve_stream (Some mw) meth hs ctx s = recoveryStreamInterceptor meth (guarded_stream mw meth hs) ctx s"
    using cases by (simp_all add: serve_unary_eq serve_stream_eq)
  have pass: "guarded mw meth h ctx s = h ctx s" "guarded_stream mw meth hs ctx s = hs ctx s"
    if "tls = None \<or> peer_admitted ?sans ctx"
    using that cases validateTLSPeer_spec(1) [of ctx ?sans] by (auto simp: guarded_def guarded_stream_def auth)
  have refuse: "\<exists>m. guarded mw meth h ctx s = (s, Returns (None, Some (GrpcStatus (refusal ctx) m))) \<and>
      guarded_stream mw meth hs ctx s = (s, Returns (Some (GrpcStatus (refusal ctx) m)))"
    if "tls \<noteq> None" "\<not> peer_admitted ?sans ctx"
    using that validateTLSPeer_spec(2) [OF that(2)] by (auto simp: guarded_def guarded_stream_def auth)
  have "if tls = None \<or> peer_admitted ?sans ctx
      then (\<forall>s' r. h ctx s = (s', Returns r) \<longrightarrow> serve_unary (Some mw) meth h ctx s = (s', Returns r)) \<and>
           (\<forall>s' r. hs ctx s = (s', Returns r) \<longrightarrow> serve_stream (Some mw) meth hs ctx s = (s', Returns r))
      else \<exists>m. serve_unary (Some mw) meth h ctx s = (s, Returns (None, Some (GrpcStatus (refusal ctx) m))) \<and>
             serve_stream (Some mw) meth hs ctx s = (s, Returns (Some (GrpcStatus (refusal ctx) m)))"
    using pass refuse by (auto simp: serve recoveryUnaryInterceptor_def recoveryStreamInterceptor_def)
  with cases recovery_never_panics show ?thesis unfolding serve by auto
qed

definition stranger :: rpc_context where
  "stranger = \<lparr>rx_peer = Some (Some (TLSInfo [[\<lparr>xl_DNSNames = [''other''], xl_URIs = [], xl_CommonName = ''''\<rparr>]])),
     rx_metadata = None, rx_now = 0, rx_deadline = None\<rparr>"

definition manager_only :: "string \<Rightarrow> string" where
  "manager_only v = (if v = EnvAllowedSANs then ''manager,'' else '''')"

theorem only_admitted_peers_are_served_witness:
  "\<exists>tls mw m. provider_middleware (\<lambda>_. True) manager_only = Some (Some tls, mw) \<and>
     serve_unary (Some mw) ''/provider.v1.Provider/Delete'' (\<lambda>ctx n. (Suc n, Panics ''bug'')) stranger 0 =
       (0 :: nat, Returns (None :: string option, Some (GrpcStatus CodePermissionDenied m)))"
proof -
  obtain tls mw where mw: "provider_middleware (\<lambda>_. True) manager_only = Some (Some tls, mw)"
    by (simp add: provider_middleware_def ResolveTLSAndAuth_def)
  have sans: "parseAllowedSANs (manager_only EnvAllowedSANs) = [''manager'']" 
    by (simp add: manager_only_def parseAllowedSANs_def trim_space_graphic graphic_def)
  have "\<not> peer_admitted [''manager''] stranger" "refusal stranger = CodePermissionDenied"
    by (simp_all add: peer_admitted_def verified_leaf_def stranger_def identities_def refusal_def)
  with only_admitted_peers_are_served [OF mw, of "''/provider.v1.Provider/Delete''" "\<lambda>ctx n. (Suc n, Panics ''bug'')" stranger 0]
  have "\<exists>m. serve_unary (Some mw) ''/provider.v1.Provider/Delete'' (\<lambda>ctx n. (Suc n, Panics ''bug'')) stranger 0 =
      (0 :: nat, Returns (None :: string option, Some (GrpcStatus CodePermissionDenied m)))"
    unfolding sans by (simp only: option.distinct if_False simp_thms) blast
  with mw show ?thesis by blast
qed

end
