(* ===== verification/SdkCapabilities.thy ===== *)
theory SdkCapabilities
  imports GrpcClient MigrationStorage
begin

text \<open>
  How a provider declares what it can do (\<^verbatim>\<open>sdk/provider/capabilities/capabilities.go\<close>), and the declarations of
  the Proxmox and the mock provider. A builder is the manager it fills; the builder methods that add one flag are
  \<open>AddCapability\<close> of that flag, those that set one list are the setter.
\<close>

datatype capability =
    CapabilityValidate | CapabilityCreate | CapabilityDelete | CapabilityPower | CapabilityDescribe
  | CapabilityGetCapabilities | CapabilityReconfigure | CapabilityReconfigureOnline | CapabilityDiskExpansionOnline
  | CapabilitySnapshots | CapabilityMemorySnapshots | CapabilityLinkedClones | CapabilityImageImport
  | CapabilityDiskExport | CapabilityDiskImport | CapabilityExportCompression | CapabilityTaskStatus
  | CapabilityVSphere | CapabilityLibvirt | CapabilityFirecracker | CapabilityQEMU | CapabilityMock

datatype profile =
    ProfileCore | ProfileSnapshot | ProfileClone | ProfileImagePrepare | ProfileAdvanced | OtherProfile string

record cap_manager =
  cm_capabilities :: "capability \<rightharpoonup> bool"
  cm_DiskTypes :: "string list"
  cm_NetworkTypes :: "string list"
  cm_ExportFormats :: "string list"
  cm_ImportFormats :: "string list"
  cm_ExportBackends :: "string list"
  cm_ImportBackends :: "string list"
  cm_TransferModes :: "string list"

definition NewManager :: cap_manager where
  "NewManager = \<lparr>cm_capabilities = Map.empty, cm_DiskTypes = [], cm_NetworkTypes = [], cm_ExportFormats = [],
     cm_ImportFormats = [], cm_ExportBackends = [], cm_ImportBackends = [], cm_TransferModes = []\<rparr>"

definition AddCapability :: "capability \<Rightarrow> cap_manager \<Rightarrow> cap_manager" where
  "AddCapability c m = m\<lparr>cm_capabilities := (cm_capabilities m)(c \<mapsto> True)\<rparr>"

definition RemoveCapability :: "capability \<Rightarrow> cap_manager \<Rightarrow> cap_manager" where
  "RemoveCapability c m = m\<lparr>cm_capabilities := (cm_capabilities m)(c := None)\<rparr>"

definition HasCapability :: "cap_manager \<Rightarrow> capability \<Rightarrow> bool" where
  "HasCapability m c \<longleftrightarrow> cm_capabilities m c = Some True"

definition SetSupportedDiskTypes :: "string list \<Rightarrow> cap_manager \<Rightarrow> cap_manager" where
  "SetSupportedDiskTypes types m = m\<lparr>cm_DiskTypes := types\<rparr>"

definition SetSupportedNetworkTypes :: "string list \<Rightarrow> cap_manager \<Rightarrow> cap_manager" where
  "SetSupportedNetworkTypes types m = m\<lparr>cm_NetworkTypes := types\<rparr>"

definition SetSupportedExportFormats :: "string list \<Rightarrow> cap_manager \<Rightarrow> cap_manager" where
  "SetSupportedExportFormats types m = m\<lparr>cm_ExportFormats := types\<rparr>"

definition SetSupportedImportFormats :: "string list \<Rightarrow> cap_manager \<Rightarrow> cap_manager" where
  "SetSupportedImportFormats types m = m\<lparr>cm_ImportFormats := types\<rparr>"

definition SetSupportedExportBackends :: "string list \<Rightarrow> cap_manager \<Rightarrow> cap_manager" where
  "SetSupportedExportBackends backends m = m\<lparr>cm_ExportBackends := backends\<rparr>"

definition SetSupportedImportBackends :: "string list \<Rightarrow> cap_manager \<Rightarrow> cap_manager" where
  "SetSupportedImportBackends backends m = m\<lparr>cm_ImportBackends := backends\<rparr>"

definition SetSupportedTransferModes :: "string list \<Rightarrow> cap_manager \<Rightarrow> cap_manager" where
  "SetSupportedTransferModes modes m = m\<lparr>cm_TransferModes := modes\<rparr>"

definition Manager_GetCapabilities :: "cap_manager \<Rightarrow> pb_capabilities" where
  "Manager_GetCapabilities m =
     \<lparr>pca_SupportsReconfigureOnline = HasCapability m CapabilityReconfigureOnline,
      pca_SupportsDiskExpansionOnline = HasCapability m CapabilityDiskExpansionOnline,
      pca_SupportsSnapshots = HasCapability m CapabilitySnapshots,
      pca_SupportsMemorySnapshots = HasCapability m CapabilityMemorySnapshots,
      pca_SupportsLinkedClones = HasCapability m CapabilityLinkedClones,
      pca_SupportsImageImport = HasCapability m CapabilityImageImport,
      pca_SupportedDiskTypes = cm_DiskTypes m,
      pca_SupportedNetworkTypes = cm_NetworkTypes m,
      pca_SupportsDiskExport = HasCapability m CapabilityDiskExport,
      pca_SupportsDiskImport = HasCapability m CapabilityDiskImport,
      pca_SupportedExportFormats = cm_ExportFormats m,
      pca_SupportedImportFormats = cm_ImportFormats m,
      pca_SupportsExportCompression = HasCapability m CapabilityExportCompression,
      pca_SupportedExportBackends = cm_ExportBackends m,
      pca_SupportedImportBackends = cm_ImportBackends m,
      pca_SupportedTransferModes = cm_TransferModes m\<rparr>"

primrec GetProfileCapabilities :: "profile \<Rightarrow> capability list" where
  "GetProfileCapabilities ProfileCore =
     [CapabilityValidate, CapabilityCreate, CapabilityDelete, CapabilityPower, CapabilityDescribe,
      CapabilityGetCapabilities]"
| "GetProfileCapabilities ProfileSnapshot = [CapabilitySnapshots]"
| "GetProfileCapabilities ProfileClone = [CapabilityLinkedClones]"
| "GetProfileCapabilities ProfileImagePrepare = [CapabilityImageImport]"
| "GetProfileCapabilities ProfileAdvanced =
     [CapabilityReconfigure, CapabilityReconfigureOnline, CapabilityDiskExpansionOnline]"
| "GetProfileCapabilities (OtherProfile p) = []"

definition SupportsProfile :: "cap_manager \<Rightarrow> profile \<Rightarrow> bool" where
  "SupportsProfile m profile = list_all (HasCapability m) (GetProfileCapabilities profile)"

definition GetSupportedProfiles :: "cap_manager \<Rightarrow> profile list" where
  "GetSupportedProfiles m =
     filter (SupportsProfile m) [ProfileCore, ProfileSnapshot, ProfileClone, ProfileImagePrepare, ProfileAdvanced]"

definition Builder_Core :: "cap_manager \<Rightarrow> cap_manager" where
  "Builder_Core = fold AddCapability (GetProfileCapabilities ProfileCore)"

definition Builder_DiskExport :: "string list \<Rightarrow> cap_manager \<Rightarrow> cap_manager" where
  "Builder_DiskExport formats m =
     (let m' = AddCapability CapabilityDiskExport m
      in if formats \<noteq> [] then SetSupportedExportFormats formats m' else m')"

definition Builder_DiskImport :: "string list \<Rightarrow> cap_manager \<Rightarrow> cap_manager" where
  "Builder_DiskImport formats m =
     (let m' = AddCapability CapabilityDiskImport m
      in if formats \<noteq> [] then SetSupportedImportFormats formats m' else m')"

text \<open>A chain of builder calls, applied from left to right.\<close>

definition build :: "(cap_manager \<Rightarrow> cap_manager) list \<Rightarrow> cap_manager" where
  "build steps = fold (\<lambda>f m. f m) steps NewManager"

section \<open>Two providers\<close>

definition proxmox_GetProviderCapabilities :: cap_manager where
  "proxmox_GetProviderCapabilities = build
     [Builder_Core, AddCapability CapabilitySnapshots, AddCapability CapabilityMemorySnapshots,
      AddCapability CapabilityLinkedClones, AddCapability CapabilityReconfigureOnline,
      AddCapability CapabilityDiskExpansionOnline, AddCapability CapabilityImageImport,
      Builder_DiskExport [''qcow2'', ''raw'', ''vmdk''], AddCapability CapabilityExportCompression,
      Builder_DiskImport [''qcow2'', ''raw'', ''vmdk''],
      SetSupportedExportBackends S3AndNFSExportBackends, SetSupportedImportBackends S3AndNFSImportBackends,
      SetSupportedTransferModes RelayOnlyTransferModes,
      SetSupportedDiskTypes [''raw'', ''qcow2''], SetSupportedNetworkTypes [''bridge'', ''vlan'']]"

definition mock_capabilities :: cap_manager where
  "mock_capabilities = build
     [Builder_Core, AddCapability CapabilityMock, AddCapability CapabilitySnapshots,
      AddCapability CapabilityMemorySnapshots, AddCapability CapabilityLinkedClones,
      AddCapability CapabilityReconfigureOnline, AddCapability CapabilityDiskExpansionOnline,
      AddCapability CapabilityImageImport, AddCapability CapabilityTaskStatus,
      SetSupportedExportBackends PVCOnlyExportBackends, SetSupportedImportBackends PVCOnlyImportBackends,
      SetSupportedTransferModes RelayOnlyTransferModes,
      SetSupportedDiskTypes [''thin'', ''thick'', ''raw'', ''qcow2''],
      SetSupportedNetworkTypes [''bridge'', ''nat'', ''distributed'']]"

section \<open>Lemmas\<close>

lemma HasCapability_Add: "HasCapability (AddCapability c m) c' \<longleftrightarrow> c' = c \<or> HasCapability m c'"
  by (simp add: HasCapability_def AddCapability_def)

lemma HasCapability_Remove: "HasCapability (RemoveCapability c m) c' \<longleftrightarrow> c' \<noteq> c \<and> HasCapability m c'"
  by (simp add: HasCapability_def RemoveCapability_def)

lemma HasCapability_fold: "HasCapability (fold AddCapability cs m) c \<longleftrightarrow> c \<in> set cs \<or> HasCapability m c"
  by (induction cs arbitrary: m) (auto simp: HasCapability_Add)

text \<open>A profile is supported exactly if all its flags are; a profile the package does not know always is.\<close>

lemma SupportsProfile_iff: "SupportsProfile m p \<longleftrightarrow> (\<forall>c \<in> set (GetProfileCapabilities p). HasCapability m c)"
  by (simp add: SupportsProfile_def list_all_iff)

lemma Core_supports_core: "SupportsProfile (Builder_Core m) ProfileCore"
  by (simp add: SupportsProfile_iff Builder_Core_def HasCapability_Add)

lemmas capability_defs =
  build_def AddCapability_def HasCapability_def NewManager_def SetSupportedDiskTypes_def SetSupportedNetworkTypes_def
  SetSupportedExportFormats_def SetSupportedImportFormats_def SetSupportedExportBackends_def
  SetSupportedImportBackends_def SetSupportedTransferModes_def Builder_Core_def Builder_DiskExport_def
  Builder_DiskImport_def

text \<open>
  Both providers advertise online reconfiguration without the plain flag, so neither supports the advanced profile.
\<close>

lemma advanced_profile_unsupported:
  "GetSupportedProfiles proxmox_GetProviderCapabilities = [ProfileCore, ProfileSnapshot, ProfileClone, ProfileImagePrepare]"
  "GetSupportedProfiles mock_capabilities = [ProfileCore, ProfileSnapshot, ProfileClone, ProfileImagePrepare]"
  by (simp_all add: GetSupportedProfiles_def SupportsProfile_def proxmox_GetProviderCapabilities_def
      mock_capabilities_def capability_defs)

end
