(* ===== verification/MockProvider.thy ===== *)
theory MockProvider
  imports SdkErrors SdkCapabilities
begin

text \<open>
  The mock provider (\<^verbatim>\<open>internal/providers/mock/provider.go\<close>). Its machines and tasks are objects that the maps and
  the goroutines share, so they live in a store of their own and the maps hold addresses. An asynchronous operation
  leaves a goroutine behind, an element of \<open>mk_background\<close>, which runs at any later time. The clock, the random
  numbers, the order of map iteration, \<^verbatim>\<open>%q\<close> and the formatting of times are the environment of a call: the k-th
  reading of the clock or draw within the call. Every call and every goroutine runs as one step. \<^verbatim>\<open>slowMode\<close> only
  sleeps and is left out.
\<close>

section \<open>State\<close>

record mock_snapshot =
  ms_ID :: string
  ms_Name :: string
  ms_CreatedTime :: int
  ms_Description :: string
  ms_SizeBytes :: int
  ms_HasMemory :: bool

record mock_vm =
  mv_ID :: string
  mv_Name :: string
  mv_PowerState :: string
  mv_IPs :: "string list"
  mv_ConsoleURL :: string
  mv_Created :: int
  mv_LastUpdated :: int
  mv_Snapshots :: "string \<rightharpoonup> mock_snapshot"

record mock_task =
  tk_ID :: string
  tk_Done :: bool
  tk_Error :: string
  tk_Created :: int
  tk_Completed :: int

datatype background =
    CompleteTask string
  | FinishDelete string nat
  | FinishPower nat pb_power_op nat
  | FinishSnapshotDelete nat string nat

record mock_state =
  mk_vms :: "string \<rightharpoonup> nat"
  mk_vm_at :: "nat \<Rightarrow> mock_vm"
  mk_tasks :: "string \<rightharpoonup> nat"
  mk_task_at :: "nat \<Rightarrow> mock_task"
  mk_next :: nat
  mk_background :: "background list"
  mk_capabilities :: cap_manager
  mk_failureMode :: string

record mock_env =
  me_now :: "nat \<Rightarrow> int"
  me_intn :: "nat \<Rightarrow> int \<Rightarrow> int"
  me_quote :: "string \<Rightarrow> string"
  me_rfc3339 :: "int \<Rightarrow> string"
  me_order :: "(string \<rightharpoonup> nat) \<Rightarrow> string list"

type_synonym 'a sdk_result = "sdk_error + 'a"

section \<open>Helpers\<close>

definition generateID :: "mock_env \<Rightarrow> nat \<Rightarrow> nat \<Rightarrow> string \<Rightarrow> string" where
  "generateID env t k prefix =
     prefix @ ''-'' @ show_int (me_now env t div second) @ ''-'' @ show_int (me_intn env k 10000)"

definition shouldFail :: "mock_state \<Rightarrow> string \<Rightarrow> bool" where
  "shouldFail s operation \<longleftrightarrow>
     mk_failureMode s \<noteq> '''' \<and> (mk_failureMode s = operation \<or> mk_failureMode s = ''all'')"

definition fails_with :: "string \<Rightarrow> sdk_error" where
  "fails_with what = NewInternal (''mock provider configured to fail '' @ what @ '' operations'') None"

definition console_url :: "string \<Rightarrow> string" where
  "console_url i = ''https://console.example.com/vm/'' @ i"

text \<open>A machine object and its entry; a task object, its entry and the goroutine that will complete it.\<close>

definition put_vm :: "mock_vm \<Rightarrow> mock_state \<Rightarrow> mock_state" where
  "put_vm vm s =
     s\<lparr>mk_vms := (mk_vms s)(mv_ID vm \<mapsto> mk_next s), mk_vm_at := (mk_vm_at s)(mk_next s := vm), mk_next := Suc (mk_next s)\<rparr>"

definition put_task :: "string \<Rightarrow> int \<Rightarrow> (nat \<Rightarrow> background) \<Rightarrow> mock_state \<Rightarrow> mock_state" where
  "put_task i now job s =
     s\<lparr>mk_tasks := (mk_tasks s)(i \<mapsto> mk_next s),
       mk_task_at := (mk_task_at s)(mk_next s :=
         \<lparr>tk_ID = i, tk_Done = False, tk_Error = '''', tk_Created = now, tk_Completed = 0\<rparr>),
       mk_next := Suc (mk_next s), mk_background := mk_background s @ [job (mk_next s)]\<rparr>"

definition new_vm :: "mock_env \<Rightarrow> string \<Rightarrow> string \<Rightarrow> mock_vm" where
  "new_vm env i name =
     \<lparr>mv_ID = i, mv_Name = name, mv_PowerState = ''Off'', mv_IPs = [], mv_ConsoleURL = console_url i,
      mv_Created = me_now env 1, mv_LastUpdated = me_now env 2, mv_Snapshots = Map.empty\<rparr>"

section \<open>Start\<close>

definition sample_vm :: "mock_env \<Rightarrow> nat \<Rightarrow> string \<times> string \<times> string list \<Rightarrow> mock_vm" where
  "sample_vm env i vm =
     (case vm of (name, powerState, ips) \<Rightarrow>
        let vid = ''vm-'' @ show_nat (Suc i) in
        \<lparr>mv_ID = vid, mv_Name = name, mv_PowerState = powerState, mv_IPs = ips, mv_ConsoleURL = console_url vid,
         mv_Created = me_now env (2 * i) - int (Suc i) * hour, mv_LastUpdated = me_now env (2 * i + 1),
         mv_Snapshots = Map.empty\<rparr>)"

definition createSampleVMs :: "mock_env \<Rightarrow> mock_state \<Rightarrow> mock_state" where
  "createSampleVMs env s =
     fold put_vm
       (map (\<lambda>(i, vm). sample_vm env i vm)
          (enumerate 0 [(''demo-vm-1'', ''On'', [''192.168.1.10'']), (''demo-vm-2'', ''Off'', []),
                        (''demo-vm-3'', ''On'', [''192.168.1.12'', ''10.0.0.5''])])) s"

definition NewProvider :: "mock_env \<Rightarrow> string \<Rightarrow> mock_state" where
  "NewProvider env failureMode =
     createSampleVMs env
       \<lparr>mk_vms = Map.empty, mk_vm_at = (\<lambda>_. sample_vm env 0 ('''', '''', [])), mk_tasks = Map.empty,
        mk_task_at = (\<lambda>_. \<lparr>tk_ID = '''', tk_Done = False, tk_Error = '''', tk_Created = 0, tk_Completed = 0\<rparr>),
        mk_next = 0, mk_background = [], mk_capabilities = mock_capabilities, mk_failureMode = failureMode\<rparr>"

section \<open>Operations\<close>

definition Mock_Validate :: "mock_state \<Rightarrow> pb_validate_response sdk_result" where
  "Mock_Validate s =
     (if shouldFail s ''validate''
      then Inr \<lparr>pv_Ok = False, pv_Message = ''Mock provider configured to fail validation''\<rparr>
      else Inr \<lparr>pv_Ok = True, pv_Message = ''Mock provider is ready''\<rparr>)"

definition Mock_Create :: "mock_env \<Rightarrow> pb_create_request \<Rightarrow> mock_state \<Rightarrow> mock_state \<times> pb_create_response sdk_result" where
  "Mock_Create env req s =
     (if shouldFail s ''create'' then (s, Inl (fails_with ''create''))
      else
        let i = generateID env 0 0 ''vm''; taskID = generateID env 3 1 ''task''
        in (put_task taskID (me_now env 4) (\<lambda>_. CompleteTask taskID) (put_vm (new_vm env i (pq_Name req)) s),
            Inr \<lparr>pr_Id = i, pr_Task = Some taskID\<rparr>))"

text \<open>
  The shape of the operations on an existing machine: the failure mode, the lookup, a task whose completion is
  left to a goroutine that may hold the addresses of the machine and of the task.
\<close>

definition start_task ::
  "mock_env \<Rightarrow> string \<Rightarrow> string \<Rightarrow> string \<Rightarrow> (string \<Rightarrow> nat \<Rightarrow> nat \<Rightarrow> background) \<Rightarrow> mock_state \<Rightarrow> mock_state \<times> string option sdk_result" where
  "start_task env operation label i job s =
     (if shouldFail s operation then (s, Inl (fails_with label))
      else
        (case mk_vms s i of
           None \<Rightarrow> (s, Inl (NewNotFound (me_quote env) ''VirtualMachine'' i))
         | Some a \<Rightarrow>
             let taskID = generateID env 0 0 ''task''
             in (put_task taskID (me_now env 1) (job taskID a) s, Inr (Some taskID))))"

definition Mock_Delete :: "mock_env \<Rightarrow> string \<Rightarrow> mock_state \<Rightarrow> mock_state \<times> string option sdk_result" where
  "Mock_Delete env i = start_task env ''delete'' ''delete'' i (\<lambda>_ _ t. FinishDelete i t)"

definition Mock_Power :: "mock_env \<Rightarrow> pb_power_request \<Rightarrow> mock_state \<Rightarrow> mock_state \<times> string option sdk_result" where
  "Mock_Power env req = start_task env ''power'' ''power'' (pw_Id req) (\<lambda>_ a t. FinishPower a (pw_Op req) t)"

definition Mock_Reconfigure ::
  "mock_env \<Rightarrow> pb_reconfigure_request \<Rightarrow> mock_state \<Rightarrow> mock_state \<times> string option sdk_result" where
  "Mock_Reconfigure env req =
     start_task env ''reconfigure'' ''reconfigure'' (pf_Id req) (\<lambda>taskID _ _. CompleteTask taskID)"

definition raw_json :: "mock_env \<Rightarrow> mock_vm \<Rightarrow> string" where
  "raw_json env vm =
     (let q = [CHR 0x22] in
      ''{'' @ q @ ''id'' @ q @ '':'' @ q @ mv_ID vm @ q @ '','' @ q @ ''name'' @ q @ '':'' @ q @ mv_Name vm @ q @
      '','' @ q @ ''created'' @ q @ '':'' @ q @ me_rfc3339 env (mv_Created vm) @ q @ '','' @ q @ ''lastUpdated'' @ q @
      '':'' @ q @ me_rfc3339 env (mv_LastUpdated vm) @ q @ ''}'')"

definition Mock_Describe :: "mock_env \<Rightarrow> string \<Rightarrow> mock_state \<Rightarrow> pb_describe_response sdk_result" where
  "Mock_Describe env i s =
     (if shouldFail s ''describe'' then Inl (fails_with ''describe'')
      else
        (case mk_vms s i of
           None \<Rightarrow>
             Inr \<lparr>pd_Exists = False, pd_PowerState = '''', pd_Ips = [], pd_ConsoleUrl = '''', pd_ProviderRawJson = ''''\<rparr>
         | Some a \<Rightarrow>
             let vm = mk_vm_at s a in
             Inr \<lparr>pd_Exists = True, pd_PowerState = mv_PowerState vm, pd_Ips = mv_IPs vm,
                  pd_ConsoleUrl = mv_ConsoleURL vm, pd_ProviderRawJson = raw_json env vm\<rparr>))"

definition hex2 :: "int \<Rightarrow> string" where
  "hex2 n = [''0123456789abcdef'' ! (nat n div 16 mod 16), ''0123456789abcdef'' ! (nat n mod 16)]"

text \<open>The j-th machine of the list takes three draws for its address.\<close>

definition vm_listing :: "mock_env \<Rightarrow> nat \<Rightarrow> mock_vm \<Rightarrow> pb_vm_info" where
  "vm_listing env j vm =
     \<lparr>pvi_Id = mv_ID vm, pvi_Name = mv_Name vm, pvi_PowerState = mv_PowerState vm, pvi_Ips = mv_IPs vm,
      pvi_Cpu = 2, pvi_MemoryMib = 4096,
      pvi_Disks = [\<lparr>pdi_Id = mv_ID vm @ ''-disk-0'', pdi_Path = ''/var/lib/libvirt/images/'' @ mv_ID vm @ ''.qcow2'',
        pdi_SizeGib = 20, pdi_Format = ''qcow2''\<rparr>],
      pvi_Networks = [\<lparr>pni_Name = ''default'',
        pni_Mac = ''52:54:00:'' @ hex2 (me_intn env (3 * j) 256) @ '':'' @ hex2 (me_intn env (3 * j + 1) 256) @ '':'' @
          hex2 (me_intn env (3 * j + 2) 256),
        pni_IpAddress = (case mv_IPs vm of [] \<Rightarrow> '''' | ip # _ \<Rightarrow> ip)\<rparr>],
      pvi_ProviderRaw = [''vm_id'' \<mapsto> mv_ID vm, ''power_state'' \<mapsto> mv_PowerState vm, ''console_url'' \<mapsto> mv_ConsoleURL vm]\<rparr>"

definition Mock_ListVMs :: "mock_env \<Rightarrow> mock_state \<Rightarrow> pb_vm_info list sdk_result" where
  "Mock_ListVMs env s =
     Inr (map (\<lambda>(j, i). vm_listing env j (mk_vm_at s (the (mk_vms s i)))) (enumerate 0 (me_order env (mk_vms s))))"

definition Mock_TaskStatus :: "string \<Rightarrow> mock_state \<Rightarrow> pb_task_status sdk_result" where
  "Mock_TaskStatus task s =
     (if shouldFail s ''task_status'' then Inl (fails_with ''task status'')
      else
        (case mk_tasks s task of
           None \<Rightarrow> Inr \<lparr>pt_Done = True, pt_Error = ''task not found''\<rparr>
         | Some a \<Rightarrow> Inr \<lparr>pt_Done = tk_Done (mk_task_at s a), pt_Error = tk_Error (mk_task_at s a)\<rparr>))"

definition Mock_SnapshotCreate ::
  "mock_env \<Rightarrow> pb_snapshot_create_request \<Rightarrow> mock_state \<Rightarrow> mock_state \<times> pb_snapshot_create_response sdk_result" where
  "Mock_SnapshotCreate env req s =
     (if shouldFail s ''snapshot_create'' then (s, Inl (fails_with ''snapshot''))
      else
        (case mk_vms s (psq_VmId req) of
           None \<Rightarrow> (s, Inl (NewNotFound (me_quote env) ''VirtualMachine'' (psq_VmId req)))
         | Some a \<Rightarrow>
             let snapshotID = generateID env 0 0 ''snap''; vm = mk_vm_at s a;
                 snapshot = \<lparr>ms_ID = snapshotID, ms_Name = psq_NameHint req, ms_CreatedTime = me_now env 1,
                   ms_Description = psq_Description req, ms_SizeBytes = me_intn env 1 1000000000 + 100000000,
                   ms_HasMemory = psq_IncludeMemory req\<rparr>;
                 s1 = s\<lparr>mk_vm_at := (mk_vm_at s)(a := vm\<lparr>mv_Snapshots := (mv_Snapshots vm)(snapshotID \<mapsto> snapshot)\<rparr>)\<rparr>;
                 taskID = generateID env 2 2 ''task''
             in (put_task taskID (me_now env 3) (\<lambda>_. CompleteTask taskID) s1,
                 Inr \<lparr>psr_SnapshotId = snapshotID, psr_Task = Some taskID\<rparr>)))"

text \<open>The two operations on an existing snapshot; \<open>sn\<close> is the pair of machine and snapshot.\<close>

definition on_snapshot ::
  "mock_env \<Rightarrow> string \<Rightarrow> string \<times> string \<Rightarrow> (string \<Rightarrow> nat \<Rightarrow> nat \<Rightarrow> background) \<Rightarrow> mock_state
     \<Rightarrow> mock_state \<times> string option sdk_result" where
  "on_snapshot env operation sn job s =
     (case mk_vms s (fst sn) of
        Some a \<Rightarrow>
          if \<not> shouldFail s operation \<and> mv_Snapshots (mk_vm_at s a) (snd sn) = None
          then (s, Inl (NewNotFound (me_quote env) ''Snapshot'' (snd sn)))
          else start_task env operation ''snapshot'' (fst sn) job s
      | None \<Rightarrow> start_task env operation ''snapshot'' (fst sn) job s)"

definition Mock_SnapshotDelete ::
  "mock_env \<Rightarrow> string \<times> string \<Rightarrow> mock_state \<Rightarrow> mock_state \<times> string option sdk_result" where
  "Mock_SnapshotDelete env sn = on_snapshot env ''snapshot_delete'' sn (\<lambda>_ a t. FinishSnapshotDelete a (snd sn) t)"

definition Mock_SnapshotRevert ::
  "mock_env \<Rightarrow> string \<times> string \<Rightarrow> mock_state \<Rightarrow> mock_state \<times> string option sdk_result" where
  "Mock_SnapshotRevert env sn = on_snapshot env ''snapshot_revert'' sn (\<lambda>taskID _ _. CompleteTask taskID)"

definition Mock_Clone :: "mock_env \<Rightarrow> pb_clone_request \<Rightarrow> mock_state \<Rightarrow> mock_state \<times> pb_clone_response sdk_result" where
  "Mock_Clone env req s =
     (if shouldFail s ''clone'' then (s, Inl (fails_with ''clone''))
      else
        (case mk_vms s (plq_SourceVmId req) of
           None \<Rightarrow> (s, Inl (NewNotFound (me_quote env) ''VirtualMachine'' (plq_SourceVmId req)))
         | Some _ \<Rightarrow>
             let targetID = generateID env 0 0 ''vm''; taskID = generateID env 3 1 ''task''
             in (put_task taskID (me_now env 4) (\<lambda>_. CompleteTask taskID)
                   (put_vm (new_vm env targetID (plq_TargetName req)) s),
                 Inr \<lparr>plr_TargetVmId = targetID, plr_Task = Some taskID\<rparr>)))"

definition Mock_ImagePrepare ::
  "mock_env \<Rightarrow> pb_image_prepare_request \<Rightarrow> mock_state \<Rightarrow> mock_state \<times> pb_image_prepare_response sdk_result" where
  "Mock_ImagePrepare env req s =
     (if shouldFail s ''image_prepare'' then (s, Inl (fails_with ''image''))
      else
        let taskID = generateID env 0 0 ''task'' in
        (put_task taskID (me_now env 1) (\<lambda>_. CompleteTask taskID) s,
         Inr \<lparr>pmr_Task = Some taskID, pmr_PreparedImageId = pmq_TargetName req,
              pmr_PreparedImagePath = ''/var/lib/virtrigaud/mock/'' @ pmq_TargetName req @ ''.qcow2''\<rparr>))"

definition Mock_GetCapabilities :: "mock_state \<Rightarrow> pb_capabilities sdk_result" where
  "Mock_GetCapabilities s = Inr (Manager_GetCapabilities (mk_capabilities s))"

section \<open>Goroutines\<close>

definition finish_task :: "int \<Rightarrow> nat \<Rightarrow> mock_state \<Rightarrow> mock_state" where
  "finish_task now a s = s\<lparr>mk_task_at := (mk_task_at s)(a := (mk_task_at s a)\<lparr>tk_Done := True, tk_Completed := now\<rparr>)\<rparr>"

definition completeTaskAfterDelay :: "mock_env \<Rightarrow> string \<Rightarrow> mock_state \<Rightarrow> mock_state" where
  "completeTaskAfterDelay env taskID s =
     (case mk_tasks s taskID of None \<Rightarrow> s | Some a \<Rightarrow> finish_task (me_now env 0) a s)"

fun power_effect :: "mock_env \<Rightarrow> pb_power_op \<Rightarrow> mock_vm \<Rightarrow> mock_vm" where
  "power_effect env POWER_OP_ON vm =
     vm\<lparr>mv_IPs := (if mv_IPs vm = [] then [''192.168.1.'' @ show_int (100 + me_intn env 0 50)] else mv_IPs vm),
        mv_PowerState := ''On''\<rparr>"
| "power_effect env POWER_OP_OFF vm = vm\<lparr>mv_IPs := [], mv_PowerState := ''Off''\<rparr>"
| "power_effect env POWER_OP_REBOOT vm = vm\<lparr>mv_PowerState := ''On''\<rparr>"
| "power_effect env POWER_OP_SHUTDOWN_GRACEFUL vm = vm\<lparr>mv_IPs := [], mv_PowerState := ''Off''\<rparr>"
| "power_effect env POWER_OP_UNSPECIFIED vm = vm\<lparr>mv_PowerState := ''''\<rparr>"

fun goroutine :: "mock_env \<Rightarrow> background \<Rightarrow> mock_state \<Rightarrow> mock_state" where
  "goroutine env (CompleteTask taskID) s = completeTaskAfterDelay env taskID s"
| "goroutine env (FinishDelete i t) s = finish_task (me_now env 0) t (s\<lparr>mk_vms := (mk_vms s)(i := None)\<rparr>)"
| "goroutine env (FinishPower a op t) s =
     finish_task (me_now env 1) t
       (s\<lparr>mk_vm_at := (mk_vm_at s)(a := (power_effect env op (mk_vm_at s a))\<lparr>mv_LastUpdated := me_now env 0\<rparr>)\<rparr>)"
| "goroutine env (FinishSnapshotDelete a sn t) s =
     finish_task (me_now env 0) t
       (s\<lparr>mk_vm_at := (mk_vm_at s)(a := (mk_vm_at s a)\<lparr>mv_Snapshots := (mv_Snapshots (mk_vm_at s a))(sn := None)\<rparr>)\<rparr>)"

text \<open>One pending goroutine runs and is gone.\<close>

definition run_background :: "mock_env \<Rightarrow> background \<Rightarrow> mock_state \<Rightarrow> mock_state" where
  "run_background env b s = (goroutine env b s)\<lparr>mk_background := remove1 b (mk_background s)\<rparr>"

end
