(* ===== verification/MockProps.thy ===== *)
theory MockProps
  imports MockProvider "HOL-Library.Multiset"
begin

text \<open>
  The mock provider as a transition system: calls and goroutines in any order. The invariant says which object each
  map entry denotes and that a running task has a goroutine left that will complete it.
\<close>

section \<open>Reachable states\<close>

inductive mock_step :: "mock_state \<Rightarrow> mock_state \<Rightarrow> bool" where
  mock_create: "mock_step s (fst (Mock_Create env q s))"
| mock_delete: "mock_step s (fst (Mock_Delete env i s))"
| mock_power: "mock_step s (fst (Mock_Power env pw s))"
| mock_reconfigure: "mock_step s (fst (Mock_Reconfigure env rc s))"
| mock_snapshot_create: "mock_step s (fst (Mock_SnapshotCreate env sc s))"
| mock_snapshot_delete: "mock_step s (fst (Mock_SnapshotDelete env sn s))"
| mock_snapshot_revert: "mock_step s (fst (Mock_SnapshotRevert env sn s))"
| mock_clone: "mock_step s (fst (Mock_Clone env cl s))"
| mock_prepare: "mock_step s (fst (Mock_ImagePrepare env ip s))"
| mock_background: "b \<in> set (mk_background s) \<Longrightarrow> mock_step s (run_background env b s)"

inductive mock_reachable :: "mock_state \<Rightarrow> bool" where
  start: "mock_reachable (NewProvider env mode)"
| step: "mock_reachable s \<Longrightarrow> mock_step s s' \<Longrightarrow> mock_reachable s'"

text \<open>Which task a goroutine completes.\<close>

fun completes :: "background \<Rightarrow> string \<Rightarrow> nat \<Rightarrow> bool" where
  "completes (CompleteTask j) i a \<longleftrightarrow> j = i"
| "completes (FinishDelete j t) i a \<longleftrightarrow> t = a"
| "completes (FinishPower v op t) i a \<longleftrightarrow> t = a"
| "completes (FinishSnapshotDelete v sn t) i a \<longleftrightarrow> t = a"

definition vms_ok :: "mock_state \<Rightarrow> bool" where
  "vms_ok s \<longleftrightarrow> (\<forall>i a. mk_vms s i = Some a \<longrightarrow> a < mk_next s \<and> mv_ID (mk_vm_at s a) = i)"

definition tasks_ok :: "mock_state \<Rightarrow> bool" where
  "tasks_ok s \<longleftrightarrow>
     (\<forall>i a. mk_tasks s i = Some a \<longrightarrow>
        a < mk_next s \<and> tk_ID (mk_task_at s a) = i \<and> tk_Error (mk_task_at s a) = '''' \<and>
        (tk_Done (mk_task_at s a) \<or> (\<exists>b \<in> set (mk_background s). completes b i a)))"

definition mock_ok :: "mock_state \<Rightarrow> bool" where
  "mock_ok s \<longleftrightarrow> vms_ok s \<and> tasks_ok s"

section \<open>Preservation\<close>

lemma put_vm_ok: "mock_ok s \<Longrightarrow> mock_ok (put_vm vm s)"
  by (auto simp: mock_ok_def vms_ok_def tasks_ok_def put_vm_def less_Suc_eq)

lemma put_task_ok:
  assumes "mock_ok s" "completes (job (mk_next s)) i (mk_next s)"
  shows "mock_ok (put_task i now job s)"
  using assms by (auto simp: mock_ok_def vms_ok_def tasks_ok_def put_task_def less_Suc_eq)

lemma update_vm_ok:
  assumes "mock_ok s" "mv_ID vm = mv_ID (mk_vm_at s a)"
  shows "mock_ok (s\<lparr>mk_vm_at := (mk_vm_at s)(a := vm)\<rparr>)"
  using assms by (auto simp: mock_ok_def vms_ok_def tasks_ok_def)

lemma start_task_ok:
  assumes "mock_ok s" "\<And>task a t. completes (job task a t) task t"
  shows "mock_ok (fst (start_task env operation label i job s))"
  using assms by (auto simp: start_task_def Let_def put_task_ok split: option.splits)

lemma power_effect_ID [simp]: "mv_ID (power_effect env op vm) = mv_ID vm"
  by (cases op) auto

text \<open>What running a goroutine leaves: it drops nothing but machines, and completes the tasks that waited for it.\<close>

lemma goroutine_frame [simp]:
  "mk_tasks (goroutine env b s) = mk_tasks s" "mk_next (goroutine env b s) = mk_next s"
  "mk_background (goroutine env b s) = mk_background s" "mk_failureMode (goroutine env b s) = mk_failureMode s"
  "tk_ID (mk_task_at (goroutine env b s) a) = tk_ID (mk_task_at s a)"
  "tk_Error (mk_task_at (goroutine env b s) a) = tk_Error (mk_task_at s a)"
  "mv_ID (mk_vm_at (goroutine env b s) a) = mv_ID (mk_vm_at s a)"
  by (cases b; simp add: completeTaskAfterDelay_def finish_task_def split: option.splits)+

lemma goroutine_done:
  "tk_Done (mk_task_at s a) \<Longrightarrow> tk_Done (mk_task_at (goroutine env b s) a)"
  "mk_tasks s i = Some a \<Longrightarrow> completes b i a \<Longrightarrow> tk_Done (mk_task_at (goroutine env b s) a)"
  by (cases b; simp add: completeTaskAfterDelay_def finish_task_def split: option.splits)+

lemma goroutine_vms: "mk_vms (goroutine env b s) i = Some a \<Longrightarrow> mk_vms s i = Some a"
  by (cases b) (auto simp: completeTaskAfterDelay_def finish_task_def split: option.splits if_splits)

lemma run_background_ok:
  assumes "mock_ok s"
  shows "mock_ok (run_background env b s)"
proof -
  have "vms_ok (run_background env b s)"
    using assms goroutine_vms [of env b s] by (auto simp: mock_ok_def vms_ok_def run_background_def)
  moreover have "tk_Done (mk_task_at (goroutine env b s) a) \<or> (\<exists>b' \<in> set (remove1 b (mk_background s)). completes b' i a)"
    if "mk_tasks s i = Some a" for i a
  proof -
    from assms that consider "tk_Done (mk_task_at s a)" | b' where "b' \<in> set (mk_background s)" "completes b' i a"
      by (auto simp: mock_ok_def tasks_ok_def)
    then show ?thesis
    proof cases
      case 2
      then show ?thesis using goroutine_done(2) [OF that] by (cases "b' = b") (auto simp: in_set_remove1)
    qed (simp add: goroutine_done(1))
  qed
  ultimately show ?thesis using assms by (auto simp: mock_ok_def tasks_ok_def run_background_def)
qed

lemma mock_step_ok: "mock_step s s' \<Longrightarrow> mock_ok s \<Longrightarrow> mock_ok s'"
proof (induction rule: mock_step.induct)
  case (mock_snapshot_create s env sc)
  then show ?case
    by (auto simp: Mock_SnapshotCreate_def Let_def intro!: put_task_ok update_vm_ok split: option.splits)
next
  case (mock_snapshot_delete s env sn)
  then show ?case by (auto simp: Mock_SnapshotDelete_def on_snapshot_def intro!: start_task_ok split: option.splits)
next
  case (mock_snapshot_revert s env sn)
  then show ?case by (auto simp: Mock_SnapshotRevert_def on_snapshot_def intro!: start_task_ok split: option.splits)
qed (auto simp: Mock_Create_def Mock_Delete_def Mock_Power_def Mock_Reconfigure_def Mock_Clone_def Mock_ImagePrepare_def
    Let_def intro!: put_task_ok put_vm_ok start_task_ok run_background_ok split: option.splits)

lemma NewProvider_ok: "mock_ok (NewProvider env mode)"
  unfolding NewProvider_def createSampleVMs_def
  by (simp add: put_vm_ok) (intro put_vm_ok, simp add: mock_ok_def vms_ok_def tasks_ok_def)

lemma mock_reachable_ok: "mock_reachable s \<Longrightarrow> mock_ok s"
  by (induction rule: mock_reachable.induct) (auto simp: NewProvider_ok mock_step_ok)

section \<open>Draining\<close>

definition drain :: "(mock_env \<times> background) list \<Rightarrow> mock_state \<Rightarrow> mock_state" where
  "drain runs s = fold (\<lambda>(env, b). run_background env b) runs s"

lemma drain_simps [simp]:
  "drain [] s = s" "drain ((env, b) # runs) s = drain runs (run_background env b s)"
  by (simp_all add: drain_def)

lemma drain_frame:
  "mk_tasks (drain runs s) = mk_tasks s" "mk_failureMode (drain runs s) = mk_failureMode s"
  "mset (mk_background (drain runs s)) = mset (mk_background s) - mset (map snd runs)"
  by (induction runs arbitrary: s) (auto simp: run_background_def)

lemma drain_ok: "mock_ok s \<Longrightarrow> mock_ok (drain runs s)"
  by (induction runs arbitrary: s) (auto simp: run_background_ok)

text \<open>
  C13. Every task of the mock provider ends. From any state the provider can reach, under any mixture of calls and
  goroutines and also when generated identifiers coincide, let the pending goroutines run in any order: none starts
  another, so after as many steps as there are goroutines none is left, and every task ever recorded is then
  done, without an error, and reported so unless the failure mode hides it.
\<close>

theorem mock_tasks_end:
  assumes "mock_reachable s" "mset (map snd runs) = mset (mk_background s)"
  shows "mk_background (drain runs s) = [] \<and>
     (\<forall>task a. mk_tasks s task = Some a \<longrightarrow>
        mk_tasks (drain runs s) task = Some a \<and> tk_Done (mk_task_at (drain runs s) a) \<and>
        (\<not> shouldFail s ''task_status'' \<longrightarrow>
           Mock_TaskStatus task (drain runs s) = Inr \<lparr>pt_Done = True, pt_Error = ''''\<rparr>))"
proof -
  let ?t = "drain runs s"
  have "mset (mk_background ?t) = {#}" using assms(2) by (simp add: drain_frame)
  then have empty: "mk_background ?t = []" by simp
  have "tasks_ok ?t" using drain_ok [OF mock_reachable_ok [OF assms(1)]] by (simp add: mock_ok_def)
  then have "tk_Done (mk_task_at ?t a) \<and> tk_Error (mk_task_at ?t a) = ''''" if "mk_tasks s task = Some a" for task a
    using that empty by (simp add: tasks_ok_def drain_frame)
  moreover have "shouldFail ?t ''task_status'' = shouldFail s ''task_status''" by (simp add: shouldFail_def drain_frame)
  ultimately show ?thesis using empty by (simp add: drain_frame Mock_TaskStatus_def)
qed

definition sample_mock_env :: mock_env where
  "sample_mock_env = \<lparr>me_now = (\<lambda>_. 0), me_intn = (\<lambda>_ _. 7), me_quote = (\<lambda>s. s), me_rfc3339 = (\<lambda>_. ''''),
     me_order = (\<lambda>_. [])\<rparr>"

text \<open>The witness: two requests within one second that draw the same number, so that their tasks share a name.\<close>

theorem mock_tasks_end_witness:
  "\<exists>runs task. length runs = 2 \<and> (let s = fst (Mock_Delete sample_mock_env ''vm-1'' (fst (Mock_Power sample_mock_env
       \<lparr>pw_Id = ''vm-2'', pw_Op = POWER_OP_ON, pw_GracefulTimeoutSeconds = 0\<rparr> (NewProvider sample_mock_env ''''))))
     in mk_background (drain runs s) = [] \<and>
        Mock_TaskStatus task (drain runs s) = Inr \<lparr>pt_Done = True, pt_Error = ''''\<rparr>)"
proof -
  let ?p = "\<lparr>pw_Id = ''vm-2'', pw_Op = POWER_OP_ON, pw_GracefulTimeoutSeconds = 0\<rparr>"
  let ?s0 = "NewProvider sample_mock_env ''''" 
  let ?s = "fst (Mock_Delete sample_mock_env ''vm-1'' (fst (Mock_Power sample_mock_env ?p ?s0)))"
  let ?task = "generateID sample_mock_env 0 0 ''task''"
  let ?runs = "map (Pair sample_mock_env) (mk_background ?s)"
  have reach: "mock_reachable ?s"
    by (rule mock_reachable.step [OF mock_reachable.step [OF mock_reachable.start mock_power] mock_delete])
  have "\<exists>a. mk_tasks ?s ?task = Some a" "length (mk_background ?s) = 2" "\<not> shouldFail ?s ''task_status''"
    by (simp_all add: Mock_Delete_def Mock_Power_def start_task_def NewProvider_def createSampleVMs_def put_vm_def put_task_def
        sample_vm_def Let_def shouldFail_def show_nat.simps)
  with mock_tasks_end [OF reach, of ?runs] show ?thesis
    by (intro exI [of _ ?runs] exI [of _ ?task]) (auto simp: Let_def comp_def)
qed

section \<open>Lost machines\<close>

text \<open>
  Generated identifiers are not unique, although the comment on \<^verbatim>\<open>generateID\<close> says so: when a Create draws the
  second and the number of an existing machine, the new machine takes the place of the old one, which is then gone
  from every answer of the provider although nobody deleted it.
\<close>

lemma colliding_create_replaces_machine:
  assumes "mock_reachable s" "mk_vms s (generateID env 0 0 ''vm'') = Some a" "\<not> shouldFail s ''create''"
  shows "\<exists>i task a'. snd (Mock_Create env q s) = Inr \<lparr>pr_Id = i, pr_Task = Some task\<rparr> \<and>
     dom (mk_vms (fst (Mock_Create env q s))) = dom (mk_vms s) \<and> mk_vms (fst (Mock_Create env q s)) i = Some a' \<and>
     a' \<noteq> a \<and> mv_Name (mk_vm_at (fst (Mock_Create env q s)) a') = pq_Name q \<and>
     a \<notin> ran (mk_vms (fst (Mock_Create env q s)))"
proof -
  let ?i = "generateID env 0 0 ''vm''" and ?s = "fst (Mock_Create env q s)"
  have "vms_ok s" using mock_reachable_ok [OF assms(1)] by (simp add: mock_ok_def)
  with assms(2) have old: "a < mk_next s" "mk_vms s j = Some a \<longrightarrow> j = ?i" for j by (auto simp: vms_ok_def)
  have new: "mk_vms ?s = (mk_vms s)(?i \<mapsto> mk_next s)" "mv_Name (mk_vm_at ?s (mk_next s)) = pq_Name q"
    "\<exists>task. snd (Mock_Create env q s) = Inr \<lparr>pr_Id = ?i, pr_Task = Some task\<rparr>"
    using assms(3) by (simp_all add: Mock_Create_def Let_def put_task_def put_vm_def new_vm_def)
  have "a \<notin> ran (mk_vms ?s)" using old(1) old(2) by (auto simp: new(1) ran_def)
  moreover have "dom (mk_vms ?s) = dom (mk_vms s)" using assms(2) by (auto simp: new(1))
  moreover have "mk_vms ?s ?i = Some (mk_next s)" by (simp add: new(1))
  ultimately show ?thesis using new(2,3) old(1) by blast
qed

end
