(* ===== verification/ClosedLoop.thy ===== *)
theory ClosedLoop
  imports MockProps GrpcProps "HOL-Library.Sublist"
begin

text \<open>
  The loop closed: the VirtualMachine controller, the gRPC client and the mock provider as one system. The world is
  the VirtualMachine object in the API server and the state of the provider process. The manager takes a turn by
  reconciling once against them; its RPCs change the provider and its writes the object. The provider takes a
  turn by running the goroutine that has waited longest. A schedule is any sequence of turns.
\<close>

section \<open>The system\<close>

text \<open>
  The provider process behind the stub. An error is sent as \<^verbatim>\<open>status.FromError\<close> sees it; the methods the mock does not
  define answer as the generated \<^verbatim>\<open>UnimplementedProviderServer\<close> does.
\<close>

definition served :: "'a sdk_result \<Rightarrow> 'a result" where
  "served r =
     (case r of
        Inr x \<Rightarrow> Inr x
      | Inl e \<Rightarrow>
          (case status_FromError e of
             Returns (Some (c, m)) \<Rightarrow> Inl (GrpcError c m)
           | _ \<Rightarrow> Inl (GrpcError CodeUnknown (fmt_error e))))"

definition unimplemented :: "string \<Rightarrow> 'a result" where
  "unimplemented method = Inl (GrpcError CodeUnimplemented (''method '' @ method @ '' not implemented''))"

definition mock_stub :: "mock_env \<Rightarrow> mock_state \<Rightarrow> provider_stub" where
  "mock_stub env s =
     \<lparr>ps_Validate = served (Mock_Validate s),
      ps_Create = (\<lambda>q. served (snd (Mock_Create env q s))),
      ps_Delete = (\<lambda>i. served (snd (Mock_Delete env i s))),
      ps_Power = (\<lambda>q. served (snd (Mock_Power env q s))),
      ps_Reconfigure = (\<lambda>q. served (snd (Mock_Reconfigure env q s))),
      ps_Describe = (\<lambda>i. served (Mock_Describe env i s)),
      ps_TaskStatus = (\<lambda>task _. served (Mock_TaskStatus task s)),
      ps_SnapshotCreate = (\<lambda>q. served (snd (Mock_SnapshotCreate env q s))),
      ps_SnapshotDelete = (\<lambda>sn. served (snd (Mock_SnapshotDelete env sn s))),
      ps_SnapshotRevert = (\<lambda>sn. served (snd (Mock_SnapshotRevert env sn s))),
      ps_Clone = (\<lambda>q. served (snd (Mock_Clone env q s))),
      ps_ImagePrepare = (\<lambda>q. served (snd (Mock_ImagePrepare env q s))),
      ps_GetCapabilities = served (Mock_GetCapabilities s),
      ps_ExportDisk = (\<lambda>_. unimplemented ''ExportDisk''),
      ps_ImportDisk = (\<lambda>_. unimplemented ''ImportDisk''),
      ps_GetDiskInfo = (\<lambda>_. unimplemented ''GetDiskInfo''),
      ps_ListVMs = served (Mock_ListVMs env s)\<rparr>"

record world =
  wd_vm :: virtual_machine
  wd_mock :: mock_state

text \<open>What the controller reads and calls in a turn; everything else of its environment is \<open>base\<close>.\<close>

definition world_env :: "ctl_env \<Rightarrow> wire_codec \<Rightarrow> mock_env \<Rightarrow> int \<Rightarrow> world \<Rightarrow> ctl_env" where
  "world_env base w env now wd =
     base\<lparr>ce_now := now, ce_get_vm := (\<lambda>_ _. Inr (wd_vm wd)),
       ce_resolver := Some (\<lambda>_. Inr (client_instance w (mock_stub env (wd_mock wd))))\<rparr>"

text \<open>
  The effect of an event of the controller. An RPC that failed has changed nothing in the provider. The events of
  other controllers do not occur here.
\<close>

fun deliver :: "wire_codec \<Rightarrow> mock_env \<Rightarrow> ctl_event \<Rightarrow> world \<Rightarrow> world" where
  "deliver w env (CtlWrite (WVMStatus vm) True) wd = wd\<lparr>wd_vm := (wd_vm wd)\<lparr>vm_status := vm_status vm\<rparr>\<rparr>"
| "deliver w env (CtlWrite (WVMMeta vm) True) wd = wd\<lparr>wd_vm := (wd_vm wd)\<lparr>vm_meta := vm_meta vm\<rparr>\<rparr>"
| "deliver w env (CtlCreate req True) wd =
     (case convertCreateRequest w req of
        Inl _ \<Rightarrow> wd
      | Inr q \<Rightarrow> wd\<lparr>wd_mock := fst (Mock_Create env q (wd_mock wd))\<rparr>)"
| "deliver w env (CtlPower i op True) wd =
     (case convertPowerOp op of
        Inl _ \<Rightarrow> wd
      | Inr pop \<Rightarrow>
          wd\<lparr>wd_mock := fst (Mock_Power env \<lparr>pw_Id = i, pw_Op = pop,
            pw_GracefulTimeoutSeconds = (if op = PowerOpShutdownGraceful then 60 else 0)\<rparr> (wd_mock wd))\<rparr>)"
| "deliver w env (CtlReconfigure i req True) wd =
     (case wc_request w req of
        Inl _ \<Rightarrow> wd
      | Inr j \<Rightarrow> wd\<lparr>wd_mock := fst (Mock_Reconfigure env \<lparr>pf_Id = i, pf_DesiredJson = j\<rparr> (wd_mock wd))\<rparr>)"
| "deliver w env (CtlDelete i True) wd = wd\<lparr>wd_mock := fst (Mock_Delete env i (wd_mock wd))\<rparr>"
| "deliver w env (CtlPrepare q True) wd =
     wd\<lparr>wd_mock := fst (Mock_ImagePrepare env \<lparr>pmq_ImageJson = iq_ImageJSON q, pmq_TargetName = iq_TargetName q,
       pmq_StorageHint = iq_StorageHint q\<rparr> (wd_mock wd))\<rparr>"
| "deliver w env _ wd = wd"

datatype turn = ManagerTurn mock_env int | ProviderTurn mock_env

definition manager_turn :: "ctl_env \<Rightarrow> wire_codec \<Rightarrow> mock_env \<Rightarrow> int \<Rightarrow> world \<Rightarrow> world" where
  "manager_turn base w env now wd =
     fold (deliver w env)
       (evs (fst (VM_Reconcile (world_env base w env now wd) (vm_ns (wd_vm wd), vm_name (wd_vm wd)) \<lparr>ops = 0, evs = []\<rparr>))) wd"

definition provider_turn :: "mock_env \<Rightarrow> world \<Rightarrow> world" where
  "provider_turn env wd =
     (case mk_background (wd_mock wd) of
        [] \<Rightarrow> wd
      | b # _ \<Rightarrow> wd\<lparr>wd_mock := run_background env b (wd_mock wd)\<rparr>)"

fun play :: "ctl_env \<Rightarrow> wire_codec \<Rightarrow> turn list \<Rightarrow> world \<Rightarrow> world" where
  "play base w [] wd = wd"
| "play base w (ManagerTurn env now # ts) wd = play base w ts (manager_turn base w env now wd)"
| "play base w (ProviderTurn env # ts) wd = play base w ts (provider_turn env wd)"

section \<open>What the provider answers\<close>

lemma generateID_not_empty [simp]: "generateID env t k pre \<noteq> ''''"
  by (simp add: generateID_def)

lemma served_Inr [simp]: "served (Inr x) = Inr x"
  by (simp add: served_def)

lemma mock_create_answer:
  assumes "mk_failureMode m = ''''"
  shows "pi_Create (client_instance w (mock_stub env m)) req =
     Inr \<lparr>cr_ID = generateID env 0 0 ''vm'', cr_TaskRef = generateID env 3 1 ''task''\<rparr>"
  using assms
  by (simp add: client_instance_def Let_def Client_Create_def convertCreateRequest_def call_rpc_direct mock_stub_def
      Mock_Create_def shouldFail_def task_id_def)

lemma mock_power_answer:
  assumes "mk_failureMode m = ''''" "mk_vms m i = Some a"
  shows "pi_Power (client_instance w (mock_stub env m)) i PowerOpOn = Inr (generateID env 0 0 ''task'')"
  using assms
  by (simp add: client_instance_def Let_def Client_Power_def call_rpc_direct mock_stub_def Mock_Power_def start_task_def
      shouldFail_def task_id_def)

lemma mock_task_answer:
  assumes "mk_failureMode m = ''''" "mk_tasks m task = Some b" "tk_Error (mk_task_at m b) = ''''"
  shows "pi_IsTaskComplete (client_instance w (mock_stub env m)) task n = Inr (tk_Done (mk_task_at m b))"
  using assms by (simp add: pi_IsTaskComplete_client mock_stub_def Mock_TaskStatus_def shouldFail_def)

lemma mock_describe_answer:
  assumes "mk_failureMode m = ''''" "mk_vms m i = Some a"
  shows "\<exists>desc. pi_Describe (client_instance w (mock_stub env m)) i = Inr desc \<and> ds_Exists desc \<and>
     ds_PowerState desc = mv_PowerState (mk_vm_at m a)"
  using assms
  by (simp add: client_instance_def Let_def Client_Describe_def call_rpc_direct mock_stub_def Mock_Describe_def shouldFail_def)

section \<open>What the cluster provides\<close>

text \<open>An image the controller passes on without preparing it.\<close>

definition image_settled :: "provider \<Rightarrow> vm_image option \<Rightarrow> bool" where
  "image_settled p img \<longleftrightarrow>
     (case img of
        None \<Rightarrow> True
      | Some i \<Rightarrow> \<not> providerAdvertisesImageImport p \<or> already_prepared i (pv_name p) \<or> \<not> imageSourceNeedsPrepare i)"

text \<open>
  The objects the machine refers to exist, its cloud-init data can be read, it names one disk source, and it is to
  be powered on; writes succeed.
\<close>

definition cluster_ready ::
  "ctl_env \<Rightarrow> virtual_machine \<Rightarrow> provider \<Rightarrow> vm_class \<Rightarrow> vm_image option \<Rightarrow> vm_network option list \<Rightarrow> bool" where
  "cluster_ready base vm p cls img nets \<longleftrightarrow>
     (\<forall>n x. ce_write_err base n x = None) \<and>
     ce_get_provider base (ref_key (vs_ProviderRef (vm_spec vm)) (vm_ns vm)) = Inr p \<and>
     (\<forall>n. ce_get_class base n (ref_key (vs_ClassRef (vm_spec vm)) (vm_ns vm)) = Inr cls) \<and>
     (case vs_ImageRef (vm_spec vm) of
        None \<Rightarrow> img = None
      | Some r \<Rightarrow> \<exists>i. img = Some i \<and> (\<forall>n. ce_get_image base n (ref_key r (vm_ns vm)) = Inr i)) \<and>
     image_settled p img \<and>
     get_networks base (vm_ns vm) (vs_Networks (vm_spec vm)) = Inr nets \<and>
     (\<exists>ud md. request_user_data base vm = Inr ud \<and> request_meta_data base vm = Inr md) \<and>
     one_source vm \<and> desired_power vm = ''On''"

text \<open>A machine object nobody has reconciled yet, and a provider with nothing to do.\<close>

definition fresh_machine :: "virtual_machine \<Rightarrow> bool" where
  "fresh_machine vm \<longleftrightarrow>
     \<not> IsBeingDeleted (vm_meta vm) \<and> \<not> HasFinalizer (vm_meta vm) VirtualMachineFinalizer \<and> \<not> vmIsAdopted vm \<and>
     vm_id vm = '''' \<and> vt_LastTaskRef (vm_status vm) = '''' \<and> vt_ReconfigureTaskRef (vm_status vm) = ''''"

definition idle_mock :: "mock_state \<Rightarrow> bool" where
  "idle_mock m \<longleftrightarrow> mk_background m = [] \<and> mk_failureMode m = ''''"

section \<open>One reconcile\<close>

lemma world_env_simps [simp]:
  "ce_get_vm (world_env base w env now wd) n k = Inr (wd_vm wd)"
  "ce_get_class (world_env base w env now wd) = ce_get_class base"
  "ce_get_image (world_env base w env now wd) = ce_get_image base"
  "ce_get_provider (world_env base w env now wd) = ce_get_provider base"
  "ce_get_network (world_env base w env now wd) = ce_get_network base"
  "ce_get_secret (world_env base w env now wd) = ce_get_secret base"
  "ce_write_err (world_env base w env now wd) = ce_write_err base"
  "ctl_getProviderInstance (world_env base w env now wd) p = Inr (client_instance w (mock_stub env (wd_mock wd)))"
  by (simp_all add: world_env_def ctl_getProviderInstance_def)

lemma get_networks_world [simp]: "get_networks (world_env base w env now wd) ns rs = get_networks base ns rs"
  by (induction rs) (simp_all split: option.splits sum.splits)

lemma cloud_init_world [simp]:
  "resolveCloudInitUserData (world_env base w env now wd) ns ci = resolveCloudInitUserData base ns ci"
  "resolveCloudInitMetaData (world_env base w env now wd) ns ci = resolveCloudInitMetaData base ns ci"
  by (simp_all only: resolveCloudInitUserData_def resolveCloudInitMetaData_def world_env_simps cong: option.case_cong)

text \<open>The object differs from the one that was created only in its status and the finalizer.\<close>

definition same_object :: "virtual_machine \<Rightarrow> virtual_machine \<Rightarrow> bool" where
  "same_object vm0 vm \<longleftrightarrow>
     vm_spec vm = vm_spec vm0 \<and> vm_meta vm = add_finalizer VirtualMachineFinalizer (vm_meta vm0)"

lemma add_finalizer_frame [simp]:
  "md_name (add_finalizer f m) = md_name m" "md_namespace (add_finalizer f m) = md_namespace m"
  "md_labels (add_finalizer f m) = md_labels m" "IsBeingDeleted (add_finalizer f m) = IsBeingDeleted m"
  by (simp_all add: add_finalizer_def IsBeingDeleted_def)

lemma same_object_frame:
  assumes "same_object vm0 vm"
  shows "vm_spec vm = vm_spec vm0" "vm_ns vm = vm_ns vm0" "vm_name vm = vm_name vm0" "vmIsAdopted vm = vmIsAdopted vm0"
    "IsBeingDeleted (vm_meta vm) = IsBeingDeleted (vm_meta vm0)" "HasFinalizer (vm_meta vm) VirtualMachineFinalizer"
    "desired_power vm = desired_power vm0"
  using assms by (simp_all add: same_object_def vmIsAdopted_def desired_power_def)

lemma same_object_status [simp]:
  "same_object vm0 (set_vst f vm) = same_object vm0 vm"
  "same_object vm0 (vm_cond e ty st reason msg vm) = same_object vm0 vm"
  "same_object vm0 (updateCurrentResources vm cls) = same_object vm0 vm"
  "same_object vm0 (observe desc vm) = same_object vm0 vm"
  by (simp_all add: same_object_def set_vst_def vm_cond_def updateCurrentResources_def observe_def)

lemma getDependencies_ready:
  assumes "cluster_ready base vm0 p cls img nets" "vm_spec vm = vm_spec vm0" "vm_ns vm = vm_ns vm0"
  shows "\<exists>k. getDependencies (world_env base w env now wd) vm s = (s\<lparr>ops := k\<rparr>, Inr (p, cls, img, nets))"
proof -
  have "\<exists>k. get_dep_image (world_env base w env now wd) vm s = (s\<lparr>ops := k\<rparr>, Inr img)"
    using assms by (auto simp: cluster_ready_def get_dep_image_def read_image_def split: option.splits intro: exI [of _ "ops s"])
  then show ?thesis using assms by (auto simp: getDependencies_def cluster_ready_def Let_def)
qed

lemma EnsureImage_settled:
  assumes "image_settled p img"
  shows "EnsureImageOnProvider env vm img p inst s = (s, img, EnsureProceed)"
  using assms by (auto simp: EnsureImageOnProvider_def image_settled_def Let_def split: option.splits)

lemma buildCreateRequest_ready:
  assumes "cluster_ready base vm0 p cls img nets" "vm_spec vm = vm_spec vm0" "vm_ns vm = vm_ns vm0" "vm_name vm = vm_name vm0"
  shows "\<exists>req. buildCreateRequest (world_env base w env now wd) vm pname cls img nets = Inr req \<and> rq_Name req = vm_name vm0"
  using assms
  by (auto simp: buildCreateRequest_def cluster_ready_def request_user_data_def request_meta_data_def split: option.splits sum.splits)

text \<open>Past the dependencies, the image and the finalizer, a turn of the manager is \<open>reconcile_tasks\<close>.\<close>

definition observed :: "virtual_machine \<Rightarrow> virtual_machine" where
  "observed vm = set_vst (\<lambda>t. t\<lparr>vt_ObservedGeneration := md_generation (vm_meta vm)\<rparr>) vm"

lemma manager_turn_eq:
  assumes "cluster_ready base vm0 p cls img nets" "fresh_machine vm0" "same_object vm0 (wd_vm wd)"
  shows "\<exists>k. manager_turn base w env now wd =
     fold (deliver w env)
       (evs (fst (reconcile_tasks (world_env base w env now wd) (observed (wd_vm wd))
          (client_instance w (mock_stub env (wd_mock wd))) (pv_name p) cls img nets \<lparr>ops = k, evs = []\<rparr>))) wd"
proof -
  let ?e = "world_env base w env now wd" and ?vm = "wd_vm wd"
  note same = same_object_frame [OF assms(3)]
  obtain k where deps: "getDependencies ?e (observed ?vm) \<lparr>ops = Suc 0, evs = []\<rparr> = (\<lparr>ops = k, evs = []\<rparr>, Inr (p, cls, img, nets))"
    using getDependencies_ready [OF assms(1), of "observed ?vm" w env now wd "\<lparr>ops = Suc 0, evs = []\<rparr>"] same
    by (auto simp: observed_def set_vst_def)
  have "image_settled p img" using assms(1) by (simp add: cluster_ready_def)
  then have "VM_Reconcile ?e key \<lparr>ops = 0, evs = []\<rparr> =
      reconcile_tasks ?e (observed ?vm) (client_instance w (mock_stub env (wd_mock wd))) (pv_name p) cls img nets \<lparr>ops = k, evs = []\<rparr>"
    for key
    using deps same assms(2)
    by (simp add: VM_Reconcile_def read_vm_def AddFinalizer_def fresh_machine_def reconcileVM_def EnsureImage_settled
        flip: observed_def)
  then show ?thesis by (auto simp: manager_turn_def)
qed

section \<open>Stages\<close>

text \<open>
  The machine object carries the identifier \<open>i\<close> and the task \<open>t\<close>; the machine \<open>i\<close> of the provider is the object at
  \<open>a\<close>, the only one that was added; the task is known and has not failed.
\<close>

definition tracks :: "virtual_machine \<Rightarrow> vm_class \<Rightarrow> virtual_machine \<Rightarrow> string \<Rightarrow> string \<Rightarrow> bool" where
  "tracks vm0 cls vm i t \<longleftrightarrow>
     same_object vm0 vm \<and> vm_id vm = i \<and> i \<noteq> '''' \<and> vt_LastTaskRef (vm_status vm) = t \<and>
     vt_ReconfigureTaskRef (vm_status vm) = '''' \<and> \<not> needsReconfigure vm cls"

definition owns :: "mock_state \<Rightarrow> virtual_machine \<Rightarrow> mock_state \<Rightarrow> string \<Rightarrow> nat \<Rightarrow> string \<Rightarrow> bool" where
  "owns m0 vm0 m i a pw \<longleftrightarrow>
     mk_failureMode m = '''' \<and> mk_vms m = (mk_vms m0)(i \<mapsto> a) \<and> mv_Name (mk_vm_at m a) = vm_name vm0 \<and>
     mv_PowerState (mk_vm_at m a) = pw"

definition task_state :: "mock_state \<Rightarrow> string \<Rightarrow> nat \<Rightarrow> bool \<Rightarrow> bool" where
  "task_state m t b finished \<longleftrightarrow>
     t \<noteq> '''' \<and> mk_tasks m t = Some b \<and> tk_Error (mk_task_at m b) = '''' \<and> tk_Done (mk_task_at m b) = finished"

text \<open>
  The stages of a machine: without finalizer, to be created, created with the task pending and done, powered on with
  the task pending and done, ready.
\<close>

definition creating :: "world \<Rightarrow> virtual_machine \<Rightarrow> vm_class \<Rightarrow> world \<Rightarrow> bool \<Rightarrow> bool" where
  "creating wd0 vm0 cls wd finished \<longleftrightarrow>
     (\<exists>i a t b. tracks vm0 cls (wd_vm wd) i t \<and> owns (wd_mock wd0) vm0 (wd_mock wd) i a ''Off'' \<and>
        task_state (wd_mock wd) t b finished \<and>
        mk_background (wd_mock wd) = (if finished then [] else [CompleteTask t]))"

definition powering :: "world \<Rightarrow> virtual_machine \<Rightarrow> vm_class \<Rightarrow> world \<Rightarrow> bool \<Rightarrow> bool" where
  "powering wd0 vm0 cls wd finished \<longleftrightarrow>
     (\<exists>i a t b. tracks vm0 cls (wd_vm wd) i t \<and>
        owns (wd_mock wd0) vm0 (wd_mock wd) i a (if finished then ''On'' else ''Off'') \<and>
        task_state (wd_mock wd) t b finished \<and>
        mk_background (wd_mock wd) = (if finished then [] else [FinishPower a POWER_OP_ON b]))"

definition settled :: "world \<Rightarrow> virtual_machine \<Rightarrow> vm_class \<Rightarrow> world \<Rightarrow> bool" where
  "settled wd0 vm0 cls wd \<longleftrightarrow>
     (\<exists>i a. tracks vm0 cls (wd_vm wd) i '''' \<and> owns (wd_mock wd0) vm0 (wd_mock wd) i a ''On'' \<and>
        mk_background (wd_mock wd) = [] \<and> vt_PowerState (vm_status (wd_vm wd)) = ''On'' \<and>
        IsConditionTrue (vt_Conditions (vm_status (wd_vm wd))) ConditionReady)"

definition stage :: "world \<Rightarrow> vm_class \<Rightarrow> nat \<Rightarrow> world \<Rightarrow> bool" where
  "stage wd0 cls n wd \<longleftrightarrow>
     (let vm0 = wd_vm wd0 in
      if n = 0 then wd = wd0
      else if n = 1 then wd = wd0\<lparr>wd_vm := vm0\<lparr>vm_meta := add_finalizer VirtualMachineFinalizer (vm_meta vm0)\<rparr>\<rparr>
      else if n = 2 then creating wd0 vm0 cls wd False
      else if n = 3 then creating wd0 vm0 cls wd True
      else if n = 4 then powering wd0 vm0 cls wd False
      else if n = 5 then powering wd0 vm0 cls wd True
      else settled wd0 vm0 cls wd)"

section \<open>Turns of the manager\<close>

lemma tracks_observed [simp]: "tracks vm0 cls (observed vm) i t = tracks vm0 cls vm i t"
  by (simp add: tracks_def observed_def set_vst_def same_object_def needsReconfigure_def getCurrentCPU_def
      getCurrentMemoryMiB_def desired_cpu_def desired_memory_def)

lemma tracks_cond [simp]: "tracks vm0 cls (vm_cond e ty st reason msg vm) i t = tracks vm0 cls vm i t"
  by (simp add: tracks_def vm_cond_def set_vst_def same_object_def needsReconfigure_def getCurrentCPU_def
      getCurrentMemoryMiB_def desired_cpu_def desired_memory_def)

lemma tracks_observe [simp]: "tracks vm0 cls (observe desc vm) i t = tracks vm0 cls vm i t"
  by (simp add: tracks_def observe_def set_vst_def same_object_def needsReconfigure_def getCurrentCPU_def
      getCurrentMemoryMiB_def desired_cpu_def desired_memory_def)

lemma tracks_task: "tracks vm0 cls vm i t \<Longrightarrow> tracks vm0 cls (set_vst (\<lambda>s. s\<lparr>vt_LastTaskRef := t'\<rparr>) vm) i t'"
  by (auto simp: tracks_def set_vst_def same_object_def needsReconfigure_def getCurrentCPU_def
      getCurrentMemoryMiB_def desired_cpu_def desired_memory_def)

text \<open>A status write makes the object in the API server the one in hand.\<close>

lemma deliver_status:
  assumes "same_object vm0 (wd_vm wd)" "same_object vm0 vm"
  shows "deliver w env (CtlWrite (WVMStatus vm) True) wd = wd\<lparr>wd_vm := vm\<rparr>"
  using assms by (simp add: same_object_def)

lemma vm_end_event:
  assumes "\<And>n x. ce_write_err e n x = None"
  shows "evs (fst (vm_end e vm res s)) = evs s @ [CtlWrite (WVMStatus vm) True]"
  by (simp add: vm_end_def VM_updateStatus_def ctl_write_def ctl_emit_def assms Let_def)

text \<open>While its task runs, a machine is left alone.\<close>

lemma pending_turn:
  assumes "tracks vm0 cls vm i t" "task_state m t b False" "mk_failureMode m = ''''" "\<And>n x. ce_write_err e n x = None"
  shows "\<exists>vm'. evs (fst (reconcile_tasks e vm (client_instance w (mock_stub env m)) pname cls img nets s)) =
     evs s @ [CtlWrite (WVMStatus vm') True] \<and> tracks vm0 cls vm' i t"
proof -
  have "pi_IsTaskComplete (client_instance w (mock_stub env m)) t 1 = Inr False"
    using mock_task_answer [of m t b w env 1] assms(2,3) by (simp add: task_state_def)
  moreover have "vt_LastTaskRef (vm_status vm) = t" "t \<noteq> ''''" using assms(1,2) by (simp_all add: tracks_def task_state_def)
  ultimately show ?thesis using assms(1)
    by (intro exI [of _ "vm_cond e ConditionProvisioning ConditionTrue ReasonTaskInProgress ''Task in progress'' vm"])
       (simp add: reconcile_tasks_def poll_last_task_def vm_end_event assms(4))
qed

text \<open>With its task done or none recorded, it is brought to the desired state.\<close>

lemma finished_turn:
  assumes "tracks vm0 cls vm i t" "t = '''' \<or> task_state m t b True" "mk_failureMode m = ''''"
  shows "\<exists>vm'. reconcile_tasks e vm (client_instance w (mock_stub env m)) pname cls img nets s =
       converge e vm' (client_instance w (mock_stub env m)) pname cls img nets s \<and> tracks vm0 cls vm' i ''''"
proof (cases "t = ''''")
  case True
  with assms(1) show ?thesis
    by (intro exI [of _ vm]) (simp add: reconcile_tasks_def poll_last_task_def poll_reconfigure_task_def tracks_def)
next
  case False
  then have "pi_IsTaskComplete (client_instance w (mock_stub env m)) t 1 = Inr True"
    using mock_task_answer [of m t b w env 1] assms(2,3) by (simp add: task_state_def)
  moreover have "vt_LastTaskRef (vm_status vm) = t" "vt_ReconfigureTaskRef (vm_status vm) = ''''"
    using assms(1) by (simp_all add: tracks_def)
  moreover note tracks_task [OF assms(1), of "''''"]
  ultimately show ?thesis using False
    by (intro exI [of _ "set_vst (\<lambda>t. t\<lparr>vt_LastTaskRef := ''''\<rparr>) vm"])
       (simp add: reconcile_tasks_def poll_last_task_def poll_reconfigure_task_def set_vst_def)
qed

lemma power_on_turn:
  assumes "tracks vm0 cls vm i ''''" "desired_power vm0 = ''On''" "owns m0 vm0 m i a ''Off''" "\<And>n x. ce_write_err e n x = None"
  shows "\<exists>vm'. evs (fst (converge e vm (client_instance w (mock_stub env m)) pname cls img nets s)) =
       evs s @ [CtlPower i PowerOpOn True, CtlWrite (WVMStatus vm') True] \<and>
     tracks vm0 cls vm' i (generateID env 0 0 ''task'')"
proof -
  have m: "mk_failureMode m = ''''" "mk_vms m i = Some a" "mv_PowerState (mk_vm_at m a) = ''Off''"
    using assms(3) by (simp_all add: owns_def)
  obtain desc where d: "pi_Describe (client_instance w (mock_stub env m)) i = Inr desc" "ds_Exists desc" "ds_PowerState desc = ''Off''"
    using mock_describe_answer [OF m(1,2)] m(3) by metis
  let ?vm = "observe desc vm"
  let ?vm' = "vm_cond e ConditionReconfiguring ConditionTrue ReasonUpdating ''Adjusting power state''
      (set_vst (\<lambda>t. t\<lparr>vt_LastTaskRef := generateID env 0 0 ''task''\<rparr>) ?vm)"
  have vm: "vm_id vm = i" "i \<noteq> ''''" "vm_id ?vm = i" "desired_power ?vm = ''On''"
    using assms(1,2) same_object_frame(7) [of vm0 "observe desc vm"]
    by (simp_all add: tracks_def) (simp add: observe_def set_vst_def)
  have "tracks vm0 cls ?vm i ''''" using assms(1) by simp
  then have "tracks vm0 cls ?vm' i (generateID env 0 0 ''task'')" by (simp add: tracks_task)
  moreover have "converge e vm (client_instance w (mock_stub env m)) pname cls img nets s =
      adjustPowerState e ?vm (client_instance w (mock_stub env m)) ''On'' s"
    using d vm by (simp add: converge_def)
  moreover have "evs (fst (adjustPowerState e ?vm (client_instance w (mock_stub env m)) ''On'' s)) =
      evs s @ [CtlPower i PowerOpOn True, CtlWrite (WVMStatus ?vm') True]"
    using vm mock_power_answer [OF m(1,2), of w env]
    by (simp add: adjustPowerState_def power_op_for_def vm_end_event assms(4) ctl_emit_def)
  ultimately show ?thesis by auto
qed

lemma ready_turn:
  assumes "tracks vm0 cls vm i ''''" "desired_power vm0 = ''On''" "owns m0 vm0 m i a ''On''" "\<And>n x. ce_write_err e n x = None"
  shows "\<exists>vm'. evs (fst (converge e vm (client_instance w (mock_stub env m)) pname cls img nets s)) =
       evs s @ [CtlWrite (WVMStatus vm') True] \<and> tracks vm0 cls vm' i '''' \<and>
     vt_PowerState (vm_status vm') = ''On'' \<and> IsConditionTrue (vt_Conditions (vm_status vm')) ConditionReady"
proof -
  have m: "mk_failureMode m = ''''" "mk_vms m i = Some a" "mv_PowerState (mk_vm_at m a) = ''On''"
    using assms(3) by (simp_all add: owns_def)
  obtain desc where d: "pi_Describe (client_instance w (mock_stub env m)) i = Inr desc" "ds_Exists desc" "ds_PowerState desc = ''On''"
    using mock_describe_answer [OF m(1,2)] m(3) by metis
  let ?vm = "observe desc vm"
  let ?vm' = "vm_cond e ConditionProvisioning ConditionFalse ReasonReconcileSuccess ''VM provisioned''
      (vm_cond e ConditionReady ConditionTrue ReasonReconcileSuccess ''VM is ready'' ?vm)"
  have vm: "vm_id vm = i" "i \<noteq> ''''" "desired_power ?vm = ''On''"
    using assms(1,2) same_object_frame(7) [of vm0 "observe desc vm"] by (simp_all add: tracks_def)
  have t: "tracks vm0 cls ?vm i ''''" using assms(1) by simp
  then have "converge e vm (client_instance w (mock_stub env m)) pname cls img nets s =
      vm_end e ?vm' (requeue_in (getRequeueInterval desc)) s"
    using d vm by (simp add: converge_def tracks_def)
  moreover have "vt_PowerState (vm_status ?vm') = ''On''" "IsConditionTrue (vt_Conditions (vm_status ?vm')) ConditionReady"
    using d(3) by (simp_all add: vm_cond_def set_vst_def observe_def ConditionReady_def ConditionProvisioning_def)
  ultimately show ?thesis using t by (intro exI [of _ ?vm']) (simp add: vm_end_event assms(4))
qed

lemma create_turn:
  assumes "cluster_ready base vm0 p cls img nets" "fresh_machine vm0" "same_object vm0 vm" "vm_status vm = f (vm_status vm0)"
    and "\<And>t. vt_ID (f t) = vt_ID t" "\<And>t. vt_LastTaskRef (f t) = vt_LastTaskRef t"
    and "\<And>t. vt_ReconfigureTaskRef (f t) = vt_ReconfigureTaskRef t" "mk_failureMode m = ''''"
  shows "\<exists>req vm'. evs (fst (reconcile_tasks (world_env base w env now wd) vm (client_instance w (mock_stub env m)) pname cls img nets s)) =
       evs s @ [CtlCreate req True, CtlWrite (WVMStatus vm') True] \<and> rq_Name req = vm_name vm0 \<and>
     tracks vm0 cls vm' (generateID env 0 0 ''vm'') (generateID env 3 1 ''task'')"
proof -
  let ?e = "world_env base w env now wd" and ?i = "generateID env 0 0 ''vm''" and ?t = "generateID env 3 1 ''task''"
  note same = same_object_frame [OF assms(3)]
  obtain req where req: "buildCreateRequest ?e vm pname cls img nets = Inr req" "rq_Name req = vm_name vm0"
    using buildCreateRequest_ready [OF assms(1) same(1-3)] by blast
  have writes: "ce_write_err base n x = None" for n x using assms(1) by (simp add: cluster_ready_def)
  have vm: "vm_id vm = ''''" "vt_LastTaskRef (vm_status vm) = ''''" "vt_ReconfigureTaskRef (vm_status vm) = ''''" "\<not> vmIsAdopted vm"
    using assms same by (simp_all add: fresh_machine_def)
  let ?vm1 = "updateCurrentResources (set_vst (\<lambda>t. t\<lparr>vt_ID := ?i\<rparr>) vm) cls"
  let ?vm' = "vm_cond ?e ConditionProvisioning ConditionTrue ReasonCreating ''VM creation initiated''
      (set_vst (\<lambda>t. t\<lparr>vt_LastTaskRef := ?t\<rparr>) ?vm1)"
  have "tracks vm0 cls ?vm1 ?i ''''"
    using assms(3) vm updateCurrentResources_settles by (simp add: tracks_def) (simp add: updateCurrentResources_def set_vst_def)
  then have "tracks vm0 cls ?vm' ?i ?t" by (simp add: tracks_task)
  moreover have "(vs_ImageRef (vm_spec vm) = None) \<noteq> (vs_ImportedDisk (vm_spec vm) = None)"
    using assms(1) same(1) by (simp add: cluster_ready_def one_source_def)
  then have "evs (fst (reconcile_tasks ?e vm (client_instance w (mock_stub env m)) pname cls img nets s)) =
      evs s @ [CtlCreate req True, CtlWrite (WVMStatus ?vm') True]"
    using vm req mock_create_answer [OF assms(8), of w env]
    by (auto simp: reconcile_tasks_def poll_last_task_def poll_reconfigure_task_def converge_def createVM_def Let_def
        vm_end_event writes ctl_emit_def)
  ultimately show ?thesis using req(2) by blast
qed

section \<open>Stages advance\<close>

lemma add_finalizer_turn:
  assumes "cluster_ready base (wd_vm wd0) p cls img nets" "fresh_machine (wd_vm wd0)"
  shows "stage wd0 cls 1 (manager_turn base w env now wd0)"
proof -
  have "ce_write_err base n x = None" for n x using assms(1) by (simp add: cluster_ready_def)
  then show ?thesis using assms(2)
    by (simp add: stage_def Let_def manager_turn_def VM_Reconcile_def read_vm_def fresh_machine_def AddFinalizer_def ctl_write_def
        ctl_emit_def)
qed

lemma create_stage:
  assumes "cluster_ready base (wd_vm wd0) p cls img nets" "fresh_machine (wd_vm wd0)" "idle_mock (wd_mock wd0)" "stage wd0 cls 1 wd"
  shows "stage wd0 cls 2 (manager_turn base w env now wd)"
proof -
  let ?vm0 = "wd_vm wd0" and ?m = "wd_mock wd" and ?i = "generateID env 0 0 ''vm''" and ?t = "generateID env 3 1 ''task''"
  have wd: "wd_vm wd = ?vm0\<lparr>vm_meta := add_finalizer VirtualMachineFinalizer (vm_meta ?vm0)\<rparr>" "wd_mock wd = wd_mock wd0"
    using assms(4) by (simp_all add: stage_def Let_def)
  have same: "same_object ?vm0 (wd_vm wd)" by (simp add: wd same_object_def)
  have m: "mk_failureMode ?m = ''''" "mk_background ?m = []" using assms(3) by (simp_all add: wd idle_mock_def)
  obtain k where turn: "manager_turn base w env now wd = fold (deliver w env)
      (evs (fst (reconcile_tasks (world_env base w env now wd) (observed (wd_vm wd)) (client_instance w (mock_stub env ?m))
        (pv_name p) cls img nets \<lparr>ops = k, evs = []\<rparr>))) wd"
    using manager_turn_eq [OF assms(1,2) same] by blast
  obtain req vm' where r: "evs (fst (reconcile_tasks (world_env base w env now wd) (observed (wd_vm wd))
      (client_instance w (mock_stub env ?m)) (pv_name p) cls img nets \<lparr>ops = k, evs = []\<rparr>)) =
        [CtlCreate req True, CtlWrite (WVMStatus vm') True]" "rq_Name req = vm_name ?vm0" "tracks ?vm0 cls vm' ?i ?t"
    using create_turn [OF assms(1,2), of "observed (wd_vm wd)" "\<lambda>s. s\<lparr>vt_ObservedGeneration := md_generation (vm_meta (wd_vm wd))\<rparr>"
        ?m w env now wd "pv_name p" "\<lparr>ops = k, evs = []\<rparr>"] same m(1)
    by (auto simp: observed_def set_vst_def wd same_object_def)
  obtain q where q: "convertCreateRequest w req = Inr q" "pq_Name q = vm_name ?vm0"
    using r(2) by (simp add: convertCreateRequest_def)
  let ?wd1 = "wd\<lparr>wd_mock := fst (Mock_Create env q ?m)\<rparr>"
  have "same_object ?vm0 vm'" using r(3) by (simp add: tracks_def)
  with same have "manager_turn base w env now wd = ?wd1\<lparr>wd_vm := vm'\<rparr>"
    unfolding turn r(1) using q(1) deliver_status [of ?vm0 ?wd1 vm'] by (simp del: deliver.simps(1))
  moreover have "owns (wd_mock wd0) ?vm0 (wd_mock ?wd1) ?i (mk_next ?m) ''Off''"
      "task_state (wd_mock ?wd1) ?t (Suc (mk_next ?m)) False" "mk_background (wd_mock ?wd1) = [CompleteTask ?t]"
    using m q(2) by (simp_all add: Mock_Create_def shouldFail_def Let_def put_task_def put_vm_def new_vm_def owns_def task_state_def wd(2))
  ultimately show ?thesis using r(3) by (auto simp: stage_def Let_def creating_def)
qed

text \<open>A turn of the manager from a stage with a machine: either its task runs, or the turn is one of \<open>converge\<close>.\<close>

lemma tracked_turn:
  assumes "cluster_ready base vm0 p cls img nets" "fresh_machine vm0" "tracks vm0 cls (wd_vm wd) i t" "mk_failureMode (wd_mock wd) = ''''"
    and "t \<noteq> '''' \<Longrightarrow> task_state (wd_mock wd) t b finished"
  shows "if t \<noteq> '''' \<and> \<not> finished
     then \<exists>vm'. manager_turn base w env now wd = wd\<lparr>wd_vm := vm'\<rparr> \<and> tracks vm0 cls vm' i t
     else \<exists>vm' k. tracks vm0 cls vm' i '''' \<and> manager_turn base w env now wd =
       fold (deliver w env) (evs (fst (converge (world_env base w env now wd) vm'
         (client_instance w (mock_stub env (wd_mock wd))) (pv_name p) cls img nets \<lparr>ops = k, evs = []\<rparr>))) wd"
proof -
  have writes: "ce_write_err (world_env base w env now wd) n x = None" for n x using assms(1) by (simp add: cluster_ready_def)
  have same: "same_object vm0 (wd_vm wd)" using assms(3) by (simp add: tracks_def)
  obtain k where turn: "manager_turn base w env now wd = fold (deliver w env)
      (evs (fst (reconcile_tasks (world_env base w env now wd) (observed (wd_vm wd)) (client_instance w (mock_stub env (wd_mock wd)))
        (pv_name p) cls img nets \<lparr>ops = k, evs = []\<rparr>))) wd"
    using manager_turn_eq [OF assms(1,2) same] by blast
  have tr: "tracks vm0 cls (observed (wd_vm wd)) i t" using assms(3) by simp
  show ?thesis
  proof (cases "t \<noteq> '''' \<and> \<not> finished")
    case True
    then have "task_state (wd_mock wd) t b False" using assms(5) by simp
    from pending_turn [OF tr this assms(4) writes, of w env "pv_name p" img nets "\<lparr>ops = k, evs = []\<rparr>"] obtain vm' where v:
      "manager_turn base w env now wd = deliver w env (CtlWrite (WVMStatus vm') True) wd" "tracks vm0 cls vm' i t"
      unfolding turn by (auto simp del: deliver.simps(1))
    then have "manager_turn base w env now wd = wd\<lparr>wd_vm := vm'\<rparr>"
      using deliver_status [OF same, of vm' w env] by (simp add: tracks_def del: deliver.simps(1))
    with v(2) True show ?thesis by auto
  next
    case False
    then have "t = '''' \<or> task_state (wd_mock wd) t b True" using assms(5) by (cases finished) auto
    from finished_turn [OF tr this assms(4), of "world_env base w env now wd" w env "pv_name p" img nets "\<lparr>ops = k, evs = []\<rparr>"]
    have "\<exists>vm' k. tracks vm0 cls vm' i '''' \<and> manager_turn base w env now wd =
       fold (deliver w env) (evs (fst (converge (world_env base w env now wd) vm'
         (client_instance w (mock_stub env (wd_mock wd))) (pv_name p) cls img nets \<lparr>ops = k, evs = []\<rparr>))) wd"
      using turn by metis
    with False show ?thesis by (simp only: if_False)
  qed
qed

lemma power_stage:
  assumes "cluster_ready base (wd_vm wd0) p cls img nets" "fresh_machine (wd_vm wd0)" "stage wd0 cls 3 wd"
  shows "stage wd0 cls 4 (manager_turn base w env now wd)"
proof -
  let ?vm0 = "wd_vm wd0" and ?m = "wd_mock wd" and ?t' = "generateID env 0 0 ''task''"
  from assms(3) obtain i a t b where st: "tracks ?vm0 cls (wd_vm wd) i t" "owns (wd_mock wd0) ?vm0 ?m i a ''Off''"
      "task_state ?m t b True" "mk_background ?m = []"
    by (auto simp: stage_def Let_def creating_def)
  have m: "mk_failureMode ?m = ''''" "mk_vms ?m i = Some a" using st(2) by (simp_all add: owns_def)
  obtain vm1 k where v1: "tracks ?vm0 cls vm1 i ''''" "manager_turn base w env now wd =
      fold (deliver w env) (evs (fst (converge (world_env base w env now wd) vm1
        (client_instance w (mock_stub env ?m)) (pv_name p) cls img nets \<lparr>ops = k, evs = []\<rparr>))) wd"
    using tracked_turn [where w = w and env = env and now = now, OF assms(1,2) st(1) m(1) st(3)] by auto
  have d: "desired_power ?vm0 = ''On''" "\<And>n x. ce_write_err (world_env base w env now wd) n x = None"
    using assms(1) by (simp_all add: cluster_ready_def)
  obtain vm' where v: "manager_turn base w env now wd =
      fold (deliver w env) [CtlPower i PowerOpOn True, CtlWrite (WVMStatus vm') True] wd" "tracks ?vm0 cls vm' i ?t'"
    using power_on_turn [OF v1(1) d(1) st(2) d(2), of w env "pv_name p" img nets "\<lparr>ops = k, evs = []\<rparr>"] v1(2) by auto
  let ?wd1 = "deliver w env (CtlPower i PowerOpOn True) wd"
  have same: "same_object ?vm0 (wd_vm ?wd1)" "same_object ?vm0 vm'" using st(1) v(2) by (simp_all add: tracks_def)
  have "manager_turn base w env now wd = ?wd1\<lparr>wd_vm := vm'\<rparr>"
    unfolding v(1) by (simp only: fold_simps comp_apply id_apply deliver_status [OF same])
  moreover have "owns (wd_mock wd0) ?vm0 (wd_mock ?wd1) i a ''Off''" "task_state (wd_mock ?wd1) ?t' (mk_next ?m) False"
      "mk_background (wd_mock ?wd1) = [FinishPower a POWER_OP_ON (mk_next ?m)]"
    using st m by (simp_all add: Mock_Power_def start_task_def shouldFail_def Let_def put_task_def owns_def task_state_def)
  ultimately show ?thesis using v(2) by (auto simp: stage_def Let_def powering_def)
qed

lemma ready_stage:
  assumes "cluster_ready base (wd_vm wd0) p cls img nets" "fresh_machine (wd_vm wd0)" "stage wd0 cls 5 wd \<or> stage wd0 cls 6 wd"
  shows "stage wd0 cls 6 (manager_turn base w env now wd)"
proof -
  let ?vm0 = "wd_vm wd0" and ?m = "wd_mock wd"
  from assms(3) obtain i a t b where st: "tracks ?vm0 cls (wd_vm wd) i t" "owns (wd_mock wd0) ?vm0 ?m i a ''On''"
      "t \<noteq> '''' \<Longrightarrow> task_state ?m t b True" "mk_background ?m = []"
    by (auto simp: stage_def Let_def powering_def settled_def)
  have m: "mk_failureMode ?m = ''''" using st(2) by (simp add: owns_def)
  obtain vm1 k where v1: "tracks ?vm0 cls vm1 i ''''" "manager_turn base w env now wd =
      fold (deliver w env) (evs (fst (converge (world_env base w env now wd) vm1
        (client_instance w (mock_stub env ?m)) (pv_name p) cls img nets \<lparr>ops = k, evs = []\<rparr>))) wd"
    using tracked_turn [where w = w and env = env and now = now, OF assms(1,2) st(1) m st(3)] by auto
  have d: "desired_power ?vm0 = ''On''" "\<And>n x. ce_write_err (world_env base w env now wd) n x = None"
    using assms(1) by (simp_all add: cluster_ready_def)
  obtain vm' where v: "manager_turn base w env now wd = deliver w env (CtlWrite (WVMStatus vm') True) wd" "tracks ?vm0 cls vm' i ''''"
      "vt_PowerState (vm_status vm') = ''On''" "IsConditionTrue (vt_Conditions (vm_status vm')) ConditionReady"
    using ready_turn [OF v1(1) d(1) st(2) d(2), of w env "pv_name p" img nets "\<lparr>ops = k, evs = []\<rparr>"] v1(2)
    by (auto simp del: deliver.simps(1))
  have same: "same_object ?vm0 (wd_vm wd)" "same_object ?vm0 vm'" using st(1) v(2) by (simp_all add: tracks_def)
  have "manager_turn base w env now wd = wd\<lparr>wd_vm := vm'\<rparr>" unfolding v(1) by (rule deliver_status [OF same])
  then show ?thesis using st(2,4) v(2-4) by (auto simp: stage_def Let_def settled_def)
qed

lemma waiting_stage:
  assumes "cluster_ready base (wd_vm wd0) p cls img nets" "fresh_machine (wd_vm wd0)" "n = 2 \<or> n = 4" "stage wd0 cls n wd"
  shows "stage wd0 cls n (manager_turn base w env now wd)"
proof -
  let ?vm0 = "wd_vm wd0"
  have keep: "\<exists>vm'. manager_turn base w env now wd = wd\<lparr>wd_vm := vm'\<rparr> \<and> tracks ?vm0 cls vm' i t"
    if "tracks ?vm0 cls (wd_vm wd) i t" "owns (wd_mock wd0) ?vm0 (wd_mock wd) i a pw" "task_state (wd_mock wd) t b False" for i a t b pw
    using tracked_turn [OF assms(1,2) that(1) _ that(3), of w env now] that(2,3) by (simp add: owns_def task_state_def)
  show ?thesis
  proof (cases "n = 2")
    case True
    with assms(4) obtain i a t b where st: "tracks ?vm0 cls (wd_vm wd) i t" "owns (wd_mock wd0) ?vm0 (wd_mock wd) i a ''Off''"
      "task_state (wd_mock wd) t b False" "mk_background (wd_mock wd) = [CompleteTask t]" by (auto simp: stage_def Let_def creating_def)
    from keep [OF st(1-3)] st True show ?thesis by (force simp: stage_def Let_def creating_def)
  next
    case False
    with assms(3,4) obtain i a t b where st: "tracks ?vm0 cls (wd_vm wd) i t" "owns (wd_mock wd0) ?vm0 (wd_mock wd) i a ''Off''"
      "task_state (wd_mock wd) t b False" "mk_background (wd_mock wd) = [FinishPower a POWER_OP_ON b]"
      by (auto simp: stage_def Let_def powering_def)
    from keep [OF st(1-3)] st False assms(3) show ?thesis by (force simp: stage_def Let_def powering_def)
  qed
qed

lemma provider_stage:
  assumes "idle_mock (wd_mock wd0)" "stage wd0 cls n wd" "n \<le> 6"
  shows "stage wd0 cls (if n = 2 \<or> n = 4 then Suc n else n) (provider_turn env wd)"
proof -
  consider "n = 2" | "n = 4" | "n \<noteq> 2" "n \<noteq> 4" by blast
  then show ?thesis
  proof cases
    case 1
    with assms(2) obtain i a t b where st: "tracks (wd_vm wd0) cls (wd_vm wd) i t" "owns (wd_mock wd0) (wd_vm wd0) (wd_mock wd) i a ''Off''"
      "task_state (wd_mock wd) t b False" "mk_background (wd_mock wd) = [CompleteTask t]"
      by (auto simp: stage_def Let_def creating_def)
    let ?wd = "provider_turn env wd"
    have "tracks (wd_vm wd0) cls (wd_vm ?wd) i t" "owns (wd_mock wd0) (wd_vm wd0) (wd_mock ?wd) i a ''Off''"
      "task_state (wd_mock ?wd) t b True" "mk_background (wd_mock ?wd) = []"
      using st by (simp_all add: provider_turn_def run_background_def completeTaskAfterDelay_def finish_task_def owns_def task_state_def)
    with 1 show ?thesis by (auto simp: stage_def Let_def creating_def)
  next
    case 2
    with assms(2) obtain i a t b where st: "tracks (wd_vm wd0) cls (wd_vm wd) i t" "owns (wd_mock wd0) (wd_vm wd0) (wd_mock wd) i a ''Off''"
      "task_state (wd_mock wd) t b False" "mk_background (wd_mock wd) = [FinishPower a POWER_OP_ON b]"
      by (auto simp: stage_def Let_def powering_def)
    let ?wd = "provider_turn env wd"
    have "tracks (wd_vm wd0) cls (wd_vm ?wd) i t" "owns (wd_mock wd0) (wd_vm wd0) (wd_mock ?wd) i a ''On''"
      "task_state (wd_mock ?wd) t b True" "mk_background (wd_mock ?wd) = []"
      using st by (simp_all add: provider_turn_def run_background_def finish_task_def owns_def task_state_def)
    with 2 show ?thesis by (auto simp: stage_def Let_def powering_def)
  next
    case 3
    with assms have "mk_background (wd_mock wd) = []"
      by (auto simp: stage_def Let_def idle_mock_def creating_def powering_def settled_def split: if_splits)
    with 3 assms(2) show ?thesis by (simp add: provider_turn_def)
  qed
qed

section \<open>Schedules\<close>

text \<open>Whose turn a stage waits for, and the stage a schedule leads to.\<close>

datatype side = Mgr | Prov

fun side_of :: "turn \<Rightarrow> side" where
  "side_of (ManagerTurn env now) = Mgr"
| "side_of (ProviderTurn env) = Prov"

definition needed :: "side list" where
  "needed = [Mgr, Mgr, Prov, Mgr, Prov, Mgr]"

fun progress :: "side list \<Rightarrow> nat \<Rightarrow> nat" where
  "progress [] n = n"
| "progress (x # xs) n = progress xs (if n < 6 \<and> needed ! n = x then Suc n else n)"

lemma less_6_cases: "(n :: nat) < 6 \<longleftrightarrow> n = 0 \<or> n = 1 \<or> n = 2 \<or> n = 3 \<or> n = 4 \<or> n = 5" by auto

lemma turn_stage:
  assumes "cluster_ready base (wd_vm wd0) p cls img nets" "fresh_machine (wd_vm wd0)" "idle_mock (wd_mock wd0)" "stage wd0 cls n wd" "n \<le> 6"
  shows "stage wd0 cls (if n < 6 \<and> needed ! n = side_of t then Suc n else n) (play base w [t] wd)"
proof (cases t)
  case (ManagerTurn env now)
  consider "n = 0" | "n = 1" | "n = 2 \<or> n = 4" | "n = 3" | "n = 5 \<or> n = 6" using assms(5) by linarith
  then show ?thesis
  proof cases
    case 1
    with assms(4) have "wd = wd0" by (simp add: stage_def Let_def)
    with 1 add_finalizer_turn [OF assms(1,2)] show ?thesis by (simp add: ManagerTurn needed_def)
  next
    case 2
    with create_stage [OF assms(1-3)] assms(4) show ?thesis by (simp add: ManagerTurn needed_def numeral_2_eq_2)
  next
    case 3
    with waiting_stage [OF assms(1,2) 3 assms(4)] show ?thesis by (auto simp: ManagerTurn needed_def)
  next
    case 4
    with power_stage [OF assms(1,2)] assms(4) show ?thesis by (simp add: ManagerTurn needed_def)
  next
    case 5
    with ready_stage [OF assms(1,2), of wd] assms(4) show ?thesis by (auto simp: ManagerTurn needed_def)
  qed
next
  case (ProviderTurn env)
  have "(n < 6 \<and> needed ! n = Prov) \<longleftrightarrow> n = 2 \<or> n = 4" by (auto simp: less_6_cases needed_def)
  with provider_stage [OF assms(3-5)] show ?thesis by (simp add: ProviderTurn)
qed

lemma play_append: "play base w (ts @ ts') wd = play base w ts' (play base w ts wd)"
  by (induction base w ts wd rule: play.induct) simp_all

lemma play_stage:
  assumes "cluster_ready base (wd_vm wd0) p cls img nets" "fresh_machine (wd_vm wd0)" "idle_mock (wd_mock wd0)" "stage wd0 cls n wd" "n \<le> 6"
  shows "stage wd0 cls (progress (map side_of ts) n) (play base w ts wd)"
  using assms(4,5)
proof (induction ts arbitrary: n wd)
  case (Cons t ts)
  from Cons.IH [OF turn_stage [OF assms(1-3) Cons.prems]] Cons.prems(2)
  show ?case using play_append [of base w "[t]" ts] by simp
qed simp

text \<open>The turns a stage needs, in any schedule that contains them.\<close>

lemma progress_le: "n \<le> 6 \<Longrightarrow> progress xs n \<le> 6"
  by (induction xs arbitrary: n) auto

lemma progress_complete: "subseq (drop n needed) xs \<Longrightarrow> n \<le> 6 \<Longrightarrow> progress xs n = 6"
proof (induction xs arbitrary: n)
  case (Cons x xs)
  show ?case
  proof (cases "n < 6")
    case True
    have "length needed = 6" by (simp add: needed_def)
    with True have "drop n needed = needed ! n # drop (Suc n) needed" by (metis Cons_nth_drop_Suc)
    with Cons True show ?thesis by (cases "needed ! n = x") (auto simp: subseq_Cons2_iff)
  qed (use Cons in \<open>simp add: needed_def\<close>)
next
  case Nil
  then have "drop n needed = []" by (cases "drop n needed") auto
  with Nil(2) show ?case by (simp add: needed_def)
qed

text \<open>
  C3. The closed loop converges. A VirtualMachine that names one disk source and is to be powered on, in a cluster
  where the objects it refers to exist and its image needs no preparation, is reconciled against an idle mock
  provider over gRPC. Whatever the order of the turns, once the schedule contains two turns of the manager, one of
  the provider, one of the manager, one of the provider and one of the manager, with any turns in between, the
  machine object is Ready and powered on and no work is pending; and whatever the schedule, the provider has at most one machine more
  than before: the one the object names, under the object's name.
\<close>

theorem closed_loop_converges:
  assumes "cluster_ready base (wd_vm wd0) p cls img nets" "fresh_machine (wd_vm wd0)" "idle_mock (wd_mock wd0)"
  shows "(subseq [Mgr, Mgr, Prov, Mgr, Prov, Mgr] (map side_of ts) \<longrightarrow>
       IsConditionTrue (vt_Conditions (vm_status (wd_vm (play base w ts wd0)))) ConditionReady \<and>
       vt_PowerState (vm_status (wd_vm (play base w ts wd0))) = ''On'' \<and>
       mk_background (wd_mock (play base w ts wd0)) = [] \<and> vm_id (wd_vm (play base w ts wd0)) \<noteq> '''') \<and>
     (let vm = wd_vm (play base w ts wd0); m = wd_mock (play base w ts wd0) in
      if vm_id vm = '''' then m = wd_mock wd0
      else \<exists>a. mk_vms m = (mk_vms (wd_mock wd0))(vm_id vm \<mapsto> a) \<and> mv_Name (mk_vm_at m a) = vm_name (wd_vm wd0))"
proof -
  let ?wd = "play base w ts wd0" and ?n = "progress (map side_of ts) 0"
  have "stage wd0 cls 0 wd0" by (simp add: stage_def)
  from play_stage [OF assms this] have st: "stage wd0 cls ?n ?wd" by simp
  have "?n \<le> 6" by (simp add: progress_le)
  then have "?n < 6 \<or> ?n = 6" by linarith
  moreover have "vm_id (wd_vm wd0) = ''''" using assms(2) by (simp add: fresh_machine_def)
  ultimately have "let vm = wd_vm ?wd; m = wd_mock ?wd in
      if vm_id vm = '''' then m = wd_mock wd0
      else \<exists>a. mk_vms m = (mk_vms (wd_mock wd0))(vm_id vm \<mapsto> a) \<and> mv_Name (mk_vm_at m a) = vm_name (wd_vm wd0)"
    using st unfolding less_6_cases
    by (auto simp: stage_def Let_def creating_def powering_def settled_def tracks_def owns_def)
  moreover have "settled wd0 (wd_vm wd0) cls ?wd" if "subseq [Mgr, Mgr, Prov, Mgr, Prov, Mgr] (map side_of ts)"
    using st progress_complete [of 0 "map side_of ts"] that by (simp add: stage_def Let_def needed_def)
  then have "subseq [Mgr, Mgr, Prov, Mgr, Prov, Mgr] (map side_of ts) \<longrightarrow>
      IsConditionTrue (vt_Conditions (vm_status (wd_vm ?wd))) ConditionReady \<and>
      vt_PowerState (vm_status (wd_vm ?wd)) = ''On'' \<and> mk_background (wd_mock ?wd) = [] \<and> vm_id (wd_vm ?wd) \<noteq> ''''"
    by (auto simp: settled_def tracks_def)
  ultimately show ?thesis by blast
qed

definition loop_machine :: virtual_machine where
  "loop_machine = sample_machine\<lparr>vm_meta := new_meta ''ns'' ''vm''\<rparr>"

definition loop_start :: world where
  "loop_start = \<lparr>wd_vm = loop_machine, wd_mock = NewProvider sample_mock_env ''''\<rparr>"

lemma loop_samples:
  "cluster_ready (sample_ctl_env loop_machine) (wd_vm loop_start) sample_ctl_provider sample_class None []"
  "fresh_machine (wd_vm loop_start)" "idle_mock (wd_mock loop_start)"
  "or_name (vs_ProviderRef (vm_spec (wd_vm loop_start))) \<noteq> ''''"
  by (simp_all add: cluster_ready_def fresh_machine_def idle_mock_def loop_start_def loop_machine_def ctl_samples image_settled_def
      request_user_data_def request_meta_data_def one_source_def desired_power_def PowerStateOn_def IsBeingDeleted_def
      HasFinalizer_def vmIsAdopted_def NewProvider_def createSampleVMs_def put_vm_def)

theorem closed_loop_converges_witness:
  "let m = ManagerTurn sample_mock_env 0; p = ProviderTurn sample_mock_env;
       wd = play (sample_ctl_env loop_machine) sample_codec [m, m, m, p, p, m, m, p, m] loop_start
   in IsConditionTrue (vt_Conditions (vm_status (wd_vm wd))) ConditionReady \<and> vt_PowerState (vm_status (wd_vm wd)) = ''On''"
  using loop_samples closed_loop_converges [of "sample_ctl_env loop_machine" loop_start sample_ctl_provider sample_class None "[]"
        "[ManagerTurn sample_mock_env 0, ManagerTurn sample_mock_env 0, ManagerTurn sample_mock_env 0, ProviderTurn sample_mock_env,
          ProviderTurn sample_mock_env, ManagerTurn sample_mock_env 0, ManagerTurn sample_mock_env 0, ProviderTurn sample_mock_env,
          ManagerTurn sample_mock_env 0]" sample_codec]
  by (simp add: Let_def del: play.simps)

section \<open>Deletion\<close>

text \<open>The user deletes the object: with a finalizer on it, the API server only marks it.\<close>

definition mark_deleted :: "world \<Rightarrow> world" where
  "mark_deleted wd = wd\<lparr>wd_vm := (wd_vm wd)\<lparr>vm_meta := (vm_meta (wd_vm wd))\<lparr>md_deleting := True\<rparr>\<rparr>\<rparr>"

lemma mock_delete_answer:
  assumes "mk_failureMode m = ''''" "mk_vms m i = Some a"
  shows "pi_Delete (client_instance w (mock_stub env m)) i = Inr (generateID env 0 0 ''task'')"
  using assms by (simp add: pi_Delete_client mock_stub_def Mock_Delete_def start_task_def shouldFail_def task_id_def Let_def)

lemma deletion_turn:
  assumes "cluster_ready base vm0 p cls img nets" "tracks vm0 cls (wd_vm wd) i t" "or_name (vs_ProviderRef (vm_spec vm0)) \<noteq> ''''"
    and "mk_failureMode (wd_mock wd) = ''''" "mk_vms (wd_mock wd) i = Some a"
  shows "\<exists>t. \<not> HasFinalizer (vm_meta (wd_vm (manager_turn base w env now (mark_deleted wd)))) VirtualMachineFinalizer \<and>
     wd_mock (manager_turn base w env now (mark_deleted wd)) = put_task t (me_now env 1) (FinishDelete i) (wd_mock wd)"
proof -
  let ?wd = "mark_deleted wd" and ?vm = "wd_vm (mark_deleted wd)"
  have same: "same_object vm0 (wd_vm wd)" and i: "vm_id (wd_vm wd) = i" "i \<noteq> ''''" using assms(2) by (simp_all add: tracks_def)
  have vm: "vm_id ?vm = i" "vm_spec ?vm = vm_spec vm0" "vm_ns ?vm = vm_ns vm0" "IsBeingDeleted (vm_meta ?vm)"
      "HasFinalizer (vm_meta ?vm) VirtualMachineFinalizer" "wd_mock ?wd = wd_mock wd"
    using same_object_frame [OF same] i by (simp_all add: mark_deleted_def IsBeingDeleted_def HasFinalizer_def)
  have base: "ce_get_provider base (ref_key (vs_ProviderRef (vm_spec vm0)) (vm_ns vm0)) = Inr p" "\<And>n x. ce_write_err base n x = None"
    using assms(1) by (simp_all add: cluster_ready_def)
  have "evs (fst (VM_Reconcile (world_env base w env now ?wd) key \<lparr>ops = 0, evs = []\<rparr>)) =
      [CtlDelete i True, CtlWrite (WVMMeta (?vm\<lparr>vm_meta := remove_finalizer VirtualMachineFinalizer (vm_meta ?vm)\<rparr>)) True]" for key
    using vm i base assms(3) mock_delete_answer [OF assms(4,5), of w env]
    by (simp add: VM_Reconcile_def read_vm_def VM_handleDeletion_def release_vm_def RemoveFinalizer_def ctl_write_def ctl_emit_def Let_def)
  then show ?thesis using assms(4,5) vm(6)
    by (simp add: manager_turn_def Mock_Delete_def start_task_def shouldFail_def Let_def remove_finalizer_def HasFinalizer_def) blast
qed

text \<open>
  C37. A machine's life leaves nothing behind. Take a machine that has become ready under the conditions above, by
  any schedule, and delete its object. The next turn of the manager asks the provider to delete the machine and
  gives up the finalizer at once, while the machine still exists; the provider's next turn removes it, and the
  provider has exactly the machines it had before the object was created, except one that had the same generated identifier.
\<close>

theorem closed_loop_deletes:
  assumes "cluster_ready base (wd_vm wd0) p cls img nets" "fresh_machine (wd_vm wd0)" "idle_mock (wd_mock wd0)"
    and "or_name (vs_ProviderRef (vm_spec (wd_vm wd0))) \<noteq> ''''" "subseq [Mgr, Mgr, Prov, Mgr, Prov, Mgr] (map side_of ts)"
    and "wd = play base w ts wd0" "wd' = manager_turn base w env now (mark_deleted wd)"
  shows "\<not> HasFinalizer (vm_meta (wd_vm wd')) VirtualMachineFinalizer \<and> mk_vms (wd_mock wd') = mk_vms (wd_mock wd) \<and>
     mk_vms (wd_mock wd') (vm_id (wd_vm wd)) \<noteq> None \<and>
     mk_vms (wd_mock (provider_turn env' wd')) = (mk_vms (wd_mock wd0))(vm_id (wd_vm wd) := None)"
proof -
  have "stage wd0 cls 0 wd0" by (simp add: stage_def)
  from play_stage [OF assms(1-3) this, of ts w] progress_complete [of 0 "map side_of ts"] assms(5,6)
  have "settled wd0 (wd_vm wd0) cls wd" by (simp add: stage_def Let_def needed_def)
  then obtain i a where st: "tracks (wd_vm wd0) cls (wd_vm wd) i ''''" "owns (wd_mock wd0) (wd_vm wd0) (wd_mock wd) i a ''On''"
      "mk_background (wd_mock wd) = []"
    by (auto simp: settled_def)
  have i: "vm_id (wd_vm wd) = i" using st(1) by (simp add: tracks_def)
  have m: "mk_failureMode (wd_mock wd) = ''''" "mk_vms (wd_mock wd) = (mk_vms (wd_mock wd0))(i \<mapsto> a)" using st(2) by (simp_all add: owns_def)
  obtain t where d: "\<not> HasFinalizer (vm_meta (wd_vm wd')) VirtualMachineFinalizer"
      "wd_mock wd' = put_task t (me_now env 1) (FinishDelete i) (wd_mock wd)"
    using deletion_turn [OF assms(1) st(1) assms(4) m(1), of a w env now] m(2) assms(7) by auto
  then show ?thesis using st(3) m(2) i
    by (auto simp: put_task_def provider_turn_def run_background_def finish_task_def)
qed

theorem closed_loop_deletes_witness:
  "let m = ManagerTurn sample_mock_env 0; p = ProviderTurn sample_mock_env;
       wd = play (sample_ctl_env loop_machine) sample_codec [m, m, p, m, p, m] loop_start;
       wd' = manager_turn (sample_ctl_env loop_machine) sample_codec sample_mock_env 0 (mark_deleted wd)
   in \<not> HasFinalizer (vm_meta (wd_vm wd')) VirtualMachineFinalizer \<and>
      mk_vms (wd_mock (provider_turn sample_mock_env wd')) = (mk_vms (wd_mock loop_start))(vm_id (wd_vm wd) := None)"
  using loop_samples closed_loop_deletes [of "sample_ctl_env loop_machine" loop_start sample_ctl_provider sample_class None "[]"
        "[ManagerTurn sample_mock_env 0, ManagerTurn sample_mock_env 0, ProviderTurn sample_mock_env, ManagerTurn sample_mock_env 0,
          ProviderTurn sample_mock_env, ManagerTurn sample_mock_env 0]" _ sample_codec]
  by (simp add: Let_def del: play.simps)

end
