(* ===== verification/PveClient.thy ===== *)
theory PveClient
  imports SdkErrors Complex_Main "HOL-Library.AList"
begin

text \<open>
  The client of the Proxmox VE API (\<^verbatim>\<open>internal/providers/proxmox/pveapi/client.go\<close>). The PVE server is the parameter
  \<open>xe_http\<close>: its answer to the n-th request, or the error of the transport. A form body is the list of its values as
  the server decodes them. Every request is logged with its answer. A JSON number is its value, a rational,
  and not its spelling; keys are matched exactly, the case-insensitive fallback of \<^verbatim>\<open>encoding/json\<close> is left out.
\<close>

section \<open>JSON\<close>

datatype json = JNull | JBool bool | JNum rat | JStr string | JArr "json list" | JObj "(string \<times> json) list"

text \<open>Decoding into a map: a later key wins.\<close>

definition obj_get :: "(string \<times> json) list \<Rightarrow> string \<Rightarrow> json option" where
  "obj_get ps k = map_of (rev ps) k"

text \<open>Decoding into the fields of a struct: absent and null leave the zero value, another type is an error.\<close>

definition str_field :: "(string \<times> json) list \<Rightarrow> string \<Rightarrow> string option" where
  "str_field ps k =
     (case obj_get ps k of None \<Rightarrow> Some '''' | Some JNull \<Rightarrow> Some '''' | Some (JStr s) \<Rightarrow> Some s | Some _ \<Rightarrow> None)"

definition int_of_rat :: "rat \<Rightarrow> int option" where
  "int_of_rat r = (if of_int \<lfloor>r\<rfloor> = r \<and> min_int64 \<le> \<lfloor>r\<rfloor> \<and> \<lfloor>r\<rfloor> \<le> max_int64 then Some \<lfloor>r\<rfloor> else None)"

definition int_field :: "(string \<times> json) list \<Rightarrow> string \<Rightarrow> int option" where
  "int_field ps k =
     (case obj_get ps k of None \<Rightarrow> Some 0 | Some JNull \<Rightarrow> Some 0 | Some (JNum r) \<Rightarrow> int_of_rat r | Some _ \<Rightarrow> None)"

text \<open>The conversion \<^verbatim>\<open>int(f)\<close> of a double.\<close>

definition trunc_rat :: "rat \<Rightarrow> int" where
  "trunc_rat r = (if 0 \<le> r then \<lfloor>r\<rfloor> else \<lceil>r\<rceil>)"

section \<open>Types\<close>

record pve_config =
  xc_Endpoint :: string
  xc_TokenID :: string
  xc_TokenSecret :: string
  xc_Username :: string
  xc_Password :: string
  xc_InsecureSkipVerify :: bool
  xc_CABundle :: string
  xc_NodeSelector :: "string list"
  xc_DefaultStorage :: string
  xc_TaskPollInterval :: int
  xc_TaskTimeout :: int
  xc_RequestTimeout :: int

record pve_vm =
  xv_VMID :: int
  xv_Name :: string
  xv_Status :: string
  xv_Node :: string
  xv_CPUs :: int
  xv_Memory :: int
  xv_Template :: int
  xv_QMPStatus :: string
  xv_PID :: int
  xv_ConfigLock :: string

record pve_network =
  xn_Index :: nat
  xn_Model :: string
  xn_Bridge :: string
  xn_VLAN :: int
  xn_MAC :: string
  xn_Firewall :: bool
  xn_LinkDown :: bool

record pve_ipconfig =
  xi_Index :: nat
  xi_IP :: string
  xi_Gateway :: string
  xi_DNS :: string
  xi_DHCP :: bool

record vm_config =
  vf_VMID :: int
  vf_Name :: string
  vf_CPUs :: int
  vf_Memory :: int
  vf_Template :: string
  vf_Clone :: string
  vf_Storage :: string
  vf_IDE2 :: string
  vf_CIUser :: string
  vf_CIPasswd :: string
  vf_SSHKeys :: string
  vf_Networks :: "pve_network list"
  vf_IPConfigs :: "pve_ipconfig list"
  vf_Custom :: "(string \<times> string) list"
  vf_ImportedDiskPath :: string
  vf_ImportedDiskFormat :: string

record pve_task =
  xt_Status :: string
  xt_ExitCode :: "string option"

record reconfigure_config =
  rf_CPUs :: "int option"
  rf_Sockets :: "int option"
  rf_Memory :: "int option"
  rf_DiskSize :: "int option"
  rf_Disk :: string

record guest_interface =
  gn_Name :: string
  gn_IPAddresses :: "string list"

text \<open>\<^verbatim>\<open>url.Values\<close> with one value per key.\<close>

type_synonym url_values = "(string \<times> string) list"

definition values_set :: "string \<Rightarrow> string \<Rightarrow> url_values \<Rightarrow> url_values" where
  "values_set k v vs = AList.update k v vs"

definition set_if :: "bool \<Rightarrow> string \<Rightarrow> string \<Rightarrow> url_values \<Rightarrow> url_values" where
  "set_if b k v vs = (if b then values_set k v vs else vs)"

record http_request =
  hq_Method :: string
  hq_Path :: string
  hq_Query :: string
  hq_Token :: "string option"
  hq_Form :: "url_values option"

record http_response =
  hs_Status :: int
  hs_Body :: string
  hs_JSON :: "json option"

datatype pve_event = PveHttp http_request "sdk_error + http_response" | PveSsh string bool

record pve_env =
  xe_http :: "nat \<Rightarrow> http_request \<Rightarrow> sdk_error + http_response"
  xe_ssh :: "nat \<Rightarrow> string \<Rightarrow> (sdk_error \<times> string) + (string \<times> string)"
  xe_ticks :: "nat \<Rightarrow> nat"
  xe_now :: "nat \<Rightarrow> int"
  xe_quote :: "string \<Rightarrow> string"
  xe_client :: bool
  xe_has_ssh :: bool
  xe_json :: "string \<Rightarrow> json option"
  xe_marshal :: "json \<Rightarrow> string"
  xe_config :: pve_config

record pve_state =
  xs_ops :: nat
  xs_log :: "pve_event list"
  xs_nodes :: "string list"

type_synonym 'a pve_result = "pve_state \<times> (sdk_error + 'a)"

text \<open>Going on after a call: its error is returned wrapped.\<close>

definition and_then ::
  "'a pve_result \<Rightarrow> (sdk_error \<Rightarrow> sdk_error) \<Rightarrow> ('a \<Rightarrow> pve_state \<Rightarrow> 'b pve_result) \<Rightarrow> 'b pve_result" where
  "and_then r wrap k = (case r of (s, Inl e) \<Rightarrow> (s, Inl (wrap e)) | (s, Inr x) \<Rightarrow> k x s)"

section \<open>Requests\<close>

text \<open>
  \<^verbatim>\<open>url.QueryEscape\<close> with the plus signs it writes for blanks replaced. The value of \<^verbatim>\<open>sshkeys\<close> is encoded this way
  before the form encoding, so this is what the server finds in the form.
\<close>

definition unreserved :: "char \<Rightarrow> bool" where
  "unreserved c \<longleftrightarrow>
     c \<in> set ''ABCDEFGHIJKLMNOPQRSTUVWXYZabcdefghijklmnopqrstuvwxyz0123456789-_.~''"

definition hex_digit :: "nat \<Rightarrow> char" where
  "hex_digit n = ''0123456789ABCDEF'' ! n"

definition escape_char :: "char \<Rightarrow> string" where
  "escape_char c =
     (if unreserved c then [c]
      else [CHR ''%'', hex_digit (of_char c div 16), hex_digit (of_char c mod 16)])"

definition query_escape :: "string \<Rightarrow> string" where
  "query_escape s = concat (map escape_char s)"

definition encode_sshkeys :: "url_values \<Rightarrow> url_values" where
  "encode_sshkeys vs =
     (case map_of vs ''sshkeys'' of
        None \<Rightarrow> vs
      | Some key \<Rightarrow> if key = '''' then vs else values_set ''sshkeys'' (query_escape (trim_space key)) vs)"

definition pve_request ::
  "pve_env \<Rightarrow> string \<Rightarrow> string \<Rightarrow> string \<Rightarrow> url_values option \<Rightarrow> pve_state \<Rightarrow> http_response pve_result" where
  "pve_request env method path query form s =
     (let c = xe_config env;
          q = \<lparr>hq_Method = method, hq_Path = path, hq_Query = query,
               hq_Token = (if xc_TokenID c \<noteq> '''' \<and> xc_TokenSecret c \<noteq> ''''
                           then Some (''PVEAPIToken='' @ xc_TokenID c @ ''='' @ xc_TokenSecret c) else None),
               hq_Form = map_option encode_sshkeys form\<rparr>;
          r = xe_http env (xs_ops s) q
      in (s\<lparr>xs_ops := Suc (xs_ops s), xs_log := xs_log s @ [PveHttp q r]\<rparr>, r))"

text \<open>The \<^verbatim>\<open>data\<close> of a reply.\<close>

definition api_data :: "http_response \<Rightarrow> json option" where
  "api_data r =
     (case hs_JSON r of
        Some (JObj ps) \<Rightarrow> Some (case obj_get ps ''data'' of Some d \<Rightarrow> d | None \<Rightarrow> JNull)
      | Some JNull \<Rightarrow> Some JNull
      | _ \<Rightarrow> None)"

text \<open>The texts of the JSON errors themselves are left out.\<close>

definition decode_error :: "string \<Rightarrow> sdk_error" where
  "decode_error what = Opaque (''failed to decode '' @ what)"

definition unmarshal_error :: "string \<Rightarrow> sdk_error" where
  "unmarshal_error what = Opaque (''failed to unmarshal '' @ what)"

definition code_error :: "http_response \<Rightarrow> sdk_error" where
  "code_error r = Opaque (''unexpected status code: '' @ show_int (hs_Status r))"

definition status_error :: "string \<Rightarrow> http_response \<Rightarrow> sdk_error" where
  "status_error what r = Opaque (what @ '' failed with status '' @ show_int (hs_Status r) @ '': '' @ hs_Body r)"

text \<open>
  The shape of the methods that start a task: the request, its status, and the task identifier of the reply.
  \<open>gone\<close> says whether 404 counts as done, \<open>strict\<close> whether a reply without a task is an error.
\<close>

definition task_call ::
  "pve_env \<Rightarrow> string \<Rightarrow> string \<Rightarrow> bool \<Rightarrow> bool \<Rightarrow> string \<Rightarrow> string \<Rightarrow> string \<Rightarrow> url_values option \<Rightarrow> pve_state \<Rightarrow>
   string pve_result" where
  "task_call env verb what gone strict method path query form s =
     (case pve_request env method path query form s of
        (s', Inl err) \<Rightarrow> (s', Inl (Wrapped (''failed to '' @ verb @ '': '') err))
      | (s', Inr resp) \<Rightarrow>
          (s', if gone \<and> hs_Status resp = 404 then Inr ''''
               else if hs_Status resp \<noteq> 200 then Inl (status_error what resp)
               else (case api_data resp of
                       None \<Rightarrow> Inl (decode_error ''response'')
                     | Some (JStr taskID) \<Rightarrow> Inr taskID
                     | Some _ \<Rightarrow> if strict then Inl (Opaque ''unexpected response format'') else Inr '''')))"

definition vm_path :: "string \<Rightarrow> int \<Rightarrow> string \<Rightarrow> string" where
  "vm_path node vmid rest = ''/api2/json/nodes/'' @ node @ ''/qemu/'' @ show_int vmid @ rest"

section \<open>Machines\<close>

definition pve_vm_of :: "json \<Rightarrow> pve_vm option" where
  "pve_vm_of d =
     (case (case d of JObj ps \<Rightarrow> Some ps | JNull \<Rightarrow> Some [] | _ \<Rightarrow> None) of
        None \<Rightarrow> None
      | Some ps \<Rightarrow>
          (case (str_field ps ''name'', str_field ps ''status'', str_field ps ''node'', str_field ps ''qmpstatus'', str_field ps ''lock'') of
             (Some name, Some status, Some node, Some qmp, Some lock) \<Rightarrow>
               (case (int_field ps ''vmid'', int_field ps ''cpus'', int_field ps ''maxmem'', int_field ps ''template'', int_field ps ''pid'') of
                  (Some vmid, Some cpus, Some mem, Some templ, Some pid) \<Rightarrow>
                    Some \<lparr>xv_VMID = vmid, xv_Name = name, xv_Status = status, xv_Node = node, xv_CPUs = cpus, xv_Memory = mem,
                      xv_Template = templ, xv_QMPStatus = qmp, xv_PID = pid, xv_ConfigLock = lock\<rparr>
                | _ \<Rightarrow> None)
           | _ \<Rightarrow> None))"

definition ErrVMNotFound :: sdk_error where "ErrVMNotFound = Opaque ''VM not found''"

definition GetVM :: "pve_env \<Rightarrow> string \<Rightarrow> int \<Rightarrow> pve_state \<Rightarrow> pve_vm pve_result" where
  "GetVM env node vmid s =
     (case pve_request env ''GET'' (vm_path node vmid ''/status/current'') '''' None s of
        (s', Inl err) \<Rightarrow> (s', Inl (Wrapped ''failed to get VM: '' err))
      | (s', Inr resp) \<Rightarrow>
          (s', if hs_Status resp = 404 then Inl ErrVMNotFound
               else if hs_Status resp \<noteq> 200 then Inl (code_error resp)
               else (case api_data resp of
                       None \<Rightarrow> Inl (decode_error ''response'')
                     | Some d \<Rightarrow>
                         (case pve_vm_of d of
                            None \<Rightarrow> Inl (unmarshal_error ''VM'')
                          | Some vm \<Rightarrow> Inr (vm\<lparr>xv_Node := node, xv_VMID := vmid\<rparr>)))))"

definition GetVMConfig :: "pve_env \<Rightarrow> string \<Rightarrow> int \<Rightarrow> pve_state \<Rightarrow> (string \<times> json) list pve_result" where
  "GetVMConfig env node vmid s =
     (case pve_request env ''GET'' (vm_path node vmid ''/config'') '''' None s of
        (s', Inl err) \<Rightarrow> (s', Inl (Wrapped ''failed to get VM config: '' err))
      | (s', Inr resp) \<Rightarrow>
          (s', if hs_Status resp = 404 then Inl ErrVMNotFound
               else if hs_Status resp \<noteq> 200 then Inl (code_error resp)
               else (case api_data resp of
                       None \<Rightarrow> Inl (decode_error ''response'')
                     | Some (JObj ps) \<Rightarrow> Inr ps
                     | Some _ \<Rightarrow> Inl (Opaque ''unexpected response format''))))"

text \<open>The parts of a comma-separated device string.\<close>

definition join_parts :: "string list \<Rightarrow> string" where
  "join_parts = join_with CHR '',''"

definition client_buildNetworkString :: "pve_network \<Rightarrow> string" where
  "client_buildNetworkString n =
     join_parts
       ([if xn_Model n = '''' then ''virtio'' else xn_Model n] @
        [if xn_Bridge n \<noteq> '''' then ''bridge='' @ xn_Bridge n else ''bridge=vmbr0''] @
        (if xn_VLAN n > 0 then [''tag='' @ show_int (xn_VLAN n)] else []) @
        (if xn_MAC n \<noteq> '''' then [''macaddr='' @ xn_MAC n] else []) @
        (if xn_Firewall n then [''firewall=1''] else []) @
        (if xn_LinkDown n then [''link_down=1''] else []))"

definition client_buildIPConfigString :: "pve_ipconfig \<Rightarrow> string" where
  "client_buildIPConfigString i =
     (if xi_DHCP i then ''ip=dhcp''
      else join_parts
        ((if xi_IP i \<noteq> '''' then [''ip='' @ xi_IP i] else []) @
         (if xi_Gateway i \<noteq> '''' then [''gw='' @ xi_Gateway i] else []) @
         (if xi_DNS i \<noteq> '''' then [''nameserver='' @ xi_DNS i] else [])))"

definition configToValues :: "vm_config \<Rightarrow> url_values" where
  "configToValues c =
     (let vs = set_if (vf_VMID c \<noteq> 0) ''vmid'' (show_int (vf_VMID c)) [];
          vs = set_if (vf_Name c \<noteq> '''') ''name'' (vf_Name c) vs;
          vs = set_if (vf_CPUs c \<noteq> 0) ''cores'' (show_int (vf_CPUs c)) vs;
          vs = set_if (vf_Memory c \<noteq> 0) ''memory'' (show_int (vf_Memory c)) vs;
          vs = set_if (vf_Template c \<noteq> '''') ''template'' (vf_Template c) vs;
          vs = set_if (vf_Clone c \<noteq> '''') ''clone'' (vf_Clone c) vs;
          vs = set_if (vf_Storage c \<noteq> '''') ''storage'' (vf_Storage c) vs;
          vs = set_if (vf_IDE2 c \<noteq> '''') ''ide2'' (vf_IDE2 c) vs;
          vs = set_if (vf_CIUser c \<noteq> '''') ''ciuser'' (vf_CIUser c) vs;
          vs = set_if (vf_CIPasswd c \<noteq> '''') ''cipassword'' (vf_CIPasswd c) vs;
          vs = set_if (vf_SSHKeys c \<noteq> '''') ''sshkeys'' (trim_space (vf_SSHKeys c)) vs;
          vs = fold (\<lambda>n. let str = client_buildNetworkString n in
                     set_if (str \<noteq> '''') (''net'' @ show_nat (xn_Index n)) str) (vf_Networks c) vs;
          vs = fold (\<lambda>i. let str = client_buildIPConfigString i in
                     set_if (str \<noteq> '''') (''ipconfig'' @ show_nat (xi_Index i)) str) (vf_IPConfigs c) vs
      in fold (\<lambda>(k, v). values_set k v) (vf_Custom c) vs)"

definition CreateVM :: "pve_env \<Rightarrow> string \<Rightarrow> vm_config \<Rightarrow> pve_state \<Rightarrow> string pve_result" where
  "CreateVM env node config =
     task_call env ''create VM'' ''create VM'' False True ''POST'' (''/api2/json/nodes/'' @ node @ ''/qemu'') '''' (Some (configToValues config))"

text \<open>A parameter of a clone that is taken over from the custom settings.\<close>

definition custom_param :: "vm_config \<Rightarrow> string \<Rightarrow> url_values \<Rightarrow> url_values" where
  "custom_param c k vs = (case map_of (vf_Custom c) k of None \<Rightarrow> vs | Some v \<Rightarrow> values_set k v vs)"

definition clone_values :: "vm_config \<Rightarrow> url_values" where
  "clone_values c =
     (let vs = set_if (vf_VMID c \<noteq> 0) ''newid'' (show_int (vf_VMID c)) [];
          vs = set_if (vf_Name c \<noteq> '''') ''name'' (vf_Name c) vs;
          vs = set_if (vf_Storage c \<noteq> '''') ''storage'' (vf_Storage c) vs
      in fold (custom_param c) [''full'', ''target'', ''description'', ''format''] vs)"

definition CloneVM :: "pve_env \<Rightarrow> string \<Rightarrow> int \<Rightarrow> vm_config \<Rightarrow> pve_state \<Rightarrow> string pve_result" where
  "CloneVM env node vmid config =
     task_call env ''clone VM'' ''clone VM'' False True ''POST'' (vm_path node vmid ''/clone'') '''' (Some (clone_values config))"

definition DeleteVM :: "pve_env \<Rightarrow> string \<Rightarrow> int \<Rightarrow> bool \<Rightarrow> pve_state \<Rightarrow> string pve_result" where
  "DeleteVM env node vmid purge =
     task_call env ''delete VM'' ''delete VM'' True False ''DELETE'' (vm_path node vmid '''')
       (if purge then ''purge=1&destroy-unreferenced-disks=1'' else '''') None"

definition PowerOperationWithParams ::
  "pve_env \<Rightarrow> string \<Rightarrow> int \<Rightarrow> string \<Rightarrow> url_values \<Rightarrow> pve_state \<Rightarrow> string pve_result" where
  "PowerOperationWithParams env node vmid operation params =
     task_call env ''perform power operation'' ''power operation'' False False ''POST'' (vm_path node vmid (''/status/'' @ operation)) ''''
       (if params \<noteq> [] then Some params else None)"

definition PowerOperation :: "pve_env \<Rightarrow> string \<Rightarrow> int \<Rightarrow> string \<Rightarrow> pve_state \<Rightarrow> string pve_result" where
  "PowerOperation env node vmid operation = PowerOperationWithParams env node vmid operation []"

definition ReconfigureVMRaw :: "pve_env \<Rightarrow> string \<Rightarrow> int \<Rightarrow> url_values \<Rightarrow> pve_state \<Rightarrow> string pve_result" where
  "ReconfigureVMRaw env node vmid vs =
     task_call env ''reconfigure VM'' ''reconfigure VM'' False False ''PUT'' (vm_path node vmid ''/config'') '''' (Some vs)"

definition ReconfigureVM :: "pve_env \<Rightarrow> string \<Rightarrow> int \<Rightarrow> reconfigure_config \<Rightarrow> pve_state \<Rightarrow> string pve_result" where
  "ReconfigureVM env node vmid c =
     (let set = (\<lambda>k v vs. case v of None \<Rightarrow> vs | Some x \<Rightarrow> values_set k (show_int x) vs);
          vs = set ''memory'' (rf_Memory c) (set ''sockets'' (rf_Sockets c) (set ''cores'' (rf_CPUs c) []));
          vs = (case rf_DiskSize c of
                  Some z \<Rightarrow> set_if (rf_Disk c \<noteq> '''') (rf_Disk c) (''size='' @ show_int z @ ''G'') vs
                | None \<Rightarrow> vs)
      in task_call env ''reconfigure VM'' ''reconfigure VM'' False False ''PUT'' (vm_path node vmid ''/config'') '''' (Some vs))"

definition ResizeDisk :: "pve_env \<Rightarrow> string \<Rightarrow> int \<Rightarrow> string \<Rightarrow> int \<Rightarrow> pve_state \<Rightarrow> string pve_result" where
  "ResizeDisk env node vmid disk sizeGB =
     task_call env ''resize disk'' ''resize disk'' False False ''PUT'' (vm_path node vmid ''/resize'') ''''
       (Some (values_set ''size'' (show_int sizeGB @ ''G'') (values_set ''disk'' disk [])))"

definition CreateSnapshot ::
  "pve_env \<Rightarrow> string \<Rightarrow> int \<Rightarrow> string \<Rightarrow> string \<Rightarrow> bool \<Rightarrow> pve_state \<Rightarrow> string pve_result" where
  "CreateSnapshot env node vmid snapname description includeMemory =
     task_call env ''create snapshot'' ''create snapshot'' False True ''POST'' (vm_path node vmid ''/snapshot'') ''''
       (Some (set_if includeMemory ''vmstate'' ''1''
          (set_if (description \<noteq> '''') ''description'' description (values_set ''snapname'' snapname []))))"

definition DeleteSnapshot :: "pve_env \<Rightarrow> string \<Rightarrow> int \<Rightarrow> string \<Rightarrow> pve_state \<Rightarrow> string pve_result" where
  "DeleteSnapshot env node vmid snapname =
     task_call env ''delete snapshot'' ''delete snapshot'' True False ''DELETE'' (vm_path node vmid (''/snapshot/'' @ snapname)) '''' None"

definition RevertSnapshot :: "pve_env \<Rightarrow> string \<Rightarrow> int \<Rightarrow> string \<Rightarrow> pve_state \<Rightarrow> string pve_result" where
  "RevertSnapshot env node vmid snapname =
     task_call env ''revert snapshot'' ''revert snapshot'' False True ''POST'' (vm_path node vmid (''/snapshot/'' @ snapname @ ''/rollback'')) '''' None"

section \<open>Identifiers, nodes and tasks\<close>

text \<open>\<^verbatim>\<open>strconv.Atoi\<close>: an optional sign and decimal digits.\<close>

definition digit_value :: "char \<Rightarrow> nat option" where
  "digit_value c = (if of_char c \<in> {48 .. 57 :: nat} then Some (of_char c - 48) else None)"

fun parse_digits :: "nat \<Rightarrow> string \<Rightarrow> nat option" where
  "parse_digits acc [] = Some acc"
| "parse_digits acc (c # cs) = (case digit_value c of None \<Rightarrow> None | Some d \<Rightarrow> parse_digits (10 * acc + d) cs)"

definition atoi :: "string \<Rightarrow> int option" where
  "atoi s =
     (case (case s of CHR ''-'' # r \<Rightarrow> (True, r) | CHR ''+'' # r \<Rightarrow> (False, r) | _ \<Rightarrow> (False, s)) of
        (neg, ds) \<Rightarrow>
          if ds = '''' then None
          else (case parse_digits 0 ds of
                  None \<Rightarrow> None
                | Some n \<Rightarrow>
                    let i = (if neg then - int n else int n)
                    in if min_int64 \<le> i \<and> i \<le> max_int64 then Some i else None))"

definition GetNextVMID :: "pve_env \<Rightarrow> pve_state \<Rightarrow> int pve_result" where
  "GetNextVMID env s =
     (case pve_request env ''GET'' ''/api2/json/cluster/nextid'' '''' None s of
        (s', Inl err) \<Rightarrow> (s', Inl (Wrapped ''failed to get next VMID: '' err))
      | (s', Inr resp) \<Rightarrow>
          (s', if hs_Status resp \<noteq> 200 then Inl (status_error ''get next VMID'' resp)
               else (case api_data resp of
                       None \<Rightarrow> Inl (decode_error ''next VMID response'')
                     | Some (JStr v) \<Rightarrow>
                         (case atoi v of None \<Rightarrow> Inl (Opaque (''invalid next VMID '' @ v)) | Some i \<Rightarrow> Inr i)
                     | Some (JNum r) \<Rightarrow> Inr (trunc_rat r)
                     | Some _ \<Rightarrow> Inl (Opaque ''unexpected next VMID type''))))"

text \<open>The nodes of the reply, those with a name; \<open>None\<close> is a decoding error.\<close>

definition node_names :: "json \<Rightarrow> string list option" where
  "node_names d =
     (case d of
        JArr xs \<Rightarrow>
          map_option (filter (\<lambda>n. n \<noteq> ''''))
            (those (map (\<lambda>x. case x of JObj ps \<Rightarrow> str_field ps ''node'' | JNull \<Rightarrow> Some '''' | _ \<Rightarrow> None) xs))
      | JNull \<Rightarrow> Some []
      | _ \<Rightarrow> None)"

definition ListNodes :: "pve_env \<Rightarrow> pve_state \<Rightarrow> string list pve_result" where
  "ListNodes env s =
     (if xs_nodes s \<noteq> [] then (s, Inr (xs_nodes s))
      else
        (case pve_request env ''GET'' ''/api2/json/nodes'' '''' None s of
           (s', Inl err) \<Rightarrow> (s', Inl (Wrapped ''failed to list nodes: '' err))
         | (s', Inr resp) \<Rightarrow>
             if hs_Status resp \<noteq> 200 then (s', Inl (status_error ''list nodes'' resp))
             else (case Option.bind (api_data resp) node_names of
                     None \<Rightarrow> (s', Inl (decode_error ''nodes response''))
                   | Some nodes \<Rightarrow>
                       if nodes = [] then (s', Inl (Opaque ''PVE returned no nodes''))
                       else (s'\<lparr>xs_nodes := nodes\<rparr>, Inr nodes))))"

definition FindNode :: "pve_env \<Rightarrow> pve_state \<Rightarrow> string pve_result" where
  "FindNode env s =
     (case xc_NodeSelector (xe_config env) of
        n # _ \<Rightarrow> (s, Inr n)
      | [] \<Rightarrow>
          (case ListNodes env s of
             (s', Inl err) \<Rightarrow> (s', Inl (Wrapped ''no NodeSelector configured and node discovery failed: '' err))
           | (s', Inr nodes) \<Rightarrow> (s', Inr (hd nodes))))"

definition pve_task_of :: "json \<Rightarrow> pve_task option" where
  "pve_task_of d =
     (case (case d of JObj ps \<Rightarrow> Some ps | JNull \<Rightarrow> Some [] | _ \<Rightarrow> None) of
        None \<Rightarrow> None
      | Some ps \<Rightarrow>
          if list_all (\<lambda>k. str_field ps k \<noteq> None) [''upid'', ''type'', ''id'', ''user'', ''node'', ''status'', ''exitstatus''] \<and>
             list_all (\<lambda>k. int_field ps k \<noteq> None) [''pid'', ''starttime'']
          then Some \<lparr>xt_Status = the (str_field ps ''status''),
                 xt_ExitCode = (case obj_get ps ''exitstatus'' of Some (JStr e) \<Rightarrow> Some e | _ \<Rightarrow> None)\<rparr>
          else None)"

definition task_path :: "string \<Rightarrow> string \<Rightarrow> string" where
  "task_path node taskID = ''/api2/json/nodes/'' @ node @ ''/tasks/'' @ taskID @ ''/status''"

definition GetTaskStatus :: "pve_env \<Rightarrow> string \<Rightarrow> string \<Rightarrow> pve_state \<Rightarrow> pve_task pve_result" where
  "GetTaskStatus env node taskID s =
     (case pve_request env ''GET'' (task_path node taskID) '''' None s of
        (s', Inl err) \<Rightarrow> (s', Inl (Wrapped ''failed to get task status: '' err))
      | (s', Inr resp) \<Rightarrow>
          (s', if hs_Status resp \<noteq> 200 then Inl (code_error resp)
               else (case api_data resp of
                       None \<Rightarrow> Inl (decode_error ''response'')
                     | Some d \<Rightarrow>
                         (case pve_task_of d of None \<Rightarrow> Inl (unmarshal_error ''task'') | Some task \<Rightarrow> Inr task))))"

text \<open>The polling loop; its first argument is the number of ticks before the deadline of \<^verbatim>\<open>TaskTimeout\<close> wins.\<close>

fun wait_ticks :: "nat \<Rightarrow> pve_env \<Rightarrow> string \<Rightarrow> string \<Rightarrow> pve_state \<Rightarrow> unit pve_result" where
  "wait_ticks 0 env node taskID s = (s, Inl (Opaque ''task timeout: context deadline exceeded''))"
| "wait_ticks (Suc n) env node taskID s =
     (case GetTaskStatus env node taskID s of
        (s', Inl err) \<Rightarrow> (s', Inl (Wrapped ''failed to get task status: '' err))
      | (s', Inr task) \<Rightarrow>
          if xt_Status task = ''stopped'' then
            (s', case xt_ExitCode task of
                   Some e \<Rightarrow> if e \<noteq> ''OK'' then Inl (Opaque (''task failed with exit code: '' @ e)) else Inr ()
                 | None \<Rightarrow> Inr ())
          else wait_ticks n env node taskID s')"

definition pve_WaitForTask :: "pve_env \<Rightarrow> string \<Rightarrow> string \<Rightarrow> pve_state \<Rightarrow> unit pve_result" where
  "pve_WaitForTask env node taskID s =
     (if taskID = '''' then (s, Inr ()) else wait_ticks (xe_ticks env (xs_ops s)) env node taskID s)"

text \<open>ASCII lower case, for \<^verbatim>\<open>strings.ToLower\<close> on the device strings of PVE.\<close>

definition lower_char :: "char \<Rightarrow> char" where
  "lower_char c = (if of_char c \<in> {65 .. 90 :: nat} then char_of (of_char c + 32 :: nat) else c)"

definition is_disk :: "(string \<times> json) list \<Rightarrow> string \<Rightarrow> bool" where
  "is_disk config key =
     (case obj_get config key of
        Some (JStr d) \<Rightarrow> d \<noteq> '''' \<and> \<not> contains_sub ''media=cdrom'' (map lower_char d)
      | _ \<Rightarrow> False)"

definition disk_keys :: "string list" where
  "disk_keys = concat (map (\<lambda>p. map (\<lambda>i. p @ show_nat i) [0 ..< 16]) [''virtio'', ''scsi'', ''sata'', ''ide''])"

definition DetectPrimaryDisk :: "pve_env \<Rightarrow> string \<Rightarrow> int \<Rightarrow> pve_state \<Rightarrow> string pve_result" where
  "DetectPrimaryDisk env node vmid s =
     (case GetVMConfig env node vmid s of
        (s', Inl err) \<Rightarrow> (s', Inl err)
      | (s', Inr config) \<Rightarrow>
          (s', Inr (case find (is_disk config) disk_keys of Some k \<Rightarrow> k | None \<Rightarrow> ''scsi0'')))"

definition guest_addresses :: "(string \<times> json) list \<Rightarrow> string list option" where
  "guest_addresses ps =
     (case obj_get ps ''ip-addresses'' of
        None \<Rightarrow> Some []
      | Some JNull \<Rightarrow> Some []
      | Some (JArr as) \<Rightarrow>
          those (map (\<lambda>a. case a of
            JObj qs \<Rightarrow>
              if str_field qs ''ip-address-type'' \<noteq> None \<and> int_field qs ''prefix'' \<noteq> None
              then str_field qs ''ip-address'' else None
          | JNull \<Rightarrow> Some ''''
          | _ \<Rightarrow> None) as)
      | Some _ \<Rightarrow> None)"

definition guest_interface_of :: "json \<Rightarrow> guest_interface option" where
  "guest_interface_of d =
     (case d of
        JObj ps \<Rightarrow>
          (case (str_field ps ''name'', str_field ps ''hardware-address'', guest_addresses ps) of
             (Some name, Some _, Some as) \<Rightarrow> Some \<lparr>gn_Name = name, gn_IPAddresses = as\<rparr>
           | _ \<Rightarrow> None)
      | JNull \<Rightarrow> Some \<lparr>gn_Name = '''', gn_IPAddresses = []\<rparr>
      | _ \<Rightarrow> None)"

definition guest_interfaces_of :: "json \<Rightarrow> guest_interface list option" where
  "guest_interfaces_of d =
     (case (case d of JObj ps \<Rightarrow> Some ps | JNull \<Rightarrow> Some [] | _ \<Rightarrow> None) of
        None \<Rightarrow> None
      | Some ps \<Rightarrow>
          (case obj_get ps ''result'' of
             None \<Rightarrow> Some []
           | Some JNull \<Rightarrow> Some []
           | Some (JArr xs) \<Rightarrow> those (map guest_interface_of xs)
           | Some _ \<Rightarrow> None))"

definition GetGuestNetworkInterfaces :: "pve_env \<Rightarrow> string \<Rightarrow> int \<Rightarrow> pve_state \<Rightarrow> guest_interface list pve_result" where
  "GetGuestNetworkInterfaces env node vmid s =
     (case pve_request env ''GET'' (vm_path node vmid ''/agent/network-get-interfaces'') '''' None s of
        (s', Inl err) \<Rightarrow> (s', Inl (Wrapped ''failed to get guest network interfaces: '' err))
      | (s', Inr resp) \<Rightarrow>
          (s', if hs_Status resp \<noteq> 200 then Inl (status_error ''get guest network interfaces'' resp)
               else (case api_data resp of
                       None \<Rightarrow> Inl (decode_error ''response'')
                     | Some d \<Rightarrow>
                         (case guest_interfaces_of d of
                            None \<Rightarrow> Inl (unmarshal_error ''guest network interfaces'')
                          | Some is \<Rightarrow> Inr is))))"

text \<open>
  The decoding of a list: \<open>None\<close> is a type error, a null element of a list of pointers is a nil pointer.
\<close>

definition list_of :: "(json \<Rightarrow> 'a option) \<Rightarrow> json \<Rightarrow> 'a list option" where
  "list_of f d = (case d of JArr xs \<Rightarrow> those (map f xs) | JNull \<Rightarrow> Some [] | _ \<Rightarrow> None)"

definition pointer_of :: "(json \<Rightarrow> 'a option) \<Rightarrow> json \<Rightarrow> 'a option option" where
  "pointer_of f d = (case d of JNull \<Rightarrow> Some None | _ \<Rightarrow> map_option Some (f d))"

definition pve_ListVMs :: "pve_env \<Rightarrow> string \<Rightarrow> pve_state \<Rightarrow> pve_vm option list pve_result" where
  "pve_ListVMs env node s =
     (case pve_request env ''GET'' (''/api2/json/nodes/'' @ node @ ''/qemu'') '''' None s of
        (s', Inl err) \<Rightarrow> (s', Inl (Wrapped ''failed to list VMs: '' err))
      | (s', Inr resp) \<Rightarrow>
          (s', if hs_Status resp \<noteq> 200 then Inl (Opaque (''failed to list VMs: status '' @ show_int (hs_Status resp)))
               else (case Option.bind (api_data resp) (list_of (pointer_of pve_vm_of)) of
                       None \<Rightarrow> Inl (decode_error ''VM list'')
                     | Some vms \<Rightarrow> Inr vms)))"

record storage_volume =
  sw_VolID :: string
  sw_Size :: int
  sw_Used :: int
  sw_Format :: string

definition storage_volume_of :: "json \<Rightarrow> storage_volume option" where
  "storage_volume_of d =
     (case (case d of JObj ps \<Rightarrow> Some ps | JNull \<Rightarrow> Some [] | _ \<Rightarrow> None) of
        None \<Rightarrow> None
      | Some ps \<Rightarrow>
          (case (str_field ps ''volid'', int_field ps ''size'', int_field ps ''used'', str_field ps ''format'') of
             (Some v, Some z, Some u, Some f) \<Rightarrow> Some \<lparr>sw_VolID = v, sw_Size = z, sw_Used = u, sw_Format = f\<rparr>
           | _ \<Rightarrow> None))"

definition GetStorageContent :: "pve_env \<Rightarrow> string \<Rightarrow> string \<Rightarrow> pve_state \<Rightarrow> storage_volume list pve_result" where
  "GetStorageContent env node storage s =
     (case pve_request env ''GET'' (''/api2/json/nodes/'' @ node @ ''/storage/'' @ storage @ ''/content'') '''' None s of
        (s', Inl err) \<Rightarrow> (s', Inl (Wrapped ''failed to get storage content: '' err))
      | (s', Inr resp) \<Rightarrow>
          (s', if hs_Status resp \<noteq> 200 then Inl (status_error ''get storage content'' resp)
               else (case Option.bind (api_data resp) (list_of storage_volume_of) of
                       None \<Rightarrow> Inl (decode_error ''storage content'')
                     | Some vs \<Rightarrow> Inr vs)))"

definition PrepareImage ::
  "pve_env \<Rightarrow> string \<Rightarrow> string \<Rightarrow> string \<Rightarrow> string \<Rightarrow> string \<Rightarrow> pve_state \<Rightarrow> string pve_result" where
  "PrepareImage env node storage imageURL templateName format s =
     (if imageURL = '''' then (s, Inr '''')
      else task_call env ''import image'' ''image import'' False False ''POST''
             (''/api2/json/nodes/'' @ node @ ''/storage/'' @ storage @ ''/download-url'') ''''
             (Some (values_set ''url'' imageURL
                (values_set ''filename'' (templateName @ ''.'' @ (if format = '''' then ''qcow2'' else format))
                   (values_set ''content'' ''import'' [])))) s)"

text \<open>
  The constructor. \<open>parse\<close> is the error of \<^verbatim>\<open>url.Parse\<close>, if any; of the longer error texts the first sentence is
  kept. Only the token is ever sent, see \<^const>\<open>pve_request\<close>, and the CA bundle is not used.
\<close>

definition pve_NewClient :: "(string \<Rightarrow> sdk_error option) \<Rightarrow> pve_config \<Rightarrow> sdk_error + pve_config" where
  "pve_NewClient parse c =
     (if xc_Endpoint c = '''' then Inl (Opaque ''PVE_ENDPOINT environment variable is required'')
      else if \<not> (xc_Username c \<noteq> '''' \<and> xc_Password c \<noteq> '''') \<and> \<not> (xc_TokenID c \<noteq> '''' \<and> xc_TokenSecret c \<noteq> '''')
      then Inl (Opaque ''proxmox authentication credentials are required'')
      else (case parse (xc_Endpoint c) of
              Some err \<Rightarrow> Inl (Wrapped (''invalid PVE_ENDPOINT URL: '') err)
            | None \<Rightarrow>
                Inr (c\<lparr>xc_RequestTimeout := (if xc_RequestTimeout c = 0 then 30 * second else xc_RequestTimeout c),
                  xc_TaskPollInterval := (if xc_TaskPollInterval c = 0 then 2 * second else xc_TaskPollInterval c),
                  xc_TaskTimeout := (if xc_TaskTimeout c = 0 then 5 * minute else xc_TaskTimeout c)\<rparr>)))"

end
