(* ===== verification/PveProvider.thy ===== *)
theory PveProvider
  imports PveClient KubeObjects
begin

text \<open>
  The Proxmox provider (\<^verbatim>\<open>internal/providers/proxmox/server.go\<close>, \<^verbatim>\<open>image.go\<close> and the create path of \<^verbatim>\<open>s3import.go\<close>):
  the RPCs over the client of \<^verbatim>\<open>PveClient\<close>. \<open>xe_client\<close> says whether the client could be built, \<open>xe_has_ssh\<close> whether the
  SSH transport to the node could; \<open>xe_ssh\<close> is the outcome of the n-th remote command, its output or its error and
  standard error. \<open>xe_now\<close> is the Unix time, \<open>xe_json\<close> the parser of JSON text, \<open>xe_marshal\<close> the printer, \<open>xe_quote\<close> is
  \<^verbatim>\<open>%q\<close>. Error texts are kept without the text of a parser's error and without the
  explanations that follow the first clause. Disk information, export and import of disks are not part of the model.
\<close>

section \<open>Construction\<close>

text \<open>\<open>getenv\<close> is the process environment and \<open>secret\<close> the content of a mounted credential file, if it can be read.\<close>

definition readCredentialFile :: "(string \<Rightarrow> string option) \<Rightarrow> string \<Rightarrow> string" where
  "readCredentialFile secret f = (case secret f of None \<Rightarrow> '''' | Some d \<Rightarrow> trim_space d)"

definition env_or :: "(string \<Rightarrow> string) \<Rightarrow> string \<Rightarrow> string \<Rightarrow> string" where
  "env_or getenv a b = (if getenv a \<noteq> '''' then getenv a else getenv b)"

definition credential :: "(string \<Rightarrow> string) \<Rightarrow> (string \<Rightarrow> string option) \<Rightarrow> string \<Rightarrow> string \<Rightarrow> string" where
  "credential getenv secret f v =
     (let c = readCredentialFile secret (''/etc/virtrigaud/credentials/'' @ f)
      in if c = '''' then env_or getenv (''PROVIDER_'' @ v) (''PVE_'' @ v) else c)"

definition pve_config_from :: "(string \<Rightarrow> string) \<Rightarrow> (string \<Rightarrow> string option) \<Rightarrow> pve_config" where
  "pve_config_from getenv secret =
     (let nodes = env_or getenv ''PROVIDER_NODE_SELECTOR'' ''PVE_NODE_SELECTOR''
      in \<lparr>xc_Endpoint = env_or getenv ''PROVIDER_ENDPOINT'' ''PVE_ENDPOINT'',
          xc_TokenID = credential getenv secret ''token_id'' ''TOKEN_ID'',
          xc_TokenSecret = credential getenv secret ''token_secret'' ''TOKEN_SECRET'',
          xc_Username = credential getenv secret ''username'' ''USERNAME'',
          xc_Password = credential getenv secret ''password'' ''PASSWORD'',
          xc_InsecureSkipVerify =
            (getenv ''TLS_INSECURE_SKIP_VERIFY'' = ''true'' \<or> getenv ''PVE_INSECURE_SKIP_VERIFY'' = ''true''),
          xc_CABundle = env_or getenv ''PROVIDER_CA_BUNDLE'' ''PVE_CA_BUNDLE'',
          xc_NodeSelector = (if nodes = '''' then [] else map trim_space (split_on CHR '','' nodes)),
          xc_DefaultStorage = trim_space (env_or getenv ''PROVIDER_DEFAULT_STORAGE'' ''PVE_DEFAULT_STORAGE''),
          xc_TaskPollInterval = 0, xc_TaskTimeout = 0, xc_RequestTimeout = 0\<rparr>)"

text \<open>A client that cannot be built is logged and left nil.\<close>

definition pve_New ::
  "(string \<Rightarrow> sdk_error option) \<Rightarrow> (string \<Rightarrow> string) \<Rightarrow> (string \<Rightarrow> string option) \<Rightarrow> pve_config option" where
  "pve_New parse getenv secret =
     (case pve_NewClient parse (pve_config_from getenv secret) of Inl _ \<Rightarrow> None | Inr c \<Rightarrow> Some c)"

definition no_client :: sdk_error where
  "no_client = NewUnavailable ''PVE client not configured'' None"

definition internal_error :: "string \<Rightarrow> sdk_error \<Rightarrow> sdk_error" where
  "internal_error m e = NewInternal m (Some e)"

definition invalid_spec :: "string \<Rightarrow> sdk_error \<Rightarrow> sdk_error" where
  "invalid_spec m e = NewInvalidSpec (m @ '': '' @ fmt_error e)"

definition pve_Validate :: "pve_env \<Rightarrow> pve_state \<Rightarrow> pve_state \<times> pb_validate_response" where
  "pve_Validate env s =
     (if \<not> xe_client env then (s, \<lparr>pv_Ok = False, pv_Message = ''PVE client not configured''\<rparr>)
      else (case FindNode env s of
              (s', Inl err) \<Rightarrow> (s', \<lparr>pv_Ok = False, pv_Message = ''Failed to connect to Proxmox VE: '' @ fmt_error err\<rparr>)
            | (s', Inr node) \<Rightarrow>
                (s', \<lparr>pv_Ok = True, pv_Message = ''Proxmox VE provider is ready (node: '' @ node @ '')''\<rparr>)))"

section \<open>References and identifiers\<close>

definition find_node :: "pve_env \<Rightarrow> pve_state \<Rightarrow> string pve_result" where
  "find_node env s = and_then (FindNode env s) (Wrapped ''failed to find node: '') (\<lambda>node s. (s, Inr node))"

definition parseVMReference :: "pve_env \<Rightarrow> string \<Rightarrow> pve_state \<Rightarrow> (int \<times> string) pve_result" where
  "parseVMReference env ref s =
     (case atoi ref of
        Some vmid \<Rightarrow> and_then (find_node env s) (\<lambda>e. e) (\<lambda>node s. (s, Inr (vmid, node)))
      | None \<Rightarrow>
          (case split_on CHR '':'' ref of
             [node, n] \<Rightarrow>
               (case atoi n of
                  None \<Rightarrow> (s, Inl (Opaque (''invalid VMID in reference: '' @ n)))
                | Some vmid \<Rightarrow> (s, Inr (vmid, node)))
           | _ \<Rightarrow> (s, Inl (Opaque (''invalid VM reference format: '' @ ref)))))"

definition nextVMID :: "pve_env \<Rightarrow> pve_state \<Rightarrow> pve_state \<times> int" where
  "nextVMID env s =
     (case GetNextVMID env s of
        (s', Inl _) \<Rightarrow> (s', xe_now env (xs_ops s') mod 999999 + 100000)
      | (s', Inr i) \<Rightarrow> (s', i))"

text \<open>The start of an RPC on one machine: the client and the reference.\<close>

definition on_vm ::
  "pve_env \<Rightarrow> string \<Rightarrow> string \<Rightarrow> (int \<Rightarrow> string \<Rightarrow> pve_state \<Rightarrow> 'a pve_result) \<Rightarrow> pve_state \<Rightarrow> 'a pve_result" where
  "on_vm env what ref k s =
     (if \<not> xe_client env then (s, Inl no_client)
      else and_then (parseVMReference env ref s) (invalid_spec what) (\<lambda>(vmid, node). k vmid node))"

definition task_ref :: "string \<Rightarrow> string option" where
  "task_ref t = (if t \<noteq> '''' then Some t else None)"

section \<open>The request of a create\<close>

definition json_map :: "pve_env \<Rightarrow> string \<Rightarrow> (string \<times> json) list option" where
  "json_map env text = (case xe_json env text of Some (JObj ps) \<Rightarrow> Some ps | Some JNull \<Rightarrow> Some [] | _ \<Rightarrow> None)"

definition int32_field :: "(string \<times> json) list \<Rightarrow> string \<Rightarrow> int option" where
  "int32_field ps k =
     (case int_field ps k of Some i \<Rightarrow> if - (2 ^ 31) \<le> i \<and> i < 2 ^ 31 then Some i else None | None \<Rightarrow> None)"

definition class_sizing :: "pve_env \<Rightarrow> string \<Rightarrow> (int \<times> int) option" where
  "class_sizing env classJSON =
     (case json_map env classJSON of
        None \<Rightarrow> None
      | Some ps \<Rightarrow>
          (case (int32_field ps ''CPU'', int32_field ps ''MemoryMiB'') of
             (Some cpu, Some mem) \<Rightarrow> Some (cpu, mem)
           | _ \<Rightarrow> None))"

definition parseClassSizing :: "pve_env \<Rightarrow> string \<Rightarrow> int \<times> int" where
  "parseClassSizing env classJSON =
     (if classJSON = '''' then (0, 0) else case class_sizing env classJSON of None \<Rightarrow> (0, 0) | Some z \<Rightarrow> z)"

definition parse_class :: "pve_env \<Rightarrow> string \<Rightarrow> vm_config \<Rightarrow> vm_config" where
  "parse_class env classJSON c =
     (if classJSON = '''' then c
      else (case class_sizing env classJSON of
              None \<Rightarrow> c
            | Some (cpu, mem) \<Rightarrow>
                c\<lparr>vf_CPUs := (if cpu > 0 then cpu else vf_CPUs c), vf_Memory := (if mem > 0 then mem else vf_Memory c)\<rparr>))"

text \<open>The value of a key that is a string, as the type assertion gives it.\<close>

definition as_string :: "(string \<times> json) list \<Rightarrow> string \<Rightarrow> string option" where
  "as_string ps k = (case obj_get ps k of Some (JStr v) \<Rightarrow> Some v | _ \<Rightarrow> None)"

definition as_number :: "(string \<times> json) list \<Rightarrow> string \<Rightarrow> rat option" where
  "as_number ps k = (case obj_get ps k of Some (JNum v) \<Rightarrow> Some v | _ \<Rightarrow> None)"

definition as_object :: "(string \<times> json) list \<Rightarrow> string \<Rightarrow> (string \<times> json) list option" where
  "as_object ps k = (case obj_get ps k of Some (JObj v) \<Rightarrow> Some v | _ \<Rightarrow> None)"

definition as_array :: "(string \<times> json) list \<Rightarrow> string \<Rightarrow> json list option" where
  "as_array ps k = (case obj_get ps k of Some (JArr v) \<Rightarrow> Some v | _ \<Rightarrow> None)"

definition string_or_empty :: "string option \<Rightarrow> string" where
  "string_or_empty v = (case v of None \<Rightarrow> '''' | Some t \<Rightarrow> t)"

record proxmox_source =
  xp_TemplateID :: "int option"
  xp_TemplateName :: string
  xp_Storage :: string
  xp_Node :: string
  xp_Format :: string
  xp_FullClone :: "bool option"

text \<open>
  The nested \<^verbatim>\<open>source.proxmox\<close> and \<^verbatim>\<open>source.http\<close> of an image. The outer option is the decoding error. Of the fields
  of \<^verbatim>\<open>v1beta1.VMImageSpec\<close> only those read here are checked for their type.
\<close>

definition object_field :: "(string \<times> json) list \<Rightarrow> string \<Rightarrow> (string \<times> json) list option option" where
  "object_field ps k =
     (case obj_get ps k of None \<Rightarrow> Some None | Some JNull \<Rightarrow> Some None | Some (JObj qs) \<Rightarrow> Some (Some qs) | Some _ \<Rightarrow> None)"

definition proxmox_source_of :: "(string \<times> json) list \<Rightarrow> proxmox_source option" where
  "proxmox_source_of ps =
     (case (str_field ps ''templateName'', str_field ps ''storage'', str_field ps ''node'', str_field ps ''format'') of
        (Some name, Some storage, Some node, Some format) \<Rightarrow>
          (case (int_field ps ''templateID'',
                 case obj_get ps ''fullClone'' of
                   None \<Rightarrow> Some None | Some JNull \<Rightarrow> Some None | Some (JBool b) \<Rightarrow> Some (Some b) | Some _ \<Rightarrow> None) of
             (Some i, Some full) \<Rightarrow>
               Some \<lparr>xp_TemplateID = (case obj_get ps ''templateID'' of Some (JNum _) \<Rightarrow> Some i | _ \<Rightarrow> None),
                 xp_TemplateName = name, xp_Storage = storage, xp_Node = node, xp_Format = format, xp_FullClone = full\<rparr>
           | _ \<Rightarrow> None)
      | _ \<Rightarrow> None)"

definition image_source_of :: "pve_env \<Rightarrow> string \<Rightarrow> (proxmox_source option \<times> string option) option" where
  "image_source_of env text =
     (case Option.bind (json_map env text) (\<lambda>ps. object_field ps ''source'') of
        None \<Rightarrow> None
      | Some None \<Rightarrow> Some (None, None)
      | Some (Some src) \<Rightarrow>
          (case (object_field src ''proxmox'', object_field src ''http'') of
             (Some px, Some http) \<Rightarrow>
               (case (case px of None \<Rightarrow> Some None | Some ps \<Rightarrow> map_option Some (proxmox_source_of ps),
                      case http of None \<Rightarrow> Some None | Some ps \<Rightarrow> map_option Some (str_field ps ''url'')) of
                  (Some p, Some u) \<Rightarrow> Some (p, u)
                | _ \<Rightarrow> None)
           | _ \<Rightarrow> None))"

definition parse_contract_image :: "(string \<times> json) list \<Rightarrow> vm_config \<Rightarrow> vm_config" where
  "parse_contract_image ps c =
     (let templ = string_or_empty (as_string ps ''TemplateName'');
          c = (if templ \<noteq> '''' then c\<lparr>vf_Template := templ\<rparr> else c);
          path = trim_space (string_or_empty (as_string ps ''Path''));
          format = string_or_empty (as_string ps ''Format'');
          c = (if path \<noteq> '''' \<and> vf_Template c = ''''
               then c\<lparr>vf_ImportedDiskPath := path,
                      vf_ImportedDiskFormat := (if format \<noteq> '''' then format else vf_ImportedDiskFormat c)\<rparr>
               else c);
          storage = string_or_empty (as_string ps ''storage'')
      in if storage \<noteq> '''' then c\<lparr>vf_Storage := storage\<rparr> else c)"

definition parse_image_spec :: "proxmox_source \<Rightarrow> vm_config \<Rightarrow> vm_config" where
  "parse_image_spec px c =
     (let c = (case xp_TemplateID px of
                 Some i \<Rightarrow> c\<lparr>vf_Template := show_int i\<rparr>
               | None \<Rightarrow> if xp_TemplateName px \<noteq> '''' then c\<lparr>vf_Template := xp_TemplateName px\<rparr> else c);
          c = (if xp_Storage px \<noteq> '''' then c\<lparr>vf_Storage := xp_Storage px\<rparr> else c);
          c = (if xp_Node px \<noteq> '''' then c\<lparr>vf_Custom := values_set ''template_node'' (xp_Node px) (vf_Custom c)\<rparr> else c)
      in if xp_FullClone px = Some False then c\<lparr>vf_Custom := values_set ''full_clone'' ''0'' (vf_Custom c)\<rparr> else c)"

definition parse_image :: "pve_env \<Rightarrow> string \<Rightarrow> vm_config \<Rightarrow> vm_config" where
  "parse_image env text c =
     (if text = '''' then c
      else
        (let c = (case json_map env text of None \<Rightarrow> c | Some ps \<Rightarrow> parse_contract_image ps c)
         in if vf_Template c = ''''
            then (case image_source_of env text of Some (Some px, _) \<Rightarrow> parse_image_spec px c | _ \<Rightarrow> c)
            else c))"

definition bridge_of :: "string \<Rightarrow> string" where
  "bridge_of name =
     (if name \<in> {''lan'', ''default''} then ''vmbr0''
      else if name = ''dmz'' then ''vmbr1''
      else if name \<in> {''management'', ''mgmt''} then ''vmbr2''
      else if starts_with ''vmbr'' name then name
      else ''vmbr0'')"

definition default_network :: "nat \<Rightarrow> pve_network" where
  "default_network i =
     \<lparr>xn_Index = i, xn_Model = ''virtio'', xn_Bridge = ''vmbr0'', xn_VLAN = 0, xn_MAC = '''', xn_Firewall = False, xn_LinkDown = False\<rparr>"

definition default_ipconfig :: "nat \<Rightarrow> pve_ipconfig" where
  "default_ipconfig i = \<lparr>xi_Index = i, xi_IP = '''', xi_Gateway = '''', xi_DNS = '''', xi_DHCP = True\<rparr>"

definition parse_network :: "nat \<Rightarrow> (string \<times> json) list \<Rightarrow> pve_network" where
  "parse_network i ps =
     (let n = default_network i;
          n = (case as_string ps ''name'' of None \<Rightarrow> n | Some name \<Rightarrow> n\<lparr>xn_Bridge := bridge_of name\<rparr>);
          n = (case as_number ps ''vlan'' of None \<Rightarrow> n | Some v \<Rightarrow> n\<lparr>xn_VLAN := trunc_rat v\<rparr>)
      in case as_string ps ''mac'' of None \<Rightarrow> n | Some m \<Rightarrow> n\<lparr>xn_MAC := m\<rparr>)"

definition dns_servers :: "json list \<Rightarrow> string list" where
  "dns_servers ds = concat (map (\<lambda>d. case d of JStr v \<Rightarrow> [v] | _ \<Rightarrow> []) ds)"

definition parse_ipconfig :: "nat \<Rightarrow> (string \<times> json) list \<Rightarrow> pve_ipconfig" where
  "parse_ipconfig i ps =
     (case as_object ps ''static_ip'' of
        None \<Rightarrow> default_ipconfig i
      | Some st \<Rightarrow>
          (let c = default_ipconfig i;
               c = (case as_string st ''address'' of None \<Rightarrow> c | Some a \<Rightarrow> c\<lparr>xi_IP := a, xi_DHCP := False\<rparr>);
               c = (case as_string st ''gateway'' of None \<Rightarrow> c | Some g \<Rightarrow> c\<lparr>xi_Gateway := g\<rparr>)
           in case as_array st ''dns'' of
                None \<Rightarrow> c
              | Some ds \<Rightarrow> if dns_servers ds \<noteq> [] then c\<lparr>xi_DNS := join_with CHR '','' (dns_servers ds)\<rparr> else c))"

definition network_objects :: "json list \<Rightarrow> (nat \<times> (string \<times> json) list) list" where
  "network_objects xs = concat (map (\<lambda>(i, x). case x of JObj ps \<Rightarrow> [(i, ps)] | _ \<Rightarrow> []) (enumerate 0 xs))"

definition parse_networks :: "pve_env \<Rightarrow> string \<Rightarrow> vm_config \<Rightarrow> vm_config" where
  "parse_networks env text c =
     (let nets = (case (if text = '''' then None else xe_json env text) of Some (JArr xs) \<Rightarrow> network_objects xs | _ \<Rightarrow> [])
      in if nets = [] then c\<lparr>vf_Networks := [default_network 0], vf_IPConfigs := [default_ipconfig 0]\<rparr>
         else c\<lparr>vf_Networks := map (\<lambda>(i, ps). parse_network i ps) nets,
                vf_IPConfigs := map (\<lambda>(i, ps). parse_ipconfig i ps) nets\<rparr>)"

text \<open>The keys listed below \<^verbatim>\<open>ssh_authorized_keys:\<close>; the flag is \<^verbatim>\<open>inKeys\<close>.\<close>

definition list_key :: "string \<Rightarrow> string" where
  "list_key line = trim_space (trim_set [CHR ''\"'', CHR 0x27] (trim_space (trim_prefix ''- '' (trim_space line))))"

fun ssh_keys :: "bool \<Rightarrow> string list \<Rightarrow> string list" where
  "ssh_keys inKeys [] = []"
| "ssh_keys inKeys (line # ls) =
     (if contains_sub ''ssh_authorized_keys:'' line then ssh_keys True ls
      else if inKeys \<and> starts_with ''- '' (trim_space line)
      then (if list_key line \<noteq> '''' then [list_key line] else []) @ ssh_keys inKeys ls
      else if inKeys \<and> \<not> starts_with '' '' (trim_space line) then ssh_keys False ls
      else ssh_keys inKeys ls)"

definition newline :: char where "newline = CHR 0x0A"

definition user_of :: "string \<Rightarrow> string" where
  "user_of line =
     (case split_on CHR '':'' line of
        _ # p # _ \<Rightarrow> trim_set [CHR ''\"'', CHR 0x27, CHR '' ''] (trim_space p)
      | _ \<Rightarrow> '''')"

definition parse_user_data :: "string \<Rightarrow> vm_config \<Rightarrow> vm_config" where
  "parse_user_data ud c =
     (if ud = '''' then c
      else
        (let c = c\<lparr>vf_IDE2 := (if vf_Storage c = '''' then ''local'' else vf_Storage c) @ '':cloudinit''\<rparr>;
             ls = split_on newline ud;
             keys = (if contains_sub ''ssh_authorized_keys:'' ud then ssh_keys False ls else []);
             c = (if keys \<noteq> [] then c\<lparr>vf_SSHKeys := trim_space (join_with newline keys)\<rparr> else c);
             user = (case find (\<lambda>l. contains_sub ''name:'' l \<and> \<not> contains_sub ''hostname:'' l) ls of
                       Some l \<Rightarrow> user_of l | None \<Rightarrow> '''')
         in if user \<noteq> '''' then c\<lparr>vf_CIUser := user\<rparr> else c))"

definition empty_vm_config :: "int \<Rightarrow> string \<Rightarrow> vm_config" where
  "empty_vm_config vmid name =
     \<lparr>vf_VMID = vmid, vf_Name = name, vf_CPUs = 0, vf_Memory = 0, vf_Template = '''', vf_Clone = '''', vf_Storage = '''',
      vf_IDE2 = '''', vf_CIUser = '''', vf_CIPasswd = '''', vf_SSHKeys = '''', vf_Networks = [], vf_IPConfigs = [], vf_Custom = [],
      vf_ImportedDiskPath = '''', vf_ImportedDiskFormat = ''''\<rparr>"

definition parseCreateRequest :: "pve_env \<Rightarrow> pb_create_request \<Rightarrow> pve_state \<Rightarrow> (vm_config \<times> string) pve_result" where
  "parseCreateRequest env req s =
     (case nextVMID env s of
        (s', vmid) \<Rightarrow>
          (let c = empty_vm_config vmid (pq_Name req);
               c = parse_class env (pq_ClassJson req) c;
               c = parse_image env (pq_ImageJson req) c;
               c = parse_networks env (pq_NetworksJson req) c;
               c = parse_user_data (pq_UserData req) c
           in and_then (find_node env s') (\<lambda>e. e) (\<lambda>node s. (s, Inr (c, node)))))"

section \<open>Create\<close>

definition provider_buildNetworkString :: "pve_network \<Rightarrow> string" where
  "provider_buildNetworkString n =
     xn_Model n @ '',bridge='' @ xn_Bridge n @
     (if xn_VLAN n > 0 then '',tag='' @ show_int (xn_VLAN n) else '''') @
     (if xn_MAC n \<noteq> '''' then '',mac='' @ xn_MAC n else '''') @
     (if xn_Firewall n then '',firewall=1'' else '''')"

definition provider_buildIPConfigString :: "pve_ipconfig \<Rightarrow> string" where
  "provider_buildIPConfigString i =
     (if xi_DHCP i then ''ip=dhcp''
      else ''ip='' @ xi_IP i @ (if xi_Gateway i \<noteq> '''' then '',gw='' @ xi_Gateway i else ''''))"

definition sizing_values :: "int \<Rightarrow> int \<Rightarrow> url_values" where
  "sizing_values cpus memoryMiB =
     (let vs = (if cpus > 0 then values_set ''sockets'' ''1'' (values_set ''cores'' (show_int cpus) []) else [])
      in set_if (memoryMiB > 0) ''memory'' (show_int memoryMiB) vs)"

definition applyVMClassSizing :: "pve_env \<Rightarrow> string \<Rightarrow> int \<Rightarrow> int \<Rightarrow> int \<Rightarrow> pve_state \<Rightarrow> unit pve_result" where
  "applyVMClassSizing env node vmid cpus memoryMiB s =
     (let vals = sizing_values cpus memoryMiB
      in if vals = [] then (s, Inr ())
         else and_then (ReconfigureVMRaw env node vmid vals s) (\<lambda>e. e) (\<lambda>task. pve_WaitForTask env node task))"

definition cloudinit_values :: "vm_config \<Rightarrow> string \<Rightarrow> url_values" where
  "cloudinit_values c primaryDisk =
     (let vs = set_if (vf_IDE2 c \<noteq> '''') ''ide2'' (vf_IDE2 c) [];
          vs = set_if (vf_SSHKeys c \<noteq> '''') ''sshkeys'' (vf_SSHKeys c) vs;
          vs = set_if (vf_CIUser c \<noteq> '''') ''ciuser'' (vf_CIUser c) vs;
          vs = values_set ''boot'' (''order='' @ primaryDisk @ '';ide2'') vs;
          vs = fold (\<lambda>n. let str = provider_buildNetworkString n in
                     set_if (str \<noteq> '''') (''net'' @ show_nat (xn_Index n)) str) (vf_Networks c) vs
      in fold (\<lambda>i. let str = provider_buildIPConfigString i in
                 set_if (str \<noteq> '''') (''ipconfig'' @ show_nat (xi_Index i)) str) (vf_IPConfigs c) vs)"

text \<open>The cloud-init settings of a cloned machine; the result is the task that \<^verbatim>\<open>Create\<close> goes on with.\<close>

definition reconfigure_clone :: "pve_env \<Rightarrow> string \<Rightarrow> vm_config \<Rightarrow> pve_state \<Rightarrow> string pve_result" where
  "reconfigure_clone env node c s =
     (case DetectPrimaryDisk env node (vf_VMID c) s of
        (s', r) \<Rightarrow>
          (let disk = (case r of Inl _ \<Rightarrow> ''scsi0'' | Inr d \<Rightarrow> d)
           in and_then (ReconfigureVMRaw env node (vf_VMID c) (cloudinit_values c disk) s')
                (internal_error ''failed to reconfigure VM'')
                (\<lambda>task s. and_then (pve_WaitForTask env node task s) (internal_error ''reconfigure task failed'')
                   (\<lambda>_ s. (s, Inr task)))))"

definition create_from_template :: "pve_env \<Rightarrow> pb_create_request \<Rightarrow> vm_config \<Rightarrow> string \<Rightarrow> pve_state \<Rightarrow> string pve_result" where
  "create_from_template env req c node s =
     (case atoi (vf_Template c) of
        None \<Rightarrow> (s, Inl (NewInvalidSpec (''invalid template ID '' @ vf_Template c)))
      | Some templateID \<Rightarrow>
          and_then (CloneVM env node templateID (c\<lparr>vf_Custom := values_set ''full'' ''1'' (vf_Custom c)\<rparr>) s)
            (invalid_spec ''failed to clone template'')
            (\<lambda>task s. and_then (pve_WaitForTask env node task s) (internal_error ''clone task failed'')
            (\<lambda>_ s. and_then (applyVMClassSizing env node (vf_VMID c) (vf_CPUs c) (vf_Memory c) s)
                       (internal_error ''failed to apply VMClass sizing to cloned VM'')
            (\<lambda>_ s. if pq_UserData req \<noteq> '''' \<or> vf_SSHKeys c \<noteq> '''' then reconfigure_clone env node c s
                   else (s, Inr task)))))"

text \<open>The classification of the errors of \<^verbatim>\<open>CreateVM\<close> by their text.\<close>

definition create_error :: "pve_env \<Rightarrow> int \<Rightarrow> sdk_error \<Rightarrow> sdk_error" where
  "create_error env vmid err =
     (let has = (\<lambda>w. contains_sub w (fmt_error err))
      in if has ''already exists'' then NewAlreadyExists (xe_quote env) ''VM'' (show_int vmid)
         else if has ''insufficient'' \<or> has ''no space'' then NewRateLimit (5 * minute)
         else if has ''permission'' \<or> has ''access denied'' then NewPermissionDenied ''create VM''
         else if has ''invalid'' \<or> has ''bad parameter'' then invalid_spec ''invalid VM configuration'' err
         else if has ''timeout'' \<or> has ''connection'' then NewUnavailable ''Proxmox VE API unavailable: %v'' (Some err)
         else internal_error ''failed to create VM'' err)"

section \<open>Create from an imported disk\<close>

definition runSSH :: "pve_env \<Rightarrow> string \<Rightarrow> pve_state \<Rightarrow> pve_state \<times> ((sdk_error \<times> string) + (string \<times> string))" where
  "runSSH env cmd s =
     (let r = xe_ssh env (xs_ops s) cmd
      in (s\<lparr>xs_ops := Suc (xs_ops s), xs_log := xs_log s @ [PveSsh cmd (case r of Inl _ \<Rightarrow> False | Inr _ \<Rightarrow> True)]\<rparr>, r))"

definition proxmoxShellQuote :: "string \<Rightarrow> string" where
  "proxmoxShellQuote s =
     (let q = CHR 0x27 in [q] @ concat (map (\<lambda>c. if c = q then [q, CHR 0x5C, q, q] else [c]) s) @ [q])"

definition importedDiskVolume :: "string \<Rightarrow> int \<Rightarrow> string" where
  "importedDiskVolume storage vmid = storage @ '':vm-'' @ show_int vmid @ ''-disk-0''"

definition buildImportDiskCommand :: "int \<Rightarrow> string \<Rightarrow> string \<Rightarrow> string \<Rightarrow> string" where
  "buildImportDiskCommand vmid stagePath storage format =
     ''qm importdisk '' @ show_int vmid @ '' '' @ proxmoxShellQuote stagePath @ '' '' @ proxmoxShellQuote storage @
     '' --format '' @ proxmoxShellQuote format"

definition buildImportedDiskSetCommand :: "int \<Rightarrow> string \<Rightarrow> string" where
  "buildImportedDiskSetCommand vmid importedVolume =
     ''qm set '' @ show_int vmid @ '' --scsihw virtio-scsi-pci --scsi0 '' @ proxmoxShellQuote importedVolume @
     '' --boot order=scsi0''"

definition buildImportedDiskCloudInitValues :: "string \<Rightarrow> vm_config \<Rightarrow> url_values" where
  "buildImportedDiskCloudInitValues storage c =
     set_if (vf_SSHKeys c \<noteq> '''') ''sshkeys'' (trim_space (vf_SSHKeys c))
       (set_if (vf_CIUser c \<noteq> '''') ''ciuser'' (vf_CIUser c) (values_set ''ide2'' (storage @ '':cloudinit'') []))"

text \<open>
  The regular expressions on the output of \<^verbatim>\<open>qm\<close>. \<open>unused_prefix\<close> is \<^verbatim>\<open>unused\d+:\<close>, giving what follows it; both
  functions return the captured group of the leftmost match, or the empty string.
\<close>

definition re_space :: "char \<Rightarrow> bool" where
  "re_space c \<longleftrightarrow> c \<in> {CHR 0x09, CHR 0x0A, CHR 0x0C, CHR 0x0D, CHR '' ''}"

definition re_digit :: "char \<Rightarrow> bool" where
  "re_digit c \<longleftrightarrow> digit_value c \<noteq> None"

definition unused_prefix :: "string \<Rightarrow> string option" where
  "unused_prefix t =
     (if \<not> starts_with ''unused'' t then None
      else
        (let r = drop 6 t
         in case dropWhile re_digit r of
              c # rest \<Rightarrow> if c = CHR '':'' \<and> takeWhile re_digit r \<noteq> [] then Some rest else None
            | [] \<Rightarrow> None))"

fun parse_unused_from :: "bool \<Rightarrow> string \<Rightarrow> string" where
  "parse_unused_from line_start [] = ''''"
| "parse_unused_from line_start (c # cs) =
     (case (if line_start then unused_prefix (c # cs) else None) of
        Some rest \<Rightarrow>
          (let v = takeWhile (\<lambda>c. \<not> re_space c) (dropWhile re_space rest)
           in if v \<noteq> '''' then v else parse_unused_from (c = newline) cs)
      | None \<Rightarrow> parse_unused_from (c = newline) cs)"

definition parseUnusedVolid :: "string \<Rightarrow> string" where
  "parseUnusedVolid qmConfig = trim_space (parse_unused_from True qmConfig)"

definition volid_of :: "string \<Rightarrow> string" where
  "volid_of t =
     (let t = (case t of c # r \<Rightarrow> if c = CHR 0x27 \<or> c = CHR ''\"'' then r else t | [] \<Rightarrow> t);
          word = takeWhile (\<lambda>c. \<not> re_space c \<and> c \<noteq> CHR 0x27 \<and> c \<noteq> CHR ''\"'')
      in case unused_prefix t of
           Some r \<Rightarrow> if word r \<noteq> '''' then word r else word t
         | None \<Rightarrow> word t)"

fun parse_imported_from :: "string \<Rightarrow> string" where
  "parse_imported_from [] = ''''"
| "parse_imported_from (c # cs) =
     (if starts_with ''imported disk as '' (c # cs) \<and> volid_of (drop 17 (c # cs)) \<noteq> ''''
      then volid_of (drop 17 (c # cs)) else parse_imported_from cs)"

definition parseImportedVolid :: "string \<Rightarrow> string" where
  "parseImportedVolid out = trim_space (parse_imported_from out)"

definition cleanupNodeFile :: "pve_env \<Rightarrow> string \<Rightarrow> pve_state \<Rightarrow> pve_state" where
  "cleanupNodeFile env path s =
     (if \<not> xe_has_ssh env \<or> path = '''' then s else fst (runSSH env (''rm -f '' @ proxmoxShellQuote path) s))"

text \<open>The deferred deletion of the half-built shell; its own errors are only logged.\<close>

definition delete_shell :: "pve_env \<Rightarrow> string \<Rightarrow> int \<Rightarrow> pve_state \<Rightarrow> pve_state" where
  "delete_shell env node vmid s =
     (case DeleteVM env node vmid True s of
        (s', Inl _) \<Rightarrow> s'
      | (s', Inr task) \<Rightarrow> fst (pve_WaitForTask env node task s'))"

definition imported_volume :: "pve_env \<Rightarrow> string \<Rightarrow> int \<Rightarrow> string \<Rightarrow> pve_state \<Rightarrow> pve_state \<times> string" where
  "imported_volume env storage vmid output s =
     (case runSSH env (''qm config '' @ show_int vmid) s of
        (s', r) \<Rightarrow>
          (let v = (case r of Inr (out, _) \<Rightarrow> parseUnusedVolid out | Inl _ \<Rightarrow> '''');
               v = (if v = '''' then parseImportedVolid output else v)
           in (s', if v = '''' then importedDiskVolume storage vmid else v)))"

text \<open>Steps 2, 3a and 3b: import, attach, cloud-init. The standard error in the messages is trimmed.\<close>

definition ssh_error :: "string \<Rightarrow> int \<Rightarrow> sdk_error \<times> string \<Rightarrow> sdk_error" where
  "ssh_error what vmid = (\<lambda>(err, stderr).
     internal_error (what @ '' failed for vmid '' @ show_int vmid @ '' (stderr: '' @ trim_space stderr @ '')'') err)"

definition attach_cloudinit ::
  "pve_env \<Rightarrow> pb_create_request \<Rightarrow> vm_config \<Rightarrow> string \<Rightarrow> string \<Rightarrow> pve_state \<Rightarrow> unit pve_result" where
  "attach_cloudinit env req c node storage s =
     (if pq_UserData req = '''' then (s, Inr ())
      else and_then (ReconfigureVMRaw env node (vf_VMID c) (buildImportedDiskCloudInitValues storage c) s)
             (internal_error (''failed to attach cloud-init to imported-disk VM '' @ show_int (vf_VMID c)))
             (\<lambda>task s. and_then (pve_WaitForTask env node task s) (internal_error ''cloud-init reconfigure task failed'')
                (\<lambda>_ s. (s, Inr ()))))"

definition attach_imported_disk ::
  "pve_env \<Rightarrow> pb_create_request \<Rightarrow> vm_config \<Rightarrow> string \<Rightarrow> string \<Rightarrow> string \<Rightarrow> pve_state \<Rightarrow> unit pve_result" where
  "attach_imported_disk env req c node storage format s =
     (case runSSH env (buildImportDiskCommand (vf_VMID c) (vf_ImportedDiskPath c) storage format) s of
        (s1, Inl e) \<Rightarrow> (s1, Inl (ssh_error ''qm importdisk'' (vf_VMID c) e))
      | (s1, Inr (out, err)) \<Rightarrow>
          (case imported_volume env storage (vf_VMID c) (out @ [newline] @ err) s1 of
             (s2, volume) \<Rightarrow>
               (case runSSH env (buildImportedDiskSetCommand (vf_VMID c) volume) s2 of
                  (s3, Inl e) \<Rightarrow> (s3, Inl (ssh_error ''qm set (attach imported disk)'' (vf_VMID c) e))
                | (s3, Inr _) \<Rightarrow> attach_cloudinit env req c node storage s3)))"

definition import_storage :: "pve_env \<Rightarrow> vm_config \<Rightarrow> string" where
  "import_storage env c =
     (if vf_Storage c \<noteq> '''' then vf_Storage c
      else if xc_DefaultStorage (xe_config env) \<noteq> '''' then xc_DefaultStorage (xe_config env)
      else ''local-lvm'')"

definition createFromImportedDisk ::
  "pve_env \<Rightarrow> pb_create_request \<Rightarrow> vm_config \<Rightarrow> string \<Rightarrow> pve_state \<Rightarrow> pb_create_response pve_result" where
  "createFromImportedDisk env req c node s =
     (if \<not> xe_has_ssh env
      then (s, Inl (NewUnavailable ''migration SSH data plane not configured; cannot attach imported disk via qm importdisk'' None))
      else
        and_then (CreateVM env node (c\<lparr>vf_Template := '''', vf_Clone := ''''\<rparr>) s)
          (internal_error ''failed to create VM shell for imported disk'')
          (\<lambda>task s. and_then (pve_WaitForTask env node task s) (internal_error ''VM shell create task failed'')
          (\<lambda>_ s. case attach_imported_disk env req c node (import_storage env c)
                        (if vf_ImportedDiskFormat c = '''' then ''qcow2'' else vf_ImportedDiskFormat c) s of
                   (s', Inl e) \<Rightarrow> (delete_shell env node (vf_VMID c) s', Inl e)
                 | (s', Inr _) \<Rightarrow>
                     (cleanupNodeFile env (vf_ImportedDiskPath c) s', Inr \<lparr>pr_Id = show_int (vf_VMID c), pr_Task = None\<rparr>))))"

text \<open>\<^verbatim>\<open>Create\<close> once the request is parsed and the identifier is settled, and as a whole.\<close>

definition create_parsed ::
  "pve_env \<Rightarrow> pb_create_request \<Rightarrow> vm_config \<Rightarrow> string \<Rightarrow> pve_state \<Rightarrow> pb_create_response pve_result" where
  "create_parsed env req c node s =
     (if vf_ImportedDiskPath c \<noteq> '''' then createFromImportedDisk env req c node s
      else
        and_then (if vf_Template c \<noteq> '''' then create_from_template env req c node s
                  else and_then (CreateVM env node c s) (create_error env (vf_VMID c)) (\<lambda>task s. (s, Inr task)))
          (\<lambda>e. e)
          (\<lambda>task s. (s, Inr \<lparr>pr_Id = show_int (vf_VMID c), pr_Task = task_ref task\<rparr>)))"

definition pve_Create :: "pve_env \<Rightarrow> pb_create_request \<Rightarrow> pve_state \<Rightarrow> pb_create_response pve_result" where
  "pve_Create env req s =
     (if \<not> xe_client env then (s, Inl no_client)
      else and_then (parseCreateRequest env req s) (invalid_spec ''failed to parse create request'')
        (\<lambda>(c, node) s.
           case GetVM env node (vf_VMID c) s of
             (s', Inl _) \<Rightarrow> create_parsed env req c node s'
           | (s', Inr existing) \<Rightarrow>
               if xv_Name existing = pq_Name req then (s', Inr \<lparr>pr_Id = show_int (vf_VMID c), pr_Task = None\<rparr>)
               else (case nextVMID env s' of
                       (s'', vmid) \<Rightarrow> create_parsed env req (c\<lparr>vf_VMID := vmid\<rparr>) node s'')))"

section \<open>Delete, power and clone\<close>

definition stop_first :: "pve_env \<Rightarrow> string \<Rightarrow> int \<Rightarrow> pve_state \<Rightarrow> unit pve_result" where
  "stop_first env node vmid s =
     (case GetVM env node vmid s of
        (s', Inl _) \<Rightarrow> (s', Inr ())
      | (s', Inr vm) \<Rightarrow>
          if xv_Status vm \<in> {''running'', ''paused'', ''suspended''}
          then and_then (PowerOperation env node vmid ''stop'' s') (internal_error ''failed to stop VM before delete'')
                 (\<lambda>task s. and_then (pve_WaitForTask env node task s)
                    (internal_error ''failed waiting for VM to stop before delete'') (\<lambda>_ s. (s, Inr ())))
          else (s', Inr ()))"

definition pve_Delete :: "pve_env \<Rightarrow> string \<Rightarrow> pve_state \<Rightarrow> string option pve_result" where
  "pve_Delete env ref =
     on_vm env ''invalid VM reference'' ref (\<lambda>vmid node s.
       and_then (stop_first env node vmid s) (\<lambda>e. e)
       (\<lambda>_ s. and_then (DeleteVM env node vmid True s) (internal_error ''failed to delete VM'')
       (\<lambda>task s. and_then (pve_WaitForTask env node task s) (internal_error ''failed waiting for VM destroy task'')
       (\<lambda>_ s. (s, Inr None)))))"

definition power_operation :: "pb_power_op \<Rightarrow> string option" where
  "power_operation op =
     (case op of
        POWER_OP_ON \<Rightarrow> Some ''start''
      | POWER_OP_OFF \<Rightarrow> Some ''stop''
      | POWER_OP_REBOOT \<Rightarrow> Some ''reboot''
      | POWER_OP_SHUTDOWN_GRACEFUL \<Rightarrow> Some ''shutdown''
      | POWER_OP_UNSPECIFIED \<Rightarrow> None)"

definition pve_Power :: "pve_env \<Rightarrow> pb_power_request \<Rightarrow> pve_state \<Rightarrow> string option pve_result" where
  "pve_Power env req =
     on_vm env ''invalid VM reference'' (pw_Id req) (\<lambda>vmid node s.
       case power_operation (pw_Op req) of
         None \<Rightarrow> (s, Inl (NewInvalidSpec ''unsupported power operation: POWER_OP_UNSPECIFIED''))
       | Some operation \<Rightarrow>
           and_then
             (if pw_Op req = POWER_OP_SHUTDOWN_GRACEFUL \<and> pw_GracefulTimeoutSeconds req > 0
              then PowerOperationWithParams env node vmid operation
                     (values_set ''forceStop'' ''1'' (values_set ''timeout'' (show_int (pw_GracefulTimeoutSeconds req)) [])) s
              else PowerOperation env node vmid operation s)
             (internal_error ''failed to perform power operation'')
             (\<lambda>task s. (s, Inr (task_ref task))))"

text \<open>The placement of a clone: host and datastore, both empty when the text cannot be decoded.\<close>

definition clone_placement :: "pve_env \<Rightarrow> string \<Rightarrow> string \<times> string" where
  "clone_placement env text =
     (if text = '''' then ('''', '''')
      else (case json_map env text of
              None \<Rightarrow> ('''', '''')
            | Some ps \<Rightarrow>
                (case (str_field ps ''Host'', str_field ps ''Datastore'') of
                   (Some h, Some d) \<Rightarrow> (h, d)
                 | _ \<Rightarrow> ('''', ''''))))"

definition clone_config :: "pve_env \<Rightarrow> pb_clone_request \<Rightarrow> int \<Rightarrow> vm_config" where
  "clone_config env req vmid =
     (let (host, datastore) = clone_placement env (plq_PlacementJson req);
          custom = [(''full'', if plq_Linked req then ''0'' else ''1'')]
      in (empty_vm_config vmid (plq_TargetName req))
           \<lparr>vf_Custom := set_if (host \<noteq> '''') ''target'' host custom, vf_Storage := datastore\<rparr>)"

definition pve_Clone :: "pve_env \<Rightarrow> pb_clone_request \<Rightarrow> pve_state \<Rightarrow> pb_clone_response pve_result" where
  "pve_Clone env req =
     on_vm env ''invalid source VM reference'' (plq_SourceVmId req) (\<lambda>source node s.
       case nextVMID env s of
         (s', vmid) \<Rightarrow>
           (let host = fst (clone_placement env (plq_PlacementJson req));
                targetNode = (if host \<noteq> '''' then host else node);
                (cpus, mem) = parseClassSizing env (plq_ClassJson req)
            in and_then (CloneVM env node source (clone_config env req vmid) s') (internal_error ''failed to clone VM'')
               (\<lambda>task s. and_then (pve_WaitForTask env node task s) (internal_error ''clone task failed'')
               (\<lambda>_ s. and_then (applyVMClassSizing env targetNode vmid cpus mem s)
                        (internal_error ''failed to apply VMClass sizing to cloned VM'')
               (\<lambda>_ s. (s, Inr \<lparr>plr_TargetVmId = show_int vmid, plr_Task = None\<rparr>))))))"

section \<open>Reconfigure\<close>

text \<open>
  The requested sizes; each one read asks for the machine once more, only to log. \<open>positive_of\<close> is the conversion
  of a positive number.
\<close>

definition positive_of :: "(string \<times> json) list option \<Rightarrow> string \<Rightarrow> int option" where
  "positive_of ps k =
     (case Option.bind ps (\<lambda>ps. as_number ps k) of Some r \<Rightarrow> if r > 0 then Some (trunc_rat r) else None | None \<Rightarrow> None)"

definition look_if :: "pve_env \<Rightarrow> string \<Rightarrow> int \<Rightarrow> bool \<Rightarrow> pve_state \<Rightarrow> pve_state" where
  "look_if env node vmid b s = (if b then fst (GetVM env node vmid s) else s)"

definition trim_suffix_char :: "char \<Rightarrow> string \<Rightarrow> string" where
  "trim_suffix_char c t = (if t \<noteq> [] \<and> last t = c then butlast t else t)"

datatype resize = NoResize | Shrinks int | Grows

text \<open>The sizes in a disk string that parse, and the first one that differs from the requested size.\<close>

definition disk_sizes :: "string \<Rightarrow> int list" where
  "disk_sizes d =
     concat (map (\<lambda>part.
       if starts_with ''size='' part
       then (case atoi (trim_suffix_char CHR ''G'' (trim_prefix ''size='' part)) of Some z \<Rightarrow> [z] | None \<Rightarrow> [])
       else []) (split_on CHR '','' d))"

definition resize_of :: "(string \<times> json) list \<Rightarrow> int \<Rightarrow> resize" where
  "resize_of current sizeGB =
     (case as_string current ''scsi0'' of
        None \<Rightarrow> NoResize
      | Some d \<Rightarrow>
          (case find (\<lambda>z. z \<noteq> sizeGB) (disk_sizes d) of
             None \<Rightarrow> NoResize
           | Some z \<Rightarrow> if sizeGB < z then Shrinks z else Grows))"

definition disk_request :: "json \<Rightarrow> int option" where
  "disk_request d =
     (case d of
        JObj ps \<Rightarrow> (case as_string ps ''Name'' of Some _ \<Rightarrow> positive_of (Some ps) ''SizeGiB'' | None \<Rightarrow> None)
      | _ \<Rightarrow> None)"

text \<open>The loop over the disks: its result is an answer that ends the RPC, or none.\<close>

fun resize_disks ::
  "pve_env \<Rightarrow> string \<Rightarrow> int \<Rightarrow> (string \<times> json) list \<Rightarrow> json list \<Rightarrow> pve_state \<Rightarrow> string option option pve_result" where
  "resize_disks env node vmid current [] s = (s, Inr None)"
| "resize_disks env node vmid current (d # ds) s =
     (case disk_request d of
        None \<Rightarrow> resize_disks env node vmid current ds s
      | Some sizeGB \<Rightarrow>
          (case resize_of current sizeGB of
             NoResize \<Rightarrow> resize_disks env node vmid current ds s
           | Shrinks z \<Rightarrow>
               (s, Inl (NewInvalidSpec (''disk shrinking not allowed: current='' @ show_int z @ ''G, requested='' @ show_int sizeGB @ ''G'')))
           | Grows \<Rightarrow>
               and_then (ResizeDisk env node vmid ''scsi0'' sizeGB s) (internal_error ''failed to resize disk'')
                 (\<lambda>task s. (s, Inr (Some (task_ref task))))))"

definition pve_Reconfigure :: "pve_env \<Rightarrow> pb_reconfigure_request \<Rightarrow> pve_state \<Rightarrow> string option pve_result" where
  "pve_Reconfigure env req =
     on_vm env ''invalid VM reference'' (pf_Id req) (\<lambda>vmid node s.
       and_then (GetVMConfig env node vmid s) (internal_error ''failed to get current VM config'') (\<lambda>current s.
         case json_map env (pf_DesiredJson req) of
           None \<Rightarrow> (s, Inl (NewInvalidSpec ''failed to parse desired configuration''))
         | Some desired \<Rightarrow>
             (let class = as_object desired ''Class'';
                  cpus = positive_of class ''CPU'';
                  mem = positive_of class ''MemoryMiB'';
                  disks = (case as_array desired ''Disks'' of Some ds \<Rightarrow> ds | None \<Rightarrow> []);
                  s = look_if env node vmid (mem \<noteq> None) (look_if env node vmid (cpus \<noteq> None) s)
              in and_then (resize_disks env node vmid current disks s) (\<lambda>e. e) (\<lambda>answer s.
                   case answer of
                     Some task \<Rightarrow> (s, Inr task)
                   | None \<Rightarrow>
                       if cpus \<noteq> None \<or> mem \<noteq> None
                       then and_then
                              (ReconfigureVM env node vmid
                                 \<lparr>rf_CPUs = cpus, rf_Sockets = None, rf_Memory = mem, rf_DiskSize = None, rf_Disk = ''''\<rparr> s)
                              (internal_error ''failed to reconfigure VM'') (\<lambda>task s. (s, Inr (task_ref task)))
                       else (s, Inr None)))))"

section \<open>Describe, tasks and snapshots\<close>

definition pve_power_state :: "string \<Rightarrow> string" where
  "pve_power_state status = (if status \<in> {''running'', ''suspended'', ''paused''} then ''On'' else ''Off'')"

definition usable_ip :: "string \<Rightarrow> bool" where
  "usable_ip ip \<longleftrightarrow>
     ip \<noteq> '''' \<and> \<not> starts_with ''127.'' ip \<and> \<not> starts_with ''169.254.'' ip \<and> \<not> starts_with ''fe80:'' ip"

definition guest_ips :: "guest_interface list \<Rightarrow> string list" where
  "guest_ips is = concat (map (\<lambda>i. filter usable_ip (gn_IPAddresses i)) (filter (\<lambda>i. gn_Name i \<noteq> ''lo'') is))"

definition provider_raw :: "pve_vm \<Rightarrow> (string \<times> json) list" where
  "provider_raw vm =
     [(''node'', JStr (xv_Node vm)), (''vmid'', JStr (show_int (xv_VMID vm))), (''status'', JStr (xv_Status vm)),
      (''qmpstatus'', JStr (xv_QMPStatus vm))] @
     (if xv_PID vm \<noteq> 0 then [(''pid'', JStr (show_int (xv_PID vm)))] else []) @
     (if xv_ConfigLock vm \<noteq> '''' then [(''lock'', JStr (xv_ConfigLock vm))] else [])"

definition trim_suffix :: "string \<Rightarrow> string \<Rightarrow> string" where
  "trim_suffix p t = rev (trim_prefix (rev p) (rev t))"

definition pve_Describe :: "pve_env \<Rightarrow> string \<Rightarrow> pve_state \<Rightarrow> pb_describe_response pve_result" where
  "pve_Describe env ref =
     on_vm env ''invalid VM reference'' ref (\<lambda>vmid node s.
       case GetVM env node vmid s of
         (s', Inl err) \<Rightarrow>
           (s', if err = ErrVMNotFound
                then Inr \<lparr>pd_Exists = False, pd_PowerState = ''notfound'', pd_Ips = [], pd_ConsoleUrl = '''', pd_ProviderRawJson = ''''\<rparr>
                else Inl (internal_error ''failed to describe VM'' err))
       | (s', Inr vm) \<Rightarrow>
           (case (if xv_Status vm = ''running'' then GetGuestNetworkInterfaces env node vmid s' else (s', Inr [])) of
              (s'', r) \<Rightarrow>
                (s'', Inr \<lparr>pd_Exists = True, pd_PowerState = pve_power_state (xv_Status vm),
                  pd_Ips = (case r of Inl _ \<Rightarrow> [] | Inr is \<Rightarrow> guest_ips is),
                  pd_ConsoleUrl = trim_suffix ''/api2'' (xc_Endpoint (xe_config env)) @ ''/#v1:0:=qemu/'' @ show_int vmid @ '':4:5:=console'',
                  pd_ProviderRawJson = xe_marshal env (JObj (provider_raw vm))\<rparr>)))"

definition pve_TaskStatus :: "pve_env \<Rightarrow> string \<Rightarrow> pve_state \<Rightarrow> pb_task_status pve_result" where
  "pve_TaskStatus env taskID s =
     (if \<not> xe_client env then (s, Inl no_client)
      else
        (case split_on CHR '':'' taskID of
           _ # node # _ # _ \<Rightarrow>
             (case GetTaskStatus env node taskID s of
                (s', Inl err) \<Rightarrow> (s', Inr \<lparr>pt_Done = True, pt_Error = ''failed to get task status: '' @ fmt_error err\<rparr>)
              | (s', Inr task) \<Rightarrow>
                  (s', Inr \<lparr>pt_Done = (xt_Status task = ''stopped''),
                     pt_Error =
                       (case xt_ExitCode task of
                          Some e \<Rightarrow> if xt_Status task = ''stopped'' \<and> e \<noteq> ''OK'' then ''task failed with exit code: '' @ e else ''''
                        | None \<Rightarrow> '''')\<rparr>))
         | _ \<Rightarrow> (s, Inr \<lparr>pt_Done = True, pt_Error = ''invalid task ID format: '' @ taskID\<rparr>)))"

definition pve_SnapshotCreate ::
  "pve_env \<Rightarrow> pb_snapshot_create_request \<Rightarrow> pve_state \<Rightarrow> pb_snapshot_create_response pve_result" where
  "pve_SnapshotCreate env req =
     on_vm env ''invalid VM reference'' (psq_VmId req) (\<lambda>vmid node s.
       let name = (if psq_NameHint req = '''' then ''snapshot-'' @ show_int (xe_now env (xs_ops s)) else psq_NameHint req)
       in and_then (CreateSnapshot env node vmid name (psq_Description req) (psq_IncludeMemory req) s)
            (internal_error ''failed to create snapshot'')
            (\<lambda>task s. (s, Inr \<lparr>psr_SnapshotId = name, psr_Task = task_ref task\<rparr>)))"

definition pve_SnapshotDelete :: "pve_env \<Rightarrow> string \<times> string \<Rightarrow> pve_state \<Rightarrow> string option pve_result" where
  "pve_SnapshotDelete env = (\<lambda>(ref, snap).
     on_vm env ''invalid VM reference'' ref (\<lambda>vmid node s.
       and_then (DeleteSnapshot env node vmid snap s) (internal_error ''failed to delete snapshot'')
         (\<lambda>task s. (s, Inr (task_ref task)))))"

definition pve_SnapshotRevert :: "pve_env \<Rightarrow> string \<times> string \<Rightarrow> pve_state \<Rightarrow> string option pve_result" where
  "pve_SnapshotRevert env = (\<lambda>(ref, snap).
     on_vm env ''invalid VM reference'' ref (\<lambda>vmid node s.
       and_then (RevertSnapshot env node vmid snap s) (internal_error ''failed to revert snapshot'')
         (\<lambda>task s. (s, Inr (task_ref task)))))"

section \<open>Listing machines\<close>

text \<open>
  \<^verbatim>\<open>ListVMs\<close>. The configuration is a Go map, so the order of the disks and networks is not fixed; it is that of the
  reply here. A null entry of the reply is a nil pointer, and reading its template flag panics.
\<close>

definition config_strings :: "string list \<Rightarrow> (string \<times> json) list \<Rightarrow> (string \<times> string) list" where
  "config_strings prefixes config =
     concat (map (\<lambda>k. case as_string config k of Some v \<Rightarrow> if v \<noteq> '''' then [(k, v)] else [] | None \<Rightarrow> [])
       (filter (\<lambda>k. list_ex (\<lambda>p. starts_with p k) prefixes) (remdups (map fst config))))"

text \<open>The value of the last part with the prefix.\<close>

definition last_part :: "string \<Rightarrow> string \<Rightarrow> string list \<Rightarrow> string" where
  "last_part p d parts =
     (case filter (starts_with p) parts of [] \<Rightarrow> d | ms \<Rightarrow> trim_prefix p (last ms))"

definition listed_disk :: "int \<Rightarrow> string \<times> string \<Rightarrow> pb_disk_info" where
  "listed_disk vmid = (\<lambda>(key, d).
     let parts = split_on CHR '','' d;
         path = hd parts
     in \<lparr>pdi_Id = show_int vmid @ ''-'' @ key, pdi_Path = path,
         pdi_SizeGib =
           (case split_on CHR '':'' path of
              _ # z # _ \<Rightarrow> (case atoi z of Some n \<Rightarrow> if - (2 ^ 31) \<le> n \<and> n < 2 ^ 31 then n else 0 | None \<Rightarrow> 0)
            | _ \<Rightarrow> 0),
         pdi_Format = last_part ''format='' ''qcow2'' (tl parts)\<rparr>)"

definition listed_network :: "string \<times> string \<Rightarrow> pb_network_info" where
  "listed_network = (\<lambda>(key, d).
     let parts = split_on CHR '','' d
     in \<lparr>pni_Name = last_part ''bridge='' '''' parts, pni_Mac = last_part ''mac='' '''' parts, pni_IpAddress = ''''\<rparr>)"

definition listed_vm :: "string \<Rightarrow> pve_vm \<Rightarrow> (string \<times> json) list \<Rightarrow> pb_vm_info" where
  "listed_vm node vm config =
     (let powerState = (if xv_Status vm = ''running'' then ''On'' else ''Off'');
          cpu = wrap32 (xv_CPUs vm);
          cpu = (if cpu \<noteq> 0 then cpu else case as_number config ''cores'' of Some r \<Rightarrow> trunc_rat r | None \<Rightarrow> 1);
          mem = trunc_rat (of_int (xv_Memory vm) / (1024 * 1024));
          mem = (if mem \<noteq> 0 then mem else case as_number config ''memory'' of Some r \<Rightarrow> trunc_rat r | None \<Rightarrow> 1024)
      in \<lparr>pvi_Id = show_int (xv_VMID vm), pvi_Name = xv_Name vm, pvi_PowerState = powerState, pvi_Ips = [],
          pvi_Cpu = cpu, pvi_MemoryMib = mem,
          pvi_Disks = map (listed_disk (xv_VMID vm)) (config_strings [''virtio'', ''scsi'', ''ide'', ''sata''] config),
          pvi_Networks = map listed_network (config_strings [''net''] config),
          pvi_ProviderRaw =
            [''vmid'' \<mapsto> show_int (xv_VMID vm), ''node'' \<mapsto> node, ''status'' \<mapsto> xv_Status vm, ''power_state'' \<mapsto> powerState]\<rparr>)"

fun list_node :: "pve_env \<Rightarrow> string \<Rightarrow> pve_vm option list \<Rightarrow> pve_state \<Rightarrow> pve_state \<times> pb_vm_info list go_call" where
  "list_node env node [] s = (s, Returns [])"
| "list_node env node (None # vms) s = (s, nil_dereference)"
| "list_node env node (Some vm # vms) s =
     (if xv_Template vm = 1 then list_node env node vms s
      else (case GetVMConfig env node (xv_VMID vm) s of
              (s', Inl _) \<Rightarrow> list_node env node vms s'
            | (s', Inr config) \<Rightarrow>
                (case list_node env node vms s' of
                   (s'', Returns is) \<Rightarrow> (s'', Returns (listed_vm node vm config # is))
                 | (s'', Panics p) \<Rightarrow> (s'', Panics p))))"

fun list_nodes :: "pve_env \<Rightarrow> string list \<Rightarrow> pve_state \<Rightarrow> pve_state \<times> pb_vm_info list go_call" where
  "list_nodes env [] s = (s, Returns [])"
| "list_nodes env (node # nodes) s =
     (case pve_ListVMs env node s of
        (s', Inl _) \<Rightarrow> list_nodes env nodes s'
      | (s', Inr vms) \<Rightarrow>
          (case list_node env node vms s' of
             (s'', Panics p) \<Rightarrow> (s'', Panics p)
           | (s'', Returns is) \<Rightarrow>
               (case list_nodes env nodes s'' of
                  (s3, Returns js) \<Rightarrow> (s3, Returns (is @ js))
                | (s3, Panics p) \<Rightarrow> (s3, Panics p))))"

definition Pve_ListVMs :: "pve_env \<Rightarrow> pve_state \<Rightarrow> pve_state \<times> (sdk_error + pb_vm_info list) go_call" where
  "Pve_ListVMs env s =
     (if \<not> xe_client env then (s, Returns (Inl (Opaque ''Proxmox client not configured'')))
      else
        (case (if xc_NodeSelector (xe_config env) \<noteq> [] then (s, Inr (xc_NodeSelector (xe_config env))) else ListNodes env s) of
           (s', Inl err) \<Rightarrow> (s', Returns (Inl (Wrapped ''no node selector configured and node discovery failed: '' err)))
         | (s', Inr nodes) \<Rightarrow>
             (case list_nodes env nodes s' of
                (s'', Returns is) \<Rightarrow> (s'', Returns (Inr is))
              | (s'', Panics p) \<Rightarrow> (s'', Panics p))))"

section \<open>Preparing images\<close>

record proxmox_image_source =
  xg_TemplateID :: "int option"
  xg_TemplateName :: string
  xg_URL :: string
  xg_Storage :: string
  xg_Node :: string
  xg_Format :: string

definition referencesExistingTemplate :: "proxmox_image_source \<Rightarrow> bool" where
  "referencesExistingTemplate src \<longleftrightarrow> xg_TemplateID src \<noteq> None \<or> trim_space (xg_TemplateName src) \<noteq> ''''"

definition source_isEmpty :: "proxmox_image_source \<Rightarrow> bool" where
  "source_isEmpty src \<longleftrightarrow> \<not> referencesExistingTemplate src \<and> trim_space (xg_URL src) = ''''"

definition rich_source :: "proxmox_source option \<times> string option \<Rightarrow> proxmox_image_source" where
  "rich_source = (\<lambda>(px, url).
     \<lparr>xg_TemplateID = Option.bind px xp_TemplateID,
      xg_TemplateName = string_or_empty (map_option xp_TemplateName px),
      xg_URL = string_or_empty url,
      xg_Storage = string_or_empty (map_option xp_Storage px),
      xg_Node = string_or_empty (map_option xp_Node px),
      xg_Format = string_or_empty (map_option xp_Format px)\<rparr>)"

text \<open>
  The flat shape; \<open>None\<close> is a decoding error. The fields a rich source that counts as empty has already set are kept.
\<close>

definition contract_image_of :: "pve_env \<Rightarrow> string \<Rightarrow> contract_image option" where
  "contract_image_of env text =
     (case json_map env text of
        None \<Rightarrow> None
      | Some ps \<Rightarrow>
          (case (str_field ps ''TemplateName'', str_field ps ''Path'', str_field ps ''URL'', str_field ps ''Format'',
                 str_field ps ''Checksum'', str_field ps ''ChecksumType'') of
             (Some t, Some p, Some u, Some f, Some c, Some ct) \<Rightarrow>
               Some \<lparr>ki_TemplateName = t, ki_Path = p, ki_URL = u, ki_Format = f, ki_Checksum = c, ki_ChecksumType = ct\<rparr>
           | _ \<Rightarrow> None))"

definition parseProxmoxImageSource :: "pve_env \<Rightarrow> string \<Rightarrow> proxmox_image_source" where
  "parseProxmoxImageSource env text =
     (let empty = rich_source (None, None)
      in if trim_space text = '''' then empty
         else
           (let src = (case image_source_of env text of None \<Rightarrow> empty | Some r \<Rightarrow> rich_source r)
            in if \<not> source_isEmpty src then src
               else (case contract_image_of env text of
                       None \<Rightarrow> src
                     | Some img \<Rightarrow>
                         if ki_TemplateName img \<noteq> '''' \<or> ki_URL img \<noteq> ''''
                         then src\<lparr>xg_TemplateName := ki_TemplateName img, xg_URL := ki_URL img, xg_Format := ki_Format img\<rparr>
                         else src)))"

definition resolveImageStorage :: "string \<Rightarrow> string \<Rightarrow> string" where
  "resolveImageStorage storageHint sourceStorage =
     (if trim_space storageHint \<noteq> '''' then trim_space storageHint
      else if trim_space sourceStorage \<noteq> '''' then trim_space sourceStorage
      else ''local-lvm'')"

definition resolveImageNode :: "pve_env \<Rightarrow> string \<Rightarrow> pve_state \<Rightarrow> string pve_result" where
  "resolveImageNode env sourceNode s =
     (if trim_space sourceNode \<noteq> '''' then (s, Inr (trim_space sourceNode))
      else and_then (FindNode env s) (internal_error ''ImagePrepare: find Proxmox node'') (\<lambda>n s. (s, Inr n)))"

definition imagePrepareDone :: "string \<Rightarrow> pb_image_prepare_response" where
  "imagePrepareDone templateRef = \<lparr>pmr_Task = None, pmr_PreparedImageId = templateRef, pmr_PreparedImagePath = ''''\<rparr>"

definition findTemplateByName :: "pve_env \<Rightarrow> string \<Rightarrow> string \<Rightarrow> pve_state \<Rightarrow> pve_vm option pve_result" where
  "findTemplateByName env node name s =
     and_then (pve_ListVMs env node s) (internal_error (''ImagePrepare: list VMs on node '' @ xe_quote env node))
       (\<lambda>vms s. (s, Inr (find (\<lambda>vm. xv_Name vm = name \<and> xv_Template vm = 1) (List.map_filter (\<lambda>v. v) vms))))"

definition imagePrepareVerifyTemplate ::
  "pve_env \<Rightarrow> string \<Rightarrow> proxmox_image_source \<Rightarrow> pve_state \<Rightarrow> pb_image_prepare_response pve_result" where
  "imagePrepareVerifyTemplate env node src s =
     (case xg_TemplateID src of
        Some vmid \<Rightarrow>
          (case GetVM env node vmid s of
             (s', Inl err) \<Rightarrow>
               (s', Inl (if err = ErrVMNotFound then NewNotFound (xe_quote env) ''Proxmox template'' (show_int vmid)
                         else internal_error (''ImagePrepare: look up template '' @ show_int vmid @ '' on node '' @ xe_quote env node) err))
           | (s', Inr vm) \<Rightarrow>
               (s', if xv_Template vm \<noteq> 1
                    then Inl (NewInvalidSpec (''ImagePrepare: VM '' @ show_int vmid @ '' on node '' @ xe_quote env node @
                           '' exists but is not a template''))
                    else Inr (imagePrepareDone (show_int vmid))))
      | None \<Rightarrow>
          (let name = trim_space (xg_TemplateName src)
           in and_then (findTemplateByName env node name s) (\<lambda>e. e)
                (\<lambda>vm s. (s, case vm of
                               None \<Rightarrow> Inl (NewNotFound (xe_quote env) ''Proxmox template'' name)
                             | Some _ \<Rightarrow> Inr (imagePrepareDone name)))))"

definition imagePrepareImport ::
  "pve_env \<Rightarrow> string \<Rightarrow> string \<Rightarrow> proxmox_image_source \<Rightarrow> string \<Rightarrow> pve_state \<Rightarrow> pb_image_prepare_response pve_result" where
  "imagePrepareImport env node targetName src storageHint s =
     and_then (findTemplateByName env node targetName s) (\<lambda>e. e)
       (\<lambda>existing s.
          case existing of
            Some _ \<Rightarrow> (s, Inr (imagePrepareDone targetName))
          | None \<Rightarrow>
              and_then
                (PrepareImage env node (resolveImageStorage storageHint (xg_Storage src)) (xg_URL src) targetName
                   (if trim_space (xg_Format src) = '''' then ''qcow2'' else trim_space (xg_Format src)) s)
                (internal_error (''ImagePrepare: import image '' @ xe_quote env (xg_URL src) @ '' as template '' @ xe_quote env targetName))
                (\<lambda>task s. (s, Inr ((imagePrepareDone targetName)\<lparr>pmr_Task := task_ref task\<rparr>))))"

definition pve_ImagePrepare :: "pve_env \<Rightarrow> pb_image_prepare_request \<Rightarrow> pve_state \<Rightarrow> pb_image_prepare_response pve_result" where
  "pve_ImagePrepare env req s =
     (if \<not> xe_client env then (s, Inl no_client)
      else
        (let targetName = trim_space (pmq_TargetName req);
             src = parseProxmoxImageSource env (pmq_ImageJson req)
         in if source_isEmpty src then (s, Inl (NewInvalidSpec ''ImagePrepare requires a Proxmox image source''))
            else and_then (resolveImageNode env (xg_Node src) s) (\<lambda>e. e)
              (\<lambda>node s.
                 if referencesExistingTemplate src then imagePrepareVerifyTemplate env node src s
                 else if targetName = '''' then (s, Inl (NewInvalidSpec ''ImagePrepare target name is required when importing from a URL''))
                 else imagePrepareImport env node targetName src (pmq_StorageHint req) s)))"

end
