(* ===== verification/PveProps.thy ===== *)
theory PveProps
  imports PveProvider
begin

text \<open>
  Properties of the Proxmox provider: what its log of requests says about a deleted machine, a machine created from
  an imported disk, a combined resize, the networks of a create and the templates it prepares.
\<close>

section \<open>The log of a call\<close>

lemma pve_request_log:
  assumes "pve_request env m p qs f s = (s', r)"
  shows "\<exists>q. xs_log s' = xs_log s @ [PveHttp q r] \<and> hq_Method q = m \<and> hq_Path q = p \<and> hq_Query q = qs \<and>
           hq_Form q = map_option encode_sshkeys f"
  using assms by (auto simp: pve_request_def Let_def)

definition reply_task :: "http_response \<Rightarrow> string" where
  "reply_task r = (case api_data r of Some (JStr t) \<Rightarrow> t | _ \<Rightarrow> '''')"

lemma task_call_log:
  assumes "task_call env v w gone strict m p qs f s = (s', r)"
  shows "\<exists>q a. xs_log s' = xs_log s @ [PveHttp q a] \<and> hq_Method q = m \<and> hq_Path q = p \<and> hq_Query q = qs \<and>
           hq_Form q = map_option encode_sshkeys f \<and>
           (\<forall>t. r = Inr t \<longrightarrow> (\<exists>resp. a = Inr resp \<and>
              (gone \<and> hs_Status resp = 404 \<and> t = '''' \<or> hs_Status resp = 200 \<and> t = reply_task resp)))"
proof -
  obtain s1 a where rq: "pve_request env m p qs f s = (s1, a)" by (cases "pve_request env m p qs f s")
  from pve_request_log [OF rq] obtain q where
    "xs_log s1 = xs_log s @ [PveHttp q a]" "hq_Method q = m" "hq_Path q = p" "hq_Query q = qs"
    "hq_Form q = map_option encode_sshkeys f" by blast
  with assms rq show ?thesis
    by (cases a) (auto simp: task_call_def reply_task_def split: if_splits option.splits json.splits)
qed

text \<open>The reply that ends a wait: the task stopped, with exit status OK or none.\<close>

definition task_seen_ok :: "string \<Rightarrow> string \<Rightarrow> pve_event \<Rightarrow> bool" where
  "task_seen_ok node t ev =
     (case ev of
        PveHttp q (Inr r) \<Rightarrow>
          hq_Method q = ''GET'' \<and> hq_Path q = task_path node t \<and> hs_Status r = 200 \<and>
          (case Option.bind (api_data r) pve_task_of of
             Some task \<Rightarrow> xt_Status task = ''stopped'' \<and> xt_ExitCode task \<in> {None, Some ''OK''}
           | None \<Rightarrow> False)
      | _ \<Rightarrow> False)"

definition completed :: "string \<Rightarrow> string \<Rightarrow> pve_event list \<Rightarrow> bool" where
  "completed node t evs \<longleftrightarrow> (if t = '''' then evs = [] else evs \<noteq> [] \<and> task_seen_ok node t (last evs))"

text \<open>Only task queries are sent while waiting.\<close>

definition is_poll :: "pve_event \<Rightarrow> bool" where
  "is_poll ev = (case ev of PveHttp q a \<Rightarrow> hq_Method q = ''GET'' | PveSsh c b \<Rightarrow> False)"

lemma GetTaskStatus_log:
  assumes "GetTaskStatus env node t s = (s', r)"
  shows "\<exists>ev. xs_log s' = xs_log s @ [ev] \<and> is_poll ev \<and>
           (\<forall>task. r = Inr task \<longrightarrow> xt_Status task = ''stopped'' \<longrightarrow> xt_ExitCode task \<in> {None, Some ''OK''} \<longrightarrow> task_seen_ok node t ev)"
proof -
  obtain s1 a where rq: "pve_request env ''GET'' (task_path node t) '''' None s = (s1, a)"
    by (cases "pve_request env ''GET'' (task_path node t) '''' None s")
  from pve_request_log [OF rq] obtain q where
    "xs_log s1 = xs_log s @ [PveHttp q a]" "hq_Method q = ''GET''" "hq_Path q = task_path node t" by blast
  with assms rq show ?thesis
    by (cases a) (auto simp: GetTaskStatus_def task_seen_ok_def is_poll_def split: if_splits option.splits)
qed

lemma wait_ticks_log:
  "wait_ticks n env node t s = (s', r) \<Longrightarrow>
     \<exists>l. xs_log s' = xs_log s @ l \<and> list_all is_poll l \<and> (r = Inr () \<longrightarrow> l \<noteq> [] \<and> task_seen_ok node t (last l))"
proof (induction n arbitrary: s)
  case (Suc n)
  obtain s1 a where g: "GetTaskStatus env node t s = (s1, a)" by (cases "GetTaskStatus env node t s")
  from GetTaskStatus_log [OF g] obtain ev where ev: "xs_log s1 = xs_log s @ [ev]" "is_poll ev"
    and ok: "\<forall>task. a = Inr task \<longrightarrow> xt_Status task = ''stopped'' \<longrightarrow> xt_ExitCode task \<in> {None, Some ''OK''} \<longrightarrow> task_seen_ok node t ev"
    by blast
  show ?case
  proof (cases "\<exists>task. a = Inr task \<and> xt_Status task \<noteq> ''stopped''")
    case True
    then have "wait_ticks n env node t s1 = (s', r)" using Suc.prems g by auto
    from Suc.IH [OF this] obtain l where "xs_log s' = xs_log s1 @ l" "list_all is_poll l"
      "r = Inr () \<longrightarrow> l \<noteq> [] \<and> task_seen_ok node t (last l)" by blast
    then show ?thesis using ev by (intro exI [of _ "ev # l"]) auto
  next
    case False
    then show ?thesis using Suc.prems g ev ok
      by (intro exI [of _ "[ev]"]) (cases a; auto split: option.splits if_splits)
  qed
qed auto

lemma WaitForTask_log:
  assumes "pve_WaitForTask env node t s = (s', r)"
  shows "\<exists>l. xs_log s' = xs_log s @ l \<and> list_all is_poll l \<and> (r = Inr () \<longrightarrow> completed node t l)"
proof (cases "t = ''''")
  case True
  then show ?thesis using assms by (auto simp: pve_WaitForTask_def completed_def)
next
  case False
  then have "wait_ticks (xe_ticks env (xs_ops s)) env node t s = (s', r)" using assms by (simp add: pve_WaitForTask_def)
  from wait_ticks_log [OF this] False show ?thesis by (auto simp: completed_def)
qed

lemma and_then_Inr:
  "and_then r w k = (s', Inr y) \<longleftrightarrow> (\<exists>s x. r = (s, Inr x) \<and> k x s = (s', Inr y))"
  by (auto simp: and_then_def split: prod.splits sum.splits)

lemma and_then_simps [simp]: "and_then (s, Inr x) w k = k x s" "and_then (s, Inl e) w k = (s, Inl (w e))"
  by (simp_all add: and_then_def)

lemma and_then_assoc:
  "and_then (and_then r w k) v l = and_then r (\<lambda>e. v (w e)) (\<lambda>x s. and_then (k x s) v l)"
  by (auto simp: and_then_def split: prod.splits sum.splits)

section \<open>Delete\<close>

definition purge_request :: "string \<Rightarrow> int \<Rightarrow> http_request \<Rightarrow> bool" where
  "purge_request node vmid q \<longleftrightarrow>
     hq_Method q = ''DELETE'' \<and> hq_Path q = vm_path node vmid '''' \<and> hq_Query q = ''purge=1&destroy-unreferenced-disks=1''"

text \<open>The machine an answer to the status query reports.\<close>

definition reported_vm :: "pve_event \<Rightarrow> pve_vm option" where
  "reported_vm ev =
     (case ev of
        PveHttp q (Inr r) \<Rightarrow> if hs_Status r = 200 then Option.bind (api_data r) pve_vm_of else None
      | _ \<Rightarrow> None)"

definition alive :: "pve_event \<Rightarrow> bool" where
  "alive ev = (case reported_vm ev of Some vm \<Rightarrow> xv_Status vm \<in> {''running'', ''paused'', ''suspended''} | None \<Rightarrow> False)"

text \<open>What follows the status query: a stop that was accepted and seen to end, when the machine is alive.\<close>

definition stop_phase :: "string \<Rightarrow> int \<Rightarrow> pve_event \<Rightarrow> pve_event list \<Rightarrow> bool" where
  "stop_phase node vmid get stops =
     (if alive get
      then (case stops of
              PveHttp q (Inr r) # waits \<Rightarrow>
                hq_Method q = ''POST'' \<and> hq_Path q = vm_path node vmid ''/status/stop'' \<and> hs_Status r = 200 \<and>
                completed node (reply_task r) waits
            | _ \<Rightarrow> False)
      else stops = [])"

lemma GetVM_log:
  assumes "GetVM env node vmid s = (s', r)"
  shows "\<exists>ev. xs_log s' = xs_log s @ [ev] \<and> is_poll ev \<and>
           (case r of Inl _ \<Rightarrow> reported_vm ev = None
            | Inr vm \<Rightarrow> reported_vm ev \<noteq> None \<and> xv_Status (the (reported_vm ev)) = xv_Status vm)"
proof -
  obtain s1 a where rq: "pve_request env ''GET'' (vm_path node vmid ''/status/current'') '''' None s = (s1, a)"
    by (cases "pve_request env ''GET'' (vm_path node vmid ''/status/current'') '''' None s")
  from pve_request_log [OF rq] obtain q where "xs_log s1 = xs_log s @ [PveHttp q a]" "hq_Method q = ''GET''" by blast
  with assms rq show ?thesis
    by (cases a) (auto simp: GetVM_def reported_vm_def is_poll_def split: if_splits option.splits)
qed

lemma stop_first_log:
  assumes "stop_first env node vmid s = (s', Inr ())"
  shows "\<exists>get stops. xs_log s' = xs_log s @ [get] @ stops \<and> stop_phase node vmid get stops"
proof -
  obtain s1 a where g: "GetVM env node vmid s = (s1, a)" by (cases "GetVM env node vmid s")
  from GetVM_log [OF g] obtain ev where ev: "xs_log s1 = xs_log s @ [ev]"
    and rep: "case a of Inl _ \<Rightarrow> reported_vm ev = None
                | Inr vm \<Rightarrow> reported_vm ev \<noteq> None \<and> xv_Status (the (reported_vm ev)) = xv_Status vm" by blast
  show ?thesis
  proof (cases "alive ev")
    case True
    then have "and_then (PowerOperation env node vmid ''stop'' s1) (internal_error ''failed to stop VM before delete'')
         (\<lambda>task s. and_then (pve_WaitForTask env node task s)
            (internal_error ''failed waiting for VM to stop before delete'') (\<lambda>_ s. (s, Inr ()))) = (s', Inr ())"
      using assms g rep by (cases a) (auto simp: stop_first_def alive_def)
    then obtain s2 task s3 where p: "PowerOperation env node vmid ''stop'' s1 = (s2, Inr task)"
      and w: "pve_WaitForTask env node task s2 = (s3, Inr ())" and "s' = s3" by (auto simp: and_then_Inr)
    from task_call_log [OF p [unfolded PowerOperation_def PowerOperationWithParams_def]] obtain q resp where
      "xs_log s2 = xs_log s1 @ [PveHttp q (Inr resp)]" "hq_Method q = ''POST''" "hq_Path q = vm_path node vmid ''/status/stop''"
      "hs_Status resp = 200" "task = reply_task resp" by auto
    moreover from WaitForTask_log [OF w] obtain l where "xs_log s3 = xs_log s2 @ l" "completed node task l" by blast
    ultimately show ?thesis using ev True \<open>s' = s3\<close>
      by (intro exI [of _ ev] exI [of _ "PveHttp q (Inr resp) # l"]) (simp add: stop_phase_def)
  next
    case False
    then have "s' = s1" using assms g rep by (cases a) (auto simp: stop_first_def alive_def split: if_splits)
    then show ?thesis using ev False by (auto simp: stop_phase_def)
  qed
qed


text \<open>A server with one node and a running machine whose tasks end well at the first look.\<close>

definition json_reply :: "json \<Rightarrow> sdk_error + http_response" where
  "json_reply d = Inr \<lparr>hs_Status = 200, hs_Body = '''', hs_JSON = Some (JObj [(''data'', d)])\<rparr>"

definition demo_http :: "nat \<Rightarrow> http_request \<Rightarrow> sdk_error + http_response" where
  "demo_http n q =
     (if hq_Path q = ''/api2/json/cluster/nextid'' then json_reply (JStr ''105'')
      else if hq_Path q = vm_path ''pve'' 105 ''/status/current'' then Inr \<lparr>hs_Status = 404, hs_Body = '''', hs_JSON = None\<rparr>
      else if hq_Path q = vm_path ''pve'' 101 ''/status/current'' then json_reply (JObj [(''status'', JStr ''running'')])
      else if hq_Method q = ''GET'' \<and> hq_Path q = vm_path ''pve'' 101 ''/config''
      then json_reply (JObj [(''scsi0'', JStr ''local:vm-101-disk-0,size=32G'')])
      else if hq_Path q = ''/api2/json/nodes/pve/qemu'' \<and> hq_Method q = ''GET'' then json_reply (JArr [])
      else if hq_Method q = ''GET'' then json_reply (JObj [(''status'', JStr ''stopped''), (''exitstatus'', JStr ''OK'')])
      else json_reply (JStr ''UPID:pve:1''))"

definition demo_config :: pve_config where
  "demo_config =
     \<lparr>xc_Endpoint = ''https://pve:8006'', xc_TokenID = ''t'', xc_TokenSecret = ''s'', xc_Username = '''', xc_Password = '''',
      xc_InsecureSkipVerify = False, xc_CABundle = '''', xc_NodeSelector = [''pve''], xc_DefaultStorage = '''',
      xc_TaskPollInterval = 2 * second, xc_TaskTimeout = 5 * minute, xc_RequestTimeout = 30 * second\<rparr>"

definition demo_env :: "(string \<Rightarrow> json option) \<Rightarrow> (nat \<Rightarrow> string \<Rightarrow> (sdk_error \<times> string) + (string \<times> string)) \<Rightarrow> pve_env" where
  "demo_env parse ssh =
     \<lparr>xe_http = demo_http, xe_ssh = ssh, xe_ticks = (\<lambda>n. 3), xe_now = (\<lambda>n. 0), xe_quote = (\<lambda>t. t), xe_client = True,
      xe_has_ssh = True, xe_json = parse, xe_marshal = (\<lambda>j. ''''), xe_config = demo_config\<rparr>"

definition fresh_state :: pve_state where
  "fresh_state = \<lparr>xs_ops = 0, xs_log = [], xs_nodes = []\<rparr>"


section \<open>Networks\<close>

text \<open>How \<^verbatim>\<open>json.Marshal\<close> writes a network of the manager's request: the fields of the struct carry no tags.\<close>

definition network_fields :: "network_attachment \<Rightarrow> (string \<times> json) list" where
  "network_fields n =
     [(''Name'', JStr (na_Name n)), (''Portgroup'', JStr (na_Portgroup n)), (''NetworkName'', JStr (na_NetworkName n)),
      (''Bridge'', JStr (na_Bridge n)), (''VLAN'', JNum (of_int (na_VLAN n))), (''Model'', JStr (na_Model n)),
      (''MacAddress'', JStr (na_MacAddress n)), (''IPPolicy'', JStr (na_IPPolicy n)), (''StaticIP'', JStr (na_StaticIP n)),
      (''Prefix'', JNum (of_int (na_Prefix n))), (''Gateway'', JStr (na_Gateway n)), (''DNS'', JStr (na_DNS n)),
      (''PCISlotNumber'', case na_PCISlotNumber n of None \<Rightarrow> JNull | Some i \<Rightarrow> JNum (of_int i))]"

lemma parse_attachment [simp]:
  "parse_network i (network_fields n) = default_network i"
  "parse_ipconfig i (network_fields n) = default_ipconfig i"
  by (simp_all add: network_fields_def parse_network_def parse_ipconfig_def as_string_def as_number_def as_object_def
      obj_get_def Let_def)

lemma network_objects_attachments:
  "network_objects (map (JObj \<circ> network_fields) ns) = map (\<lambda>(i, n). (i, network_fields n)) (enumerate 0 ns)"
proof -
  have "concat (map (\<lambda>(i, x). case x of JObj ps \<Rightarrow> [(i, ps)] | _ \<Rightarrow> []) (enumerate k (map (JObj \<circ> network_fields) ns))) =
      map (\<lambda>(i, n). (i, network_fields n)) (enumerate k ns)" for k
    by (induction ns arbitrary: k) simp_all
  then show ?thesis by (simp add: network_objects_def)
qed

lemma parse_networks_attachments:
  assumes "xe_json env text = Some (JArr (map (JObj \<circ> network_fields) ns))" "text \<noteq> ''''" "ns \<noteq> []"
  shows "vf_Networks (parse_networks env text c) = map default_network [0 ..< length ns]"
    and "vf_IPConfigs (parse_networks env text c) = map default_ipconfig [0 ..< length ns]"
proof -
  have "map (\<lambda>(i, n). f i) (enumerate 0 ns) = map f [0 ..< length ns]" for f :: "nat \<Rightarrow> 'b"
  proof -
    have "map (\<lambda>(i, n). f i) (enumerate 0 ns) = map f (map fst (enumerate 0 ns))" by (simp only: map_map comp_def split_def)
    then show ?thesis by (simp only: map_fst_enumerate add_0)
  qed
  note idx = this
  have "enumerate 0 ns \<noteq> []" using assms(3) by (cases ns) auto
  then show "vf_Networks (parse_networks env text c) = map default_network [0 ..< length ns]"
    and "vf_IPConfigs (parse_networks env text c) = map default_ipconfig [0 ..< length ns]"
    using assms idx [of default_network] idx [of default_ipconfig]
    by (simp_all add: parse_networks_def network_objects_attachments [unfolded comp_def] Let_def comp_def split_def)
qed

lemma parse_user_data_networks [simp]:
  "vf_Networks (parse_user_data ud c) = vf_Networks c" "vf_IPConfigs (parse_user_data ud c) = vf_IPConfigs c"
  by (simp_all add: parse_user_data_def Let_def)

text \<open>
  C39. The networks of a machine are lost on the way to Proxmox: when the request carries the networks as the
  manager writes them, the configuration the provider sends has one interface per network, every one of them on
  bridge \<^verbatim>\<open>vmbr0\<close> without VLAN tag or MAC address and with DHCP, whatever bridge, VLAN, MAC or static address was asked
  for. (The provider reads the keys name, vlan, mac and static_ip, which the manager never writes.)
\<close>

theorem proxmox_networks_are_lost:
  assumes "parseCreateRequest env req s = (s', Inr (c, node))"
    and "xe_json env (pq_NetworksJson req) = Some (JArr (map (JObj \<circ> network_fields) ns))"
    and "pq_NetworksJson req \<noteq> ''''" and "ns \<noteq> []"
  shows "vf_Networks c = map default_network [0 ..< length ns] \<and> vf_IPConfigs c = map default_ipconfig [0 ..< length ns]"
  using assms by (auto simp: parseCreateRequest_def and_then_Inr Let_def parse_networks_attachments split: prod.splits)

definition dmz_network :: network_attachment where
  "dmz_network =
     \<lparr>na_Name = ''dmz'', na_Portgroup = '''', na_NetworkName = '''', na_Bridge = ''vmbr1'', na_VLAN = 42, na_Model = ''e1000'',
      na_MacAddress = ''02:00:00:00:00:01'', na_IPPolicy = ''static'', na_StaticIP = ''10.0.0.5'', na_Prefix = 24,
      na_Gateway = ''10.0.0.1'', na_DNS = '''', na_PCISlotNumber = None\<rparr>"

definition named_request :: "string \<Rightarrow> pb_create_request" where
  "named_request img =
     \<lparr>pq_Name = ''vm'', pq_UserData = '''', pq_MetaData = '''', pq_ClassJson = '''', pq_ImageJson = img, pq_NetworksJson = ''networks'',
      pq_DisksJson = '''', pq_PlacementJson = '''', pq_Tags = []\<rparr>"

theorem proxmox_networks_are_lost_witness:
  "let env = demo_env (\<lambda>t. if t = ''networks'' then Some (JArr (map (JObj \<circ> network_fields) [dmz_network])) else None) (\<lambda>n c. Inr ('''', '''')) in
   (case snd (parseCreateRequest env (named_request '''') fresh_state) of
      Inr (c, node) \<Rightarrow> vf_Networks c = map default_network [0 ..< length [dmz_network]] \<and> xn_Bridge (hd (vf_Networks c)) = ''vmbr0''
    | Inl _ \<Rightarrow> False)"
proof -
  let ?env = "demo_env (\<lambda>t. if t = ''networks'' then Some (JArr (map (JObj \<circ> network_fields) [dmz_network])) else None) (\<lambda>n c. Inr ('''', ''''))"
  have "case snd (parseCreateRequest ?env (named_request '''') fresh_state) of Inl _ \<Rightarrow> False | Inr _ \<Rightarrow> True" by code_simp
  then obtain s' c node where r: "parseCreateRequest ?env (named_request '''') fresh_state = (s', Inr (c, node))"
    by (cases "parseCreateRequest ?env (named_request '''') fresh_state") (auto split: sum.splits)
  have "xe_json ?env (pq_NetworksJson (named_request '''')) = Some (JArr (map (JObj \<circ> network_fields) [dmz_network]))"
    "pq_NetworksJson (named_request '''') \<noteq> ''''" by (simp_all add: demo_env_def named_request_def)
  from proxmox_networks_are_lost [OF r this] r show ?thesis by (simp add: Let_def default_network_def)
qed

section \<open>Extensions of the log\<close>

text \<open>
  Most operations only append to the log. \<open>extends P\<close> says that, and that every appended event satisfies \<open>P\<close>.
\<close>

definition extends :: "(pve_event \<Rightarrow> bool) \<Rightarrow> pve_state \<Rightarrow> pve_state \<Rightarrow> bool" where
  "extends P s s' \<longleftrightarrow> (\<exists>l. xs_log s' = xs_log s @ l \<and> list_all P l)"

lemma extends_refl [simp]: "extends P s s"
  by (simp add: extends_def)

lemma extends_trans [trans]: "extends P s t \<Longrightarrow> extends P t u \<Longrightarrow> extends P s u"
  unfolding extends_def by fastforce

lemma extends_mono: "extends P s t \<Longrightarrow> (\<And>ev. P ev \<Longrightarrow> Q ev) \<Longrightarrow> extends Q s t"
  unfolding extends_def using list.pred_mono_strong by metis

text \<open>
  The contract of a call: it only appends events of one kind. What follows holds for every call that keeps it,
  alone or with a continuation that keeps it.
\<close>

locale appending =
  fixes call :: "pve_state \<Rightarrow> 'a pve_result" and P :: "pve_event \<Rightarrow> bool"
  assumes appends: "call s = (s', r) \<Longrightarrow> extends P s s'"
begin

lemma state_appends: "extends P s (fst (call s))"
  by (rule appends [of _ _ "snd (call s)"]) simp

lemma then_appends:
  assumes "\<And>x t. extends P t (fst (k x t))"
  shows "extends P s (fst (and_then (call s) w k))"
proof -
  obtain t r where c: "call s = (t, r)" by (cases "call s")
  show ?thesis using appends [OF c] extends_trans [OF appends [OF c] assms] c
    by (cases r) (auto simp: and_then_def)
qed

end

text \<open>Events that neither delete a machine nor touch the staged file.\<close>

definition harmless :: "pve_event \<Rightarrow> bool" where
  "harmless ev = (case ev of PveHttp q a \<Rightarrow> hq_Method q \<noteq> ''DELETE'' | PveSsh c b \<Rightarrow> starts_with ''qm '' c)"

definition over_http :: "pve_event \<Rightarrow> bool" where
  "over_http ev = (case ev of PveHttp q a \<Rightarrow> hq_Method q \<noteq> ''DELETE'' | PveSsh c b \<Rightarrow> False)"

lemma is_poll_over_http: "is_poll ev \<Longrightarrow> over_http ev"
  by (auto simp: is_poll_def over_http_def split: pve_event.splits)

lemma over_http_harmless: "over_http ev \<Longrightarrow> harmless ev"
  by (auto simp: over_http_def harmless_def split: pve_event.splits)

lemma task_call_extends:
  assumes "task_call env v w gone strict m p qs f s = (s', r)" "m \<noteq> ''DELETE''"
  shows "extends over_http s s'"
  using task_call_log [OF assms(1)] assms(2) unfolding extends_def by (fastforce simp: over_http_def)

lemma WaitForTask_extends: "pve_WaitForTask env node t s = (s', r) \<Longrightarrow> extends over_http s s'"
  using WaitForTask_log [of env node t s s' r] unfolding extends_def
  by (metis is_poll_over_http list.pred_mono_strong)

interpretation waiting: appending "pve_WaitForTask env node t" over_http for env node t
  by unfold_locales (rule WaitForTask_extends)

interpretation config_put: appending "ReconfigureVMRaw env node vmid vs" over_http for env node vmid vs
  by unfold_locales (simp add: ReconfigureVMRaw_def task_call_extends)

interpretation shell_create: appending "CreateVM env node c" over_http for env node c
  by unfold_locales (simp add: CreateVM_def task_call_extends)

lemma attach_cloudinit_extends:
  assumes "attach_cloudinit env req c node storage s = (s', r)"
  shows "extends over_http s s'"
proof -
  have "extends over_http s (fst (attach_cloudinit env req c node storage s))"
    unfolding attach_cloudinit_def by (simp add: config_put.then_appends waiting.then_appends)
  then show ?thesis using assms by simp
qed

section \<open>Create from an imported disk\<close>

lemma runSSH_log: "runSSH env cmd s = (s', r) \<Longrightarrow> xs_log s' = xs_log s @ [PveSsh cmd (\<not> isl r)]"
  by (cases r) (auto simp: runSSH_def Let_def)

lemma qm_commands [simp]:
  "starts_with ''qm '' (buildImportDiskCommand i p st f)" "starts_with ''qm '' (buildImportedDiskSetCommand i v)"
  "starts_with ''qm '' (CHR ''q'' # CHR ''m'' # CHR '' '' # t)"
  by (simp_all add: starts_with_def buildImportDiskCommand_def buildImportedDiskSetCommand_def)

text \<open>The three remote commands of an attachment that succeeds.\<close>

definition attached :: "vm_config \<Rightarrow> string \<Rightarrow> string \<Rightarrow> pve_event list \<Rightarrow> bool" where
  "attached c storage format evs \<longleftrightarrow>
     (\<exists>b volume. evs =
        [PveSsh (buildImportDiskCommand (vf_VMID c) (vf_ImportedDiskPath c) storage format) True,
         PveSsh (''qm config '' @ show_int (vf_VMID c)) b,
         PveSsh (buildImportedDiskSetCommand (vf_VMID c) volume) True])"

lemma imported_volume_log:
  assumes "imported_volume env storage vmid out s = (s', v)"
  shows "\<exists>b. xs_log s' = xs_log s @ [PveSsh (''qm config '' @ show_int vmid) b]"
  using assms by (auto simp: imported_volume_def Let_def dest: runSSH_log split: prod.splits)

lemma attach_imported_disk_log:
  assumes "attach_imported_disk env req c node storage format s = (s', r)"
  shows "extends harmless s s'"
    and "r = Inr () \<Longrightarrow> \<exists>evs l. xs_log s' = xs_log s @ evs @ l \<and> attached c storage format evs \<and> list_all over_http l"
proof -
  let ?imp = "buildImportDiskCommand (vf_VMID c) (vf_ImportedDiskPath c) storage format"
  obtain s1 a where imp: "runSSH env ?imp s = (s1, a)" by (cases "runSSH env ?imp s")
  note l1 = runSSH_log [OF imp]
  have "extends harmless s s' \<and>
    (r = Inr () \<longrightarrow> (\<exists>evs l. xs_log s' = xs_log s @ evs @ l \<and> attached c storage format evs \<and> list_all over_http l))"
  proof (cases a)
    case (Inl e)
    then have "s' = s1" "isl r" using assms imp by (auto simp: attach_imported_disk_def)
    then show ?thesis using l1 by (auto simp: extends_def harmless_def)
  next
    case (Inr o1)
    obtain s2 v where vol: "imported_volume env storage (vf_VMID c) (fst o1 @ [newline] @ snd o1) s1 = (s2, v)"
      by (cases "imported_volume env storage (vf_VMID c) (fst o1 @ [newline] @ snd o1) s1")
    from imported_volume_log [OF vol] obtain b where
      l2: "xs_log s2 = xs_log s1 @ [PveSsh (''qm config '' @ show_int (vf_VMID c)) b]" by blast
    let ?set = "buildImportedDiskSetCommand (vf_VMID c) v"
    obtain s3 d where set: "runSSH env ?set s2 = (s3, d)" by (cases "runSSH env ?set s2")
    note l3 = runSSH_log [OF set]
    show ?thesis
    proof (cases d)
      case (Inl e)
      then have "s' = s3" "isl r" using assms imp Inr vol set by (auto simp: attach_imported_disk_def split: prod.splits)
      then show ?thesis using l1 l2 l3 by (auto simp: extends_def harmless_def)
    next
      case d: (Inr o2)
      then have "attach_cloudinit env req c node storage s3 = (s', r)"
        using assms imp Inr vol set by (auto simp: attach_imported_disk_def split: prod.splits)
      from attach_cloudinit_extends [OF this] obtain l where l4: "xs_log s' = xs_log s3 @ l" "list_all over_http l"
        unfolding extends_def by blast
      have h: "list_all harmless l" using l4(2) by (rule list.pred_mono_strong) (rule over_http_harmless)
      define evs where "evs = [PveSsh ?imp True, PveSsh (''qm config '' @ show_int (vf_VMID c)) b, PveSsh ?set True]"
      have log: "xs_log s' = xs_log s @ evs @ l" using l1 l2 l3 l4(1) Inr d by (simp add: evs_def)
      have "list_all harmless evs" by (simp add: evs_def harmless_def)
      then have "extends harmless s s'" using log h by (auto simp: extends_def)
      moreover have "attached c storage format evs" unfolding attached_def evs_def by blast
      ultimately show ?thesis using log l4(2) by blast
    qed
  qed
  then show "extends harmless s s'"
    and "r = Inr () \<Longrightarrow> \<exists>evs l. xs_log s' = xs_log s @ evs @ l \<and> attached c storage format evs \<and> list_all over_http l"
    by blast+
qed

lemma delete_shell_log:
  "\<exists>q a l. xs_log (delete_shell env node vmid s) = xs_log s @ [PveHttp q a] @ l \<and> purge_request node vmid q \<and> list_all is_poll l"
proof -
  obtain s1 r where d: "DeleteVM env node vmid True s = (s1, r)" by (cases "DeleteVM env node vmid True s")
  from task_call_log [OF d [unfolded DeleteVM_def]] obtain q a where
    l1: "xs_log s1 = xs_log s @ [PveHttp q a]" and q: "purge_request node vmid q" by (auto simp: purge_request_def)
  show ?thesis
  proof (cases r)
    case (Inr task)
    obtain s2 b where w: "pve_WaitForTask env node task s1 = (s2, b)" by (cases "pve_WaitForTask env node task s1")
    with WaitForTask_log [OF w] show ?thesis using d Inr l1 q by (auto simp: delete_shell_def)
  qed (use d l1 q in \<open>auto simp: delete_shell_def\<close>)
qed

lemma cleanupNodeFile_log:
  "xe_has_ssh env \<Longrightarrow> path \<noteq> '''' \<Longrightarrow>
     \<exists>b. xs_log (cleanupNodeFile env path s) = xs_log s @ [PveSsh (''rm -f '' @ proxmoxShellQuote path) b]"
  by (auto simp: cleanupNodeFile_def runSSH_def Let_def)

text \<open>The two ways a create from an imported disk can have gone once its shell exists.\<close>

definition imported_disk_format :: "vm_config \<Rightarrow> string" where
  "imported_disk_format c = (if vf_ImportedDiskFormat c = '''' then ''qcow2'' else vf_ImportedDiskFormat c)"

definition attached_and_staged_file_removed :: "pve_env \<Rightarrow> vm_config \<Rightarrow> pve_event list \<Rightarrow> bool" where
  "attached_and_staged_file_removed env c l \<longleftrightarrow>
     (\<exists>l1 evs l2 b. l = l1 @ evs @ l2 @ [PveSsh (''rm -f '' @ proxmoxShellQuote (vf_ImportedDiskPath c)) b] \<and>
        attached c (import_storage env c) (imported_disk_format c) evs \<and> list_all over_http (l1 @ l2))"

definition rolled_back :: "string \<Rightarrow> int \<Rightarrow> pve_event list \<Rightarrow> bool" where
  "rolled_back node vmid l \<longleftrightarrow>
     (\<exists>l1 q a l2. l = l1 @ [PveHttp q a] @ l2 \<and> list_all harmless l1 \<and> purge_request node vmid q \<and> list_all is_poll l2)"

lemma import_into_shell:
  assumes "attach_imported_disk env req c node (import_storage env c) (imported_disk_format c) s = (s1, a)"
    and "extends over_http s0 s" and "xe_has_ssh env" and "vf_ImportedDiskPath c \<noteq> ''''"
  shows "isl a \<Longrightarrow> \<exists>l. xs_log (delete_shell env node (vf_VMID c) s1) = xs_log s0 @ l \<and> rolled_back node (vf_VMID c) l"
    and "a = Inr () \<Longrightarrow> \<exists>l. xs_log (cleanupNodeFile env (vf_ImportedDiskPath c) s1) = xs_log s0 @ l \<and> attached_and_staged_file_removed env c l"
proof -
  assume "isl a"
  have "extends harmless s0 s1"
    using extends_trans [OF extends_mono [OF assms(2) over_http_harmless] attach_imported_disk_log(1) [OF assms(1)]] by simp
  then obtain l1 where 1: "xs_log s1 = xs_log s0 @ l1" "list_all harmless l1" unfolding extends_def by blast
  obtain q d l2 where 2: "xs_log (delete_shell env node (vf_VMID c) s1) = xs_log s1 @ [PveHttp q d] @ l2"
    "purge_request node (vf_VMID c) q" "list_all is_poll l2" using delete_shell_log by blast
  have "rolled_back node (vf_VMID c) (l1 @ [PveHttp q d] @ l2)" unfolding rolled_back_def using 1 2 by blast
  then show "\<exists>l. xs_log (delete_shell env node (vf_VMID c) s1) = xs_log s0 @ l \<and> rolled_back node (vf_VMID c) l"
    using 1 2 by (intro exI [of _ "l1 @ [PveHttp q d] @ l2"]) simp
next
  assume "a = Inr ()"
  from attach_imported_disk_log(2) [OF assms(1) this] obtain evs l2 where
    2: "xs_log s1 = xs_log s @ evs @ l2" "attached c (import_storage env c) (imported_disk_format c) evs" "list_all over_http l2" by blast
  from assms(2) obtain l1 where 1: "xs_log s = xs_log s0 @ l1" "list_all over_http l1" unfolding extends_def by blast
  from cleanupNodeFile_log [OF assms(3,4)] obtain b where
    3: "xs_log (cleanupNodeFile env (vf_ImportedDiskPath c) s1) = xs_log s1 @ [PveSsh (''rm -f '' @ proxmoxShellQuote (vf_ImportedDiskPath c)) b]"
    by blast
  have "list_all over_http (l1 @ l2)" using 1 2 by simp
  then have "attached_and_staged_file_removed env c (l1 @ evs @ l2 @ [PveSsh (''rm -f '' @ proxmoxShellQuote (vf_ImportedDiskPath c)) b])"
    unfolding attached_and_staged_file_removed_def using 2(2) by blast
  moreover have "xs_log (cleanupNodeFile env (vf_ImportedDiskPath c) s1) =
      xs_log s0 @ l1 @ evs @ l2 @ [PveSsh (''rm -f '' @ proxmoxShellQuote (vf_ImportedDiskPath c)) b]" using 1 2 3 by simp
  ultimately show "\<exists>l. xs_log (cleanupNodeFile env (vf_ImportedDiskPath c) s1) = xs_log s0 @ l \<and> attached_and_staged_file_removed env c l"
    by blast
qed

text \<open>
  C12. Creating a machine from an imported disk is all or nothing once its shell exists. When it succeeds, the staged
  disk was imported and set as the boot disk by remote commands that succeeded, nothing was deleted, and the staged
  file was removed last. When it fails, either no remote command was run and nothing was deleted (the create of the
  shell or the wait for it failed), or the provider ended by sending the purging destroy request for the shell, and no
  command but \<^verbatim>\<open>qm\<close> was run, so that the staged file, which a retry needs, is still there.
\<close>

theorem imported_disk_attached_or_rolled_back:
  assumes "createFromImportedDisk env req c node s = (s', r)" and "vf_ImportedDiskPath c \<noteq> ''''"
  shows "\<exists>l. xs_log s' = xs_log s @ l \<and>
           (case r of
              Inr resp \<Rightarrow> pr_Id resp = show_int (vf_VMID c) \<and> attached_and_staged_file_removed env c l
            | Inl e \<Rightarrow> list_all over_http l \<or> rolled_back node (vf_VMID c) l)"
proof (cases "xe_has_ssh env")
  case ssh: True
  let ?create = "CreateVM env node (c\<lparr>vf_Template := '''', vf_Clone := ''''\<rparr>) s"
  obtain s1 a where cr: "?create = (s1, a)" by (cases ?create)
  note e1 = shell_create.appends [OF cr]
  show ?thesis
  proof (cases a)
    case (Inl e)
    then show ?thesis using assms ssh cr e1 by (auto simp: createFromImportedDisk_def and_then_def extends_def)
  next
    case (Inr task)
    obtain s2 b where w: "pve_WaitForTask env node task s1 = (s2, b)" by (cases "pve_WaitForTask env node task s1")
    have e2: "extends over_http s s2" using extends_trans [OF e1 waiting.appends [OF w]] .
    show ?thesis
    proof (cases b)
      case (Inl e)
      then show ?thesis using assms ssh cr Inr w e2 by (auto simp: createFromImportedDisk_def and_then_def extends_def)
    next
      case b: (Inr u)
      obtain s3 d where at: "attach_imported_disk env req c node (import_storage env c) (imported_disk_format c) s2 = (s3, d)"
        by (cases "attach_imported_disk env req c node (import_storage env c) (imported_disk_format c) s2")
      note steps = import_into_shell [OF at e2 ssh assms(2)]
      have "(s', r) = (case (s3, d) of
          (s', Inl e) \<Rightarrow> (delete_shell env node (vf_VMID c) s', Inl e)
        | (s', Inr _) \<Rightarrow> (cleanupNodeFile env (vf_ImportedDiskPath c) s', Inr \<lparr>pr_Id = show_int (vf_VMID c), pr_Task = None\<rparr>))"
        using assms(1) ssh cr Inr w b at by (simp add: createFromImportedDisk_def and_then_def imported_disk_format_def)
      then show ?thesis using steps by (cases d) auto
    qed
  qed
qed (use assms in \<open>auto simp: createFromImportedDisk_def\<close>)

text \<open>Both ways are taken: with every remote command succeeding, and with \<^verbatim>\<open>qm set\<close> failing.\<close>

definition imported_config :: vm_config where
  "imported_config = (empty_vm_config 105 ''vm'')\<lparr>vf_ImportedDiskPath := ''/var/tmp/disk.qcow2''\<rparr>"

definition failing_set :: "nat \<Rightarrow> string \<Rightarrow> (sdk_error \<times> string) + (string \<times> string)" where
  "failing_set n cmd = (if starts_with ''qm set'' cmd then Inl (Opaque ''exit status 2'', ''busy'') else Inr ('''', ''''))"

theorem imported_disk_attached_or_rolled_back_witness:
  "let run = (\<lambda>ssh. createFromImportedDisk (demo_env (\<lambda>t. None) ssh) (named_request '''') imported_config ''pve'' fresh_state);
       good = run (\<lambda>n c. Inr ('''', '''')); bad = run failing_set in
   \<not> isl (snd good) \<and> attached_and_staged_file_removed (demo_env (\<lambda>t. None) (\<lambda>n c. Inr ('''', ''''))) imported_config (xs_log (fst good)) \<and>
   isl (snd bad) \<and> rolled_back ''pve'' 105 (xs_log (fst bad))"
proof -
  define run where "run = (\<lambda>ssh. createFromImportedDisk (demo_env (\<lambda>t. None) ssh) (named_request '''') imported_config ''pve'' fresh_state)"
  have path: "vf_ImportedDiskPath imported_config \<noteq> ''''" "vf_VMID imported_config = 105" "xs_log fresh_state = []"
    by (simp_all add: imported_config_def empty_vm_config_def fresh_state_def)
  have all: "\<exists>l. xs_log (fst (run ssh)) = xs_log fresh_state @ l \<and>
      (case snd (run ssh) of
         Inr resp \<Rightarrow> pr_Id resp = show_int (vf_VMID imported_config) \<and> attached_and_staged_file_removed (demo_env (\<lambda>t. None) ssh) imported_config l
       | Inl e \<Rightarrow> list_all over_http l \<or> rolled_back ''pve'' (vf_VMID imported_config) l)" for ssh
    by (rule imported_disk_attached_or_rolled_back [OF _ path(1)]) (simp add: run_def)
  have good: "\<not> isl (snd (run (\<lambda>n c. Inr ('''', ''''))))" unfolding run_def by code_simp
  have bad: "isl (snd (run failing_set))" "\<not> list_all over_http (xs_log (fst (run failing_set)))" unfolding run_def by code_simp+
  show ?thesis unfolding Let_def run_def [symmetric]
    using all [of "\<lambda>n c. Inr ('''', '''')"] all [of failing_set] good bad path
    by (cases "snd (run (\<lambda>n c. Inr ('''', '''')))"; cases "snd (run failing_set)") auto
qed

section \<open>Templates prepared by name\<close>

definition image_fields :: "contract_image \<Rightarrow> (string \<times> json) list" where
  "image_fields i =
     [(''TemplateName'', JStr (ki_TemplateName i)), (''Path'', JStr (ki_Path i)), (''URL'', JStr (ki_URL i)),
      (''Format'', JStr (ki_Format i)), (''Checksum'', JStr (ki_Checksum i)), (''ChecksumType'', JStr (ki_ChecksumType i))]"

lemma parse_image_named:
  assumes "xe_json env text = Some (JObj (image_fields i))" "text \<noteq> ''''" "ki_TemplateName i \<noteq> ''''"
    "vf_ImportedDiskPath c = ''''"
  shows "vf_Template (parse_image env text c) = ki_TemplateName i" "vf_ImportedDiskPath (parse_image env text c) = ''''"
  using assms
  by (simp_all add: parse_image_def json_map_def parse_contract_image_def image_fields_def as_string_def obj_get_def
      string_or_empty_def Let_def)

lemma parse_class_image [simp]:
  "vf_ImportedDiskPath (parse_class env text c) = vf_ImportedDiskPath c"
  by (auto simp: parse_class_def split: option.splits)

lemma parse_networks_image [simp]:
  "vf_Template (parse_networks env text c) = vf_Template c"
  "vf_ImportedDiskPath (parse_networks env text c) = vf_ImportedDiskPath c"
  by (simp_all add: parse_networks_def Let_def)

lemma parse_user_data_image [simp]:
  "vf_Template (parse_user_data ud c) = vf_Template c"
  "vf_ImportedDiskPath (parse_user_data ud c) = vf_ImportedDiskPath c"
  by (simp_all add: parse_user_data_def Let_def)

lemma get_extends: "pve_request env ''GET'' p qs f s = (s', r) \<Longrightarrow> extends is_poll s s'"
  by (drule pve_request_log) (auto simp: extends_def is_poll_def)

lemma FindNode_extends: "FindNode env s = (s', r) \<Longrightarrow> extends is_poll s s'"
proof -
  assume f: "FindNode env s = (s', r)"
  obtain s1 a where g: "pve_request env ''GET'' ''/api2/json/nodes'' '''' None s = (s1, a)"
    by (cases "pve_request env ''GET'' ''/api2/json/nodes'' '''' None s")
  have "xs_log s' = xs_log s \<or> xs_log s' = xs_log s1"
    using f g by (auto simp: FindNode_def ListNodes_def split: list.splits sum.splits if_splits option.splits prod.splits)
  then show ?thesis using get_extends [OF g] by (auto simp: extends_def)
qed

lemma nextVMID_extends: "nextVMID env s = (s', i) \<Longrightarrow> extends is_poll s s'"
proof -
  assume n: "nextVMID env s = (s', i)"
  obtain s1 a where g: "pve_request env ''GET'' ''/api2/json/cluster/nextid'' '''' None s = (s1, a)"
    by (cases "pve_request env ''GET'' ''/api2/json/cluster/nextid'' '''' None s")
  have "s' = s1" using n g
    by (auto simp: nextVMID_def GetNextVMID_def split: sum.splits if_splits option.splits prod.splits json.splits)
  then show ?thesis using get_extends [OF g] by simp
qed

interpretation node_search: appending "FindNode env" is_poll for env
  by unfold_locales (rule FindNode_extends)

interpretation status_read: appending "GetVM env node vmid" is_poll for env node vmid
  by unfold_locales (drule GetVM_log, auto simp: extends_def)

lemma parseCreateRequest_extends:
  assumes "parseCreateRequest env req s = (s', r)"
  shows "extends is_poll s s'"
proof -
  obtain t i where n: "nextVMID env s = (t, i)" by (cases "nextVMID env s")
  have "extends is_poll t (fst (parseCreateRequest env req s))"
    by (simp add: parseCreateRequest_def n find_node_def Let_def and_then_assoc node_search.then_appends)
  then show ?thesis using extends_trans [OF nextVMID_extends [OF n]] assms by simp
qed

lemma named_template_refused:
  assumes "vf_Template c \<noteq> ''''" "atoi (vf_Template c) = None" "vf_ImportedDiskPath c = ''''"
  shows "create_parsed env req c node s = (s, Inl (NewInvalidSpec (''invalid template ID '' @ vf_Template c)))"
  using assms by (simp add: create_parsed_def create_from_template_def and_then_def)

lemma prepared_by_name:
  assumes "pve_ImagePrepare env req s = (s', Inr resp)"
    and "xg_TemplateID (parseProxmoxImageSource env (pmq_ImageJson req)) = None"
  shows "pmr_PreparedImageId resp \<noteq> ''''"
  using assms
  by (auto simp: pve_ImagePrepare_def Let_def and_then_Inr imagePrepareVerifyTemplate_def imagePrepareImport_def imagePrepareDone_def
      referencesExistingTemplate_def split: if_splits option.splits)


definition template_http :: "nat \<Rightarrow> http_request \<Rightarrow> sdk_error + http_response" where
  "template_http n q =
     (if hq_Path q = ''/api2/json/nodes/pve/qemu''
      then json_reply (JArr [JObj [(''name'', JStr ''debian''), (''template'', JNum 1)]]) else demo_http n q)"

definition template_env :: pve_env where
  "template_env =
     (demo_env (\<lambda>t. if t = ''image'' then Some (JObj (image_fields
        \<lparr>ki_TemplateName = ''debian'', ki_Path = '''', ki_URL = '''', ki_Format = '''', ki_Checksum = '''', ki_ChecksumType = ''''\<rparr>)) else None)
        (\<lambda>n c. Inr ('''', '''')))\<lparr>xe_http := template_http\<rparr>"


section \<open>Resizing\<close>

text \<open>
  A reconfiguration that enlarges a disk ends with the resize: the processors and the memory of the same request are
  not sent to the server.
\<close>

lemma resize_drops_sizing:
  assumes "disk_request d = Some sizeGB" "resize_of current sizeGB = Grows"
    and "ResizeDisk env node vmid ''scsi0'' sizeGB s = (s', Inr task)"
  shows "resize_disks env node vmid current (d # ds) s = (s', Inr (Some (task_ref task)))"
  using assms by (simp add: and_then_def)

end
