(* ===== verification/Spec2Isabelle.thy ===== *)
theory Spec2Isabelle
  imports RetryPolicy CircuitBreaker MigrationFindings VmFindings SnapshotProps CloneProps
    AdoptionProps Composition ResolverProps ProviderFlow SdkClient SdkMiddleware ClosedLoop PveProps
begin

text \<open>
  A verification development for virtrigaud, a Kubernetes operator that manages virtual machines on
  vSphere, libvirt and Proxmox. The manager process runs one reconciler per custom resource; each
  hypervisor is driven by a provider process of its own, which the manager deploys, dials over gRPC and
  talks to through the interface \<^verbatim>\<open>contracts.Provider\<close>. The development models the manager (its
  reconcilers, the transport to the providers, the resilience helpers in between, and the storage through
  which disks travel in a migration), the library provider processes are built with, and two providers: the
  mock, and Proxmox over the HTTP API of its server.

  \<^bold>\<open>How the parts interact.\<close> The Provider controller renders a Service and a Deployment for a Provider
  object and publishes the endpoint in its status. The resolver turns the object into a gRPC client with
  the TLS settings of the object and a circuit breaker of the shared registry. The VirtualMachine,
  VMSnapshot, VMClone, VMMigration and adoption controllers resolve a provider and issue its RPCs; the
  client passes each through the breaker and maps its status code to an error of the contract. A
  migration exports a disk from the source provider to a staging store (a claim mounted into both
  provider pods, s3 or nfs), imports it at the target and makes a VirtualMachine object for it, which the
  VirtualMachine controller then creates.

  \<^bold>\<open>Conventions.\<close> Definitions carry the names of the Go functions they translate; a suffix or a prefix
  (\<open>VM_\<close>, \<open>Snap_\<close>, \<open>Clone_\<close>, \<open>Prov_\<close>, \<open>Client_\<close>, \<open>sdk_\<close>, \<open>Mock_\<close>, \<open>pve_\<close>) tells functions of the same name apart. Structs are
  records, \<^verbatim>\<open>nil\<close> pointers are \<open>None\<close>, \<^verbatim>\<open>error\<close> values are the type \<open>go_error\<close> with its wrapping, and a
  fallible function returns \<open>'a result\<close>. Texts are byte strings. Integers are \<open>int\<close> with \<open>wrap64\<close> and
  \<open>wrap32\<close> written where the code can overflow; times and durations are nanoseconds. A reconcile is a
  function from an environment, which answers every read, write, RPC and clock reading, and a state with
  the log of effects, to the new state and the result. The environment numbers its answers, so stale
  reads, conflicts and failing writes are included in every theorem that does not exclude them. A mutex
  makes a method atomic, so concurrency is a sequence of steps.

  \<^bold>\<open>Theories.\<close> Paths are relative to \<^verbatim>\<open>src/\<close>.

  \<^item> \<open>Prelude\<close>: the parts of \<^verbatim>\<open>strings\<close> and \<^verbatim>\<open>strconv\<close> the sources use, 64-bit durations, reconcile results,
    generic lemmas. \<open>ProviderErrors\<close>: \<^verbatim>\<open>internal/providers/contracts/errors.go\<close>, gRPC codes, API status
    errors. \<open>Conditions\<close>: \<^verbatim>\<open>internal/k8s\<close>, \<^verbatim>\<open>internal/util/k8s\<close>; the locale \<open>condition_api\<close> is the
    contract of setting and reading conditions, interpreted for both implementations. \<open>Paths\<close>: lexical
    path cleaning.
  \<^item> \<open>CircuitBreaker\<close>, \<open>RetryPolicy\<close>: \<^verbatim>\<open>internal/resilience\<close>. A fresh breaker is open exactly after
    a run of FailureThreshold consecutive failures, an open one admits nothing before its timeout, recovers
    after enough successful trials, and the registry (locale \<open>keyed_pool\<close>) keeps providers apart; the
    retry helper runs its attempts in order and returns the last result.
  \<^item> \<open>StorageBackends\<close>, \<open>AddrPolicy\<close>, \<open>PvcStorage\<close>: \<^verbatim>\<open>internal/storage\<close>. Guards of backends and transfer
    modes (locale \<open>honest_backends\<close>), nfs URLs that stay under the export, the address policy against
    internal hosts, and the claim store over an explicit file system: paths are confined and what was
    uploaded is what is downloaded.
  \<^item> \<open>KubeObjects\<close>, \<open>CtlModel\<close>: the API objects and the messages of the provider contract; the
    environment and the log of the smaller controllers, and \<open>retry_on_conflict\<close>.
  \<^item> \<open>MigrationModel\<close>, \<open>MigrationStorage\<close>, \<open>MigrationPhases\<close>:
    \<^verbatim>\<open>internal/controller/vmmigration_controller.go\<close>, all phases and helpers. \<open>MigrationEffects\<close> and
    \<open>MigrationSpec\<close> state and prove which effects one reconcile may have (\<open>legal\<close>); \<open>MigrationOnce\<close> proves
    the guard of the long operations (locale \<open>long_op_guard\<close>, for export and import); \<open>MigrationProps\<close>,
    \<open>MigrationFlow\<close> and \<open>MigrationFindings\<close> hold the properties: disk RPCs are issued once, phases follow the
    documented graph, validation is not skipped, deletions are licensed, retries are bounded, deletion
    always ends; data is handed on from phase to phase; and what does not hold.
  \<^item> \<open>VmController\<close>, \<open>VmRequest\<close>, \<open>ImagePrepare\<close>, \<open>CloudInit\<close>:
    \<^verbatim>\<open>internal/controller/virtualmachine_controller.go\<close>, \<^verbatim>\<open>virtualmachine_image_prepare.go\<close>,
    \<^verbatim>\<open>cloudinit.go\<close>. \<open>VmProps\<close> relates a reconcile to the specification \<open>licensed\<close> of the one RPC it may issue;
    \<open>VmFindings\<close> holds what contradicts the comments.
  \<^item> \<open>VmSnapshot\<close>, \<open>VmClone\<close>, \<open>VmAdoption\<close> with \<open>SnapshotProps\<close>, \<open>CloneProps\<close>, \<open>AdoptionProps\<close>: the
    controllers of these names, their life cycles and, for the clone, whole histories of reconciles.
  \<^item> \<open>GrpcClient\<close>, \<open>Resolver\<close>: \<^verbatim>\<open>internal/transport/grpc/client.go\<close> and
    \<^verbatim>\<open>internal/runtime/remote/resolver.go\<close>. \<open>GrpcProps\<close>: which answers count as an outage and when calls stop
    reaching the provider; what becomes of status codes in a deletion and of failed tasks. \<open>ResolverProps\<close>:
    over any history of lookups (the inductive \<open>resolver_run\<close>) a client handed out was built with the TLS
    settings of its object and validated in the same call; and what an open breaker does to a deletion.
  \<^item> \<open>ProviderCtl\<close>, \<open>SdkTls\<close>: \<^verbatim>\<open>internal/controller/provider_controller.go\<close> and the provider side of TLS,
    \<^verbatim>\<open>sdk/provider/server/tlsconfig.go\<close>. \<open>ProviderProps\<close>: a reconcile against the specification \<open>permitted\<close> of
    its writes, well-formed pod templates, the availability condition. \<open>ProviderTls\<close>: the pod and the
    manager agree on the transport, and the published endpoint is the pod. \<open>ProviderFlow\<close>: migration claims are
    mounted when labelled and not otherwise, and capabilities reach the gates of the migration controller.
  \<^item> \<open>Composition\<close>: the machine a migration makes is created from the imported disk.
  \<^item> \<open>SdkErrors\<close>, \<open>SdkClient\<close>, \<open>SdkMiddleware\<close>, \<open>SdkCapabilities\<close>: \<^verbatim>\<open>sdk/provider\<close>. Errors are the type \<open>sdk_error\<close>,
    in which a nil pointer inside an interface is a value of its own and a call that dereferences it is
    \<open>Panics\<close>: what an error keeps across the wire, how the manager classifies it, and what the client makes
    of a success. Interceptors are transformers of handlers; the chain a provider binary builds serves only
    admitted peers.
  \<^item> \<open>MockProvider\<close>, \<open>MockProps\<close>: \<^verbatim>\<open>internal/providers/mock/provider.go\<close> over a store of machine and task objects, with
    the goroutines that have not run yet as part of the state; every task ends. \<open>ClosedLoop\<close> puts the
    VirtualMachine controller, the gRPC client and the mock provider together: any schedule with enough
    turns makes a machine ready, no schedule makes a second one, and a deletion ends.
  \<^item> \<open>PveClient\<close>, \<open>PveProvider\<close>, \<open>PveProps\<close>: \<^verbatim>\<open>internal/providers/proxmox\<close>, the API client with its requests and task
    polling, and the RPCs on top of it, with a log of all requests and remote commands. The properties
    describe that log: what a successful delete has seen, how a create from an imported disk ends; and what
    becomes of networks and of templates prepared by name.

  \<^bold>\<open>Parameters.\<close> Code outside the repository is an argument: JSON and regular expressions, the
  certificate library and dialling, the generated gRPC stub (\<open>provider_stub\<close>), the hash, \<^verbatim>\<open>os\<close> calls, name
  resolution, \<^verbatim>\<open>meta.SetStatusCondition\<close>, the kubelet's view of a pod (\<open>pod_sees\<close>), the Proxmox server and the commands run on
  its nodes (\<open>xe_http\<close>, \<open>xe_ssh\<close>), clocks and random numbers. A theorem that relies on
  their behaviour says so in a hypothesis, and its witness instantiates them.

  \<^bold>\<open>Bounds.\<close> Loops are structural recursions or have a termination proof. \<open>retry_on_conflict\<close> counts down
  the steps of \<^verbatim>\<open>retry.DefaultRetry\<close>, which are a number of the environment, so the theorems hold for every
  such number; \<open>ev_polls\<close> is the number of polls the bounded wait of the migration controller makes
  before its deadline, and \<open>xe_ticks\<close> the number of ticks before the task timeout of the Proxmox client.
  \<open>wait_loop\<close> of the SDK client has no bound in the source and is a \<open>partial_function\<close>; that it returns is proved.
  The copy loop of the claim store recurses on the chunks the reader returns. No
  result is out of fuel: the last value of each is the error the code returns.

  \<^bold>\<open>Not modelled.\<close> The libvirt and vSphere providers, whose code drives virsh, ssh and govmomi; of the Proxmox provider
  GetDiskInfo, ExportDisk and ImportDisk with the transfer of disks over ssh, s3 and nfs and the construction of
  ssh command lines; \<^verbatim>\<open>internal/diskutil\<close>; the s3 client, which is calls of the AWS SDK; the stub controllers of
  VMClass, VMImage, VMNetworkAttachment and VMSet; the listening, registration and signal handling of the SDK
  server; metrics, logging and tracing; command lines, start-up, watches and generated code; the garbage
  collection of owned objects and the scheduling of reconciles, which are Kubernetes'.
\<close>

end
